(* ===== verification/XdsPrelude.thy ===== *)
theory XdsPrelude
  imports Main "HOL-Library.AList" "HOL-Library.Word" "HOL-Library.Multiset"
begin

text \<open>
  Vocabulary shared by every component: Go maps and Go sets with their iteration order,
  Go errors as values, 64-bit counters, channels.

  A Go map is an association list with one entry per key.  The order of the list is the order
  in which a \<open>for range\<close> loop visits the entries.  Go leaves that order unspecified: no theorem
  of the development assumes anything of it, every statement is for all lists, so it holds for
  every order the runtime may choose.  A Go set (\<open>map[K]struct{}\<close>) is the list of its members,
  without duplicates.  The nil map is told apart from the empty one by \<^typ>\<open>'a option\<close> where
  the code compares with nil.
\<close>

section \<open>Named collections\<close>

named_theorems wf_simps \<open>well-formedness of maps and sets, as rewrite rules\<close>
named_theorems wf_intros \<open>operations that keep maps and sets well formed\<close>

section \<open>Basic types\<close>

type_synonym u64 = "64 word"
type_synonym int64 = "64 word"
type_synonym byte = "8 word"
type_synonym bytes = "byte list"
type_synonym chan = nat
type_synonym ('k, 'v) gomap = "('k \<times> 'v) list"
type_synonym 'k goset = "'k list"

text \<open>
  The errors the code returns, one constructor per message, and the run-time panic of a nil
  dereference.  A function that returns \<open>(value, error)\<close> has result type \<^typ>\<open>'e + 'a\<close>; one
  that returns \<open>error\<close> only has \<^typ>\<open>'e option\<close>, with \<open>None\<close> for nil.
\<close>

datatype go_error =
    NilResource
  | NotImplemented
  | UnknownResourceType string
  | UnmappedResponseType
  | MarshalFailed
  | EmptyHash
  | NilSnapshot
  | LengthMismatch string
  | NotListed string
  | InconsistentReference string go_error
  | NilResponse
  | NoSnapshotFound string
  | MissingSnapshot string
  | ContextCanceled
  | SkipFetch
  | MissingResponse
  | EmptyRequest
  | TypeURLRequired
  | WatchFailed
  | CallbackFailed
  | SendFailed
  | SyntaxError
  | RangeError
  | PrefixMismatch
  | PanicNilDereference
  | PanicNilMap
  | PanicClosedChannel

section \<open>Go maps\<close>

definition wf_map :: "('k, 'v) gomap \<Rightarrow> bool" where
  "wf_map m \<longleftrightarrow> distinct (map fst m)"

abbreviation mget :: "('k, 'v) gomap \<Rightarrow> 'k \<Rightarrow> 'v option" where
  "mget m k \<equiv> map_of m k"

abbreviation mput :: "'k \<Rightarrow> 'v \<Rightarrow> ('k, 'v) gomap \<Rightarrow> ('k, 'v) gomap" where
  "mput k v m \<equiv> AList.update k v m"

abbreviation mdel :: "'k \<Rightarrow> ('k, 'v) gomap \<Rightarrow> ('k, 'v) gomap" where
  "mdel k m \<equiv> AList.delete k m"

abbreviation mkeys :: "('k, 'v) gomap \<Rightarrow> 'k list" where
  "mkeys m \<equiv> map fst m"

text \<open>The one-value form \<open>m[k]\<close>: the zero value \<open>d\<close> where the key is missing.\<close>

definition mget_or :: "'v \<Rightarrow> ('k, 'v) gomap \<Rightarrow> 'k \<Rightarrow> 'v" where
  "mget_or d m k = (case mget m k of None \<Rightarrow> d | Some v \<Rightarrow> v)"

lemma mget_or_Some [simp]: "mget m k = Some v \<Longrightarrow> mget_or d m k = v"
  by (simp add: mget_or_def)

lemma mget_or_None [simp]: "mget m k = None \<Longrightarrow> mget_or d m k = d"
  by (simp add: mget_or_def)

lemma mget_or_non_default: "mget_or d m k \<noteq> d \<Longrightarrow> \<exists>v. mget m k = Some v"
  by (cases "mget m k") simp_all

lemma mget_put: "mget (mput k v m) = (mget m)(k \<mapsto> v)"
  by (rule update_conv')

lemma mget_put_same [simp]: "mget (mput k v m) k = Some v"
  by (simp add: mget_put)

lemma mget_put_other [simp]: "k' \<noteq> k \<Longrightarrow> mget (mput k v m) k' = mget m k'"
  by (simp add: mget_put)

lemma mget_del: "mget (mdel k m) = (mget m)(k := None)"
  by (rule delete_conv')

lemma mget_del_same [simp]: "mget (mdel k m) k = None"
  by (simp add: mget_del)

lemma mget_del_other [simp]: "k' \<noteq> k \<Longrightarrow> mget (mdel k m) k' = mget m k'"
  by (simp add: mget_del)

lemma set_mkeys: "set (mkeys m) = dom (mget m)"
  by (simp add: dom_map_of_conv_image_fst)

lemma mget_in_set: "mget m k = Some v \<Longrightarrow> (k, v) \<in> set m"
  by (rule map_of_SomeD)

lemma mget_eq_Some_iff [wf_simps]: "wf_map m \<Longrightarrow> mget m k = Some v \<longleftrightarrow> (k, v) \<in> set m"
  by (simp add: wf_map_def)

lemma mget_eq_None_iff: "mget m k = None \<longleftrightarrow> k \<notin> fst ` set m"
  by (rule map_of_eq_None_iff)

lemma wf_map_Nil [simp, wf_intros]: "wf_map []"
  by (simp add: wf_map_def)

lemma wf_map_Cons [simp]: "wf_map ((k, v) # m) \<longleftrightarrow> k \<notin> fst ` set m \<and> wf_map m"
  by (simp add: wf_map_def)

lemma wf_map_put [simp, wf_intros]: "wf_map m \<Longrightarrow> wf_map (mput k v m)"
  by (simp add: wf_map_def distinct_update)

lemma wf_map_del [simp, wf_intros]: "wf_map m \<Longrightarrow> wf_map (mdel k m)"
  by (simp add: wf_map_def distinct_delete)

lemma wf_map_filter [simp, wf_intros]: "wf_map m \<Longrightarrow> wf_map (filter P m)"
  by (simp add: wf_map_def distinct_map_filter)

lemma wf_map_map_snd [simp]: "wf_map (map (\<lambda>(k, v). (k, f k v)) m) \<longleftrightarrow> wf_map m"
  by (simp add: wf_map_def comp_def case_prod_unfold)

lemma length_wf_map: "wf_map m \<Longrightarrow> length m = card (dom (mget m))"
  by (metis distinct_card length_map set_mkeys wf_map_def)

lemma mget_map_snd: "mget (map (\<lambda>(k, v). (k, f k v)) m) k = map_option (f k) (mget m k)"
  by (induction m) auto

lemma set_mdel: "set (mdel k m) = {(k', v) \<in> set m. k' \<noteq> k}"
  by (auto simp: AList.delete_eq)

lemma set_mput: "set (mput k v m) \<subseteq> insert (k, v) (set m)"
  by (induction m) auto

lemma mdel_absent [simp]: "mget m k = None \<Longrightarrow> mdel k m = m"
  by (force simp: AList.delete_eq mget_eq_None_iff intro!: filter_True)

lemma mget_fold_put:
  "mget (fold (\<lambda>k. mput k (f k)) ks m) k = (if k \<in> set ks then Some (f k) else mget m k)"
  by (induction ks arbitrary: m) (auto simp: mget_put)

lemma wf_fold_put [wf_intros]: "wf_map m \<Longrightarrow> wf_map (fold (\<lambda>k. mput k (f k)) ks m)"
  by (induction ks arbitrary: m) auto

lemma mget_fold_put_pairs:
  "wf_map kvs \<Longrightarrow> mget (fold (\<lambda>(k, v). mput k (f k v)) kvs m) k
     = (case mget kvs k of None \<Rightarrow> mget m k | Some v \<Rightarrow> Some (f k v))"
proof (induction kvs arbitrary: m)
  case Nil
  then show ?case by simp
next
  case (Cons kv kvs)
  obtain k' v' where kv: "kv = (k', v')" by (cases kv)
  from Cons.prems kv have "wf_map kvs" and "mget kvs k' = None"
    by (simp_all add: mget_eq_None_iff)
  with Cons.IH kv show ?case by (auto simp: mget_put split: option.splits)
qed

lemma wf_fold_put_pairs [wf_intros]:
  "wf_map m \<Longrightarrow> wf_map (fold (\<lambda>(k, v). mput k (f k v)) kvs m)"
  by (induction kvs arbitrary: m) auto

lemma mget_fold_del:
  "mget (fold mdel ks m) k = (if k \<in> set ks then None else mget m k)"
  by (induction ks arbitrary: m) (auto simp: mget_del)

lemma wf_fold_del [wf_intros]: "wf_map m \<Longrightarrow> wf_map (fold mdel ks m)"
  by (induction ks arbitrary: m) auto

lemma fold_mdel_filter:
  "fold mdel ks m = filter (\<lambda>(k, v). k \<notin> set ks) m"
  by (induction ks arbitrary: m) (auto simp: AList.delete_eq intro!: filter_cong)

lemma fold_mdel_own:
  assumes "wf_map m"
  shows "fold mdel (map fst (filter (\<lambda>(k, v). P v) m)) m = filter (\<lambda>(k, v). \<not> P v) m"
  unfolding fold_mdel_filter
  by (rule filter_cong [OF refl])
    (use assms in \<open>force simp: wf_map_def image_iff dest: eq_key_imp_eq_value\<close>)

section \<open>Go sets\<close>

abbreviation wf_set :: "'k goset \<Rightarrow> bool" where
  "wf_set s \<equiv> distinct s"

abbreviation sadd :: "'k \<Rightarrow> 'k goset \<Rightarrow> 'k goset" where
  "sadd \<equiv> List.insert"

abbreviation sdel :: "'k \<Rightarrow> 'k goset \<Rightarrow> 'k goset" where
  "sdel \<equiv> removeAll"

lemma sdel_sadd [simp]: "sdel x (sadd x xs) = sdel x xs"
  by (simp add: List.insert_def)

lemma set_fold_sadd [simp]: "set (fold sadd xs s) = set xs \<union> set s"
  by (induction xs arbitrary: s) auto

lemma distinct_fold_sadd [simp, wf_intros]: "wf_set s \<Longrightarrow> wf_set (fold sadd xs s)"
  by (induction xs arbitrary: s) auto

section \<open>Loops that may stop early\<close>

text \<open>
  A Go loop whose body may return an error: the state reached so far is kept, the error ends
  the loop.  \<open>foldM_err\<close> is that loop; the state holds whatever the body mutates.
\<close>

fun foldM_err :: "('a \<Rightarrow> 's \<Rightarrow> 's \<times> 'e option) \<Rightarrow> 'a list \<Rightarrow> 's \<Rightarrow> 's \<times> 'e option" where
  "foldM_err f [] s = (s, None)"
| "foldM_err f (x # xs) s =
     (case f x s of
        (s', Some e) \<Rightarrow> (s', Some e)
      | (s', None) \<Rightarrow> foldM_err f xs s')"

lemma foldM_err_ok:
  "(\<And>x s. x \<in> set xs \<Longrightarrow> snd (f x s) = None) \<Longrightarrow>
   foldM_err f xs s = (fold (\<lambda>x s. fst (f x s)) xs s, None)"
proof (induction xs arbitrary: s)
  case Nil
  then show ?case by simp
next
  case (Cons x xs)
  from Cons.prems [of x s] obtain s' where "f x s = (s', None)"
    by (cases "f x s") auto
  with Cons show ?case by simp
qed

lemma foldM_err_fails:
  "x \<in> set xs \<Longrightarrow> (\<And>s. snd (f x s) \<noteq> None) \<Longrightarrow> snd (foldM_err f xs s) \<noteq> None"
proof (induction xs arbitrary: s)
  case (Cons y ys)
  obtain s' e where f: "f y s = (s', e)" by (cases "f y s")
  show ?case
  proof (cases "y = x")
    case True
    with Cons.prems(2) [of s] f show ?thesis by auto
  next
    case False
    with Cons f show ?thesis by (cases e) auto
  qed
qed simp

lemma foldM_err_invariant:
  assumes "P s" and "\<And>x s. x \<in> set xs \<Longrightarrow> P s \<Longrightarrow> P (fst (f x s))"
  shows "P (fst (foldM_err f xs s))"
  using assms
proof (induction xs arbitrary: s)
  case Nil
  then show ?case by simp
next
  case (Cons x xs)
  obtain s' e where f: "f x s = (s', e)" by (cases "f x s")
  from Cons.prems(2) [of x s] Cons.prems(1) f have "P s'" by simp
  with Cons f show ?case by (cases e) auto
qed

lemma fold_invariant:
  assumes "P s" and "\<And>x s. x \<in> set xs \<Longrightarrow> P s \<Longrightarrow> P (f x s)"
  shows "P (fold f xs s)"
  using assms by (induction xs arbitrary: s) auto

section \<open>Reordering\<close>

text \<open>
  Two lists with the same entries represent the same Go map: the runtime may visit the entries
  in another order at any time.
\<close>

abbreviation same_entries :: "'a list \<Rightarrow> 'a list \<Rightarrow> bool" where
  "same_entries a b \<equiv> mset a = mset b"

lemma wf_map_same_entries: "same_entries a b \<Longrightarrow> wf_map a \<longleftrightarrow> wf_map b"
  unfolding wf_map_def by (metis mset_eq_imp_distinct_iff mset_map)

lemma mget_same_entries: "same_entries a b \<Longrightarrow> wf_map a \<Longrightarrow> mget a = mget b"
proof (rule ext)
  fix k
  assume same: "same_entries a b" and wf: "wf_map a"
  with wf_map_same_entries have wf': "wf_map b" by blast
  have "mget a k = Some v \<longleftrightarrow> mget b k = Some v" for v
    using mget_eq_Some_iff [OF wf] mget_eq_Some_iff [OF wf'] mset_eq_setD [OF same] by metis
  then show "mget a k = mget b k" by (metis not_None_eq)
qed

end
