(* ===== verification/StreamState.thy ===== *)
theory StreamState
  imports XdsPrelude
begin

text \<open>
  The per-type state of a stream (\<open>pkg/server/stream/v3/stream.go\<close>): what the client subscribes
  to, which versions it was sent last, which names it is known to hold.  The setters of the code
  write through a pointer; here they return the new state.
\<close>

record StreamState =
  ss_wildcard :: bool
  ss_subscribedResourceNames :: "string goset"
  ss_resourceVersions :: "(string, string) gomap"
  ss_knownResourceNames :: "(string, string goset) gomap"
  ss_first :: bool
  ss_ordered :: bool

definition NewStreamState :: "bool \<Rightarrow> (string, string) gomap option \<Rightarrow> StreamState" where
  "NewStreamState wildcard initialResourceVersions =
     \<lparr>ss_wildcard = wildcard,
      ss_subscribedResourceNames = [],
      ss_resourceVersions = (case initialResourceVersions of None \<Rightarrow> [] | Some m \<Rightarrow> m),
      ss_knownResourceNames = [],
      ss_first = True,
      ss_ordered = False\<rparr>"

definition GetSubscribedResourceNames :: "StreamState \<Rightarrow> string goset" where
  "GetSubscribedResourceNames s = ss_subscribedResourceNames s"

definition SetSubscribedResourceNames :: "string goset \<Rightarrow> StreamState \<Rightarrow> StreamState" where
  "SetSubscribedResourceNames names s = s\<lparr>ss_subscribedResourceNames := names\<rparr>"

definition SetWildcard :: "bool \<Rightarrow> StreamState \<Rightarrow> StreamState" where
  "SetWildcard w s = s\<lparr>ss_wildcard := w\<rparr>"

definition GetResourceVersions :: "StreamState \<Rightarrow> (string, string) gomap" where
  "GetResourceVersions s = ss_resourceVersions s"

definition SetResourceVersions :: "(string, string) gomap \<Rightarrow> StreamState \<Rightarrow> StreamState" where
  "SetResourceVersions versions s = s\<lparr>ss_first := False, ss_resourceVersions := versions\<rparr>"

definition IsFirst :: "StreamState \<Rightarrow> bool" where
  "IsFirst s = ss_first s"

definition IsWildcard :: "StreamState \<Rightarrow> bool" where
  "IsWildcard s = ss_wildcard s"

definition WatchesResources :: "string goset \<Rightarrow> StreamState \<Rightarrow> bool" where
  "WatchesResources resourceNames s =
     (if IsWildcard s then True
      else list_ex (\<lambda>n. n \<in> set (ss_subscribedResourceNames s)) resourceNames)"

definition GetKnownResourceNames :: "string \<Rightarrow> StreamState \<Rightarrow> string goset" where
  "GetKnownResourceNames url s = mget_or [] (ss_knownResourceNames s) url"

definition SetKnownResourceNames :: "string \<Rightarrow> string goset \<Rightarrow> StreamState \<Rightarrow> StreamState" where
  "SetKnownResourceNames url names s =
     s\<lparr>ss_knownResourceNames := mput url names (ss_knownResourceNames s)\<rparr>"

definition SetKnownResourceNamesAsList :: "string \<Rightarrow> string list \<Rightarrow> StreamState \<Rightarrow> StreamState" where
  "SetKnownResourceNamesAsList url names s =
     s\<lparr>ss_knownResourceNames := mput url (fold sadd names []) (ss_knownResourceNames s)\<rparr>"

lemmas stream_state_defs = GetSubscribedResourceNames_def SetSubscribedResourceNames_def
  SetWildcard_def GetResourceVersions_def SetResourceVersions_def IsFirst_def IsWildcard_def
  GetKnownResourceNames_def SetKnownResourceNames_def SetKnownResourceNamesAsList_def

text \<open>The sets and maps of a stream state are well formed.\<close>

definition wf_stream_state :: "StreamState \<Rightarrow> bool" where
  "wf_stream_state s \<longleftrightarrow>
     wf_set (ss_subscribedResourceNames s) \<and> wf_map (ss_resourceVersions s) \<and>
     wf_map (ss_knownResourceNames s)"

lemma WatchesResources_iff:
  "WatchesResources names s \<longleftrightarrow>
     IsWildcard s \<or> set names \<inter> set (ss_subscribedResourceNames s) \<noteq> {}"
  by (auto simp: WatchesResources_def list_ex_iff)

lemma wf_NewStreamState [wf_intros]:
  "(\<And>m. init = Some m \<Longrightarrow> wf_map m) \<Longrightarrow> wf_stream_state (NewStreamState w init)"
  by (simp add: wf_stream_state_def NewStreamState_def split: option.splits)

lemma wf_SetWildcard [wf_intros]: "wf_stream_state s \<Longrightarrow> wf_stream_state (SetWildcard w s)"
  by (simp add: wf_stream_state_def SetWildcard_def)

lemma wf_SetResourceVersions [wf_intros]:
  "wf_stream_state s \<Longrightarrow> wf_map m \<Longrightarrow> wf_stream_state (SetResourceVersions m s)"
  by (simp add: wf_stream_state_def SetResourceVersions_def)

lemma wf_SetKnownResourceNames [wf_intros]:
  "wf_stream_state s \<Longrightarrow> wf_stream_state (SetKnownResourceNames u ns s)"
  by (simp add: wf_stream_state_def SetKnownResourceNames_def)

lemma GetKnown_SetKnown [simp]:
  "GetKnownResourceNames u (SetKnownResourceNames u' ns s) =
     (if u = u' then ns else GetKnownResourceNames u s)"
  by (simp add: stream_state_defs mget_or_def mget_put)

lemma set_GetKnown_SetKnownAsList:
  "set (GetKnownResourceNames u (SetKnownResourceNamesAsList u ns s)) = set ns"
  by (simp add: stream_state_defs)

end
