(* ===== verification/Strconv.thy ===== *)
theory Strconv
  imports XdsPrelude
begin

text \<open>
  The parts of Go's standard library the version strings and resource hashes rest on:
  \<open>strconv.FormatUint(v, 10)\<close>, \<open>strconv.FormatInt(v, 10)\<close>, \<open>strconv.ParseUint(s, 0, 64)\<close> with
  its base prefixes, underscores and range check, \<open>strings.HasPrefix\<close> and
  \<open>hex.EncodeToString\<close>.  The main fact is the round trip: parsing a formatted 64-bit counter
  gives the counter back, although \<open>ParseUint\<close> is called with base 0 and would read a leading
  zero as an octal prefix.
\<close>

section \<open>Formatting\<close>

definition digit_char :: "nat \<Rightarrow> char" where
  "digit_char d = char_of (48 + d)"

fun fmt_nat :: "nat \<Rightarrow> string" where
  "fmt_nat n = (if n < 10 then [digit_char n] else fmt_nat (n div 10) @ [digit_char (n mod 10)])"

declare fmt_nat.simps [simp del]

definition FormatUint :: "u64 \<Rightarrow> string" where
  "FormatUint v = fmt_nat (unat v)"

definition FormatInt :: "int64 \<Rightarrow> string" where
  "FormatInt v = (if sint v < 0 then CHR ''-'' # fmt_nat (nat (- sint v)) else fmt_nat (nat (sint v)))"

definition hex_digit :: "nat \<Rightarrow> char" where
  "hex_digit d = (if d < 10 then char_of (48 + d) else char_of (87 + d))"

definition hex_encode :: "bytes \<Rightarrow> string" where
  "hex_encode bs = concat (map (\<lambda>b. [hex_digit (unat b div 16), hex_digit (unat b mod 16)]) bs)"

definition HasPrefix :: "string \<Rightarrow> string \<Rightarrow> bool" where
  "HasPrefix s p \<longleftrightarrow> take (length p) s = p"

section \<open>Parsing\<close>

definition code :: "char \<Rightarrow> nat" where
  "code c = of_char c"

definition lower :: "nat \<Rightarrow> nat" where
  "lower n = (if n div 32 mod 2 = 0 then n + 32 else n)"

definition max_uint64 :: nat where
  "max_uint64 = 2 ^ 64 - 1"

definition digit_val :: "char \<Rightarrow> nat option" where
  "digit_val c =
     (let n = code c
      in if 48 \<le> n \<and> n \<le> 57 then Some (n - 48)
         else if 97 \<le> lower n \<and> lower n \<le> 122 then Some (lower n - 97 + 10)
         else None)"

text \<open>
  The loop over the digits: the accumulator, and whether an underscore was seen.  Go checks the
  range by comparing with \<open>cutoff\<close> and by detecting wrap-around; over \<^typ>\<open>nat\<close> both checks
  together say that the next value exceeds \<open>max_uint64\<close>.
\<close>

fun parse_digits :: "nat \<Rightarrow> string \<Rightarrow> nat \<Rightarrow> bool \<Rightarrow> go_error + nat \<times> bool" where
  "parse_digits base [] n u = Inr (n, u)"
| "parse_digits base (c # cs) n u =
     (if c = CHR ''_'' then parse_digits base cs n True
      else case digit_val c of
          None \<Rightarrow> Inl SyntaxError
        | Some d \<Rightarrow>
            if base \<le> d then Inl SyntaxError
            else if n * base + d > max_uint64 then Inl RangeError
            else parse_digits base cs (n * base + d) u)"

fun underscore_loop :: "bool \<Rightarrow> string \<Rightarrow> char \<Rightarrow> bool" where
  "underscore_loop hex [] saw = (saw \<noteq> CHR ''_'')"
| "underscore_loop hex (c # cs) saw =
     (let n = code c in
      if 48 \<le> n \<and> n \<le> 57 \<or> hex \<and> 97 \<le> lower n \<and> lower n \<le> 102
      then underscore_loop hex cs (CHR ''0'')
      else if c = CHR ''_''
      then (if saw \<noteq> CHR ''0'' then False else underscore_loop hex cs (CHR ''_''))
      else if saw = CHR ''_'' then False
      else underscore_loop hex cs (CHR ''!''))"

text \<open>A prefix \<open>0b\<close>, \<open>0o\<close> or \<open>0x\<close>, in either case.\<close>

fun base_letter :: "string \<Rightarrow> nat option" where
  "base_letter (z # l # cs) =
     (if z = CHR ''0'' \<and> lower (code l) \<in> {98, 111, 120} then Some (lower (code l)) else None)"
| "base_letter _ = None"

definition underscoreOK :: "string \<Rightarrow> bool" where
  "underscoreOK s0 =
     (let s = (case s0 of c # cs \<Rightarrow> if c = CHR ''-'' \<or> c = CHR ''+'' then cs else s0 | [] \<Rightarrow> s0)
      in case base_letter s of
           Some l \<Rightarrow> underscore_loop (l = 120) (drop 2 s) (CHR ''0'')
         | None \<Rightarrow> underscore_loop False s (CHR ''^''))"

definition split_base :: "string \<Rightarrow> nat \<times> string" where
  "split_base s =
     (case s of
        c # cs \<Rightarrow>
          if c = CHR ''0'' then
            (if length s \<ge> 3 \<and> base_letter s = Some 98 then (2, drop 2 s)
             else if length s \<ge> 3 \<and> base_letter s = Some 111 then (8, drop 2 s)
             else if length s \<ge> 3 \<and> base_letter s = Some 120 then (16, drop 2 s)
             else (8, cs))
          else (10, s)
      | [] \<Rightarrow> (10, s))"

definition ParseUint :: "string \<Rightarrow> go_error + u64" where
  "ParseUint s =
     (if s = [] then Inl SyntaxError
      else let (base, ds) = split_base s
           in case parse_digits base ds 0 False of
                Inl e \<Rightarrow> Inl e
              | Inr (n, u) \<Rightarrow>
                  if u \<and> \<not> underscoreOK s then Inl SyntaxError else Inr (of_nat n))"

section \<open>Facts\<close>

lemma unat_u64_less: "unat (v :: u64) < 2 ^ 64"
  using unsigned_less [where ?'a = nat and ?w = v] by simp

lemma unat_byte_less: "unat (b :: byte) < 256"
  using unsigned_less [where ?'a = nat and ?w = b] by simp

lemma fmt_nat_nonempty [simp]: "fmt_nat n \<noteq> []"
  by (subst fmt_nat.simps) simp

lemma code_digit_char: "d < 10 \<Longrightarrow> code (digit_char d) = 48 + d"
  by (simp add: code_def digit_char_def)

lemma digit_char_not_underscore: "d < 10 \<Longrightarrow> digit_char d \<noteq> CHR ''_''"
proof
  assume d: "d < 10" and eq: "digit_char d = CHR ''_''"
  from eq have "code (digit_char d) = code (CHR ''_'')" by simp
  with d show False by (simp add: code_digit_char) (simp add: code_def)
qed

lemma digit_val_digit_char: "d < 10 \<Longrightarrow> digit_val (digit_char d) = Some d"
  by (simp add: digit_val_def code_digit_char Let_def)

lemma parse_digits_append:
  "parse_digits b (xs @ ys) n u =
     (case parse_digits b xs n u of Inl e \<Rightarrow> Inl e | Inr (n', u') \<Rightarrow> parse_digits b ys n' u')"
  by (induction b xs n u rule: parse_digits.induct) (auto split: option.splits)

lemma parse_digits_fmt_nat:
  "n \<le> max_uint64 \<Longrightarrow> parse_digits 10 (fmt_nat n) 0 False = Inr (n, False)"
proof (induction n rule: fmt_nat.induct)
  case (1 n)
  show ?case
  proof (cases "n < 10")
    case True
    with 1 show ?thesis
      by (simp add: fmt_nat.simps [of n] digit_val_digit_char digit_char_not_underscore)
  next
    case False
    have "n div 10 \<le> max_uint64" using 1(2) by (meson div_le_dividend le_trans)
    with False 1 have IH: "parse_digits 10 (fmt_nat (n div 10)) 0 False = Inr (n div 10, False)"
      by simp
    have "n div 10 * 10 + n mod 10 = n" by simp
    with False IH 1(2) show ?thesis
      by (simp add: fmt_nat.simps [of n] parse_digits_append digit_val_digit_char
          digit_char_not_underscore)
  qed
qed

lemma hd_fmt_nat: "0 < n \<Longrightarrow> hd (fmt_nat n) \<noteq> CHR ''0''"
proof (induction n rule: fmt_nat.induct)
  case (1 n)
  show ?case
  proof (cases "n < 10")
    case True
    have "digit_char n \<noteq> CHR ''0''"
    proof
      assume "digit_char n = CHR ''0''"
      then have "code (digit_char n) = code (CHR ''0'')" by simp
      with True 1 show False by (simp add: code_digit_char) (simp add: code_def)
    qed
    with True show ?thesis by (simp add: fmt_nat.simps [of n])
  next
    case False
    with 1 show ?thesis by (simp add: fmt_nat.simps [of n])
  qed
qed

lemma ParseUint_FormatUint [simp]: "ParseUint (FormatUint v) = Inr v"
proof (cases "unat v = 0")
  case True
  have "digit_char 0 = CHR ''0''" by (simp add: digit_char_def char_of_eq_iff)
  with True show ?thesis
    by (simp add: ParseUint_def FormatUint_def fmt_nat.simps [of 0] split_base_def)
      (metis unat_0 unat_eq_zero)
next
  case False
  let ?s = "fmt_nat (unat v)"
  obtain c cs where s: "?s = c # cs" by (cases ?s) auto
  with False hd_fmt_nat [of "unat v"] have "c \<noteq> CHR ''0''" by simp
  with s have "split_base ?s = (10, ?s)" by (simp add: split_base_def)
  moreover have "unat v \<le> max_uint64"
    using unat_u64_less [of v] by (simp add: max_uint64_def)
  ultimately show ?thesis
    by (simp add: ParseUint_def FormatUint_def parse_digits_fmt_nat)
qed

lemma FormatUint_inject: "FormatUint a = FormatUint b \<longleftrightarrow> a = b"
  by (metis ParseUint_FormatUint sum.inject(2))

lemma HasPrefix_append [simp]: "HasPrefix (p @ s) p"
  by (simp add: HasPrefix_def)

lemma HasPrefix_iff: "HasPrefix s p \<longleftrightarrow> (\<exists>r. s = p @ r)"
  by (auto simp: HasPrefix_def) (metis append_take_drop_id)

lemma length_hex_encode [simp]: "length (hex_encode bs) = 2 * length bs"
  by (induction bs) (simp_all add: hex_encode_def)

lemma hex_digit_inject: "a < 16 \<Longrightarrow> b < 16 \<Longrightarrow> hex_digit a = hex_digit b \<Longrightarrow> a = b"
proof -
  assume a: "a < 16" and b: "b < 16" and eq: "hex_digit a = hex_digit b"
  have code: "of_char (hex_digit d) = (if d < 10 then 48 + d else 87 + d)" if "d < 16" for d :: nat
    using that by (simp add: hex_digit_def)
  from eq have "(of_char (hex_digit a) :: nat) = of_char (hex_digit b)" by simp
  with a b show "a = b" by (auto simp: code split: if_splits)
qed

lemma hex_encode_Cons:
  "hex_encode (b # bs) = hex_digit (unat b div 16) # hex_digit (unat b mod 16) # hex_encode bs"
  by (simp add: hex_encode_def)

lemma hex_byte_inject:
  assumes "hex_digit (unat a div 16) = hex_digit (unat b div 16)"
    and "hex_digit (unat a mod 16) = hex_digit (unat b mod 16)"
  shows "a = (b :: byte)"
proof -
  have lt: "unat x div 16 < 16" for x :: byte
    using unat_byte_less [of x] by simp
  have "unat a div 16 = unat b div 16" by (rule hex_digit_inject [OF lt lt assms(1)])
  moreover have "unat a mod 16 = unat b mod 16" by (rule hex_digit_inject [OF _ _ assms(2)]) simp_all
  ultimately have "unat a = unat b" by (metis div_mult_mod_eq)
  then show ?thesis by (metis word_unat_eq_iff)
qed

lemma hex_encode_inject: "hex_encode as = hex_encode bs \<longleftrightarrow> as = bs"
proof (induction as arbitrary: bs)
  case Nil
  then show ?case by (cases bs) (simp_all add: hex_encode_def)
next
  case (Cons a as)
  show ?case
  proof (cases bs)
    case Nil
    then show ?thesis by (simp add: hex_encode_def)
  next
    case (Cons b bs')
    with Cons.IH show ?thesis by (auto simp: hex_encode_Cons intro: hex_byte_inject)
  qed
qed

end
