(* ===== verification/ResourceTypes.thy ===== *)
theory ResourceTypes
  imports Strconv
begin

text \<open>
  Resource types and resources: the type URLs and the enumeration of response types
  (\<open>pkg/resource/v3/resource.go\<close>, \<open>pkg/cache/types/types.go\<close>), the maps between them, resource
  names, references between resources and resource hashes (\<open>pkg/cache/v3/resource.go\<close>), groups
  of resources (\<open>pkg/cache/v3/resources.go\<close>).

  A protobuf message is a value of \<open>message\<close>: one constructor per Go type the code
  switches on, one for every other type that has \<open>GetName\<close>, one for those that have not.  A
  message holds the fields the code reads and, as \<open>bytes\<close>, everything else.  The protobuf
  runtime and SHA-256 are parameters, collected in the record \<open>lib\<close>.
\<close>

section \<open>Type URLs and response types\<close>

definition APITypePrefix :: string where
  "APITypePrefix = ''type.googleapis.com/''"

definition EndpointType :: string where
  "EndpointType = APITypePrefix @ ''envoy.config.endpoint.v3.ClusterLoadAssignment''"
definition ClusterType :: string where
  "ClusterType = APITypePrefix @ ''envoy.config.cluster.v3.Cluster''"
definition RouteType :: string where
  "RouteType = APITypePrefix @ ''envoy.config.route.v3.RouteConfiguration''"
definition ScopedRouteType :: string where
  "ScopedRouteType = APITypePrefix @ ''envoy.config.route.v3.ScopedRouteConfiguration''"
definition VirtualHostType :: string where
  "VirtualHostType = APITypePrefix @ ''envoy.config.route.v3.VirtualHost''"
definition ListenerType :: string where
  "ListenerType = APITypePrefix @ ''envoy.config.listener.v3.Listener''"
definition SecretType :: string where
  "SecretType = APITypePrefix @ ''envoy.extensions.transport_sockets.tls.v3.Secret''"
definition ExtensionConfigType :: string where
  "ExtensionConfigType = APITypePrefix @ ''envoy.config.core.v3.TypedExtensionConfig''"
definition RuntimeType :: string where
  "RuntimeType = APITypePrefix @ ''envoy.service.runtime.v3.Runtime''"
definition ThriftRouteType :: string where
  "ThriftRouteType = APITypePrefix @ ''envoy.extensions.filters.network.thrift_proxy.v3.RouteConfiguration''"
definition RateLimitConfigType :: string where
  "RateLimitConfigType = APITypePrefix @ ''ratelimit.config.ratelimit.v3.RateLimitConfig''"
definition AnyType :: string where
  "AnyType = ''''"

lemmas type_url_defs = APITypePrefix_def EndpointType_def ClusterType_def RouteType_def
  ScopedRouteType_def VirtualHostType_def ListenerType_def SecretType_def
  ExtensionConfigType_def RuntimeType_def ThriftRouteType_def RateLimitConfigType_def AnyType_def

datatype ResponseType =
    Cluster | Endpoint | Listener | Route | ScopedRoute | VirtualHost | Secret | Runtime
  | ExtensionConfig | RateLimitConfig | UnknownType

text \<open>The numbering of the \<open>iota\<close> enumeration, which is the order of ADS.\<close>

fun rt_index :: "ResponseType \<Rightarrow> nat" where
  "rt_index Cluster = 0"
| "rt_index Endpoint = 1"
| "rt_index Listener = 2"
| "rt_index Route = 3"
| "rt_index ScopedRoute = 4"
| "rt_index VirtualHost = 5"
| "rt_index Secret = 6"
| "rt_index Runtime = 7"
| "rt_index ExtensionConfig = 8"
| "rt_index RateLimitConfig = 9"
| "rt_index UnknownType = 10"

lemma rt_index_inject [simp]: "rt_index a = rt_index b \<longleftrightarrow> a = b"
  by (cases a; cases b) simp_all

instantiation ResponseType :: linorder
begin

definition less_eq_ResponseType :: "ResponseType \<Rightarrow> ResponseType \<Rightarrow> bool" where
  "less_eq_ResponseType a b \<longleftrightarrow> rt_index a \<le> rt_index b"

definition less_ResponseType :: "ResponseType \<Rightarrow> ResponseType \<Rightarrow> bool" where
  "less_ResponseType a b \<longleftrightarrow> rt_index a < rt_index b"

instance
  by standard (auto simp: less_eq_ResponseType_def less_ResponseType_def)

end

text \<open>The indices of the array \<open>[types.UnknownType]Resources\<close>, in the order of a loop over it.\<close>

definition all_types :: "ResponseType list" where
  "all_types = [Cluster, Endpoint, Listener, Route, ScopedRoute, VirtualHost, Secret, Runtime,
     ExtensionConfig, RateLimitConfig]"

definition GetResponseType :: "string \<Rightarrow> ResponseType" where
  "GetResponseType typeURL =
     (if typeURL = EndpointType then Endpoint
      else if typeURL = ClusterType then Cluster
      else if typeURL = RouteType then Route
      else if typeURL = ScopedRouteType then ScopedRoute
      else if typeURL = VirtualHostType then VirtualHost
      else if typeURL = ListenerType then Listener
      else if typeURL = SecretType then Secret
      else if typeURL = RuntimeType then Runtime
      else if typeURL = ExtensionConfigType then ExtensionConfig
      else if typeURL = RateLimitConfigType then RateLimitConfig
      else UnknownType)"

fun GetResponseTypeURL :: "ResponseType \<Rightarrow> go_error + string" where
  "GetResponseTypeURL Endpoint = Inr EndpointType"
| "GetResponseTypeURL Cluster = Inr ClusterType"
| "GetResponseTypeURL Route = Inr RouteType"
| "GetResponseTypeURL ScopedRoute = Inr ScopedRouteType"
| "GetResponseTypeURL VirtualHost = Inr VirtualHostType"
| "GetResponseTypeURL Listener = Inr ListenerType"
| "GetResponseTypeURL Secret = Inr SecretType"
| "GetResponseTypeURL Runtime = Inr RuntimeType"
| "GetResponseTypeURL ExtensionConfig = Inr ExtensionConfigType"
| "GetResponseTypeURL RateLimitConfig = Inr RateLimitConfigType"
| "GetResponseTypeURL UnknownType = Inl UnmappedResponseType"

lemma set_all_types: "t \<in> set all_types \<longleftrightarrow> t \<noteq> UnknownType"
  by (cases t) (simp_all add: all_types_def)

lemma GetResponseType_GetResponseTypeURL:
  "GetResponseTypeURL t = Inr u \<Longrightarrow> GetResponseType u = t"
  by (cases t) (auto simp: GetResponseType_def type_url_defs)

lemma GetResponseTypeURL_GetResponseType:
  "GetResponseType u \<noteq> UnknownType \<Longrightarrow> GetResponseTypeURL (GetResponseType u) = Inr u"
  by (auto simp: GetResponseType_def split: if_splits)

lemma GetResponseTypeURL_ok: "t \<noteq> UnknownType \<Longrightarrow> \<exists>u. GetResponseTypeURL t = Inr u"
  by (cases t) simp_all

lemma GetResponseTypeURL_inject:
  "GetResponseTypeURL t = Inr u \<Longrightarrow> GetResponseTypeURL t' = Inr u \<Longrightarrow> t = t'"
  using GetResponseType_GetResponseTypeURL by blast

section \<open>Protobuf messages\<close>

record Any =
  any_type_url :: string
  any_value :: bytes

text \<open>\<open>Cluster.GetClusterDiscoveryType\<close>: the \<open>oneof\<close>, \<open>None\<close> where it is not set.\<close>

datatype DiscoveryType = STATIC | STRICT_DNS | LOGICAL_DNS | EDS | ORIGINAL_DST

datatype ClusterDiscoveryType = Cluster_Type DiscoveryType | Cluster_ClusterType bytes

record ClusterMsg =
  cl_name :: string
  cl_discovery_type :: "ClusterDiscoveryType option"
  cl_eds_service_name :: "string option" \<comment> \<open>\<open>EdsClusterConfig\<close>, \<open>None\<close> where it is nil\<close>
  cl_body :: bytes

text \<open>
  The route specifier of a \<open>HttpConnectionManager\<close>.  Scoped routes hold the route configuration
  names of the embedded list, or name a scoped RDS source.
\<close>

datatype ScopedRoutesSpecifier = ScopedRouteList "string list" | ScopedRds bytes

datatype RouteSpecifier =
    RdsSpecifier string
  | RouteConfigSpecifier bytes
  | ScopedRoutesSpec "ScopedRoutesSpecifier option"

record HttpConnectionManager =
  hcm_route_specifier :: "RouteSpecifier option"

record Filter =
  f_typed_config :: "Any option"

record FilterChain =
  fc_filters :: "Filter list"

record ListenerMsg =
  l_name :: string
  l_filter_chains :: "FilterChain list"
  l_default_filter_chain :: "FilterChain option"
  l_body :: bytes

record ScopedRouteMsg =
  sr_name :: string
  sr_route_configuration_name :: string
  sr_body :: bytes

text \<open>\<open>discovery.Resource\<close>, the wrapper used for TTLs and for delta responses.\<close>

record DiscoveryResource =
  res_name :: string
  res_resource :: "Any option"
  res_version :: string
  res_ttl :: "int option"

datatype message =
    ClusterLoadAssignment string bytes
  | ClusterMessage ClusterMsg
  | RouteConfiguration string bytes
  | ScopedRouteConfiguration ScopedRouteMsg
  | ListenerMessage ListenerMsg
  | RuntimeMessage string bytes
  | WrappedResource DiscoveryResource
  | NamedMessage string string bytes \<comment> \<open>type, name, everything else\<close>
  | UnnamedMessage string bytes

text \<open>A value of the interface \<open>types.Resource\<close>, which may be nil.\<close>

type_synonym Resource = "message option"

record ResourceWithTTL =
  rt_resource :: Resource
  rt_ttl :: "int option"

text \<open>
  What the code calls outside the repository: deterministic marshalling, packing into an \<open>Any\<close>,
  unpacking a \<open>HttpConnectionManager\<close>, SHA-256.  \<open>None\<close> is an error return.
\<close>

record lib =
  lib_marshal :: "Resource \<Rightarrow> bytes option"
  lib_any_new :: "Resource \<Rightarrow> Any option"
  lib_unmarshal_hcm :: "Any \<Rightarrow> HttpConnectionManager option"
  lib_sha256 :: "bytes \<Rightarrow> bytes"

section \<open>Names, hashes and groups\<close>

fun GetResourceName :: "Resource \<Rightarrow> string" where
  "GetResourceName None = ''''"
| "GetResourceName (Some (ClusterLoadAssignment n _)) = n"
| "GetResourceName (Some (ClusterMessage c)) = cl_name c"
| "GetResourceName (Some (RouteConfiguration n _)) = n"
| "GetResourceName (Some (ScopedRouteConfiguration s)) = sr_name s"
| "GetResourceName (Some (ListenerMessage l)) = l_name l"
| "GetResourceName (Some (RuntimeMessage n _)) = n"
| "GetResourceName (Some (WrappedResource r)) = res_name r"
| "GetResourceName (Some (NamedMessage _ n _)) = n"
| "GetResourceName (Some (UnnamedMessage _ _)) = ''''"

definition GetResourceNames :: "Resource list \<Rightarrow> string list" where
  "GetResourceNames resources = map GetResourceName resources"

definition MarshalResource :: "lib \<Rightarrow> Resource \<Rightarrow> go_error + bytes" where
  "MarshalResource L r = (case lib_marshal L r of None \<Rightarrow> Inl MarshalFailed | Some b \<Rightarrow> Inr b)"

definition HashResource :: "lib \<Rightarrow> bytes \<Rightarrow> string" where
  "HashResource L b = hex_encode (lib_sha256 L b)"

text \<open>
  The two steps every caller takes: marshal, then hash; an empty hash is an error.  The hash
  of a resource is its version in the delta protocol.
\<close>

definition resource_version :: "lib \<Rightarrow> Resource \<Rightarrow> go_error + string" where
  "resource_version L r =
     (case MarshalResource L r of
        Inl e \<Rightarrow> Inl e
      | Inr b \<Rightarrow> (let v = HashResource L b in if v = '''' then Inl EmptyHash else Inr v))"

text \<open>
  Documented behaviour of the libraries: marshalling succeeds on the resources at hand; a
  SHA-256 sum has 32 bytes.
\<close>

definition sha256_ok :: "lib \<Rightarrow> bool" where
  "sha256_ok L \<longleftrightarrow> (\<forall>b. length (lib_sha256 L b) = 32)"

definition marshals :: "lib \<Rightarrow> Resource \<Rightarrow> bool" where
  "marshals L r \<longleftrightarrow> lib_marshal L r \<noteq> None"

record Resources =
  rs_version :: string
  rs_items :: "(string, ResourceWithTTL) gomap"

definition empty_Resources :: Resources where
  "empty_Resources = \<lparr>rs_version = '''', rs_items = []\<rparr>"

definition IndexResourcesByName :: "ResourceWithTTL list \<Rightarrow> (string, ResourceWithTTL) gomap" where
  "IndexResourcesByName items = fold (\<lambda>item. mput (GetResourceName (rt_resource item)) item) items []"

definition IndexRawResourcesByName :: "Resource list \<Rightarrow> (string, Resource) gomap" where
  "IndexRawResourcesByName items = fold (\<lambda>item. mput (GetResourceName item) item) items []"

definition NewResourcesWithTTL :: "string \<Rightarrow> ResourceWithTTL list \<Rightarrow> Resources" where
  "NewResourcesWithTTL version items = \<lparr>rs_version = version, rs_items = IndexResourcesByName items\<rparr>"

definition NewResources :: "string \<Rightarrow> Resource list \<Rightarrow> Resources" where
  "NewResources version items =
     NewResourcesWithTTL version (map (\<lambda>item. \<lparr>rt_resource = item, rt_ttl = None\<rparr>) items)"

lemma resource_version_nonempty: "resource_version L r = Inr v \<Longrightarrow> v \<noteq> ''''"
  by (auto simp: resource_version_def Let_def split: sum.splits if_splits)

lemma resource_version_ok:
  assumes "sha256_ok L" and "marshals L r"
  shows "\<exists>v. resource_version L r = Inr v"
proof -
  have "HashResource L b \<noteq> ''''" for b
    using assms(1) by (metis HashResource_def sha256_ok_def length_hex_encode list.size(3)
        mult_eq_0_iff zero_neq_numeral)
  with assms(2) show ?thesis
    by (auto simp: resource_version_def MarshalResource_def marshals_def)
qed

definition hash_of :: "lib \<Rightarrow> Resource \<Rightarrow> string" where
  "hash_of L r = (case resource_version L r of Inr v \<Rightarrow> v | Inl _ \<Rightarrow> '''')"

text \<open>All resources marshal, and a hash is never empty.\<close>

definition lib_total :: "lib \<Rightarrow> bool" where
  "lib_total L \<longleftrightarrow> sha256_ok L \<and> (\<forall>r. marshals L r)"

lemma lib_total_version: "lib_total L \<Longrightarrow> resource_version L r = Inr (hash_of L r)"
  using resource_version_ok [of L r] by (auto simp: lib_total_def hash_of_def)

lemma hash_of_nonempty: "lib_total L \<Longrightarrow> hash_of L r \<noteq> ''''"
  using lib_total_version resource_version_nonempty by blast

lemma mget_fold_put_key:
  "mget (fold (\<lambda>x. mput (g x) x) xs m) k =
     (case find (\<lambda>x. g x = k) (rev xs) of None \<Rightarrow> mget m k | Some x \<Rightarrow> Some x)"
  by (induction xs rule: rev_induct) (auto simp: mget_put)

lemma wf_fold_put_key [wf_intros]: "wf_map m \<Longrightarrow> wf_map (fold (\<lambda>x. mput (g x) x) xs m)"
  by (induction xs arbitrary: m) auto

lemma mget_IndexResourcesByName:
  "mget (IndexResourcesByName items) k = find (\<lambda>i. GetResourceName (rt_resource i) = k) (rev items)"
  by (simp add: IndexResourcesByName_def mget_fold_put_key split: option.splits)

lemma wf_IndexResourcesByName [simp, wf_intros]: "wf_map (IndexResourcesByName items)"
  by (simp add: IndexResourcesByName_def wf_intros)

lemma wf_NewResources [simp, wf_intros]:
  "wf_map (rs_items (NewResourcesWithTTL v is))" "wf_map (rs_items (NewResources v rs))"
  by (simp_all add: NewResources_def NewResourcesWithTTL_def)

lemma find_SomeD: "find P xs = Some x \<Longrightarrow> P x \<and> x \<in> set xs"
  by (induction xs) (auto split: if_splits)

lemma IndexResourcesByName_name:
  "mget (IndexResourcesByName items) k = Some i \<Longrightarrow>
   GetResourceName (rt_resource i) = k \<and> i \<in> set items"
  by (auto simp: mget_IndexResourcesByName dest: find_SomeD)

end
