(* ===== verification/Responses.thy ===== *)
theory Responses
  imports ResourceTypes
begin

text \<open>
  Requests, responses and their marshalling (\<open>pkg/cache/v3/cache.go\<close>).  The request and response
  messages hold the fields the code reads or writes.  A \<open>RawResponse\<close> is marshalled on the first
  call of \<open>GetDiscoveryResponse\<close>, which stores the result in the response: the model returns the
  response with that field set.  A nil request pointer only occurs in the zero value of a
  response; the generated getters read it as the empty message, and so does the model.
  A context is a number, 0 for \<open>context.Background()\<close>.
\<close>

type_synonym ctx = nat

definition Background :: ctx where
  "Background = 0"

record Node =
  node_id :: string
  node_cluster :: string

record DiscoveryRequest =
  req_version_info :: string
  req_node :: "Node option"
  req_resource_names :: "string list"
  req_type_url :: string
  req_response_nonce :: string
  req_error_detail :: "string option"

record DeltaDiscoveryRequest =
  dreq_node :: "Node option"
  dreq_type_url :: string
  dreq_resource_names_subscribe :: "string list"
  dreq_resource_names_unsubscribe :: "string list"
  dreq_initial_resource_versions :: "(string, string) gomap option"
  dreq_response_nonce :: string
  dreq_error_detail :: "string option"

record DiscoveryResponse =
  resp_version_info :: string
  resp_resources :: "Any list"
  resp_type_url :: string
  resp_nonce :: string

record DeltaDiscoveryResponse =
  dresp_system_version_info :: string
  dresp_resources :: "DiscoveryResource list"
  dresp_removed_resources :: "string list"
  dresp_type_url :: string
  dresp_nonce :: string

definition empty_request :: DiscoveryRequest where
  "empty_request = \<lparr>req_version_info = '''', req_node = None, req_resource_names = [],
     req_type_url = '''', req_response_nonce = '''', req_error_detail = None\<rparr>"

definition empty_delta_request :: DeltaDiscoveryRequest where
  "empty_delta_request = \<lparr>dreq_node = None, dreq_type_url = '''', dreq_resource_names_subscribe = [],
     dreq_resource_names_unsubscribe = [], dreq_initial_resource_versions = None,
     dreq_response_nonce = '''', dreq_error_detail = None\<rparr>"

section \<open>Raw responses\<close>

record RawResponse =
  raw_request :: DiscoveryRequest
  raw_version :: string
  raw_resources :: "ResourceWithTTL list"
  raw_heartbeat :: bool
  raw_ctx :: ctx
  raw_marshaled :: "DiscoveryResponse option"

record RawDeltaResponse =
  rawd_request :: DeltaDiscoveryRequest
  rawd_system_version_info :: string
  rawd_resources :: "Resource list"
  rawd_removed_resources :: "string list"
  rawd_next_version_map :: "(string, string) gomap"
  rawd_ctx :: ctx
  rawd_marshaled :: "DeltaDiscoveryResponse option"

record PassthroughResponse =
  pass_request :: DiscoveryRequest
  pass_response :: "DiscoveryResponse option"
  pass_ctx :: ctx

record DeltaPassthroughResponse =
  passd_request :: DeltaDiscoveryRequest
  passd_next_version_map :: "(string, string) gomap"
  passd_response :: "DeltaDiscoveryResponse option"
  passd_ctx :: ctx

definition deltaResourceTypeURL :: string where
  "deltaResourceTypeURL = ''type.googleapis.com/'' @ ''envoy.service.discovery.v3.Resource''"

definition maybeCreateTTLResource ::
    "lib \<Rightarrow> RawResponse \<Rightarrow> ResourceWithTTL \<Rightarrow> go_error + (Resource \<times> string)" where
  "maybeCreateTTLResource L r resource =
     (case rt_ttl resource of
        Some ttl \<Rightarrow>
          (let wrapped = \<lparr>res_name = GetResourceName (rt_resource resource), res_resource = None,
                          res_version = '''', res_ttl = Some ttl\<rparr>
           in if \<not> raw_heartbeat r then
                (case lib_any_new L (rt_resource resource) of
                   None \<Rightarrow> Inl MarshalFailed
                 | Some rsrc \<Rightarrow>
                     Inr (Some (WrappedResource
                       (wrapped\<lparr>res_resource :=
                          Some (rsrc\<lparr>any_type_url := req_type_url (raw_request r)\<rparr>)\<rparr>)),
                       deltaResourceTypeURL))
              else Inr (Some (WrappedResource wrapped), deltaResourceTypeURL))
      | None \<Rightarrow> Inr (rt_resource resource, req_type_url (raw_request r)))"

text \<open>The body of the marshalling loop of \<open>GetDiscoveryResponse\<close>, then the loop.\<close>

definition marshal_one :: "lib \<Rightarrow> RawResponse \<Rightarrow> ResourceWithTTL \<Rightarrow> go_error + Any" where
  "marshal_one L r resource =
     (case maybeCreateTTLResource L r resource of
        Inl e \<Rightarrow> Inl e
      | Inr (maybeTtldResource, resourceType) \<Rightarrow>
          (case MarshalResource L maybeTtldResource of
             Inl e \<Rightarrow> Inl e
           | Inr b \<Rightarrow> Inr \<lparr>any_type_url = resourceType, any_value = b\<rparr>))"

fun traverse :: "('a \<Rightarrow> 'e + 'b) \<Rightarrow> 'a list \<Rightarrow> 'e + 'b list" where
  "traverse f [] = Inr []"
| "traverse f (x # xs) =
     (case f x of
        Inl e \<Rightarrow> Inl e
      | Inr y \<Rightarrow> (case traverse f xs of Inl e \<Rightarrow> Inl e | Inr ys \<Rightarrow> Inr (y # ys)))"

definition GetDiscoveryResponse ::
    "lib \<Rightarrow> RawResponse \<Rightarrow> (go_error + DiscoveryResponse) \<times> RawResponse" where
  "GetDiscoveryResponse L r =
     (case raw_marshaled r of
        Some m \<Rightarrow> (Inr m, r)
      | None \<Rightarrow>
          (case traverse (marshal_one L r) (raw_resources r) of
             Inl e \<Rightarrow> (Inl e, r)
           | Inr rs \<Rightarrow>
               (let m = \<lparr>resp_version_info = raw_version r, resp_resources = rs,
                         resp_type_url = req_type_url (raw_request r), resp_nonce = ''''\<rparr>
                in (Inr m, r\<lparr>raw_marshaled := Some m\<rparr>))))"

definition marshal_delta_one ::
    "lib \<Rightarrow> RawDeltaResponse \<Rightarrow> Resource \<Rightarrow> go_error + DiscoveryResource" where
  "marshal_delta_one L r resource =
     (let name = GetResourceName resource in
      case MarshalResource L resource of
        Inl e \<Rightarrow> Inl e
      | Inr b \<Rightarrow>
          (let version = HashResource L b in
           if version = '''' then Inl EmptyHash
           else Inr \<lparr>res_name = name,
                     res_resource = Some \<lparr>any_type_url = dreq_type_url (rawd_request r), any_value = b\<rparr>,
                     res_version = version, res_ttl = None\<rparr>))"

definition GetDeltaDiscoveryResponse ::
    "lib \<Rightarrow> RawDeltaResponse \<Rightarrow> (go_error + DeltaDiscoveryResponse) \<times> RawDeltaResponse" where
  "GetDeltaDiscoveryResponse L r =
     (case rawd_marshaled r of
        Some m \<Rightarrow> (Inr m, r)
      | None \<Rightarrow>
          (case traverse (marshal_delta_one L r) (rawd_resources r) of
             Inl e \<Rightarrow> (Inl e, r)
           | Inr rs \<Rightarrow>
               (let m = \<lparr>dresp_system_version_info = rawd_system_version_info r,
                         dresp_resources = rs,
                         dresp_removed_resources = rawd_removed_resources r,
                         dresp_type_url = dreq_type_url (rawd_request r), dresp_nonce = ''''\<rparr>
                in (Inr m, r\<lparr>rawd_marshaled := Some m\<rparr>))))"

section \<open>The response interfaces\<close>

text \<open>\<open>Response\<close> and \<open>DeltaResponse\<close> are interfaces with two implementations each.\<close>

datatype Response = Raw RawResponse | Passthrough PassthroughResponse

datatype DeltaResponse = RawDelta RawDeltaResponse | DeltaPassthrough DeltaPassthroughResponse

text \<open>
  A passthrough response may hold a nil message, which is returned without an error.
\<close>

fun resp_GetDiscoveryResponse ::
    "lib \<Rightarrow> Response \<Rightarrow> (go_error + DiscoveryResponse option) \<times> Response" where
  "resp_GetDiscoveryResponse L (Raw r) =
     (case GetDiscoveryResponse L r of
        (Inl e, r') \<Rightarrow> (Inl e, Raw r') | (Inr m, r') \<Rightarrow> (Inr (Some m), Raw r'))"
| "resp_GetDiscoveryResponse L (Passthrough p) = (Inr (pass_response p), Passthrough p)"

fun resp_GetRequest :: "Response \<Rightarrow> DiscoveryRequest" where
  "resp_GetRequest (Raw r) = raw_request r"
| "resp_GetRequest (Passthrough p) = pass_request p"

fun resp_GetVersion :: "Response \<Rightarrow> go_error + string" where
  "resp_GetVersion (Raw r) = Inr (raw_version r)"
| "resp_GetVersion (Passthrough p) =
     (case pass_response p of Some m \<Rightarrow> Inr (resp_version_info m) | None \<Rightarrow> Inl NilResponse)"

fun resp_GetContext :: "Response \<Rightarrow> ctx" where
  "resp_GetContext (Raw r) = raw_ctx r"
| "resp_GetContext (Passthrough p) = pass_ctx p"

fun dresp_GetDeltaDiscoveryResponse ::
    "lib \<Rightarrow> DeltaResponse \<Rightarrow> (go_error + DeltaDiscoveryResponse option) \<times> DeltaResponse" where
  "dresp_GetDeltaDiscoveryResponse L (RawDelta r) =
     (case GetDeltaDiscoveryResponse L r of
        (Inl e, r') \<Rightarrow> (Inl e, RawDelta r') | (Inr m, r') \<Rightarrow> (Inr (Some m), RawDelta r'))"
| "dresp_GetDeltaDiscoveryResponse L (DeltaPassthrough p) =
     (Inr (passd_response p), DeltaPassthrough p)"

fun dresp_GetDeltaRequest :: "DeltaResponse \<Rightarrow> DeltaDiscoveryRequest" where
  "dresp_GetDeltaRequest (RawDelta r) = rawd_request r"
| "dresp_GetDeltaRequest (DeltaPassthrough p) = passd_request p"

fun dresp_GetSystemVersion :: "DeltaResponse \<Rightarrow> go_error + string" where
  "dresp_GetSystemVersion (RawDelta r) = Inr (rawd_system_version_info r)"
| "dresp_GetSystemVersion (DeltaPassthrough p) =
     (case passd_response p of Some m \<Rightarrow> Inr (dresp_system_version_info m) | None \<Rightarrow> Inl NilResponse)"

fun dresp_GetNextVersionMap :: "DeltaResponse \<Rightarrow> (string, string) gomap" where
  "dresp_GetNextVersionMap (RawDelta r) = rawd_next_version_map r"
| "dresp_GetNextVersionMap (DeltaPassthrough p) = passd_next_version_map p"

fun dresp_GetContext :: "DeltaResponse \<Rightarrow> ctx" where
  "dresp_GetContext (RawDelta r) = rawd_ctx r"
| "dresp_GetContext (DeltaPassthrough p) = passd_ctx p"

section \<open>Facts\<close>

lemma traverse_Inr_iff:
  "traverse f xs = Inr ys \<longleftrightarrow> list_all2 (\<lambda>x y. f x = Inr y) xs ys"
proof (induction xs arbitrary: ys)
  case Nil
  then show ?case by auto
next
  case (Cons x xs)
  show ?case
    by (auto simp: list_all2_Cons1 Cons.IH [symmetric] split: sum.splits)
qed

lemma traverse_Inl_iff:
  "(\<exists>e. traverse f xs = Inl e) \<longleftrightarrow> (\<exists>x \<in> set xs. \<exists>e. f x = Inl e)"
  by (induction xs) (auto split: sum.splits)

lemma traverse_total: "(\<And>x. x \<in> set xs \<Longrightarrow> \<exists>y. f x = Inr y) \<Longrightarrow> \<exists>ys. traverse f xs = Inr ys"
  by (metis Inl_Inr_False sumE traverse_Inl_iff)

lemma marshal_delta_one_version:
  "marshal_delta_one L r x = Inr d \<Longrightarrow>
     res_name d = GetResourceName x \<and> resource_version L x = Inr (res_version d) \<and> res_ttl d = None"
  by (auto simp: marshal_delta_one_def resource_version_def Let_def split: sum.splits if_splits)

lemma GetDiscoveryResponse_cached:
  "GetDiscoveryResponse L r = (Inr m, r') \<Longrightarrow> GetDiscoveryResponse L' r' = (Inr m, r')"
  by (auto simp: GetDiscoveryResponse_def Let_def split: option.splits sum.splits)

lemma GetDeltaDiscoveryResponse_cached:
  "GetDeltaDiscoveryResponse L r = (Inr m, r') \<Longrightarrow> GetDeltaDiscoveryResponse L' r' = (Inr m, r')"
  by (auto simp: GetDeltaDiscoveryResponse_def Let_def split: option.splits sum.splits)

end
