(* ===== verification/DeltaCompute.thy ===== *)
theory DeltaCompute
  imports StreamState Responses
begin

text \<open>
  The heart of incremental xDS, \<open>createDeltaResponse\<close> of \<open>pkg/cache/v3/delta.go\<close>: from what a
  stream was sent last and what the cache holds now, compute what has to be sent, what has to be
  removed, and the versions the stream holds afterwards.  The loops run over association lists;
  the closed forms below say what they compute, and the client-side reading
  (\<open>client_apply\<close>) says why that is right.
\<close>

record resourceContainer =
  rc_resourceMap :: "(string, Resource) gomap"
  rc_versionMap :: "(string, string) gomap"
  rc_systemVersion :: string

text \<open>The three variables the loops build.\<close>

record delta_acc =
  da_next :: "(string, string) gomap"
  da_filtered :: "Resource list"
  da_remove :: "string list"

definition wildcard_step ::
    "StreamState \<Rightarrow> resourceContainer \<Rightarrow> string \<times> Resource \<Rightarrow> delta_acc \<Rightarrow> delta_acc" where
  "wildcard_step state resources = (\<lambda>(name, r) acc.
     let version = mget_or '''' (rc_versionMap resources) name;
         acc = acc\<lparr>da_next := mput name version (da_next acc)\<rparr>
     in case mget (GetResourceVersions state) name of
          None \<Rightarrow> acc\<lparr>da_filtered := da_filtered acc @ [r]\<rparr>
        | Some prevVersion \<Rightarrow>
            if prevVersion \<noteq> version then acc\<lparr>da_filtered := da_filtered acc @ [r]\<rparr> else acc)"

definition removal_step :: "resourceContainer \<Rightarrow> string \<Rightarrow> delta_acc \<Rightarrow> delta_acc" where
  "removal_step resources name acc =
     (case mget (rc_resourceMap resources) name of
        None \<Rightarrow> acc\<lparr>da_remove := da_remove acc @ [name]\<rparr>
      | Some _ \<Rightarrow> acc)"

definition subscribed_step ::
    "StreamState \<Rightarrow> resourceContainer \<Rightarrow> string \<Rightarrow> delta_acc \<Rightarrow> delta_acc" where
  "subscribed_step state resources name acc =
     (let found = mget (GetResourceVersions state) name;
          prevVersion = mget_or '''' (GetResourceVersions state) name
      in case mget (rc_resourceMap resources) name of
           Some r \<Rightarrow>
             (let nextVersion = mget_or '''' (rc_versionMap resources) name;
                  acc = (if prevVersion \<noteq> nextVersion
                         then acc\<lparr>da_filtered := da_filtered acc @ [r]\<rparr> else acc)
              in acc\<lparr>da_next := mput name nextVersion (da_next acc)\<rparr>)
         | None \<Rightarrow>
             if found \<noteq> None then acc\<lparr>da_remove := da_remove acc @ [name]\<rparr> else acc)"

definition createDeltaResponse ::
    "ctx \<Rightarrow> DeltaDiscoveryRequest \<Rightarrow> StreamState \<Rightarrow> resourceContainer \<Rightarrow> RawDeltaResponse" where
  "createDeltaResponse ctx req state resources =
     (let acc0 = \<lparr>da_next = [], da_filtered = [], da_remove = []\<rparr>;
          acc = (if IsWildcard state then
                   fold (removal_step resources) (mkeys (GetResourceVersions state))
                     (fold (wildcard_step state resources) (rc_resourceMap resources) acc0)
                 else
                   fold (subscribed_step state resources) (GetSubscribedResourceNames state) acc0)
      in \<lparr>rawd_request = req, rawd_system_version_info = rc_systemVersion resources,
          rawd_resources = da_filtered acc, rawd_removed_resources = da_remove acc,
          rawd_next_version_map = da_next acc, rawd_ctx = ctx, rawd_marshaled = None\<rparr>)"

section \<open>Closed forms\<close>

text \<open>A name has to be sent when it is in the cache at another version than the stream holds.\<close>

definition version_of :: "resourceContainer \<Rightarrow> string \<Rightarrow> string" where
  "version_of resources name = mget_or '''' (rc_versionMap resources) name"

definition wildcard_changed :: "StreamState \<Rightarrow> resourceContainer \<Rightarrow> string \<Rightarrow> bool" where
  "wildcard_changed state resources name \<longleftrightarrow>
     mget (ss_resourceVersions state) name \<noteq> Some (version_of resources name)"

definition subscribed_changed :: "StreamState \<Rightarrow> resourceContainer \<Rightarrow> string \<Rightarrow> bool" where
  "subscribed_changed state resources name \<longleftrightarrow>
     mget_or '''' (ss_resourceVersions state) name \<noteq> version_of resources name"

lemma fold_wildcard_step:
  "fold (wildcard_step state resources) rm acc =
     \<lparr>da_next = fold (\<lambda>(n, r). mput n (version_of resources n)) rm (da_next acc),
      da_filtered = da_filtered acc @
        map snd (filter (\<lambda>(n, r). wildcard_changed state resources n) rm),
      da_remove = da_remove acc\<rparr>"
  by (induction rm arbitrary: acc)
    (auto simp: wildcard_step_def Let_def wildcard_changed_def version_of_def stream_state_defs
      split: option.splits)

lemma fold_removal_step:
  "fold (removal_step resources) ns acc =
     acc\<lparr>da_remove := da_remove acc @ filter (\<lambda>n. mget (rc_resourceMap resources) n = None) ns\<rparr>"
  by (induction ns arbitrary: acc) (auto simp: removal_step_def split: option.splits)

lemma subscribed_step_eq:
  "subscribed_step state resources n acc =
     (if mget (rc_resourceMap resources) n \<noteq> None then
        \<lparr>da_next = mput n (version_of resources n) (da_next acc),
         da_filtered = da_filtered acc @
           (if subscribed_changed state resources n
            then [the (mget (rc_resourceMap resources) n)] else []),
         da_remove = da_remove acc\<rparr>
      else acc\<lparr>da_remove := da_remove acc @
             (if mget (ss_resourceVersions state) n \<noteq> None then [n] else [])\<rparr>)"
  by (simp add: subscribed_step_def Let_def subscribed_changed_def version_of_def stream_state_defs
      split: option.split)

lemma fold_subscribed_step:
  "fold (subscribed_step state resources) ns acc =
     \<lparr>da_next = fold (\<lambda>n. mput n (version_of resources n))
        (filter (\<lambda>n. mget (rc_resourceMap resources) n \<noteq> None) ns) (da_next acc),
      da_filtered = da_filtered acc @
        map (\<lambda>n. the (mget (rc_resourceMap resources) n))
          (filter (\<lambda>n. mget (rc_resourceMap resources) n \<noteq> None
             \<and> subscribed_changed state resources n) ns),
      da_remove = da_remove acc @
        filter (\<lambda>n. mget (rc_resourceMap resources) n = None
          \<and> mget (ss_resourceVersions state) n \<noteq> None) ns\<rparr>"
  by (induction ns arbitrary: acc) (simp_all add: subscribed_step_eq)

text \<open>The names of the resources sent, as keys of the cache.\<close>

definition sent_names :: "StreamState \<Rightarrow> resourceContainer \<Rightarrow> string list" where
  "sent_names state resources =
     (if IsWildcard state
      then filter (wildcard_changed state resources) (mkeys (rc_resourceMap resources))
      else filter (\<lambda>n. mget (rc_resourceMap resources) n \<noteq> None
             \<and> subscribed_changed state resources n) (ss_subscribedResourceNames state))"

definition removed_names :: "StreamState \<Rightarrow> resourceContainer \<Rightarrow> string list" where
  "removed_names state resources =
     (if IsWildcard state
      then filter (\<lambda>n. mget (rc_resourceMap resources) n = None) (mkeys (ss_resourceVersions state))
      else filter (\<lambda>n. mget (rc_resourceMap resources) n = None
             \<and> mget (ss_resourceVersions state) n \<noteq> None) (ss_subscribedResourceNames state))"

text \<open>The names the stream is interested in.\<close>

definition in_scope :: "StreamState \<Rightarrow> string \<Rightarrow> bool" where
  "in_scope state n \<longleftrightarrow> IsWildcard state \<or> n \<in> set (ss_subscribedResourceNames state)"

lemma rawd_removed_createDeltaResponse [simp]:
  "rawd_removed_resources (createDeltaResponse ctx req state resources) = removed_names state resources"
  by (simp add: createDeltaResponse_def Let_def fold_wildcard_step fold_removal_step
      fold_subscribed_step removed_names_def stream_state_defs)

lemma rawd_request_createDeltaResponse [simp]:
  "rawd_request (createDeltaResponse ctx req state resources) = req"
  "rawd_system_version_info (createDeltaResponse ctx req state resources) = rc_systemVersion resources"
  "rawd_ctx (createDeltaResponse ctx req state resources) = ctx"
  "rawd_marshaled (createDeltaResponse ctx req state resources) = None"
  by (simp_all add: createDeltaResponse_def Let_def)

lemma rawd_resources_createDeltaResponse:
  assumes "wf_map (rc_resourceMap resources)"
  shows "rawd_resources (createDeltaResponse ctx req state resources) =
     map (\<lambda>n. the (mget (rc_resourceMap resources) n)) (sent_names state resources)"
proof (cases "IsWildcard state")
  case True
  have "map snd (filter (\<lambda>(n, r). wildcard_changed state resources n) rm) =
        map (\<lambda>n. the (mget (rc_resourceMap resources) n))
          (filter (wildcard_changed state resources) (map fst rm))"
    if "set rm \<subseteq> set (rc_resourceMap resources)" for rm
    using that by (induction rm) (auto simp: mget_eq_Some_iff [OF assms, THEN iffD2])
  with True show ?thesis
    by (simp add: createDeltaResponse_def Let_def fold_wildcard_step fold_removal_step sent_names_def)
next
  case False
  then show ?thesis
    by (simp add: createDeltaResponse_def Let_def fold_subscribed_step sent_names_def
        stream_state_defs)
qed

lemma mget_next_version_map:
  assumes "wf_map (rc_resourceMap resources)"
  shows "mget (rawd_next_version_map (createDeltaResponse ctx req state resources)) n =
     (if in_scope state n \<and> mget (rc_resourceMap resources) n \<noteq> None
      then Some (version_of resources n) else None)"
proof (cases "IsWildcard state")
  case True
  with assms show ?thesis
    by (auto simp: createDeltaResponse_def Let_def fold_wildcard_step fold_removal_step in_scope_def
        mget_fold_put_pairs split: option.splits)
next
  case False
  then show ?thesis
    by (auto simp: createDeltaResponse_def Let_def fold_subscribed_step mget_fold_put in_scope_def
        stream_state_defs)
qed

lemma wf_next_version_map [wf_intros]:
  "wf_map (rawd_next_version_map (createDeltaResponse ctx req state resources))"
  by (simp add: createDeltaResponse_def Let_def fold_wildcard_step fold_removal_step
      fold_subscribed_step wf_fold_put wf_fold_put_pairs)

lemma set_removed_names:
  "set (removed_names state resources) =
     {n. in_scope state n \<and> mget (rc_resourceMap resources) n = None
         \<and> mget (ss_resourceVersions state) n \<noteq> None}"
  by (auto simp: removed_names_def in_scope_def set_mkeys simp del: set_map)

section \<open>What the client makes of a response\<close>

text \<open>
  A client keeps the version of each resource it holds.  It drops the removed resources and
  stores the resources of the response.
\<close>

definition client_apply :: "DeltaDiscoveryResponse \<Rightarrow> (string \<rightharpoonup> string) \<Rightarrow> (string \<rightharpoonup> string)" where
  "client_apply resp c =
     fold (\<lambda>r c. c(res_name r \<mapsto> res_version r)) (dresp_resources resp)
       (\<lambda>n. if n \<in> set (dresp_removed_resources resp) then None else c n)"

text \<open>
  What the server believes of the client: for the names in scope, the recorded version is the
  one the client holds, or it is empty, which the server writes to force a resource to be sent
  again.
\<close>

definition tracks :: "StreamState \<Rightarrow> (string \<rightharpoonup> string) \<Rightarrow> bool" where
  "tracks state c \<longleftrightarrow>
     (\<forall>n. in_scope state n \<longrightarrow>
        (case mget (ss_resourceVersions state) n of
           None \<Rightarrow> c n = None
         | Some v \<Rightarrow> v = '''' \<or> c n = Some v))"

text \<open>
  The container is consistent: every resource is filed under its own name, and its version is
  its hash.
\<close>

definition versions_ok :: "lib \<Rightarrow> resourceContainer \<Rightarrow> bool" where
  "versions_ok L resources \<longleftrightarrow>
     wf_map (rc_resourceMap resources) \<and>
     (\<forall>(n, r) \<in> set (rc_resourceMap resources).
        GetResourceName r = n \<and> resource_version L r = Inr (version_of resources n))"

text \<open>The target: what the client should hold of the names in scope.\<close>

definition target :: "StreamState \<Rightarrow> resourceContainer \<Rightarrow> string \<Rightarrow> string option" where
  "target state resources n =
     (if mget (rc_resourceMap resources) n \<noteq> None then Some (version_of resources n) else None)"

lemma versions_ok_get:
  "versions_ok L resources \<Longrightarrow> mget (rc_resourceMap resources) n = Some r \<Longrightarrow>
     GetResourceName r = n \<and> resource_version L r = Inr (version_of resources n)
     \<and> version_of resources n \<noteq> ''''"
  by (fastforce simp: versions_ok_def dest: mget_in_set resource_version_nonempty)

lemma client_apply_map:
  "fold (\<lambda>r c. c(res_name r \<mapsto> res_version r)) rs c n =
     (case find (\<lambda>r. res_name r = n) (rev rs) of Some r \<Rightarrow> Some (res_version r) | None \<Rightarrow> c n)"
  by (induction rs rule: rev_induct) auto

lemma client_apply_resources:
  assumes "\<And>r. r \<in> set (dresp_resources resp) \<Longrightarrow> res_version r = v (res_name r)"
  shows "client_apply resp c n =
     (if n \<in> res_name ` set (dresp_resources resp) then Some (v n)
      else if n \<in> set (dresp_removed_resources resp) then None else c n)"
proof (cases "find (\<lambda>r. res_name r = n) (rev (dresp_resources resp))")
  case None
  then have "n \<notin> res_name ` set (dresp_resources resp)" by (auto simp: find_None_iff)
  with None show ?thesis by (simp add: client_apply_def client_apply_map)
next
  case (Some r)
  with find_SomeD [OF Some] assms show ?thesis
    by (auto simp: client_apply_def client_apply_map)
qed

text \<open>The marshalled resources of a delta response: names and versions are those of the cache.\<close>

lemma marshalled_resources:
  assumes ok: "versions_ok L resources"
    and m: "GetDeltaDiscoveryResponse L (createDeltaResponse ctx req state resources) = (Inr m, r')"
  shows "map res_name (dresp_resources m) = sent_names state resources"
    and "\<And>r. r \<in> set (dresp_resources m) \<Longrightarrow> res_version r = version_of resources (res_name r)"
    and "dresp_removed_resources m = removed_names state resources"
proof -
  let ?R = "createDeltaResponse ctx req state resources"
  let ?get = "\<lambda>n. the (mget (rc_resourceMap resources) n)"
  from ok have wf: "wf_map (rc_resourceMap resources)" by (simp add: versions_ok_def)
  from m have all: "list_all2 (\<lambda>x d. marshal_delta_one L ?R x = Inr d)
      (map ?get (sent_names state resources)) (dresp_resources m)"
    and "dresp_removed_resources m = removed_names state resources"
    by (auto simp: GetDeltaDiscoveryResponse_def rawd_resources_createDeltaResponse [OF wf] Let_def
        traverse_Inr_iff split: sum.splits)
  then show "dresp_removed_resources m = removed_names state resources" by simp
  have sent: "\<And>n. n \<in> set (sent_names state resources) \<Longrightarrow>
      \<exists>r. mget (rc_resourceMap resources) n = Some r"
    by (auto simp: sent_names_def set_mkeys simp del: set_map split: if_splits)
  have one: "res_name d = n \<and> res_version d = version_of resources n"
    if "n \<in> set (sent_names state resources)" "marshal_delta_one L ?R (?get n) = Inr d" for n d
    using sent [OF that(1)] versions_ok_get [OF ok] marshal_delta_one_version [OF that(2)]
    by fastforce
  have "list_all2 (\<lambda>n d. res_name d = n \<and> res_version d = version_of resources n)
      (sent_names state resources) (dresp_resources m)"
    using all unfolding list_all2_map1 by (rule list.rel_mono_strong) (auto dest: one)
  then show "map res_name (dresp_resources m) = sent_names state resources"
    and "\<And>r. r \<in> set (dresp_resources m) \<Longrightarrow> res_version r = version_of resources (res_name r)"
    by (auto simp: list_all2_conv_all_nth in_set_conv_nth intro: nth_equalityI)
qed

lemma delta_marshal_total:
  assumes "versions_ok L resources"
  shows "\<exists>m r'. GetDeltaDiscoveryResponse L (createDeltaResponse ctx req state resources) = (Inr m, r')"
proof -
  let ?R = "createDeltaResponse ctx req state resources"
  have wf: "wf_map (rc_resourceMap resources)" using assms by (simp add: versions_ok_def)
  have "\<exists>d. marshal_delta_one L ?R r = Inr d" if "mget (rc_resourceMap resources) n = Some r" for n r
    using versions_ok_get [OF assms that]
    by (auto simp: marshal_delta_one_def resource_version_def Let_def split: sum.splits if_splits)
  moreover have "\<exists>r. mget (rc_resourceMap resources) n = Some r"
    if "n \<in> set (sent_names state resources)" for n
    using that by (auto simp: sent_names_def set_mkeys simp del: set_map split: if_splits)
  ultimately have "\<And>x. x \<in> set (rawd_resources ?R) \<Longrightarrow> \<exists>d. marshal_delta_one L ?R x = Inr d"
    by (fastforce simp: rawd_resources_createDeltaResponse [OF wf])
  then obtain ds where "traverse (marshal_delta_one L ?R) (rawd_resources ?R) = Inr ds"
    using traverse_total by blast
  then show ?thesis by (simp add: GetDeltaDiscoveryResponse_def Let_def)
qed

text \<open>The synchronisation lemma: whatever the client held, it holds the target afterwards.\<close>

lemma delta_response_target:
  assumes ok: "versions_ok L resources" and tr: "tracks state c"
    and m: "GetDeltaDiscoveryResponse L (createDeltaResponse ctx req state resources) = (Inr m, r')"
    and scope: "in_scope state n"
  shows "client_apply m c n = target state resources n"
proof -
  note mr = marshalled_resources [OF ok m]
  have names: "res_name ` set (dresp_resources m) = set (sent_names state resources)"
    using mr(1) by (metis set_map)
  have applied: "client_apply m c n =
     (if n \<in> set (sent_names state resources) then Some (version_of resources n)
      else if n \<in> set (removed_names state resources) then None else c n)"
    using client_apply_resources [OF mr(2)] by (simp add: names mr(3))
  from tr scope have trn: "case mget (ss_resourceVersions state) n of
      None \<Rightarrow> c n = None | Some v \<Rightarrow> v = '''' \<or> c n = Some v"
    by (simp add: tracks_def)
  show ?thesis
  proof (cases "mget (rc_resourceMap resources) n")
    case None
    then have "n \<notin> set (sent_names state resources)"
      by (auto simp: sent_names_def set_mkeys simp del: set_map split: if_splits)
    with None applied trn scope show ?thesis
      by (auto simp: target_def set_removed_names split: option.splits)
  next
    case (Some r)
    then have "n \<notin> set (removed_names state resources)" by (simp add: set_removed_names)
    moreover have "n \<in> set (sent_names state resources) \<or> c n = Some (version_of resources n)"
    proof (cases "IsWildcard state")
      case True
      have "n \<in> set (mkeys (rc_resourceMap resources))" using Some by (simp add: set_mkeys domI del: set_map)
      with True trn versions_ok_get [OF ok Some] show ?thesis
        by (auto simp: sent_names_def wildcard_changed_def simp del: set_map split: option.splits)
    next
      case False
      with scope Some trn versions_ok_get [OF ok Some] show ?thesis
        by (auto simp: sent_names_def subscribed_changed_def in_scope_def mget_or_def
            split: option.splits)
    qed
    ultimately show ?thesis using Some applied by (auto simp: target_def)
  qed
qed

section \<open>Nothing to do\<close>

text \<open>
  A stream is up to date when, for every name in scope, the version it holds is the one in the
  cache, and it holds nothing the cache has not.  This is what an empty response means.
\<close>

definition up_to_date :: "StreamState \<Rightarrow> resourceContainer \<Rightarrow> bool" where
  "up_to_date state resources \<longleftrightarrow>
     (\<forall>n. in_scope state n \<longrightarrow>
        (case mget (rc_resourceMap resources) n of
           None \<Rightarrow> mget (ss_resourceVersions state) n = None
         | Some _ \<Rightarrow>
             if IsWildcard state
             then mget (ss_resourceVersions state) n = Some (version_of resources n)
             else mget_or '''' (ss_resourceVersions state) n = version_of resources n))"

lemma sent_names_Nil_iff:
  "sent_names state resources = [] \<longleftrightarrow>
     (\<forall>n. in_scope state n \<and> mget (rc_resourceMap resources) n \<noteq> None \<longrightarrow>
        (if IsWildcard state
         then mget (ss_resourceVersions state) n = Some (version_of resources n)
         else mget_or '''' (ss_resourceVersions state) n = version_of resources n))"
proof (cases "IsWildcard state")
  case True
  then have "sent_names state resources = [] \<longleftrightarrow>
      (\<forall>n \<in> set (mkeys (rc_resourceMap resources)). \<not> wildcard_changed state resources n)"
    by (simp add: sent_names_def filter_empty_conv del: set_map)
  with True show ?thesis
    by (simp add: set_mkeys dom_def wildcard_changed_def in_scope_def del: set_map)
next
  case False
  then show ?thesis
    by (auto simp: sent_names_def filter_empty_conv subscribed_changed_def in_scope_def)
qed

lemma removed_names_Nil_iff:
  "removed_names state resources = [] \<longleftrightarrow>
     (\<forall>n. in_scope state n \<and> mget (rc_resourceMap resources) n = None \<longrightarrow>
        mget (ss_resourceVersions state) n = None)"
proof -
  have "removed_names state resources = [] \<longleftrightarrow> set (removed_names state resources) = {}"
    by simp
  then show ?thesis by (auto simp: set_removed_names)
qed

lemma delta_empty_iff:
  assumes "wf_map (rc_resourceMap resources)"
  shows "rawd_resources (createDeltaResponse ctx req state resources) = []
      \<and> rawd_removed_resources (createDeltaResponse ctx req state resources) = []
    \<longleftrightarrow> up_to_date state resources"
proof -
  have "sent_names state resources = [] \<and> removed_names state resources = []
      \<longleftrightarrow> up_to_date state resources"
    unfolding sent_names_Nil_iff removed_names_Nil_iff up_to_date_def
    by (auto split: option.splits)
  then show ?thesis by (simp add: rawd_resources_createDeltaResponse [OF assms])
qed

lemma up_to_date_cong:
  assumes "\<And>n. in_scope state n \<Longrightarrow>
      mget (rc_resourceMap r1) n = mget (rc_resourceMap r2) n \<and> version_of r1 n = version_of r2 n"
  shows "up_to_date state r1 = up_to_date state r2"
  unfolding up_to_date_def by (intro all_cong1 imp_cong refl) (simp add: assms split: option.split)

end
