(* ===== verification/Watches.thy ===== *)
theory Watches
  imports DeltaCompute
begin

text \<open>
  What the caches share: the watches they keep (\<open>pkg/cache/v3/status.go\<close>), the sends an operation
  makes on the channels of its clients, and the contract of \<open>CreateDeltaWatch\<close> of the \<open>ConfigWatcher\<close>
  interface (\<open>pkg/cache/v3/cache.go\<close>) as a locale, under which a client stays in sync.
\<close>

section \<open>Watches and sends\<close>

text \<open>A watch kept by a cache (\<open>pkg/cache/v3/status.go\<close>), and one message sent on a channel.\<close>

record ResponseWatch =
  w_Request :: DiscoveryRequest
  w_Response :: chan

record DeltaResponseWatch =
  dw_Request :: DeltaDiscoveryRequest
  dw_Response :: chan
  dw_StreamState :: StreamState

datatype send = Send chan "Response option" | SendDelta chan "DeltaResponse option"

section \<open>Staying in sync\<close>

text \<open>A parked client that the server tracks holds the target already.\<close>

lemma up_to_date_target:
  assumes "up_to_date st r" and "tracks st cl" and "in_scope st n"
    and "\<And>r'. mget (rc_resourceMap r) n = Some r' \<Longrightarrow> version_of r n \<noteq> ''''"
  shows "cl n = target st r n"
proof -
  from assms(1,3) have up: "case mget (rc_resourceMap r) n of
      None \<Rightarrow> mget (ss_resourceVersions st) n = None
    | Some _ \<Rightarrow> if IsWildcard st then mget (ss_resourceVersions st) n = Some (version_of r n)
               else mget_or '''' (ss_resourceVersions st) n = version_of r n"
    unfolding up_to_date_def by blast
  from assms(2,3) have tr: "case mget (ss_resourceVersions st) n of
      None \<Rightarrow> cl n = None | Some v \<Rightarrow> v = '''' \<or> cl n = Some v"
    unfolding tracks_def by blast
  show ?thesis
    using up tr assms(4)
    by (cases "mget (rc_resourceMap r) n"; cases "mget (ss_resourceVersions st) n")
      (auto simp: target_def split: if_splits)
qed

text \<open>A client that applied a response is tracked by the next version map of that response.\<close>

lemma tracks_after_response:
  assumes ok: "versions_ok L r" and tr: "tracks st cl"
    and m: "GetDeltaDiscoveryResponse L (createDeltaResponse ctx req st r) = (Inr m, r')"
  shows "tracks (SetResourceVersions (rawd_next_version_map (createDeltaResponse ctx req st r)) st)
     (client_apply m cl)"
proof -
  let ?vm = "rawd_next_version_map (createDeltaResponse ctx req st r)"
  have wf: "wf_map (rc_resourceMap r)" using ok by (simp add: versions_ok_def)
  have scope: "in_scope (SetResourceVersions ?vm st) n = in_scope st n" for n
    by (simp add: in_scope_def stream_state_defs)
  have "case mget ?vm n of None \<Rightarrow> client_apply m cl n = None
      | Some v \<Rightarrow> v = '''' \<or> client_apply m cl n = Some v" if "in_scope st n" for n
    using delta_response_target [OF ok tr m that] that
    by (simp add: mget_next_version_map [OF wf] target_def)
  then show ?thesis unfolding tracks_def scope by (simp add: SetResourceVersions_def)
qed

text \<open>The client after the sends of an operation: it applies the response, if there is one.\<close>

definition client_after :: "lib \<Rightarrow> send list \<Rightarrow> (string \<rightharpoonup> string) \<Rightarrow> (string \<rightharpoonup> string)" where
  "client_after L sends cl =
     (case sends of
        [SendDelta ch (Some (RawDelta resp))] \<Rightarrow>
          (case GetDeltaDiscoveryResponse L resp of (Inr m, resp') \<Rightarrow> client_apply m cl | _ \<Rightarrow> cl)
      | _ \<Rightarrow> cl)"

section \<open>The contract of CreateDeltaWatch\<close>

text \<open>
  What a delta stream relies on: a cache that shows resources for a request answers with the
  difference to what the stream holds, or says nothing when there is no difference.  \<open>view\<close> is
  what the cache holds for a request, \<open>inv\<close> what holds of its states.
\<close>

locale delta_source =
  fixes L :: lib
    and inv :: "'c \<Rightarrow> bool"
    and view :: "DeltaDiscoveryRequest \<Rightarrow> 'c \<Rightarrow> resourceContainer option"
    and create :: "DeltaDiscoveryRequest \<Rightarrow> StreamState \<Rightarrow> chan \<Rightarrow> 'c \<Rightarrow> 'c \<times> send list \<times> 'k option"
  assumes view_ok: "inv c \<Longrightarrow> view req c = Some r \<Longrightarrow> versions_ok L r"
    and create_inv: "inv c \<Longrightarrow> create req st ch c = (c', sends, k) \<Longrightarrow> inv c'"
    and create_answer: "inv c \<Longrightarrow> create req st ch c = (c', sends, k) \<Longrightarrow> view req c' = Some r \<Longrightarrow>
        sends = [] \<and> up_to_date st r \<or>
        (\<exists>ctx. sends = [SendDelta ch (Some (RawDelta (createDeltaResponse ctx req st r)))])"
begin

lemma client_in_sync:
  assumes "inv c" and step: "create req st ch c = (c', sends, k)" and view: "view req c' = Some r"
    and tr: "tracks st cl" and scope: "in_scope st n"
  shows "client_after L sends cl n = target st r n"
proof -
  have ok: "versions_ok L r" by (rule view_ok [OF create_inv [OF assms(1) step] view])
  from create_answer [OF assms(1) step view] show ?thesis
  proof (elim disjE exE conjE)
    assume "sends = []" and up: "up_to_date st r"
    then show ?thesis
      using up_to_date_target [OF up tr scope] versions_ok_get [OF ok] by (simp add: client_after_def)
  next
    fix ctx
    assume s: "sends = [SendDelta ch (Some (RawDelta (createDeltaResponse ctx req st r)))]"
    obtain m r' where m: "GetDeltaDiscoveryResponse L (createDeltaResponse ctx req st r) = (Inr m, r')"
      using delta_marshal_total [OF ok] by blast
    with s delta_response_target [OF ok tr m scope] show ?thesis by (simp add: client_after_def)
  qed
qed

text \<open>And the stream state the server keeps next tracks that client.\<close>

lemma client_still_tracked:
  assumes "inv c" and step: "create req st ch c = (c', sends, k)" and view: "view req c' = Some r"
    and tr: "tracks st cl" and s: "sends = [SendDelta ch (Some (RawDelta resp))]"
  shows "tracks (SetResourceVersions (rawd_next_version_map resp) st) (client_after L sends cl)"
proof -
  have ok: "versions_ok L r" by (rule view_ok [OF create_inv [OF assms(1) step] view])
  from create_answer [OF assms(1) step view] s obtain ctx where
    resp: "resp = createDeltaResponse ctx req st r" by auto
  obtain m r' where m: "GetDeltaDiscoveryResponse L (createDeltaResponse ctx req st r) = (Inr m, r')"
    using delta_marshal_total [OF ok] by blast
  from tracks_after_response [OF ok tr m] m show ?thesis by (simp add: s resp client_after_def)
qed

end

end
