(* ===== verification/LinearCache.thy ===== *)
theory LinearCache
  imports Watches
begin

text \<open>
  The linear cache of \<open>pkg/cache/v3/linear.go\<close>: one collection of opaque resources with a single
  version counter, state-of-the-world watches by resource name or for the whole collection, and
  delta watches.  Every public operation runs under the cache's mutex, so an operation is one
  function from state to state.  Sending on a channel appends to the list of sends the operation
  returns, in order.  A cancel function is the value of \<open>linear_canceler\<close> that says what it
  undoes.  Logging is left out, except where the code calls a logger that may be nil: then the
  operation ends in \<open>PanicNilDereference\<close>.  The map of resources may be one the caller handed in,
  and that may be nil: \<open>lc_nilResources\<close> says so.  Reading a nil map is reading an empty one, an
  operation that inserts into it ends in \<open>PanicNilMap\<close>.
\<close>

section \<open>State\<close>

record LinearCache =
  lc_typeURL :: string
  lc_resources :: "(string, Resource) gomap"
  lc_nilResources :: bool
  lc_watches :: "(string, chan goset) gomap"
  lc_watchAll :: "chan goset"
  lc_deltaWatches :: "(int64, DeltaResponseWatch) gomap"
  lc_deltaWatchCount :: int64
  lc_versionMap :: "(string, string) gomap option"
  lc_version :: u64
  lc_versionPrefix :: string
  lc_versionVector :: "(string, u64) gomap"
  lc_log :: bool

datatype linear_canceler = CancelWatchAll chan | CancelWatch "string list" chan | CancelDelta int64

definition WithVersionPrefix :: "string \<Rightarrow> LinearCache \<Rightarrow> LinearCache" where
  "WithVersionPrefix prefix cache = cache\<lparr>lc_versionPrefix := prefix\<rparr>"

text \<open>What reading a map shows; \<open>None\<close> is the nil map.\<close>

definition go_map :: "('k, 'v) gomap option \<Rightarrow> ('k, 'v) gomap" where
  "go_map m = (case m of None \<Rightarrow> [] | Some m \<Rightarrow> m)"

definition WithInitialResources :: "(string, Resource) gomap option \<Rightarrow> LinearCache \<Rightarrow> LinearCache" where
  "WithInitialResources resources cache =
     cache\<lparr>lc_resources := go_map resources, lc_nilResources := resources = None,
           lc_versionVector := fold (\<lambda>name. mput name 0) (mkeys (go_map resources)) (lc_versionVector cache)\<rparr>"

definition WithLogger :: "LinearCache \<Rightarrow> LinearCache" where
  "WithLogger cache = cache\<lparr>lc_log := True\<rparr>"

definition NewLinearCache :: "string \<Rightarrow> (LinearCache \<Rightarrow> LinearCache) list \<Rightarrow> LinearCache" where
  "NewLinearCache typeURL opts =
     fold (\<lambda>opt out. opt out) opts
       \<lparr>lc_typeURL = typeURL, lc_resources = [], lc_nilResources = False, lc_watches = [], lc_watchAll = [],
        lc_deltaWatches = [], lc_deltaWatchCount = 0, lc_versionMap = None, lc_version = 0,
        lc_versionPrefix = '''', lc_versionVector = [], lc_log = False\<rparr>"

section \<open>Responding\<close>

definition linear_getVersion :: "LinearCache \<Rightarrow> string" where
  "linear_getVersion cache = lc_versionPrefix cache @ FormatUint (lc_version cache)"

definition linear_respond :: "LinearCache \<Rightarrow> chan \<Rightarrow> string list \<Rightarrow> send" where
  "linear_respond cache value staleResources =
     (let resources =
        (if length staleResources = 0
         then map (\<lambda>(_, r). \<lparr>rt_resource = r, rt_ttl = None\<rparr>) (lc_resources cache)
         else concat (map (\<lambda>name.
                case mget_or None (lc_resources cache) name of
                  None \<Rightarrow> []
                | Some m \<Rightarrow> [\<lparr>rt_resource = Some m, rt_ttl = None\<rparr>]) staleResources))
      in Send value (Some (Raw
           \<lparr>raw_request = empty_request\<lparr>req_type_url := lc_typeURL cache\<rparr>,
            raw_version = linear_getVersion cache, raw_resources = resources,
            raw_heartbeat = False, raw_ctx = Background, raw_marshaled = None\<rparr>)))"

definition linear_container :: "LinearCache \<Rightarrow> resourceContainer" where
  "linear_container cache =
     \<lparr>rc_resourceMap = lc_resources cache,
      rc_versionMap = (case lc_versionMap cache of None \<Rightarrow> [] | Some m \<Rightarrow> m),
      rc_systemVersion = linear_getVersion cache\<rparr>"

text \<open>\<open>None\<close> when there is nothing to send; otherwise the response that is sent.\<close>

definition linear_respondDelta ::
    "LinearCache \<Rightarrow> DeltaDiscoveryRequest \<Rightarrow> StreamState \<Rightarrow> RawDeltaResponse option" where
  "linear_respondDelta cache request state =
     (let resp = createDeltaResponse Background request state (linear_container cache)
      in if length (rawd_resources resp) > 0 \<or> length (rawd_removed_resources resp) > 0
            \<or> IsWildcard state \<and> IsFirst state
         then Some resp else None)"

section \<open>Versions of the delta protocol\<close>

definition updateVersionMap_step ::
    "lib \<Rightarrow> string \<Rightarrow> LinearCache \<Rightarrow> LinearCache \<times> go_error option" where
  "updateVersionMap_step L name cache =
     (let vm = (case lc_versionMap cache of None \<Rightarrow> [] | Some m \<Rightarrow> m) in
      case mget (lc_resources cache) name of
        None \<Rightarrow> (cache\<lparr>lc_versionMap := Some (mdel name vm)\<rparr>, None)
      | Some r \<Rightarrow>
          (case resource_version L r of
             Inl e \<Rightarrow> (cache, Some e)
           | Inr v \<Rightarrow> (cache\<lparr>lc_versionMap := Some (mput name v vm)\<rparr>, None)))"

definition updateVersionMap ::
    "lib \<Rightarrow> string goset \<Rightarrow> LinearCache \<Rightarrow> LinearCache \<times> go_error option" where
  "updateVersionMap L modified cache =
     (let cache = (if lc_versionMap cache = None then cache\<lparr>lc_versionMap := Some []\<rparr> else cache)
      in foldM_err (updateVersionMap_step L) modified cache)"

section \<open>Notification\<close>

text \<open>
  The first loop of \<open>notifyAll\<close>: for every modified name, note for each of its watches that the
  name is stale, and forget the watches of the name.
\<close>

definition notify_collect ::
    "string \<Rightarrow> (chan, string list) gomap \<times> (string, chan goset) gomap
       \<Rightarrow> (chan, string list) gomap \<times> (string, chan goset) gomap" where
  "notify_collect name = (\<lambda>(notifyList, ws).
     (fold (\<lambda>watch nl. mput watch (mget_or [] nl watch @ [name]) nl) (mget_or [] ws name) notifyList,
      mdel name ws))"

definition notify_delta ::
    "string goset \<Rightarrow> int64 \<times> DeltaResponseWatch \<Rightarrow> LinearCache \<times> send list \<Rightarrow> LinearCache \<times> send list" where
  "notify_delta modified = (\<lambda>(id, watch) (cache, sends).
     if \<not> WatchesResources modified (dw_StreamState watch) then (cache, sends)
     else case linear_respondDelta cache (dw_Request watch) (dw_StreamState watch) of
            None \<Rightarrow> (cache, sends)
          | Some res \<Rightarrow> (cache\<lparr>lc_deltaWatches := mdel id (lc_deltaWatches cache)\<rparr>,
                         sends @ [SendDelta (dw_Response watch) (Some (RawDelta res))]))"

definition notifyAll ::
    "lib \<Rightarrow> string goset \<Rightarrow> LinearCache \<Rightarrow> LinearCache \<times> send list \<times> go_error option" where
  "notifyAll L modified cache =
     (let (notifyList, ws) = fold notify_collect modified ([], lc_watches cache);
          cache = cache\<lparr>lc_watches := ws\<rparr>;
          sends1 = map (\<lambda>(value, stale). linear_respond cache value stale) notifyList;
          sends2 = map (\<lambda>value. linear_respond cache value []) (lc_watchAll cache);
          cache = cache\<lparr>lc_watchAll := []\<rparr>
      in if lc_versionMap cache = None then (cache, sends1 @ sends2, None)
         else case updateVersionMap L modified cache of
                (cache, err) \<Rightarrow>
                  if err \<noteq> None \<and> \<not> lc_log cache
                  then (cache, sends1 @ sends2, Some PanicNilDereference)
                  else (case fold (notify_delta modified) (lc_deltaWatches cache)
                               (cache, sends1 @ sends2) of
                          (cache, sends) \<Rightarrow> (cache, sends, None)))"

section \<open>Changing the resources\<close>

type_synonym linear_result = "LinearCache \<times> send list \<times> go_error option"

definition UpdateResource :: "lib \<Rightarrow> string \<Rightarrow> Resource \<Rightarrow> LinearCache \<Rightarrow> linear_result" where
  "UpdateResource L name res cache =
     (if res = None then (cache, [], Some NilResource)
      else let version = lc_version cache + 1;
               cache = cache\<lparr>lc_version := version,
                             lc_versionVector := mput name version (lc_versionVector cache)\<rparr>
           in if lc_nilResources cache then (cache, [], Some PanicNilMap)
              else notifyAll L [name] (cache\<lparr>lc_resources := mput name res (lc_resources cache)\<rparr>))"

definition DeleteResource :: "lib \<Rightarrow> string \<Rightarrow> LinearCache \<Rightarrow> linear_result" where
  "DeleteResource L name cache =
     (let cache = cache\<lparr>lc_version := lc_version cache + 1,
                        lc_versionVector := mdel name (lc_versionVector cache),
                        lc_resources := mdel name (lc_resources cache)\<rparr>
      in notifyAll L [name] cache)"

definition UpdateResources ::
    "lib \<Rightarrow> (string, Resource) gomap \<Rightarrow> string list \<Rightarrow> LinearCache \<Rightarrow> linear_result" where
  "UpdateResources L toUpdate toDelete cache =
     (let cache = cache\<lparr>lc_version := lc_version cache + 1\<rparr> in
      if lc_nilResources cache \<and> toUpdate \<noteq> []
      then (cache\<lparr>lc_versionVector := mput (fst (hd toUpdate)) (lc_version cache) (lc_versionVector cache)\<rparr>,
            [], Some PanicNilMap)
      else
      let (cache, modified) =
            fold (\<lambda>(name, resource) (cache, modified).
                (cache\<lparr>lc_versionVector := mput name (lc_version cache) (lc_versionVector cache),
                       lc_resources := mput name resource (lc_resources cache)\<rparr>,
                 sadd name modified))
              toUpdate (cache, []);
          (cache, modified) =
            fold (\<lambda>name (cache, modified).
                (cache\<lparr>lc_versionVector := mdel name (lc_versionVector cache),
                       lc_resources := mdel name (lc_resources cache)\<rparr>,
                 sadd name modified))
              toDelete (cache, modified)
      in notifyAll L modified cache)"

definition SetResources :: "lib \<Rightarrow> (string, Resource) gomap option \<Rightarrow> LinearCache \<Rightarrow> linear_result" where
  "SetResources L resources cache =
     (let cache = cache\<lparr>lc_version := lc_version cache + 1\<rparr>;
          (cache, modified) =
            fold (\<lambda>name (cache, modified).
                if mget (go_map resources) name = None
                then (cache\<lparr>lc_versionVector := mdel name (lc_versionVector cache)\<rparr>, sadd name modified)
                else (cache, modified))
              (mkeys (lc_resources cache)) (cache, []);
          cache = cache\<lparr>lc_resources := go_map resources, lc_nilResources := resources = None\<rparr>;
          (cache, modified) =
            fold (\<lambda>name (cache, modified).
                (cache\<lparr>lc_versionVector := mput name (lc_version cache) (lc_versionVector cache)\<rparr>,
                 sadd name modified))
              (mkeys (go_map resources)) (cache, modified)
      in notifyAll L modified cache)"

definition GetResources :: "LinearCache \<Rightarrow> (string, Resource) gomap" where
  "GetResources cache = fold (\<lambda>(k, v). mput k v) (lc_resources cache) []"

section \<open>Watches\<close>

definition parse_version :: "string \<Rightarrow> string \<Rightarrow> go_error + u64" where
  "parse_version prefix version_info =
     (if HasPrefix version_info prefix then ParseUint (drop (length prefix) version_info)
      else Inl PrefixMismatch)"

text \<open>Whether a request is stale, and for which names; no names mean all.\<close>

definition linear_stale :: "LinearCache \<Rightarrow> DiscoveryRequest \<Rightarrow> bool \<times> string list" where
  "linear_stale cache request =
     (case parse_version (lc_versionPrefix cache) (req_version_info request) of
        Inl _ \<Rightarrow> (True, req_resource_names request)
      | Inr lastVersion \<Rightarrow>
          if length (req_resource_names request) = 0
          then (lastVersion \<noteq> lc_version cache, [])
          else fold (\<lambda>name (stale, staleResources).
                   if lastVersion < mget_or 0 (lc_versionVector cache) name
                   then (True, staleResources @ [name]) else (stale, staleResources))
                 (req_resource_names request) (False, []))"

definition linear_CreateWatch ::
    "DiscoveryRequest \<Rightarrow> StreamState \<Rightarrow> chan \<Rightarrow> LinearCache
       \<Rightarrow> LinearCache \<times> send list \<times> linear_canceler option" where
  "linear_CreateWatch request state value cache =
     (if req_type_url request \<noteq> lc_typeURL cache then (cache, [Send value None], None)
      else let (stale, staleResources) = linear_stale cache request in
        if stale then (cache, [linear_respond cache value staleResources], None)
        else if length (req_resource_names request) = 0
        then (cache\<lparr>lc_watchAll := sadd value (lc_watchAll cache)\<rparr>, [], Some (CancelWatchAll value))
        else (cache\<lparr>lc_watches :=
                fold (\<lambda>name ws. mput name (sadd value (mget_or [] ws name)) ws)
                  (req_resource_names request) (lc_watches cache)\<rparr>,
              [], Some (CancelWatch (req_resource_names request) value)))"

definition nextDeltaWatchID :: "LinearCache \<Rightarrow> int64 \<times> LinearCache" where
  "nextDeltaWatchID cache =
     (let n = lc_deltaWatchCount cache + 1 in (n, cache\<lparr>lc_deltaWatchCount := n\<rparr>))"

definition linear_CreateDeltaWatch ::
    "lib \<Rightarrow> DeltaDiscoveryRequest \<Rightarrow> StreamState \<Rightarrow> chan \<Rightarrow> LinearCache
       \<Rightarrow> LinearCache \<times> send list \<times> linear_canceler option" where
  "linear_CreateDeltaWatch L request state value cache =
     (let cache = (if lc_versionMap cache = None
                   then fst (updateVersionMap L (mkeys (lc_resources cache)) cache) else cache)
      in case linear_respondDelta cache request state of
           Some resp \<Rightarrow> (cache, [SendDelta value (Some (RawDelta resp))], None)
         | None \<Rightarrow>
             (case nextDeltaWatchID cache of
                (watchID, cache) \<Rightarrow>
                  (cache\<lparr>lc_deltaWatches :=
                     mput watchID \<lparr>dw_Request = request, dw_Response = value, dw_StreamState = state\<rparr>
                       (lc_deltaWatches cache)\<rparr>,
                   [], Some (CancelDelta watchID))))"

definition cancel_watch_name :: "chan \<Rightarrow> string \<Rightarrow> (string, chan goset) gomap \<Rightarrow> (string, chan goset) gomap" where
  "cancel_watch_name value name ws =
     (case mget ws name of
        None \<Rightarrow> mdel name ws
      | Some chs \<Rightarrow>
          let chs = sdel value chs
          in if length chs = 0 then mdel name ws else mput name chs ws)"

fun linear_cancel :: "linear_canceler \<Rightarrow> LinearCache \<Rightarrow> LinearCache" where
  "linear_cancel (CancelWatchAll value) cache =
     cache\<lparr>lc_watchAll := sdel value (lc_watchAll cache)\<rparr>"
| "linear_cancel (CancelWatch names value) cache =
     cache\<lparr>lc_watches := fold (cancel_watch_name value) names (lc_watches cache)\<rparr>"
| "linear_cancel (CancelDelta watchID) cache =
     cache\<lparr>lc_deltaWatches := mdel watchID (lc_deltaWatches cache)\<rparr>"

definition linear_Fetch :: "DiscoveryRequest \<Rightarrow> LinearCache \<Rightarrow> go_error + Response" where
  "linear_Fetch request cache = Inl NotImplemented"

definition NumResources :: "LinearCache \<Rightarrow> nat" where
  "NumResources cache = length (lc_resources cache)"

definition NumWatches :: "string \<Rightarrow> LinearCache \<Rightarrow> nat" where
  "NumWatches name cache = length (mget_or [] (lc_watches cache) name) + length (lc_watchAll cache)"

definition NumDeltaWatches :: "LinearCache \<Rightarrow> nat" where
  "NumDeltaWatches cache = length (lc_deltaWatches cache)"

end
