(* ===== verification/LinearFacts.thy ===== *)
theory LinearFacts
  imports LinearCache
begin

text \<open>
  Facts about the linear cache: the closed form of a notification, the abstract contents, the
  invariant of the reachable states, and the properties of its watches.
\<close>

section \<open>Frame conditions\<close>

lemma linear_container_frame [simp]:
  "linear_container (c\<lparr>lc_deltaWatches := x\<rparr>) = linear_container c"
  "linear_container (c\<lparr>lc_watches := w\<rparr>) = linear_container c"
  "linear_container (c\<lparr>lc_watchAll := a\<rparr>) = linear_container c"
  "linear_container (c\<lparr>lc_deltaWatchCount := k\<rparr>) = linear_container c"
  by (simp_all add: linear_container_def linear_getVersion_def)

lemma linear_respondDelta_frame [simp]:
  "linear_respondDelta (c\<lparr>lc_deltaWatches := x\<rparr>) = linear_respondDelta c"
  "linear_respondDelta (c\<lparr>lc_watches := w\<rparr>) = linear_respondDelta c"
  "linear_respondDelta (c\<lparr>lc_watchAll := a\<rparr>) = linear_respondDelta c"
  "linear_respondDelta (c\<lparr>lc_deltaWatchCount := k\<rparr>) = linear_respondDelta c"
  by (simp_all add: linear_respondDelta_def fun_eq_iff Let_def)

lemma linear_respond_frame [simp]:
  "linear_respond (c\<lparr>lc_deltaWatches := x\<rparr>) = linear_respond c"
  "linear_respond (c\<lparr>lc_watches := w\<rparr>) = linear_respond c"
  "linear_respond (c\<lparr>lc_watchAll := a\<rparr>) = linear_respond c"
  "linear_respond (c\<lparr>lc_versionMap := vm\<rparr>) = linear_respond c"
  by (simp_all add: linear_respond_def linear_getVersion_def fun_eq_iff Let_def)

lemma lc_versionMap_triv: "lc_versionMap c = vm \<Longrightarrow> c\<lparr>lc_versionMap := vm\<rparr> = c"
  by (cases c) auto

lemma updateVersionMap_frame:
  "\<exists>vm. fst (updateVersionMap L modified c) = c\<lparr>lc_versionMap := Some vm\<rparr>"
proof -
  let ?c = "if lc_versionMap c = None then c\<lparr>lc_versionMap := Some []\<rparr> else c"
  let ?P = "\<lambda>c'. \<exists>vm. c' = c\<lparr>lc_versionMap := Some vm\<rparr>"
  have "?P ?c"
    by (cases "lc_versionMap c") (auto intro: exI [of _ "[]"] dest: lc_versionMap_triv [symmetric])
  then have "?P (fst (foldM_err (updateVersionMap_step L) modified ?c))"
    by (rule foldM_err_invariant)
      (auto simp: updateVersionMap_step_def Let_def split: option.split sum.split)
  then show ?thesis by (simp add: updateVersionMap_def)
qed

section \<open>The version map holds the hashes\<close>

definition version_map_current :: "lib \<Rightarrow> LinearCache \<Rightarrow> bool" where
  "version_map_current L c \<longleftrightarrow>
     (\<forall>vm. lc_versionMap c = Some vm \<longrightarrow>
        wf_map vm \<and> (\<forall>n. mget vm n = map_option (hash_of L) (mget (lc_resources c) n)))"

lemma updateVersionMap_total:
  fixes c :: LinearCache
  assumes L: "lib_total L"
  defines "vm0 \<equiv> case lc_versionMap c of None \<Rightarrow> [] | Some m \<Rightarrow> m"
  assumes wf: "wf_map vm0"
  shows "\<exists>vm. updateVersionMap L modified c = (c\<lparr>lc_versionMap := Some vm\<rparr>, None) \<and> wf_map vm \<and>
     (\<forall>n. mget vm n = (if n \<in> set modified then map_option (hash_of L) (mget (lc_resources c) n)
                       else mget vm0 n))"
proof -
  have loop: "\<exists>vm'. foldM_err (updateVersionMap_step L) ns (c\<lparr>lc_versionMap := Some vm\<rparr>) =
        (c\<lparr>lc_versionMap := Some vm'\<rparr>, None) \<and> wf_map vm' \<and>
        (\<forall>n. mget vm' n = (if n \<in> set ns then map_option (hash_of L) (mget (lc_resources c) n)
                          else mget vm n))"
    if "wf_map vm" for ns vm
    using that
  proof (induction ns arbitrary: vm)
    case Nil
    then show ?case by (intro exI [of _ vm]) simp
  next
    case (Cons n ns)
    let ?vm = "case mget (lc_resources c) n of None \<Rightarrow> mdel n vm | Some r \<Rightarrow> mput n (hash_of L r) vm"
    have step: "updateVersionMap_step L n (c\<lparr>lc_versionMap := Some vm\<rparr>)
        = (c\<lparr>lc_versionMap := Some ?vm\<rparr>, None)"
      by (simp add: updateVersionMap_step_def Let_def lib_total_version [OF L] split: option.split)
    have "wf_map ?vm" using Cons.prems by (simp split: option.split)
    from Cons.IH [OF this] obtain vm' where
      "foldM_err (updateVersionMap_step L) ns (c\<lparr>lc_versionMap := Some ?vm\<rparr>)
         = (c\<lparr>lc_versionMap := Some vm'\<rparr>, None)" "wf_map vm'"
      "\<forall>m. mget vm' m = (if m \<in> set ns then map_option (hash_of L) (mget (lc_resources c) m)
                        else mget ?vm m)" by auto
    with step show ?case by (auto simp: mget_put mget_del split: option.splits)
  qed
  have start: "(if lc_versionMap c = None then c\<lparr>lc_versionMap := Some []\<rparr> else c)
      = c\<lparr>lc_versionMap := Some vm0\<rparr>"
    by (cases "lc_versionMap c") (auto simp: vm0_def lc_versionMap_triv)
  show ?thesis unfolding updateVersionMap_def Let_def start by (rule loop [OF wf])
qed

section \<open>The closed form of a notification\<close>

definition stale_for :: "string goset \<Rightarrow> (string, chan goset) gomap \<Rightarrow> chan \<Rightarrow> string list" where
  "stale_for modified ws ch = filter (\<lambda>n. ch \<in> set (mget_or [] ws n)) modified"

lemma fold_note_watch:
  assumes "distinct chs"
  shows "mget (fold (\<lambda>watch nl. mput watch (mget_or [] nl watch @ [name]) nl) chs nl) ch =
     (if ch \<in> set chs then Some (mget_or [] nl ch @ [name]) else mget nl ch)"
  using assms by (induction chs arbitrary: nl) (auto simp: mget_put mget_or_def split: option.splits)

lemma wf_fold_note_watch:
  "wf_map nl \<Longrightarrow> wf_map (fold (\<lambda>watch nl. mput watch (mget_or [] nl watch @ [name]) nl) chs nl)"
  by (induction chs arbitrary: nl) auto

lemma notify_collect_pair:
  "notify_collect name (nl, ws) =
     (fold (\<lambda>watch nl. mput watch (mget_or [] nl watch @ [name]) nl) (mget_or [] ws name) nl,
      mdel name ws)"
  by (simp add: notify_collect_def)

lemma fold_notify_collect:
  assumes "distinct modified" and "\<And>n. distinct (mget_or [] ws n)"
    and "wf_map nl" and "\<And>ch. mget nl ch \<noteq> Some []"
    and "fold notify_collect modified (nl, ws) = (nl', ws')"
  shows "ws' = fold mdel modified ws \<and> wf_map nl' \<and>
    (\<forall>ch. mget nl' ch = (let l = mget_or [] nl ch @ stale_for modified ws ch
                        in if l = [] then None else Some l))"
  using assms
proof (induction modified arbitrary: nl ws)
  case Nil
  have own: "mget nl ch = (if mget_or [] nl ch = [] then None else Some (mget_or [] nl ch))" for ch
    using Nil.prems(4) [of ch] by (cases "mget nl ch") auto
  from Nil.prems(5) have eq: "nl' = nl" "ws' = fold mdel [] ws" by simp_all
  show ?case
    unfolding eq Let_def stale_for_def filter.simps append_Nil2
    by (intro conjI allI refl Nil.prems(3) own)
next
  case (Cons n modified)
  let ?nl = "fold (\<lambda>watch nl. mput watch (mget_or [] nl watch @ [n]) nl) (mget_or [] ws n) nl"
  have other: "stale_for modified (mdel n ws) ch = stale_for modified ws ch" for ch
    unfolding stale_for_def
  proof (rule filter_cong [OF refl])
    fix x
    assume "x \<in> set modified"
    with Cons.prems(1) have "x \<noteq> n" by auto
    then show "(ch \<in> set (mget_or [] (mdel n ws) x)) = (ch \<in> set (mget_or [] ws x))"
      by (simp add: mget_or_def)
  qed
  have get: "mget ?nl ch = (if ch \<in> set (mget_or [] ws n) then Some (mget_or [] nl ch @ [n])
      else mget nl ch)" for ch
    by (rule fold_note_watch) (rule Cons.prems(2))
  have nonempty: "mget ?nl ch \<noteq> Some []" for ch
    using Cons.prems(4) by (simp add: get)
  have dist: "distinct (mget_or [] (mdel n ws) m)" for m
    using Cons.prems(2) [of m] by (cases "m = n") (auto simp: mget_or_def)
  have IH: "ws' = fold mdel modified (mdel n ws) \<and> wf_map nl' \<and>
    (\<forall>ch. mget nl' ch = (let l = mget_or [] ?nl ch @ stale_for modified (mdel n ws) ch
                        in if l = [] then None else Some l))"
  proof (rule Cons.IH)
    show "distinct modified" using Cons.prems(1) by simp
    show "wf_map ?nl" by (rule wf_fold_note_watch) (rule Cons.prems(3))
    show "fold notify_collect modified (?nl, mdel n ws) = (nl', ws')"
      using Cons.prems(5) by (simp add: notify_collect_pair)
  qed (rule dist nonempty)+
  have "mget_or [] ?nl ch = mget_or [] nl ch @ (if ch \<in> set (mget_or [] ws n) then [n] else [])" for ch
    unfolding mget_or_def [of "[]" ?nl] get by (simp add: mget_or_def)
  with IH other show ?case by (simp add: stale_for_def Let_def)
qed

text \<open>The delta part: the watches that fire are removed, each with its own response.\<close>

definition delta_fires :: "string goset \<Rightarrow> LinearCache \<Rightarrow> DeltaResponseWatch \<Rightarrow> bool" where
  "delta_fires modified c w \<longleftrightarrow>
     WatchesResources modified (dw_StreamState w) \<and>
     linear_respondDelta c (dw_Request w) (dw_StreamState w) \<noteq> None"

definition delta_send :: "LinearCache \<Rightarrow> DeltaResponseWatch \<Rightarrow> send" where
  "delta_send c w = SendDelta (dw_Response w)
     (map_option RawDelta (linear_respondDelta c (dw_Request w) (dw_StreamState w)))"

lemma delta_fires_frame [simp]:
  "delta_fires modified (c\<lparr>lc_deltaWatches := x\<rparr>) = delta_fires modified c"
  "delta_send (c\<lparr>lc_deltaWatches := x\<rparr>) = delta_send c"
  by (simp_all add: fun_eq_iff delta_fires_def delta_send_def)

lemma fold_notify_delta:
  "fold (notify_delta modified) ws (c, sends) =
     (c\<lparr>lc_deltaWatches := fold mdel (map fst (filter (\<lambda>(id, w). delta_fires modified c w) ws))
          (lc_deltaWatches c)\<rparr>,
      sends @ map (\<lambda>(id, w). delta_send c w) (filter (\<lambda>(id, w). delta_fires modified c w) ws))"
  by (induction ws arbitrary: c sends)
    (auto simp: notify_delta_def delta_fires_def delta_send_def split: option.splits)

text \<open>What one channel receives of a list of sends.\<close>

definition sotw_sends :: "chan \<Rightarrow> send list \<Rightarrow> send list" where
  "sotw_sends ch sends = filter (\<lambda>s. case s of Send c _ \<Rightarrow> c = ch | SendDelta _ _ \<Rightarrow> False) sends"

lemma sotw_sends_append [simp]: "sotw_sends ch (a @ b) = sotw_sends ch a @ sotw_sends ch b"
  by (simp add: sotw_sends_def)

lemma sotw_sends_delta [simp]: "sotw_sends ch (map (\<lambda>(id, w). delta_send c w) ws) = []"
  by (auto simp: sotw_sends_def delta_send_def filter_empty_conv)

lemma sotw_sends_Nil [simp]: "sotw_sends ch [] = []"
  by (simp add: sotw_sends_def)

lemma sotw_sends_respond:
  "sotw_sends ch (linear_respond c value stale # ss) =
     (if value = ch then [linear_respond c value stale] else []) @ sotw_sends ch ss"
  by (simp add: sotw_sends_def linear_respond_def Let_def)

lemma sotw_sends_notifyList:
  "wf_map nl \<Longrightarrow> sotw_sends ch (map (\<lambda>(value, stale). linear_respond c value stale) nl) =
     (case mget nl ch of None \<Rightarrow> [] | Some stale \<Rightarrow> [linear_respond c ch stale])"
  by (induction nl) (auto simp: sotw_sends_respond mget_eq_None_iff [THEN iffD2])

lemma sotw_sends_all:
  "distinct chs \<Longrightarrow> sotw_sends ch (map (\<lambda>value. linear_respond c value []) chs) =
     (if ch \<in> set chs then [linear_respond c ch []] else [])"
  by (induction chs) (auto simp: sotw_sends_respond)

section \<open>Operations as steps\<close>

text \<open>The public operations, and the step each takes.\<close>

datatype linear_op =
    OpUpdateResource string Resource
  | OpDeleteResource string
  | OpUpdateResources "(string, Resource) gomap" "string list"
  | OpSetResources "(string, Resource) gomap option"
  | OpCreateWatch DiscoveryRequest StreamState chan
  | OpCreateDeltaWatch DeltaDiscoveryRequest StreamState chan
  | OpCancel linear_canceler

fun linear_step :: "lib \<Rightarrow> linear_op \<Rightarrow> LinearCache \<Rightarrow> linear_result" where
  "linear_step L (OpUpdateResource name res) c = UpdateResource L name res c"
| "linear_step L (OpDeleteResource name) c = DeleteResource L name c"
| "linear_step L (OpUpdateResources upd del) c = UpdateResources L upd del c"
| "linear_step L (OpSetResources res) c = SetResources L res c"
| "linear_step L (OpCreateWatch req state value) c =
     (case linear_CreateWatch req state value c of (c', sends, cancel) \<Rightarrow> (c', sends, None))"
| "linear_step L (OpCreateDeltaWatch req state value) c =
     (case linear_CreateDeltaWatch L req state value c of (c', sends, cancel) \<Rightarrow> (c', sends, None))"
| "linear_step L (OpCancel k) c = (linear_cancel k c, [], None)"

text \<open>A Go map that is passed in has one entry per key.\<close>

fun op_wf :: "linear_op \<Rightarrow> bool" where
  "op_wf (OpUpdateResources upd del) = wf_map upd"
| "op_wf (OpSetResources res) = wf_map (go_map res)"
| "op_wf _ = True"

text \<open>
  An operation that inserts panics when the map of resources is nil.  A panic ends the program, so
  the operations of a program that goes on are those that do not.
\<close>

fun op_inserts :: "linear_op \<Rightarrow> bool" where
  "op_inserts (OpUpdateResource name res) = (res \<noteq> None)"
| "op_inserts (OpUpdateResources upd del) = (upd \<noteq> [])"
| "op_inserts _ = False"

definition op_panics :: "LinearCache \<Rightarrow> linear_op \<Rightarrow> bool" where
  "op_panics c op \<longleftrightarrow> lc_nilResources c \<and> op_inserts op"

definition op_ok :: "LinearCache \<Rightarrow> linear_op \<Rightarrow> bool" where
  "op_ok c op \<longleftrightarrow> op_wf op \<and> \<not> op_panics c op"

fun op_modifies :: "linear_op \<Rightarrow> bool" where
  "op_modifies (OpUpdateResource name res) = (res \<noteq> None)"
| "op_modifies (OpDeleteResource name) = True"
| "op_modifies (OpUpdateResources upd del) = True"
| "op_modifies (OpSetResources res) = True"
| "op_modifies _ = False"

text \<open>The abstract contents after an operation, and the names it counts as modified.\<close>

fun op_lookup :: "linear_op \<Rightarrow> (string \<rightharpoonup> Resource) \<Rightarrow> (string \<rightharpoonup> Resource)" where
  "op_lookup (OpUpdateResource name res) m = (if res = None then m else m(name \<mapsto> res))"
| "op_lookup (OpDeleteResource name) m = m(name := None)"
| "op_lookup (OpUpdateResources upd del) m = (m ++ mget upd) |` (- set del)"
| "op_lookup (OpSetResources res) m = mget (go_map res)"
| "op_lookup _ m = m"

fun op_names :: "linear_op \<Rightarrow> (string \<rightharpoonup> Resource) \<Rightarrow> string set" where
  "op_names (OpUpdateResource name res) m = {name}"
| "op_names (OpDeleteResource name) m = {name}"
| "op_names (OpUpdateResources upd del) m = dom (mget upd) \<union> set del"
| "op_names (OpSetResources res) m = dom m \<union> dom (mget (go_map res))"
| "op_names _ m = {}"

definition linear_wf :: "LinearCache \<Rightarrow> bool" where
  "linear_wf c \<longleftrightarrow>
     wf_map (lc_resources c) \<and> wf_map (lc_watches c) \<and>
     (\<forall>n. distinct (mget_or [] (lc_watches c) n)) \<and> distinct (lc_watchAll c) \<and>
     wf_map (lc_deltaWatches c) \<and> wf_map (lc_versionVector c)"

text \<open>
  The state right before the notification: the version is incremented, the resources are the
  abstract contents, and exactly the modified names that are present carry the new version.
\<close>

definition bumped :: "linear_op \<Rightarrow> LinearCache \<Rightarrow> LinearCache \<Rightarrow> bool" where
  "bumped op c c1 \<longleftrightarrow>
     (\<exists>vv rs nr. c1 = c\<lparr>lc_version := lc_version c + 1, lc_versionVector := vv, lc_resources := rs,
            lc_nilResources := nr\<rparr> \<and>
        wf_map vv \<and> wf_map rs \<and> mget rs = op_lookup op (mget (lc_resources c)) \<and>
        (\<forall>n. mget vv n = (if n \<in> op_names op (mget (lc_resources c))
                          then (if mget rs n = None then None else Some (lc_version c + 1))
                          else mget (lc_versionVector c) n)))"

lemma fold_update_pairs:
  "fold (\<lambda>(name, resource) (cache, modified).
       (cache\<lparr>lc_versionVector := mput name (lc_version cache) (lc_versionVector cache),
              lc_resources := mput name resource (lc_resources cache)\<rparr>,
        sadd name modified)) upd (c, m) =
   (c\<lparr>lc_versionVector := fold (\<lambda>(n, r). mput n (lc_version c)) upd (lc_versionVector c),
      lc_resources := fold (\<lambda>(n, r). mput n r) upd (lc_resources c)\<rparr>,
    fold sadd (map fst upd) m)"
  by (induction upd arbitrary: c m) auto

lemma fold_delete_names:
  "fold (\<lambda>name (cache, modified).
       (cache\<lparr>lc_versionVector := mdel name (lc_versionVector cache),
              lc_resources := mdel name (lc_resources cache)\<rparr>,
        sadd name modified)) del (c, m) =
   (c\<lparr>lc_versionVector := fold mdel del (lc_versionVector c),
      lc_resources := fold mdel del (lc_resources c)\<rparr>,
    fold sadd del m)"
  by (induction del arbitrary: c m) auto

lemma fold_set_deleted:
  "fold (\<lambda>name (cache, modified).
       if mget resources name = None
       then (cache\<lparr>lc_versionVector := mdel name (lc_versionVector cache)\<rparr>, sadd name modified)
       else (cache, modified)) ns (c, m) =
   (c\<lparr>lc_versionVector :=
        fold mdel (filter (\<lambda>n. mget resources n = None) ns) (lc_versionVector c)\<rparr>,
    fold sadd (filter (\<lambda>n. mget resources n = None) ns) m)"
  by (induction ns arbitrary: c m) auto

lemma fold_set_changed:
  "fold (\<lambda>name (cache, modified).
       (cache\<lparr>lc_versionVector := mput name (lc_version cache) (lc_versionVector cache)\<rparr>,
        sadd name modified)) ns (c, m) =
   (c\<lparr>lc_versionVector := fold (\<lambda>n. mput n (lc_version c)) ns (lc_versionVector c)\<rparr>,
    fold sadd ns m)"
  by (induction ns arbitrary: c m) auto

lemma bump_UpdateResources:
  assumes wf: "linear_wf c" and ok: "wf_map upd" and nil: "\<not> (lc_nilResources c \<and> upd \<noteq> [])"
  shows "\<exists>M c1. UpdateResources L upd del c = notifyAll L M c1 \<and> distinct M \<and>
     set M = op_names (OpUpdateResources upd del) (mget (lc_resources c)) \<and>
     bumped (OpUpdateResources upd del) c c1"
proof -
  let ?rs = "fold mdel del (fold (\<lambda>(n, r). mput n r) upd (lc_resources c))"
  let ?vv = "fold mdel del (fold (\<lambda>(n, r). mput n (lc_version c + 1)) upd (lc_versionVector c))"
  let ?c = "c\<lparr>lc_version := lc_version c + 1, lc_versionVector := ?vv, lc_resources := ?rs\<rparr>"
  have step: "UpdateResources L upd del c = notifyAll L (fold sadd del (fold sadd (map fst upd) [])) ?c"
    using nil by (auto simp: UpdateResources_def Let_def fold_update_pairs fold_delete_names)
  have "mget ?rs = op_lookup (OpUpdateResources upd del) (mget (lc_resources c))"
    by (rule ext) (auto simp: mget_fold_del mget_fold_put_pairs [OF ok] map_add_def restrict_map_def
        split: option.splits)
  moreover have "mget ?vv n = (if n \<in> op_names (OpUpdateResources upd del) (mget (lc_resources c))
      then (if mget ?rs n = None then None else Some (lc_version c + 1))
      else mget (lc_versionVector c) n)" for n
    by (auto simp: mget_fold_del mget_fold_put_pairs [OF ok] split: option.splits)
  moreover have "wf_map ?rs" "wf_map ?vv"
    using wf by (simp_all add: linear_wf_def wf_fold_del wf_fold_put_pairs)
  ultimately have "bumped (OpUpdateResources upd del) c ?c"
    unfolding bumped_def by (intro exI [of _ ?vv] exI [of _ ?rs] exI [of _ "lc_nilResources c"]) simp
  moreover have "set (fold sadd del (fold sadd (map fst upd) []))
      = op_names (OpUpdateResources upd del) (mget (lc_resources c))"
    by (auto simp: set_mkeys simp del: set_map)
  moreover have "distinct (fold sadd del (fold sadd (map fst upd) []))" by simp
  ultimately show ?thesis using step by blast
qed

lemma bump_SetResources:
  assumes wf: "linear_wf c" and ok: "wf_map (go_map res)"
  shows "\<exists>M c1. SetResources L res c = notifyAll L M c1 \<and> distinct M \<and>
     set M = op_names (OpSetResources res) (mget (lc_resources c)) \<and>
     bumped (OpSetResources res) c c1"
proof -
  let ?old = "filter (\<lambda>n. mget (go_map res) n = None) (mkeys (lc_resources c))"
  let ?vv = "fold (\<lambda>n. mput n (lc_version c + 1)) (mkeys (go_map res)) (fold mdel ?old (lc_versionVector c))"
  let ?c = "c\<lparr>lc_version := lc_version c + 1, lc_versionVector := ?vv, lc_resources := go_map res,
      lc_nilResources := res = None\<rparr>"
  have step: "SetResources L res c = notifyAll L (fold sadd (mkeys (go_map res)) (fold sadd ?old [])) ?c"
    by (cases c) (simp add: SetResources_def Let_def fold_set_deleted fold_set_changed)
  have "mget ?vv n = (if n \<in> op_names (OpSetResources res) (mget (lc_resources c))
      then (if mget (go_map res) n = None then None else Some (lc_version c + 1))
      else mget (lc_versionVector c) n)" for n
    by (auto simp: mget_fold_put mget_fold_del set_mkeys simp del: set_map)
  moreover have "wf_map ?vv"
    using wf by (simp add: linear_wf_def wf_fold_del wf_fold_put)
  ultimately have "bumped (OpSetResources res) c ?c"
    unfolding bumped_def using ok
    by (intro exI [of _ ?vv] exI [of _ "go_map res"] exI [of _ "res = None"] conjI refl allI) simp_all
  moreover have "set (fold sadd (mkeys (go_map res)) (fold sadd ?old []))
      = op_names (OpSetResources res) (mget (lc_resources c))"
    by (auto simp: set_mkeys simp del: set_map)
  moreover have "distinct (fold sadd (mkeys (go_map res)) (fold sadd ?old []))" by simp
  ultimately show ?thesis using step by blast
qed

lemma op_bump:
  assumes wf: "linear_wf c" and ok: "op_ok c op" and mod: "op_modifies op"
  shows "\<exists>M c1. linear_step L op c = notifyAll L M c1 \<and> distinct M \<and>
     set M = op_names op (mget (lc_resources c)) \<and> bumped op c c1"
proof (cases op)
  case (OpUpdateResource name res)
  let ?c = "c\<lparr>lc_version := lc_version c + 1,
      lc_versionVector := mput name (lc_version c + 1) (lc_versionVector c),
      lc_resources := mput name res (lc_resources c)\<rparr>"
  have "linear_step L op c = notifyAll L [name] ?c"
    using OpUpdateResource mod ok by (auto simp: UpdateResource_def Let_def op_ok_def op_panics_def)
  moreover have "bumped op c ?c"
    unfolding bumped_def using OpUpdateResource mod wf
    by (intro exI [of _ "lc_versionVector ?c"] exI [of _ "lc_resources ?c"] exI [of _ "lc_nilResources c"])
      (auto simp: linear_wf_def mget_put)
  ultimately show ?thesis using OpUpdateResource by (intro exI conjI) auto
next
  case (OpDeleteResource name)
  let ?c = "c\<lparr>lc_version := lc_version c + 1,
      lc_versionVector := mdel name (lc_versionVector c),
      lc_resources := mdel name (lc_resources c)\<rparr>"
  have "linear_step L op c = notifyAll L [name] ?c"
    using OpDeleteResource by (simp add: DeleteResource_def Let_def)
  moreover have "bumped op c ?c"
    unfolding bumped_def using OpDeleteResource wf
    by (intro exI [of _ "lc_versionVector ?c"] exI [of _ "lc_resources ?c"] exI [of _ "lc_nilResources c"])
      (auto simp: linear_wf_def mget_del)
  ultimately show ?thesis using OpDeleteResource by (intro exI conjI) auto
next
  case (OpUpdateResources upd del)
  with bump_UpdateResources [OF wf, of upd L del] ok show ?thesis by (auto simp: op_ok_def op_panics_def)
next
  case (OpSetResources res)
  with bump_SetResources [OF wf, of res L] ok show ?thesis by (auto simp: op_ok_def)
qed (use mod in auto)

section \<open>What a notification does\<close>

text \<open>What one channel must receive: one response for the modified names it watches, one for the
  whole collection.\<close>

definition expected_sends :: "string goset \<Rightarrow> LinearCache \<Rightarrow> chan \<Rightarrow> send list" where
  "expected_sends modified c ch =
     (let stale = stale_for modified (lc_watches c) ch
      in (if stale = [] then [] else [linear_respond c ch stale])
         @ (if ch \<in> set (lc_watchAll c) then [linear_respond c ch []] else []))"

lemma sotw_sends_first:
  assumes wf: "linear_wf c" and dist: "distinct modified"
    and nc: "fold notify_collect modified ([], lc_watches c) = (nl, ws)"
  shows "ws = fold mdel modified (lc_watches c)"
    and "sotw_sends ch (map (\<lambda>(value, stale). linear_respond c value stale) nl
           @ map (\<lambda>value. linear_respond c value []) (lc_watchAll c)) = expected_sends modified c ch"
proof -
  have "ws = fold mdel modified (lc_watches c) \<and> wf_map nl \<and>
    (\<forall>ch. mget nl ch = (let l = mget_or [] [] ch @ stale_for modified (lc_watches c) ch
                        in if l = [] then None else Some l))"
    by (rule fold_notify_collect [OF dist _ _ _ nc]) (use wf in \<open>simp_all add: linear_wf_def\<close>)
  then have ws: "ws = fold mdel modified (lc_watches c)" and nl: "wf_map nl"
    and get: "\<And>ch. mget nl ch = (if stale_for modified (lc_watches c) ch = [] then None
        else Some (stale_for modified (lc_watches c) ch))"
    by (simp_all add: Let_def)
  from ws show "ws = fold mdel modified (lc_watches c)" .
  from wf have "distinct (lc_watchAll c)" by (simp add: linear_wf_def)
  then show "sotw_sends ch (map (\<lambda>(value, stale). linear_respond c value stale) nl
           @ map (\<lambda>value. linear_respond c value []) (lc_watchAll c)) = expected_sends modified c ch"
    by (simp add: sotw_sends_notifyList [OF nl] get sotw_sends_all expected_sends_def Let_def)
qed

text \<open>
  The shape of the state after a notification, whatever happens to the version map: the fields
  that hold the contents are untouched, the modified names have lost their watches, the watches
  for the whole collection are gone, delta watches are only removed.
\<close>

lemma notifyAll_shape:
  assumes wf: "linear_wf c" and dist: "distinct modified"
    and n: "notifyAll L modified c = (c', sends, err)"
  shows "\<exists>vm P. c' = c\<lparr>lc_watches := fold mdel modified (lc_watches c), lc_watchAll := [],
      lc_versionMap := vm, lc_deltaWatches := filter P (lc_deltaWatches c)\<rparr>"
    and "sotw_sends ch sends = expected_sends modified c ch"
    and "err \<in> {None, Some PanicNilDereference}"
proof -
  let ?ws = "fold mdel modified (lc_watches c)"
  obtain nl where nc: "fold notify_collect modified ([], lc_watches c) = (nl, ?ws)"
    using sotw_sends_first(1) [OF wf dist]
    by (cases "fold notify_collect modified ([], lc_watches c)") blast
  let ?first = "map (\<lambda>(value, stale). linear_respond c value stale) nl
           @ map (\<lambda>value. linear_respond c value []) (lc_watchAll c)"
  note first = sotw_sends_first(2) [OF wf dist nc]
  let ?c1 = "c\<lparr>lc_watches := ?ws, lc_watchAll := []\<rparr>"
  obtain vm where vm: "fst (updateVersionMap L modified ?c1) = ?c1\<lparr>lc_versionMap := Some vm\<rparr>"
    using updateVersionMap_frame by blast
  obtain e where upd: "updateVersionMap L modified ?c1 = (?c1\<lparr>lc_versionMap := Some vm\<rparr>, e)"
    using vm by (metis prod.collapse)
  have keep: "?c1\<lparr>lc_versionMap := v\<rparr> = c\<lparr>lc_watches := ?ws, lc_watchAll := [],
        lc_versionMap := v, lc_deltaWatches := filter (\<lambda>_. True) (lc_deltaWatches c)\<rparr>" for v
    by (cases c) simp
  consider (nomap) "lc_versionMap c = None" | (panic) "lc_versionMap c \<noteq> None" "e \<noteq> None" "\<not> lc_log c"
    | (delta) "lc_versionMap c \<noteq> None" "\<not> (e \<noteq> None \<and> \<not> lc_log c)" by blast
  then have "(\<exists>vm P. c' = c\<lparr>lc_watches := ?ws, lc_watchAll := [],
      lc_versionMap := vm, lc_deltaWatches := filter P (lc_deltaWatches c)\<rparr>)
    \<and> sotw_sends ch sends = expected_sends modified c ch \<and> err \<in> {None, Some PanicNilDereference}"
  proof cases
    case nomap
    with n nc have r: "c' = ?c1" "err = None" "sends = ?first"
      by (auto simp: notifyAll_def Let_def)
    have "c' = ?c1\<lparr>lc_versionMap := None\<rparr>"
      unfolding r(1) by (rule lc_versionMap_triv [symmetric]) (simp add: nomap)
    from trans [OF this keep] show ?thesis unfolding r(2,3) first by blast
  next
    case panic
    with n nc upd have r: "c' = ?c1\<lparr>lc_versionMap := Some vm\<rparr>" "err = Some PanicNilDereference"
      "sends = ?first"
      by (auto simp: notifyAll_def Let_def)
    from trans [OF r(1) keep] show ?thesis unfolding r(2,3) first by blast
  next
    case delta
    let ?c2 = "?c1\<lparr>lc_versionMap := Some vm\<rparr>"
    from wf have wfd: "wf_map (lc_deltaWatches c)" by (simp add: linear_wf_def)
    from delta n nc upd have c': "c' = ?c2\<lparr>lc_deltaWatches :=
          filter (\<lambda>(id, w). \<not> delta_fires modified ?c2 w) (lc_deltaWatches c)\<rparr>"
      and err: "err = None"
      and sends: "sends = ?first @ map (\<lambda>(id, w). delta_send ?c2 w)
          (filter (\<lambda>(id, w). delta_fires modified ?c2 w) (lc_deltaWatches c))"
      by (auto simp: notifyAll_def Let_def fold_notify_delta fold_mdel_own [OF wfd])
    from first have "sotw_sends ch sends = expected_sends modified c ch"
      unfolding sends by (subst sotw_sends_append) simp
    with c' err show ?thesis by blast
  qed
  then show "\<exists>vm P. c' = c\<lparr>lc_watches := ?ws, lc_watchAll := [],
      lc_versionMap := vm, lc_deltaWatches := filter P (lc_deltaWatches c)\<rparr>"
    and "sotw_sends ch sends = expected_sends modified c ch"
    and "err \<in> {None, Some PanicNilDereference}" by blast+
qed

text \<open>With resources that marshal: no error, and exactly the delta watches that fire are gone.\<close>

lemma notifyAll_delta:
  assumes L: "lib_total L" and wf: "linear_wf c"
    and vm: "lc_versionMap c = Some vm0" "wf_map vm0"
    and n: "notifyAll L modified c = (c', sends, err)"
  shows "\<exists>vm. err = None \<and> lc_versionMap c' = Some vm \<and> wf_map vm \<and>
     (\<forall>n. mget vm n = (if n \<in> set modified then map_option (hash_of L) (mget (lc_resources c) n)
                       else mget vm0 n)) \<and>
     linear_container c' = linear_container (c\<lparr>lc_versionMap := Some vm\<rparr>) \<and>
     lc_deltaWatches c' = filter (\<lambda>(id, w). \<not> delta_fires modified c' w) (lc_deltaWatches c)"
proof -
  obtain nl ws where nc: "fold notify_collect modified ([], lc_watches c) = (nl, ws)"
    by (cases "fold notify_collect modified ([], lc_watches c)")
  let ?c1 = "c\<lparr>lc_watches := ws, lc_watchAll := []\<rparr>"
  from updateVersionMap_total [OF L, of ?c1 modified] vm obtain vm where
    upd: "updateVersionMap L modified ?c1 = (?c1\<lparr>lc_versionMap := Some vm\<rparr>, None)"
    and vm': "wf_map vm" "\<forall>n. mget vm n = (if n \<in> set modified
        then map_option (hash_of L) (mget (lc_resources c) n) else mget vm0 n)"
    by auto
  from wf have wfd: "wf_map (lc_deltaWatches c)" by (simp add: linear_wf_def)
  let ?c2 = "?c1\<lparr>lc_versionMap := Some vm\<rparr>"
  let ?D = "filter (\<lambda>(id, w). \<not> delta_fires modified ?c2 w) (lc_deltaWatches c)"
  from n nc vm upd have c': "c' = ?c2\<lparr>lc_deltaWatches := ?D\<rparr>" and "err = None"
    by (auto simp: notifyAll_def Let_def fold_notify_delta fold_mdel_own [OF wfd])
  moreover have "linear_container ?c2 = linear_container (c\<lparr>lc_versionMap := Some vm\<rparr>)"
    by (simp add: linear_container_def linear_getVersion_def)
  ultimately show ?thesis using vm' by auto
qed

section \<open>The invariant of the reachable states\<close>

definition linear_idle :: "LinearCache \<Rightarrow> bool" where
  "linear_idle c \<longleftrightarrow>
     (\<forall>(id, w) \<in> set (lc_deltaWatches c).
        linear_respondDelta c (dw_Request w) (dw_StreamState w) = None)"

definition linear_inv :: "lib \<Rightarrow> LinearCache \<Rightarrow> bool" where
  "linear_inv L c \<longleftrightarrow>
     linear_wf c \<and> dom (mget (lc_versionVector c)) = dom (mget (lc_resources c)) \<and>
     version_map_current L c \<and> (lc_versionMap c = None \<longrightarrow> lc_deltaWatches c = []) \<and> linear_idle c"

definition linear_reorder :: "LinearCache \<Rightarrow> LinearCache \<Rightarrow> bool" where
  "linear_reorder c c' \<longleftrightarrow>
     (\<exists>rs ws wa dws vm vv.
        c' = c\<lparr>lc_resources := rs, lc_watches := ws, lc_watchAll := wa, lc_deltaWatches := dws,
               lc_versionMap := vm, lc_versionVector := vv\<rparr> \<and>
        same_entries (lc_resources c) rs \<and> same_entries (lc_watchAll c) wa \<and>
        same_entries (lc_deltaWatches c) dws \<and> same_entries (lc_versionVector c) vv \<and>
        rel_option same_entries (lc_versionMap c) vm \<and> wf_map ws \<and>
        (\<forall>n. same_entries (mget_or [] (lc_watches c) n) (mget_or [] ws n)))"

text \<open>
  The states a cache can be in after \<open>k\<close> operations that modify the resources, in any mix with
  new watches and cancellations, the maps being visited in any order.
\<close>

inductive linear_reach :: "lib \<Rightarrow> nat \<Rightarrow> LinearCache \<Rightarrow> bool" for L where
  init: "wf_map (go_map m) \<Longrightarrow> opts = [WithVersionPrefix prefix, WithInitialResources m] @ (if log then [WithLogger] else [])
     \<Longrightarrow> linear_reach L 0 (NewLinearCache typeURL opts)"
| step: "linear_reach L k c \<Longrightarrow> op_ok c op \<Longrightarrow> linear_step L op c = (c', sends, err)
     \<Longrightarrow> linear_reach L (if op_modifies op then Suc k else k) c'"
| reorder: "linear_reach L k c \<Longrightarrow> linear_reorder c c' \<Longrightarrow> linear_reach L k c'"

lemma linear_respondDelta_None_iff:
  assumes "wf_map (lc_resources c)"
  shows "linear_respondDelta c req st = None \<longleftrightarrow>
     \<not> (IsWildcard st \<and> IsFirst st) \<and> up_to_date st (linear_container c)"
proof -
  have wf: "wf_map (rc_resourceMap (linear_container c))"
    using assms by (simp add: linear_container_def)
  show ?thesis
    using delta_empty_iff [OF wf, of Background req st]
    by (auto simp: linear_respondDelta_def Let_def)
qed

lemma op_lookup_other: "n \<notin> op_names op m \<Longrightarrow> op_lookup op m n = m n"
  by (cases op) (auto simp: map_add_def restrict_map_def domIff split: option.splits)

lemma version_of_linear:
  "version_of (linear_container c) n =
     (case lc_versionMap c of None \<Rightarrow> '''' | Some vm \<Rightarrow> mget_or '''' vm n)"
  by (simp add: version_of_def linear_container_def split: option.split)

lemma notifyAll_nomap:
  "lc_versionMap c = None \<Longrightarrow> notifyAll L modified c = (c', sends, err) \<Longrightarrow>
     lc_versionMap c' = None \<and> lc_deltaWatches c' = lc_deltaWatches c \<and> err = None"
  by (auto simp: notifyAll_def Let_def split: prod.splits)

lemma bumped_wf: "linear_wf c \<Longrightarrow> bumped op c c1 \<Longrightarrow> linear_wf c1"
  by (auto simp: bumped_def linear_wf_def)

text \<open>A notification keeps well-formedness.\<close>

lemma notifyAll_wf:
  assumes wf: "linear_wf c" and dist: "distinct modified"
    and n: "notifyAll L modified c = (c', sends, err)"
  shows "linear_wf c'"
proof -
  obtain vm P where c': "c' = c\<lparr>lc_watches := fold mdel modified (lc_watches c), lc_watchAll := [],
      lc_versionMap := vm, lc_deltaWatches := filter P (lc_deltaWatches c)\<rparr>"
    using notifyAll_shape(1) [OF wf dist n] by blast
  have "distinct (mget_or [] (fold mdel modified (lc_watches c)) k)" for k
    using wf by (auto simp: linear_wf_def mget_or_def mget_fold_del)
  with wf show ?thesis
    by (simp add: c' linear_wf_def wf_fold_del)
qed

text \<open>
  A modification keeps the invariant.  A delta watch that does not fire either has nothing to
  receive, or subscribes to none of the modified names, and then nothing changed for it.
\<close>

lemma linear_inv_modifies:
  assumes L: "lib_total L" and inv: "linear_inv L c" and ok: "op_ok c op" and mod: "op_modifies op"
    and step: "linear_step L op c = (c', sends, err)"
  shows "linear_inv L c'"
proof -
  from inv have wf: "linear_wf c" by (simp add: linear_inv_def)
  obtain M c1 where n: "notifyAll L M c1 = (c', sends, err)" and dist: "distinct M"
    and M: "set M = op_names op (mget (lc_resources c))" and b: "bumped op c c1"
    using op_bump [OF wf ok mod, of L] step by auto
  from b obtain vv rs nr where
    c1: "c1 = c\<lparr>lc_version := lc_version c + 1, lc_versionVector := vv, lc_resources := rs, lc_nilResources := nr\<rparr>"
    and wfvv: "wf_map vv" and wfrs: "wf_map rs"
    and rs: "mget rs = op_lookup op (mget (lc_resources c))"
    and vv: "\<And>n. mget vv n = (if n \<in> set M then (if mget rs n = None then None else Some (lc_version c + 1))
                          else mget (lc_versionVector c) n)"
    unfolding bumped_def M by auto
  have wf1: "linear_wf c1" by (rule bumped_wf [OF wf b])
  obtain vm P where c': "c' = c1\<lparr>lc_watches := fold mdel M (lc_watches c1), lc_watchAll := [],
      lc_versionMap := vm, lc_deltaWatches := filter P (lc_deltaWatches c1)\<rparr>"
    using notifyAll_shape(1) [OF wf1 dist n] by blast
  have wf': "linear_wf c'" by (rule notifyAll_wf [OF wf1 dist n])
  have unchanged: "mget rs n = mget (lc_resources c) n" if "n \<notin> set M" for n
    using that op_lookup_other by (simp add: rs M)
  from inv have "dom (mget (lc_versionVector c)) = dom (mget (lc_resources c))"
    by (simp add: linear_inv_def)
  then have "mget (lc_versionVector c) n = None \<longleftrightarrow> mget (lc_resources c) n = None" for n
    by (metis domIff)
  then have "mget vv n = None \<longleftrightarrow> mget rs n = None" for n
    using unchanged by (simp add: vv)
  then have dom: "dom (mget (lc_versionVector c')) = dom (mget (lc_resources c'))"
    by (simp add: c' c1 dom_def)
  have "version_map_current L c' \<and> (lc_versionMap c' = None \<longrightarrow> lc_deltaWatches c' = []) \<and> linear_idle c'"
  proof (cases "lc_versionMap c")
    case None
    with inv have "lc_deltaWatches c1 = []" "lc_versionMap c1 = None" by (simp_all add: linear_inv_def c1)
    with notifyAll_nomap [OF _ n] show ?thesis by (simp add: version_map_current_def linear_idle_def)
  next
    case (Some vm0)
    then have vm0: "lc_versionMap c1 = Some vm0" by (simp add: c1)
    from inv Some have cur: "wf_map vm0" "\<And>n. mget vm0 n = map_option (hash_of L) (mget (lc_resources c) n)"
      by (simp_all add: linear_inv_def version_map_current_def)
    obtain vm' where vm': "lc_versionMap c' = Some vm'" "wf_map vm'"
      "\<And>n. mget vm' n = (if n \<in> set M then map_option (hash_of L) (mget (lc_resources c1) n) else mget vm0 n)"
      and dws: "lc_deltaWatches c' = filter (\<lambda>(id, w). \<not> delta_fires M c' w) (lc_deltaWatches c1)"
      using notifyAll_delta [OF L wf1 vm0 cur(1) n] by auto
    have current: "version_map_current L c'"
      unfolding version_map_current_def using vm' cur(2) unchanged by (simp add: c' c1)
    have "linear_respondDelta c' (dw_Request w) (dw_StreamState w) = None"
      if "(id, w) \<in> set (lc_deltaWatches c')" for id w
    proof (cases "WatchesResources M (dw_StreamState w)")
      case True
      with that show ?thesis by (simp add: dws delta_fires_def)
    next
      case False
      let ?st = "dw_StreamState w"
      from that have "(id, w) \<in> set (lc_deltaWatches c)" by (simp add: dws c1)
      with inv have old: "linear_respondDelta c (dw_Request w) ?st = None"
        by (auto simp: linear_inv_def linear_idle_def)
      have "mget (rc_resourceMap (linear_container c)) n = mget (rc_resourceMap (linear_container c')) n
          \<and> version_of (linear_container c) n = version_of (linear_container c') n"
        if "in_scope ?st n" for n
      proof -
        from that False have "n \<notin> set M" by (auto simp: in_scope_def WatchesResources_iff)
        with unchanged vm' Some show ?thesis
          by (simp add: version_of_linear mget_or_def) (simp add: linear_container_def c' c1)
      qed
      then have "up_to_date ?st (linear_container c) = up_to_date ?st (linear_container c')"
        by (rule up_to_date_cong)
      with old False wf wf' show ?thesis
        by (simp add: linear_respondDelta_None_iff linear_wf_def WatchesResources_iff)
    qed
    with current vm'(1) show ?thesis by (auto simp: linear_idle_def)
  qed
  with wf' dom show ?thesis by (simp add: linear_inv_def)
qed

section \<open>The other operations keep the invariant\<close>

lemma linear_inv_frame:
  assumes "linear_inv L c" and "linear_wf c'"
    and "lc_resources c' = lc_resources c" and "lc_versionVector c' = lc_versionVector c"
    and "lc_versionMap c' = lc_versionMap c" and "linear_container c' = linear_container c"
    and "set (lc_deltaWatches c') \<subseteq> set (lc_deltaWatches c)"
  shows "linear_inv L c'"
proof -
  have "linear_respondDelta c' = linear_respondDelta c"
    by (simp add: fun_eq_iff linear_respondDelta_def assms(6))
  with assms show ?thesis
    by (auto simp: linear_inv_def version_map_current_def linear_idle_def)
qed

lemma mget_fold_watch:
  "mget_or [] (fold (\<lambda>name ws. mput name (sadd value (mget_or [] ws name)) ws) names ws) n =
     (if n \<in> set names then sadd value (mget_or [] ws n) else mget_or [] ws n)"
proof (induction names arbitrary: ws)
  case Nil
  then show ?case by simp
next
  case (Cons a names)
  have "mget_or [] (mput a (sadd value (mget_or [] ws a)) ws) n =
      (if n = a then sadd value (mget_or [] ws a) else mget_or [] ws n)"
    by (simp add: mget_or_def mget_put)
  then show ?case by (auto simp: Cons.IH)
qed

lemma wf_fold_watch:
  "wf_map ws \<Longrightarrow> wf_map (fold (\<lambda>name ws. mput name (sadd value (mget_or [] ws name)) ws) names ws)"
  by (induction names arbitrary: ws) auto

lemma linear_inv_CreateWatch:
  assumes inv: "linear_inv L c" and step: "linear_CreateWatch req st value c = (c', sends, k)"
  shows "linear_inv L c'"
proof (cases "c' = c")
  case True
  with inv show ?thesis by simp
next
  case False
  with step consider "c' = c\<lparr>lc_watchAll := sadd value (lc_watchAll c)\<rparr>"
    | "c' = c\<lparr>lc_watches := fold (\<lambda>name ws. mput name (sadd value (mget_or [] ws name)) ws)
                 (req_resource_names req) (lc_watches c)\<rparr>"
    by (auto simp: linear_CreateWatch_def Let_def split: if_splits prod.splits)
  then show ?thesis
  proof cases
    case 1
    with inv show ?thesis
      by (intro linear_inv_frame [OF inv]) (auto simp: linear_inv_def linear_wf_def)
  next
    case 2
    with inv show ?thesis
      by (intro linear_inv_frame [OF inv])
        (auto simp: linear_inv_def linear_wf_def mget_fold_watch wf_fold_watch)
  qed
qed

lemma updateVersionMap_all:
  assumes L: "lib_total L" and none: "lc_versionMap c = None"
  shows "\<exists>vm. fst (updateVersionMap L (mkeys (lc_resources c)) c) = c\<lparr>lc_versionMap := Some vm\<rparr> \<and>
     wf_map vm \<and> (\<forall>n. mget vm n = map_option (hash_of L) (mget (lc_resources c) n))"
proof -
  obtain vm where "updateVersionMap L (mkeys (lc_resources c)) c = (c\<lparr>lc_versionMap := Some vm\<rparr>, None)"
    "wf_map vm" and vm: "\<forall>n. mget vm n = (if n \<in> set (mkeys (lc_resources c))
        then map_option (hash_of L) (mget (lc_resources c) n) else None)"
    using updateVersionMap_total [OF L, of c "mkeys (lc_resources c)"] none by auto
  moreover have "mget vm n = map_option (hash_of L) (mget (lc_resources c) n)" for n
    using vm by (cases "mget (lc_resources c) n") (auto simp: set_mkeys domIff simp del: set_map)
  ultimately show ?thesis by auto
qed

lemma linear_inv_versionMap:
  assumes L: "lib_total L" and inv: "linear_inv L c" and none: "lc_versionMap c = None"
  shows "linear_inv L (fst (updateVersionMap L (mkeys (lc_resources c)) c))"
proof -
  obtain vm where "fst (updateVersionMap L (mkeys (lc_resources c)) c) = c\<lparr>lc_versionMap := Some vm\<rparr>"
    "wf_map vm" "\<forall>n. mget vm n = map_option (hash_of L) (mget (lc_resources c) n)"
    using updateVersionMap_all [OF L none] by blast
  with inv none show ?thesis
    by (simp add: linear_inv_def linear_wf_def version_map_current_def linear_idle_def)
qed

lemma linear_inv_CreateDeltaWatch:
  assumes L: "lib_total L" and inv: "linear_inv L c"
    and step: "linear_CreateDeltaWatch L req st value c = (c', sends, k)"
  shows "linear_inv L c'"
proof -
  let ?c1 = "if lc_versionMap c = None then fst (updateVersionMap L (mkeys (lc_resources c)) c) else c"
  have inv1: "linear_inv L ?c1" using linear_inv_versionMap [OF L inv] inv by simp
  have some: "lc_versionMap ?c1 \<noteq> None"
  proof (cases "lc_versionMap c")
    case None
    with updateVersionMap_all [OF L None] show ?thesis by auto
  qed simp
  show ?thesis
  proof (cases "linear_respondDelta ?c1 req st")
    case (Some resp)
    with step have "c' = ?c1" by (simp add: linear_CreateDeltaWatch_def Let_def split: if_splits)
    with inv1 show ?thesis by simp
  next
    case None
    let ?id = "lc_deltaWatchCount ?c1 + 1"
    let ?w = "\<lparr>dw_Request = req, dw_Response = value, dw_StreamState = st\<rparr>"
    from None step have c': "c' = ?c1\<lparr>lc_deltaWatchCount := ?id,
        lc_deltaWatches := mput ?id ?w (lc_deltaWatches ?c1)\<rparr>"
      by (simp add: linear_CreateDeltaWatch_def Let_def nextDeltaWatchID_def split: if_splits)
    have "set (mput ?id ?w ds) \<subseteq> insert (?id, ?w) (set ds)" for ds
      by (induction ds) auto
    with inv1 some None show ?thesis
      unfolding c' by (fastforce simp: linear_inv_def linear_wf_def version_map_current_def linear_idle_def)
  qed
qed

lemma distinct_cancel_watch_name:
  assumes "\<And>k. distinct (mget_or [] ws k)"
  shows "distinct (mget_or [] (cancel_watch_name value name ws) k)"
  using assms [of k] assms [of name]
  by (auto simp: cancel_watch_name_def mget_or_def mget_put mget_del distinct_removeAll Let_def
      split: option.splits if_splits)

lemma wf_cancel_watch_name: "wf_map ws \<Longrightarrow> wf_map (cancel_watch_name value name ws)"
  by (simp add: cancel_watch_name_def Let_def split: option.split)

lemma linear_inv_cancel:
  assumes inv: "linear_inv L c"
  shows "linear_inv L (linear_cancel k c)"
proof (cases k)
  case (CancelWatchAll ch)
  with inv show ?thesis
    by (intro linear_inv_frame [OF inv]) (auto simp: linear_inv_def linear_wf_def distinct_removeAll)
next
  case (CancelWatch names ch)
  have "wf_map (fold (cancel_watch_name ch) names ws) \<and>
      (\<forall>k. distinct (mget_or [] (fold (cancel_watch_name ch) names ws) k))"
    if "wf_map ws" "\<forall>k. distinct (mget_or [] ws k)" for ws
    using that
    by (induction names arbitrary: ws) (auto simp: wf_cancel_watch_name distinct_cancel_watch_name)
  with CancelWatch inv show ?thesis
    by (intro linear_inv_frame [OF inv]) (auto simp: linear_inv_def linear_wf_def)
next
  case (CancelDelta id)
  with inv show ?thesis
    by (intro linear_inv_frame [OF inv]) (auto simp: linear_inv_def linear_wf_def set_mdel)
qed

lemma linear_inv_step:
  assumes L: "lib_total L" and inv: "linear_inv L c" and ok: "op_ok c op"
    and step: "linear_step L op c = (c', sends, err)"
  shows "linear_inv L c'"
proof (cases "op_modifies op")
  case True
  from linear_inv_modifies [OF L inv ok True step] show ?thesis .
next
  case False
  with step inv show ?thesis
    by (cases op) (auto simp: UpdateResource_def linear_inv_cancel split: prod.splits
        intro: linear_inv_CreateWatch linear_inv_CreateDeltaWatch [OF L])
qed

lemma up_to_date_same:
  assumes "mget (rc_resourceMap r1) = mget (rc_resourceMap r2)"
    and "\<And>n. version_of r1 n = version_of r2 n"
  shows "up_to_date st r1 = up_to_date st r2"
  by (rule up_to_date_cong) (simp add: assms)

lemma linear_inv_reorder:
  assumes inv: "linear_inv L c" and re: "linear_reorder c c'"
  shows "linear_inv L c'"
proof -
  from re obtain rs ws wa dws vm vv where
    c': "c' = c\<lparr>lc_resources := rs, lc_watches := ws, lc_watchAll := wa, lc_deltaWatches := dws,
               lc_versionMap := vm, lc_versionVector := vv\<rparr>"
    and same: "same_entries (lc_resources c) rs" "same_entries (lc_watchAll c) wa"
        "same_entries (lc_deltaWatches c) dws" "same_entries (lc_versionVector c) vv"
        "rel_option same_entries (lc_versionMap c) vm"
    and ws: "wf_map ws" "\<And>n. same_entries (mget_or [] (lc_watches c) n) (mget_or [] ws n)"
    unfolding linear_reorder_def by blast
  from inv have wf: "linear_wf c" by (simp add: linear_inv_def)
  have "wf_map rs" "wf_map dws" "wf_map vv"
    using wf wf_map_same_entries [OF same(1)] wf_map_same_entries [OF same(3)]
      wf_map_same_entries [OF same(4)] by (simp_all add: linear_wf_def)
  moreover have "distinct wa" "\<And>n. distinct (mget_or [] ws n)"
    using wf mset_eq_imp_distinct_iff [OF same(2)] mset_eq_imp_distinct_iff [OF ws(2)]
    by (simp_all add: linear_wf_def)
  ultimately have wf': "linear_wf c'" using ws(1) by (simp add: linear_wf_def c')
  have rs: "mget rs = mget (lc_resources c)" and vv: "mget vv = mget (lc_versionVector c)"
    using mget_same_entries same wf by (metis linear_wf_def)+
  have "version_map_current L c'"
  proof (cases "lc_versionMap c")
    case None
    with same(5) show ?thesis by (simp add: c' version_map_current_def)
  next
    case (Some m)
    with same(5) obtain m' where m': "vm = Some m'" "same_entries m m'" by (cases vm) auto
    from inv Some have wfm: "wf_map m"
      and cur: "\<And>n. mget m n = map_option (hash_of L) (mget (lc_resources c) n)"
      by (simp_all add: linear_inv_def version_map_current_def)
    have "mget m' n = map_option (hash_of L) (mget (lc_resources c) n)" for n
      using cur [of n] mget_same_entries [OF m'(2) wfm] by simp
    with m' wfm wf_map_same_entries [OF m'(2)] show ?thesis
      by (simp add: c' version_map_current_def rs)
  qed
  moreover have "linear_idle c'"
  proof -
    have ver: "version_of (linear_container c) n = version_of (linear_container c') n" for n
    proof (cases "lc_versionMap c")
      case None
      with same(5) show ?thesis by (simp add: c' version_of_linear)
    next
      case (Some m)
      with same(5) obtain m' where m': "vm = Some m'" "same_entries m m'" by (cases vm) auto
      from inv Some have "wf_map m" by (simp add: linear_inv_def version_map_current_def)
      with m' Some mget_same_entries [OF m'(2)] show ?thesis
        by (simp add: c' version_of_linear mget_or_def)
    qed
    have "up_to_date st (linear_container c) = up_to_date st (linear_container c')" for st
      by (rule up_to_date_same [OF _ ver]) (simp add: linear_container_def c' rs)
    then have "linear_respondDelta c req st = None \<longleftrightarrow> linear_respondDelta c' req st = None" for req st
      using wf wf' by (simp add: linear_respondDelta_None_iff linear_wf_def)
    moreover have "set (lc_deltaWatches c') = set (lc_deltaWatches c)"
      using mset_eq_setD [OF same(3)] by (simp add: c')
    ultimately show ?thesis using inv by (simp add: linear_inv_def linear_idle_def)
  qed
  moreover have "lc_versionMap c' = None \<longrightarrow> lc_deltaWatches c' = []"
    using inv same(3,5) by (auto simp: c' linear_inv_def)
  moreover have "dom (mget (lc_versionVector c')) = dom (mget (lc_resources c'))"
    using inv by (simp add: linear_inv_def c' rs vv)
  ultimately show ?thesis using wf' by (simp add: linear_inv_def)
qed

lemma linear_inv_init:
  assumes "wf_map (go_map m)"
    and "opts = [WithVersionPrefix prefix, WithInitialResources m] @ (if log then [WithLogger] else [])"
  shows "linear_inv L (NewLinearCache typeURL opts)"
  using assms
  by (auto simp: NewLinearCache_def WithVersionPrefix_def WithInitialResources_def WithLogger_def
      linear_inv_def linear_wf_def version_map_current_def linear_idle_def mget_or_def
      wf_fold_put mget_fold_put set_mkeys domIff simp del: set_map split: if_splits)

lemma linear_reach_inv: "linear_reach L k c \<Longrightarrow> lib_total L \<Longrightarrow> linear_inv L c"
proof (induction rule: linear_reach.induct)
  case (init m opts prefix log typeURL)
  show ?case by (rule linear_inv_init [OF init(1,2)])
next
  case (step k c op c' sends err)
  then show ?case by (blast intro: linear_inv_step)
next
  case (reorder k c c')
  then show ?case by (blast intro: linear_inv_reorder)
qed

section \<open>Versions count modifications\<close>

lemma linear_step_unmodified:
  assumes "\<not> op_modifies op" and "linear_step L op c = (c', sends, err)"
  shows "lc_version c' = lc_version c \<and> lc_versionVector c' = lc_versionVector c
    \<and> lc_resources c' = lc_resources c \<and> lc_versionPrefix c' = lc_versionPrefix c"
proof (cases op)
  case (OpCreateWatch req st ch)
  with assms show ?thesis
    by (auto simp: linear_CreateWatch_def Let_def split: if_splits prod.splits)
next
  case (OpCreateDeltaWatch req st ch)
  let ?c1 = "fst (updateVersionMap L (mkeys (lc_resources c)) c)"
  obtain vm where vm: "?c1 = c\<lparr>lc_versionMap := Some vm\<rparr>"
    using updateVersionMap_frame by blast
  have "lc_version ?c1 = lc_version c" "lc_versionVector ?c1 = lc_versionVector c"
    "lc_resources ?c1 = lc_resources c" "lc_versionPrefix ?c1 = lc_versionPrefix c"
    unfolding vm by simp_all
  with OpCreateDeltaWatch assms show ?thesis
    by (auto simp: linear_CreateDeltaWatch_def Let_def nextDeltaWatchID_def
        split: if_splits prod.splits option.splits)
next
  case (OpCancel k)
  with assms show ?thesis by (cases k) auto
qed (use assms in \<open>auto simp: UpdateResource_def\<close>)

lemma linear_step_modified:
  assumes wf: "linear_wf c" and ok: "op_ok c op" and mod: "op_modifies op"
    and step: "linear_step L op c = (c', sends, err)"
  shows "lc_version c' = lc_version c + 1"
    and "mget (lc_resources c') = op_lookup op (mget (lc_resources c))"
    and "mget (lc_versionVector c') n =
      (if n \<in> op_names op (mget (lc_resources c))
       then (if mget (lc_resources c') n = None then None else Some (lc_version c + 1))
       else mget (lc_versionVector c) n)"
    and "lc_typeURL c' = lc_typeURL c" and "lc_versionPrefix c' = lc_versionPrefix c"
proof -
  obtain M c1 where n: "notifyAll L M c1 = (c', sends, err)" and dist: "distinct M"
    and b: "bumped op c c1"
    using op_bump [OF wf ok mod, of L] step by auto
  obtain vm P where c': "c' = c1\<lparr>lc_watches := fold mdel M (lc_watches c1), lc_watchAll := [],
      lc_versionMap := vm, lc_deltaWatches := filter P (lc_deltaWatches c1)\<rparr>"
    using notifyAll_shape(1) [OF bumped_wf [OF wf b] dist n] by blast
  from b show "lc_version c' = lc_version c + 1"
    and "mget (lc_resources c') = op_lookup op (mget (lc_resources c))"
    and "mget (lc_versionVector c') n =
      (if n \<in> op_names op (mget (lc_resources c))
       then (if mget (lc_resources c') n = None then None else Some (lc_version c + 1))
       else mget (lc_versionVector c) n)"
    and "lc_typeURL c' = lc_typeURL c" and "lc_versionPrefix c' = lc_versionPrefix c"
    by (auto simp: c' bumped_def)
qed

text \<open>After \<open>k\<close> modifications, as long as the counter does not wrap, the version is \<open>k\<close> and no
  resource has a later one.\<close>

definition versions_bounded :: "nat \<Rightarrow> LinearCache \<Rightarrow> bool" where
  "versions_bounded k c \<longleftrightarrow>
     unat (lc_version c) = k \<and> (\<forall>n v. mget (lc_versionVector c) n = Some v \<longrightarrow> unat v \<le> k)"

lemma unat_Suc_u64: "Suc (unat (v :: u64)) < 2 ^ 64 \<Longrightarrow> unat (v + 1) = Suc (unat v)"
  by (simp add: unat_word_ariths)

lemma versions_bounded_step:
  assumes bd: "versions_bounded k c" and wf: "linear_wf c" and ok: "op_ok c op"
    and step: "linear_step L op c = (c', sends, err)"
    and lt: "(if op_modifies op then Suc k else k) < 2 ^ 64"
  shows "versions_bounded (if op_modifies op then Suc k else k) c'"
proof (cases "op_modifies op")
  case False
  with linear_step_unmodified [OF False step] bd show ?thesis by (simp add: versions_bounded_def)
next
  case True
  note m = linear_step_modified [OF wf ok True step]
  from bd lt True have v: "unat (lc_version c + 1) = Suc k"
    by (simp add: versions_bounded_def unat_Suc_u64)
  have "unat w \<le> Suc k" if "mget (lc_versionVector c') n = Some w" for n w
    using that bd v by (auto simp: m(3) versions_bounded_def le_SucI split: if_splits)
  with True v m(1) show ?thesis by (simp add: versions_bounded_def)
qed

lemma linear_reach_versions:
  "linear_reach L k c \<Longrightarrow> lib_total L \<Longrightarrow> k < 2 ^ 64 \<Longrightarrow> versions_bounded k c"
proof (induction rule: linear_reach.induct)
  case (init m opts prefix log typeURL)
  then show ?case
    by (auto simp: versions_bounded_def NewLinearCache_def WithVersionPrefix_def
        WithInitialResources_def WithLogger_def mget_fold_put split: if_splits)
next
  case (step k c op c' sends err)
  have "linear_wf c" using linear_reach_inv [OF step.hyps(1) step.prems(1)] by (simp add: linear_inv_def)
  moreover have "k < 2 ^ 64" using step.prems(2) by (simp split: if_splits)
  ultimately show ?case
    using versions_bounded_step [OF step.IH _ step.hyps(2,3)] step.prems by blast
next
  case (reorder k c c')
  have "linear_wf c" using linear_reach_inv [OF reorder.hyps(1) reorder.prems(1)] by (simp add: linear_inv_def)
  then have "wf_map (lc_versionVector c)" by (simp add: linear_wf_def)
  with reorder show ?case
    by (auto simp: versions_bounded_def linear_reorder_def dest: mget_same_entries)
qed

section \<open>Staleness of a request\<close>

lemma parse_version_format [simp]: "parse_version p (p @ FormatUint v) = Inr v"
  by (simp add: parse_version_def)

lemma fold_stale:
  "fold (\<lambda>name (stale, staleResources). if P name then (True, staleResources @ [name]) else (stale, staleResources))
     names (s, acc) = (s \<or> (\<exists>n \<in> set names. P n), acc @ filter P names)"
  by (induction names arbitrary: s acc) auto

lemma linear_stale_names:
  assumes "parse_version (lc_versionPrefix c) (req_version_info req) = Inr lastv"
    and "req_resource_names req \<noteq> []"
  shows "linear_stale c req =
     (let st = filter (\<lambda>n. lastv < mget_or 0 (lc_versionVector c) n) (req_resource_names req)
      in (st \<noteq> [], st))"
  using assms by (auto simp: linear_stale_def fold_stale Let_def filter_empty_conv)

lemma versions_bounded_not_newer:
  assumes "versions_bounded k c"
  shows "\<not> lc_version c < mget_or 0 (lc_versionVector c) n"
proof (cases "mget (lc_versionVector c) n")
  case None
  then show ?thesis by simp
next
  case (Some v)
  with assms have "unat v \<le> unat (lc_version c)" by (simp add: versions_bounded_def)
  with Some show ?thesis by (simp add: word_le_nat_alt not_less)
qed

lemma linear_current_not_stale:
  assumes "versions_bounded k c" and "req_version_info req = linear_getVersion c"
  shows "linear_stale c req = (False, [])"
proof (cases "req_resource_names req = []")
  case True
  with assms(2) show ?thesis by (simp add: linear_stale_def linear_getVersion_def)
next
  case False
  have "parse_version (lc_versionPrefix c) (req_version_info req) = Inr (lc_version c)"
    by (simp add: assms(2) linear_getVersion_def)
  from linear_stale_names [OF this False] versions_bounded_not_newer [OF assms(1)] show ?thesis
    by simp
qed

lemma linear_inv_reach_step:
  "linear_reach L k c \<Longrightarrow> lib_total L \<Longrightarrow> linear_wf c"
  using linear_reach_inv by (auto simp: linear_inv_def)

section \<open>The linear cache as a source of deltas\<close>

text \<open>The linear cache files a resource under any key; the protocol names it by its own name.\<close>

definition linear_named :: "LinearCache \<Rightarrow> bool" where
  "linear_named c \<longleftrightarrow> (\<forall>(n, r) \<in> set (lc_resources c). GetResourceName r = n)"

definition linear_view :: "DeltaDiscoveryRequest \<Rightarrow> LinearCache \<Rightarrow> resourceContainer option" where
  "linear_view req c = (if lc_versionMap c = None then None else Some (linear_container c))"

lemma version_of_linear_current:
  assumes "version_map_current L c" and "lc_versionMap c \<noteq> None" and "mget (lc_resources c) n = Some r"
  shows "version_of (linear_container c) n = hash_of L r"
  using assms by (auto simp: version_of_linear version_map_current_def mget_or_def)

lemma linear_versions_ok:
  assumes L: "lib_total L" and inv: "linear_inv L c" and named: "linear_named c"
    and vm: "lc_versionMap c \<noteq> None"
  shows "versions_ok L (linear_container c)"
proof -
  from inv have wf: "wf_map (lc_resources c)" and cur: "version_map_current L c"
    by (simp_all add: linear_inv_def linear_wf_def)
  have "GetResourceName r = n \<and> resource_version L r = Inr (version_of (linear_container c) n)"
    if "(n, r) \<in> set (lc_resources c)" for n r
  proof -
    have "mget (lc_resources c) n = Some r" using that wf by (simp add: mget_eq_Some_iff)
    with version_of_linear_current [OF cur vm] named that L show ?thesis
      by (auto simp: linear_named_def lib_total_version)
  qed
  with wf show ?thesis by (auto simp: versions_ok_def linear_container_def)
qed

lemma linear_CreateDeltaWatch_cases:
  assumes "linear_CreateDeltaWatch L req st ch c = (c', sends, k)"
  shows "lc_resources c' = lc_resources c \<and>
    (case linear_respondDelta c' req st of
       Some resp \<Rightarrow> sends = [SendDelta ch (Some (RawDelta resp))] \<and> k = None
     | None \<Rightarrow> sends = [] \<and> k = Some (CancelDelta (lc_deltaWatchCount c')) \<and>
         lc_deltaWatchCount c' = lc_deltaWatchCount c + 1 \<and>
         lc_deltaWatches c' = mput (lc_deltaWatchCount c')
           \<lparr>dw_Request = req, dw_Response = ch, dw_StreamState = st\<rparr> (lc_deltaWatches c))"
proof -
  let ?c1 = "if lc_versionMap c = None then fst (updateVersionMap L (mkeys (lc_resources c)) c) else c"
  obtain vm where "fst (updateVersionMap L (mkeys (lc_resources c)) c) = c\<lparr>lc_versionMap := Some vm\<rparr>"
    using updateVersionMap_frame by blast
  then have same: "lc_resources ?c1 = lc_resources c" "lc_deltaWatches ?c1 = lc_deltaWatches c"
    "lc_deltaWatchCount ?c1 = lc_deltaWatchCount c" by simp_all
  show ?thesis
  proof (cases "linear_respondDelta ?c1 req st")
    case None
    from None assms have c': "c' = ?c1\<lparr>lc_deltaWatchCount := lc_deltaWatchCount ?c1 + 1,
        lc_deltaWatches := mput (lc_deltaWatchCount ?c1 + 1)
          \<lparr>dw_Request = req, dw_Response = ch, dw_StreamState = st\<rparr> (lc_deltaWatches ?c1)\<rparr>"
      and "sends = []" "k = Some (CancelDelta (lc_deltaWatchCount ?c1 + 1))"
      by (simp_all add: linear_CreateDeltaWatch_def Let_def nextDeltaWatchID_def split: if_splits)
    moreover have "linear_respondDelta c' = linear_respondDelta ?c1" by (simp add: c')
    ultimately show ?thesis using None by (simp add: same)
  next
    case (Some resp)
    with assms have "c' = ?c1" "sends = [SendDelta ch (Some (RawDelta resp))]" "k = None"
      by (simp_all add: linear_CreateDeltaWatch_def Let_def split: if_splits)
    with Some same show ?thesis by simp
  qed
qed

lemma linear_respondDelta_Some:
  "linear_respondDelta c req st = Some resp \<Longrightarrow>
     resp = createDeltaResponse Background req st (linear_container c)"
  by (auto simp: linear_respondDelta_def Let_def split: if_splits)

interpretation linear_delta: delta_source L "\<lambda>c. lib_total L \<and> linear_inv L c \<and> linear_named c"
  linear_view "linear_CreateDeltaWatch L" for L
proof (unfold_locales, goal_cases)
  case (1 c req r)
  then show ?case by (auto simp: linear_view_def linear_versions_ok split: if_splits)
next
  case (2 c req st ch c' sends k)
  from linear_CreateDeltaWatch_cases [OF 2(2)] have "lc_resources c' = lc_resources c" by simp
  with 2 linear_inv_CreateDeltaWatch show ?case by (auto simp: linear_named_def)
next
  case (3 c req st ch c' sends k r)
  then have r: "r = linear_container c'" by (simp add: linear_view_def split: if_splits)
  from 3 have "linear_inv L c'" using linear_inv_CreateDeltaWatch by blast
  then have "wf_map (lc_resources c')" by (simp add: linear_inv_def linear_wf_def)
  with linear_CreateDeltaWatch_cases [OF 3(2)] show ?case
    unfolding r by (auto simp: linear_respondDelta_None_iff dest: linear_respondDelta_Some split: option.splits)
qed

end
