(* ===== verification/Samples.thy ===== *)
theory Samples
  imports LinearCache
begin

text \<open>
  Concrete inputs on which the theorems are instantiated: a library whose marshalling keeps the
  constructor, the name and the body apart and whose hash pads to 32 bytes, a few resources,
  requests and stream states.
\<close>

definition str_bytes :: "string \<Rightarrow> bytes" where
  "str_bytes s = map (\<lambda>c. of_nat (code c)) s"

fun sample_marshal :: "Resource \<Rightarrow> bytes option" where
  "sample_marshal None = Some []"
| "sample_marshal (Some (ClusterLoadAssignment n b)) = Some (1 # b @ str_bytes n)"
| "sample_marshal (Some (ClusterMessage c)) = Some (2 # cl_body c @ str_bytes (cl_name c))"
| "sample_marshal (Some (RouteConfiguration n b)) = Some (3 # b @ str_bytes n)"
| "sample_marshal (Some m) = Some (4 # str_bytes (GetResourceName (Some m)))"

definition sample_hcm :: "Any \<Rightarrow> HttpConnectionManager option" where
  "sample_hcm any =
     (if any_value any = [] then None
      else Some \<lparr>hcm_route_specifier = Some (RdsSpecifier (map (\<lambda>b. char_of (unat b)) (any_value any)))\<rparr>)"

definition sample_lib :: lib where
  "sample_lib = \<lparr>lib_marshal = sample_marshal,
     lib_any_new = (\<lambda>r. map_option (\<lambda>b. \<lparr>any_type_url = '''', any_value = b\<rparr>) (sample_marshal r)),
     lib_unmarshal_hcm = sample_hcm,
     lib_sha256 = (\<lambda>b. take 32 (b @ replicate 32 0))\<rparr>"

text \<open>A library whose marshalling fails on route configurations.\<close>

definition failing_lib :: lib where
  "failing_lib = sample_lib\<lparr>lib_marshal :=
     (\<lambda>r. case r of Some (RouteConfiguration _ _) \<Rightarrow> None | _ \<Rightarrow> sample_marshal r)\<rparr>"

definition cla :: "string \<Rightarrow> bytes \<Rightarrow> Resource" where
  "cla n b = Some (ClusterLoadAssignment n b)"

definition sotw_request :: "string \<Rightarrow> string \<Rightarrow> string list \<Rightarrow> DiscoveryRequest" where
  "sotw_request typ version names =
     empty_request\<lparr>req_type_url := typ, req_version_info := version, req_resource_names := names\<rparr>"

definition delta_request :: "string \<Rightarrow> DeltaDiscoveryRequest" where
  "delta_request typ = empty_delta_request\<lparr>dreq_type_url := typ\<rparr>"

definition subscribed :: "string list \<Rightarrow> (string, string) gomap \<Rightarrow> StreamState" where
  "subscribed names versions = SetSubscribedResourceNames names
     (SetResourceVersions versions (NewStreamState False None))"

lemma sample_marshal_ok: "\<exists>b. sample_marshal r = Some b"
  by (cases r rule: sample_marshal.cases) auto

lemma lib_total_sample [simp]: "lib_total sample_lib"
  using sample_marshal_ok
  by (auto simp: lib_total_def sha256_ok_def marshals_def sample_lib_def)

end
