(* ===== verification/LinearProps.thy ===== *)
theory LinearProps
  imports LinearFacts Samples
begin

text \<open>
  The properties of the linear cache (\<open>pkg/cache/v3/linear.go\<close>), over its reachable states, with
  the concrete runs on which their hypotheses hold.
\<close>

section \<open>Concrete runs\<close>

definition linear_run :: "lib \<Rightarrow> linear_op list \<Rightarrow> LinearCache \<Rightarrow> LinearCache" where
  "linear_run L ops c = fold (\<lambda>op c. fst (linear_step L op c)) ops c"

text \<open>No operation of the run panics.\<close>

fun run_ok :: "lib \<Rightarrow> linear_op list \<Rightarrow> LinearCache \<Rightarrow> bool" where
  "run_ok L [] c = True"
| "run_ok L (op # ops) c = (op_ok c op \<and> run_ok L ops (fst (linear_step L op c)))"

lemma linear_reach_run:
  "linear_reach L k c \<Longrightarrow> run_ok L ops c \<Longrightarrow>
     linear_reach L (k + length (filter op_modifies ops)) (linear_run L ops c)"
proof (induction ops arbitrary: k c)
  case Nil
  then show ?case by (simp add: linear_run_def)
next
  case (Cons op ops)
  obtain c' sends err where step: "linear_step L op c = (c', sends, err)" by (cases "linear_step L op c")
  from Cons.prems step have "op_ok c op" and rest: "run_ok L ops c'" by simp_all
  from linear_reach.step [OF Cons.prems(1) this(1) step]
  have "linear_reach L (if op_modifies op then Suc k else k) c'" .
  from Cons.IH [OF this rest] step show ?case by (simp add: linear_run_def split: if_splits)
qed

definition sample_start :: LinearCache where
  "sample_start = NewLinearCache ''T'' [WithVersionPrefix ''p'', WithInitialResources (Some [(''a'', cla ''a'' [1])])]"

lemma sample_start_reach: "linear_reach L 0 sample_start"
  unfolding sample_start_def by (rule linear_reach.init [where log = False]) (simp_all add: go_map_def)

definition sample_ops :: "linear_op list" where
  "sample_ops =
     [OpUpdateResource ''b'' (cla ''b'' [2]),
      OpCreateWatch (sotw_request ''T'' ''p1'' [''a'', ''c'']) (NewStreamState False None) 7,
      OpCreateWatch (sotw_request ''T'' ''p1'' []) (NewStreamState True None) 8]"

definition sample_linear :: LinearCache where
  "sample_linear = linear_run sample_lib sample_ops sample_start"

lemma sample_linear_reach: "linear_reach sample_lib 1 sample_linear"
  using linear_reach_run [OF sample_start_reach, of sample_lib sample_ops]
  by (simp add: sample_linear_def sample_ops_def sample_start_def cla_def op_ok_def op_panics_def
      NewLinearCache_def WithVersionPrefix_def WithInitialResources_def)

lemmas linear_defs =
  UpdateResource_def DeleteResource_def UpdateResources_def SetResources_def notifyAll_def
  notify_collect_def linear_CreateWatch_def linear_CreateDeltaWatch_def nextDeltaWatchID_def
  linear_stale_def linear_respond_def linear_getVersion_def NewLinearCache_def
  WithVersionPrefix_def WithInitialResources_def go_map_def WithLogger_def updateVersionMap_def
  updateVersionMap_step_def notify_delta_def Let_def mget_or_def
  FormatUint_def

lemmas sample_defs =
  sample_start_def sample_ops_def linear_run_def sotw_request_def delta_request_def
  empty_request_def empty_delta_request_def cla_def NewStreamState_def stream_state_defs
  resource_version_def HashResource_def MarshalResource_def sample_lib_def

lemma fmt_nat_samples [simp]: "fmt_nat 0 = ''0''" "fmt_nat (Suc 0) = ''1''" "fmt_nat 2 = ''2''"
  by code_simp+

lemma parse_version_p1 [simp]: "parse_version ''p'' ''p1'' = Inr 1"
  using parse_version_format [of "''p''" 1] by (simp add: FormatUint_def)

text \<open>The state of the sample, evaluated.\<close>

lemma sample_linear_eq:
  "sample_linear = \<lparr>lc_typeURL = ''T'', lc_resources = [(''a'', cla ''a'' [1]), (''b'', cla ''b'' [2])],
     lc_nilResources = False, lc_watches = [(''a'', [7]), (''c'', [7])], lc_watchAll = [8], lc_deltaWatches = [],
     lc_deltaWatchCount = 0, lc_versionMap = None, lc_version = 1, lc_versionPrefix = ''p'',
     lc_versionVector = [(''a'', 0), (''b'', 1)], lc_log = False\<rparr>"
  by (simp add: sample_linear_def sample_defs linear_defs)

section \<open>Contents and versions\<close>

lemma linear_step_contents:
  assumes "linear_reach L k c" and "lib_total L" and "op_ok c op"
    and "linear_step L op c = (c', sends, err)"
  shows "mget (lc_resources c') = op_lookup op (mget (lc_resources c))
    \<and> lc_version c' = lc_version c + (if op_modifies op then 1 else 0)
    \<and> (err = None \<longleftrightarrow> (\<nexists>name. op = OpUpdateResource name None))"
proof (cases "op_modifies op")
  case True
  have wf: "linear_wf c" by (rule linear_inv_reach_step [OF assms(1,2)])
  obtain M c1 where n: "notifyAll L M c1 = (c', sends, err)" and dist: "distinct M"
    and b: "bumped op c c1"
    using op_bump [OF wf assms(3) True, of L] assms(4) by auto
  have "err = None"
  proof (cases "lc_versionMap c1")
    case None
    with notifyAll_nomap [OF None n] show ?thesis by simp
  next
    case (Some vm)
    with b have "lc_versionMap c = Some vm" by (auto simp: bumped_def)
    with linear_reach_inv [OF assms(1,2)] have "wf_map vm"
      by (simp add: linear_inv_def version_map_current_def)
    with notifyAll_delta [OF assms(2) bumped_wf [OF wf b] Some _ n] show ?thesis by blast
  qed
  with True linear_step_modified [OF wf assms(3) True assms(4)] show ?thesis by auto
next
  case False
  with linear_step_unmodified [OF False assms(4)] assms(4) show ?thesis
    by (cases op) (auto simp: UpdateResource_def split: prod.splits)
qed

lemma linear_panics:
  assumes "op_panics c op" and "linear_step L op c = (c', sends, err)"
  shows "err = Some PanicNilMap \<and> sends = [] \<and> lc_resources c' = lc_resources c \<and> lc_version c' = lc_version c + 1"
  using assms by (cases op) (auto simp: op_panics_def UpdateResource_def UpdateResources_def Let_def)

text \<open>C14: in every reachable state of the linear cache, an operation that inserts into a nil map of
  resources (one that \<open>SetResources\<close> or \<open>WithInitialResources\<close> was given) panics before it changes
  the contents or sends anything, with the version moved.  Every other operation makes the contents
  exactly what the abstract map update says (an update inserts, a deletion removes,
  \<open>UpdateResources\<close> overrides and then removes, \<open>SetResources\<close> replaces, watches and cancellations
  change nothing), moves the version by one when it modifies and not otherwise, and fails only for
  a nil resource.\<close>

theorem linear_contents:
  assumes "linear_reach L k c" and "lib_total L" and "op_wf op"
    and "linear_step L op c = (c', sends, err)"
  shows "if lc_nilResources c \<and> op_inserts op
    then err = Some PanicNilMap \<and> sends = [] \<and> lc_resources c' = lc_resources c
      \<and> lc_version c' = lc_version c + 1
    else mget (lc_resources c') = op_lookup op (mget (lc_resources c))
      \<and> lc_version c' = lc_version c + (if op_modifies op then 1 else 0)
      \<and> (err = None \<longleftrightarrow> (\<nexists>name. op = OpUpdateResource name None))"
proof (cases "op_panics c op")
  case True
  with linear_panics [OF True assms(4)] show ?thesis by (simp add: op_panics_def)
next
  case False
  then have ok: "op_ok c op" using assms(3) by (simp add: op_ok_def)
  from linear_step_contents [OF assms(1,2) ok assms(4)] False show ?thesis
    by (simp only: op_panics_def if_False)
qed

theorem linear_contents_witness:
  "mget (lc_resources (fst (DeleteResource sample_lib ''a'' sample_linear))) ''a'' = None \<and>
   snd (snd (UpdateResource sample_lib ''a'' (cla ''a'' [9]) (fst (SetResources sample_lib None sample_linear))))
     = Some PanicNilMap"
proof -
  let ?c = "fst (SetResources sample_lib None sample_linear)"
  let ?r = "\<lambda>op c. linear_step sample_lib op c"
  have triple: "?r op c = (fst (?r op c), fst (snd (?r op c)), snd (snd (?r op c)))" for op c by simp
  have nil: "lc_nilResources ?c" by (simp add: sample_linear_eq linear_defs)
  have "linear_reach sample_lib 2 ?c"
    using linear_reach.step [OF sample_linear_reach _ triple, of "OpSetResources None"]
    by (simp add: op_ok_def op_panics_def go_map_def numeral_2_eq_2)
  from linear_contents [OF this lib_total_sample _ triple, of "OpUpdateResource ''a'' (cla ''a'' [9])"] nil
  have "snd (snd (UpdateResource sample_lib ''a'' (cla ''a'' [9]) ?c)) = Some PanicNilMap"
    by (simp add: cla_def)
  with linear_contents [OF sample_linear_reach lib_total_sample _ triple, of "OpDeleteResource ''a''"]
  show ?thesis by simp
qed

text \<open>C15: after \<open>k\<close> modifications (fewer than \<open>2 ^ 64\<close>, where the counter would wrap) the version of the
  linear cache is the prefix followed by \<open>k\<close> in decimal, it parses back to \<open>k\<close>, and the version
  vector holds, for exactly the present resources, a version that is at most the current one.\<close>

theorem linear_versions:
  assumes "linear_reach L k c" and "lib_total L" and "k < 2 ^ 64"
  shows "linear_getVersion c = lc_versionPrefix c @ fmt_nat k
    \<and> parse_version (lc_versionPrefix c) (linear_getVersion c) = Inr (of_nat k)
    \<and> dom (mget (lc_versionVector c)) = dom (mget (lc_resources c))
    \<and> (\<forall>n. mget_or 0 (lc_versionVector c) n \<le> lc_version c)"
proof -
  have bd: "versions_bounded k c" by (rule linear_reach_versions [OF assms])
  then have k: "unat (lc_version c) = k" by (simp add: versions_bounded_def)
  then have "lc_version c = of_nat k" by auto
  then have "parse_version (lc_versionPrefix c) (linear_getVersion c) = Inr (of_nat k)"
    by (simp add: linear_getVersion_def)
  with k bd linear_reach_inv [OF assms(1,2)] versions_bounded_not_newer [OF bd] show ?thesis
    by (simp add: linear_getVersion_def FormatUint_def linear_inv_def not_less)
qed

theorem linear_versions_witness: "linear_getVersion sample_linear = ''p1''"
  using linear_versions [OF sample_linear_reach lib_total_sample]
  by (simp add: sample_linear_eq)

section \<open>Notification of the state-of-the-world watches\<close>

lemma linear_notification_aux:
  assumes wf: "linear_wf c" and ok: "op_ok c op" and mod: "op_modifies op"
    and step: "linear_step L op c = (c', sends, err)"
  shows "\<exists>M. distinct M \<and> set M = op_names op (mget (lc_resources c)) \<and>
    (\<forall>ch. sotw_sends ch sends =
       (let stale = stale_for M (lc_watches c) ch
        in (if stale = [] then [] else [linear_respond c' ch stale])
           @ (if ch \<in> set (lc_watchAll c) then [linear_respond c' ch []] else []))) \<and>
    lc_watchAll c' = [] \<and>
    (\<forall>n. mget (lc_watches c') n = (if n \<in> set M then None else mget (lc_watches c) n))"
proof -
  obtain M c1 where n: "notifyAll L M c1 = (c', sends, err)" and dist: "distinct M"
    and M: "set M = op_names op (mget (lc_resources c))" and b: "bumped op c c1"
    using op_bump [OF wf ok mod, of L] step by auto
  note shape = notifyAll_shape [OF bumped_wf [OF wf b] dist n]
  obtain vm P where c': "c' = c1\<lparr>lc_watches := fold mdel M (lc_watches c1), lc_watchAll := [],
      lc_versionMap := vm, lc_deltaWatches := filter P (lc_deltaWatches c1)\<rparr>"
    using shape(1) by blast
  have same: "lc_watches c1 = lc_watches c" "lc_watchAll c1 = lc_watchAll c"
    using b by (auto simp: bumped_def)
  have "linear_respond c' = linear_respond c1" by (simp add: c')
  then have "sotw_sends ch sends = (let stale = stale_for M (lc_watches c) ch
        in (if stale = [] then [] else [linear_respond c' ch stale])
           @ (if ch \<in> set (lc_watchAll c) then [linear_respond c' ch []] else []))" for ch
    using shape(2) [of ch] by (simp add: expected_sends_def same Let_def)
  with dist M show ?thesis by (intro exI [of _ M]) (simp add: c' same mget_fold_del)
qed

text \<open>C3: a modification of the linear cache that does not insert into a nil map (which panics, see
  \<open>linear_contents\<close>) notifies exactly the state-of-the-world watches it must:
  every channel receives one response listing the modified names it watches (none if there is no
  such name), in the order the names were modified, and one response for the whole collection if
  it watches that; every response is made from the new state; the watches of the modified names
  and of the whole collection are gone, those of the other names stay.\<close>

theorem linear_notification:
  assumes "linear_reach L k c" and "lib_total L" and "op_ok c op" and "op_modifies op"
    and "linear_step L op c = (c', sends, err)"
  shows "\<exists>M. distinct M \<and> set M = op_names op (mget (lc_resources c)) \<and>
    (\<forall>ch. sotw_sends ch sends =
       (let stale = filter (\<lambda>n. ch \<in> set (mget_or [] (lc_watches c) n)) M
        in (if stale = [] then [] else [linear_respond c' ch stale])
           @ (if ch \<in> set (lc_watchAll c) then [linear_respond c' ch []] else []))) \<and>
    lc_watchAll c' = [] \<and>
    (\<forall>n. mget (lc_watches c') n = (if n \<in> set M then None else mget (lc_watches c) n))"
  using linear_notification_aux [OF linear_inv_reach_step [OF assms(1,2)] assms(3-)]
  by (simp only: stale_for_def)

theorem linear_notification_witness:
  "\<exists>c'. lc_watchAll c' = [] \<and> mget (lc_watches c') ''c'' = Some [7] \<and>
     sotw_sends 7 (fst (snd (DeleteResource sample_lib ''a'' sample_linear)))
       = [linear_respond c' 7 [''a'']]"
proof -
  obtain c' sends err where r: "linear_step sample_lib (OpDeleteResource ''a'') sample_linear = (c', sends, err)"
    by (metis prod_cases3)
  have "op_ok sample_linear (OpDeleteResource ''a'')" "op_modifies (OpDeleteResource ''a'')"
    by (simp_all add: op_ok_def op_panics_def)
  from linear_notification [OF sample_linear_reach lib_total_sample this r]
  obtain M where "distinct M" "set M = op_names (OpDeleteResource ''a'') (mget (lc_resources sample_linear))"
    and s: "\<forall>ch. sotw_sends ch sends =
       (let stale = filter (\<lambda>n. ch \<in> set (mget_or [] (lc_watches sample_linear) n)) M
        in (if stale = [] then [] else [linear_respond c' ch stale])
           @ (if ch \<in> set (lc_watchAll sample_linear) then [linear_respond c' ch []] else []))"
    and w: "lc_watchAll c' = []"
      "\<forall>n. mget (lc_watches c') n = (if n \<in> set M then None else mget (lc_watches sample_linear) n)"
    by (elim exE conjE) (rule that)
  then have "distinct M" "set M = {''a''}" by simp_all
  then have M: "M = [''a'']" by (cases M; cases "tl M") auto
  have "sotw_sends 7 sends = [linear_respond c' 7 [''a'']]"
    unfolding s [rule_format] M by (simp add: sample_linear_eq)
  moreover have "mget (lc_watches c') ''c'' = Some [7]"
    unfolding w(2) [rule_format] M by (simp add: sample_linear_eq)
  ultimately show ?thesis using w(1) r by (intro exI [of _ c']) simp
qed

section \<open>Delta watches\<close>

lemma linear_delta_versions:
  assumes L: "lib_total L" and inv: "linear_inv L c"
    and step: "linear_CreateDeltaWatch L req st ch c = (c', sends, k)"
  shows "linear_view req c' = Some (linear_container c')"
proof -
  let ?c1 = "if lc_versionMap c = None then fst (updateVersionMap L (mkeys (lc_resources c)) c) else c"
  have "lc_versionMap ?c1 \<noteq> None"
  proof (cases "lc_versionMap c")
    case None
    with updateVersionMap_all [OF L None] show ?thesis by auto
  qed simp
  moreover have "lc_versionMap c' = lc_versionMap ?c1"
    using step by (auto simp: linear_CreateDeltaWatch_def Let_def nextDeltaWatchID_def
        split: if_splits option.splits)
  ultimately show ?thesis by (simp add: linear_view_def)
qed

lemma linear_target:
  assumes cur: "version_map_current L c" and vm: "lc_versionMap c \<noteq> None"
  shows "target st (linear_container c) n = map_option (hash_of L) (mget (lc_resources c) n)"
  using version_of_linear_current [OF cur vm]
  by (cases "mget (lc_resources c) n") (simp_all add: target_def linear_container_def)

text \<open>Whatever a delta client held, when the stream state records it faithfully, then after
  \<open>CreateDeltaWatch\<close> on a linear cache, with the response applied if one was sent, the client holds
  for every name it subscribes to exactly the hash of the resource in the cache, or nothing where
  the cache has nothing.\<close>

theorem linear_delta_sync:
  assumes "linear_reach L k c" and "lib_total L" and "linear_named c"
    and "linear_CreateDeltaWatch L req st ch c = (c', sends, canc)"
    and "tracks st cl" and "in_scope st n"
  shows "client_after L sends cl n = map_option (hash_of L) (mget (lc_resources c) n)"
proof -
  have inv: "lib_total L \<and> linear_inv L c \<and> linear_named c"
    using assms(2,3) linear_reach_inv [OF assms(1,2)] by simp
  then have view: "linear_view req c' = Some (linear_container c')"
    by (intro linear_delta_versions [OF _ _ assms(4)]) simp_all
  then have "lc_versionMap c' \<noteq> None" by (simp add: linear_view_def split: if_splits)
  moreover have "version_map_current L c'"
    using linear_inv_CreateDeltaWatch [OF assms(2) _ assms(4)] inv by (simp add: linear_inv_def)
  ultimately show ?thesis
    using linear_delta.client_in_sync [OF inv assms(4) view assms(5,6)] linear_target
      linear_CreateDeltaWatch_cases [OF assms(4)] by simp
qed

lemma sample_named: "linear_named sample_linear"
  by (simp add: linear_named_def sample_linear_eq cla_def)

theorem linear_delta_sync_witness:
  "client_after sample_lib
     (fst (snd (linear_CreateDeltaWatch sample_lib (delta_request ''T'') (subscribed [''b''] [(''b'', '''')]) 9
        sample_linear))) (\<lambda>n. None) ''b'' = Some (hash_of sample_lib (cla ''b'' [2]))"
proof -
  let ?st = "subscribed [''b''] [(''b'', '''')]"
  have "tracks ?st (\<lambda>n. None)" "in_scope ?st ''b''"
    by (simp_all add: tracks_def in_scope_def subscribed_def NewStreamState_def stream_state_defs)
  from linear_delta_sync [OF sample_linear_reach lib_total_sample sample_named prod.collapse [symmetric,
      THEN trans, OF arg_cong [where f = "Pair _", OF prod.collapse [symmetric]]] this]
  show ?thesis by (simp add: sample_linear_eq)
qed

text \<open>In every reachable state of the linear cache, a delta watch that is still open misses
  nothing: a client that the watch's stream state records faithfully holds, for every name it
  subscribes to, exactly the hash of the resource in the cache.\<close>

theorem linear_delta_parked:
  assumes "linear_reach L k c" and "lib_total L" and "(i, w) \<in> set (lc_deltaWatches c)"
    and "tracks (dw_StreamState w) cl" and "in_scope (dw_StreamState w) n"
  shows "cl n = map_option (hash_of L) (mget (lc_resources c) n)"
proof -
  have inv: "linear_inv L c" by (rule linear_reach_inv [OF assms(1,2)])
  with assms(3) have vm: "lc_versionMap c \<noteq> None" by (auto simp: linear_inv_def)
  from inv have wf: "wf_map (lc_resources c)" and cur: "version_map_current L c"
    by (simp_all add: linear_inv_def linear_wf_def)
  from inv assms(3) have "linear_respondDelta c (dw_Request w) (dw_StreamState w) = None"
    by (auto simp: linear_inv_def linear_idle_def)
  then have "up_to_date (dw_StreamState w) (linear_container c)"
    by (simp add: linear_respondDelta_None_iff [OF wf])
  from up_to_date_target [OF this assms(4,5)] show ?thesis
    using version_of_linear_current [OF cur vm] hash_of_nonempty [OF assms(2)]
    by (simp add: linear_target [OF cur vm]) (simp add: linear_container_def)
qed

text \<open>The sample with a delta watch for \<open>b\<close> left open.\<close>

abbreviation "sample_hash \<equiv> hash_of sample_lib (cla ''b'' [2])"

abbreviation "sample_stream \<equiv> subscribed [''b''] [(''b'', sample_hash)]"

lemma sample_delta_parked:
  "\<exists>c w. linear_reach sample_lib 1 c \<and> lc_resources c = lc_resources sample_linear \<and>
     lc_deltaWatches c = [(1, w)] \<and> dw_StreamState w = sample_stream"
proof -
  let ?op = "OpCreateDeltaWatch (delta_request ''T'') sample_stream 9"
  obtain c' sends canc where d:
    "linear_CreateDeltaWatch sample_lib (delta_request ''T'') sample_stream 9 sample_linear = (c', sends, canc)"
    by (metis prod_cases3)
  then have step: "linear_step sample_lib ?op sample_linear = (c', sends, None)" by simp
  have reach: "linear_reach sample_lib 1 c'"
    using linear_reach.step [OF sample_linear_reach _ step] by (simp add: op_ok_def op_panics_def)
  have inv: "linear_inv sample_lib c'" by (rule linear_reach_inv [OF reach lib_total_sample])
  then have wf: "wf_map (lc_resources c')" and cur: "version_map_current sample_lib c'"
    by (simp_all add: linear_inv_def linear_wf_def)
  have vm: "lc_versionMap c' \<noteq> None"
    using linear_delta_versions [OF lib_total_sample linear_reach_inv [OF sample_linear_reach lib_total_sample] d]
    by (auto simp: linear_view_def split: if_splits)
  note cases = linear_CreateDeltaWatch_cases [OF d]
  have rs: "lc_resources c' = lc_resources sample_linear" using cases by simp
  have b: "mget (lc_resources c') ''b'' = Some (cla ''b'' [2])" by (simp add: rs sample_linear_eq)
  have "linear_respondDelta c' (delta_request ''T'') sample_stream = None"
    unfolding linear_respondDelta_None_iff [OF wf]
    using b version_of_linear_current [OF cur vm b]
    by (auto simp: up_to_date_def in_scope_def subscribed_def NewStreamState_def stream_state_defs
        linear_container_def mget_or_def)
  have "lc_deltaWatches c' = [(1, \<lparr>dw_Request = delta_request ''T'', dw_Response = 9, dw_StreamState = sample_stream\<rparr>)]"
    using \<open>linear_respondDelta c' (delta_request ''T'') sample_stream = None\<close> cases
    by (simp add: sample_linear_eq)
  with reach rs show ?thesis by force
qed

theorem linear_delta_parked_witness:
  "\<exists>c w. linear_reach sample_lib 1 c \<and> (1, w) \<in> set (lc_deltaWatches c) \<and>
     Some sample_hash = map_option (hash_of sample_lib) (mget (lc_resources c) ''b'')"
proof -
  obtain c w where c: "linear_reach sample_lib 1 c" and w: "(1, w) \<in> set (lc_deltaWatches c)"
    and st: "dw_StreamState w = sample_stream"
    using sample_delta_parked by auto
  have "tracks (dw_StreamState w) [''b'' \<mapsto> sample_hash]" "in_scope (dw_StreamState w) ''b''"
    unfolding st
    by (simp_all add: tracks_def in_scope_def subscribed_def NewStreamState_def stream_state_defs)
  from linear_delta_parked [OF c lib_total_sample w this] c w show ?thesis by auto
qed

section \<open>State-of-the-world watches\<close>

lemma linear_CreateWatch_fresh:
  assumes "req_type_url req = lc_typeURL c" and "linear_stale c req = (False, [])"
    and "linear_CreateWatch req st ch c = (c', sends, canc)"
  shows "sends = [] \<and>
    (if req_resource_names req = []
     then canc = Some (CancelWatchAll ch) \<and> c' = c\<lparr>lc_watchAll := sadd ch (lc_watchAll c)\<rparr>
     else canc = Some (CancelWatch (req_resource_names req) ch) \<and>
       (\<exists>ws. c' = c\<lparr>lc_watches := ws\<rparr> \<and> (\<forall>n. mget_or [] ws n =
          (if n \<in> set (req_resource_names req) then sadd ch (mget_or [] (lc_watches c) n)
           else mget_or [] (lc_watches c) n))))"
  using assms by (auto simp: linear_CreateWatch_def mget_fold_watch)

text \<open>A state-of-the-world request that carries the version the linear cache reports now is not
  answered: it becomes a watch of exactly the requested names (of the whole collection when it
  names none), with a cancel function; nothing else of the state changes.\<close>

theorem linear_current_request_parks:
  assumes "linear_reach L k c" and "lib_total L" and "k < 2 ^ 64"
    and "req_type_url req = lc_typeURL c" and "req_version_info req = linear_getVersion c"
    and "linear_CreateWatch req st ch c = (c', sends, canc)"
  shows "sends = [] \<and>
    (if req_resource_names req = []
     then canc = Some (CancelWatchAll ch) \<and> c' = c\<lparr>lc_watchAll := sadd ch (lc_watchAll c)\<rparr>
     else canc = Some (CancelWatch (req_resource_names req) ch) \<and>
       (\<exists>ws. c' = c\<lparr>lc_watches := ws\<rparr> \<and> (\<forall>n. mget_or [] ws n =
          (if n \<in> set (req_resource_names req) then sadd ch (mget_or [] (lc_watches c) n)
           else mget_or [] (lc_watches c) n))))"
  by (rule linear_CreateWatch_fresh [OF assms(4) linear_current_not_stale [OF _ assms(5)] assms(6)])
    (rule linear_reach_versions [OF assms(1-3)])

theorem linear_current_request_parks_witness:
  "fst (snd (linear_CreateWatch (sotw_request ''T'' ''p1'' [''b'']) (NewStreamState False None) 3 sample_linear)) = []"
proof -
  let ?req = "sotw_request ''T'' ''p1'' [''b'']"
  obtain c' sends canc where
    r: "linear_CreateWatch ?req (NewStreamState False None) 3 sample_linear = (c', sends, canc)"
    by (metis prod_cases3)
  have "req_type_url ?req = lc_typeURL sample_linear"
    "req_version_info ?req = linear_getVersion sample_linear"
    by (simp_all add: sotw_request_def sample_linear_eq linear_getVersion_def FormatUint_def empty_request_def)
  from linear_current_request_parks [OF sample_linear_reach lib_total_sample _ this r] r show ?thesis by simp
qed

text \<open>C8: no update is lost between two requests: after a modification that does not panic and leaves a
  resource \<open>n\<close> in the linear cache, a request for \<open>n\<close> (possibly among others) that carries any earlier version is
  answered at once, from the current state, and the names answered are exactly the requested ones
  whose resource is newer than the request.\<close>

theorem linear_no_lost_update:
  assumes "linear_reach L k c" and "lib_total L" and "Suc k < 2 ^ 64"
    and "op_ok c op" and "op_modifies op" and "linear_step L op c = (c', sends, err)"
    and "n \<in> op_names op (mget (lc_resources c))" and "mget (lc_resources c') n \<noteq> None"
    and "n \<in> set (req_resource_names req)" and "req_type_url req = lc_typeURL c'"
    and "req_version_info req = lc_versionPrefix c' @ FormatUint v" and "unat v \<le> k"
  shows "\<exists>stale. linear_CreateWatch req st ch c' = (c', [linear_respond c' ch stale], None) \<and>
    n \<in> set stale \<and>
    stale = filter (\<lambda>m. v < mget_or 0 (lc_versionVector c') m) (req_resource_names req)"
proof -
  have wf: "linear_wf c" by (rule linear_inv_reach_step [OF assms(1,2)])
  note m = linear_step_modified [OF wf assms(4,5,6)]
  have "unat (lc_version c) = k"
    using linear_reach_versions [OF assms(1,2)] assms(3) by (simp add: versions_bounded_def)
  with assms(3) have "unat (lc_version c + 1) = Suc k" by (simp add: unat_Suc_u64)
  with assms(7,8,12) m(3) have newer: "v < mget_or 0 (lc_versionVector c') n"
    by (simp add: word_less_nat_alt)
  let ?stale = "filter (\<lambda>m. v < mget_or 0 (lc_versionVector c') m) (req_resource_names req)"
  have p: "parse_version (lc_versionPrefix c') (req_version_info req) = Inr v"
    by (simp add: assms(11))
  have "n \<in> set ?stale" using newer assms(9) by simp
  from length_pos_if_in_set [OF this] have "?stale \<noteq> []" by (simp only: length_greater_0_conv not_False_eq_True)
  moreover have "req_resource_names req \<noteq> []" using assms(9) by auto
  ultimately have "linear_stale c' req = (True, ?stale)"
    using linear_stale_names [OF p] by (simp add: Let_def)
  with assms(10) \<open>n \<in> set ?stale\<close> show ?thesis
    by (intro exI [of _ ?stale]) (simp add: linear_CreateWatch_def Let_def)
qed

theorem linear_no_lost_update_witness:
  "\<exists>c' stale. linear_CreateWatch (sotw_request ''T'' ''p1'' [''a'']) (NewStreamState False None) 4 c'
      = (c', [linear_respond c' 4 stale], None) \<and> ''a'' \<in> set stale"
proof -
  let ?op = "OpUpdateResource ''a'' (cla ''a'' [9])"
  let ?req = "sotw_request ''T'' ''p1'' [''a'']"
  obtain c' sends err where r: "linear_step sample_lib ?op sample_linear = (c', sends, err)"
    by (metis prod_cases3)
  have op: "op_ok sample_linear ?op" "op_modifies ?op"
    by (simp_all add: cla_def op_ok_def op_panics_def sample_linear_eq)
  have wf: "linear_wf sample_linear" by (rule linear_inv_reach_step [OF sample_linear_reach lib_total_sample])
  note m = linear_step_modified [OF wf op r]
  have "''a'' \<in> op_names ?op (mget (lc_resources sample_linear))" by simp
  moreover have "mget (lc_resources c') ''a'' \<noteq> None" by (simp add: m(2) cla_def)
  moreover have "''a'' \<in> set (req_resource_names ?req)" "req_type_url ?req = lc_typeURL c'"
    "req_version_info ?req = lc_versionPrefix c' @ FormatUint 1"
    by (simp_all add: sotw_request_def m(4,5) sample_linear_eq FormatUint_def empty_request_def)
  moreover have "Suc 1 < 2 ^ 64" "unat (1 :: u64) \<le> 1" by simp_all
  ultimately show ?thesis
    using linear_no_lost_update [OF sample_linear_reach lib_total_sample _ op r] by blast
qed

text \<open>C31: cancelling a state-of-the-world watch of the linear cache undoes \<open>CreateWatch\<close>: a channel
  that watched nothing of what was requested before watches nothing of it afterwards, and every
  other watch, and the rest of the state, is as it was.\<close>

theorem linear_cancel_undoes:
  assumes "linear_reach L k c" and "lib_total L"
    and "linear_CreateWatch req st ch c = (c', sends, Some canc)"
    and "ch \<notin> set (lc_watchAll c)" and "\<forall>n. ch \<notin> set (mget_or [] (lc_watches c) n)"
  shows "\<exists>ws. linear_cancel canc c' = c\<lparr>lc_watches := ws\<rparr> \<and>
    (\<forall>n. mget_or [] ws n = mget_or [] (lc_watches c) n)"
proof -
  have wf: "linear_wf c" by (rule linear_inv_reach_step [OF assms(1,2)])
  have cancel: "mget_or [] (fold (cancel_watch_name ch) names ws) n =
      (if n \<in> set names then removeAll ch (mget_or [] ws n) else mget_or [] ws n)" for names ws n
  proof (induction names arbitrary: ws)
    case (Cons m names)
    have "mget_or [] (cancel_watch_name ch m ws) n =
        (if n = m then removeAll ch (mget_or [] ws n) else mget_or [] ws n)"
      by (auto simp: cancel_watch_name_def Let_def mget_or_def mget_put mget_del split: option.split)
    with Cons show ?case by auto
  qed simp
  from assms(3) have "sends = []" "req_type_url req = lc_typeURL c" "\<not> fst (linear_stale c req)"
    by (auto simp: linear_CreateWatch_def split: if_splits prod.splits)
  then consider (all) "req_resource_names req = []" "canc = CancelWatchAll ch"
      "c' = c\<lparr>lc_watchAll := sadd ch (lc_watchAll c)\<rparr>"
    | (names) "canc = CancelWatch (req_resource_names req) ch"
      "c' = c\<lparr>lc_watches := fold (\<lambda>name ws. mput name (sadd ch (mget_or [] ws name)) ws)
                 (req_resource_names req) (lc_watches c)\<rparr>"
    using assms(3) by (auto simp: linear_CreateWatch_def split: if_splits prod.splits)
  then show ?thesis
  proof cases
    case all
    then have "linear_cancel canc c' = c\<lparr>lc_watches := lc_watches c\<rparr>"
      using assms(4) by (simp add: sdel_sadd)
    then show ?thesis by blast
  next
    case names
    have "mget_or [] (lc_watches (linear_cancel canc c')) n = mget_or [] (lc_watches c) n" for n
      using assms(5) by (simp add: names cancel mget_fold_watch sdel_sadd removeAll_id)
    then show ?thesis using names by auto
  qed
qed

theorem linear_cancel_undoes_witness:
  "\<exists>c' canc. linear_CreateWatch (sotw_request ''T'' ''p1'' [''b'']) (NewStreamState False None) 3 sample_linear
      = (c', [], Some canc) \<and>
    (\<exists>ws. linear_cancel canc c' = sample_linear\<lparr>lc_watches := ws\<rparr> \<and> mget_or [] ws ''b'' = [])"
proof -
  let ?req = "sotw_request ''T'' ''p1'' [''b'']"
  have "linear_CreateWatch ?req (NewStreamState False None) 3 sample_linear =
      (sample_linear\<lparr>lc_watches := [(''a'', [7]), (''c'', [7]), (''b'', [3])]\<rparr>, [], Some (CancelWatch [''b''] 3))"
    by (simp add: sample_linear_eq sample_defs linear_defs)
  moreover note linear_cancel_undoes [OF sample_linear_reach lib_total_sample this]
  moreover have "3 \<notin> set (lc_watchAll sample_linear)" "mget_or [] (lc_watches sample_linear) ''b'' = []"
    "\<forall>n. 3 \<notin> set (mget_or [] (lc_watches sample_linear) n)"
    by (simp_all add: sample_linear_eq mget_or_def)
  ultimately show ?thesis by metis
qed

section \<open>Where the linear cache falls short\<close>

lemma UpdateResource_nilmap:
  assumes "UpdateResource L n r c = (c', sends, err)"
  shows "lc_nilResources c' = lc_nilResources c"
proof -
  have "lc_nilResources x' = lc_nilResources x" if n: "notifyAll L ns x = (x', s, e)" for ns x x' s e
  proof -
    obtain nl ws where nc: "fold notify_collect ns ([], lc_watches x) = (nl, ws)"
      by (cases "fold notify_collect ns ([], lc_watches x)")
    let ?x = "x\<lparr>lc_watches := ws, lc_watchAll := []\<rparr>"
    obtain y err where y: "updateVersionMap L ns ?x = (y, err)" by (cases "updateVersionMap L ns ?x")
    with updateVersionMap_frame [of L ns ?x] have "lc_nilResources y = lc_nilResources x" by auto
    with n y show ?thesis
      by (auto simp: notifyAll_def nc Let_def fold_notify_delta split: if_splits)
  qed
  with assms show ?thesis
    by (fastforce simp: UpdateResource_def Let_def split: if_splits)
qed

text \<open>A channel that watches two names of the linear cache receives two responses when both are
  modified one after the other, although each watch stands for one request: the update of the first
  name leaves the watch of the second in place.  The channels of the server have room for one
  response, and the send happens with the cache's mutex held.\<close>

theorem linear_double_response:
  assumes "linear_reach L k c" and "lib_total L" and "m \<noteq> n" and "r1 \<noteq> None" and "r2 \<noteq> None"
    and "ch \<in> set (mget_or [] (lc_watches c) m)" and "ch \<in> set (mget_or [] (lc_watches c) n)"
    and "ch \<notin> set (lc_watchAll c)" and "\<not> lc_nilResources c"
    and "UpdateResource L m r1 c = (c1, sends1, err1)"
    and "UpdateResource L n r2 c1 = (c2, sends2, err2)"
  shows "sotw_sends ch sends1 = [linear_respond c1 ch [m]] \<and> sotw_sends ch sends2 = [linear_respond c2 ch [n]]"
proof -
  have one: "sotw_sends ch s = [linear_respond x' ch [p]] \<and> lc_watchAll x' = [] \<and>
      (\<forall>q. mget (lc_watches x') q = (if q = p then None else mget (lc_watches x) q))"
    if "linear_wf x" and nil: "\<not> lc_nilResources x" and u: "UpdateResource L p r x = (x', s, e)" and "r \<noteq> None"
      and ch: "ch \<in> set (mget_or [] (lc_watches x) p)" "ch \<notin> set (lc_watchAll x)" for x x' p r s e
  proof -
    have step: "linear_step L (OpUpdateResource p r) x = (x', s, e)" using u by simp
    have ok: "op_ok x (OpUpdateResource p r)" using nil by (simp add: op_ok_def op_panics_def)
    have mod: "op_modifies (OpUpdateResource p r)" using \<open>r \<noteq> None\<close> by simp
    have names: "op_names (OpUpdateResource p r) (mget (lc_resources x)) = {p}" using \<open>r \<noteq> None\<close> by simp
    from linear_notification_aux [OF that(1) ok mod step, unfolded names]
    obtain M where "distinct M" "set M = {p}"
      and M: "sotw_sends ch s = (let stale = stale_for M (lc_watches x) ch
        in (if stale = [] then [] else [linear_respond x' ch stale])
           @ (if ch \<in> set (lc_watchAll x) then [linear_respond x' ch []] else []))"
        "lc_watchAll x' = []" "\<forall>q. mget (lc_watches x') q = (if q \<in> set M then None else mget (lc_watches x) q)"
      by auto
    then have "M = [p]" by (cases M; cases "tl M") auto
    with M ch show ?thesis by (simp add: stale_for_def)
  qed
  have wf: "linear_wf c" by (rule linear_inv_reach_step [OF assms(1,2)])
  note first = one [OF wf assms(9,10,4,6,8)]
  have nil1: "\<not> lc_nilResources c1" using assms(9) UpdateResource_nilmap [OF assms(10)] by simp
  have reach1: "linear_reach L (Suc k) c1"
    using linear_reach.step [OF assms(1), of "OpUpdateResource m r1"] assms(4,9,10)
    by (simp add: op_ok_def op_panics_def)
  have "ch \<in> set (mget_or [] (lc_watches c1) n)" "ch \<notin> set (lc_watchAll c1)"
    using first assms(3,7) by (simp_all add: mget_or_def)
  from one [OF linear_inv_reach_step [OF reach1 assms(2)] nil1 assms(11,5) this] first show ?thesis by simp
qed

theorem linear_double_response_witness:
  "length (sotw_sends 7 (fst (snd (UpdateResource sample_lib ''a'' (cla ''a'' [5]) sample_linear)))) = 1 \<and>
   length (sotw_sends 7 (fst (snd (UpdateResource sample_lib ''c'' (cla ''c'' [6])
     (fst (UpdateResource sample_lib ''a'' (cla ''a'' [5]) sample_linear)))))) = 1"
proof -
  obtain c1 s1 e1 where u1: "UpdateResource sample_lib ''a'' (cla ''a'' [5]) sample_linear = (c1, s1, e1)"
    by (metis prod_cases3)
  obtain c2 s2 e2 where u2: "UpdateResource sample_lib ''c'' (cla ''c'' [6]) c1 = (c2, s2, e2)"
    by (metis prod_cases3)
  have "7 \<in> set (mget_or [] (lc_watches sample_linear) ''a'')"
    "7 \<in> set (mget_or [] (lc_watches sample_linear) ''c'')" "7 \<notin> set (lc_watchAll sample_linear)"
    by (simp_all add: sample_linear_eq)
  from linear_double_response [OF sample_linear_reach lib_total_sample _ _ _ this _ u1 u2] u1 u2
  show ?thesis by (simp add: cla_def sample_linear_eq)
qed

text \<open>A linear cache created without a logger panics while it notifies when delta watches exist
  and the modified resource cannot be marshalled: the contents are already changed, and the
  state-of-the-world watches have been answered, but no delta watch hears of it.\<close>

theorem linear_nil_logger_panics:
  assumes "lc_versionMap c = Some vm" and "\<not> lc_log c" and "r \<noteq> None" and "\<not> lc_nilResources c"
    and "resource_version L r = Inl e"
    and "UpdateResource L n r c = (c', sends, err)"
  shows "err = Some PanicNilDereference \<and> mget (lc_resources c') n = Some r
    \<and> lc_deltaWatches c' = lc_deltaWatches c \<and> lc_versionMap c' = Some vm"
proof -
  have upd: "updateVersionMap L [n] x = (x, Some e)"
    if "lc_versionMap x \<noteq> None" "mget (lc_resources x) n = Some r" for x
    using that assms(5) by (auto simp: updateVersionMap_def updateVersionMap_step_def Let_def)
  show ?thesis
    using assms by (auto simp: UpdateResource_def notifyAll_def Let_def upd split: prod.splits)
qed

theorem linear_nil_logger_panics_witness:
  "snd (snd (UpdateResource failing_lib ''r'' (Some (RouteConfiguration ''r'' []))
     (sample_linear\<lparr>lc_versionMap := Some []\<rparr>))) = Some PanicNilDereference"
proof -
  obtain c' s e where u: "UpdateResource failing_lib ''r'' (Some (RouteConfiguration ''r'' []))
     (sample_linear\<lparr>lc_versionMap := Some []\<rparr>) = (c', s, e)"
    by (metis prod_cases3)
  have "resource_version failing_lib (Some (RouteConfiguration ''r'' [])) = Inl MarshalFailed"
    by (simp add: resource_version_def failing_lib_def MarshalResource_def)
  from linear_nil_logger_panics [OF _ _ _ _ this u] u show ?thesis by (simp add: sample_linear_eq)
qed

end
