(* ===== verification/References.thy ===== *)
theory References
  imports ResourceTypes
begin

text \<open>
  References between resources (\<open>pkg/cache/v3/resource.go\<close>): clusters name their endpoint
  assignment, listeners and scoped routes name route configurations.  The code collects the
  references in a map from type URL to a map of names, mutating it on the way; the model passes
  that map on.  The abstract side is \<open>item_refs\<close>, the set of names one resource refers to.
\<close>

type_synonym name_map = "(string, bool) gomap"
type_synonym ref_map = "(string, name_map) gomap"

section \<open>Collecting references\<close>

definition GetHTTPConnectionManager :: "lib \<Rightarrow> Filter \<Rightarrow> HttpConnectionManager option" where
  "GetHTTPConnectionManager L flt =
     (case f_typed_config flt of None \<Rightarrow> None | Some any \<Rightarrow> lib_unmarshal_hcm L any)"

text \<open>The generated getters \<open>config.GetRds().GetRouteConfigName()\<close> and
  \<open>config.GetScopedRoutes().GetScopedRouteConfigurationsList().GetScopedRouteConfigurations()\<close>.\<close>

fun rds_route_config_name :: "HttpConnectionManager \<Rightarrow> string" where
  "rds_route_config_name h =
     (case hcm_route_specifier h of Some (RdsSpecifier n) \<Rightarrow> n | _ \<Rightarrow> '''')"

fun scoped_route_names :: "HttpConnectionManager \<Rightarrow> string list" where
  "scoped_route_names h =
     (case hcm_route_specifier h of
        Some (ScopedRoutesSpec (Some (ScopedRouteList ns))) \<Rightarrow> ns
      | _ \<Rightarrow> [])"

definition mapMerge :: "name_map \<Rightarrow> name_map \<Rightarrow> name_map" where
  "mapMerge dst src = fold (\<lambda>(k, v). mput k v) src dst"

text \<open>The block that ends each of the three reference functions: merge the names found into
  \<open>out[typ]\<close>, creating the inner map where it is missing.\<close>

definition merge_into :: "string \<Rightarrow> name_map \<Rightarrow> ref_map \<Rightarrow> ref_map" where
  "merge_into typ names out =
     (if length names > 0 then
        (let out1 = (case mget out typ of None \<Rightarrow> mput typ [] out | Some _ \<Rightarrow> out)
         in mput typ (mapMerge (mget_or [] out1 typ) names) out1)
      else out)"

definition getClusterReferences :: "ClusterMsg \<Rightarrow> ref_map \<Rightarrow> ref_map" where
  "getClusterReferences src out =
     (let endpoints =
        (case cl_discovery_type src of
           Some (Cluster_Type typ) \<Rightarrow>
             if typ = EDS then
               (case cl_eds_service_name src of
                  Some sn \<Rightarrow> if sn \<noteq> '''' then [(sn, True)] else [(cl_name src, True)]
                | None \<Rightarrow> [(cl_name src, True)])
             else []
         | _ \<Rightarrow> [])
      in merge_into EndpointType endpoints out)"

definition getListenerReferencesFromChain :: "lib \<Rightarrow> FilterChain \<Rightarrow> name_map \<Rightarrow> name_map" where
  "getListenerReferencesFromChain L chain routes =
     fold (\<lambda>flt routes.
        case GetHTTPConnectionManager L flt of
          None \<Rightarrow> routes
        | Some config \<Rightarrow>
            let routes1 = (let name = rds_route_config_name config
                           in if name \<noteq> '''' then mput name True routes else routes)
            in fold (\<lambda>s. mput s True) (scoped_route_names config) routes1)
       (fc_filters chain) routes"

definition getListenerReferences :: "lib \<Rightarrow> ListenerMsg \<Rightarrow> ref_map \<Rightarrow> ref_map" where
  "getListenerReferences L src out =
     (let routes = fold (getListenerReferencesFromChain L) (l_filter_chains src) [];
          routes = (case l_default_filter_chain src of
                      None \<Rightarrow> routes
                    | Some chain \<Rightarrow> getListenerReferencesFromChain L chain routes)
      in merge_into RouteType routes out)"

definition getScopedRouteReferences :: "ScopedRouteMsg \<Rightarrow> ref_map \<Rightarrow> ref_map" where
  "getScopedRouteReferences src out =
     merge_into RouteType [(sr_route_configuration_name src, True)] out"

fun item_references :: "lib \<Rightarrow> Resource \<Rightarrow> ref_map \<Rightarrow> ref_map" where
  "item_references L None out = out"
| "item_references L (Some (ClusterMessage c)) out = getClusterReferences c out"
| "item_references L (Some (ScopedRouteConfiguration s)) out = getScopedRouteReferences s out"
| "item_references L (Some (ListenerMessage l)) out = getListenerReferences L l out"
| "item_references L (Some _) out = out"

definition getResourceReferences :: "lib \<Rightarrow> (string, ResourceWithTTL) gomap \<Rightarrow> ref_map \<Rightarrow> ref_map" where
  "getResourceReferences L resources out =
     fold (\<lambda>(k, res). item_references L (rt_resource res)) resources out"

definition GetResourceReferences :: "lib \<Rightarrow> (string, ResourceWithTTL) gomap \<Rightarrow> ref_map" where
  "GetResourceReferences L resources = getResourceReferences L resources []"

definition responseTypesWithReferences :: "ResponseType list" where
  "responseTypesWithReferences = [Cluster, Listener, ScopedRoute]"

definition GetAllResourceReferences :: "lib \<Rightarrow> (ResponseType \<Rightarrow> Resources) \<Rightarrow> ref_map" where
  "GetAllResourceReferences L resourceGroups =
     fold (\<lambda>typ ret.
        if typ \<in> set responseTypesWithReferences
        then getResourceReferences L (rs_items (resourceGroups typ)) ret
        else ret)
       all_types []"

section \<open>What a resource refers to\<close>

definition cluster_refs :: "ClusterMsg \<Rightarrow> string set" where
  "cluster_refs c =
     (if cl_discovery_type c = Some (Cluster_Type EDS)
      then {if cl_eds_service_name c \<in> {None, Some ''''} then cl_name c else the (cl_eds_service_name c)}
      else {})"

definition hcm_refs :: "HttpConnectionManager \<Rightarrow> string set" where
  "hcm_refs h = ({rds_route_config_name h} - {''''}) \<union> set (scoped_route_names h)"

definition chain_refs :: "lib \<Rightarrow> FilterChain \<Rightarrow> string set" where
  "chain_refs L chain =
     (\<Union>f \<in> set (fc_filters chain).
        case GetHTTPConnectionManager L f of None \<Rightarrow> {} | Some h \<Rightarrow> hcm_refs h)"

definition listener_refs :: "lib \<Rightarrow> ListenerMsg \<Rightarrow> string set" where
  "listener_refs L l =
     (\<Union>c \<in> set (l_filter_chains l). chain_refs L c)
     \<union> (case l_default_filter_chain l of None \<Rightarrow> {} | Some c \<Rightarrow> chain_refs L c)"

text \<open>The names of type \<open>t\<close> a resource refers to.\<close>

fun item_refs :: "lib \<Rightarrow> Resource \<Rightarrow> string \<Rightarrow> string set" where
  "item_refs L (Some (ClusterMessage c)) t = (if t = EndpointType then cluster_refs c else {})"
| "item_refs L (Some (ScopedRouteConfiguration s)) t =
     (if t = RouteType then {sr_route_configuration_name s} else {})"
| "item_refs L (Some (ListenerMessage l)) t = (if t = RouteType then listener_refs L l else {})"
| "item_refs L _ t = {}"

text \<open>The names recorded for a type in a reference map, and its well-formedness.\<close>

definition ref_names :: "ref_map \<Rightarrow> string \<Rightarrow> string set" where
  "ref_names out t = dom (mget (mget_or [] out t))"

definition wf_refs :: "ref_map \<Rightarrow> bool" where
  "wf_refs out \<longleftrightarrow> wf_map out \<and> (\<forall>t m. mget out t = Some m \<longrightarrow> wf_map m)"

section \<open>The collected references are the references\<close>

lemma dom_mapMerge: "dom (mget (mapMerge dst src)) = dom (mget dst) \<union> fst ` set src"
  unfolding mapMerge_def by (induction src arbitrary: dst) (auto simp: mget_put)

lemma wf_mapMerge [wf_intros]: "wf_map dst \<Longrightarrow> wf_map (mapMerge dst src)"
  unfolding mapMerge_def by (induction src arbitrary: dst) auto

lemma ref_names_merge_into:
  "ref_names (merge_into typ names out) t =
     ref_names out t \<union> (if t = typ then fst ` set names else {})"
  by (cases "mget out typ")
    (auto simp: ref_names_def merge_into_def Let_def dom_mapMerge mget_or_def mget_put
      split: option.splits if_splits)

lemma wf_refs_merge_into [wf_intros]: "wf_refs out \<Longrightarrow> wf_refs (merge_into typ names out)"
  by (cases "mget out typ")
    (auto simp: wf_refs_def merge_into_def Let_def mget_put intro!: wf_intros split: if_splits)

lemma wf_refs_Nil [simp, wf_intros]: "wf_refs []"
  by (simp add: wf_refs_def)

lemma wf_refs_get: "wf_refs out \<Longrightarrow> wf_map (mget_or [] out t)"
  by (cases "mget out t") (auto simp: wf_refs_def)

lemma ref_names_cluster:
  "ref_names (getClusterReferences c out) t =
     ref_names out t \<union> item_refs L (Some (ClusterMessage c)) t"
  by (auto simp: getClusterReferences_def ref_names_merge_into Let_def cluster_refs_def
      split: option.splits ClusterDiscoveryType.splits)

lemma dom_chain:
  "dom (mget (getListenerReferencesFromChain L chain routes)) = dom (mget routes) \<union> chain_refs L chain"
proof -
  have "dom (mget (fold (\<lambda>flt routes.
        case GetHTTPConnectionManager L flt of
          None \<Rightarrow> routes
        | Some config \<Rightarrow>
            let routes1 = (let name = rds_route_config_name config
                           in if name \<noteq> '''' then mput name True routes else routes)
            in fold (\<lambda>s. mput s True) (scoped_route_names config) routes1) fs routes))
     = dom (mget routes) \<union> (\<Union>f \<in> set fs.
        case GetHTTPConnectionManager L f of None \<Rightarrow> {} | Some h \<Rightarrow> hcm_refs h)" for fs
  proof (induction fs arbitrary: routes)
    case Nil
    then show ?case by simp
  next
    case (Cons f fs)
    have dom_fold: "dom (mget (fold (\<lambda>s. mput s True) ns m)) = dom (mget m) \<union> set ns"
      for ns and m :: name_map
      by (auto simp: mget_fold_put split: if_splits)
    from Cons show ?case
      by (cases "GetHTTPConnectionManager L f")
        (auto simp: Let_def hcm_refs_def dom_fold mget_put simp del: rds_route_config_name.simps
          scoped_route_names.simps)
  qed
  then show ?thesis by (simp only: getListenerReferencesFromChain_def chain_refs_def)
qed

lemma dom_chains:
  "dom (mget (fold (getListenerReferencesFromChain L) fchains routes)) =
     dom (mget routes) \<union> (\<Union>c \<in> set fchains. chain_refs L c)"
  by (induction fchains arbitrary: routes) (auto simp: dom_chain)

lemma ref_names_listener:
  "ref_names (getListenerReferences L l out) t =
     ref_names out t \<union> item_refs L (Some (ListenerMessage l)) t"
proof -
  let ?r = "fold (getListenerReferencesFromChain L) (l_filter_chains l) []"
  let ?routes = "case l_default_filter_chain l of None \<Rightarrow> ?r
     | Some chain \<Rightarrow> getListenerReferencesFromChain L chain ?r"
  have "dom (mget ?routes) = listener_refs L l"
    by (cases "l_default_filter_chain l") (simp_all add: dom_chain dom_chains listener_refs_def)
  then have "fst ` set ?routes = listener_refs L l"
    by (simp only: dom_map_of_conv_image_fst)
  then show ?thesis
    by (simp add: getListenerReferences_def Let_def ref_names_merge_into)
qed

lemma ref_names_item:
  "ref_names (item_references L r out) t = ref_names out t \<union> item_refs L r t"
proof (cases r)
  case None
  then show ?thesis by simp
next
  case (Some m)
  then show ?thesis
    by (cases m) (simp_all add: ref_names_cluster [of _ _ _ L] ref_names_listener
        getScopedRouteReferences_def ref_names_merge_into)
qed

lemma wf_refs_item [wf_intros]: "wf_refs out \<Longrightarrow> wf_refs (item_references L r out)"
proof (cases r)
  case (Some m)
  then show "wf_refs out \<Longrightarrow> ?thesis"
    by (cases m) (simp_all add: getClusterReferences_def getListenerReferences_def
        getScopedRouteReferences_def Let_def wf_intros)
qed simp

lemma ref_names_getResourceReferences:
  "ref_names (getResourceReferences L resources out) t =
     ref_names out t \<union> (\<Union>(k, res) \<in> set resources. item_refs L (rt_resource res) t)"
  unfolding getResourceReferences_def
  by (induction resources arbitrary: out) (auto simp: ref_names_item)

lemma wf_refs_getResourceReferences [wf_intros]:
  "wf_refs out \<Longrightarrow> wf_refs (getResourceReferences L resources out)"
  unfolding getResourceReferences_def
  by (induction resources arbitrary: out) (auto intro: wf_intros)

lemma ref_names_Nil [simp]: "ref_names [] t = {}"
  by (simp add: ref_names_def)

lemma ref_names_GetAllResourceReferences:
  "ref_names (GetAllResourceReferences L groups) t =
     (\<Union>typ \<in> {Cluster, Listener, ScopedRoute}.
        \<Union>(k, res) \<in> set (rs_items (groups typ)). item_refs L (rt_resource res) t)"
  by (auto simp: GetAllResourceReferences_def responseTypesWithReferences_def all_types_def
      ref_names_getResourceReferences)

lemma wf_refs_GetAllResourceReferences: "wf_refs (GetAllResourceReferences L groups)"
  by (simp add: GetAllResourceReferences_def responseTypesWithReferences_def all_types_def wf_intros)

end
