(* ===== verification/Snapshot.thy ===== *)
theory Snapshot
  imports References Watches
begin

text \<open>
  Snapshots (\<open>pkg/cache/v3/snapshot.go\<close>): the resources of every type under one version each, and
  the version map of the delta protocol, which is built on demand.  The array
  \<open>[types.UnknownType]Resources\<close> is a function from response types; \<open>GetResponseType\<close> never
  indexes it with \<open>UnknownType\<close>.  A method whose receiver may be a nil pointer takes an option.
  A nil map of resources is only ever read, as an empty one, and is the empty list here.
\<close>

record Snapshot =
  snap_Resources :: "ResponseType \<Rightarrow> Resources"
  snap_VersionMap :: "(string, (string, string) gomap) gomap option"

definition empty_Snapshot :: Snapshot where
  "empty_Snapshot = \<lparr>snap_Resources = (\<lambda>_. empty_Resources), snap_VersionMap = None\<rparr>"

section \<open>Building a snapshot\<close>

definition NewSnapshot_step ::
    "string \<Rightarrow> string \<times> Resource list \<Rightarrow> Snapshot \<Rightarrow> Snapshot \<times> go_error option" where
  "NewSnapshot_step version = (\<lambda>(typ, resource) out.
     let index = GetResponseType typ in
     if index = UnknownType then (out, Some (UnknownResourceType typ))
     else (out\<lparr>snap_Resources := (snap_Resources out)(index := NewResources version resource)\<rparr>, None))"

definition NewSnapshot :: "string \<Rightarrow> (string, Resource list) gomap \<Rightarrow> go_error + Snapshot" where
  "NewSnapshot version resources =
     (case foldM_err (NewSnapshot_step version) resources empty_Snapshot of
        (out, Some e) \<Rightarrow> Inl e
      | (out, None) \<Rightarrow> Inr out)"

definition NewSnapshotWithTTLs_step ::
    "string \<Rightarrow> string \<times> ResourceWithTTL list \<Rightarrow> Snapshot \<Rightarrow> Snapshot \<times> go_error option" where
  "NewSnapshotWithTTLs_step version = (\<lambda>(typ, resource) out.
     let index = GetResponseType typ in
     if index = UnknownType then (out, Some (UnknownResourceType typ))
     else (out\<lparr>snap_Resources := (snap_Resources out)(index := NewResourcesWithTTL version resource)\<rparr>, None))"

definition NewSnapshotWithTTLs ::
    "string \<Rightarrow> (string, ResourceWithTTL list) gomap \<Rightarrow> go_error + Snapshot" where
  "NewSnapshotWithTTLs version resources =
     (case foldM_err (NewSnapshotWithTTLs_step version) resources empty_Snapshot of
        (out, Some e) \<Rightarrow> Inl e
      | (out, None) \<Rightarrow> Inr out)"

section \<open>Consistency\<close>

text \<open>\<open>superset\<close> and \<open>nameSet\<close> are in \<open>pkg/cache/v3/simple.go\<close>.\<close>

definition nameSet :: "string list \<Rightarrow> (string, bool) gomap" where
  "nameSet names = fold (\<lambda>name. mput name True) names []"

fun superset :: "(string, bool) gomap \<Rightarrow> (string, ResourceWithTTL) gomap \<Rightarrow> go_error option" where
  "superset names [] = None"
| "superset names ((resourceName, r) # resources) =
     (if mget names resourceName = None then Some (NotListed resourceName)
      else superset names resources)"

definition referencedResponseTypes :: "ResponseType list" where
  "referencedResponseTypes = [Endpoint, Route]"

fun Consistent_loop ::
    "ref_map \<Rightarrow> (ResponseType \<Rightarrow> Resources) \<Rightarrow> ResponseType list \<Rightarrow> go_error option" where
  "Consistent_loop referencedResources resources [] = None"
| "Consistent_loop referencedResources resources (responseType # types) =
     (if responseType \<notin> set referencedResponseTypes
      then Consistent_loop referencedResources resources types
      else case GetResponseTypeURL responseType of
        Inl e \<Rightarrow> Some e
      | Inr typeURL \<Rightarrow>
          (let referenceSet = mget_or [] referencedResources typeURL;
               items = rs_items (resources responseType)
           in if length referenceSet \<noteq> length items then Some (LengthMismatch typeURL)
              else case superset referenceSet items of
                     Some e \<Rightarrow> Some (InconsistentReference typeURL e)
                   | None \<Rightarrow> Consistent_loop referencedResources resources types))"

definition Consistent :: "lib \<Rightarrow> Snapshot option \<Rightarrow> go_error option" where
  "Consistent L s =
     (case s of
        None \<Rightarrow> Some NilSnapshot
      | Some s \<Rightarrow>
          Consistent_loop (GetAllResourceReferences L (snap_Resources s)) (snap_Resources s) all_types)"

section \<open>Reading a snapshot\<close>

definition GetResourcesAndTTL :: "Snapshot option \<Rightarrow> string \<Rightarrow> (string, ResourceWithTTL) gomap" where
  "GetResourcesAndTTL s typeURL =
     (case s of
        None \<Rightarrow> []
      | Some s \<Rightarrow>
          let typ = GetResponseType typeURL
          in if typ = UnknownType then [] else rs_items (snap_Resources s typ))"

definition snapshot_GetResources :: "Snapshot option \<Rightarrow> string \<Rightarrow> (string, Resource) gomap" where
  "snapshot_GetResources s typeURL =
     fold (\<lambda>(k, v) withoutTTL. mput k (rt_resource v) withoutTTL) (GetResourcesAndTTL s typeURL) []"

definition snapshot_GetVersion :: "Snapshot option \<Rightarrow> string \<Rightarrow> string" where
  "snapshot_GetVersion s typeURL =
     (case s of
        None \<Rightarrow> ''''
      | Some s \<Rightarrow>
          let typ = GetResponseType typeURL
          in if typ = UnknownType then '''' else rs_version (snap_Resources s typ))"

definition GetVersionMap :: "Snapshot \<Rightarrow> string \<Rightarrow> (string, string) gomap" where
  "GetVersionMap s typeURL =
     (case snap_VersionMap s of None \<Rightarrow> [] | Some m \<Rightarrow> mget_or [] m typeURL)"

section \<open>The version map\<close>

type_synonym version_maps = "(string, (string, string) gomap) gomap"

definition version_map_item ::
    "lib \<Rightarrow> string \<Rightarrow> string \<times> ResourceWithTTL \<Rightarrow> version_maps \<Rightarrow> version_maps \<times> go_error option" where
  "version_map_item L typeURL = (\<lambda>(k, r) vm.
     case MarshalResource L (rt_resource r) of
       Inl e \<Rightarrow> (vm, Some e)
     | Inr marshaledResource \<Rightarrow>
         (let v = HashResource L marshaledResource in
          if v = '''' then (vm, Some EmptyHash)
          else (mput typeURL (mput (GetResourceName (rt_resource r)) v (mget_or [] vm typeURL)) vm, None)))"

definition version_map_type ::
    "lib \<Rightarrow> (ResponseType \<Rightarrow> Resources) \<Rightarrow> ResponseType \<Rightarrow> version_maps \<Rightarrow> version_maps \<times> go_error option" where
  "version_map_type L resources i vm =
     (case GetResponseTypeURL i of
        Inl e \<Rightarrow> (vm, Some e)
      | Inr typeURL \<Rightarrow>
          (let vm = (if mget vm typeURL = None then mput typeURL [] vm else vm)
           in foldM_err (version_map_item L typeURL) (rs_items (resources i)) vm))"

text \<open>The snapshot is changed even when an error is returned.\<close>

definition ConstructVersionMap :: "lib \<Rightarrow> Snapshot \<Rightarrow> Snapshot \<times> go_error option" where
  "ConstructVersionMap L s =
     (if snap_VersionMap s \<noteq> None then (s, None)
      else case foldM_err (version_map_type L (snap_Resources s)) all_types [] of
             (vm, err) \<Rightarrow> (s\<lparr>snap_VersionMap := Some vm\<rparr>, err))"

text \<open>On a nil receiver: the error, and nothing to change.\<close>

definition ConstructVersionMap_ptr :: "lib \<Rightarrow> Snapshot option \<Rightarrow> Snapshot option \<times> go_error option" where
  "ConstructVersionMap_ptr L s =
     (case s of
        None \<Rightarrow> (None, Some (MissingSnapshot ''''))
      | Some s \<Rightarrow> (case ConstructVersionMap L s of (s, err) \<Rightarrow> (Some s, err)))"

end
