(* ===== verification/SnapshotFacts.thy ===== *)
theory SnapshotFacts
  imports Snapshot
begin

text \<open>
  Facts about snapshots: what a built snapshot holds, when it is consistent, and that the version
  map holds the hashes.
\<close>

section \<open>Well-formed snapshots\<close>

definition snapshot_wf :: "Snapshot \<Rightarrow> bool" where
  "snapshot_wf s \<longleftrightarrow> (\<forall>t. wf_map (rs_items (snap_Resources s t)))"

text \<open>Every resource is filed under its own name, as the constructors do it.\<close>

definition snapshot_named :: "Snapshot \<Rightarrow> bool" where
  "snapshot_named s \<longleftrightarrow>
     (\<forall>t k r. (k, r) \<in> set (rs_items (snap_Resources s t)) \<longrightarrow> GetResourceName (rt_resource r) = k)"

lemma NewResources_step:
  "NewSnapshot_step version (typ, rs) = NewSnapshotWithTTLs_step version
     (typ, map (\<lambda>item. \<lparr>rt_resource = item, rt_ttl = None\<rparr>) rs)"
  by (simp add: NewSnapshot_step_def NewSnapshotWithTTLs_step_def NewResources_def fun_eq_iff Let_def)

lemma NewSnapshot_TTL:
  "NewSnapshot version resources =
     NewSnapshotWithTTLs version
       (map (\<lambda>(typ, rs). (typ, map (\<lambda>item. \<lparr>rt_resource = item, rt_ttl = None\<rparr>) rs)) resources)"
proof -
  have "foldM_err (NewSnapshot_step version) resources out =
     foldM_err (NewSnapshotWithTTLs_step version)
       (map (\<lambda>(typ, rs). (typ, map (\<lambda>item. \<lparr>rt_resource = item, rt_ttl = None\<rparr>) rs)) resources) out" for out
    by (induction resources arbitrary: out) (auto simp: NewResources_step split: option.splits prod.splits)
  then show ?thesis by (simp add: NewSnapshot_def NewSnapshotWithTTLs_def)
qed

lemma NewSnapshotWithTTLs_loop:
  assumes "wf_map resources"
  shows "foldM_err (NewSnapshotWithTTLs_step version) resources out =
     (if \<forall>t \<in> dom (mget resources). GetResponseType t \<noteq> UnknownType
      then (out\<lparr>snap_Resources := \<lambda>t. case GetResponseTypeURL t of
              Inl _ \<Rightarrow> snap_Resources out t
            | Inr u \<Rightarrow> (case mget resources u of None \<Rightarrow> snap_Resources out t
                      | Some rs \<Rightarrow> NewResourcesWithTTL version rs)\<rparr>, None)
      else foldM_err (NewSnapshotWithTTLs_step version) resources out)"
  using assms
proof (induction resources arbitrary: out)
  case Nil
  let ?f = "\<lambda>t. case GetResponseTypeURL t of Inl _ \<Rightarrow> snap_Resources out t
      | Inr u \<Rightarrow> (case mget ([] :: (string, ResourceWithTTL list) gomap) u of None \<Rightarrow> snap_Resources out t
                | Some rs \<Rightarrow> NewResourcesWithTTL version rs)"
  have "?f = snap_Resources out" by (rule ext) (simp split: sum.split)
  then have "out\<lparr>snap_Resources := ?f\<rparr> = out" by (simp only:) simp
  then show ?case by (simp only: foldM_err.simps if_cancel)
next
  case (Cons x resources)
  obtain u rs where x: "x = (u, rs)" by (cases x)
  show ?case
  proof (cases "\<forall>t \<in> dom (mget (x # resources)). GetResponseType t \<noteq> UnknownType")
    case True
    from Cons.prems x have u: "mget resources u = None" and wf: "wf_map resources"
      by (auto simp: mget_eq_None_iff)
    have "u \<in> dom (mget (x # resources))" by (simp add: x domIff)
    with True have known: "GetResponseType u \<noteq> UnknownType" by blast
    have rest: "\<forall>t \<in> dom (mget resources). GetResponseType t \<noteq> UnknownType"
      using True x by (auto split: if_splits)
    let ?out = "out\<lparr>snap_Resources := (snap_Resources out)(GetResponseType u := NewResourcesWithTTL version rs)\<rparr>"
    have type: "GetResponseType u = t \<longleftrightarrow> GetResponseTypeURL t = Inr u" for t
      using known GetResponseTypeURL_GetResponseType GetResponseType_GetResponseTypeURL by blast
    have "(case GetResponseTypeURL t of
              Inl _ \<Rightarrow> snap_Resources ?out t
            | Inr u' \<Rightarrow> (case mget resources u' of None \<Rightarrow> snap_Resources ?out t
                      | Some rs \<Rightarrow> NewResourcesWithTTL version rs)) =
          (case GetResponseTypeURL t of
              Inl _ \<Rightarrow> snap_Resources out t
            | Inr u' \<Rightarrow> (case mget (x # resources) u' of None \<Rightarrow> snap_Resources out t
                      | Some rs \<Rightarrow> NewResourcesWithTTL version rs))" for t
      using type [of t] u by (auto simp: x split: sum.split option.split)
    with Cons.IH [OF wf, of ?out] True rest known show ?thesis
      by (simp add: x NewSnapshotWithTTLs_step_def Let_def)
  next
    case False
    then show ?thesis by (simp only: if_False)
  qed
qed

lemma NewSnapshotWithTTLs_known:
  assumes "wf_map resources" and "\<forall>t \<in> dom (mget resources). GetResponseType t \<noteq> UnknownType"
  shows "NewSnapshotWithTTLs version resources = Inr \<lparr>snap_Resources = (\<lambda>t. case GetResponseTypeURL t of
        Inl _ \<Rightarrow> empty_Resources
      | Inr u \<Rightarrow> (case mget resources u of None \<Rightarrow> empty_Resources
                | Some rs \<Rightarrow> NewResourcesWithTTL version rs)), snap_VersionMap = None\<rparr>"
  using NewSnapshotWithTTLs_loop [OF assms(1), of version empty_Snapshot] assms(2)
  by (auto simp: NewSnapshotWithTTLs_def empty_Snapshot_def fun_eq_iff split: sum.split option.split)

lemma NewSnapshotWithTTLs_unknown:
  assumes "t \<in> dom (mget resources)" and "GetResponseType t = UnknownType"
  shows "\<exists>u. NewSnapshotWithTTLs version resources = Inl (UnknownResourceType u) \<and>
    GetResponseType u = UnknownType \<and> u \<in> dom (mget resources)"
proof -
  have "\<exists>o' u. foldM_err (NewSnapshotWithTTLs_step version) rs out = (o', Some (UnknownResourceType u)) \<and>
     GetResponseType u = UnknownType \<and> u \<in> fst ` set rs" if "t \<in> fst ` set rs" for rs out
    using that assms(2)
    by (induction rs arbitrary: out) (force simp: NewSnapshotWithTTLs_step_def Let_def split: option.splits prod.splits)+
  moreover have "t \<in> fst ` set resources" using assms(1) by (simp add: dom_map_of_conv_image_fst)
  ultimately obtain o' u where
    "foldM_err (NewSnapshotWithTTLs_step version) resources empty_Snapshot = (o', Some (UnknownResourceType u))"
    "GetResponseType u = UnknownType" "u \<in> fst ` set resources" by blast
  then show ?thesis
    by (intro exI [of _ u]) (simp add: NewSnapshotWithTTLs_def dom_map_of_conv_image_fst)
qed

lemma NewSnapshotWithTTLs_ok:
  assumes "wf_map resources" and "NewSnapshotWithTTLs version resources = Inr s"
  shows "(\<forall>t \<in> dom (mget resources). GetResponseType t \<noteq> UnknownType) \<and>
    snap_Resources s = (\<lambda>t. case GetResponseTypeURL t of
        Inl _ \<Rightarrow> empty_Resources
      | Inr u \<Rightarrow> (case mget resources u of None \<Rightarrow> empty_Resources
                | Some rs \<Rightarrow> NewResourcesWithTTL version rs)) \<and> snap_VersionMap s = None"
proof (cases "\<forall>t \<in> dom (mget resources). GetResponseType t \<noteq> UnknownType")
  case True
  with NewSnapshotWithTTLs_known [OF assms(1) this] assms(2) show ?thesis by auto
next
  case False
  then obtain t where "t \<in> dom (mget resources)" "GetResponseType t = UnknownType" by blast
  from NewSnapshotWithTTLs_unknown [OF this, of version] assms(2) show ?thesis by auto
qed

lemma NewSnapshotWithTTLs_wf:
  assumes "wf_map resources" and "NewSnapshotWithTTLs version resources = Inr s"
  shows "snapshot_wf s" and "snapshot_named s"
proof -
  note s = NewSnapshotWithTTLs_ok [OF assms, THEN conjunct2, THEN conjunct1]
  have named: "GetResourceName (rt_resource r) = k" if "(k, r) \<in> set (IndexResourcesByName items)" for k r items
    using that IndexResourcesByName_name mget_eq_Some_iff [OF wf_IndexResourcesByName] by metis
  show "snapshot_wf s"
    by (simp add: snapshot_wf_def s NewResourcesWithTTL_def empty_Resources_def split: sum.split option.split)
  show "snapshot_named s"
    by (auto simp: snapshot_named_def s NewResourcesWithTTL_def empty_Resources_def
        split: sum.splits option.splits dest: named)
qed

text \<open>What the accessors of a built snapshot return.\<close>

lemma NewSnapshotWithTTLs_get:
  assumes "wf_map resources" and "NewSnapshotWithTTLs version resources = Inr s"
  shows "GetResourcesAndTTL (Some s) u =
      (case mget resources u of None \<Rightarrow> [] | Some rs \<Rightarrow> IndexResourcesByName rs)"
    and "snapshot_GetVersion (Some s) u = (case mget resources u of None \<Rightarrow> '''' | Some rs \<Rightarrow> version)"
proof -
  note ok = NewSnapshotWithTTLs_ok [OF assms]
  have "GetResponseType u = UnknownType \<Longrightarrow> mget resources u = None"
    using ok by (cases "mget resources u") auto
  moreover have "GetResponseType u \<noteq> UnknownType \<Longrightarrow> GetResponseTypeURL (GetResponseType u) = Inr u"
    by (rule GetResponseTypeURL_GetResponseType)
  ultimately show "GetResourcesAndTTL (Some s) u =
      (case mget resources u of None \<Rightarrow> [] | Some rs \<Rightarrow> IndexResourcesByName rs)"
    and "snapshot_GetVersion (Some s) u = (case mget resources u of None \<Rightarrow> '''' | Some rs \<Rightarrow> version)"
    using ok by (auto simp: GetResourcesAndTTL_def snapshot_GetVersion_def Let_def empty_Resources_def
        NewResourcesWithTTL_def split: option.split)
qed

section \<open>Consistency\<close>

lemma superset_None_iff: "superset names resources = None \<longleftrightarrow> fst ` set resources \<subseteq> dom (mget names)"
  by (induction names resources rule: superset.induct) auto

lemma length_superset:
  assumes "wf_map refs" and "wf_map items"
  shows "length refs = length items \<and> superset refs items = None \<longleftrightarrow> dom (mget refs) = dom (mget items)"
proof -
  have dom: "fst ` set items = dom (mget items)" by (simp add: dom_map_of_conv_image_fst)
  have fin: "finite (dom (mget refs))" by (rule finite_dom_map_of)
  show ?thesis
    unfolding superset_None_iff length_wf_map [OF assms(1)] length_wf_map [OF assms(2)] dom
  proof
    assume "card (dom (mget refs)) = card (dom (mget items)) \<and> dom (mget items) \<subseteq> dom (mget refs)"
    then show "dom (mget refs) = dom (mget items)" using card_subset_eq [OF fin] by metis
  qed simp
qed

text \<open>The names of type \<open>u\<close> that some cluster, listener or scoped route of a snapshot refers to.\<close>

definition snapshot_refs :: "lib \<Rightarrow> Snapshot \<Rightarrow> string \<Rightarrow> string set" where
  "snapshot_refs L s u =
     (\<Union>typ \<in> {Cluster, Listener, ScopedRoute}.
        \<Union>(k, res) \<in> set (rs_items (snap_Resources s typ)). item_refs L (rt_resource res) u)"

lemma Consistent_iff:
  assumes "snapshot_wf s"
  shows "Consistent L (Some s) = None \<longleftrightarrow>
    snapshot_refs L s EndpointType = dom (mget (GetResourcesAndTTL (Some s) EndpointType)) \<and>
    snapshot_refs L s RouteType = dom (mget (GetResourcesAndTTL (Some s) RouteType))"
proof -
  let ?refs = "GetAllResourceReferences L (snap_Resources s)"
  have wf: "wf_map (mget_or [] ?refs u)" "wf_map (rs_items (snap_Resources s t))" for u t
    using assms wf_refs_get [OF wf_refs_GetAllResourceReferences] by (auto simp: snapshot_wf_def)
  have refs: "dom (mget (mget_or [] ?refs u)) = snapshot_refs L s u" for u
    using ref_names_GetAllResourceReferences [of L "snap_Resources s" u]
    by (simp add: ref_names_def snapshot_refs_def)
  have items: "GetResourcesAndTTL (Some s) EndpointType = rs_items (snap_Resources s Endpoint)"
    "GetResourcesAndTTL (Some s) RouteType = rs_items (snap_Resources s Route)"
    by (simp_all add: GetResourcesAndTTL_def GetResponseType_def type_url_defs)
  have "Consistent L (Some s) = None \<longleftrightarrow>
      (length (mget_or [] ?refs EndpointType) = length (rs_items (snap_Resources s Endpoint)) \<and>
       superset (mget_or [] ?refs EndpointType) (rs_items (snap_Resources s Endpoint)) = None) \<and>
      (length (mget_or [] ?refs RouteType) = length (rs_items (snap_Resources s Route)) \<and>
       superset (mget_or [] ?refs RouteType) (rs_items (snap_Resources s Route)) = None)"
    by (auto simp: Consistent_def all_types_def referencedResponseTypes_def Let_def split: option.split)
  then show ?thesis unfolding length_superset [OF wf] refs items .
qed

section \<open>The version map\<close>

text \<open>The hashes of the items of one type.\<close>

definition item_hashes ::
    "lib \<Rightarrow> (string, ResourceWithTTL) gomap \<Rightarrow> (string, string) gomap \<Rightarrow> (string, string) gomap" where
  "item_hashes L items m =
     fold (\<lambda>(k, r). mput (GetResourceName (rt_resource r)) (hash_of L (rt_resource r))) items m"

lemma version_map_item_total:
  assumes "lib_total L"
  shows "version_map_item L u (k, r) vm =
    (mput u (mput (GetResourceName (rt_resource r)) (hash_of L (rt_resource r)) (mget_or [] vm u)) vm, None)"
  using lib_total_version [OF assms, of "rt_resource r"]
  by (auto simp: version_map_item_def resource_version_def Let_def split: sum.splits if_splits)

lemma version_map_items_total:
  assumes L: "lib_total L" and "mget vm u = Some m"
  shows "\<exists>vm'. foldM_err (version_map_item L u) items vm = (vm', None) \<and>
    (\<forall>u'. mget vm' u' = (if u' = u then Some (item_hashes L items m) else mget vm u'))"
  using assms(2)
proof (induction items arbitrary: vm m)
  case Nil
  then show ?case by (simp add: item_hashes_def)
next
  case (Cons x items)
  obtain k r where x: "x = (k, r)" by (cases x)
  let ?m = "mput (GetResourceName (rt_resource r)) (hash_of L (rt_resource r)) m"
  have "mget (mput u ?m vm) u = Some ?m" by simp
  from Cons.IH [OF this] Cons.prems show ?case
    by (auto simp: x version_map_item_total [OF L] item_hashes_def mget_put)
qed

lemma version_map_types_total:
  assumes L: "lib_total L" and "UnknownType \<notin> set ts" and "distinct ts"
  shows "\<exists>vm'. foldM_err (version_map_type L res) ts vm = (vm', None) \<and>
    (\<forall>u. mget vm' u = (if GetResponseType u \<in> set ts
         then Some (item_hashes L (rs_items (res (GetResponseType u))) (mget_or [] vm u)) else mget vm u))"
  using assms(2,3)
proof (induction ts arbitrary: vm)
  case Nil
  then show ?case by simp
next
  case (Cons t ts)
  obtain u where u: "GetResponseTypeURL t = Inr u" using GetResponseTypeURL_ok [of t] Cons.prems by auto
  have t: "GetResponseType u' = t \<longleftrightarrow> u' = u" for u'
  proof
    assume "GetResponseType u' = t"
    moreover from this have "GetResponseType u' \<noteq> UnknownType" using Cons.prems(1) by auto
    ultimately show "u' = u" using GetResponseTypeURL_GetResponseType [of u'] u by simp
  next
    assume "u' = u"
    with GetResponseType_GetResponseTypeURL [OF u] show "GetResponseType u' = t" by simp
  qed
  let ?vm = "if mget vm u = None then mput u [] vm else vm"
  have "mget ?vm u = Some (mget_or [] vm u)" by (auto simp: mget_or_def)
  from version_map_items_total [OF L this, of "rs_items (res t)"]
  obtain vm1 where items: "foldM_err (version_map_item L u) (rs_items (res t)) ?vm = (vm1, None)"
    and get1: "\<And>u'. mget vm1 u' = (if u' = u then Some (item_hashes L (rs_items (res t)) (mget_or [] vm u)) else mget ?vm u')"
    by blast
  have vm1: "version_map_type L res t vm = (vm1, None)"
    "\<And>u'. mget vm1 u' = (if u' = u then Some (item_hashes L (rs_items (res t)) (mget_or [] vm u)) else mget vm u')"
    using items by (simp_all add: version_map_type_def u Let_def get1)
  have "UnknownType \<notin> set ts" "distinct ts" using Cons.prems by simp_all
  from Cons.IH [OF this, of vm1] obtain vm' where "foldM_err (version_map_type L res) ts vm1 = (vm', None)"
    and vm': "\<And>u. mget vm' u = (if GetResponseType u \<in> set ts
         then Some (item_hashes L (rs_items (res (GetResponseType u))) (mget_or [] vm1 u)) else mget vm1 u)"
    by blast
  with vm1(1) have "foldM_err (version_map_type L res) (t # ts) vm = (vm', None)" by simp
  moreover have "mget vm' u' = (if GetResponseType u' \<in> set (t # ts)
         then Some (item_hashes L (rs_items (res (GetResponseType u'))) (mget_or [] vm u')) else mget vm u')" for u'
  proof (cases "u' = u")
    case True
    with t have "GetResponseType u' = t" by blast
    with True Cons.prems show ?thesis by (simp add: vm' vm1(2))
  next
    case False
    with t have "GetResponseType u' \<noteq> t" by blast
    with False show ?thesis by (simp add: vm' vm1(2) mget_or_def)
  qed
  ultimately show ?case by blast
qed

lemma ConstructVersionMap_total:
  assumes L: "lib_total L" and "snap_VersionMap s = None"
  shows "\<exists>vm. ConstructVersionMap L s = (s\<lparr>snap_VersionMap := Some vm\<rparr>, None) \<and>
    (\<forall>u. mget vm u = (if GetResponseType u = UnknownType then None
        else Some (item_hashes L (rs_items (snap_Resources s (GetResponseType u))) [])))"
proof -
  have "UnknownType \<notin> set all_types" "distinct all_types" by (simp_all add: set_all_types) (simp add: all_types_def)
  from version_map_types_total [OF L this, of "snap_Resources s" "[]"] assms(2) show ?thesis
    by (auto simp: ConstructVersionMap_def set_all_types)
qed

lemma mget_item_hashes:
  assumes "wf_map items" and "\<And>k r. (k, r) \<in> set items \<Longrightarrow> GetResourceName (rt_resource r) = k"
  shows "mget (item_hashes L items []) n = map_option (\<lambda>r. hash_of L (rt_resource r)) (mget items n)"
proof -
  have "item_hashes L items [] = fold (\<lambda>(k, r). mput k (hash_of L (rt_resource r))) items []"
    unfolding item_hashes_def using assms(2) by (intro fold_cong) auto
  with mget_fold_put_pairs [OF assms(1), of "\<lambda>_ r. hash_of L (rt_resource r)" "[]" n] show ?thesis
    by (cases "mget items n") simp_all
qed

text \<open>A snapshot whose version map holds the hashes, and what is then shown of a type.\<close>

definition snapshot_current :: "lib \<Rightarrow> Snapshot \<Rightarrow> bool" where
  "snapshot_current L s \<longleftrightarrow> (\<forall>vm. snap_VersionMap s = Some vm \<longrightarrow>
     (\<forall>u n. mget (GetVersionMap s u) n =
        map_option (\<lambda>r. hash_of L (rt_resource r)) (mget (GetResourcesAndTTL (Some s) u) n)))"

definition snapshot_container :: "Snapshot \<Rightarrow> string \<Rightarrow> resourceContainer" where
  "snapshot_container s u =
     \<lparr>rc_resourceMap = snapshot_GetResources (Some s) u, rc_versionMap = GetVersionMap s u,
      rc_systemVersion = snapshot_GetVersion (Some s) u\<rparr>"

lemma GetResources_get:
  assumes "snapshot_wf s"
  shows "wf_map (snapshot_GetResources (Some s) u)"
    and "mget (snapshot_GetResources (Some s) u) n = map_option rt_resource (mget (GetResourcesAndTTL (Some s) u) n)"
proof -
  have wf: "wf_map (GetResourcesAndTTL (Some s) u)"
    using assms by (simp add: GetResourcesAndTTL_def Let_def snapshot_wf_def)
  show "wf_map (snapshot_GetResources (Some s) u)"
    unfolding snapshot_GetResources_def by (rule wf_fold_put_pairs) simp
  show "mget (snapshot_GetResources (Some s) u) n = map_option rt_resource (mget (GetResourcesAndTTL (Some s) u) n)"
    by (simp add: snapshot_GetResources_def mget_fold_put_pairs [OF wf] split: option.split)
qed

lemma ConstructVersionMap_current:
  assumes L: "lib_total L" and wf: "snapshot_wf s" "snapshot_named s" and cur: "snapshot_current L s"
  shows "\<exists>vm. ConstructVersionMap L s = (s\<lparr>snap_VersionMap := Some vm\<rparr>, None) \<and>
    snapshot_current L (s\<lparr>snap_VersionMap := Some vm\<rparr>)"
proof (cases "snap_VersionMap s")
  case (Some vm)
  then have same: "s\<lparr>snap_VersionMap := Some vm\<rparr> = s" by (cases s) simp
  have "ConstructVersionMap L s = (s, None)" using Some by (simp add: ConstructVersionMap_def)
  with cur same show ?thesis by metis
next
  case None
  from ConstructVersionMap_total [OF L None] obtain vm where
    vm: "ConstructVersionMap L s = (s\<lparr>snap_VersionMap := Some vm\<rparr>, None)"
      "\<And>u. mget vm u = (if GetResponseType u = UnknownType then None
        else Some (item_hashes L (rs_items (snap_Resources s (GetResponseType u))) []))" by blast
  have "mget (item_hashes L (rs_items (snap_Resources s t)) []) n =
      map_option (\<lambda>r. hash_of L (rt_resource r)) (mget (rs_items (snap_Resources s t)) n)" for t n
    using wf by (intro mget_item_hashes) (auto simp: snapshot_wf_def snapshot_named_def)
  then have "snapshot_current L (s\<lparr>snap_VersionMap := Some vm\<rparr>)"
    by (simp add: snapshot_current_def GetVersionMap_def GetResourcesAndTTL_def Let_def mget_or_def vm(2))
  with vm(1) show ?thesis by blast
qed

lemma snapshot_versions_ok:
  assumes L: "lib_total L" and wf: "snapshot_wf s" "snapshot_named s" and cur: "snapshot_current L s"
    and vm: "snap_VersionMap s \<noteq> None"
  shows "versions_ok L (snapshot_container s u)"
proof -
  have "GetResourceName r = n \<and> resource_version L r = Inr (version_of (snapshot_container s u) n)"
    if "(n, r) \<in> set (snapshot_GetResources (Some s) u)" for n r
  proof -
    from that GetResources_get [OF wf(1)] obtain x where
      x: "mget (GetResourcesAndTTL (Some s) u) n = Some x" and r: "r = rt_resource x"
      by (auto simp: mget_eq_Some_iff [symmetric])
    then have "GetResourceName r = n"
      using wf(2) by (auto simp: GetResourcesAndTTL_def Let_def snapshot_named_def dest!: mget_in_set split: if_splits)
    moreover have "version_of (snapshot_container s u) n = hash_of L r"
      using cur vm x r by (auto simp: version_of_def snapshot_container_def snapshot_current_def mget_or_def)
    ultimately show ?thesis by (simp add: lib_total_version [OF L])
  qed
  with GetResources_get(1) [OF wf(1)] show ?thesis by (auto simp: versions_ok_def snapshot_container_def)
qed

section \<open>A failure while building the version map\<close>

lemma version_map_item_cases:
  "version_map_item L u (k, r) vm =
     (case resource_version L (rt_resource r) of
        Inl e \<Rightarrow> (vm, Some e)
      | Inr v \<Rightarrow> (mput u (mput (GetResourceName (rt_resource r)) v (mget_or [] vm u)) vm, None))"
  by (simp add: version_map_item_def resource_version_def Let_def split: sum.split)

lemma version_map_items_frame:
  "u' \<noteq> u \<Longrightarrow> foldM_err (version_map_item L u) items vm = (vm', e) \<Longrightarrow> mget vm' u' = mget vm u'"
proof (induction items arbitrary: vm)
  case (Cons x items)
  then show ?case
    by (cases x) (auto simp: version_map_item_cases split: sum.splits)
qed simp

lemma version_map_items_fail:
  assumes "foldM_err (version_map_item L u) items vm = (vm', Some e)"
    and "wf_map items" and "\<And>k r. (k, r) \<in> set items \<Longrightarrow> GetResourceName (rt_resource r) = k"
    and "\<And>k. k \<in> fst ` set items \<Longrightarrow> mget (mget_or [] vm u) k = None"
  shows "\<exists>k \<in> fst ` set items. mget (mget_or [] vm' u) k = None"
  using assms
proof (induction items arbitrary: vm)
  case (Cons x items)
  obtain k r where x: "x = (k, r)" by (cases x)
  show ?case
  proof (cases "resource_version L (rt_resource r)")
    case (Inl e')
    with Cons.prems(1) have "vm' = vm" by (simp add: x version_map_item_cases)
    with Cons.prems(4) [of k] show ?thesis by (auto simp: x)
  next
    case (Inr v)
    have name: "GetResourceName (rt_resource r) = k" using Cons.prems(3) x by simp
    let ?vm = "mput u (mput k v (mget_or [] vm u)) vm"
    have "foldM_err (version_map_item L u) items ?vm = (vm', Some e)"
      using Cons.prems(1) Inr by (simp add: x version_map_item_cases name)
    moreover have "wf_map items" using Cons.prems(2) x by simp
    moreover have "mget (mget_or [] ?vm u) k' = None" if "k' \<in> fst ` set items" for k'
      using Cons.prems(2,4) that x by (auto simp: mget_put)
    moreover have "GetResourceName (rt_resource r') = k'" if "(k', r') \<in> set items" for k' r'
      using Cons.prems(3) that by simp
    ultimately have "\<exists>k \<in> fst ` set items. mget (mget_or [] vm' u) k = None"
      by (intro Cons.IH)
    then show ?thesis by (auto simp: x)
  qed
qed simp

lemma version_map_types_fail:
  assumes "foldM_err (version_map_type L res) ts vm = (vm', Some e)"
    and "distinct ts" and "UnknownType \<notin> set ts"
    and "\<And>t. wf_map (rs_items (res t))"
    and "\<And>t k r. (k, r) \<in> set (rs_items (res t)) \<Longrightarrow> GetResourceName (rt_resource r) = k"
    and "\<And>u. GetResponseType u \<in> set ts \<Longrightarrow> mget vm u = None"
  shows "\<exists>u. \<exists>k \<in> fst ` set (rs_items (res (GetResponseType u))).
     GetResponseType u \<noteq> UnknownType \<and> mget (mget_or [] vm' u) k = None"
  using assms(1-3,6)
proof (induction ts arbitrary: vm)
  case (Cons t ts)
  have known: "t \<noteq> UnknownType" using Cons.prems(3) by auto
  obtain u where u: "GetResponseTypeURL t = Inr u" using GetResponseTypeURL_ok [OF known] by auto
  have t: "GetResponseType u = t" by (rule GetResponseType_GetResponseTypeURL [OF u])
  obtain vm1 e1 where step: "version_map_type L res t vm = (vm1, e1)" by (cases "version_map_type L res t vm")
  have vm: "mget vm u = None" using Cons.prems(4) t by simp
  then have items: "foldM_err (version_map_item L u) (rs_items (res t)) (mput u [] vm) = (vm1, e1)"
    using step by (simp add: version_map_type_def u)
  show ?case
  proof (cases e1)
    case (Some e')
    with Cons.prems(1) step have "vm' = vm1" by simp
    moreover have "\<exists>k \<in> fst ` set (rs_items (res t)). mget (mget_or [] vm1 u) k = None"
      using items Some assms(4,5) by (intro version_map_items_fail) auto
    ultimately show ?thesis using t known by blast
  next
    case None
    have "mget vm1 u' = None" if "GetResponseType u' \<in> set ts" for u'
    proof -
      have "u' \<noteq> u" using that t Cons.prems(2) by auto
      with version_map_items_frame [OF this items] Cons.prems(4) that show ?thesis by simp
    qed
    with None Cons.prems(1-3) step show ?thesis by (intro Cons.IH) auto
  qed
qed simp

lemma ConstructVersionMap_fail:
  assumes "ConstructVersionMap L s = (s', Some e)" and "snapshot_wf s" and "snapshot_named s"
  shows "(\<exists>vm. s' = s\<lparr>snap_VersionMap := Some vm\<rparr>) \<and>
    (\<exists>u k. mget (GetResourcesAndTTL (Some s') u) k \<noteq> None \<and> mget (GetVersionMap s' u) k = None)"
proof -
  from assms(1) obtain vm where vm: "foldM_err (version_map_type L (snap_Resources s)) all_types [] = (vm, Some e)"
    and s': "s' = s\<lparr>snap_VersionMap := Some vm\<rparr>"
    by (auto simp: ConstructVersionMap_def split: if_splits prod.splits)
  have "distinct all_types" "UnknownType \<notin> set all_types" by (simp_all add: all_types_def)
  with version_map_types_fail [OF vm] assms(2,3) obtain u k where
    "k \<in> fst ` set (rs_items (snap_Resources s (GetResponseType u)))" "GetResponseType u \<noteq> UnknownType"
    "mget (mget_or [] vm u) k = None"
    by (auto simp: snapshot_wf_def snapshot_named_def)
  then have "mget (GetResourcesAndTTL (Some s') u) k \<noteq> None \<and> mget (GetVersionMap s' u) k = None"
    by (simp add: GetResourcesAndTTL_def GetVersionMap_def s' Let_def mget_eq_None_iff)
  with s' show ?thesis by blast
qed

end
