(* ===== verification/SnapshotProps.thy ===== *)
theory SnapshotProps
  imports SnapshotFacts Samples
begin

text \<open>
  The properties of snapshots (\<open>pkg/cache/v3/snapshot.go\<close>): their contents, their consistency
  check, and their version map.
\<close>

section \<open>Contents\<close>

text \<open>\<open>NewSnapshotWithTTLs\<close> fails exactly when a type URL is unknown; otherwise the snapshot shows,
  for every type URL, the given version and, under each name, the last resource of that name in
  the given list, with its TTL; types that were not given are empty and have the empty version.\<close>

theorem new_snapshot_contents:
  assumes "wf_map resources"
  shows "if \<forall>u \<in> dom (mget resources). GetResponseType u \<noteq> UnknownType
    then \<exists>s. NewSnapshotWithTTLs version resources = Inr s \<and> snap_VersionMap s = None \<and>
      (\<forall>u. snapshot_GetVersion (Some s) u = (if mget resources u = None then '''' else version) \<and>
        (\<forall>n. mget (GetResourcesAndTTL (Some s) u) n =
           find (\<lambda>r. GetResourceName (rt_resource r) = n) (rev (mget_or [] resources u))))
    else \<exists>u \<in> dom (mget resources). GetResponseType u = UnknownType \<and>
      NewSnapshotWithTTLs version resources = Inl (UnknownResourceType u)"
proof (cases "\<forall>u \<in> dom (mget resources). GetResponseType u \<noteq> UnknownType")
  case True
  from NewSnapshotWithTTLs_known [OF assms True] obtain s where
    s: "NewSnapshotWithTTLs version resources = Inr s" by blast
  have "find (\<lambda>r. GetResourceName (rt_resource r) = n) [] = None" for n by simp
  with NewSnapshotWithTTLs_get [OF assms s] NewSnapshotWithTTLs_ok [OF assms s] True s show ?thesis
    by (auto simp: mget_IndexResourcesByName split: option.split)
next
  case False
  then obtain t where "t \<in> dom (mget resources)" "GetResponseType t = UnknownType" by blast
  from NewSnapshotWithTTLs_unknown [OF this, of version] False show ?thesis by auto
qed

definition sample_cluster :: Resource where
  "sample_cluster = Some (ClusterMessage \<lparr>cl_name = ''c1'', cl_discovery_type = Some (Cluster_Type EDS),
     cl_eds_service_name = Some ''e1'', cl_body = []\<rparr>)"

definition sample_types :: "(string, ResourceWithTTL list) gomap" where
  "sample_types = [(ClusterType, [\<lparr>rt_resource = sample_cluster, rt_ttl = None\<rparr>]),
     (EndpointType, [\<lparr>rt_resource = cla ''e1'' [7], rt_ttl = Some 30\<rparr>])]"

lemma sample_types_wf: "wf_map sample_types"
  by (simp add: sample_types_def type_url_defs)

theorem new_snapshot_contents_witness:
  "\<exists>s. NewSnapshotWithTTLs ''v1'' sample_types = Inr s \<and>
     mget (GetResourcesAndTTL (Some s) EndpointType) ''e1'' = Some \<lparr>rt_resource = cla ''e1'' [7], rt_ttl = Some 30\<rparr>"
proof -
  have known: "\<forall>u \<in> dom (mget sample_types). GetResponseType u \<noteq> UnknownType"
    by (auto simp: sample_types_def GetResponseType_def split: if_splits)
  from new_snapshot_contents [OF sample_types_wf, of "''v1''", unfolded if_P [OF known]] obtain s where
    "NewSnapshotWithTTLs ''v1'' sample_types = Inr s"
    "\<forall>u. snapshot_GetVersion (Some s) u = (if mget sample_types u = None then '''' else ''v1'') \<and>
       (\<forall>n. mget (GetResourcesAndTTL (Some s) u) n =
           find (\<lambda>r. GetResourceName (rt_resource r) = n) (rev (mget_or [] sample_types u)))"
    by blast
  moreover have "mget_or [] sample_types EndpointType = [\<lparr>rt_resource = cla ''e1'' [7], rt_ttl = Some 30\<rparr>]"
    by (simp add: sample_types_def mget_or_def type_url_defs)
  ultimately show ?thesis by (intro exI [of _ s]) (simp add: cla_def)
qed

section \<open>Consistency\<close>

text \<open>C21: a snapshot built by the constructors passes \<open>Consistent\<close> exactly when the endpoint names its
  clusters, listeners and scoped routes refer to are the names of its endpoint resources, and the
  route names they refer to are the names of its route configurations.\<close>

theorem snapshot_consistent:
  assumes "wf_map resources" and "NewSnapshotWithTTLs version resources = Inr s"
  shows "Consistent L (Some s) = None \<longleftrightarrow>
    (\<forall>u \<in> {EndpointType, RouteType}.
       {n. \<exists>t \<in> {ClusterType, ListenerType, ScopedRouteType}.
           \<exists>(k, r) \<in> set (GetResourcesAndTTL (Some s) t). n \<in> item_refs L (rt_resource r) u}
       = {n. mget (GetResourcesAndTTL (Some s) u) n \<noteq> None})"
proof -
  have types: "GetResponseType ClusterType = Cluster" "GetResponseType ListenerType = Listener"
    "GetResponseType ScopedRouteType = ScopedRoute"
    by (simp_all add: GetResponseType_def type_url_defs)
  have "snapshot_refs L s u = {n. \<exists>t \<in> {ClusterType, ListenerType, ScopedRouteType}.
       \<exists>(k, r) \<in> set (GetResourcesAndTTL (Some s) t). n \<in> item_refs L (rt_resource r) u}" for u
    by (auto simp: snapshot_refs_def GetResourcesAndTTL_def types Let_def)
  then show ?thesis
    unfolding Consistent_iff [OF NewSnapshotWithTTLs_wf(1) [OF assms]] by (simp add: dom_def)
qed

theorem snapshot_consistent_witness:
  "\<exists>s. NewSnapshotWithTTLs ''v1'' sample_types = Inr s \<and> Consistent sample_lib (Some s) = None"
proof -
  have known: "\<forall>u \<in> dom (mget sample_types). GetResponseType u \<noteq> UnknownType"
    by (auto simp: sample_types_def GetResponseType_def split: if_splits)
  from NewSnapshotWithTTLs_known [OF sample_types_wf known, of "''v1''"] obtain s where
    s: "NewSnapshotWithTTLs ''v1'' sample_types = Inr s" by blast
  note get = NewSnapshotWithTTLs_get(1) [OF sample_types_wf s]
  have "GetResourcesAndTTL (Some s) ClusterType = [(''c1'', \<lparr>rt_resource = sample_cluster, rt_ttl = None\<rparr>)]"
    "GetResourcesAndTTL (Some s) EndpointType = [(''e1'', \<lparr>rt_resource = cla ''e1'' [7], rt_ttl = Some 30\<rparr>)]"
    "GetResourcesAndTTL (Some s) ListenerType = []" "GetResourcesAndTTL (Some s) ScopedRouteType = []"
    "GetResourcesAndTTL (Some s) RouteType = []"
    by (simp_all add: get sample_types_def type_url_defs IndexResourcesByName_def sample_cluster_def cla_def)
  then have "Consistent sample_lib (Some s) = None"
    unfolding snapshot_consistent [OF sample_types_wf s]
    by (auto simp: sample_cluster_def cluster_refs_def type_url_defs split: if_splits)
  with s show ?thesis by blast
qed

section \<open>The version map\<close>

text \<open>When every resource can be marshalled, \<open>ConstructVersionMap\<close> succeeds, keeps the resources,
  and then \<open>GetVersionMap\<close> gives, for every type and name, exactly the hash of the resource of the
  snapshot; building it again changes nothing.\<close>

theorem version_map_built:
  assumes "wf_map resources" and "NewSnapshotWithTTLs version resources = Inr s" and "lib_total L"
  shows "\<exists>vm. let s' = s\<lparr>snap_VersionMap := Some vm\<rparr>
    in ConstructVersionMap L s = (s', None) \<and> ConstructVersionMap L s' = (s', None) \<and>
       (\<forall>u n. mget (GetVersionMap s' u) n =
          map_option (\<lambda>r. hash_of L (rt_resource r)) (mget (GetResourcesAndTTL (Some s) u) n))"
proof -
  have "snapshot_current L s"
    using NewSnapshotWithTTLs_ok [OF assms(1,2)] by (simp add: snapshot_current_def)
  from ConstructVersionMap_current [OF assms(3) NewSnapshotWithTTLs_wf [OF assms(1,2)] this]
  obtain vm where vm: "ConstructVersionMap L s = (s\<lparr>snap_VersionMap := Some vm\<rparr>, None)"
    "snapshot_current L (s\<lparr>snap_VersionMap := Some vm\<rparr>)" by blast
  have "ConstructVersionMap L (s\<lparr>snap_VersionMap := Some vm\<rparr>) = (s\<lparr>snap_VersionMap := Some vm\<rparr>, None)"
    by (simp add: ConstructVersionMap_def)
  moreover have "GetResourcesAndTTL (Some (s\<lparr>snap_VersionMap := Some vm\<rparr>)) = GetResourcesAndTTL (Some s)"
    by (simp add: GetResourcesAndTTL_def fun_eq_iff Let_def)
  ultimately show ?thesis
    using vm by (intro exI [of _ vm]) (simp add: snapshot_current_def Let_def)
qed

theorem version_map_built_witness:
  "\<exists>s s'. NewSnapshotWithTTLs ''v1'' sample_types = Inr s \<and> ConstructVersionMap sample_lib s = (s', None)"
proof -
  have known: "\<forall>u \<in> dom (mget sample_types). GetResponseType u \<noteq> UnknownType"
    by (auto simp: sample_types_def GetResponseType_def split: if_splits)
  from NewSnapshotWithTTLs_known [OF sample_types_wf known, of "''v1''"] obtain s where
    s: "NewSnapshotWithTTLs ''v1'' sample_types = Inr s" by blast
  from version_map_built [OF sample_types_wf s lib_total_sample] s show ?thesis
    by (auto simp: Let_def)
qed

text \<open>C37: when \<open>ConstructVersionMap\<close> fails (a resource cannot be marshalled), the partial map stays in
  the snapshot, so the next call reports success, although a resource of the snapshot has no
  version: a stream that subscribes to that resource alone and has received nothing is taken to be
  up to date and is never sent the resource.\<close>

theorem version_map_failure_is_masked:
  assumes "snapshot_wf s" and "snapshot_named s" and "ConstructVersionMap L s = (s', Some e)"
  shows "ConstructVersionMap L s' = (s', None) \<and>
    (\<exists>u n. mget (snapshot_GetResources (Some s') u) n \<noteq> None \<and> mget (GetVersionMap s' u) n = None \<and>
       (\<forall>ctx req st. \<not> IsWildcard st \<and> ss_subscribedResourceNames st = [n] \<and> ss_resourceVersions st = []
          \<longrightarrow> rawd_resources (createDeltaResponse ctx req st (snapshot_container s' u)) = []))"
proof -
  from ConstructVersionMap_fail [OF assms(3,1,2)] obtain vm u n where
    s': "s' = s\<lparr>snap_VersionMap := Some vm\<rparr>" and
    un: "mget (GetResourcesAndTTL (Some s') u) n \<noteq> None" "mget (GetVersionMap s' u) n = None" by blast
  have wf': "snapshot_wf s'" using assms(1) by (simp add: s' snapshot_wf_def)
  note get = GetResources_get [OF wf', of u]
  have "rawd_resources (createDeltaResponse ctx req st (snapshot_container s' u)) = []"
    if "\<not> IsWildcard st" "ss_subscribedResourceNames st = [n]" "ss_resourceVersions st = []" for ctx req st
  proof -
    have "wf_map (rc_resourceMap (snapshot_container s' u))" using get(1) by (simp add: snapshot_container_def)
    from rawd_resources_createDeltaResponse [OF this] that un(2) show ?thesis
      by (simp add: sent_names_def subscribed_changed_def version_of_def snapshot_container_def)
  qed
  moreover have "ConstructVersionMap L s' = (s', None)" by (simp add: ConstructVersionMap_def s')
  moreover have "mget (snapshot_GetResources (Some s') u) n \<noteq> None" using un(1) get(2) by simp
  ultimately show ?thesis using un(2) by blast
qed

definition broken_snapshot :: Snapshot where
  "broken_snapshot = empty_Snapshot\<lparr>snap_Resources :=
     (\<lambda>_. empty_Resources)(Route := \<lparr>rs_version = ''1'',
       rs_items = [(''r'', \<lparr>rt_resource = Some (RouteConfiguration ''r'' []), rt_ttl = None\<rparr>)]\<rparr>)\<rparr>"

theorem version_map_failure_is_masked_witness:
  "\<exists>s' e. ConstructVersionMap failing_lib broken_snapshot = (s', Some e) \<and>
     ConstructVersionMap failing_lib s' = (s', None)"
proof -
  have "snapshot_wf broken_snapshot" "snapshot_named broken_snapshot"
    by (simp_all add: snapshot_wf_def snapshot_named_def broken_snapshot_def empty_Resources_def)
  moreover obtain s' e where "ConstructVersionMap failing_lib broken_snapshot = (s', Some e)"
  proof -
    have "resource_version failing_lib (Some (RouteConfiguration ''r'' [])) = Inl MarshalFailed"
      by (simp add: resource_version_def failing_lib_def MarshalResource_def)
    then have "snd (version_map_type failing_lib (snap_Resources broken_snapshot) Route vm) \<noteq> None" for vm
      by (simp add: version_map_type_def broken_snapshot_def version_map_item_cases Let_def)
    then have "snd (foldM_err (version_map_type failing_lib (snap_Resources broken_snapshot)) all_types []) \<noteq> None"
      by (intro foldM_err_fails [of Route]) (simp_all add: set_all_types)
    moreover have "snap_VersionMap broken_snapshot = None" by (simp add: broken_snapshot_def empty_Snapshot_def)
    ultimately show thesis
      by (intro that [of "fst (ConstructVersionMap failing_lib broken_snapshot)"
            "the (snd (ConstructVersionMap failing_lib broken_snapshot))"])
        (auto simp: ConstructVersionMap_def split: prod.splits)
  qed
  ultimately show ?thesis using version_map_failure_is_masked by blast
qed

end
