(* ===== verification/Status.thy ===== *)
theory Status
  imports Snapshot
begin

text \<open>
  The status of a node in the snapshot cache (\<open>pkg/cache/v3/status.go\<close>) and the order in which ADS
  serves its watches (\<open>pkg/cache/v3/order.go\<close>).  A point in time is a number.  \<open>sort.Sort\<close> may
  leave equal elements in any order; the model sorts the list of the map's keys stably, and as the
  order of that list is arbitrary, so is the order of equal elements.
\<close>

section \<open>The order of ADS\<close>

record key =
  key_ID :: int64
  key_TypeURL :: string

type_synonym keys = "key list"

definition keys_Less :: "keys \<Rightarrow> nat \<Rightarrow> nat \<Rightarrow> bool" where
  "keys_Less k i j \<longleftrightarrow> GetResponseType (key_TypeURL (k ! i)) < GetResponseType (key_TypeURL (k ! j))"

definition keys_Swap :: "keys \<Rightarrow> nat \<Rightarrow> nat \<Rightarrow> keys" where
  "keys_Swap k i j = k[i := k ! j, j := k ! i]"

definition sort_keys :: "keys \<Rightarrow> keys" where
  "sort_keys k = sort_key (\<lambda>x. GetResponseType (key_TypeURL x)) k"

section \<open>Nodes\<close>

text \<open>The default \<open>NodeHash\<close>; the cache takes any function.\<close>

definition IDHash_ID :: "Node option \<Rightarrow> string" where
  "IDHash_ID node = (case node of None \<Rightarrow> '''' | Some n \<Rightarrow> node_id n)"

type_synonym time = nat

record statusInfo =
  si_node :: "Node option"
  si_watches :: "(int64, ResponseWatch) gomap"
  si_orderedWatches :: keys
  si_deltaWatches :: "(int64, DeltaResponseWatch) gomap"
  si_orderedDeltaWatches :: keys
  si_lastWatchRequestTime :: time
  si_lastDeltaWatchRequestTime :: time

definition newStatusInfo :: "Node option \<Rightarrow> statusInfo" where
  "newStatusInfo node =
     \<lparr>si_node = node, si_watches = [], si_orderedWatches = [], si_deltaWatches = [],
      si_orderedDeltaWatches = [], si_lastWatchRequestTime = 0, si_lastDeltaWatchRequestTime = 0\<rparr>"

definition GetNumWatches :: "statusInfo \<Rightarrow> nat" where
  "GetNumWatches info = length (si_watches info)"

definition GetNumDeltaWatches :: "statusInfo \<Rightarrow> nat" where
  "GetNumDeltaWatches info = length (si_deltaWatches info)"

definition setLastDeltaWatchRequestTime :: "time \<Rightarrow> statusInfo \<Rightarrow> statusInfo" where
  "setLastDeltaWatchRequestTime t info = info\<lparr>si_lastDeltaWatchRequestTime := t\<rparr>"

definition setDeltaResponseWatch :: "int64 \<Rightarrow> DeltaResponseWatch \<Rightarrow> statusInfo \<Rightarrow> statusInfo" where
  "setDeltaResponseWatch watchID drw info = info\<lparr>si_deltaWatches := mput watchID drw (si_deltaWatches info)\<rparr>"

definition orderResponseWatches :: "statusInfo \<Rightarrow> statusInfo" where
  "orderResponseWatches info = info\<lparr>si_orderedWatches := sort_keys
     (map (\<lambda>(id, watch). \<lparr>key_ID = id, key_TypeURL = req_type_url (w_Request watch)\<rparr>) (si_watches info))\<rparr>"

definition orderResponseDeltaWatches :: "statusInfo \<Rightarrow> statusInfo" where
  "orderResponseDeltaWatches info = info\<lparr>si_orderedDeltaWatches := sort_keys
     (map (\<lambda>(id, watch). \<lparr>key_ID = id, key_TypeURL = dreq_type_url (dw_Request watch)\<rparr>) (si_deltaWatches info))\<rparr>"

end
