(* ===== verification/SimpleCache.thy ===== *)
theory SimpleCache
  imports Status
begin

text \<open>
  The snapshot cache of \<open>pkg/cache/v3/simple.go\<close>: one snapshot per node, the open watches of each
  node in its status.  Every operation runs under the cache's mutex and is one function.  The
  \<open>select\<close> between a send and \<open>ctx.Done()\<close> is decided by \<open>done\<close>, which says for which channels the
  context ends first; with \<open>context.Background()\<close> it never does.  The snapshots are values: the
  version map a snapshot gets is stored back for the node.  Logging is left out (the constructor
  replaces a nil logger).
\<close>

record snapshotCache =
  sc_watchCount :: int64
  sc_deltaWatchCount :: int64
  sc_ads :: bool
  sc_snapshots :: "(string, Snapshot) gomap"
  sc_status :: "(string, statusInfo) gomap"
  sc_hash :: "Node option \<Rightarrow> string"

text \<open>What a cancel function undoes; \<open>NoCancel\<close> is the empty function.\<close>

datatype simple_canceler = NoCancel | CancelSotw string int64 | CancelDeltaWatch string int64

definition newSnapshotCache :: "bool \<Rightarrow> (Node option \<Rightarrow> string) \<Rightarrow> snapshotCache" where
  "newSnapshotCache ads hash =
     \<lparr>sc_watchCount = 0, sc_deltaWatchCount = 0, sc_ads = ads, sc_snapshots = [], sc_status = [],
      sc_hash = hash\<rparr>"

section \<open>Responding\<close>

definition createResponse ::
    "ctx \<Rightarrow> DiscoveryRequest \<Rightarrow> (string, ResourceWithTTL) gomap \<Rightarrow> string \<Rightarrow> bool \<Rightarrow> RawResponse" where
  "createResponse ctx request resources version heartbeat =
     (let filtered =
        (if length (req_resource_names request) \<noteq> 0
         then (let s = nameSet (req_resource_names request)
               in map snd (filter (\<lambda>(name, resource). mget_or False s name) resources))
         else map snd resources)
      in \<lparr>raw_request = request, raw_version = version, raw_resources = filtered,
          raw_heartbeat = heartbeat, raw_ctx = ctx, raw_marshaled = None\<rparr>)"

definition respond ::
    "bool \<Rightarrow> (chan \<Rightarrow> bool) \<Rightarrow> ctx \<Rightarrow> DiscoveryRequest \<Rightarrow> chan \<Rightarrow> (string, ResourceWithTTL) gomap
       \<Rightarrow> string \<Rightarrow> bool \<Rightarrow> send list \<times> go_error option" where
  "respond ads done ctx request value resources version heartbeat =
     (if length (req_resource_names request) \<noteq> 0 \<and> ads
         \<and> superset (nameSet (req_resource_names request)) resources \<noteq> None
      then ([], None)
      else if done value then ([], Some ContextCanceled)
      else ([Send value (Some (Raw (createResponse ctx request resources version heartbeat)))], None))"

text \<open>No response means there has been no state change.\<close>

definition respondDelta ::
    "(chan \<Rightarrow> bool) \<Rightarrow> ctx \<Rightarrow> Snapshot \<Rightarrow> DeltaDiscoveryRequest \<Rightarrow> chan \<Rightarrow> StreamState
       \<Rightarrow> RawDeltaResponse option \<times> send list \<times> go_error option" where
  "respondDelta done ctx snapshot request value state =
     (let resp = createDeltaResponse ctx request state
            \<lparr>rc_resourceMap = snapshot_GetResources (Some snapshot) (dreq_type_url request),
             rc_versionMap = GetVersionMap snapshot (dreq_type_url request),
             rc_systemVersion = snapshot_GetVersion (Some snapshot) (dreq_type_url request)\<rparr>
      in if length (rawd_resources resp) > 0 \<or> length (rawd_removed_resources resp) > 0
            \<or> IsWildcard state \<and> IsFirst state
         then if done value then (Some resp, [], Some ContextCanceled)
              else (Some resp, [SendDelta value (Some (RawDelta resp))], None)
         else (None, [], None))"

section \<open>Setting a snapshot\<close>

definition sotw_respond_step ::
    "bool \<Rightarrow> (chan \<Rightarrow> bool) \<Rightarrow> ctx \<Rightarrow> Snapshot \<Rightarrow> int64 \<times> ResponseWatch
       \<Rightarrow> statusInfo \<times> send list \<Rightarrow> (statusInfo \<times> send list) \<times> go_error option" where
  "sotw_respond_step ads done ctx snapshot = (\<lambda>(id, watch) (info, sends).
     let version = snapshot_GetVersion (Some snapshot) (req_type_url (w_Request watch)) in
     if version \<noteq> req_version_info (w_Request watch) then
       (let resources = GetResourcesAndTTL (Some snapshot) (req_type_url (w_Request watch)) in
        case respond ads done ctx (w_Request watch) (w_Response watch) resources version False of
          (s, Some err) \<Rightarrow> ((info, sends @ s), Some err)
        | (s, None) \<Rightarrow> ((info\<lparr>si_watches := mdel id (si_watches info)\<rparr>, sends @ s), None))
     else ((info, sends), None))"

text \<open>
  In the ADS loops a key is looked up again; it was listed just before, and only the entry just
  served is deleted, so the zero value of a watch is never used.
\<close>

definition zero_ResponseWatch :: ResponseWatch where
  "zero_ResponseWatch = \<lparr>w_Request = empty_request, w_Response = 0\<rparr>"

definition zero_DeltaResponseWatch :: DeltaResponseWatch where
  "zero_DeltaResponseWatch =
     \<lparr>dw_Request = empty_delta_request, dw_Response = 0, dw_StreamState = NewStreamState False None\<rparr>"

definition respondSOTWWatches ::
    "bool \<Rightarrow> (chan \<Rightarrow> bool) \<Rightarrow> ctx \<Rightarrow> statusInfo \<Rightarrow> Snapshot
       \<Rightarrow> (statusInfo \<times> send list) \<times> go_error option" where
  "respondSOTWWatches ads done ctx info snapshot =
     (if ads then
        (let info = orderResponseWatches info
         in foldM_err (\<lambda>key (info, sends).
              sotw_respond_step ads done ctx snapshot
                (key_ID key, mget_or zero_ResponseWatch (si_watches info) (key_ID key)) (info, sends))
              (si_orderedWatches info) (info, []))
      else foldM_err (sotw_respond_step ads done ctx snapshot) (si_watches info) (info, []))"

definition delta_respond_step ::
    "(chan \<Rightarrow> bool) \<Rightarrow> ctx \<Rightarrow> Snapshot \<Rightarrow> int64 \<times> DeltaResponseWatch
       \<Rightarrow> statusInfo \<times> send list \<Rightarrow> (statusInfo \<times> send list) \<times> go_error option" where
  "delta_respond_step done ctx snapshot = (\<lambda>(id, watch) (info, sends).
     case respondDelta done ctx snapshot (dw_Request watch) (dw_Response watch) (dw_StreamState watch) of
       (res, s, Some err) \<Rightarrow> ((info, sends @ s), Some err)
     | (res, s, None) \<Rightarrow>
         (if res \<noteq> None then (info\<lparr>si_deltaWatches := mdel id (si_deltaWatches info)\<rparr>, sends @ s)
          else (info, sends @ s), None))"

definition respondDeltaWatches ::
    "lib \<Rightarrow> bool \<Rightarrow> (chan \<Rightarrow> bool) \<Rightarrow> ctx \<Rightarrow> statusInfo \<Rightarrow> Snapshot
       \<Rightarrow> Snapshot \<times> (statusInfo \<times> send list) \<times> go_error option" where
  "respondDeltaWatches L ads done ctx info snapshot =
     (if length (si_deltaWatches info) = 0 then (snapshot, (info, []), None)
      else case ConstructVersionMap L snapshot of
        (snapshot, Some err) \<Rightarrow> (snapshot, (info, []), Some err)
      | (snapshot, None) \<Rightarrow>
          (snapshot,
           if ads then
             (let info = orderResponseDeltaWatches info
              in foldM_err (\<lambda>key (info, sends).
                   delta_respond_step done ctx snapshot
                     (key_ID key, mget_or zero_DeltaResponseWatch (si_deltaWatches info) (key_ID key)) (info, sends))
                   (si_orderedDeltaWatches info) (info, []))
           else foldM_err (delta_respond_step done ctx snapshot) (si_deltaWatches info) (info, [])))"

type_synonym simple_result = "snapshotCache \<times> send list \<times> go_error option"

definition SetSnapshot ::
    "lib \<Rightarrow> (chan \<Rightarrow> bool) \<Rightarrow> ctx \<Rightarrow> string \<Rightarrow> Snapshot \<Rightarrow> snapshotCache \<Rightarrow> simple_result" where
  "SetSnapshot L done ctx node snapshot cache =
     (let cache = cache\<lparr>sc_snapshots := mput node snapshot (sc_snapshots cache)\<rparr> in
      case mget (sc_status cache) node of
        None \<Rightarrow> (cache, [], None)
      | Some info \<Rightarrow>
          (case respondSOTWWatches (sc_ads cache) done ctx info snapshot of
             ((info, sends), Some err) \<Rightarrow>
               (cache\<lparr>sc_status := mput node info (sc_status cache)\<rparr>, sends, Some err)
           | ((info, sends), None) \<Rightarrow>
               (case respondDeltaWatches L (sc_ads cache) done ctx info snapshot of
                  (snapshot, (info, sends'), err) \<Rightarrow>
                    (cache\<lparr>sc_snapshots := mput node snapshot (sc_snapshots cache),
                           sc_status := mput node info (sc_status cache)\<rparr>,
                     sends @ sends', err))))"

definition GetSnapshot :: "string \<Rightarrow> snapshotCache \<Rightarrow> go_error + Snapshot" where
  "GetSnapshot node cache =
     (case mget (sc_snapshots cache) node of None \<Rightarrow> Inl (NoSnapshotFound node) | Some snap \<Rightarrow> Inr snap)"

definition ClearSnapshot :: "string \<Rightarrow> snapshotCache \<Rightarrow> snapshotCache" where
  "ClearSnapshot node cache =
     cache\<lparr>sc_snapshots := mdel node (sc_snapshots cache), sc_status := mdel node (sc_status cache)\<rparr>"

section \<open>Heartbeats\<close>

definition heartbeat_step ::
    "bool \<Rightarrow> (chan \<Rightarrow> bool) \<Rightarrow> ctx \<Rightarrow> Snapshot \<Rightarrow> int64 \<times> ResponseWatch
       \<Rightarrow> statusInfo \<times> send list \<Rightarrow> statusInfo \<times> send list" where
  "heartbeat_step ads done ctx snapshot = (\<lambda>(id, watch) (info, sends).
     let version = snapshot_GetVersion (Some snapshot) (req_type_url (w_Request watch));
         resources = GetResourcesAndTTL (Some snapshot) (req_type_url (w_Request watch));
         resourcesWithTTL = filter (\<lambda>(k, v). rt_ttl v \<noteq> None) resources
     in if length resourcesWithTTL = 0 then (info, sends)
        else (info\<lparr>si_watches := mdel id (si_watches info)\<rparr>,
              sends @ fst (respond ads done ctx (w_Request watch) (w_Response watch)
                             resourcesWithTTL version True)))"

definition sendHeartbeats ::
    "(chan \<Rightarrow> bool) \<Rightarrow> ctx \<Rightarrow> string \<Rightarrow> snapshotCache \<times> send list \<Rightarrow> snapshotCache \<times> send list" where
  "sendHeartbeats done ctx node = (\<lambda>(cache, sends).
     case mget (sc_snapshots cache) node of
       None \<Rightarrow> (cache, sends)
     | Some snapshot \<Rightarrow>
         (case mget (sc_status cache) node of
            None \<Rightarrow> (cache, sends)
          | Some info \<Rightarrow>
              (case fold (heartbeat_step (sc_ads cache) done ctx snapshot) (si_watches info) (info, sends) of
                 (info, sends) \<Rightarrow> (cache\<lparr>sc_status := mput node info (sc_status cache)\<rparr>, sends))))"

text \<open>One tick of the routine started by \<open>NewSnapshotCacheWithHeartbeating\<close>.\<close>

definition heartbeat_tick :: "(chan \<Rightarrow> bool) \<Rightarrow> ctx \<Rightarrow> snapshotCache \<Rightarrow> snapshotCache \<times> send list" where
  "heartbeat_tick done ctx cache = fold (sendHeartbeats done ctx) (mkeys (sc_status cache)) (cache, [])"

section \<open>Watches\<close>

definition nextWatchID :: "snapshotCache \<Rightarrow> int64 \<times> snapshotCache" where
  "nextWatchID cache = (let n = sc_watchCount cache + 1 in (n, cache\<lparr>sc_watchCount := n\<rparr>))"

definition simple_nextDeltaWatchID :: "snapshotCache \<Rightarrow> int64 \<times> snapshotCache" where
  "simple_nextDeltaWatchID cache =
     (let n = sc_deltaWatchCount cache + 1 in (n, cache\<lparr>sc_deltaWatchCount := n\<rparr>))"

definition put_status :: "string \<Rightarrow> statusInfo \<Rightarrow> snapshotCache \<Rightarrow> snapshotCache" where
  "put_status nodeID info cache = cache\<lparr>sc_status := mput nodeID info (sc_status cache)\<rparr>"

definition never :: "chan \<Rightarrow> bool" where
  "never value = False"

text \<open>The answer of a watch that is responded at once.\<close>

definition respond_now ::
    "DiscoveryRequest \<Rightarrow> chan \<Rightarrow> (string, ResourceWithTTL) gomap \<Rightarrow> string \<Rightarrow> snapshotCache
       \<Rightarrow> snapshotCache \<times> send list \<times> simple_canceler option" where
  "respond_now request value resources version cache =
     (case respond (sc_ads cache) never Background request value resources version False of
        (s, Some err) \<Rightarrow> (cache, s, None)
      | (s, None) \<Rightarrow> (cache, s, Some NoCancel))"

definition simple_CreateWatch ::
    "time \<Rightarrow> DiscoveryRequest \<Rightarrow> StreamState \<Rightarrow> chan \<Rightarrow> snapshotCache
       \<Rightarrow> snapshotCache \<times> send list \<times> simple_canceler option" where
  "simple_CreateWatch now request streamState value cache =
     (let nodeID = sc_hash cache (req_node request);
          info = (case mget (sc_status cache) nodeID of
                    None \<Rightarrow> newStatusInfo (req_node request) | Some info \<Rightarrow> info);
          info = info\<lparr>si_lastWatchRequestTime := now\<rparr>;
          cache = put_status nodeID info cache;
          version = (case mget (sc_snapshots cache) nodeID of
                       None \<Rightarrow> '''' | Some snapshot \<Rightarrow> snapshot_GetVersion (Some snapshot) (req_type_url request));
          open_watch =
            (case nextWatchID cache of
               (watchID, cache) \<Rightarrow>
                 (put_status nodeID
                    (info\<lparr>si_watches := mput watchID \<lparr>w_Request = request, w_Response = value\<rparr> (si_watches info)\<rparr>)
                    cache,
                  [], Some (CancelSotw nodeID watchID)))
      in case mget (sc_snapshots cache) nodeID of
           None \<Rightarrow> open_watch
         | Some snapshot \<Rightarrow>
             (let resources = GetResourcesAndTTL (Some snapshot) (req_type_url request);
                  known = GetKnownResourceNames (req_type_url request) streamState;
                  diff = filter (\<lambda>r. r \<notin> set known) (req_resource_names request)
              in if list_ex (\<lambda>name. mget resources name \<noteq> None) diff
                 then respond_now request value resources version cache
                 else if req_version_info request = version then open_watch
                 else respond_now request value resources version cache))"

definition simple_CreateDeltaWatch ::
    "lib \<Rightarrow> time \<Rightarrow> DeltaDiscoveryRequest \<Rightarrow> StreamState \<Rightarrow> chan \<Rightarrow> snapshotCache
       \<Rightarrow> snapshotCache \<times> send list \<times> simple_canceler option" where
  "simple_CreateDeltaWatch L now request state value cache =
     (let nodeID = sc_hash cache (dreq_node request);
          info = (case mget (sc_status cache) nodeID of
                    None \<Rightarrow> newStatusInfo (dreq_node request) | Some info \<Rightarrow> info);
          info = setLastDeltaWatchRequestTime now info;
          cache = put_status nodeID info cache;
          (cache, response, sends) =
            (case mget (sc_snapshots cache) nodeID of
               None \<Rightarrow> (cache, None, [])
             | Some snapshot \<Rightarrow>
                 (let snapshot = fst (ConstructVersionMap L snapshot);
                      cache = cache\<lparr>sc_snapshots := mput nodeID snapshot (sc_snapshots cache)\<rparr>
                  in case respondDelta never Background snapshot request value state of
                       (response, sends, err) \<Rightarrow> (cache, response, sends)))
      in if response = None then
           (case simple_nextDeltaWatchID cache of
              (watchID, cache) \<Rightarrow>
                (put_status nodeID (setDeltaResponseWatch watchID
                     \<lparr>dw_Request = request, dw_Response = value, dw_StreamState = state\<rparr> info) cache,
                 sends, Some (CancelDeltaWatch nodeID watchID)))
         else (cache, sends, None))"

fun simple_cancel :: "simple_canceler \<Rightarrow> snapshotCache \<Rightarrow> snapshotCache" where
  "simple_cancel NoCancel cache = cache"
| "simple_cancel (CancelSotw nodeID watchID) cache =
     (case mget (sc_status cache) nodeID of
        None \<Rightarrow> cache
      | Some info \<Rightarrow> put_status nodeID (info\<lparr>si_watches := mdel watchID (si_watches info)\<rparr>) cache)"
| "simple_cancel (CancelDeltaWatch nodeID watchID) cache =
     (case mget (sc_status cache) nodeID of
        None \<Rightarrow> cache
      | Some info \<Rightarrow> put_status nodeID (info\<lparr>si_deltaWatches := mdel watchID (si_deltaWatches info)\<rparr>) cache)"

section \<open>Fetching and status\<close>

definition simple_Fetch :: "ctx \<Rightarrow> DiscoveryRequest \<Rightarrow> snapshotCache \<Rightarrow> go_error + Response" where
  "simple_Fetch ctx request cache =
     (let nodeID = sc_hash cache (req_node request) in
      case mget (sc_snapshots cache) nodeID of
        None \<Rightarrow> Inl (MissingSnapshot nodeID)
      | Some snapshot \<Rightarrow>
          (let version = snapshot_GetVersion (Some snapshot) (req_type_url request) in
           if req_version_info request = version then Inl SkipFetch
           else Inr (Raw (createResponse ctx request
                  (GetResourcesAndTTL (Some snapshot) (req_type_url request)) version False))))"

definition GetStatusInfo :: "string \<Rightarrow> snapshotCache \<Rightarrow> statusInfo option" where
  "GetStatusInfo node cache = mget (sc_status cache) node"

definition GetStatusKeys :: "snapshotCache \<Rightarrow> string list" where
  "GetStatusKeys cache = mkeys (sc_status cache)"

end
