(* ===== verification/SimpleFacts.thy ===== *)
theory SimpleFacts
  imports SimpleCache SnapshotFacts
begin

text \<open>
  Facts about the snapshot cache: the loops that serve the watches of a node share one contract,
  stated as a locale and interpreted for the three loops of the code; the invariant of the
  reachable states; the cache as a source of deltas.
\<close>

section \<open>Serving the watches of a node\<close>

text \<open>
  \<open>get\<close> and \<open>put\<close> access the table of watches in a status; a step serves one watch: if it fires, it
  is deleted and its answer sent, otherwise nothing happens.
\<close>

locale watch_visit =
  fixes get :: "statusInfo \<Rightarrow> (int64, 'w) gomap"
    and put :: "(int64, 'w) gomap \<Rightarrow> statusInfo \<Rightarrow> statusInfo"
    and step :: "int64 \<times> 'w \<Rightarrow> statusInfo \<times> send list \<Rightarrow> (statusInfo \<times> send list) \<times> go_error option"
    and fires :: "'w \<Rightarrow> bool"
    and answer :: "'w \<Rightarrow> send list"
  assumes get_put: "get (put m i) = m"
    and put_put: "put m (put m' i) = put m i"
    and put_get: "put (get i) i = i"
    and step: "step (watchID, w) (i, sends) =
      (if fires w then (put (mdel watchID (get i)) i, sends @ answer w) else (i, sends), None)"
begin

lemma visit:
  "foldM_err step ws (i, sends) =
     ((put (fold mdel (map fst (filter (\<lambda>(k, w). fires w) ws)) (get i)) i,
       sends @ concat (map (\<lambda>(k, w). answer w) (filter (\<lambda>(k, w). fires w) ws))), None)"
  by (induction ws arbitrary: i sends) (auto simp: step get_put put_put put_get)

lemma visit_keys_eq:
  assumes "distinct (map key_ID ks)"
  shows "foldM_err (\<lambda>key (i, sends). step (key_ID key, mget_or z (get i) (key_ID key)) (i, sends)) ks (i, sends)
     = foldM_err step (map (\<lambda>key. (key_ID key, mget_or z (get i) (key_ID key))) ks) (i, sends)"
  using assms
proof (induction ks arbitrary: i sends)
  case (Cons key ks)
  let ?w = "mget_or z (get i) (key_ID key)"
  obtain i' s' where st: "step (key_ID key, ?w) (i, sends) = ((i', s'), None)"
    and get: "get i' = get i \<or> get i' = mdel (key_ID key) (get i)"
    by (cases "fires ?w") (simp_all add: step get_put)
  have "mget_or z (get i') (key_ID k) = mget_or z (get i) (key_ID k)" if "k \<in> set ks" for k
  proof -
    have "key_ID k \<in> set (map key_ID ks)" using that by simp
    with Cons.prems have "key_ID k \<noteq> key_ID key" by fastforce
    with get show ?thesis by (auto simp: mget_or_def)
  qed
  then have maps: "map (\<lambda>key. (key_ID key, mget_or z (get i') (key_ID key))) ks
      = map (\<lambda>key. (key_ID key, mget_or z (get i) (key_ID key))) ks" by simp
  from Cons.IH [of i' s'] Cons.prems have
    "foldM_err (\<lambda>key (i, sends). step (key_ID key, mget_or z (get i) (key_ID key)) (i, sends)) ks (i', s')
     = foldM_err step (map (\<lambda>key. (key_ID key, mget_or z (get i) (key_ID key))) ks) (i', s')"
    by (simp add: maps)
  with st show ?case by simp
qed simp

text \<open>Visiting the keys in the order of ADS serves every watch once, in that order.\<close>

lemma visit_keys:
  fixes url :: "'w \<Rightarrow> string"
  assumes wf: "wf_map (get i)"
    and ks: "ks = sort_keys (map (\<lambda>(k, w). \<lparr>key_ID = k, key_TypeURL = url w\<rparr>) (get i))"
  shows "\<exists>ws. same_entries ws (get i) \<and> sorted (map (\<lambda>(k, w). GetResponseType (url w)) ws) \<and>
     foldM_err (\<lambda>key (i, sends). step (key_ID key, mget_or z (get i) (key_ID key)) (i, sends)) ks (i, sends)
       = foldM_err step ws (i, sends)"
proof -
  let ?key = "\<lambda>(k, w). \<lparr>key_ID = k, key_TypeURL = url w\<rparr>"
  let ?entry = "\<lambda>key. (key_ID key, mget_or z (get i) (key_ID key))"
  let ?ws = "map ?entry ks"
  have own: "?entry (?key x) = x" if "x \<in> set (get i)" for x
  proof -
    obtain k w where x: "x = (k, w)" by (cases x)
    with that wf have "mget (get i) k = Some w" by (simp add: mget_eq_Some_iff)
    then show ?thesis by (simp add: x)
  qed
  have entries: "map (?entry \<circ> ?key) (get i) = get i"
    by (rule map_idI) (use own in simp)
  have "mset ?ws = mset (map (?entry \<circ> ?key) (get i))"
    by (simp add: ks sort_keys_def multiset.map_comp)
  then have same: "same_entries ?ws (get i)" unfolding entries .
  have url: "GetResponseType (url (snd (?entry k))) = GetResponseType (key_TypeURL k)" if "k \<in> set ks" for k
  proof -
    from that obtain x where "x \<in> set (get i)" "k = ?key x" by (auto simp: ks sort_keys_def)
    with own [OF this(1)] show ?thesis by (cases x) auto
  qed
  have types: "map (\<lambda>(k, w). GetResponseType (url w)) ?ws = map (\<lambda>k. GetResponseType (key_TypeURL k)) ks"
    using url by (simp add: comp_def)
  have sorted: "sorted (map (\<lambda>(k, w). GetResponseType (url w)) ?ws)"
    unfolding types by (simp add: ks sort_keys_def)
  have "distinct (map key_ID ks)"
  proof -
    have "mset (map key_ID ks) = mset (map fst (get i))"
      by (simp add: ks sort_keys_def multiset.map_comp comp_def case_prod_unfold)
    with wf show ?thesis unfolding wf_map_def by (metis mset_eq_imp_distinct_iff)
  qed
  from visit_keys_eq [OF this] same sorted show ?thesis by blast
qed

text \<open>After a visit of all entries, exactly those that do not fire are left.\<close>

lemma visit_left:
  assumes "wf_map (get i)" and "same_entries ws (get i)"
  shows "fold mdel (map fst (filter (\<lambda>(k, w). fires w) ws)) (get i) = filter (\<lambda>(k, w). \<not> fires w) (get i)"
proof -
  have "set ws = set (get i)" using assms(2) by (rule mset_eq_setD)
  then show ?thesis
    unfolding fold_mdel_filter
    by (intro filter_cong [OF refl])
      (use assms(1) in \<open>force simp: wf_map_def image_iff dest: eq_key_imp_eq_value\<close>)
qed

end

section \<open>The three loops\<close>

definition sotw_stale :: "Snapshot \<Rightarrow> ResponseWatch \<Rightarrow> bool" where
  "sotw_stale snap w \<longleftrightarrow>
     snapshot_GetVersion (Some snap) (req_type_url (w_Request w)) \<noteq> req_version_info (w_Request w)"

text \<open>The answer to a watch: nothing when ADS withholds it, else one response.\<close>

definition watch_answer ::
    "bool \<Rightarrow> ctx \<Rightarrow> Snapshot \<Rightarrow> (string, ResourceWithTTL) gomap \<Rightarrow> bool \<Rightarrow> ResponseWatch \<Rightarrow> send list" where
  "watch_answer ads ctx snap resources heartbeat w =
     (let req = w_Request w in
      if req_resource_names req \<noteq> [] \<and> ads \<and> \<not> fst ` set resources \<subseteq> set (req_resource_names req) then []
      else [Send (w_Response w) (Some (Raw (createResponse ctx req resources
              (snapshot_GetVersion (Some snap) (req_type_url req)) heartbeat)))])"

definition sotw_answer :: "bool \<Rightarrow> ctx \<Rightarrow> Snapshot \<Rightarrow> ResponseWatch \<Rightarrow> send list" where
  "sotw_answer ads ctx snap w =
     watch_answer ads ctx snap (GetResourcesAndTTL (Some snap) (req_type_url (w_Request w))) False w"

lemma dom_nameSet: "dom (mget (nameSet names)) = set names"
  by (auto simp: nameSet_def mget_fold_put split: if_splits)

lemma respond_never:
  "respond ads never ctx (w_Request w) (w_Response w) resources
     (snapshot_GetVersion (Some snap) (req_type_url (w_Request w))) hb
   = (watch_answer ads ctx snap resources hb w, None)"
  using superset_None_iff [of "nameSet (req_resource_names (w_Request w))" resources]
  by (auto simp: respond_def watch_answer_def never_def dom_nameSet Let_def)

interpretation sotw_visit: watch_visit si_watches "\<lambda>m i. i\<lparr>si_watches := m\<rparr>"
  "sotw_respond_step ads never ctx snap" "sotw_stale snap" "sotw_answer ads ctx snap" for ads ctx snap
  by unfold_locales
    (simp_all add: sotw_respond_step_def Let_def sotw_stale_def sotw_answer_def respond_never)

definition heartbeat_due :: "Snapshot \<Rightarrow> ResponseWatch \<Rightarrow> bool" where
  "heartbeat_due snap w \<longleftrightarrow>
     (\<exists>(k, r) \<in> set (GetResourcesAndTTL (Some snap) (req_type_url (w_Request w))). rt_ttl r \<noteq> None)"

definition heartbeat_answer :: "bool \<Rightarrow> ctx \<Rightarrow> Snapshot \<Rightarrow> ResponseWatch \<Rightarrow> send list" where
  "heartbeat_answer ads ctx snap w = watch_answer ads ctx snap
     (filter (\<lambda>(k, r). rt_ttl r \<noteq> None) (GetResourcesAndTTL (Some snap) (req_type_url (w_Request w)))) True w"

interpretation heartbeat_visit: watch_visit si_watches "\<lambda>m i. i\<lparr>si_watches := m\<rparr>"
  "\<lambda>x s. (heartbeat_step ads never ctx snap x s, None)" "heartbeat_due snap" "heartbeat_answer ads ctx snap"
  for ads ctx snap
  by unfold_locales
    (auto simp: heartbeat_step_def Let_def heartbeat_due_def heartbeat_answer_def respond_never filter_empty_conv)

definition delta_due :: "Snapshot \<Rightarrow> DeltaResponseWatch \<Rightarrow> bool" where
  "delta_due snap w \<longleftrightarrow>
     \<not> up_to_date (dw_StreamState w) (snapshot_container snap (dreq_type_url (dw_Request w)))
     \<or> IsWildcard (dw_StreamState w) \<and> IsFirst (dw_StreamState w)"

definition delta_answer :: "ctx \<Rightarrow> Snapshot \<Rightarrow> DeltaResponseWatch \<Rightarrow> send list" where
  "delta_answer ctx snap w = [SendDelta (dw_Response w) (Some (RawDelta
     (createDeltaResponse ctx (dw_Request w) (dw_StreamState w)
        (snapshot_container snap (dreq_type_url (dw_Request w))))))]"

lemma snapshot_GetResources_wf: "wf_map (snapshot_GetResources s u)"
  unfolding snapshot_GetResources_def by (rule wf_fold_put_pairs) simp

lemma respondDelta_never:
  "respondDelta never ctx snap req ch st =
     (if \<not> up_to_date st (snapshot_container snap (dreq_type_url req)) \<or> IsWildcard st \<and> IsFirst st
      then (let resp = createDeltaResponse ctx req st (snapshot_container snap (dreq_type_url req))
            in (Some resp, [SendDelta ch (Some (RawDelta resp))], None))
      else (None, [], None))"
  using delta_empty_iff [of "snapshot_container snap (dreq_type_url req)" ctx req st]
  by (auto simp: respondDelta_def never_def Let_def snapshot_container_def snapshot_GetResources_wf)

interpretation delta_visit: watch_visit si_deltaWatches "\<lambda>m i. i\<lparr>si_deltaWatches := m\<rparr>"
  "delta_respond_step never ctx snap" "delta_due snap" "delta_answer ctx snap" for ctx snap
  by unfold_locales
    (simp_all add: delta_respond_step_def respondDelta_never delta_due_def delta_answer_def Let_def)

section \<open>The loops, closed\<close>

abbreviation sotw_type :: "ResponseWatch \<Rightarrow> ResponseType" where
  "sotw_type w \<equiv> GetResponseType (req_type_url (w_Request w))"

abbreviation delta_type :: "DeltaResponseWatch \<Rightarrow> ResponseType" where
  "delta_type w \<equiv> GetResponseType (dreq_type_url (dw_Request w))"

lemma respondSOTW_shape:
  assumes wf: "wf_map (si_watches info)"
  shows "\<exists>ws ord. same_entries ws (si_watches info) \<and> (ads \<longrightarrow> sorted (map (\<lambda>(k, w). sotw_type w) ws)) \<and>
    respondSOTWWatches ads never ctx info snap =
      ((info\<lparr>si_orderedWatches := ord, si_watches := filter (\<lambda>(k, w). \<not> sotw_stale snap w) (si_watches info)\<rparr>,
        concat (map (\<lambda>(k, w). sotw_answer ads ctx snap w) (filter (\<lambda>(k, w). sotw_stale snap w) ws))), None)"
proof (cases ads)
  case True
  let ?ord = "sort_keys (map (\<lambda>(k, w). \<lparr>key_ID = k, key_TypeURL = req_type_url (w_Request w)\<rparr>) (si_watches info))"
  let ?info = "info\<lparr>si_orderedWatches := ?ord\<rparr>"
  have wf': "wf_map (si_watches ?info)" using wf by simp
  have ord: "?ord = sort_keys (map (\<lambda>(k, w). \<lparr>key_ID = k, key_TypeURL = req_type_url (w_Request w)\<rparr>)
      (si_watches ?info))" by simp
  obtain ws where ws: "same_entries ws (si_watches ?info)" "sorted (map (\<lambda>(k, w). sotw_type w) ws)"
    and eq: "foldM_err (\<lambda>key (i, sends). sotw_respond_step ads never ctx snap
        (key_ID key, mget_or zero_ResponseWatch (si_watches i) (key_ID key)) (i, sends)) ?ord (?info, [])
      = foldM_err (sotw_respond_step ads never ctx snap) ws (?info, [])"
    using sotw_visit.visit_keys [OF wf' ord, where ads = ads and ctx = ctx and snap = snap
        and z = zero_ResponseWatch and sends = "[]"] by blast
  have "respondSOTWWatches ads never ctx info snap =
      foldM_err (sotw_respond_step ads never ctx snap) ws (?info, [])"
    using True eq by (simp add: respondSOTWWatches_def orderResponseWatches_def)
  with ws True show ?thesis
    unfolding sotw_visit.visit sotw_visit.visit_left [OF wf' ws(1)]
    by (intro exI [of _ ws] exI [of _ ?ord]) simp
next
  case False
  have same: "info\<lparr>si_orderedWatches := si_orderedWatches info, si_watches := m\<rparr> = info\<lparr>si_watches := m\<rparr>" for m
    by (cases info) simp
  have "respondSOTWWatches ads never ctx info snap =
      foldM_err (sotw_respond_step ads never ctx snap) (si_watches info) (info, [])"
    using False by (simp add: respondSOTWWatches_def)
  with False show ?thesis
    unfolding sotw_visit.visit sotw_visit.visit_left [OF wf refl]
    by (intro exI [of _ "si_watches info"] exI [of _ "si_orderedWatches info"]) (simp add: same)
qed

lemma respondDelta_shape:
  assumes wf: "wf_map (si_deltaWatches info)" and some: "si_deltaWatches info \<noteq> []"
    and vm: "ConstructVersionMap L snap = (snap', None)"
  shows "\<exists>ws ord. same_entries ws (si_deltaWatches info) \<and> (ads \<longrightarrow> sorted (map (\<lambda>(k, w). delta_type w) ws)) \<and>
    respondDeltaWatches L ads never ctx info snap = (snap',
      (info\<lparr>si_orderedDeltaWatches := ord,
            si_deltaWatches := filter (\<lambda>(k, w). \<not> delta_due snap' w) (si_deltaWatches info)\<rparr>,
        concat (map (\<lambda>(k, w). delta_answer ctx snap' w) (filter (\<lambda>(k, w). delta_due snap' w) ws))), None)"
proof (cases ads)
  case True
  let ?ord = "sort_keys (map (\<lambda>(k, w). \<lparr>key_ID = k, key_TypeURL = dreq_type_url (dw_Request w)\<rparr>) (si_deltaWatches info))"
  let ?info = "info\<lparr>si_orderedDeltaWatches := ?ord\<rparr>"
  have wf': "wf_map (si_deltaWatches ?info)" using wf by simp
  have ord: "?ord = sort_keys (map (\<lambda>(k, w). \<lparr>key_ID = k, key_TypeURL = dreq_type_url (dw_Request w)\<rparr>)
      (si_deltaWatches ?info))" by simp
  obtain ws where ws: "same_entries ws (si_deltaWatches ?info)" "sorted (map (\<lambda>(k, w). delta_type w) ws)"
    and eq: "foldM_err (\<lambda>key (i, sends). delta_respond_step never ctx snap'
        (key_ID key, mget_or zero_DeltaResponseWatch (si_deltaWatches i) (key_ID key)) (i, sends)) ?ord (?info, [])
      = foldM_err (delta_respond_step never ctx snap') ws (?info, [])"
    using delta_visit.visit_keys [OF wf' ord, where ctx = ctx and snap = snap'
        and z = zero_DeltaResponseWatch and sends = "[]"] by blast
  have "respondDeltaWatches L ads never ctx info snap =
      (snap', foldM_err (delta_respond_step never ctx snap') ws (?info, []))"
    using True eq some vm by (simp add: respondDeltaWatches_def orderResponseDeltaWatches_def)
  with ws True show ?thesis
    unfolding delta_visit.visit delta_visit.visit_left [OF wf' ws(1)]
    by (intro exI [of _ ws] exI [of _ ?ord]) simp
next
  case False
  have same: "info\<lparr>si_orderedDeltaWatches := si_orderedDeltaWatches info, si_deltaWatches := m\<rparr>
      = info\<lparr>si_deltaWatches := m\<rparr>" for m
    by (cases info) simp
  have "respondDeltaWatches L ads never ctx info snap =
      (snap', foldM_err (delta_respond_step never ctx snap') (si_deltaWatches info) (info, []))"
    using False some vm by (simp add: respondDeltaWatches_def)
  with False show ?thesis
    unfolding delta_visit.visit delta_visit.visit_left [OF wf refl]
    by (intro exI [of _ "si_deltaWatches info"] exI [of _ "si_orderedDeltaWatches info"]) (simp add: same)
qed

section \<open>The invariant\<close>

definition node_ok :: "Snapshot option \<Rightarrow> statusInfo \<Rightarrow> bool" where
  "node_ok snap info \<longleftrightarrow>
     wf_map (si_watches info) \<and> wf_map (si_deltaWatches info) \<and>
     (\<forall>s. snap = Some s \<longrightarrow>
        (\<forall>(k, w) \<in> set (si_watches info). \<not> sotw_stale s w) \<and>
        (\<forall>(k, w) \<in> set (si_deltaWatches info). \<not> delta_due s w) \<and>
        (si_deltaWatches info \<noteq> [] \<longrightarrow> snap_VersionMap s \<noteq> None))"

definition snap_ok :: "lib \<Rightarrow> Snapshot \<Rightarrow> bool" where
  "snap_ok L s \<longleftrightarrow> snapshot_wf s \<and> snapshot_named s \<and> snapshot_current L s"

definition simple_inv :: "lib \<Rightarrow> snapshotCache \<Rightarrow> bool" where
  "simple_inv L c \<longleftrightarrow>
     wf_map (sc_snapshots c) \<and> wf_map (sc_status c) \<and>
     (\<forall>n s. mget (sc_snapshots c) n = Some s \<longrightarrow> snap_ok L s) \<and>
     (\<forall>n i. mget (sc_status c) n = Some i \<longrightarrow> node_ok (mget (sc_snapshots c) n) i)"

lemma sotw_stale_vm [simp]: "sotw_stale (s\<lparr>snap_VersionMap := vm\<rparr>) w = sotw_stale s w"
  by (simp add: sotw_stale_def snapshot_GetVersion_def Let_def)

text \<open>What building the version map does to a snapshot of the cache.\<close>

lemma snap_ok_construct:
  assumes "lib_total L" and "snap_ok L s"
  shows "\<exists>vm. ConstructVersionMap L s = (s\<lparr>snap_VersionMap := Some vm\<rparr>, None) \<and>
     snap_ok L (s\<lparr>snap_VersionMap := Some vm\<rparr>)"
proof -
  obtain vm where "ConstructVersionMap L s = (s\<lparr>snap_VersionMap := Some vm\<rparr>, None)"
    "snapshot_current L (s\<lparr>snap_VersionMap := Some vm\<rparr>)"
    using ConstructVersionMap_current [OF assms(1)] assms(2) by (auto simp: snap_ok_def)
  with assms(2) show ?thesis by (auto simp: snap_ok_def snapshot_wf_def snapshot_named_def)
qed

lemma simple_inv_put:
  assumes "simple_inv L c" and "snap_ok L s"
    and "wf_map st'" and "\<And>m. m \<noteq> n \<Longrightarrow> mget st' m = mget (sc_status c) m"
    and "\<And>i. mget st' n = Some i \<Longrightarrow> node_ok (Some s) i"
  shows "simple_inv L (c\<lparr>sc_snapshots := mput n s (sc_snapshots c), sc_status := st'\<rparr>)"
  using assms by (auto simp: simple_inv_def mget_put)

lemma simple_inv_status:
  assumes "simple_inv L c" and "node_ok (mget (sc_snapshots c) n) i"
  shows "simple_inv L (put_status n i c)"
  using assms by (auto simp: simple_inv_def put_status_def mget_put)

section \<open>Setting a snapshot\<close>

lemma respondDelta_shape_all:
  assumes L: "lib_total L" and ok: "snap_ok L snap" and wf: "wf_map (si_deltaWatches info)"
  shows "\<exists>vm ws ord. let snap' = snap\<lparr>snap_VersionMap := vm\<rparr> in
    snap_ok L snap' \<and> (si_deltaWatches info \<noteq> [] \<longrightarrow> vm \<noteq> None) \<and>
    same_entries ws (si_deltaWatches info) \<and> (ads \<longrightarrow> sorted (map (\<lambda>(k, w). delta_type w) ws)) \<and>
    respondDeltaWatches L ads never ctx info snap = (snap',
      (info\<lparr>si_orderedDeltaWatches := ord,
            si_deltaWatches := filter (\<lambda>(k, w). \<not> delta_due snap' w) (si_deltaWatches info)\<rparr>,
        concat (map (\<lambda>(k, w). delta_answer ctx snap' w) (filter (\<lambda>(k, w). delta_due snap' w) ws))), None)"
proof (cases "si_deltaWatches info = []")
  case True
  have "snap\<lparr>snap_VersionMap := snap_VersionMap snap\<rparr> = snap" by (cases snap) simp
  moreover have "info\<lparr>si_orderedDeltaWatches := si_orderedDeltaWatches info, si_deltaWatches := []\<rparr> = info"
    using True by (cases info) simp
  ultimately show ?thesis
    using True ok by (intro exI [of _ "snap_VersionMap snap"] exI [of _ "[]"] exI [of _ "si_orderedDeltaWatches info"])
      (simp add: respondDeltaWatches_def)
next
  case False
  from snap_ok_construct [OF L ok] obtain vm where
    vm: "ConstructVersionMap L snap = (snap\<lparr>snap_VersionMap := Some vm\<rparr>, None)"
    and ok': "snap_ok L (snap\<lparr>snap_VersionMap := Some vm\<rparr>)" by blast
  from respondDelta_shape [OF wf False vm, of ads ctx] ok' show ?thesis
    unfolding Let_def by blast
qed

text \<open>The state and the sends after \<open>SetSnapshot\<close>, when the context lasts.\<close>

definition set_result ::
    "lib \<Rightarrow> ctx \<Rightarrow> string \<Rightarrow> Snapshot \<Rightarrow> statusInfo \<Rightarrow> snapshotCache \<Rightarrow> snapshotCache \<Rightarrow> send list \<Rightarrow> bool" where
  "set_result L ctx node snap info c c' sends \<longleftrightarrow>
     (\<exists>vm ws dws ord dord. let snap' = snap\<lparr>snap_VersionMap := vm\<rparr> in
        snap_ok L snap' \<and> (si_deltaWatches info \<noteq> [] \<longrightarrow> vm \<noteq> None) \<and>
        same_entries ws (si_watches info) \<and> same_entries dws (si_deltaWatches info) \<and>
        (sc_ads c \<longrightarrow> sorted (map (\<lambda>(k, w). sotw_type w) ws) \<and> sorted (map (\<lambda>(k, w). delta_type w) dws)) \<and>
        c' = c\<lparr>sc_snapshots := mput node snap' (mput node snap (sc_snapshots c)),
               sc_status := mput node (info\<lparr>
                 si_orderedWatches := ord, si_watches := filter (\<lambda>(k, w). \<not> sotw_stale snap w) (si_watches info),
                 si_orderedDeltaWatches := dord,
                 si_deltaWatches := filter (\<lambda>(k, w). \<not> delta_due snap' w) (si_deltaWatches info)\<rparr>) (sc_status c)\<rparr> \<and>
        sends = concat (map (\<lambda>(k, w). sotw_answer (sc_ads c) ctx snap w) (filter (\<lambda>(k, w). sotw_stale snap w) ws))
              @ concat (map (\<lambda>(k, w). delta_answer ctx snap' w) (filter (\<lambda>(k, w). delta_due snap' w) dws)))"

lemma SetSnapshot_shape:
  assumes L: "lib_total L" and ok: "snap_ok L snap"
    and info: "mget (sc_status c) node = Some info" "wf_map (si_watches info)" "wf_map (si_deltaWatches info)"
    and step: "SetSnapshot L never ctx node snap c = (c', sends, err)"
  shows "err = None \<and> set_result L ctx node snap info c c' sends"
proof -
  obtain ws ord where ws: "same_entries ws (si_watches info)"
      "sc_ads c \<longrightarrow> sorted (map (\<lambda>(k, w). sotw_type w) ws)"
    and sotw: "respondSOTWWatches (sc_ads c) never ctx info snap =
      ((info\<lparr>si_orderedWatches := ord, si_watches := filter (\<lambda>(k, w). \<not> sotw_stale snap w) (si_watches info)\<rparr>,
        concat (map (\<lambda>(k, w). sotw_answer (sc_ads c) ctx snap w) (filter (\<lambda>(k, w). sotw_stale snap w) ws))), None)"
    using respondSOTW_shape [OF info(2)] by blast
  let ?info = "info\<lparr>si_orderedWatches := ord, si_watches := filter (\<lambda>(k, w). \<not> sotw_stale snap w) (si_watches info)\<rparr>"
  have "wf_map (si_deltaWatches ?info)" using info(3) by simp
  from respondDelta_shape_all [OF L ok this, of "sc_ads c" ctx] obtain vm dws dord where
    dws: "snap_ok L (snap\<lparr>snap_VersionMap := vm\<rparr>)" "si_deltaWatches info \<noteq> [] \<longrightarrow> vm \<noteq> None"
      "same_entries dws (si_deltaWatches info)" "sc_ads c \<longrightarrow> sorted (map (\<lambda>(k, w). delta_type w) dws)"
    and delta: "respondDeltaWatches L (sc_ads c) never ctx ?info snap = (snap\<lparr>snap_VersionMap := vm\<rparr>,
      (?info\<lparr>si_orderedDeltaWatches := dord,
            si_deltaWatches := filter (\<lambda>(k, w). \<not> delta_due (snap\<lparr>snap_VersionMap := vm\<rparr>) w) (si_deltaWatches info)\<rparr>,
        concat (map (\<lambda>(k, w). delta_answer ctx (snap\<lparr>snap_VersionMap := vm\<rparr>) w)
          (filter (\<lambda>(k, w). delta_due (snap\<lparr>snap_VersionMap := vm\<rparr>) w) dws))), None)"
    unfolding Let_def by auto
  from step have "err = None" and "c' = c\<lparr>sc_snapshots := mput node (snap\<lparr>snap_VersionMap := vm\<rparr>) (mput node snap (sc_snapshots c)),
      sc_status := mput node (?info\<lparr>si_orderedDeltaWatches := dord,
            si_deltaWatches := filter (\<lambda>(k, w). \<not> delta_due (snap\<lparr>snap_VersionMap := vm\<rparr>) w) (si_deltaWatches info)\<rparr>) (sc_status c)\<rparr>"
    and "sends = concat (map (\<lambda>(k, w). sotw_answer (sc_ads c) ctx snap w) (filter (\<lambda>(k, w). sotw_stale snap w) ws))
        @ concat (map (\<lambda>(k, w). delta_answer ctx (snap\<lparr>snap_VersionMap := vm\<rparr>) w)
          (filter (\<lambda>(k, w). delta_due (snap\<lparr>snap_VersionMap := vm\<rparr>) w) dws))"
    by (simp_all add: SetSnapshot_def info(1) sotw delta)
  with ws dws show ?thesis
    unfolding set_result_def Let_def
    by (intro conjI exI [of _ vm] exI [of _ ws] exI [of _ dws] exI [of _ ord] exI [of _ dord]) simp_all
qed

lemma SetSnapshot_new:
  "mget (sc_status c) node = None \<Longrightarrow> SetSnapshot L never ctx node snap c =
     (c\<lparr>sc_snapshots := mput node snap (sc_snapshots c)\<rparr>, [], None)"
  by (simp add: SetSnapshot_def)

lemma simple_inv_SetSnapshot:
  assumes L: "lib_total L" and inv: "simple_inv L c" and ok: "snap_ok L snap"
    and step: "SetSnapshot L never ctx node snap c = (c', sends, err)"
  shows "simple_inv L c'"
proof (cases "mget (sc_status c) node")
  case None
  with step have "c' = c\<lparr>sc_snapshots := mput node snap (sc_snapshots c)\<rparr>"
    by (simp add: SetSnapshot_new)
  then have c': "c' = c\<lparr>sc_snapshots := mput node snap (sc_snapshots c), sc_status := sc_status c\<rparr>"
    by (cases c) simp
  show ?thesis unfolding c'
    by (rule simple_inv_put [OF inv ok]) (use None inv in \<open>auto simp: simple_inv_def\<close>)
next
  case (Some info)
  with inv have wf: "wf_map (si_watches info)" "wf_map (si_deltaWatches info)"
    by (auto simp: simple_inv_def node_ok_def)
  from SetSnapshot_shape [OF L ok Some wf step] obtain vm ord dord where
    ok': "snap_ok L (snap\<lparr>snap_VersionMap := vm\<rparr>)" "si_deltaWatches info \<noteq> [] \<longrightarrow> vm \<noteq> None"
    and c': "c' = c\<lparr>sc_snapshots := mput node (snap\<lparr>snap_VersionMap := vm\<rparr>) (mput node snap (sc_snapshots c)),
        sc_status := mput node (info\<lparr>
          si_orderedWatches := ord, si_watches := filter (\<lambda>(k, w). \<not> sotw_stale snap w) (si_watches info),
          si_orderedDeltaWatches := dord,
          si_deltaWatches := filter (\<lambda>(k, w). \<not> delta_due (snap\<lparr>snap_VersionMap := vm\<rparr>) w) (si_deltaWatches info)\<rparr>)
        (sc_status c)\<rparr>"
    unfolding set_result_def Let_def by blast
  let ?i = "info\<lparr>si_orderedWatches := ord, si_watches := filter (\<lambda>(k, w). \<not> sotw_stale snap w) (si_watches info),
          si_orderedDeltaWatches := dord,
          si_deltaWatches := filter (\<lambda>(k, w). \<not> delta_due (snap\<lparr>snap_VersionMap := vm\<rparr>) w) (si_deltaWatches info)\<rparr>"
  have "node_ok (Some (snap\<lparr>snap_VersionMap := vm\<rparr>)) ?i"
    using wf ok'(2) by (auto simp: node_ok_def filter_empty_conv)
  with inv ok'(1) show ?thesis
    by (auto simp: c' simple_inv_def mget_put)
qed

section \<open>Watches\<close>

abbreviation node_of :: "snapshotCache \<Rightarrow> DiscoveryRequest \<Rightarrow> string" where
  "node_of c req \<equiv> sc_hash c (req_node req)"

abbreviation dnode_of :: "snapshotCache \<Rightarrow> DeltaDiscoveryRequest \<Rightarrow> string" where
  "dnode_of c req \<equiv> sc_hash c (dreq_node req)"

definition info_of :: "Node option \<Rightarrow> string \<Rightarrow> snapshotCache \<Rightarrow> statusInfo" where
  "info_of node n c = (case mget (sc_status c) n of None \<Rightarrow> newStatusInfo node | Some i \<Rightarrow> i)"

lemma node_ok_info_of:
  assumes "simple_inv L c"
  shows "node_ok (mget (sc_snapshots c) n) (info_of node n c)"
  using assms by (auto simp: simple_inv_def info_of_def newStatusInfo_def node_ok_def split: option.split)

lemma node_ok_time [simp]:
  "node_ok s (i\<lparr>si_lastWatchRequestTime := t\<rparr>) = node_ok s i"
  "node_ok s (i\<lparr>si_lastDeltaWatchRequestTime := t\<rparr>) = node_ok s i"
  by (simp_all add: node_ok_def)

lemma mput_not_Nil [simp]: "mput k v m \<noteq> []"
  by (cases m) auto

text \<open>Whether a request is answered at once, and what it becomes otherwise.\<close>

definition answered_now :: "snapshotCache \<Rightarrow> DiscoveryRequest \<Rightarrow> StreamState \<Rightarrow> bool" where
  "answered_now c req st \<longleftrightarrow>
     (case mget (sc_snapshots c) (node_of c req) of
        None \<Rightarrow> False
      | Some snap \<Rightarrow>
          req_version_info req \<noteq> snapshot_GetVersion (Some snap) (req_type_url req) \<or>
          (\<exists>n \<in> set (req_resource_names req). n \<notin> set (GetKnownResourceNames (req_type_url req) st)
             \<and> mget (GetResourcesAndTTL (Some snap) (req_type_url req)) n \<noteq> None))"

lemma simple_CreateWatch_shape:
  fixes c :: snapshotCache and req :: DiscoveryRequest and now :: time
  defines "n \<equiv> node_of c req"
  defines "i \<equiv> (info_of (req_node req) n c)\<lparr>si_lastWatchRequestTime := now\<rparr>"
  assumes step: "simple_CreateWatch now req st ch c = (c', sends, k)"
  shows "if answered_now c req st
    then c' = put_status n i c \<and> k = Some NoCancel \<and>
      sends = sotw_answer (sc_ads c) Background (the (mget (sc_snapshots c) n)) \<lparr>w_Request = req, w_Response = ch\<rparr>
    else c' = put_status n (i\<lparr>si_watches := mput (sc_watchCount c + 1) \<lparr>w_Request = req, w_Response = ch\<rparr>
                (si_watches i)\<rparr>) ((put_status n i c)\<lparr>sc_watchCount := sc_watchCount c + 1\<rparr>) \<and>
      sends = [] \<and> k = Some (CancelSotw n (sc_watchCount c + 1))"
proof (cases "mget (sc_snapshots c) n")
  case None
  with step show ?thesis
    by (auto simp: simple_CreateWatch_def Let_def answered_now_def nextWatchID_def put_status_def
        info_of_def n_def i_def)
next
  case (Some snap)
  let ?res = "GetResourcesAndTTL (Some snap) (req_type_url req)"
  let ?v = "snapshot_GetVersion (Some snap) (req_type_url req)"
  have now: "respond_now req ch ?res ?v x = (x, sotw_answer (sc_ads x) Background snap \<lparr>w_Request = req, w_Response = ch\<rparr>, Some NoCancel)" for x
    using respond_never [of "sc_ads x" Background "\<lparr>w_Request = req, w_Response = ch\<rparr>" ?res snap False]
    by (simp add: respond_now_def sotw_answer_def)
  have "list_ex (\<lambda>name. mget ?res name \<noteq> None)
      (filter (\<lambda>r. r \<notin> set (GetKnownResourceNames (req_type_url req) st)) (req_resource_names req)) \<longleftrightarrow>
    (\<exists>n \<in> set (req_resource_names req). n \<notin> set (GetKnownResourceNames (req_type_url req) st) \<and> mget ?res n \<noteq> None)"
    by (auto simp: list_ex_iff)
  with step Some show ?thesis
    by (auto simp: simple_CreateWatch_def Let_def answered_now_def nextWatchID_def put_status_def now
        info_of_def n_def i_def split: if_splits)
qed

lemma simple_inv_CreateWatch:
  assumes inv: "simple_inv L c" and step: "simple_CreateWatch now req st ch c = (c', sends, k)"
  shows "simple_inv L c'"
proof -
  let ?n = "node_of c req"
  let ?i = "(info_of (req_node req) ?n c)\<lparr>si_lastWatchRequestTime := now\<rparr>"
  let ?w = "\<lparr>w_Request = req, w_Response = ch\<rparr>"
  have ok: "node_ok (mget (sc_snapshots c) ?n) ?i" using node_ok_info_of [OF inv] by simp
  have inv1: "simple_inv L (put_status ?n ?i c)" by (rule simple_inv_status [OF inv ok])
  show ?thesis
  proof (cases "answered_now c req st")
    case True
    with simple_CreateWatch_shape [OF step] inv1 show ?thesis by simp
  next
    case False
    have fresh: "\<not> sotw_stale s ?w" if "mget (sc_snapshots c) ?n = Some s" for s
      using False that by (auto simp: answered_now_def sotw_stale_def)
    let ?c1 = "(put_status ?n ?i c)\<lparr>sc_watchCount := sc_watchCount c + 1\<rparr>"
    have inv2: "simple_inv L ?c1" using inv1 by (simp add: simple_inv_def put_status_def)
    have snaps: "sc_snapshots ?c1 = sc_snapshots c" by (simp add: put_status_def)
    have "node_ok (mget (sc_snapshots c) ?n) (?i\<lparr>si_watches := mput (sc_watchCount c + 1) ?w (si_watches ?i)\<rparr>)"
      using ok fresh set_mput [of "sc_watchCount c + 1" ?w "si_watches ?i"]
      by (fastforce simp: node_ok_def)
    with simple_inv_status [OF inv2] snaps False simple_CreateWatch_shape [OF step] show ?thesis by simp
  qed
qed

lemma simple_CreateDeltaWatch_shape:
  fixes c :: snapshotCache and req :: DeltaDiscoveryRequest and now :: time and ch :: chan and st :: StreamState
  defines "n \<equiv> dnode_of c req"
  defines "i \<equiv> (info_of (dreq_node req) n c)\<lparr>si_lastDeltaWatchRequestTime := now\<rparr>"
  defines "w \<equiv> \<lparr>dw_Request = req, dw_Response = ch, dw_StreamState = st\<rparr>"
  assumes step: "simple_CreateDeltaWatch L now req st ch c = (c', sends, k)"
  defines "parked \<equiv> (\<lambda>c. put_status n (i\<lparr>si_deltaWatches := mput (sc_deltaWatchCount c + 1) w (si_deltaWatches i)\<rparr>)
     (c\<lparr>sc_deltaWatchCount := sc_deltaWatchCount c + 1\<rparr>))"
  shows "case mget (sc_snapshots c) n of
      None \<Rightarrow> c' = parked (put_status n i c) \<and> sends = [] \<and> k = Some (CancelDeltaWatch n (sc_deltaWatchCount c + 1))
    | Some snap \<Rightarrow>
       (let snap' = fst (ConstructVersionMap L snap);
            c1 = (put_status n i c)\<lparr>sc_snapshots := mput n snap' (sc_snapshots c)\<rparr>
        in if delta_due snap' w then c' = c1 \<and> sends = delta_answer Background snap' w \<and> k = None
           else c' = parked c1 \<and> sends = [] \<and> k = Some (CancelDeltaWatch n (sc_deltaWatchCount c + 1)))"
proof (cases "mget (sc_snapshots c) n")
  case None
  with step show ?thesis
    by (auto simp: simple_CreateDeltaWatch_def Let_def simple_nextDeltaWatchID_def put_status_def
        info_of_def n_def i_def w_def parked_def setLastDeltaWatchRequestTime_def setDeltaResponseWatch_def)
next
  case (Some snap)
  then have "mget (sc_snapshots c) (dnode_of c req) = Some snap" by (simp add: n_def)
  with step show ?thesis
    unfolding n_def i_def w_def parked_def
    by (simp add: simple_CreateDeltaWatch_def Let_def simple_nextDeltaWatchID_def put_status_def
        info_of_def setLastDeltaWatchRequestTime_def setDeltaResponseWatch_def respondDelta_never
        delta_due_def delta_answer_def split: if_splits)
qed

lemma put_status_frame [simp]:
  "sc_watchCount (put_status n i c) = sc_watchCount c"
  "sc_deltaWatchCount (put_status n i c) = sc_deltaWatchCount c"
  "sc_ads (put_status n i c) = sc_ads c"
  "sc_snapshots (put_status n i c) = sc_snapshots c"
  "sc_hash (put_status n i c) = sc_hash c"
  "sc_status (put_status n i c) = mput n i (sc_status c)"
  by (simp_all add: put_status_def)

lemma simple_inv_parked:
  assumes "simple_inv L c" and "node_ok (mget (sc_snapshots c) n) i"
  shows "simple_inv L (put_status n i (c\<lparr>sc_deltaWatchCount := k\<rparr>))"
  using assms by (auto simp: simple_inv_def put_status_def mget_put)

lemma simple_inv_CreateDeltaWatch:
  assumes L: "lib_total L" and inv: "simple_inv L c"
    and step: "simple_CreateDeltaWatch L now req st ch c = (c', sends, k)"
  shows "simple_inv L c'"
proof -
  let ?n = "dnode_of c req"
  let ?i = "(info_of (dreq_node req) ?n c)\<lparr>si_lastDeltaWatchRequestTime := now\<rparr>"
  let ?w = "\<lparr>dw_Request = req, dw_Response = ch, dw_StreamState = st\<rparr>"
  let ?id = "sc_deltaWatchCount c + 1"
  let ?dws = "mput ?id ?w (si_deltaWatches ?i)"
  have ok: "node_ok (mget (sc_snapshots c) ?n) ?i" using node_ok_info_of [OF inv] by simp
  have inv1: "simple_inv L (put_status ?n ?i c)" by (rule simple_inv_status [OF inv ok])
  note shape = simple_CreateDeltaWatch_shape [OF step]
  show ?thesis
  proof (cases "mget (sc_snapshots c) ?n")
    case None
    have snaps: "mget (sc_snapshots (put_status ?n ?i c)) ?n = None" using None by (simp add: put_status_def)
    then have "node_ok (mget (sc_snapshots (put_status ?n ?i c)) ?n) (?i\<lparr>si_deltaWatches := ?dws\<rparr>)"
      using ok by (simp add: node_ok_def)
    with simple_inv_parked [OF inv1 this, of ?id] None shape show ?thesis by simp
  next
    case (Some snap)
    with inv have "snap_ok L snap" by (auto simp: simple_inv_def)
    from snap_ok_construct [OF L this] obtain vm where
      vm: "ConstructVersionMap L snap = (snap\<lparr>snap_VersionMap := Some vm\<rparr>, None)"
      and ok': "snap_ok L (snap\<lparr>snap_VersionMap := Some vm\<rparr>)" by blast
    let ?snap = "snap\<lparr>snap_VersionMap := Some vm\<rparr>"
    let ?c1 = "(put_status ?n ?i c)\<lparr>sc_snapshots := mput ?n ?snap (sc_snapshots c)\<rparr>"
    have same: "?snap = snap" if "snap_VersionMap snap \<noteq> None"
      using vm that by (auto simp: ConstructVersionMap_def)
    have oki: "node_ok (Some ?snap) ?i"
    proof (cases "si_deltaWatches ?i = []")
      case True
      with ok Some show ?thesis by (simp add: node_ok_def)
    next
      case False
      with ok Some have "snap_VersionMap snap \<noteq> None" by (simp add: node_ok_def)
      with ok Some same show ?thesis by simp
    qed
    have c1: "?c1 = c\<lparr>sc_snapshots := mput ?n ?snap (sc_snapshots c), sc_status := mput ?n ?i (sc_status c)\<rparr>"
      by (simp add: put_status_def)
    have inv2: "simple_inv L ?c1" unfolding c1
      by (rule simple_inv_put [OF inv ok']) (use inv oki in \<open>auto simp: simple_inv_def\<close>)
    show ?thesis
    proof (cases "delta_due ?snap ?w")
      case True
      with shape Some vm inv2 show ?thesis by (simp add: Let_def)
    next
      case False
      have "node_ok (Some ?snap) (?i\<lparr>si_deltaWatches := ?dws\<rparr>)"
        using oki False set_mput [of ?id ?w "si_deltaWatches ?i"] by (fastforce simp: node_ok_def)
      then have "node_ok (mget (sc_snapshots ?c1) ?n) (?i\<lparr>si_deltaWatches := ?dws\<rparr>)" by simp
      with simple_inv_parked [OF inv2 this, of ?id] shape Some vm False show ?thesis
        by (simp add: Let_def)
    qed
  qed
qed

lemma node_ok_fewer:
  assumes "node_ok s i" and "set (si_watches i') \<subseteq> set (si_watches i)"
    and "set (si_deltaWatches i') \<subseteq> set (si_deltaWatches i)"
    and "wf_map (si_watches i')" and "wf_map (si_deltaWatches i')"
  shows "node_ok s i'"
  using assms unfolding node_ok_def by fastforce

lemma simple_inv_cancel:
  assumes inv: "simple_inv L c"
  shows "simple_inv L (simple_cancel k c)"
proof (cases k)
  case (CancelSotw n w)
  show ?thesis
  proof (cases "mget (sc_status c) n")
    case (Some i)
    with inv have ok: "node_ok (mget (sc_snapshots c) n) i" by (auto simp: simple_inv_def)
    then have "node_ok (mget (sc_snapshots c) n) (i\<lparr>si_watches := mdel w (si_watches i)\<rparr>)"
      by (rule node_ok_fewer) (use ok in \<open>auto simp: set_mdel node_ok_def\<close>)
    with simple_inv_status [OF inv] CancelSotw Some show ?thesis by simp
  qed (use CancelSotw inv in simp)
next
  case (CancelDeltaWatch n w)
  show ?thesis
  proof (cases "mget (sc_status c) n")
    case (Some i)
    with inv have ok: "node_ok (mget (sc_snapshots c) n) i" by (auto simp: simple_inv_def)
    then have "node_ok (mget (sc_snapshots c) n) (i\<lparr>si_deltaWatches := mdel w (si_deltaWatches i)\<rparr>)"
      by (rule node_ok_fewer) (use ok in \<open>auto simp: set_mdel node_ok_def\<close>)
    with simple_inv_status [OF inv] CancelDeltaWatch Some show ?thesis by simp
  qed (use CancelDeltaWatch inv in simp)
qed (use inv in simp)

lemma simple_inv_Clear: "simple_inv L c \<Longrightarrow> simple_inv L (ClearSnapshot n c)"
  by (auto simp: simple_inv_def ClearSnapshot_def mget_del)

text \<open>A heartbeat answers the watches that are due and forgets them.\<close>

lemma fold_heartbeat:
  "fold (heartbeat_step ads never ctx snap) ws (i, sends) =
     (i\<lparr>si_watches := fold mdel (map fst (filter (\<lambda>(k, w). heartbeat_due snap w) ws)) (si_watches i)\<rparr>,
      sends @ concat (map (\<lambda>(k, w). heartbeat_answer ads ctx snap w)
        (filter (\<lambda>(k, w). heartbeat_due snap w) ws)))"
proof -
  have "foldM_err (\<lambda>x s. (heartbeat_step ads never ctx snap x s, None :: go_error option)) ws (i, sends)
      = (fold (heartbeat_step ads never ctx snap) ws (i, sends), None)"
    by (subst foldM_err_ok) simp_all
  with heartbeat_visit.visit [of ads ctx snap ws i sends] show ?thesis by simp
qed

lemma sendHeartbeats_shape:
  assumes "mget (sc_snapshots c) n = Some snap" and "mget (sc_status c) n = Some i" and "wf_map (si_watches i)"
  shows "sendHeartbeats never ctx n (c, sends) =
     (put_status n (i\<lparr>si_watches := filter (\<lambda>(k, w). \<not> heartbeat_due snap w) (si_watches i)\<rparr>) c,
      sends @ concat (map (\<lambda>(k, w). heartbeat_answer (sc_ads c) ctx snap w)
        (filter (\<lambda>(k, w). heartbeat_due snap w) (si_watches i))))"
  using heartbeat_visit.visit_left [OF assms(3) refl, of snap] assms
  by (simp add: sendHeartbeats_def fold_heartbeat put_status_def)

lemma simple_inv_heartbeats:
  assumes inv: "simple_inv L c"
  shows "simple_inv L (fst (sendHeartbeats never ctx n (c, sends)))"
proof (cases "mget (sc_snapshots c) n"; cases "mget (sc_status c) n")
  fix snap i
  assume some: "mget (sc_snapshots c) n = Some snap" "mget (sc_status c) n = Some i"
  have ok: "node_ok (mget (sc_snapshots c) n) i" using inv some(2) unfolding simple_inv_def by blast
  then have wf: "wf_map (si_watches i)" by (simp add: node_ok_def)
  from ok have "node_ok (mget (sc_snapshots c) n)
      (i\<lparr>si_watches := filter (\<lambda>(k, w). \<not> heartbeat_due snap w) (si_watches i)\<rparr>)"
    by (rule node_ok_fewer) (use ok in \<open>auto simp: node_ok_def\<close>)
  with simple_inv_status [OF inv] sendHeartbeats_shape [OF some wf] show ?thesis by simp
qed (use inv in \<open>simp_all add: sendHeartbeats_def\<close>)

lemma simple_inv_tick:
  assumes "simple_inv L c"
  shows "simple_inv L (fst (heartbeat_tick never ctx c))"
proof -
  have "simple_inv L (fst (fold (sendHeartbeats never ctx) ns (c, sends)))" if "simple_inv L c" for ns c sends
    using that
  proof (induction ns arbitrary: c sends)
    case (Cons n ns)
    have "simple_inv L (fst (sendHeartbeats never ctx n (c, sends)))"
      by (rule simple_inv_heartbeats [OF Cons.prems])
    with Cons.IH show ?case by (cases "sendHeartbeats never ctx n (c, sends)") simp
  qed simp
  with assms show ?thesis by (simp add: heartbeat_tick_def)
qed

section \<open>Reachable states\<close>

datatype simple_op =
    SSetSnapshot ctx string Snapshot
  | SClearSnapshot string
  | SCreateWatch time DiscoveryRequest StreamState chan
  | SCreateDeltaWatch time DeltaDiscoveryRequest StreamState chan
  | SCancel simple_canceler
  | SHeartbeat ctx

fun simple_step :: "lib \<Rightarrow> simple_op \<Rightarrow> snapshotCache \<Rightarrow> snapshotCache \<times> send list" where
  "simple_step L (SSetSnapshot ctx node snap) c =
     (case SetSnapshot L never ctx node snap c of (c', sends, err) \<Rightarrow> (c', sends))"
| "simple_step L (SClearSnapshot node) c = (ClearSnapshot node c, [])"
| "simple_step L (SCreateWatch now req st ch) c =
     (case simple_CreateWatch now req st ch c of (c', sends, k) \<Rightarrow> (c', sends))"
| "simple_step L (SCreateDeltaWatch now req st ch) c =
     (case simple_CreateDeltaWatch L now req st ch c of (c', sends, k) \<Rightarrow> (c', sends))"
| "simple_step L (SCancel k) c = (simple_cancel k c, [])"
| "simple_step L (SHeartbeat ctx) c = heartbeat_tick never ctx c"

text \<open>
  A snapshot that is set files its resources under their names, and its version map has not been
  built yet or holds the hashes: what the constructors and \<open>ConstructVersionMap\<close> give.
\<close>

fun simple_op_ok :: "lib \<Rightarrow> simple_op \<Rightarrow> bool" where
  "simple_op_ok L (SSetSnapshot ctx node snap) = snap_ok L snap"
| "simple_op_ok L _ = True"

text \<open>The maps may be visited in any other order later.\<close>

definition simple_reorder :: "snapshotCache \<Rightarrow> snapshotCache \<Rightarrow> bool" where
  "simple_reorder c c' \<longleftrightarrow>
     (\<exists>sn st. c' = c\<lparr>sc_snapshots := sn, sc_status := st\<rparr> \<and> same_entries (sc_snapshots c) sn \<and> wf_map st \<and>
        (\<forall>n. case mget (sc_status c) n of
           None \<Rightarrow> mget st n = None
         | Some i \<Rightarrow> (\<exists>ws dws. mget st n = Some (i\<lparr>si_watches := ws, si_deltaWatches := dws\<rparr>) \<and>
             same_entries (si_watches i) ws \<and> same_entries (si_deltaWatches i) dws)))"

inductive simple_reach :: "lib \<Rightarrow> snapshotCache \<Rightarrow> bool" for L where
  init: "simple_reach L (newSnapshotCache ads hash)"
| step: "simple_reach L c \<Longrightarrow> simple_op_ok L op \<Longrightarrow> simple_step L op c = (c', sends) \<Longrightarrow> simple_reach L c'"
| reorder: "simple_reach L c \<Longrightarrow> simple_reorder c c' \<Longrightarrow> simple_reach L c'"

lemma simple_inv_step:
  assumes L: "lib_total L" and inv: "simple_inv L c" and ok: "simple_op_ok L op"
    and step: "simple_step L op c = (c', sends)"
  shows "simple_inv L c'"
proof (cases op)
  case (SHeartbeat ctx)
  with step simple_inv_tick [OF inv, of ctx] show ?thesis by simp
qed (use assms in \<open>auto simp: simple_inv_Clear simple_inv_cancel split: prod.splits
      intro: simple_inv_SetSnapshot [OF L] simple_inv_CreateWatch simple_inv_CreateDeltaWatch [OF L]\<close>)

lemma simple_inv_reorder:
  assumes inv: "simple_inv L c" and re: "simple_reorder c c'"
  shows "simple_inv L c'"
proof -
  from re obtain sn st where c': "c' = c\<lparr>sc_snapshots := sn, sc_status := st\<rparr>"
    and sn: "same_entries (sc_snapshots c) sn" and wf: "wf_map st"
    and st: "\<And>n. case mget (sc_status c) n of
           None \<Rightarrow> mget st n = None
         | Some i \<Rightarrow> (\<exists>ws dws. mget st n = Some (i\<lparr>si_watches := ws, si_deltaWatches := dws\<rparr>) \<and>
             same_entries (si_watches i) ws \<and> same_entries (si_deltaWatches i) dws)"
    unfolding simple_reorder_def by blast
  from inv have wfc: "wf_map (sc_snapshots c)" by (simp add: simple_inv_def)
  have get: "mget sn = mget (sc_snapshots c)" using mget_same_entries [OF sn wfc] by simp
  have "node_ok (mget sn n) i'" if i': "mget st n = Some i'" for n i'
  proof (cases "mget (sc_status c) n")
    case None
    with st [of n] i' show ?thesis by simp
  next
    case (Some i)
    with st [of n] i' obtain ws dws where i'': "i' = i\<lparr>si_watches := ws, si_deltaWatches := dws\<rparr>"
      and same: "same_entries (si_watches i) ws" "same_entries (si_deltaWatches i) dws" by auto
    have ok: "node_ok (mget (sc_snapshots c) n) i" using inv Some unfolding simple_inv_def by blast
    then have wfi: "wf_map (si_watches i)" "wf_map (si_deltaWatches i)" by (simp_all add: node_ok_def)
    have "wf_map ws" "wf_map dws"
      using wf_map_same_entries [OF same(1)] wf_map_same_entries [OF same(2)] wfi by simp_all
    then show ?thesis
      unfolding get i'' by (intro node_ok_fewer [OF ok])
        (simp_all add: mset_eq_setD [OF same(1)] mset_eq_setD [OF same(2)])
  qed
  with inv wf get wf_map_same_entries [OF sn] wfc show ?thesis
    by (simp add: simple_inv_def c')
qed

lemma simple_reach_inv: "simple_reach L c \<Longrightarrow> lib_total L \<Longrightarrow> simple_inv L c"
proof (induction rule: simple_reach.induct)
  case (init ads hash)
  show ?case by (simp add: simple_inv_def newSnapshotCache_def)
next
  case (step c op c' sends)
  then show ?case by (blast intro: simple_inv_step)
next
  case (reorder c c')
  then show ?case by (blast intro: simple_inv_reorder)
qed

section \<open>The snapshot cache as a source of deltas\<close>

definition simple_view :: "DeltaDiscoveryRequest \<Rightarrow> snapshotCache \<Rightarrow> resourceContainer option" where
  "simple_view req c =
     (case mget (sc_snapshots c) (dnode_of c req) of
        None \<Rightarrow> None
      | Some s \<Rightarrow> if snap_VersionMap s = None then None else Some (snapshot_container s (dreq_type_url req)))"

lemma simple_CreateDeltaWatch_view:
  assumes L: "lib_total L" and inv: "simple_inv L c"
    and step: "simple_CreateDeltaWatch L now req st ch c = (c', sends, k)"
    and snap: "mget (sc_snapshots c) (dnode_of c req) = Some s"
  shows "\<exists>vm. let s' = s\<lparr>snap_VersionMap := Some vm\<rparr>; r = snapshot_container s' (dreq_type_url req) in
    snap_ok L s' \<and> simple_view req c' = Some r \<and>
    (if delta_due s' \<lparr>dw_Request = req, dw_Response = ch, dw_StreamState = st\<rparr>
     then sends = [SendDelta ch (Some (RawDelta (createDeltaResponse Background req st r)))] \<and> k = None
     else sends = [] \<and> k \<noteq> None)"
proof -
  from inv snap have "snap_ok L s" by (auto simp: simple_inv_def)
  from snap_ok_construct [OF L this] obtain vm where
    vm: "ConstructVersionMap L s = (s\<lparr>snap_VersionMap := Some vm\<rparr>, None)"
    and ok': "snap_ok L (s\<lparr>snap_VersionMap := Some vm\<rparr>)" by blast
  have view: "simple_view req c' = Some (snapshot_container (s\<lparr>snap_VersionMap := Some vm\<rparr>) (dreq_type_url req))"
    using simple_CreateDeltaWatch_shape [OF step] snap vm
    by (auto simp: simple_view_def Let_def split: if_splits)
  show ?thesis
    using simple_CreateDeltaWatch_shape [OF step] snap vm ok' view
    by (intro exI [of _ vm]) (auto simp: Let_def delta_answer_def split: if_splits)
qed

interpretation simple_delta: delta_source L "\<lambda>c. lib_total L \<and> simple_inv L c" simple_view
  "simple_CreateDeltaWatch L now" for L now
proof (unfold_locales, goal_cases)
  case (1 c req r)
  then obtain s where s: "mget (sc_snapshots c) (dnode_of c req) = Some s" "snap_VersionMap s \<noteq> None"
    and r: "r = snapshot_container s (dreq_type_url req)"
    by (auto simp: simple_view_def split: option.splits if_splits)
  with 1 have "snap_ok L s" by (auto simp: simple_inv_def)
  with 1 s r show ?case by (auto simp: snap_ok_def intro: snapshot_versions_ok)
next
  case (2 c req st ch c' sends k)
  with simple_inv_CreateDeltaWatch show ?case by blast
next
  case (3 c req st ch c' sends k r)
  show ?case
  proof (cases "mget (sc_snapshots c) (dnode_of c req)")
    case None
    with simple_CreateDeltaWatch_shape [OF 3(2)] 3(3) show ?thesis
      by (simp add: simple_view_def)
  next
    case (Some s)
    from 3 simple_CreateDeltaWatch_view [OF _ _ 3(2) Some] show ?thesis
      by (auto simp: Let_def delta_due_def split: if_splits)
  qed
qed

end
