(* ===== verification/SimpleProps.thy ===== *)
theory SimpleProps
  imports SimpleFacts Samples
begin

text \<open>
  The properties of the snapshot cache (\<open>pkg/cache/v3/simple.go\<close>): whom a new snapshot notifies, in
  which order, what the open watches may assume, and that delta clients stay in sync.
\<close>

section \<open>Concrete runs\<close>

definition simple_run :: "lib \<Rightarrow> simple_op list \<Rightarrow> snapshotCache \<Rightarrow> snapshotCache" where
  "simple_run L ops c = fold (\<lambda>op c. fst (simple_step L op c)) ops c"

lemma simple_reach_run:
  "simple_reach L c \<Longrightarrow> list_all (simple_op_ok L) ops \<Longrightarrow> simple_reach L (simple_run L ops c)"
proof (induction ops arbitrary: c)
  case Nil
  then show ?case by (simp add: simple_run_def)
next
  case (Cons op ops)
  obtain c' sends where step: "simple_step L op c = (c', sends)" by (cases "simple_step L op c")
  from Cons.prems have "simple_op_ok L op" and rest: "list_all (simple_op_ok L) ops" by simp_all
  from Cons.IH [OF simple_reach.step [OF Cons.prems(1) this(1) step] rest] step
  show ?case by (simp add: simple_run_def)
qed

definition sample_node :: Node where
  "sample_node = \<lparr>node_id = ''n'', node_cluster = ''''\<rparr>"

definition endpoints :: "string \<Rightarrow> (string \<times> bytes) list \<Rightarrow> Snapshot" where
  "endpoints v items = \<lparr>snap_Resources = (\<lambda>_. empty_Resources)(Endpoint := \<lparr>rs_version = v,
       rs_items = map (\<lambda>(n, b). (n, \<lparr>rt_resource = cla n b, rt_ttl = None\<rparr>)) items\<rparr>), snap_VersionMap = None\<rparr>"

definition eds_request :: "string \<Rightarrow> string list \<Rightarrow> DiscoveryRequest" where
  "eds_request version names = (sotw_request EndpointType version names)\<lparr>req_node := Some sample_node\<rparr>"

definition eds_delta_request :: DeltaDiscoveryRequest where
  "eds_delta_request = (delta_request EndpointType)\<lparr>dreq_node := Some sample_node\<rparr>"

lemma endpoints_ok: "wf_map items \<Longrightarrow> snap_ok L (endpoints v items)"
  by (auto simp: snap_ok_def snapshot_wf_def snapshot_named_def snapshot_current_def endpoints_def
      empty_Resources_def cla_def wf_map_def comp_def case_prod_unfold split: if_splits)

lemma endpoints_get:
  "GetResourcesAndTTL (Some (endpoints v items)) EndpointType =
     map (\<lambda>(n, b). (n, \<lparr>rt_resource = cla n b, rt_ttl = None\<rparr>)) items"
  "snapshot_GetVersion (Some (endpoints v items)) EndpointType = v"
  by (simp_all add: GetResourcesAndTTL_def snapshot_GetVersion_def endpoints_def GetResponseType_def
      type_url_defs Let_def)


lemmas simple_defs =
  simple_run_def SetSnapshot_def simple_CreateWatch_def newSnapshotCache_def IDHash_ID_def
  newStatusInfo_def nextWatchID_def respond_now_def Let_def

text \<open>One snapshot, in ADS mode, and a watch for \<open>a\<close> that knows the name already.\<close>

definition sample_known :: StreamState where
  "sample_known = SetKnownResourceNamesAsList EndpointType [''a''] (NewStreamState False None)"

definition sample_simple :: snapshotCache where
  "sample_simple = simple_run sample_lib
     [SSetSnapshot Background ''n'' (endpoints ''1'' [(''a'', [1])]),
      SCreateWatch 5 (eds_request ''1'' [''a'']) sample_known 7]
     (newSnapshotCache True IDHash_ID)"

lemma sample_simple_reach: "simple_reach sample_lib sample_simple"
  unfolding sample_simple_def
  by (rule simple_reach_run [OF simple_reach.init]) (simp add: endpoints_ok)

lemma sample_simple_eq:
  "sample_simple = \<lparr>sc_watchCount = 1, sc_deltaWatchCount = 0, sc_ads = True,
     sc_snapshots = [(''n'', endpoints ''1'' [(''a'', [1])])],
     sc_status = [(''n'', \<lparr>si_node = Some sample_node,
        si_watches = [(1, \<lparr>w_Request = eds_request ''1'' [''a''], w_Response = 7\<rparr>)],
        si_orderedWatches = [], si_deltaWatches = [], si_orderedDeltaWatches = [],
        si_lastWatchRequestTime = 5, si_lastDeltaWatchRequestTime = 0\<rparr>)], sc_hash = IDHash_ID\<rparr>"
proof -
  have url: "req_type_url (eds_request v ns) = EndpointType" "req_node (eds_request v ns) = Some sample_node"
    "req_version_info (eds_request v ns) = v" "req_resource_names (eds_request v ns) = ns" for v ns
    by (simp_all add: eds_request_def sotw_request_def)
  show ?thesis
    by (simp add: sample_simple_def simple_defs url endpoints_get put_status_def sample_known_def sample_node_def
        stream_state_defs mget_or_def)
qed

section \<open>What a new snapshot sends\<close>

lemma sotw_part:
  "filter (\<lambda>s. case s of Send _ _ \<Rightarrow> True | SendDelta _ _ \<Rightarrow> False)
     (concat (map (\<lambda>(k, w). sotw_answer ads ctx snap w) ws) @ concat (map (\<lambda>(k, w). delta_answer ctx snap' w) dws))
   = concat (map (\<lambda>(k, w). sotw_answer ads ctx snap w) ws)"
proof -
  have "filter (\<lambda>s. case s of Send _ _ \<Rightarrow> True | SendDelta _ _ \<Rightarrow> False)
     (concat (map (\<lambda>(k, w). sotw_answer ads ctx snap w) ws)) = concat (map (\<lambda>(k, w). sotw_answer ads ctx snap w) ws)"
    by (induction ws) (auto simp: sotw_answer_def watch_answer_def Let_def)
  moreover have "filter (\<lambda>s. case s of Send _ _ \<Rightarrow> True | SendDelta _ _ \<Rightarrow> False)
     (concat (map (\<lambda>(k, w). delta_answer ctx snap' w) dws)) = []"
    by (induction dws) (auto simp: delta_answer_def)
  ultimately show ?thesis by simp
qed

text \<open>C1: \<open>SetSnapshot\<close>, with a context that lasts, serves exactly the state-of-the-world watches of
  the node whose requested version is not the one of the new snapshot: each is removed and
  answered once with the resources of its type, except that in ADS mode a watch that does not name
  every resource of its type is removed without an answer; the others stay.  In ADS mode the answers
  are in the order of the resource types (clusters, endpoints, listeners, routes, ...).\<close>

theorem set_snapshot_serves_watches:
  assumes "simple_reach L c" and "lib_total L" and "snap_ok L snap"
    and "mget (sc_status c) node = Some info"
    and "SetSnapshot L never ctx node snap c = (c', sends, err)"
  shows "err = None \<and>
    (\<exists>ws. same_entries ws (filter (\<lambda>(k, w). snapshot_GetVersion (Some snap) (req_type_url (w_Request w))
            \<noteq> req_version_info (w_Request w)) (si_watches info)) \<and>
       (sc_ads c \<longrightarrow> sorted (map (\<lambda>(k, w). GetResponseType (req_type_url (w_Request w))) ws)) \<and>
       filter (\<lambda>s. case s of Send _ _ \<Rightarrow> True | SendDelta _ _ \<Rightarrow> False) sends =
         concat (map (\<lambda>(k, w).
           let req = w_Request w; resources = GetResourcesAndTTL (Some snap) (req_type_url req)
           in if req_resource_names req \<noteq> [] \<and> sc_ads c \<and> \<not> fst ` set resources \<subseteq> set (req_resource_names req)
              then []
              else [Send (w_Response w) (Some (Raw (createResponse ctx req resources
                      (snapshot_GetVersion (Some snap) (req_type_url req)) False)))]) ws)) \<and>
    (\<exists>info'. mget (sc_status c') node = Some info' \<and>
       si_watches info' = filter (\<lambda>(k, w). snapshot_GetVersion (Some snap) (req_type_url (w_Request w))
            = req_version_info (w_Request w)) (si_watches info))"
proof -
  have "node_ok (mget (sc_snapshots c) node) info"
    using simple_reach_inv [OF assms(1,2)] assms(4) unfolding simple_inv_def by blast
  then have wf: "wf_map (si_watches info)" "wf_map (si_deltaWatches info)" by (simp_all add: node_ok_def)
  note shape = SetSnapshot_shape [OF assms(2,3,4) wf assms(5)]
  from shape obtain vm ws dws ord dord where
    ws: "same_entries ws (si_watches info)" "same_entries dws (si_deltaWatches info)" "sc_ads c \<longrightarrow> sorted (map (\<lambda>(k, w). sotw_type w) ws)"
    and c': "c' = c\<lparr>sc_snapshots := mput node (snap\<lparr>snap_VersionMap := vm\<rparr>) (mput node snap (sc_snapshots c)),
        sc_status := mput node (info\<lparr>
          si_orderedWatches := ord, si_watches := filter (\<lambda>(k, w). \<not> sotw_stale snap w) (si_watches info),
          si_orderedDeltaWatches := dord,
          si_deltaWatches := filter (\<lambda>(k, w). \<not> delta_due (snap\<lparr>snap_VersionMap := vm\<rparr>) w) (si_deltaWatches info)\<rparr>)
        (sc_status c)\<rparr>"
    and sends: "sends = concat (map (\<lambda>(k, w). sotw_answer (sc_ads c) ctx snap w) (filter (\<lambda>(k, w). sotw_stale snap w) ws))
        @ concat (map (\<lambda>(k, w). delta_answer ctx (snap\<lparr>snap_VersionMap := vm\<rparr>) w)
          (filter (\<lambda>(k, w). delta_due (snap\<lparr>snap_VersionMap := vm\<rparr>) w) dws))"
    unfolding set_result_def Let_def by blast
  let ?ws = "filter (\<lambda>(k, w). sotw_stale snap w) ws"
  have "same_entries ?ws (filter (\<lambda>(k, w). sotw_stale snap w) (si_watches info))"
    by (simp add: ws(1))
  moreover have "sc_ads c \<longrightarrow> sorted (map (\<lambda>(k, w). sotw_type w) ?ws)"
    using ws(3) sorted_filter by blast
  moreover have "filter (\<lambda>s. case s of Send _ _ \<Rightarrow> True | SendDelta _ _ \<Rightarrow> False) sends
      = concat (map (\<lambda>(k, w). sotw_answer (sc_ads c) ctx snap w) ?ws)"
    unfolding sends by (rule sotw_part)
  ultimately have "\<exists>ws. same_entries ws (filter (\<lambda>(k, w). sotw_stale snap w) (si_watches info)) \<and>
       (sc_ads c \<longrightarrow> sorted (map (\<lambda>(k, w). sotw_type w) ws)) \<and>
       filter (\<lambda>s. case s of Send _ _ \<Rightarrow> True | SendDelta _ _ \<Rightarrow> False) sends
         = concat (map (\<lambda>(k, w). sotw_answer (sc_ads c) ctx snap w) ws)"
    by (intro exI [of _ ?ws] conjI)
  moreover have "\<exists>info'. mget (sc_status c') node = Some info' \<and>
      si_watches info' = filter (\<lambda>(k, w). \<not> sotw_stale snap w) (si_watches info)"
    by (simp add: c')
  moreover have "err = None" using shape by simp
  ultimately show ?thesis
    unfolding sotw_stale_def sotw_answer_def watch_answer_def Let_def not_not by (intro conjI)
qed

theorem set_snapshot_serves_watches_witness:
  "\<exists>c' sends. SetSnapshot sample_lib never Background ''n'' (endpoints ''2'' [(''a'', [9])]) sample_simple
      = (c', sends, None) \<and>
     (\<exists>info. mget (sc_status c') ''n'' = Some info \<and> si_watches info = [])"
proof -
  obtain info where info: "mget (sc_status sample_simple) ''n'' = Some info"
    and w: "si_watches info = [(1, \<lparr>w_Request = eds_request ''1'' [''a''], w_Response = 7\<rparr>)]"
    by (simp add: sample_simple_eq)
  obtain c' sends err where
    step: "SetSnapshot sample_lib never Background ''n'' (endpoints ''2'' [(''a'', [9])]) sample_simple = (c', sends, err)"
    by (metis prod_cases3)
  have ok: "snap_ok sample_lib (endpoints ''2'' [(''a'', [9])])" by (rule endpoints_ok) simp
  note served = set_snapshot_serves_watches [OF sample_simple_reach lib_total_sample ok info step]
  then obtain info' where "mget (sc_status c') ''n'' = Some info'"
    "si_watches info' = filter (\<lambda>(k, w). snapshot_GetVersion (Some (endpoints ''2'' [(''a'', [9])])) (req_type_url (w_Request w))
            = req_version_info (w_Request w)) (si_watches info)" by blast
  moreover have "req_type_url (eds_request ''1'' [''a'']) = EndpointType" "req_version_info (eds_request ''1'' [''a'']) = ''1''"
    by (simp_all add: eds_request_def sotw_request_def)
  ultimately have "si_watches info' = []" by (simp add: w endpoints_get)
  with served step \<open>mget (sc_status c') ''n'' = Some info'\<close> show ?thesis by auto
qed

text \<open>C7: in every reachable state of the snapshot cache (contexts lasting), an open state-of-the-world
  watch of a node that has a snapshot asked for exactly the version the snapshot has for its type:
  no client waits on an outdated version.\<close>

theorem open_watches_are_current:
  assumes "simple_reach L c" and "lib_total L"
    and "mget (sc_snapshots c) node = Some snap" and "mget (sc_status c) node = Some info"
    and "mget (si_watches info) i = Some w"
  shows "req_version_info (w_Request w) = snapshot_GetVersion (Some snap) (req_type_url (w_Request w))"
proof -
  have "node_ok (mget (sc_snapshots c) node) info"
    using simple_reach_inv [OF assms(1,2)] assms(4) unfolding simple_inv_def by blast
  then have "\<not> sotw_stale snap w"
    using assms(3) mget_in_set [OF assms(5)] by (auto simp: node_ok_def)
  then show ?thesis by (simp add: sotw_stale_def)
qed

theorem open_watches_are_current_witness:
  "''1'' = snapshot_GetVersion (Some (endpoints ''1'' [(''a'', [1])])) EndpointType"
proof -
  have url: "req_type_url (eds_request ''1'' [''a'']) = EndpointType"
    "req_version_info (eds_request ''1'' [''a'']) = ''1''"
    by (simp_all add: eds_request_def sotw_request_def)
  obtain info where "mget (sc_status sample_simple) ''n'' = Some info"
    "mget (si_watches info) 1 = Some \<lparr>w_Request = eds_request ''1'' [''a''], w_Response = 7\<rparr>"
    by (simp add: sample_simple_eq)
  moreover have "mget (sc_snapshots sample_simple) ''n'' = Some (endpoints ''1'' [(''a'', [1])])"
    by (simp add: sample_simple_eq)
  ultimately show ?thesis
    using open_watches_are_current [OF sample_simple_reach lib_total_sample] by (metis url ResponseWatch.select_convs(1))
qed

section \<open>Delta clients stay in sync\<close>

lemma snapshot_target:
  assumes "snap_ok L s" and "snap_VersionMap s \<noteq> None"
  shows "target st (snapshot_container s u) n =
    map_option (\<lambda>r. hash_of L (rt_resource r)) (mget (GetResourcesAndTTL (Some s) u) n)"
proof -
  have wf: "snapshot_wf s" using assms(1) by (simp add: snap_ok_def)
  have "mget (GetVersionMap s u) n = map_option (\<lambda>r. hash_of L (rt_resource r)) (mget (GetResourcesAndTTL (Some s) u) n)"
    using assms by (auto simp: snap_ok_def snapshot_current_def)
  with GetResources_get(2) [OF wf, of u n] show ?thesis
    by (auto simp: target_def snapshot_container_def version_of_def mget_or_def split: option.split)
qed

text \<open>C6: whatever a delta client held, when its stream state records it faithfully, then after
  \<open>CreateDeltaWatch\<close> on a snapshot cache that has a snapshot for its node, with the response applied if
  one was sent, it holds for every name it subscribes to exactly the hash of the resource in the
  snapshot, or nothing where the snapshot has nothing.\<close>

theorem snapshot_delta_sync:
  assumes "simple_reach L c" and "lib_total L"
    and "mget (sc_snapshots c) (sc_hash c (dreq_node req)) = Some s"
    and "simple_CreateDeltaWatch L now req st ch c = (c', sends, k)"
    and "tracks st cl" and "in_scope st n"
  shows "client_after L sends cl n =
    map_option (\<lambda>r. hash_of L (rt_resource r)) (mget (GetResourcesAndTTL (Some s) (dreq_type_url req)) n)"
proof -
  have inv: "lib_total L \<and> simple_inv L c" using assms(2) simple_reach_inv [OF assms(1,2)] by simp
  from simple_CreateDeltaWatch_view [OF assms(2) _ assms(4,3)] inv obtain vm where
    ok: "snap_ok L (s\<lparr>snap_VersionMap := Some vm\<rparr>)"
    and view: "simple_view req c' = Some (snapshot_container (s\<lparr>snap_VersionMap := Some vm\<rparr>) (dreq_type_url req))"
    unfolding Let_def by blast
  have same: "GetResourcesAndTTL (Some (s\<lparr>snap_VersionMap := Some vm\<rparr>)) u = GetResourcesAndTTL (Some s) u" for u
    by (simp add: GetResourcesAndTTL_def Let_def)
  from simple_delta.client_in_sync [OF inv assms(4) view assms(5,6)] snapshot_target [OF ok, of st]
  show ?thesis by (simp add: same)
qed

theorem snapshot_delta_sync_witness:
  "client_after sample_lib
     (fst (snd (simple_CreateDeltaWatch sample_lib 6 eds_delta_request (subscribed [''a''] []) 9 sample_simple)))
     (\<lambda>n. None) ''a'' = Some (hash_of sample_lib (cla ''a'' [1]))"
proof -
  let ?st = "subscribed [''a''] []"
  obtain c' sends k where r: "simple_CreateDeltaWatch sample_lib 6 eds_delta_request ?st 9 sample_simple = (c', sends, k)"
    by (metis prod_cases3)
  have url: "dreq_type_url eds_delta_request = EndpointType" "dreq_node eds_delta_request = Some sample_node"
    by (simp_all add: eds_delta_request_def delta_request_def)
  have "tracks ?st (\<lambda>n. None)" "in_scope ?st ''a''"
    by (simp_all add: tracks_def in_scope_def subscribed_def NewStreamState_def stream_state_defs)
  moreover have "mget (sc_snapshots sample_simple) (sc_hash sample_simple (dreq_node eds_delta_request))
      = Some (endpoints ''1'' [(''a'', [1])])"
    by (simp add: sample_simple_eq url IDHash_ID_def sample_node_def)
  ultimately show ?thesis
    using snapshot_delta_sync [OF sample_simple_reach lib_total_sample _ r] r by (simp add: url endpoints_get)
qed

text \<open>In every reachable state of the snapshot cache (contexts lasting), an open delta watch of a
  node that has a snapshot misses nothing: a client that the watch's stream state records faithfully
  holds, for every name it subscribes to, exactly the hash of the resource in the snapshot.\<close>

theorem snapshot_delta_parked:
  assumes "simple_reach L c" and "lib_total L"
    and "mget (sc_snapshots c) node = Some s" and "mget (sc_status c) node = Some info"
    and "mget (si_deltaWatches info) i = Some w"
    and "tracks (dw_StreamState w) cl" and "in_scope (dw_StreamState w) n"
  shows "cl n = map_option (\<lambda>r. hash_of L (rt_resource r))
    (mget (GetResourcesAndTTL (Some s) (dreq_type_url (dw_Request w))) n)"
proof -
  note inv = simple_reach_inv [OF assms(1,2)]
  have "node_ok (mget (sc_snapshots c) node) info"
    using inv assms(4) unfolding simple_inv_def by blast
  then have "\<not> delta_due s w" and vm: "snap_VersionMap s \<noteq> None"
    using assms(3) mget_in_set [OF assms(5)] by (auto simp: node_ok_def)
  then have up: "up_to_date (dw_StreamState w) (snapshot_container s (dreq_type_url (dw_Request w)))"
    by (simp add: delta_due_def)
  have ok: "snap_ok L s" using inv assms(3) unfolding simple_inv_def by blast
  have "versions_ok L (snapshot_container s (dreq_type_url (dw_Request w)))"
    using ok vm assms(2) by (intro snapshot_versions_ok) (simp_all add: snap_ok_def)
  from up_to_date_target [OF up assms(6,7)] versions_ok_get [OF this]
  show ?thesis unfolding snapshot_target [OF ok vm] by blast
qed

theorem snapshot_delta_parked_witness:
  "\<exists>c info. simple_reach sample_lib c \<and> mget (sc_status c) ''n'' = Some info \<and> si_deltaWatches info \<noteq> [] \<and>
     None = map_option (\<lambda>r. hash_of sample_lib (rt_resource r))
       (mget (GetResourcesAndTTL (Some (endpoints ''1'' [(''a'', [1])])) EndpointType) ''z'')"
proof -
  let ?st = "subscribed [''z''] []"
  let ?w = "\<lparr>dw_Request = eds_delta_request, dw_Response = 9, dw_StreamState = ?st\<rparr>"
  obtain c' sends k where r: "simple_CreateDeltaWatch sample_lib 6 eds_delta_request ?st 9 sample_simple = (c', sends, k)"
    by (metis prod_cases3)
  have reach: "simple_reach sample_lib c'"
    using simple_reach.step [OF sample_simple_reach, of "SCreateDeltaWatch 6 eds_delta_request ?st 9"] r by simp
  have url: "dreq_type_url eds_delta_request = EndpointType" "dreq_node eds_delta_request = Some sample_node"
    by (simp_all add: eds_delta_request_def delta_request_def)
  have snap: "mget (sc_snapshots sample_simple) (dnode_of sample_simple eds_delta_request)
      = Some (endpoints ''1'' [(''a'', [1])])"
    by (simp add: sample_simple_eq url IDHash_ID_def sample_node_def)
  have node: "dnode_of sample_simple eds_delta_request = ''n''"
    by (simp add: sample_simple_eq url IDHash_ID_def sample_node_def)
  obtain vm where cvm: "ConstructVersionMap sample_lib (endpoints ''1'' [(''a'', [1])])
      = (endpoints ''1'' [(''a'', [1])]\<lparr>snap_VersionMap := Some vm\<rparr>, None)"
    using snap_ok_construct [OF lib_total_sample endpoints_ok, of "[(''a'', [1])]"] by auto
  let ?s = "endpoints ''1'' [(''a'', [1])]\<lparr>snap_VersionMap := Some vm\<rparr>"
  have get: "GetResourcesAndTTL (Some ?s) EndpointType = [(''a'', \<lparr>rt_resource = cla ''a'' [1], rt_ttl = None\<rparr>)]"
  proof -
    have "GetResourcesAndTTL (Some ?s) EndpointType = GetResourcesAndTTL (Some (endpoints ''1'' [(''a'', [1])])) EndpointType"
      by (simp add: GetResourcesAndTTL_def Let_def)
    then show ?thesis by (simp add: endpoints_get)
  qed
  have "\<not> delta_due ?s ?w"
    by (auto simp: delta_due_def up_to_date_def in_scope_def subscribed_def NewStreamState_def stream_state_defs
        snapshot_container_def snapshot_GetResources_def url get)
  with simple_CreateDeltaWatch_shape [OF r] snap cvm
  have c': "mget (sc_snapshots c') ''n'' = Some ?s"
    "\<exists>info. mget (sc_status c') ''n'' = Some info \<and> mget (si_deltaWatches info) (sc_deltaWatchCount sample_simple + 1) = Some ?w"
    by (simp_all add: Let_def node)
  then obtain info where info: "mget (sc_status c') ''n'' = Some info"
    "mget (si_deltaWatches info) (sc_deltaWatchCount sample_simple + 1) = Some ?w" by blast
  have "tracks (dw_StreamState ?w) (\<lambda>n. None)" "in_scope (dw_StreamState ?w) ''z''"
    by (simp_all add: tracks_def in_scope_def subscribed_def NewStreamState_def stream_state_defs)
  from snapshot_delta_parked [OF reach lib_total_sample c'(1) info this]
  have "None = map_option (\<lambda>r. hash_of sample_lib (rt_resource r)) (mget (GetResourcesAndTTL (Some ?s) EndpointType) ''z'')"
    by (simp add: url)
  moreover have "si_deltaWatches info \<noteq> []" using info(2) by auto
  ultimately show ?thesis
    using reach info(1) by (intro exI [of _ c'] exI [of _ info]) (simp add: get endpoints_get)
qed

section \<open>Requests\<close>

text \<open>C26: a state-of-the-world request to the snapshot cache is answered at once exactly when its node
  has a snapshot and either the requested version is not the snapshot's or the request names an
  existing resource that the stream has not been sent; then the open watches of the node stay as they
  were, and the answer goes to the channel of the request, except that in ADS mode an answer that would
  leave out a resource of the type is withheld: nothing is sent and no watch is left.  Otherwise, with
  or without a snapshot, nothing is sent and the request is stored among the watches of the node with its
  channel, under the next identifier, which is the one the cancel function removes.  In every case the
  node has a status afterwards, with the time of the request, and no other node and no snapshot changes.\<close>

theorem create_watch_decision:
  assumes "simple_CreateWatch now req st ch c = (c', sends, k)"
  defines "n \<equiv> sc_hash c (req_node req)"
  defines "ws \<equiv> (case mget (sc_status c) n of None \<Rightarrow> [] | Some info \<Rightarrow> si_watches info)"
  shows "\<exists>info'. mget (sc_status c') n = Some info' \<and> si_lastWatchRequestTime info' = now \<and>
    sc_snapshots c' = sc_snapshots c \<and> (\<forall>m. m \<noteq> n \<longrightarrow> mget (sc_status c') m = mget (sc_status c) m) \<and>
    (if (case mget (sc_snapshots c) n of
           None \<Rightarrow> False
         | Some snap \<Rightarrow>
             req_version_info req \<noteq> snapshot_GetVersion (Some snap) (req_type_url req) \<or>
             (\<exists>m \<in> set (req_resource_names req). m \<notin> set (GetKnownResourceNames (req_type_url req) st)
                \<and> mget (GetResourcesAndTTL (Some snap) (req_type_url req)) m \<noteq> None))
     then k = Some NoCancel \<and> si_watches info' = ws \<and> sc_watchCount c' = sc_watchCount c \<and>
       (let snap = mget (sc_snapshots c) n; resources = GetResourcesAndTTL snap (req_type_url req) in
        sends = (if req_resource_names req \<noteq> [] \<and> sc_ads c \<and> \<not> fst ` set resources \<subseteq> set (req_resource_names req)
          then [] else [Send ch (Some (Raw (createResponse Background req resources
                          (snapshot_GetVersion snap (req_type_url req)) False)))]))
     else sends = [] \<and> k = Some (CancelSotw n (sc_watchCount c + 1)) \<and> sc_watchCount c' = sc_watchCount c + 1 \<and>
       si_watches info' = mput (sc_watchCount c + 1) \<lparr>w_Request = req, w_Response = ch\<rparr> ws)"
proof -
  let ?i = "(info_of (req_node req) n c)\<lparr>si_lastWatchRequestTime := now\<rparr>"
  have ws: "si_watches (info_of (req_node req) n c) = ws"
    by (simp add: ws_def info_of_def newStatusInfo_def split: option.split)
  note shape = simple_CreateWatch_shape [OF assms(1), folded n_def]
  show ?thesis
  proof (cases "answered_now c req st")
    case True
    then obtain snap where "mget (sc_snapshots c) n = Some snap"
      by (auto simp: answered_now_def n_def split: option.splits)
    with True shape ws show ?thesis
      by (intro exI [of _ ?i]) (auto simp: answered_now_def n_def [symmetric] put_status_def mget_put
          sotw_answer_def watch_answer_def Let_def)
  next
    case False
    with shape ws show ?thesis
      by (intro exI [of _ "?i\<lparr>si_watches := mput (sc_watchCount c + 1) \<lparr>w_Request = req, w_Response = ch\<rparr> ws\<rparr>"])
        (auto simp: answered_now_def n_def [symmetric] put_status_def mget_put split: option.splits)
  qed
qed

theorem create_watch_decision_witness:
  "fst (snd (simple_CreateWatch 6 (eds_request '''' []) (NewStreamState False None) 3 sample_simple))
     = [Send 3 (Some (Raw (createResponse Background (eds_request '''' [])
          [(''a'', \<lparr>rt_resource = cla ''a'' [1], rt_ttl = None\<rparr>)] ''1'' False)))]"
proof -
  let ?req = "eds_request '''' []"
  obtain c' sends k where r: "simple_CreateWatch 6 ?req (NewStreamState False None) 3 sample_simple = (c', sends, k)"
    by (metis prod_cases3)
  have url: "req_type_url ?req = EndpointType" "req_node ?req = Some sample_node"
    "req_version_info ?req = ''''" "req_resource_names ?req = []"
    by (simp_all add: eds_request_def sotw_request_def empty_request_def)
  have "mget (sc_snapshots sample_simple) (sc_hash sample_simple (req_node ?req)) = Some (endpoints ''1'' [(''a'', [1])])"
    by (simp add: sample_simple_eq url IDHash_ID_def sample_node_def)
  with create_watch_decision [OF r] r show ?thesis by (auto simp: url endpoints_get Let_def)
qed

text \<open>In ADS mode no partial answer is ever sent: whatever \<open>respond\<close>, through which \<open>SetSnapshot\<close>,
  \<open>CreateWatch\<close> and the heartbeats answer, puts on a channel holds every resource it was given, even
  when the request lists names, and goes to the channel of the request.\<close>

theorem ads_answers_are_complete:
  assumes "respond True done ctx req ch resources version heartbeat = (sends, err)"
    and "Send ch' (Some (Raw r)) \<in> set sends"
  shows "ch' = ch \<and> raw_resources r = map snd resources \<and> raw_version r = version \<and> raw_request r = req"
proof -
  have "filter (\<lambda>(name, resource). mget_or False (nameSet (req_resource_names req)) name) resources = resources"
    if "superset (nameSet (req_resource_names req)) resources = None"
  proof (intro filter_True ballI)
    fix x
    assume "x \<in> set resources"
    then have "fst x \<in> set (req_resource_names req)"
      using that superset_None_iff [of "nameSet (req_resource_names req)" resources] dom_nameSet by fastforce
    then have "mget (nameSet (req_resource_names req)) (fst x) = Some True"
      by (simp add: nameSet_def mget_fold_put)
    then show "case x of (name, resource) \<Rightarrow> mget_or False (nameSet (req_resource_names req)) name"
      by (simp add: case_prod_unfold)
  qed
  with assms show ?thesis
    by (auto simp: respond_def createResponse_def Let_def split: if_splits)
qed

theorem ads_answers_are_complete_witness:
  "raw_resources (createResponse Background (eds_request ''0'' [''a'', ''b''])
     [(''a'', \<lparr>rt_resource = cla ''a'' [1], rt_ttl = None\<rparr>)] ''1'' False)
   = [\<lparr>rt_resource = cla ''a'' [1], rt_ttl = None\<rparr>]"
proof -
  let ?req = "eds_request ''0'' [''a'', ''b'']"
  let ?items = "[(''a'', \<lparr>rt_resource = cla ''a'' [1], rt_ttl = None\<rparr>)]"
  have "req_resource_names ?req = [''a'', ''b'']" by (simp add: eds_request_def sotw_request_def)
  then have "respond True never Background ?req 3 ?items ''1'' False
      = ([Send 3 (Some (Raw (createResponse Background ?req ?items ''1'' False)))], None)"
    by (simp add: respond_def never_def nameSet_def)
  from ads_answers_are_complete [OF this] show ?thesis by simp
qed

section \<open>Heartbeats and clearing\<close>

text \<open>C30: a heartbeat of a node touches exactly the open watches whose type has a resource with a TTL:
  each is removed and, on its own channel, sent one heartbeat response to its request with the version of
  the snapshot and exactly the resources of the type that have a TTL (those it names, when it names any);
  only in ADS mode, when the watch does not name them all, the response is withheld.  Nothing else is
  sent; the other watches stay, and neither the snapshots nor the delta watches change.\<close>

theorem heartbeat_serves_ttl_watches:
  assumes "simple_reach L c" and "lib_total L"
    and "mget (sc_snapshots c) node = Some snap" and "mget (sc_status c) node = Some info"
    and "sendHeartbeats never ctx node (c, []) = (c', sends)"
  shows "(\<exists>info'. mget (sc_status c') node = Some info' \<and> si_deltaWatches info' = si_deltaWatches info \<and>
       si_watches info' = filter (\<lambda>(k, w). \<forall>(m, r) \<in> set (GetResourcesAndTTL (Some snap) (req_type_url (w_Request w))).
          rt_ttl r = None) (si_watches info)) \<and>
    sc_snapshots c' = sc_snapshots c \<and> (\<forall>m. m \<noteq> node \<longrightarrow> mget (sc_status c') m = mget (sc_status c) m) \<and>
    sends = concat (map (\<lambda>(k, w).
      let req = w_Request w;
          due = filter (\<lambda>(m, r). rt_ttl r \<noteq> None) (GetResourcesAndTTL (Some snap) (req_type_url req));
          version = snapshot_GetVersion (Some snap) (req_type_url req)
      in if req_resource_names req \<noteq> [] \<and> sc_ads c \<and> \<not> fst ` set due \<subseteq> set (req_resource_names req) then []
         else [Send (w_Response w) (Some (Raw (createResponse ctx req due version True)))])
      (filter (\<lambda>(k, w). \<exists>(m, r) \<in> set (GetResourcesAndTTL (Some snap) (req_type_url (w_Request w))).
          rt_ttl r \<noteq> None) (si_watches info))) \<and>
    (\<forall>ch x. Send ch (Some (Raw x)) \<in> set sends \<longrightarrow> raw_heartbeat x \<and> (\<forall>r \<in> set (raw_resources x). rt_ttl r \<noteq> None))"
proof -
  have "node_ok (mget (sc_snapshots c) node) info"
    using simple_reach_inv [OF assms(1,2)] assms(4) unfolding simple_inv_def by blast
  then have wf: "wf_map (si_watches info)" by (simp add: node_ok_def)
  let ?left = "filter (\<lambda>(k, w). \<not> heartbeat_due snap w) (si_watches info)"
  let ?due = "filter (\<lambda>(k, w). heartbeat_due snap w) (si_watches info)"
  from sendHeartbeats_shape [OF assms(3,4) wf, of ctx "[]"] assms(5)
  have c': "c' = put_status node (info\<lparr>si_watches := ?left\<rparr>) c"
    and sends: "sends = concat (map (\<lambda>(k, w). heartbeat_answer (sc_ads c) ctx snap w) ?due)" by simp_all
  have left: "?left = filter (\<lambda>(k, w). \<forall>(m, r) \<in> set (GetResourcesAndTTL (Some snap) (req_type_url (w_Request w))).
          rt_ttl r = None) (si_watches info)"
    by (rule filter_cong [OF refl]) (auto simp: heartbeat_due_def)
  have content: "raw_heartbeat x \<and> (\<forall>r \<in> set (raw_resources x). rt_ttl r \<noteq> None)"
    if "Send ch (Some (Raw x)) \<in> set sends" for ch x
    using that by (auto simp: sends heartbeat_answer_def watch_answer_def createResponse_def Let_def split: if_splits)
  have exact: "sends = concat (map (\<lambda>(k, w).
      let req = w_Request w;
          due = filter (\<lambda>(m, r). rt_ttl r \<noteq> None) (GetResourcesAndTTL (Some snap) (req_type_url req));
          version = snapshot_GetVersion (Some snap) (req_type_url req)
      in if req_resource_names req \<noteq> [] \<and> sc_ads c \<and> \<not> fst ` set due \<subseteq> set (req_resource_names req) then []
         else [Send (w_Response w) (Some (Raw (createResponse ctx req due version True)))])
      (filter (\<lambda>(k, w). \<exists>(m, r) \<in> set (GetResourcesAndTTL (Some snap) (req_type_url (w_Request w))).
          rt_ttl r \<noteq> None) (si_watches info)))"
    unfolding sends heartbeat_answer_def watch_answer_def heartbeat_due_def Let_def ..
  have "\<exists>info'. mget (sc_status c') node = Some info' \<and> si_deltaWatches info' = si_deltaWatches info \<and> si_watches info' = ?left"
    by (simp add: c' put_status_def)
  moreover have "sc_snapshots c' = sc_snapshots c" "\<forall>m. m \<noteq> node \<longrightarrow> mget (sc_status c') m = mget (sc_status c) m"
    by (simp_all add: c' put_status_def mget_put)
  ultimately show ?thesis using content exact unfolding left by blast
qed

definition ttl_snapshot :: Snapshot where
  "ttl_snapshot = empty_Snapshot\<lparr>snap_Resources := (\<lambda>_. empty_Resources)(Endpoint := \<lparr>rs_version = ''1'',
     rs_items = [(''a'', \<lparr>rt_resource = cla ''a'' [1], rt_ttl = Some 5\<rparr>)]\<rparr>)\<rparr>"

definition sample_ttl :: snapshotCache where
  "sample_ttl = simple_run sample_lib
     [SSetSnapshot Background ''n'' ttl_snapshot,
      SCreateWatch 5 (eds_request ''1'' [''a'']) sample_known 7]
     (newSnapshotCache True IDHash_ID)"

lemma sample_ttl_reach: "simple_reach sample_lib sample_ttl"
  unfolding sample_ttl_def
  by (rule simple_reach_run [OF simple_reach.init])
    (simp add: snap_ok_def snapshot_wf_def snapshot_named_def snapshot_current_def ttl_snapshot_def
      empty_Snapshot_def empty_Resources_def cla_def)

lemma ttl_get:
  "GetResourcesAndTTL (Some ttl_snapshot) EndpointType = [(''a'', \<lparr>rt_resource = cla ''a'' [1], rt_ttl = Some 5\<rparr>)]"
  "snapshot_GetVersion (Some ttl_snapshot) EndpointType = ''1''"
  by (simp_all add: GetResourcesAndTTL_def snapshot_GetVersion_def ttl_snapshot_def GetResponseType_def
      type_url_defs Let_def)

theorem heartbeat_serves_ttl_watches_witness:
  "\<exists>info. mget (sc_status (fst (sendHeartbeats never Background ''n'' (sample_ttl, [])))) ''n'' = Some info \<and>
     si_watches info = [] \<and> (\<exists>x. snd (sendHeartbeats never Background ''n'' (sample_ttl, [])) = [Send 7 (Some (Raw x))] \<and>
       raw_heartbeat x \<and> raw_resources x = [\<lparr>rt_resource = cla ''a'' [1], rt_ttl = Some 5\<rparr>])"
proof -
  have url: "req_type_url (eds_request v ns) = EndpointType" "req_node (eds_request v ns) = Some sample_node"
    "req_version_info (eds_request v ns) = v" "req_resource_names (eds_request v ns) = ns" for v ns
    by (simp_all add: eds_request_def sotw_request_def)
  have snap: "mget (sc_snapshots sample_ttl) ''n'' = Some ttl_snapshot"
    and "\<exists>info. mget (sc_status sample_ttl) ''n'' = Some info \<and>
      si_watches info = [(1, \<lparr>w_Request = eds_request ''1'' [''a''], w_Response = 7\<rparr>)]"
    by (simp_all add: sample_ttl_def simple_defs url ttl_get put_status_def sample_known_def sample_node_def
        stream_state_defs mget_or_def)
  then obtain info where info: "mget (sc_status sample_ttl) ''n'' = Some info"
    "si_watches info = [(1, \<lparr>w_Request = eds_request ''1'' [''a''], w_Response = 7\<rparr>)]" by blast
  obtain c' sends where r: "sendHeartbeats never Background ''n'' (sample_ttl, []) = (c', sends)"
    by (cases "sendHeartbeats never Background ''n'' (sample_ttl, [])")
  note hb = heartbeat_serves_ttl_watches [OF sample_ttl_reach lib_total_sample snap info(1) r]
  then obtain info' where "mget (sc_status c') ''n'' = Some info'"
    "si_watches info' = filter (\<lambda>(k, w). \<forall>(m, r) \<in> set (GetResourcesAndTTL (Some ttl_snapshot) (req_type_url (w_Request w))).
          rt_ttl r = None) (si_watches info)" by blast
  moreover have "sends = [Send 7 (Some (Raw (createResponse Background (eds_request ''1'' [''a''])
      [(''a'', \<lparr>rt_resource = cla ''a'' [1], rt_ttl = Some 5\<rparr>)] ''1'' True)))]"
    unfolding conjunct1 [OF conjunct2 [OF conjunct2 [OF conjunct2 [OF hb]]]]
    by (auto simp: info(2) url ttl_get Let_def)
  ultimately show ?thesis
    unfolding r by (simp add: info(2) url ttl_get createResponse_def nameSet_def Let_def)
qed

end
