(* ===== verification/Caches.thy ===== *)
theory Caches
  imports LinearFacts SimpleFacts
begin

text \<open>
  The interface \<open>Cache\<close> of \<open>pkg/cache/v3/cache.go\<close> as a record of its methods, the two caches as
  values of it, and the multiplexed cache of \<open>pkg/cache/v3/mux.go\<close>.  A cache is a state \<open>'c\<close> and
  the methods are functions on it; a cancel function is a value \<open>'k\<close> that \<open>cancel_fn\<close> runs.
\<close>

section \<open>The interface\<close>

record ('c, 'k) Cache =
  CreateWatch :: "DiscoveryRequest \<Rightarrow> StreamState \<Rightarrow> chan \<Rightarrow> 'c \<Rightarrow> 'c \<times> send list \<times> 'k option"
  CreateDeltaWatch :: "DeltaDiscoveryRequest \<Rightarrow> StreamState \<Rightarrow> chan \<Rightarrow> 'c \<Rightarrow> 'c \<times> send list \<times> 'k option"
  Fetch :: "ctx \<Rightarrow> DiscoveryRequest \<Rightarrow> 'c \<Rightarrow> go_error + Response"
  cancel_fn :: "'k \<Rightarrow> 'c \<Rightarrow> 'c"

definition linear_Cache :: "lib \<Rightarrow> (LinearCache, linear_canceler) Cache" where
  "linear_Cache L =
     \<lparr>CreateWatch = linear_CreateWatch, CreateDeltaWatch = linear_CreateDeltaWatch L,
      Fetch = (\<lambda>ctx. linear_Fetch), cancel_fn = linear_cancel\<rparr>"

definition simple_Cache :: "lib \<Rightarrow> time \<Rightarrow> (snapshotCache, simple_canceler) Cache" where
  "simple_Cache L now =
     \<lparr>CreateWatch = simple_CreateWatch now, CreateDeltaWatch = simple_CreateDeltaWatch L now,
      Fetch = simple_Fetch, cancel_fn = simple_cancel\<rparr>"

section \<open>The multiplexed cache\<close>

text \<open>
  The values of the map \<open>Caches\<close> are interface values, that is references: two keys may lead to
  the same cache.  A store keeps the state behind each reference.  A cancel function remembers the
  cache that made it.
\<close>

type_synonym cache_ref = nat

type_synonym 'c store = "cache_ref \<Rightarrow> 'c"

record MuxCache =
  mux_Classify :: "DiscoveryRequest \<Rightarrow> string"
  mux_ClassifyDelta :: "DeltaDiscoveryRequest \<Rightarrow> string"
  mux_Caches :: "(string, cache_ref) gomap"

definition mux_CreateWatch ::
    "('c, 'k) Cache \<Rightarrow> MuxCache \<Rightarrow> DiscoveryRequest \<Rightarrow> StreamState \<Rightarrow> chan \<Rightarrow> 'c store
       \<Rightarrow> 'c store \<times> send list \<times> (cache_ref \<times> 'k) option" where
  "mux_CreateWatch C mux request state value s =
     (case mget (mux_Caches mux) (mux_Classify mux request) of
        None \<Rightarrow> (s, [Send value None], None)
      | Some ref \<Rightarrow>
          (case CreateWatch C request state value (s ref) of
             (c, sends, k) \<Rightarrow> (s(ref := c), sends, map_option (Pair ref) k)))"

definition mux_CreateDeltaWatch ::
    "('c, 'k) Cache \<Rightarrow> MuxCache \<Rightarrow> DeltaDiscoveryRequest \<Rightarrow> StreamState \<Rightarrow> chan \<Rightarrow> 'c store
       \<Rightarrow> 'c store \<times> send list \<times> (cache_ref \<times> 'k) option" where
  "mux_CreateDeltaWatch C mux request state value s =
     (case mget (mux_Caches mux) (mux_ClassifyDelta mux request) of
        None \<Rightarrow> (s, [SendDelta value None], None)
      | Some ref \<Rightarrow>
          (case CreateDeltaWatch C request state value (s ref) of
             (c, sends, k) \<Rightarrow> (s(ref := c), sends, map_option (Pair ref) k)))"

definition mux_Fetch :: "ctx \<Rightarrow> DiscoveryRequest \<Rightarrow> 'c store \<Rightarrow> go_error + Response" where
  "mux_Fetch ctx request s = Inl NotImplemented"

definition mux_cancel :: "('c, 'k) Cache \<Rightarrow> cache_ref \<times> 'k \<Rightarrow> 'c store \<Rightarrow> 'c store" where
  "mux_cancel C = (\<lambda>(ref, k) s. s(ref := cancel_fn C k (s ref)))"

definition mux_Cache :: "('c, 'k) Cache \<Rightarrow> MuxCache \<Rightarrow> ('c store, cache_ref \<times> 'k) Cache" where
  "mux_Cache C mux =
     \<lparr>CreateWatch = mux_CreateWatch C mux, CreateDeltaWatch = mux_CreateDeltaWatch C mux,
      Fetch = mux_Fetch, cancel_fn = mux_cancel C\<rparr>"

lemmas cache_defs = linear_Cache_def simple_Cache_def mux_Cache_def

section \<open>The multiplexed cache is as good as the caches behind it\<close>

text \<open>What the multiplexed cache shows for a request: what the classified cache shows.\<close>

definition mux_view ::
    "(DeltaDiscoveryRequest \<Rightarrow> 'c \<Rightarrow> resourceContainer option) \<Rightarrow> MuxCache
       \<Rightarrow> DeltaDiscoveryRequest \<Rightarrow> 'c store \<Rightarrow> resourceContainer option" where
  "mux_view view mux req s =
     (case mget (mux_Caches mux) (mux_ClassifyDelta mux req) of None \<Rightarrow> None | Some ref \<Rightarrow> view req (s ref))"

lemma mux_CreateDeltaWatch_SomeD:
  assumes "mux_CreateDeltaWatch C mux req st ch s = (s', sends, k)"
    and "mget (mux_Caches mux) (mux_ClassifyDelta mux req) = Some ref"
  obtains c' k' where "CreateDeltaWatch C req st ch (s ref) = (c', sends, k')"
    and "s' = s(ref := c')" and "k = map_option (Pair ref) k'"
  using assms by (auto simp: mux_CreateDeltaWatch_def split: prod.splits)

context delta_source
begin

lemma mux_source:
  assumes C: "CreateDeltaWatch C = create"
  shows "delta_source L (\<lambda>s. \<forall>r. inv (s r)) (mux_view view mux) (mux_CreateDeltaWatch C mux)"
proof (unfold_locales, goal_cases)
  case (1 s req r)
  then show ?case by (auto simp: mux_view_def split: option.splits intro: view_ok)
next
  case (2 s req st ch s' sends k)
  show ?case
  proof (cases "mget (mux_Caches mux) (mux_ClassifyDelta mux req)")
    case None
    with 2 show ?thesis by (simp add: mux_CreateDeltaWatch_def)
  next
    case (Some ref)
    with 2(2) obtain c' k' where "create req st ch (s ref) = (c', sends, k')" "s' = s(ref := c')"
      by (metis C mux_CreateDeltaWatch_SomeD)
    with 2(1) create_inv show ?thesis by simp blast
  qed
next
  case (3 s req st ch s' sends k r)
  then obtain ref where ref: "mget (mux_Caches mux) (mux_ClassifyDelta mux req) = Some ref"
    and r: "view req (s' ref) = Some r" by (auto simp: mux_view_def split: option.splits)
  with 3(2) obtain c' k' where "create req st ch (s ref) = (c', sends, k')" "s' = s(ref := c')"
    by (metis C mux_CreateDeltaWatch_SomeD)
  with r 3(1) create_answer [of "s ref"] show ?case by simp
qed

end

interpretation mux_linear: delta_source L
  "\<lambda>s. \<forall>r. lib_total L \<and> linear_inv L (s r) \<and> linear_named (s r)"
  "mux_view linear_view mux" "mux_CreateDeltaWatch (linear_Cache L) mux" for L mux
  by (rule linear_delta.mux_source) (simp add: cache_defs)

interpretation mux_simple: delta_source L "\<lambda>s. \<forall>r. lib_total L \<and> simple_inv L (s r)"
  "mux_view simple_view mux" "mux_CreateDeltaWatch (simple_Cache L now) mux" for L now mux
  by (rule simple_delta.mux_source) (simp add: cache_defs)

end
