(* ===== verification/ServerConfig.thy ===== *)
theory ServerConfig
  imports Caches
begin

text \<open>
  What the stream servers share: the options of \<open>pkg/server/config/config.go\<close>, the zero value of a
  node, the type URL rule of a request.
\<close>

record Opts =
  opts_Ordered :: bool

definition NewOpts :: Opts where
  "NewOpts = \<lparr>opts_Ordered = False\<rparr>"

type_synonym XDSOption = "Opts \<Rightarrow> Opts"

definition empty_node :: Node where
  "empty_node = \<lparr>node_id = '''', node_cluster = ''''\<rparr>"

text \<open>The messages of an operation that go to one channel, in order.\<close>

fun sotw_messages :: "chan \<Rightarrow> send list \<Rightarrow> Response option list" where
  "sotw_messages ch [] = []"
| "sotw_messages ch (Send c r # sends) =
     (if c = ch then r # sotw_messages ch sends else sotw_messages ch sends)"
| "sotw_messages ch (SendDelta c r # sends) = sotw_messages ch sends"

fun delta_messages :: "chan \<Rightarrow> send list \<Rightarrow> DeltaResponse option list" where
  "delta_messages ch [] = []"
| "delta_messages ch (SendDelta c r # sends) =
     (if c = ch then r # delta_messages ch sends else delta_messages ch sends)"
| "delta_messages ch (Send c r # sends) = delta_messages ch sends"

lemma sotw_messages_append [simp]:
  "sotw_messages ch (xs @ ys) = sotw_messages ch xs @ sotw_messages ch ys"
  by (induction ch xs rule: sotw_messages.induct) simp_all

lemma delta_messages_append [simp]:
  "delta_messages ch (xs @ ys) = delta_messages ch xs @ delta_messages ch ys"
  by (induction ch xs rule: delta_messages.induct) simp_all

end
