(* ===== verification/DeltaServer.thy ===== *)
theory DeltaServer
  imports ServerConfig
begin

text \<open>
  The incremental server (\<open>pkg/server/delta/v3/server.go\<close>, \<open>watches.go\<close>): the loop that serves one
  stream.  All watches of a stream share one buffered channel, which is a queue of the state; the
  caches append to it, the loop takes from it.  The loop is a function of the choice its
  \<open>select\<close> makes.  Handling a request is not one step: the loop empties the channel message by
  message, then cancels the old watch, then creates the new one, and takes the mutex of the cache only
  inside these calls, so the rest of the world may change the cache between any two of them.  The
  state says where in this sequence the loop is.  What the code calls outside the model is in the
  environment: the callbacks decide from the history of the stream (so they may keep state), the gRPC
  stream decides whether a message can be sent.  The calls made are recorded in the trace.
\<close>

section \<open>State\<close>

text \<open>
  \<open>dwt_nilmaps\<close>: the state is the zero value of \<open>stream.StreamState\<close>, whose maps are nil: reading
  them is reading empty maps, writing panics.
\<close>

record 'k delta_watch =
  dwt_cancel :: "'k option"
  dwt_nonce :: string
  dwt_state :: StreamState
  dwt_nilmaps :: bool

definition zero_delta_watch :: "'k delta_watch" where
  "zero_delta_watch =
     \<lparr>dwt_cancel = None, dwt_nonce = '''',
      dwt_state = (NewStreamState False None)\<lparr>ss_first := False\<rparr>, dwt_nilmaps = True\<rparr>"

text \<open>
  A message of the shared channel: an interface value, nil or a response.  \<open>deltaErrorResponse\<close> is
  told apart by its address.
\<close>

datatype delta_message = DeltaErrorResponse | Muxed "DeltaResponse option"

datatype delta_event =
    EvDeltaOpen int64 string
  | EvDeltaRequest int64 DeltaDiscoveryRequest
  | EvDeltaResponse int64 DeltaDiscoveryRequest DeltaDiscoveryResponse
  | EvDeltaSend DeltaDiscoveryResponse
  | EvDeltaClosed int64 Node

record DeltaCallbacks =
  OnDeltaStreamOpen :: "delta_event list \<Rightarrow> int64 \<Rightarrow> string \<Rightarrow> go_error option"
  OnStreamDeltaRequest :: "delta_event list \<Rightarrow> int64 \<Rightarrow> DeltaDiscoveryRequest \<Rightarrow> go_error option"

record ('c, 'k) delta_server =
  dsv_cache :: "('c, 'k) Cache"
  dsv_callbacks :: "DeltaCallbacks option"
  dsv_streamCount :: int64
  dsv_opts :: Opts

definition NewDeltaServer ::
    "('c, 'k) Cache \<Rightarrow> DeltaCallbacks option \<Rightarrow> XDSOption list \<Rightarrow> ('c, 'k) delta_server" where
  "NewDeltaServer config callbacks opts =
     \<lparr>dsv_cache = config, dsv_callbacks = callbacks, dsv_streamCount = 0,
      dsv_opts = fold (\<lambda>opt out. opt out) opts \<lparr>opts_Ordered = False\<rparr>\<rparr>"

text \<open>What is fixed for a stream: the server, the stream's identity, its channel, its \<open>Send\<close>.\<close>

record ('c, 'k) delta_env =
  de_server :: "('c, 'k) delta_server"
  de_lib :: lib
  de_streamID :: int64
  de_typeURL :: string
  de_chan :: chan
  de_send :: "delta_event list \<Rightarrow> DeltaDiscoveryResponse \<Rightarrow> go_error option"

text \<open>
  Where the loop is: in its \<open>select\<close>; in \<open>processAll\<close> for a request; past it, with the request
  accepted and completed; or with the old watch cancelled and the subscriptions of the new one, the
  local variable \<open>watch\<close>, up to date.
\<close>

datatype 'k delta_phase =
    Selecting
  | Draining DeltaDiscoveryRequest
  | Accepted DeltaDiscoveryRequest
  | Rewatching DeltaDiscoveryRequest "'k delta_watch"

record ('c, 'k) delta_stream =
  dst_phase :: "'k delta_phase"
  dst_cache :: 'c
  dst_watches :: "(string, 'k delta_watch) gomap"
  dst_muxed :: "delta_message list"
  dst_nonce :: int64
  dst_node :: Node
  dst_trace :: "delta_event list"

definition new_delta_stream :: "'c \<Rightarrow> ('c, 'k) delta_stream" where
  "new_delta_stream cache =
     \<lparr>dst_phase = Selecting, dst_cache = cache, dst_watches = [], dst_muxed = [], dst_nonce = 0, dst_node = empty_node,
      dst_trace = []\<rparr>"

abbreviation dst_log :: "delta_event list \<Rightarrow> ('c, 'k) delta_stream \<Rightarrow> ('c, 'k) delta_stream" where
  "dst_log es s \<equiv> s\<lparr>dst_trace := dst_trace s @ es\<rparr>"

section \<open>Subscriptions\<close>

fun subscribe :: "string list \<Rightarrow> StreamState \<Rightarrow> StreamState" where
  "subscribe [] s = s"
| "subscribe (resource # resources) s =
     subscribe resources
       (if resource = ''*'' then SetWildcard True s
        else SetSubscribedResourceNames (sadd resource (GetSubscribedResourceNames s)) s)"

fun unsubscribe :: "string list \<Rightarrow> StreamState \<Rightarrow> StreamState" where
  "unsubscribe [] s = s"
| "unsubscribe (resource # resources) s =
     unsubscribe resources
       (if resource = ''*'' then SetWildcard False s
        else let s1 = (if resource \<in> set (GetSubscribedResourceNames s) \<and> IsWildcard s
                       then s\<lparr>ss_resourceVersions := mput resource '''' (GetResourceVersions s)\<rparr> else s)
             in SetSubscribedResourceNames (sdel resource (GetSubscribedResourceNames s1)) s1)"

section \<open>Sending\<close>

text \<open>
  The nonce is written into the response's message; a nil message panics there, after the counter
  moved.  The nonce is returned even when \<open>Send\<close> fails.
\<close>

definition delta_send_response ::
    "('c, 'k) delta_env \<Rightarrow> DeltaResponse option \<Rightarrow> ('c, 'k) delta_stream
       \<Rightarrow> ('c, 'k) delta_stream \<times> string \<times> go_error option" where
  "delta_send_response E resp s =
     (case resp of
        None \<Rightarrow> (s, '''', Some MissingResponse)
      | Some r \<Rightarrow>
          (case fst (dresp_GetDeltaDiscoveryResponse (de_lib E) r) of
             Inl e \<Rightarrow> (s, '''', Some e)
           | Inr message \<Rightarrow>
               (let s = s\<lparr>dst_nonce := dst_nonce s + 1\<rparr> in
                case message of
                  None \<Rightarrow> (s, '''', Some PanicNilDereference)
                | Some response \<Rightarrow>
                    (let response = response\<lparr>dresp_nonce := FormatInt (dst_nonce s)\<rparr>;
                         s = (if dsv_callbacks (de_server E) = None then s
                              else dst_log [EvDeltaResponse (de_streamID E) (dresp_GetDeltaRequest r) response] s);
                         err = de_send E (dst_trace s) response;
                         s = (if err = None then dst_log [EvDeltaSend response] s else s)
                     in (s, dresp_nonce response, err)))))"

definition delta_process ::
    "('c, 'k) delta_env \<Rightarrow> delta_message \<Rightarrow> ('c, 'k) delta_stream
       \<Rightarrow> ('c, 'k) delta_stream \<times> go_error option" where
  "delta_process E msg s =
     (case msg of
        DeltaErrorResponse \<Rightarrow> (s, Some WatchFailed)
      | Muxed None \<Rightarrow> (s, Some PanicNilDereference)
      | Muxed (Some resp) \<Rightarrow>
          (let typ = dreq_type_url (dresp_GetDeltaRequest resp) in
           case delta_send_response E (Some resp) s of
             (s, nonce, Some err) \<Rightarrow> (s, Some err)
           | (s, nonce, None) \<Rightarrow>
               (let watch = mget_or zero_delta_watch (dst_watches s) typ;
                    watch = watch\<lparr>dwt_nonce := nonce,
                                  dwt_state := SetResourceVersions (dresp_GetNextVersionMap resp) (dwt_state watch)\<rparr>
                in (s\<lparr>dst_watches := mput typ watch (dst_watches s)\<rparr>, None))))"

section \<open>Requests\<close>

text \<open>The node of a request is remembered, or filled in.\<close>

definition delta_fill_node ::
    "DeltaDiscoveryRequest \<Rightarrow> ('c, 'k) delta_stream \<Rightarrow> DeltaDiscoveryRequest \<times> ('c, 'k) delta_stream" where
  "delta_fill_node req s =
     (case dreq_node req of
        Some node \<Rightarrow> (req, s\<lparr>dst_node := node\<rparr>)
      | None \<Rightarrow> (req\<lparr>dreq_node := Some (dst_node s)\<rparr>, s))"

definition delta_fill_type :: "string \<Rightarrow> DeltaDiscoveryRequest \<Rightarrow> go_error + DeltaDiscoveryRequest" where
  "delta_fill_type defaultTypeURL req =
     (if defaultTypeURL = AnyType then
        (if dreq_type_url req = '''' then Inl TypeURLRequired else Inr req)
      else if dreq_type_url req = '''' then Inr (req\<lparr>dreq_type_url := defaultTypeURL\<rparr>)
      else Inr req)"

text \<open>\<open>watch.Cancel()\<close>.\<close>

definition delta_watch_Cancel :: "('c, 'k) Cache \<Rightarrow> 'k delta_watch \<Rightarrow> 'c \<Rightarrow> 'c" where
  "delta_watch_Cancel C watch cache =
     (case dwt_cancel watch of None \<Rightarrow> cache | Some k \<Rightarrow> cancel_fn C k cache)"

text \<open>
  The watch of the type, with its subscriptions updated.  The map of initial versions is shared
  between the first request and the stream state, so what \<open>unsubscribe\<close> writes shows in both.
\<close>

definition delta_next_state :: "DeltaDiscoveryRequest \<Rightarrow> StreamState \<Rightarrow> StreamState" where
  "delta_next_state req state =
     unsubscribe (dreq_resource_names_unsubscribe req)
       (subscribe (dreq_resource_names_subscribe req) state)"

definition delta_first_state :: "DeltaDiscoveryRequest \<Rightarrow> StreamState" where
  "delta_first_state req =
     NewStreamState (length (dreq_resource_names_subscribe req) = 0) (dreq_initial_resource_versions req)"

text \<open>A request is taken up.\<close>

definition delta_handle_request ::
    "DeltaDiscoveryRequest option \<Rightarrow> ('c, 'k) delta_stream \<Rightarrow> ('c, 'k) delta_stream \<times> go_error option" where
  "delta_handle_request req s =
     (case req of
        None \<Rightarrow> (s, Some EmptyRequest)
      | Some req \<Rightarrow> (s\<lparr>dst_phase := Draining req\<rparr>, None))"

text \<open>\<open>processAll\<close> found the channel empty: the callback, the node and the type of the request.\<close>

definition delta_accept ::
    "('c, 'k) delta_env \<Rightarrow> DeltaDiscoveryRequest \<Rightarrow> ('c, 'k) delta_stream
       \<Rightarrow> ('c, 'k) delta_stream \<times> go_error option" where
  "delta_accept E req s =
     (let ID = de_streamID E;
          err = (case dsv_callbacks (de_server E) of
                   None \<Rightarrow> None
                 | Some cb \<Rightarrow> OnStreamDeltaRequest cb (dst_trace s) ID req);
          s = (if dsv_callbacks (de_server E) = None then s else dst_log [EvDeltaRequest ID req] s)
      in if err \<noteq> None then (s, err)
         else case delta_fill_node req s of
           (req, s) \<Rightarrow>
             (case delta_fill_type (de_typeURL E) req of
                Inl err \<Rightarrow> (s, Some err)
              | Inr req \<Rightarrow> (s\<lparr>dst_phase := Accepted req\<rparr>, None)))"

text \<open>One turn of \<open>processAll\<close>.\<close>

definition delta_processAll ::
    "('c, 'k) delta_env \<Rightarrow> DeltaDiscoveryRequest \<Rightarrow> ('c, 'k) delta_stream
       \<Rightarrow> ('c, 'k) delta_stream \<times> go_error option" where
  "delta_processAll E req s =
     (case dst_muxed s of
        msg # msgs \<Rightarrow> delta_process E msg (s\<lparr>dst_muxed := msgs\<rparr>)
      | [] \<Rightarrow> delta_accept E req s)"

text \<open>The watch of the type is looked up and cancelled, the subscriptions change.\<close>

definition delta_unwatch ::
    "('c, 'k) delta_env \<Rightarrow> DeltaDiscoveryRequest \<Rightarrow> ('c, 'k) delta_stream
       \<Rightarrow> ('c, 'k) delta_stream \<times> go_error option" where
  "delta_unwatch E req s =
     (let found = mget (dst_watches s) (dreq_type_url req);
          watch = (case found of
                     None \<Rightarrow> zero_delta_watch\<lparr>dwt_state := delta_first_state req, dwt_nilmaps := False\<rparr>
                   | Some watch \<Rightarrow> watch);
          s = (case found of
                 None \<Rightarrow> s
               | Some watch \<Rightarrow>
                   s\<lparr>dst_cache := delta_watch_Cancel (dsv_cache (de_server E)) watch (dst_cache s)\<rparr>)
      in if dwt_nilmaps watch \<and> list_ex (\<lambda>r. r \<noteq> ''*'') (dreq_resource_names_subscribe req)
         then (s, Some PanicNilMap)
         else let watch = watch\<lparr>dwt_state := delta_next_state req (dwt_state watch)\<rparr>;
                  req = (if found = None \<and> dreq_initial_resource_versions req \<noteq> None
                         then req\<lparr>dreq_initial_resource_versions := Some (ss_resourceVersions (dwt_state watch))\<rparr>
                         else req)
              in (s\<lparr>dst_phase := Rewatching req watch\<rparr>, None))"

text \<open>The new watch is created and remembered.\<close>

definition delta_rewatch ::
    "('c, 'k) delta_env \<Rightarrow> DeltaDiscoveryRequest \<Rightarrow> 'k delta_watch \<Rightarrow> ('c, 'k) delta_stream
       \<Rightarrow> ('c, 'k) delta_stream" where
  "delta_rewatch E req watch s =
     (case CreateDeltaWatch (dsv_cache (de_server E)) req (dwt_state watch) (de_chan E) (dst_cache s) of
        (cache, sends, k) \<Rightarrow>
          s\<lparr>dst_phase := Selecting, dst_cache := cache,
            dst_muxed := dst_muxed s @ map Muxed (delta_messages (de_chan E) sends),
            dst_watches := mput (dreq_type_url req) (watch\<lparr>dwt_cancel := k\<rparr>) (dst_watches s)\<rparr>)"

text \<open>The next step of the goroutine while it handles a request.\<close>

definition delta_step ::
    "('c, 'k) delta_env \<Rightarrow> ('c, 'k) delta_stream \<Rightarrow> ('c, 'k) delta_stream \<times> go_error option" where
  "delta_step E s =
     (case dst_phase s of
        Selecting \<Rightarrow> (s, None)
      | Draining req \<Rightarrow> delta_processAll E req s
      | Accepted req \<Rightarrow> delta_unwatch E req s
      | Rewatching req watch \<Rightarrow> (delta_rewatch E req watch s, None))"

section \<open>The loop\<close>

text \<open>
  What the \<open>select\<close> takes: the server's context is done, the next message of the channel, a request,
  the end of the requests.  \<open>InStep\<close> is the next step of a request that is being handled, during which
  the loop takes nothing.  \<open>InCache\<close> is the rest of the world changing the cache, at any time: the
  messages for this stream land in its channel.
\<close>

datatype 'c delta_input =
    InDone
  | InMessage
  | InRequest "DeltaDiscoveryRequest option"
  | InEOF
  | InStep
  | InCache "'c \<Rightarrow> 'c \<times> send list"

text \<open>\<open>None\<close> while the loop goes on, otherwise what it returns.\<close>

definition delta_busy :: "('c, 'k) delta_stream \<Rightarrow> bool" where
  "delta_busy s = (case dst_phase s of Selecting \<Rightarrow> False | _ \<Rightarrow> True)"

definition delta_returns ::
    "('c, 'k) delta_stream \<times> go_error option \<Rightarrow> ('c, 'k) delta_stream \<times> go_error option option" where
  "delta_returns r = (case r of (s, err) \<Rightarrow> (s, map_option Some err))"

fun delta_select ::
    "('c, 'k) delta_env \<Rightarrow> 'c delta_input \<Rightarrow> ('c, 'k) delta_stream
       \<Rightarrow> ('c, 'k) delta_stream \<times> go_error option option" where
  "delta_select E InDone s = (if delta_busy s then (s, None) else (s, Some None))"
| "delta_select E InMessage s =
     (if delta_busy s then (s, None)
      else case dst_muxed s of
        [] \<Rightarrow> (s, None)
      | msg # msgs \<Rightarrow> delta_returns (delta_process E msg (s\<lparr>dst_muxed := msgs\<rparr>)))"
| "delta_select E (InRequest req) s =
     (if delta_busy s then (s, None) else delta_returns (delta_handle_request req s))"
| "delta_select E InEOF s = (if delta_busy s then (s, None) else (s, Some None))"
| "delta_select E InStep s = delta_returns (delta_step E s)"
| "delta_select E (InCache f) s =
     (case f (dst_cache s) of
        (cache, sends) \<Rightarrow>
          (s\<lparr>dst_cache := cache,
             dst_muxed := dst_muxed s @ map Muxed (delta_messages (de_chan E) sends)\<rparr>, None))"

fun delta_loop ::
    "('c, 'k) delta_env \<Rightarrow> 'c delta_input list \<Rightarrow> ('c, 'k) delta_stream
       \<Rightarrow> ('c, 'k) delta_stream \<times> go_error option option" where
  "delta_loop E [] s = (s, None)"
| "delta_loop E (i # is) s =
     (case delta_select E i s of
        (s, Some r) \<Rightarrow> (s, Some r)
      | (s, None) \<Rightarrow> delta_loop E is s)"

text \<open>The deferred function: cancel all watches, close the channel, tell the callbacks.\<close>

definition delta_watches_Cancel ::
    "('c, 'k) Cache \<Rightarrow> (string, 'k delta_watch) gomap \<Rightarrow> 'c \<Rightarrow> 'c" where
  "delta_watches_Cancel C ws cache = fold (\<lambda>(typ, watch). delta_watch_Cancel C watch) ws cache"

definition delta_shutdown :: "('c, 'k) delta_env \<Rightarrow> ('c, 'k) delta_stream \<Rightarrow> ('c, 'k) delta_stream" where
  "delta_shutdown E s =
     (let s = s\<lparr>dst_cache := delta_watches_Cancel (dsv_cache (de_server E)) (dst_watches s) (dst_cache s)\<rparr>
      in if dsv_callbacks (de_server E) = None then s
         else dst_log [EvDeltaClosed (de_streamID E) (dst_node s)] s)"

definition delta_open ::
    "('c, 'k) delta_env \<Rightarrow> 'c \<Rightarrow> ('c, 'k) delta_stream \<times> go_error option" where
  "delta_open E cache =
     (let s = new_delta_stream cache in
      case dsv_callbacks (de_server E) of
        None \<Rightarrow> (s, None)
      | Some cb \<Rightarrow>
          (dst_log [EvDeltaOpen (de_streamID E) (de_typeURL E)] s,
           OnDeltaStreamOpen cb (dst_trace s) (de_streamID E) (de_typeURL E)))"

definition processDelta ::
    "('c, 'k) delta_env \<Rightarrow> 'c \<Rightarrow> 'c delta_input list
       \<Rightarrow> ('c, 'k) delta_stream \<times> go_error option option" where
  "processDelta E cache inputs =
     (case delta_open E cache of
        (s, Some err) \<Rightarrow> (delta_shutdown E s, Some (Some err))
      | (s, None) \<Rightarrow>
          (case delta_loop E inputs s of
             (s, None) \<Rightarrow> (s, None)
           | (s, Some r) \<Rightarrow> (delta_shutdown E s, Some r)))"

text \<open>
  \<open>DeltaStreamHandler\<close>: a routine forwards what \<open>Recv\<close> returns until it fails, then closes the
  channel of requests.  A choice of the \<open>select\<close> that takes a request takes the next of them, which
  waits in the meantime: while the loop handles a request there is nothing to choose, it goes on with
  its next step.
\<close>

datatype 'c delta_choice = ChDone | ChMessage | ChRequest | is_ChCache: ChCache "'c \<Rightarrow> 'c \<times> send list"

fun delta_take ::
    "'c delta_choice \<Rightarrow> (go_error + DeltaDiscoveryRequest option) list
       \<Rightarrow> 'c delta_input \<times> (go_error + DeltaDiscoveryRequest option) list" where
  "delta_take ChDone recvs = (InDone, recvs)"
| "delta_take ChMessage recvs = (InMessage, recvs)"
| "delta_take (ChCache f) recvs = (InCache f, recvs)"
| "delta_take ChRequest (Inr req # recvs) = (InRequest req, recvs)"
| "delta_take ChRequest recvs = (InEOF, [])"

fun delta_feed ::
    "('c, 'k) delta_env \<Rightarrow> 'c delta_choice list \<Rightarrow> (go_error + DeltaDiscoveryRequest option) list
       \<Rightarrow> ('c, 'k) delta_stream \<Rightarrow> 'c delta_input list" where
  "delta_feed E [] recvs s = []"
| "delta_feed E (choice # cs) recvs s =
     (case (if delta_busy s \<and> \<not> is_ChCache choice then (InStep, recvs) else delta_take choice recvs) of
        (i, recvs) \<Rightarrow> i # delta_feed E cs recvs (fst (delta_select E i s)))"

definition DeltaStreamHandler ::
    "lib \<Rightarrow> ('c, 'k) delta_server \<Rightarrow> string \<Rightarrow> chan \<Rightarrow> (delta_event list \<Rightarrow> DeltaDiscoveryResponse \<Rightarrow> go_error option)
       \<Rightarrow> (go_error + DeltaDiscoveryRequest option) list \<Rightarrow> 'c delta_choice list \<Rightarrow> 'c
       \<Rightarrow> ('c, 'k) delta_server \<times> ('c, 'k) delta_stream \<times> go_error option option" where
  "DeltaStreamHandler L server typeURL ch str_Send recvs choices cache =
     (let server = server\<lparr>dsv_streamCount := dsv_streamCount server + 1\<rparr>;
          E = \<lparr>de_server = server, de_lib = L, de_streamID = dsv_streamCount server,
               de_typeURL = typeURL, de_chan = ch, de_send = str_Send\<rparr>
      in (server, processDelta E cache (delta_feed E choices recvs (fst (delta_open E cache)))))"

end
