(* ===== verification/DeltaServerFacts.thy ===== *)
theory DeltaServerFacts
  imports DeltaServer
begin

text \<open>
  The incremental server over a cache that keeps its promises.  The promises are the locale
  \<open>delta_cache\<close>, which extends \<open>delta_source\<close> by the watches a cache keeps open; both caches are
  interpretations of it.  Under it, an invariant of the stream ties together what the client holds,
  what the server recorded and what the cache keeps.
\<close>

section \<open>Subscriptions\<close>

lemma IsWildcard_subscribe [simp]:
  "IsWildcard (subscribe rs s) \<longleftrightarrow> IsWildcard s \<or> ''*'' \<in> set rs"
  by (induction rs s rule: subscribe.induct) (auto simp: stream_state_defs)

lemma set_subscribe [simp]:
  "set (ss_subscribedResourceNames (subscribe rs s)) =
     set (ss_subscribedResourceNames s) \<union> (set rs - {''*''})"
  by (induction rs s rule: subscribe.induct) (auto simp: stream_state_defs)

lemma versions_subscribe [simp]:
  "ss_resourceVersions (subscribe rs s) = ss_resourceVersions s"
  "ss_first (subscribe rs s) = ss_first s"
  by (induction rs s rule: subscribe.induct) (auto simp: stream_state_defs)

lemma IsWildcard_unsubscribe [simp]:
  "IsWildcard (unsubscribe rs s) \<longleftrightarrow> IsWildcard s \<and> ''*'' \<notin> set rs"
  by (induction rs s rule: unsubscribe.induct) (auto simp: stream_state_defs)

lemma set_unsubscribe [simp]:
  "set (ss_subscribedResourceNames (unsubscribe rs s)) =
     set (ss_subscribedResourceNames s) - (set rs - {''*''})"
  by (induction rs s rule: unsubscribe.induct) (auto simp: stream_state_defs Let_def)

lemma first_unsubscribe [simp]: "ss_first (unsubscribe rs s) = ss_first s"
  by (induction rs s rule: unsubscribe.induct) (auto simp: stream_state_defs Let_def)

text \<open>
  The recorded versions change only for names that are unsubscribed while they are subscribed and
  the stream is a wildcard, that is before \<open>"*"\<close> itself is unsubscribed: these get the empty version.
\<close>

lemma mget_versions_unsubscribe:
  "mget (ss_resourceVersions (unsubscribe rs s)) n =
     (if IsWildcard s \<and> n \<noteq> ''*'' \<and> n \<in> set (ss_subscribedResourceNames s)
           \<and> n \<in> set (takeWhile (\<lambda>r. r \<noteq> ''*'') rs)
      then Some '''' else mget (ss_resourceVersions s) n)"
  by (induction rs s rule: unsubscribe.induct) (auto simp: stream_state_defs Let_def mget_put)

lemma in_scope_next_state:
  "in_scope (delta_next_state req st) n \<longleftrightarrow>
     (IsWildcard st \<or> ''*'' \<in> set (dreq_resource_names_subscribe req))
        \<and> ''*'' \<notin> set (dreq_resource_names_unsubscribe req)
     \<or> (n \<in> set (ss_subscribedResourceNames st) \<or> n \<noteq> ''*'' \<and> n \<in> set (dreq_resource_names_subscribe req))
        \<and> (n = ''*'' \<or> n \<notin> set (dreq_resource_names_unsubscribe req))"
  by (auto simp: in_scope_def delta_next_state_def)

text \<open>What the server records of a name agrees with what the client holds.\<close>

definition agrees :: "StreamState \<Rightarrow> (string \<rightharpoonup> string) \<Rightarrow> string \<Rightarrow> bool" where
  "agrees st cl n \<longleftrightarrow>
     (case mget (ss_resourceVersions st) n of None \<Rightarrow> cl n = None | Some v \<Rightarrow> v = '''' \<or> cl n = Some v)"

lemma tracks_iff_agrees: "tracks st cl \<longleftrightarrow> (\<forall>n. in_scope st n \<longrightarrow> agrees st cl n)"
  by (simp add: tracks_def agrees_def)

lemma agrees_next_state: "agrees st cl n \<Longrightarrow> agrees (delta_next_state req st) cl n"
  by (simp add: agrees_def delta_next_state_def mget_versions_unsubscribe)

text \<open>A request whose new names the client and the server agree on.\<close>

definition request_agrees :: "DeltaDiscoveryRequest \<Rightarrow> 'k delta_watch option \<Rightarrow> (string \<rightharpoonup> string) \<Rightarrow> bool" where
  "request_agrees req found cl \<longleftrightarrow>
     (case found of
        None \<Rightarrow> (\<forall>n. in_scope (delta_next_state req (delta_first_state req)) n \<longrightarrow>
                   agrees (delta_first_state req) cl n)
      | Some w \<Rightarrow> (\<forall>n. in_scope (delta_next_state req (dwt_state w)) n \<and> \<not> in_scope (dwt_state w) n \<longrightarrow>
                   agrees (dwt_state w) cl n))"

lemma tracks_next_state:
  assumes "tracks (dwt_state w) cl" and "request_agrees req (Some w) cl"
  shows "tracks (delta_next_state req (dwt_state w)) cl"
  using assms agrees_next_state unfolding tracks_iff_agrees request_agrees_def by auto

lemma tracks_first_state:
  assumes "request_agrees req None cl"
  shows "tracks (delta_next_state req (delta_first_state req)) cl"
  using assms agrees_next_state unfolding tracks_iff_agrees request_agrees_def by auto

section \<open>Clients and reachable streams\<close>

text \<open>One client, one collection of versions per type: it applies what the stream sends.\<close>

type_synonym client = "string \<Rightarrow> string \<rightharpoonup> string"

fun client_event :: "delta_event \<Rightarrow> client \<Rightarrow> client" where
  "client_event (EvDeltaSend m) cl = cl(dresp_type_url m := client_apply m (cl (dresp_type_url m)))"
| "client_event _ cl = cl"

definition client_of :: "client \<Rightarrow> delta_event list \<Rightarrow> client" where
  "client_of cl0 trace = fold client_event trace cl0"

lemma client_of_append [simp]: "client_of cl0 (es @ fs) = client_of (client_of cl0 es) fs"
  by (simp add: client_of_def)

lemma client_of_Nil [simp]: "client_of cl0 [] = cl0"
  by (simp add: client_of_def)

lemma client_of_Cons [simp]: "client_of cl0 (e # es) = client_of (client_event e cl0) es"
  by (simp add: client_of_def)

fun msg_type :: "delta_message \<Rightarrow> string" where
  "msg_type (Muxed (Some resp)) = dreq_type_url (dresp_GetDeltaRequest resp)"
| "msg_type _ = ''''"

text \<open>
  The states a stream runs through, from the client's first view \<open>cl0\<close> on: the loop takes its own
  steps, and at any time the rest of the world (\<open>others\<close>) changes the cache.  A run is careful when
  an accepted request adds only names that the client and the server agree on, and while a request
  is accepted, that is between \<open>processAll\<close> finding the channel empty and \<open>Cancel\<close>, nobody makes the
  cache answer the watch that is about to be cancelled.
\<close>

definition accepted_agrees :: "client \<Rightarrow> ('c, 'k) delta_stream \<Rightarrow> bool" where
  "accepted_agrees cl s \<longleftrightarrow>
     (\<forall>req. dst_phase s = Accepted req \<longrightarrow>
        request_agrees req (mget (dst_watches s) (dreq_type_url req)) (cl (dreq_type_url req)))"

definition accepted_unanswered :: "chan \<Rightarrow> send list \<Rightarrow> ('c, 'k) delta_stream \<Rightarrow> bool" where
  "accepted_unanswered ch sends s \<longleftrightarrow>
     (\<forall>req. dst_phase s = Accepted req \<longrightarrow>
        dreq_type_url req \<notin> msg_type ` set (map Muxed (delta_messages ch sends)))"

inductive delta_reach ::
    "bool \<Rightarrow> ('c \<Rightarrow> bool) \<Rightarrow> (chan \<Rightarrow> 'c \<Rightarrow> 'c \<Rightarrow> send list \<Rightarrow> bool) \<Rightarrow> ('c, 'k) delta_env \<Rightarrow> client
       \<Rightarrow> ('c, 'k) delta_stream \<Rightarrow> bool"
  for careful starts others E cl0 where
  init: "starts c \<Longrightarrow> delta_open E c = (s, None) \<Longrightarrow> delta_reach careful starts others E cl0 s"
| own: "delta_reach careful starts others E cl0 s \<Longrightarrow> i \<in> {InMessage, InRequest req, InStep}
     \<Longrightarrow> (careful \<Longrightarrow> accepted_agrees (client_of cl0 (dst_trace s)) s)
     \<Longrightarrow> delta_select E i s = (s', None)
     \<Longrightarrow> delta_reach careful starts others E cl0 s'"
| others: "delta_reach careful starts others E cl0 s \<Longrightarrow> others (de_chan E) (dst_cache s) c' sends
     \<Longrightarrow> (careful \<Longrightarrow> accepted_unanswered (de_chan E) sends s)
     \<Longrightarrow> delta_select E (InCache (\<lambda>_. (c', sends))) s = (s', None)
     \<Longrightarrow> delta_reach careful starts others E cl0 s'"

lemma delta_reach_careless:
  "delta_reach careful starts others E cl0 s \<Longrightarrow> delta_reach False starts others E cl0 s"
  by (induction rule: delta_reach.induct) (blast intro: delta_reach.intros)+

text \<open>A step of the loop is one of these.\<close>

lemma delta_returns_None [simp]:
  "delta_returns r = (s, None) \<longleftrightarrow> r = (s, None)"
  by (cases r) (auto simp: delta_returns_def)

lemma delta_busy_iff: "delta_busy s \<longleftrightarrow> dst_phase s \<noteq> Selecting"
  by (cases "dst_phase s") (simp_all add: delta_busy_def)

lemma delta_own_cases:
  assumes "delta_select E i s = (s', None)" and "i \<in> {InMessage, InRequest req, InStep}"
  obtains (nothing) "s' = s"
    | (process) m msgs where "dst_muxed s = m # msgs" "delta_process E m (s\<lparr>dst_muxed := msgs\<rparr>) = (s', None)"
        "\<not> (\<exists>req. dst_phase s = Accepted req)" "\<not> (\<exists>req w. dst_phase s = Rewatching req w)"
    | (request) req where "dst_phase s = Selecting" "s' = s\<lparr>dst_phase := Draining req\<rparr>"
    | (accept) req where "dst_phase s = Draining req" "dst_muxed s = []" "delta_accept E req s = (s', None)"
    | (unwatch) req where "dst_phase s = Accepted req" "delta_unwatch E req s = (s', None)"
    | (rewatch) req w where "dst_phase s = Rewatching req w" "s' = delta_rewatch E req w s"
proof (cases "s' = s"; cases "delta_busy s")
  assume "s' \<noteq> s" and False: "\<not> delta_busy s"
  then have "dst_phase s = Selecting" by (simp add: delta_busy_iff)
  with assms False \<open>s' \<noteq> s\<close> process request show thesis
    by (auto simp: delta_step_def delta_handle_request_def split: list.splits option.splits)
next
  assume "s' \<noteq> s" and True: "delta_busy s"
  show thesis
  proof (cases "i = InStep")
    case True
    with assms(1) have "delta_step E s = (s', None)" by simp
    then show thesis
      using process accept unwatch rewatch \<open>s' \<noteq> s\<close>
      by (cases "dst_phase s") (auto simp: delta_step_def delta_processAll_def split: list.splits)
  qed (use assms True \<open>s' \<noteq> s\<close> in auto)
qed (rule nothing, assumption)+

text \<open>The part of a request before the watch is touched leaves only the trace and the node behind.\<close>

lemma delta_accept_cases:
  assumes "delta_accept E req s = (s', None)"
  obtains es node req' where "s' = s\<lparr>dst_trace := dst_trace s @ es, dst_node := node, dst_phase := Accepted req'\<rparr>"
    and "\<And>cl. client_of cl es = cl" and "delta_fill_type (de_typeURL E) (req\<lparr>dreq_node := Some node\<rparr>) = Inr req'"
proof -
  define es where "es = (if dsv_callbacks (de_server E) = None then [] else [EvDeltaRequest (de_streamID E) req])"
  define node where "node = (case dreq_node req of None \<Rightarrow> dst_node s | Some n \<Rightarrow> n)"
  let ?s1 = "s\<lparr>dst_trace := dst_trace s @ es\<rparr>"
  have s1: "(if dsv_callbacks (de_server E) = None then s
      else s\<lparr>dst_trace := dst_trace s @ [EvDeltaRequest (de_streamID E) req]\<rparr>) = ?s1"
    by (simp add: es_def)
  have fill: "delta_fill_node req ?s1 = (req\<lparr>dreq_node := Some node\<rparr>, ?s1\<lparr>dst_node := node\<rparr>)"
    by (cases req; cases s) (simp add: delta_fill_node_def node_def split: option.split)
  from assms obtain req' where "delta_fill_type (de_typeURL E) (req\<lparr>dreq_node := Some node\<rparr>) = Inr req'"
    and "s' = ?s1\<lparr>dst_node := node, dst_phase := Accepted req'\<rparr>"
    by (auto simp: delta_accept_def Let_def s1 fill split: if_splits sum.splits)
  moreover have "client_of cl es = cl" for cl by (simp add: es_def)
  ultimately show thesis by (intro that [where es = es and node = node and req' = req']) simp_all
qed

lemma delta_open_cases:
  assumes "delta_open E c = (s, None)"
  obtains es where "s = (new_delta_stream c)\<lparr>dst_trace := es\<rparr>" and "\<And>cl. client_of cl es = cl"
proof (cases "dsv_callbacks (de_server E)")
  case None
  with assms have s: "s = new_delta_stream c" by (simp add: delta_open_def Let_def)
  show thesis by (rule that [of "[]"]) (simp_all add: s new_delta_stream_def)
next
  case (Some cb)
  with assms that [of "[EvDeltaOpen (de_streamID E) (de_typeURL E)]"] show thesis
    by (simp add: delta_open_def Let_def new_delta_stream_def)
qed

text \<open>What the steps of the loop leave alone, whether they fail or not.\<close>

lemma delta_process_frame:
  assumes "delta_process E m s = (s', e)"
  shows "dst_cache s' = dst_cache s \<and> dst_muxed s' = dst_muxed s \<and> dst_phase s' = dst_phase s \<and>
    (\<forall>t w. mget (dst_watches s) t = Some w \<longrightarrow>
       (\<exists>w'. mget (dst_watches s') t = Some w' \<and> dwt_cancel w' = dwt_cancel w))"
  using assms
  by (auto simp: delta_process_def delta_send_response_def Let_def mget_put mget_or_def
      split: delta_message.splits option.splits sum.splits if_splits prod.splits)

lemma delta_accept_frame:
  assumes "delta_accept E req s = (s', e)"
  shows "dst_cache s' = dst_cache s \<and> dst_muxed s' = dst_muxed s \<and> dst_watches s' = dst_watches s \<and>
    (dst_phase s' = dst_phase s \<or> (\<exists>req'. dst_phase s' = Accepted req'))"
  using assms
  by (auto simp: delta_accept_def Let_def delta_fill_node_def split: option.splits sum.splits if_splits)

lemma delta_unwatch_frame:
  assumes "delta_unwatch E req s = (s', e)"
  shows "dst_cache s' = (case mget (dst_watches s) (dreq_type_url req) of None \<Rightarrow> dst_cache s
       | Some w \<Rightarrow> (case dwt_cancel w of None \<Rightarrow> dst_cache s
            | Some i \<Rightarrow> cancel_fn (dsv_cache (de_server E)) i (dst_cache s))) \<and>
    dst_muxed s' = dst_muxed s \<and> dst_watches s' = dst_watches s \<and>
    (if e = None then \<exists>req' w. dst_phase s' = Rewatching req' w \<and> dreq_type_url req' = dreq_type_url req
     else dst_phase s' = dst_phase s)"
  using assms
  by (auto simp: delta_unwatch_def Let_def delta_watch_Cancel_def split: option.splits if_splits)

text \<open>The request is handled without a change of the cache in between, the channel being empty.\<close>

definition delta_handled :: "DeltaDiscoveryRequest \<Rightarrow> 'c delta_input list" where
  "delta_handled req = [InRequest (Some req), InStep, InStep, InStep]"

lemma delta_loop_step:
  "delta_loop E (i # is) s = (s', None) \<longleftrightarrow> (\<exists>s1. delta_select E i s = (s1, None) \<and> delta_loop E is s1 = (s', None))"
  by (auto split: prod.splits option.splits)

lemma delta_loop_append:
  "delta_loop E (is @ js) s = (s', None) \<longleftrightarrow> (\<exists>s1. delta_loop E is s = (s1, None) \<and> delta_loop E js s1 = (s', None))"
  by (induction "is" arbitrary: s) (auto split: prod.splits option.splits)

lemma delta_handled_cases:
  assumes sel: "dst_phase s = Selecting" and empty: "dst_muxed s = []"
    and fill: "delta_fill_type (de_typeURL E) req = Inr req1"
    and run: "delta_loop E (delta_handled req) s = (s', None)"
  obtains es node sA sR req2 w where
    "sA = s\<lparr>dst_trace := dst_trace s @ es, dst_node := node, dst_phase := Accepted (req1\<lparr>dreq_node := Some node\<rparr>)\<rparr>"
    and "\<And>cl. client_of cl es = cl"
    and "delta_unwatch E (req1\<lparr>dreq_node := Some node\<rparr>) sA = (sR, None)" and "dst_phase sR = Rewatching req2 w"
    and "dreq_type_url req2 = dreq_type_url req1" and "s' = delta_rewatch E req2 w sR"
    and "delta_select E (InRequest (Some req)) s = (s\<lparr>dst_phase := Draining req\<rparr>, None)"
    and "delta_select E InStep (s\<lparr>dst_phase := Draining req\<rparr>) = (sA, None)"
    and "delta_select E InStep sA = (sR, None)" and "delta_select E InStep sR = (s', None)"
proof -
  let ?sD = "s\<lparr>dst_phase := Draining req\<rparr>"
  have d: "delta_select E (InRequest (Some req)) s = (?sD, None)"
    using sel by (simp add: delta_busy_iff delta_handle_request_def)
  with run obtain sA sR where a: "delta_select E InStep ?sD = (sA, None)"
    and r: "delta_select E InStep sA = (sR, None)" and c: "delta_select E InStep sR = (s', None)"
    unfolding delta_handled_def delta_loop_step by auto
  from a empty have "delta_accept E req ?sD = (sA, None)" by (simp add: delta_step_def delta_processAll_def)
  then obtain es node req' where sA: "sA = ?sD\<lparr>dst_trace := dst_trace ?sD @ es, dst_node := node, dst_phase := Accepted req'\<rparr>"
    and es: "\<And>cl. client_of cl es = cl" and ty: "delta_fill_type (de_typeURL E) (req\<lparr>dreq_node := Some node\<rparr>) = Inr req'"
    by (rule delta_accept_cases) (rule that)
  have req': "req' = req1\<lparr>dreq_node := Some node\<rparr>"
    using fill ty by (auto simp: delta_fill_type_def split: if_splits)
  from r have un: "delta_unwatch E req' sA = (sR, None)" by (simp add: delta_step_def sA)
  with delta_unwatch_frame [OF un] obtain req2 w where re: "dst_phase sR = Rewatching req2 w"
    and ty2: "dreq_type_url req2 = dreq_type_url req'" by auto
  from c re have "s' = delta_rewatch E req2 w sR" by (simp add: delta_step_def)
  then show thesis
    using that [where sA = sA and es = es and node = node and sR = sR and ?req2.0 = req2 and w = w] sA es un re ty2 d a r c by (simp add: req')
qed

lemma delta_handled_reach:
  assumes reach: "delta_reach careful starts others E cl0 s"
    and sel: "dst_phase s = Selecting" and empty: "dst_muxed s = []"
    and fill: "delta_fill_type (de_typeURL E) req = Inr req1"
    and agrees: "request_agrees req1 (mget (dst_watches s) (dreq_type_url req1))
      (client_of cl0 (dst_trace s) (dreq_type_url req1))"
    and run: "delta_loop E (delta_handled req) s = (s', None)"
  obtains es node sA sR req2 w where
    "sA = s\<lparr>dst_trace := dst_trace s @ es, dst_node := node, dst_phase := Accepted (req1\<lparr>dreq_node := Some node\<rparr>)\<rparr>"
    and "\<And>cl. client_of cl es = cl"
    and "delta_unwatch E (req1\<lparr>dreq_node := Some node\<rparr>) sA = (sR, None)" and "dst_phase sR = Rewatching req2 w"
    and "dreq_type_url req2 = dreq_type_url req1" and "s' = delta_rewatch E req2 w sR"
    and "delta_reach careful starts others E cl0 sA" and "delta_reach careful starts others E cl0 sR"
    and "delta_reach careful starts others E cl0 s'"
proof (rule delta_handled_cases [OF sel empty fill run])
  fix es node sA sR req2 w
  let ?req = "req1\<lparr>dreq_node := Some node\<rparr>"
  assume sA: "sA = s\<lparr>dst_trace := dst_trace s @ es, dst_node := node, dst_phase := Accepted ?req\<rparr>"
    and es: "\<And>cl. client_of cl es = cl"
    and un: "delta_unwatch E ?req sA = (sR, None)" and re: "dst_phase sR = Rewatching req2 w"
    and rest: "dreq_type_url req2 = dreq_type_url req1" "s' = delta_rewatch E req2 w sR"
    and step: "delta_select E (InRequest (Some req)) s = (s\<lparr>dst_phase := Draining req\<rparr>, None)"
      "delta_select E InStep (s\<lparr>dst_phase := Draining req\<rparr>) = (sA, None)"
      "delta_select E InStep sA = (sR, None)" "delta_select E InStep sR = (s', None)"
  have same: "delta_next_state ?req = delta_next_state req1" "delta_first_state ?req = delta_first_state req1"
    by (simp_all add: fun_eq_iff delta_next_state_def delta_first_state_def)
  have quiet: "accepted_agrees cl x" if "\<And>req. dst_phase x \<noteq> Accepted req" for cl and x :: "('a, 'b) delta_stream"
    using that by (simp add: accepted_agrees_def)
  have "accepted_agrees (client_of cl0 (dst_trace sA)) sA"
    using agrees unfolding accepted_agrees_def request_agrees_def sA by (simp add: es same split: option.splits)
  moreover have "delta_reach careful starts others E cl0 (s\<lparr>dst_phase := Draining req\<rparr>)"
    by (rule delta_reach.own [OF reach _ quiet step(1)]) (simp_all add: sel)
  then have A: "delta_reach careful starts others E cl0 sA"
    by (rule delta_reach.own [OF _ _ quiet step(2)]) simp_all
  ultimately have R: "delta_reach careful starts others E cl0 sR"
    by (intro delta_reach.own [OF A _ _ step(3)]) simp_all
  have "delta_reach careful starts others E cl0 s'"
    by (rule delta_reach.own [OF R _ quiet step(4)]) (simp_all add: re)
  with A R sA es un re rest show thesis by (intro that [where sA = sA and es = es and node = node and sR = sR and ?req2.0 = req2 and w = w])
qed

section \<open>The contract of a cache with open watches\<close>

text \<open>A message is an answer to a watch: the difference to what the cache shows for its request.\<close>

definition answers ::
    "(DeltaDiscoveryRequest \<Rightarrow> 'c \<Rightarrow> resourceContainer option) \<Rightarrow> 'c \<Rightarrow> DeltaResponseWatch
       \<Rightarrow> DeltaResponse option \<Rightarrow> bool" where
  "answers view c w m \<longleftrightarrow>
     (\<exists>ctx r. view (dw_Request w) c = Some r \<and>
        m = Some (RawDelta (createDeltaResponse ctx (dw_Request w) (dw_StreamState w) r)))"

text \<open>
  \<open>parked k\<close> is the open watch that the cancel function \<open>k\<close> would remove.  \<open>others ch c c' sends\<close> is
  what the rest of the world may do to the cache: every message it sends to \<open>ch\<close> answers a watch
  that was open and is not any more, at most one for a watch, and it opens no watch on \<open>ch\<close>.
\<close>

locale delta_cache = delta_source L inv view create
  for L :: lib
    and inv :: "'c \<Rightarrow> bool"
    and view :: "DeltaDiscoveryRequest \<Rightarrow> 'c \<Rightarrow> resourceContainer option"
    and create :: "DeltaDiscoveryRequest \<Rightarrow> StreamState \<Rightarrow> chan \<Rightarrow> 'c \<Rightarrow> 'c \<times> send list \<times> 'k option" +
  fixes cancel :: "'k \<Rightarrow> 'c \<Rightarrow> 'c"
    and parked :: "'k \<Rightarrow> 'c \<Rightarrow> DeltaResponseWatch option"
    and others :: "chan \<Rightarrow> 'c \<Rightarrow> 'c \<Rightarrow> send list \<Rightarrow> bool"
  assumes create_answered: "inv c \<Longrightarrow> create req st ch c = (c', sends, k) \<Longrightarrow> sends \<noteq> [] \<Longrightarrow>
      view req c' \<noteq> None \<and> k = None"
    and create_parks: "inv c \<Longrightarrow> create req st ch c = (c', sends, k) \<Longrightarrow> sends = [] \<Longrightarrow>
      \<exists>i. k = Some i \<and> parked i c' = Some \<lparr>dw_Request = req, dw_Response = ch, dw_StreamState = st\<rparr>"
    and create_keeps: "inv c \<Longrightarrow> create req st ch c = (c', sends, k) \<Longrightarrow> k \<noteq> Some i \<Longrightarrow>
      parked i c' = parked i c"
    and cancel_inv: "inv c \<Longrightarrow> inv (cancel i c)"
    and cancel_parked: "inv c \<Longrightarrow> parked j (cancel i c) = (if i = j then None else parked j c)"
    and parked_current: "inv c \<Longrightarrow> parked i c = Some w \<Longrightarrow> view (dw_Request w) c = Some r \<Longrightarrow>
      up_to_date (dw_StreamState w) r"
    and others_inv: "inv c \<Longrightarrow> others ch c c' sends \<Longrightarrow> inv c'"
    and others_serve: "inv c \<Longrightarrow> others ch c c' sends \<Longrightarrow>
      \<exists>ks. distinct ks \<and>
        list_all2 (\<lambda>k m. \<exists>w. parked k c = Some w \<and> dw_Response w = ch \<and> answers view c' w m)
          ks (delta_messages ch sends) \<and>
        (\<forall>k w. parked k c' = Some w \<and> dw_Response w = ch \<longrightarrow> parked k c = Some w \<and> k \<notin> set ks)"

section \<open>The invariant of a stream\<close>

text \<open>A message in the channel was computed for the state its watch still has.\<close>

definition in_flight :: "lib \<Rightarrow> 'k delta_watch \<Rightarrow> delta_message \<Rightarrow> bool" where
  "in_flight L w m \<longleftrightarrow>
     (\<exists>ctx req r. m = Muxed (Some (RawDelta (createDeltaResponse ctx req (dwt_state w) r))) \<and> versions_ok L r)"

text \<open>
  Every message belongs to a watch, no type has two; the server's record of every type tracks the
  client; what the cache keeps open for this stream is the current watch of a type that has no
  message under way.
\<close>

definition stream_ok ::
    "lib \<Rightarrow> ('k \<Rightarrow> 'c \<Rightarrow> DeltaResponseWatch option) \<Rightarrow> chan \<Rightarrow> client \<Rightarrow> ('c, 'k) delta_stream \<Rightarrow> bool" where
  "stream_ok L parked ch cl s \<longleftrightarrow>
     distinct (map msg_type (dst_muxed s)) \<and>
     (\<forall>m \<in> set (dst_muxed s). \<exists>w. mget (dst_watches s) (msg_type m) = Some w \<and> in_flight L w m) \<and>
     (\<forall>typ w. mget (dst_watches s) typ = Some w \<longrightarrow> tracks (dwt_state w) (cl typ) \<and> \<not> dwt_nilmaps w) \<and>
     (\<forall>k rw. parked k (dst_cache s) = Some rw \<and> dw_Response rw = ch \<longrightarrow>
        (\<exists>w. mget (dst_watches s) (dreq_type_url (dw_Request rw)) = Some w \<and> dwt_cancel w = Some k \<and>
           dw_StreamState rw = dwt_state w \<and> dreq_type_url (dw_Request rw) \<notin> msg_type ` set (dst_muxed s)))"

text \<open>
  While a request is accepted there is no message of its type; once the old watch is cancelled there
  is no open watch of it either, and the new state tracks the client.
\<close>

definition phase_ok :: "('k \<Rightarrow> 'c \<Rightarrow> DeltaResponseWatch option) \<Rightarrow> chan \<Rightarrow> client \<Rightarrow> ('c, 'k) delta_stream \<Rightarrow> bool" where
  "phase_ok parked ch cl s \<longleftrightarrow>
     (\<forall>req. dst_phase s = Accepted req \<longrightarrow> dreq_type_url req \<notin> msg_type ` set (dst_muxed s)) \<and>
     (\<forall>req w. dst_phase s = Rewatching req w \<longrightarrow>
        dreq_type_url req \<notin> msg_type ` set (dst_muxed s) \<and>
        tracks (dwt_state w) (cl (dreq_type_url req)) \<and> \<not> dwt_nilmaps w \<and>
        (\<forall>k rw. parked k (dst_cache s) = Some rw \<and> dw_Response rw = ch \<longrightarrow>
           dreq_type_url (dw_Request rw) \<noteq> dreq_type_url req))"

lemma stream_ok_trace [simp]:
  "stream_ok L parked ch cl (s\<lparr>dst_phase := ph\<rparr>) = stream_ok L parked ch cl s"
  "stream_ok L parked ch cl (s\<lparr>dst_trace := es\<rparr>) = stream_ok L parked ch cl s"
  "stream_ok L parked ch cl (s\<lparr>dst_node := n\<rparr>) = stream_ok L parked ch cl s"
  by (simp_all add: stream_ok_def)

lemma stream_ok_parkedD:
  assumes "stream_ok L parked ch cl s" and "parked k (dst_cache s) = Some rw" and "dw_Response rw = ch"
    and "dreq_type_url (dw_Request rw) = t"
  shows "\<exists>w. mget (dst_watches s) t = Some w \<and> dwt_cancel w = Some k \<and> dw_StreamState rw = dwt_state w \<and>
    \<not> dwt_nilmaps w \<and> t \<notin> msg_type ` set (dst_muxed s)"
  using assms unfolding stream_ok_def by blast

text \<open>Handling one message that the loop takes from the channel.\<close>

lemma delta_process_in_flight:
  assumes fl: "in_flight L w m" and L: "de_lib E = L"
    and w: "mget (dst_watches s) (msg_type m) = Some w" and tr: "tracks (dwt_state w) cl"
    and proc: "delta_process E m s = (s', None)"
  obtains resp m' w' es where "w' = w\<lparr>dwt_nonce := FormatInt (dst_nonce s + 1),
        dwt_state := SetResourceVersions (dresp_GetNextVersionMap resp) (dwt_state w)\<rparr>"
    and "m = Muxed (Some resp)"
    and "s' = s\<lparr>dst_nonce := dst_nonce s + 1, dst_trace := dst_trace s @ es,
                dst_watches := mput (msg_type m) w' (dst_watches s)\<rparr>"
    and "\<And>cl0. client_of cl0 es = cl0(msg_type m := client_apply m' (cl0 (msg_type m)))"
    and "tracks (dwt_state w') (client_apply m' cl)"
proof -
  from fl obtain ctx req r where m: "m = Muxed (Some (RawDelta (createDeltaResponse ctx req (dwt_state w) r)))"
    and ok: "versions_ok L r" by (auto simp: in_flight_def)
  let ?resp = "createDeltaResponse ctx req (dwt_state w) r"
  obtain m0 r' where m0: "GetDeltaDiscoveryResponse L ?resp = (Inr m0, r')"
    using delta_marshal_total [OF ok] by blast
  then have ty: "dresp_type_url m0 = dreq_type_url req"
    by (auto simp: GetDeltaDiscoveryResponse_def Let_def split: sum.splits)
  let ?m = "m0\<lparr>dresp_nonce := FormatInt (dst_nonce s + 1)\<rparr>"
  have app: "client_apply ?m c = client_apply m0 c" for c by (simp add: client_apply_def)
  let ?w = "w\<lparr>dwt_nonce := FormatInt (dst_nonce s + 1),
      dwt_state := SetResourceVersions (rawd_next_version_map ?resp) (dwt_state w)\<rparr>"
  obtain es where es: "es = (if dsv_callbacks (de_server E) = None then []
      else [EvDeltaResponse (de_streamID E) req ?m]) @ [EvDeltaSend ?m]" by blast
  show thesis
  proof (rule that [of ?w "RawDelta ?resp" es m0])
    show "s' = s\<lparr>dst_nonce := dst_nonce s + 1, dst_trace := dst_trace s @ es,
                dst_watches := mput (msg_type m) ?w (dst_watches s)\<rparr>"
      using proc w m0 L unfolding m es
      by (auto simp: delta_process_def delta_send_response_def Let_def split: if_splits)
    show "client_of cl0 es = cl0(msg_type m := client_apply m0 (cl0 (msg_type m)))" for cl0
      unfolding es m by (simp add: ty app)
    show "tracks (dwt_state ?w) (client_apply m0 cl)"
      using tracks_after_response [OF ok tr m0] by simp
  qed (simp_all add: m)
qed

lemma stream_ok_message:
  assumes ok: "stream_ok (de_lib E) parked (de_chan E) cl s"
    and Cons: "dst_muxed s = m # msgs" and proc: "delta_process E m (s\<lparr>dst_muxed := msgs\<rparr>) = (s', None)"
  shows "\<exists>es. dst_trace s' = dst_trace s @ es \<and> dst_cache s' = dst_cache s \<and> dst_phase s' = dst_phase s \<and>
    stream_ok (de_lib E) parked (de_chan E) (client_of cl es) s'"
proof -
  let ?s = "s\<lparr>dst_muxed := msgs\<rparr>"
  from ok Cons obtain w where w: "mget (dst_watches s) (msg_type m) = Some w"
    and fl: "in_flight (de_lib E) w m" and new: "msg_type m \<notin> msg_type ` set msgs"
    and tr: "tracks (dwt_state w) (cl (msg_type m))"
    unfolding stream_ok_def by force
  have w': "mget (dst_watches ?s) (msg_type m) = Some w" using w by simp
  obtain resp m' w1 es where w1: "w1 = w\<lparr>dwt_nonce := FormatInt (dst_nonce ?s + 1),
        dwt_state := SetResourceVersions (dresp_GetNextVersionMap resp) (dwt_state w)\<rparr>"
    and s': "s' = ?s\<lparr>dst_nonce := dst_nonce ?s + 1, dst_trace := dst_trace ?s @ es,
                dst_watches := mput (msg_type m) w1 (dst_watches ?s)\<rparr>"
    and cl: "\<And>cl0. client_of cl0 es = cl0(msg_type m := client_apply m' (cl0 (msg_type m)))"
    and tr': "tracks (dwt_state w1) (client_apply m' (cl (msg_type m)))"
    using delta_process_in_flight [OF fl refl w' tr proc] by metis
  have "stream_ok (de_lib E) parked (de_chan E) (client_of cl es) s'"
    unfolding stream_ok_def
  proof (intro conjI ballI allI impI)
    show "distinct (map msg_type (dst_muxed s'))" using ok Cons by (simp add: s' stream_ok_def)
  next
    fix x assume x: "x \<in> set (dst_muxed s')"
    then have "msg_type x \<in> msg_type ` set msgs" by (simp add: s')
    with new have "msg_type x \<noteq> msg_type m" by metis
    with x ok Cons show "\<exists>w. mget (dst_watches s') (msg_type x) = Some w \<and> in_flight (de_lib E) w x"
      by (simp add: s' stream_ok_def)
  next
    fix t v assume v: "mget (dst_watches s') t = Some v"
    have "tracks (dwt_state v) (client_of cl es t) \<and> \<not> dwt_nilmaps v"
    proof (cases "t = msg_type m")
      case True
      with v have "v = w1" by (simp add: s')
      moreover have "\<not> dwt_nilmaps w" using ok w unfolding stream_ok_def by blast
      ultimately show ?thesis using tr' True by (simp add: cl w1)
    next
      case False
      with v ok show ?thesis unfolding stream_ok_def by (simp add: s' cl)
    qed
    then show "tracks (dwt_state v) (client_of cl es t)" and "\<not> dwt_nilmaps v" by simp_all
  next
    fix k rw assume "parked k (dst_cache s') = Some rw \<and> dw_Response rw = de_chan E"
    then have "parked k (dst_cache s) = Some rw \<and> dw_Response rw = de_chan E" by (simp add: s')
    with ok obtain v where v: "mget (dst_watches s) (dreq_type_url (dw_Request rw)) = Some v"
      "dwt_cancel v = Some k" "dw_StreamState rw = dwt_state v"
      "dreq_type_url (dw_Request rw) \<notin> msg_type ` set (dst_muxed s)"
      unfolding stream_ok_def by blast
    with Cons show "\<exists>w. mget (dst_watches s') (dreq_type_url (dw_Request rw)) = Some w \<and> dwt_cancel w = Some k \<and>
           dw_StreamState rw = dwt_state w \<and> dreq_type_url (dw_Request rw) \<notin> msg_type ` set (dst_muxed s')"
      by (simp add: s')
  qed
  then show ?thesis by (auto simp: s')
qed

text \<open>The watch a request finds, and the state it gives it.\<close>

definition found_state :: "DeltaDiscoveryRequest \<Rightarrow> 'k delta_watch option \<Rightarrow> StreamState" where
  "found_state req found =
     delta_next_state req (case found of None \<Rightarrow> delta_first_state req | Some w \<Rightarrow> dwt_state w)"

section \<open>The watches a stream owns\<close>

definition owned :: "('k \<Rightarrow> 'c \<Rightarrow> DeltaResponseWatch option) \<Rightarrow> chan \<Rightarrow> ('c, 'k) delta_stream \<Rightarrow> bool" where
  "owned parked ch s \<longleftrightarrow>
     (\<forall>k rw. parked k (dst_cache s) = Some rw \<and> dw_Response rw = ch \<longrightarrow>
        (\<exists>w. mget (dst_watches s) (dreq_type_url (dw_Request rw)) = Some w \<and> dwt_cancel w = Some k) \<and>
        (\<forall>req w. dst_phase s = Rewatching req w \<longrightarrow> dreq_type_url (dw_Request rw) \<noteq> dreq_type_url req))"

lemma owned_process:
  assumes "delta_process E m (s\<lparr>dst_muxed := msgs\<rparr>) = (s', e)" and "owned parked ch s"
  shows "owned parked ch s'"
  using delta_process_frame [OF assms(1)] assms(2) unfolding owned_def by simp metis

context delta_cache
begin

lemma stream_ok_others:
  assumes inv: "inv (dst_cache s)" and ok: "stream_ok L parked ch cl s"
    and step: "others ch (dst_cache s) c' sends"
  shows "stream_ok L parked ch cl
    (s\<lparr>dst_cache := c', dst_muxed := dst_muxed s @ map Muxed (delta_messages ch sends)\<rparr>)"
proof -
  obtain ks where ks: "distinct ks"
    "list_all2 (\<lambda>k m. \<exists>w. parked k (dst_cache s) = Some w \<and> dw_Response w = ch \<and> answers view c' w m)
       ks (delta_messages ch sends)"
    and left: "\<And>k w. parked k c' = Some w \<Longrightarrow> dw_Response w = ch \<Longrightarrow>
       parked k (dst_cache s) = Some w \<and> k \<notin> set ks"
    using others_serve [OF inv step] by blast
  have inv': "inv c'" by (rule others_inv [OF inv step])
  define type_of where "type_of k = dreq_type_url (dw_Request (the (parked k (dst_cache s))))" for k
  define new where "new = map Muxed (delta_messages ch sends)"
  have watch: "\<exists>w. mget (dst_watches s) (type_of k) = Some w \<and> dwt_cancel w = Some k \<and>
      dw_StreamState rw = dwt_state w \<and> type_of k \<notin> msg_type ` set (dst_muxed s)"
    if "parked k (dst_cache s) = Some rw" "dw_Response rw = ch" for k rw
    using ok that unfolding stream_ok_def type_of_def by fastforce
  have new_k: "list_all2 (\<lambda>k m. msg_type m = type_of k \<and> type_of k \<notin> msg_type ` set (dst_muxed s) \<and>
      (\<exists>w. mget (dst_watches s) (type_of k) = Some w \<and> dwt_cancel w = Some k \<and> in_flight L w m)) ks new"
    unfolding new_def list_all2_map2
    using ks(2)
  proof (rule list_all2_mono)
    fix k m assume "\<exists>w. parked k (dst_cache s) = Some w \<and> dw_Response w = ch \<and> answers view c' w m"
    then obtain rw ctx r where rw: "parked k (dst_cache s) = Some rw" "dw_Response rw = ch"
      and r: "view (dw_Request rw) c' = Some r"
      and m: "m = Some (RawDelta (createDeltaResponse ctx (dw_Request rw) (dw_StreamState rw) r))"
      by (auto simp: answers_def)
    from view_ok [OF inv' r] watch [OF rw] rw(1) m
    show "msg_type (Muxed m) = type_of k \<and> type_of k \<notin> msg_type ` set (dst_muxed s) \<and>
      (\<exists>w. mget (dst_watches s) (type_of k) = Some w \<and> dwt_cancel w = Some k \<and> in_flight L w (Muxed m))"
      by (auto simp: in_flight_def type_of_def)
  qed
  then have types: "map msg_type new = map type_of ks"
    by (auto simp: list_all2_conv_all_nth intro!: nth_equalityI)
  have kw: "\<exists>w. mget (dst_watches s) (type_of k) = Some w \<and> dwt_cancel w = Some k" if "k \<in> set ks" for k
    using new_k that by (auto simp: list_all2_conv_all_nth in_set_conv_nth)
  then have inj: "inj_on type_of (set ks)" by (intro inj_onI) (metis option.inject)
  have old: "type_of k \<notin> msg_type ` set (dst_muxed s)" if "k \<in> set ks" for k
    using new_k that by (auto simp: list_all2_conv_all_nth in_set_conv_nth)
  have "set (map msg_type new) = type_of ` set ks" by (simp only: types set_map)
  then have tys: "msg_type ` set new = type_of ` set ks" by simp
  show ?thesis
    unfolding stream_ok_def new_def [symmetric]
  proof (intro conjI ballI allI impI, simp_all del: image_iff)
    have "distinct (map msg_type new)" using ks(1) inj by (simp add: types distinct_map)
    moreover have "msg_type ` set (dst_muxed s) \<inter> msg_type ` set new = {}"
      unfolding tys using old by (intro Int_emptyI) (metis imageE)
    ultimately show "distinct (map msg_type (dst_muxed s)) \<and> distinct (map msg_type new) \<and>
        msg_type ` set (dst_muxed s) \<inter> msg_type ` set new = {}"
      using ok by (simp add: stream_ok_def)
  next
    fix m assume "m \<in> set (dst_muxed s) \<or> m \<in> set new"
    then show "\<exists>w. mget (dst_watches s) (msg_type m) = Some w \<and> in_flight L w m"
    proof
      assume "m \<in> set new"
      with new_k show ?thesis by (auto simp: list_all2_conv_all_nth in_set_conv_nth)
    qed (use ok in \<open>simp add: stream_ok_def\<close>)
  next
    fix t w assume "mget (dst_watches s) t = Some w"
    with ok show "tracks (dwt_state w) (cl t)" and "\<not> dwt_nilmaps w" by (simp_all add: stream_ok_def)
  next
    fix k rw assume p: "parked k c' = Some rw \<and> dw_Response rw = ch"
    with left have k: "parked k (dst_cache s) = Some rw" "k \<notin> set ks" by blast+
    from watch [OF k(1)] p obtain w where w: "mget (dst_watches s) (type_of k) = Some w" "dwt_cancel w = Some k"
      "dw_StreamState rw = dwt_state w" "type_of k \<notin> msg_type ` set (dst_muxed s)" by blast
    have "type_of k \<notin> type_of ` set ks"
    proof
      assume "type_of k \<in> type_of ` set ks"
      then obtain k' where "k' \<in> set ks" "type_of k = type_of k'" by blast
      with kw [of k'] w k(2) show False by auto
    qed
    with w k(1) show "\<exists>w. mget (dst_watches s) (dreq_type_url (dw_Request rw)) = Some w \<and> dwt_cancel w = Some k \<and>
           dw_StreamState rw = dwt_state w \<and>
           dreq_type_url (dw_Request rw) \<notin> msg_type ` (set (dst_muxed s) \<union> set new)"
      unfolding image_Un tys by (auto simp: type_of_def)
  qed
qed

lemma others_types:
  assumes inv: "inv c" and step: "others ch c c' sends"
  shows "m \<in> set (delta_messages ch sends) \<Longrightarrow>
      \<exists>k rw. parked k c = Some rw \<and> dw_Response rw = ch \<and> msg_type (Muxed m) = dreq_type_url (dw_Request rw)"
    and "parked k c' = Some rw \<Longrightarrow> dw_Response rw = ch \<Longrightarrow> parked k c = Some rw"
proof -
  obtain ks where ks: "list_all2 (\<lambda>k m. \<exists>w. parked k c = Some w \<and> dw_Response w = ch \<and> answers view c' w m)
       ks (delta_messages ch sends)"
    and left: "\<And>k w. parked k c' = Some w \<Longrightarrow> dw_Response w = ch \<Longrightarrow> parked k c = Some w"
    using others_serve [OF inv step] by blast
  show "\<exists>k rw. parked k c = Some rw \<and> dw_Response rw = ch \<and> msg_type (Muxed m) = dreq_type_url (dw_Request rw)"
    if "m \<in> set (delta_messages ch sends)"
  proof -
    from that obtain i where "i < length (delta_messages ch sends)" "m = delta_messages ch sends ! i"
      by (auto simp: in_set_conv_nth)
    with ks obtain w where "parked (ks ! i) c = Some w" "dw_Response w = ch" "answers view c' w m"
      by (auto simp: list_all2_conv_all_nth)
    then show ?thesis unfolding answers_def by (intro exI [of _ "ks ! i"] exI [of _ w]) auto
  qed
  show "parked k c' = Some rw \<Longrightarrow> dw_Response rw = ch \<Longrightarrow> parked k c = Some rw" by (rule left)
qed

lemma phase_ok_others:
  assumes inv: "inv (dst_cache s)" and ph: "phase_ok parked ch cl s"
    and step: "others ch (dst_cache s) c' sends" and un: "accepted_unanswered ch sends s"
  shows "phase_ok parked ch cl
    (s\<lparr>dst_cache := c', dst_muxed := dst_muxed s @ map Muxed (delta_messages ch sends)\<rparr>)"
proof (cases "dst_phase s")
  case (Accepted req)
  with ph un show ?thesis by (auto simp: phase_ok_def accepted_unanswered_def)
next
  case (Rewatching req w)
  with ph have no: "dreq_type_url (dw_Request rw) \<noteq> dreq_type_url req"
    if "parked k (dst_cache s) = Some rw" "dw_Response rw = ch" for k rw
    using that by (auto simp: phase_ok_def)
  have "dreq_type_url req \<notin> msg_type ` set (map Muxed (delta_messages ch sends))"
    using others_types(1) [OF inv step] no by fastforce
  moreover have "dreq_type_url (dw_Request rw) \<noteq> dreq_type_url req"
    if "parked k c' = Some rw" "dw_Response rw = ch" for k rw
    using no others_types(2) [OF inv step that] that(2) by blast
  ultimately show ?thesis using ph Rewatching by (auto simp: phase_ok_def)
qed (simp_all add: phase_ok_def)

lemma delta_unwatch_cases:
  assumes E: "cancel_fn (dsv_cache (de_server E)) = cancel"
    and maps: "\<And>w. mget (dst_watches s) (dreq_type_url req) = Some w \<Longrightarrow> \<not> dwt_nilmaps w"
    and step: "delta_unwatch E req s = (s', None)"
  obtains c1 req1 w where
    "c1 = (case mget (dst_watches s) (dreq_type_url req) of None \<Rightarrow> dst_cache s
       | Some w \<Rightarrow> (case dwt_cancel w of None \<Rightarrow> dst_cache s | Some i \<Rightarrow> cancel i (dst_cache s)))"
    and "s' = s\<lparr>dst_cache := c1, dst_phase := Rewatching req1 w\<rparr>"
    and "dreq_type_url req1 = dreq_type_url req"
    and "dwt_state w = found_state req (mget (dst_watches s) (dreq_type_url req))" and "\<not> dwt_nilmaps w"
proof -
  let ?found = "mget (dst_watches s) (dreq_type_url req)"
  define w0 where "w0 = (case ?found of
      None \<Rightarrow> zero_delta_watch\<lparr>dwt_state := delta_first_state req, dwt_nilmaps := False\<rparr> | Some w \<Rightarrow> w)"
  define c1 where "c1 = (case ?found of None \<Rightarrow> dst_cache s
       | Some w \<Rightarrow> (case dwt_cancel w of None \<Rightarrow> dst_cache s | Some i \<Rightarrow> cancel i (dst_cache s)))"
  define w1 where "w1 = w0\<lparr>dwt_state := delta_next_state req (dwt_state w0)\<rparr>"
  define req1 where "req1 = (if ?found = None \<and> dreq_initial_resource_versions req \<noteq> None
      then req\<lparr>dreq_initial_resource_versions := Some (ss_resourceVersions (dwt_state w1))\<rparr> else req)"
  have nil: "\<not> dwt_nilmaps w0" using maps by (simp add: w0_def split: option.split)
  have s1: "(case ?found of None \<Rightarrow> s | Some watch \<Rightarrow>
      s\<lparr>dst_cache := delta_watch_Cancel (dsv_cache (de_server E)) watch (dst_cache s)\<rparr>) = s\<lparr>dst_cache := c1\<rparr>"
    by (auto simp: c1_def delta_watch_Cancel_def E split: option.split)
  have st: "dwt_state w1 = found_state req ?found"
    by (simp add: w1_def w0_def found_state_def split: option.split)
  have "s' = s\<lparr>dst_cache := c1, dst_phase := Rewatching req1 w1\<rparr>"
    using step
    unfolding delta_unwatch_def Let_def s1 w0_def [symmetric] w1_def [symmetric] req1_def [symmetric]
    by (simp add: nil)
  then show thesis
    using st nil by (intro that [of c1 req1 w1]) (simp_all add: c1_def req1_def w1_def)
qed

text \<open>Cancelling: the open watch of the type is gone, nothing else changes for the client.\<close>

lemma stream_ok_unwatch:
  assumes E: "cancel_fn (dsv_cache (de_server E)) = cancel"
    and inv: "inv (dst_cache s)" and ok: "stream_ok L parked (de_chan E) cl s"
    and ph: "phase_ok parked (de_chan E) cl s" and acc: "dst_phase s = Accepted req"
    and agrees: "accepted_agrees cl s" and step: "delta_unwatch E req s = (s', None)"
  shows "inv (dst_cache s') \<and> stream_ok L parked (de_chan E) cl s' \<and> phase_ok parked (de_chan E) cl s' \<and>
    dst_trace s' = dst_trace s"
proof -
  let ?t = "dreq_type_url req" and ?ch = "de_chan E"
  let ?found = "mget (dst_watches s) ?t"
  have maps: "\<not> dwt_nilmaps w" if "?found = Some w" for w using ok that unfolding stream_ok_def by blast
  obtain c1 req1 w where
    c1: "c1 = (case ?found of None \<Rightarrow> dst_cache s
       | Some w \<Rightarrow> (case dwt_cancel w of None \<Rightarrow> dst_cache s | Some i \<Rightarrow> cancel i (dst_cache s)))"
    and s': "s' = s\<lparr>dst_cache := c1, dst_phase := Rewatching req1 w\<rparr>" and ty: "dreq_type_url req1 = ?t"
    and st: "dwt_state w = found_state req ?found" and nil: "\<not> dwt_nilmaps w"
    by (rule delta_unwatch_cases [OF E maps step])
  have inv1: "inv c1" using inv cancel_inv by (simp add: c1 split: option.split)
  have agr: "request_agrees req ?found (cl ?t)" using agrees acc by (simp add: accepted_agrees_def)
  have tr: "tracks (dwt_state w) (cl ?t)"
  proof (cases ?found)
    case None
    with agr tracks_first_state show ?thesis by (simp add: st found_state_def)
  next
    case (Some v)
    with ok have "tracks (dwt_state v) (cl ?t)" unfolding stream_ok_def by blast
    with Some agr tracks_next_state show ?thesis by (simp add: st found_state_def)
  qed
  have old: "parked i (dst_cache s) = Some rw" if "parked i c1 = Some rw" for i rw
    using that by (auto simp: c1 cancel_parked [OF inv] split: option.splits if_splits)
  have gone: "dreq_type_url (dw_Request rw) \<noteq> ?t" if p: "parked i c1 = Some rw" "dw_Response rw = ?ch" for i rw
  proof
    assume t: "dreq_type_url (dw_Request rw) = ?t"
    with stream_ok_parkedD [OF ok old [OF p(1)] p(2)] obtain v where "?found = Some v" "dwt_cancel v = Some i" by blast
    with p(1) show False by (simp add: c1 cancel_parked [OF inv])
  qed
  have "stream_ok L parked ?ch cl s'"
    using ok old unfolding stream_ok_def s' by simp
  moreover have "phase_ok parked ?ch cl s'"
    using ph acc tr nil gone by (auto simp: phase_ok_def s' ty)
  ultimately show ?thesis using inv1 by (simp add: s')
qed

text \<open>Creating: the watch is open, or its answer is the last message of the channel.\<close>

lemma stream_ok_rewatch:
  assumes E: "CreateDeltaWatch (dsv_cache (de_server E)) = create"
    and inv: "inv (dst_cache s)" and ok: "stream_ok L parked (de_chan E) cl s"
    and ph: "phase_ok parked (de_chan E) cl s" and re: "dst_phase s = Rewatching req w"
  defines "s' \<equiv> delta_rewatch E req w s" and "typ \<equiv> dreq_type_url req"
  shows "inv (dst_cache s') \<and> stream_ok L parked (de_chan E) cl s'" (is ?ok)
    and "\<exists>v. mget (dst_watches s') typ = Some v \<and> dwt_state v = dwt_state w \<and>
      (dwt_cancel v = None \<and> (\<exists>ctx r. view req (dst_cache s') = Some r \<and>
          dst_muxed s' = dst_muxed s @ [Muxed (Some (RawDelta (createDeltaResponse ctx req (dwt_state w) r)))]) \<or>
       dst_muxed s' = dst_muxed s \<and> (\<exists>k rw. dwt_cancel v = Some k \<and> parked k (dst_cache s') = Some rw \<and>
          dw_Response rw = de_chan E \<and> dw_Request rw = req \<and> dw_StreamState rw = dwt_state w))" (is ?served)
proof -
  let ?ch = "de_chan E"
  let ?new = "\<lparr>dw_Request = req, dw_Response = ?ch, dw_StreamState = dwt_state w\<rparr>"
  obtain c' sends k where cr: "create req (dwt_state w) ?ch (dst_cache s) = (c', sends, k)"
    by (metis prod_cases3)
  have s': "s' = s\<lparr>dst_phase := Selecting, dst_cache := c',
      dst_muxed := dst_muxed s @ map Muxed (delta_messages ?ch sends),
      dst_watches := mput typ (w\<lparr>dwt_cancel := k\<rparr>) (dst_watches s)\<rparr>"
    by (simp add: s'_def typ_def delta_rewatch_def E cr)
  from ph re have free: "typ \<notin> msg_type ` set (dst_muxed s)" and tr: "tracks (dwt_state w) (cl typ)" "\<not> dwt_nilmaps w"
    and none: "\<And>k rw. parked k (dst_cache s) = Some rw \<Longrightarrow> dw_Response rw = ?ch \<Longrightarrow> dreq_type_url (dw_Request rw) \<noteq> typ"
    unfolding phase_ok_def typ_def by blast+
  have inv': "inv c'" by (rule create_inv [OF inv cr])
  have old: "\<exists>v. mget (dst_watches s') (msg_type m) = Some v \<and> in_flight L v m" if m: "m \<in> set (dst_muxed s)" for m
  proof -
    from m free have "msg_type m \<noteq> typ" by auto
    with ok m show ?thesis by (simp add: s' stream_ok_def)
  qed
  have watches: "tracks (dwt_state v) (cl t) \<and> \<not> dwt_nilmaps v" if "mget (dst_watches s') t = Some v" for t v
    using that ok tr by (cases "t = typ") (auto simp: s' stream_ok_def)
  have keeps: "\<exists>v. mget (dst_watches s') (dreq_type_url (dw_Request rw)) = Some v \<and> dwt_cancel v = Some i \<and>
      dw_StreamState rw = dwt_state v \<and> dreq_type_url (dw_Request rw) \<notin> msg_type ` set (dst_muxed s) \<and>
      dreq_type_url (dw_Request rw) \<noteq> typ"
    if "parked i (dst_cache s) = Some rw" "dw_Response rw = ?ch" for i rw
    using stream_ok_parkedD [OF ok that refl] none [OF that] by (auto simp: s')
  have dist: "distinct (map msg_type (dst_muxed s))" using ok by (simp add: stream_ok_def)
  have "?ok \<and> ?served"
  proof (cases "sends = []")
    case True
    from create_parks [OF inv cr True] obtain i where i: "k = Some i" "parked i c' = Some ?new" by blast
    have m: "dst_muxed s' = dst_muxed s" by (simp add: s' True)
    have "\<exists>v. mget (dst_watches s') (dreq_type_url (dw_Request rw)) = Some v \<and> dwt_cancel v = Some j \<and>
        dw_StreamState rw = dwt_state v \<and> dreq_type_url (dw_Request rw) \<notin> msg_type ` set (dst_muxed s)"
      if "parked j c' = Some rw" "dw_Response rw = ?ch" for j rw
    proof (cases "j = i")
      case True
      with that(1) i(2) have "rw = ?new" by simp
      with True i(1) free show ?thesis by (simp add: s' typ_def)
    next
      case False
      with create_keeps [OF inv cr, of j] i(1) that have "parked j (dst_cache s) = Some rw" by simp
      with keeps that(2) show ?thesis by blast
    qed
    then have "stream_ok L parked ?ch cl s'"
      using watches dist old unfolding stream_ok_def m by (simp add: s')
    with inv' i m show ?thesis by (simp add: s')
  next
    case False
    with create_answered [OF inv cr] obtain r where r: "view req c' = Some r" and k: "k = None" by blast
    from create_answer [OF inv cr r] False obtain ctx where
      sends: "sends = [SendDelta ?ch (Some (RawDelta (createDeltaResponse ctx req (dwt_state w) r)))]" by blast
    let ?m = "Muxed (Some (RawDelta (createDeltaResponse ctx req (dwt_state w) r)))"
    have m: "dst_muxed s' = dst_muxed s @ [?m]" by (simp add: s' sends)
    have ty: "msg_type ?m = typ" by (simp add: typ_def)
    have new: "\<exists>v. mget (dst_watches s') typ = Some v \<and> in_flight L v ?m"
      using view_ok [OF inv' r] by (auto simp: s' in_flight_def)
    have "distinct (map msg_type (dst_muxed s'))" using dist free by (simp add: m typ_def)
    moreover have "\<exists>v. mget (dst_watches s') (msg_type x) = Some v \<and> in_flight L v x" if "x \<in> set (dst_muxed s')" for x
      using that old new unfolding m by (auto simp: typ_def)
    moreover have "parked j c' = parked j (dst_cache s)" for j using create_keeps [OF inv cr, of j] k by simp
    then have "\<exists>v. mget (dst_watches s') (dreq_type_url (dw_Request rw)) = Some v \<and> dwt_cancel v = Some j \<and>
        dw_StreamState rw = dwt_state v \<and> dreq_type_url (dw_Request rw) \<notin> msg_type ` set (dst_muxed s')"
      if "parked j (dst_cache s') = Some rw" "dw_Response rw = ?ch" for j rw
      using keeps [of j rw] that ty unfolding m by (auto simp: s')
    ultimately have "stream_ok L parked ?ch cl s'" using watches unfolding stream_ok_def by blast
    with inv' m r k show ?thesis by (auto simp: s')
  qed
  then show ?ok and ?served by simp_all
qed

text \<open>Every state of a careful run, and what it means for the client.\<close>

lemma stream_reach_ok:
  assumes E: "CreateDeltaWatch (dsv_cache (de_server E)) = create" "cancel_fn (dsv_cache (de_server E)) = cancel"
    "de_lib E = L"
    and starts: "\<And>c. starts c \<Longrightarrow> inv c \<and> (\<forall>k rw. parked k c = Some rw \<longrightarrow> dw_Response rw \<noteq> de_chan E)"
    and reach: "delta_reach True starts others E cl0 s"
  shows "inv (dst_cache s) \<and> stream_ok L parked (de_chan E) (client_of cl0 (dst_trace s)) s \<and>
    phase_ok parked (de_chan E) (client_of cl0 (dst_trace s)) s"
  using reach
proof induction
  case (init c s)
  from delta_open_cases [OF init(2)] obtain es where "s = (new_delta_stream c)\<lparr>dst_trace := es\<rparr>"
    and "\<And>cl. client_of cl es = cl" by blast
  with starts [OF init(1)] show ?case by (auto simp: stream_ok_def phase_ok_def new_delta_stream_def)
next
  case (own s i req s')
  let ?cl = "client_of cl0 (dst_trace s)"
  from own.hyps(4) own.hyps(2) show ?case
  proof (cases rule: delta_own_cases)
    case (process m msgs)
    from stream_ok_message [where s = s and cl = ?cl, OF _ process(1,2)] own.IH E(3)
    obtain es where es: "dst_trace s' = dst_trace s @ es" "dst_cache s' = dst_cache s" "dst_phase s' = dst_phase s"
      "stream_ok (de_lib E) parked (de_chan E) (client_of ?cl es) s'" by blast
    then have "phase_ok parked (de_chan E) (client_of cl0 (dst_trace s')) s'"
      using process(3,4) by (simp add: phase_ok_def)
    with own.IH es E(3) show ?thesis by simp
  next
    case (request req)
    with own.IH show ?thesis by (simp add: phase_ok_def)
  next
    case (accept req)
    then show ?thesis
    proof (cases rule: delta_accept_cases [OF accept(3)])
      case (1 es node req')
      with own.IH accept(2) show ?thesis by (simp add: phase_ok_def)
    qed
  next
    case (unwatch req)
    with stream_ok_unwatch [OF E(2) _ _ _ unwatch(1) _ unwatch(2), of ?cl] own.IH own.hyps(3) show ?thesis by simp
  next
    case (rewatch req w)
    have "dst_trace s' = dst_trace s" "dst_phase s' = Selecting"
      by (simp_all add: rewatch(2) delta_rewatch_def split: prod.split)
    moreover have "inv (dst_cache s') \<and> stream_ok L parked (de_chan E) ?cl s'"
      unfolding rewatch(2) using own.IH by (intro stream_ok_rewatch(1) [OF E(1) _ _ _ rewatch(1)]) simp_all
    ultimately show ?thesis by (simp add: phase_ok_def)
  qed (use own.IH in simp)
next
  case (others s c' sends s')
  from others.hyps(4) have s': "s' = s\<lparr>dst_cache := c',
      dst_muxed := dst_muxed s @ map Muxed (delta_messages (de_chan E) sends)\<rparr>" by simp
  from others.IH stream_ok_others [OF _ _ others.hyps(2)] phase_ok_others [OF _ _ others.hyps(2)]
    others_inv [OF _ others.hyps(2)] others.hyps(3) show ?case by (simp add: s')
qed

lemma open_watch_in_sync:
  assumes inv: "inv (dst_cache s)" and ok: "stream_ok L parked ch cl s"
    and k: "parked k (dst_cache s) = Some rw" "dw_Response rw = ch"
    and view: "view (dw_Request rw) (dst_cache s) = Some r" and n: "in_scope (dw_StreamState rw) n"
  shows "cl (dreq_type_url (dw_Request rw)) n = target (dw_StreamState rw) r n"
proof -
  from ok k obtain w where "mget (dst_watches s) (dreq_type_url (dw_Request rw)) = Some w"
    "dw_StreamState rw = dwt_state w" unfolding stream_ok_def by blast
  with ok have "tracks (dw_StreamState rw) (cl (dreq_type_url (dw_Request rw)))"
    unfolding stream_ok_def by simp
  with parked_current [OF inv k(1) view] n versions_ok_get [OF view_ok [OF inv view]]
  show ?thesis by (blast intro: up_to_date_target)
qed

lemma shutdown_inv:
  assumes E: "cancel_fn (dsv_cache (de_server E)) = cancel" and inv: "inv (dst_cache s)"
  shows "inv (dst_cache (delta_shutdown E s))"
proof -
  let ?C = "dsv_cache (de_server E)"
  have "inv (delta_watches_Cancel ?C ws c)" if "inv c" for ws c
    unfolding delta_watches_Cancel_def using that
    by (rule fold_invariant) (auto simp: delta_watch_Cancel_def E cancel_inv split: option.split)
  with inv show ?thesis by (simp add: delta_shutdown_def Let_def)
qed

text \<open>
  What holds in every run, careful or not: an open watch on the stream's channel is the one its type's
  entry would cancel, and there is none of the type that is being watched anew.
\<close>

lemma owned_unique:
  assumes "owned parked ch s" and "parked k (dst_cache s) = Some rw" and "dw_Response rw = ch"
    and "parked k' (dst_cache s) = Some rw'" and "dw_Response rw' = ch"
    and "dreq_type_url (dw_Request rw) = dreq_type_url (dw_Request rw')"
  shows "k = k'"
proof -
  from assms obtain w w' where "mget (dst_watches s) (dreq_type_url (dw_Request rw)) = Some w" "dwt_cancel w = Some k"
    "mget (dst_watches s) (dreq_type_url (dw_Request rw')) = Some w'" "dwt_cancel w' = Some k'"
    unfolding owned_def by blast
  with assms(6) show ?thesis by simp
qed

lemma owned_own_step:
  assumes E: "CreateDeltaWatch (dsv_cache (de_server E)) = create" "cancel_fn (dsv_cache (de_server E)) = cancel"
    and inv: "inv (dst_cache s)" and own: "owned parked (de_chan E) s"
    and step: "delta_step E s = (s', e)"
  shows "inv (dst_cache s') \<and> owned parked (de_chan E) s'"
proof (cases "dst_phase s")
  case Selecting
  with step inv own show ?thesis by (simp add: delta_step_def)
next
  case (Draining req)
  then have all: "delta_processAll E req s = (s', e)" using step by (simp add: delta_step_def)
  show ?thesis
  proof (cases "dst_muxed s")
    case Nil
    with all have "delta_accept E req s = (s', e)" by (simp add: delta_processAll_def)
    from delta_accept_frame [OF this] inv own Draining show ?thesis by (auto simp: owned_def)
  next
    case (Cons m msgs)
    with all have "delta_process E m (s\<lparr>dst_muxed := msgs\<rparr>) = (s', e)" by (simp add: delta_processAll_def)
    from owned_process [OF this] inv own delta_process_frame [OF this] show ?thesis by simp
  qed
next
  case (Accepted req)
  then have "delta_unwatch E req s = (s', e)" using step by (simp add: delta_step_def)
  note un = delta_unwatch_frame [OF this, unfolded E]
  let ?found = "mget (dst_watches s) (dreq_type_url req)"
  have inv': "inv (dst_cache s')" using inv un cancel_inv by (auto split: option.splits)
  have old: "parked k (dst_cache s) = Some rw \<and> (\<forall>w. ?found = Some w \<longrightarrow> dwt_cancel w \<noteq> Some k)"
    if "parked k (dst_cache s') = Some rw" for k rw
    using that un by (auto simp: cancel_parked [OF inv] split: option.splits if_splits)
  have "dreq_type_url (dw_Request rw) \<noteq> dreq_type_url req"
    if "parked k (dst_cache s') = Some rw" "dw_Response rw = de_chan E" for k rw
    using old [OF that(1)] own that(2) unfolding owned_def by metis
  with old own un Accepted have "owned parked (de_chan E) s'" unfolding owned_def by (cases e) auto
  with inv' show ?thesis by simp
next
  case (Rewatching req w)
  then have s': "s' = delta_rewatch E req w s" using step by (simp add: delta_step_def)
  obtain c' sends k where cr: "create req (dwt_state w) (de_chan E) (dst_cache s) = (c', sends, k)" by (metis prod_cases3)
  have "inv c'" by (rule create_inv [OF inv cr])
  moreover have "\<exists>v. mget (dst_watches s') (dreq_type_url (dw_Request rw)) = Some v \<and> dwt_cancel v = Some j"
    if p: "parked j c' = Some rw" "dw_Response rw = de_chan E" for j rw
  proof (cases "k = Some j")
    case True
    with create_answered [OF inv cr] create_parks [OF inv cr] p(1) have "dreq_type_url (dw_Request rw) = dreq_type_url req"
      by force
    with True show ?thesis by (simp add: s' delta_rewatch_def E cr)
  next
    case False
    with create_keeps [OF inv cr, of j] p have "parked j (dst_cache s) = Some rw" by simp
    with own p(2) Rewatching show ?thesis unfolding owned_def s' by (fastforce simp: delta_rewatch_def E cr)
  qed
  ultimately show ?thesis by (simp add: s' delta_rewatch_def E cr owned_def)
qed

lemma owned_select:
  assumes E: "CreateDeltaWatch (dsv_cache (de_server E)) = create" "cancel_fn (dsv_cache (de_server E)) = cancel"
    and inv: "inv (dst_cache s)" and own: "owned parked (de_chan E) s"
    and step: "delta_select E i s = (s', r)" and i: "\<And>f. i \<noteq> InCache f"
  shows "inv (dst_cache s') \<and> owned parked (de_chan E) s'"
proof (cases i)
  case InMessage
  show ?thesis
  proof (cases "delta_busy s \<or> dst_muxed s = []")
    case True
    with step InMessage inv own show ?thesis by (cases "delta_busy s") auto
  next
    case False
    then obtain m msgs e where "dst_muxed s = m # msgs" "delta_process E m (s\<lparr>dst_muxed := msgs\<rparr>) = (s', e)"
      using step InMessage by (cases "dst_muxed s") (auto simp: delta_returns_def split: prod.splits)
    from owned_process [OF this(2)] inv own delta_process_frame [OF this(2)] show ?thesis by simp
  qed
next
  case (InRequest req)
  with step inv own show ?thesis
    by (auto simp: delta_returns_def delta_handle_request_def delta_busy_iff owned_def split: if_splits option.splits)
next
  case InStep
  then obtain e where "delta_step E s = (s', e)"
    using step by (auto simp: delta_returns_def split: prod.splits)
  from owned_own_step [OF E inv own this] show ?thesis .
next
  case (InCache f)
  with i [of f] show ?thesis by simp
qed (use step inv own in \<open>auto split: if_splits\<close>)

lemma owned_others:
  assumes inv: "inv (dst_cache s)" and own: "owned parked ch s" and step: "others ch (dst_cache s) c' sends"
  shows "owned parked ch (s\<lparr>dst_cache := c', dst_muxed := dst_muxed s @ ms\<rparr>)"
  using own others_types(2) [OF inv step] unfolding owned_def by simp metis

lemma stream_run_owned:
  assumes E: "CreateDeltaWatch (dsv_cache (de_server E)) = create" "cancel_fn (dsv_cache (de_server E)) = cancel"
    and starts: "\<And>c. starts c \<Longrightarrow> inv c \<and> (\<forall>k rw. parked k c = Some rw \<longrightarrow> dw_Response rw \<noteq> de_chan E)"
    and reach: "delta_reach careful starts others E cl0 s"
  shows "inv (dst_cache s) \<and> owned parked (de_chan E) s"
  using reach
proof induction
  case (init c s)
  from delta_open_cases [OF init(2)] obtain es where "s = (new_delta_stream c)\<lparr>dst_trace := es\<rparr>" by blast
  with starts [OF init(1)] show ?case by (auto simp: owned_def new_delta_stream_def)
next
  case (own s i req s')
  from own.hyps(2) have "\<And>f. i \<noteq> InCache f" by auto
  with owned_select [OF E _ _ own.hyps(4)] own.IH show ?case by blast
next
  case (others s c' sends s')
  from others.hyps(4) have s': "s' = s\<lparr>dst_cache := c',
      dst_muxed := dst_muxed s @ map Muxed (delta_messages (de_chan E) sends)\<rparr>" by simp
  from others.IH owned_others [OF _ _ others.hyps(2)] others_inv [OF _ others.hyps(2)] show ?case by (simp add: s')
qed

text \<open>When the stream ends, the cache keeps nothing open for it: nothing is sent to the closed channel.\<close>

lemma shutdown_clean:
  assumes E: "cancel_fn (dsv_cache (de_server E)) = cancel"
    and inv: "inv (dst_cache s)" and own: "owned parked (de_chan E) s"
    and p: "parked k (dst_cache (delta_shutdown E s)) = Some rw"
  shows "dw_Response rw \<noteq> de_chan E"
proof
  assume ch: "dw_Response rw = de_chan E"
  let ?C = "dsv_cache (de_server E)"
  have gone: "inv (delta_watches_Cancel ?C ws c) \<and>
      (parked k (delta_watches_Cancel ?C ws c) = Some rw \<longrightarrow>
         parked k c = Some rw \<and> (\<forall>(t, w) \<in> set ws. dwt_cancel w \<noteq> Some k))" if "inv c" for ws c
    using that
  proof (induction ws arbitrary: c)
    case Nil
    then show ?case by (simp add: delta_watches_Cancel_def)
  next
    case (Cons tw ws)
    obtain t w where tw: "tw = (t, w)" by (cases tw)
    let ?c = "delta_watch_Cancel ?C w c"
    have c: "inv ?c" "parked k ?c = (if dwt_cancel w = Some k then None else parked k c)"
      using Cons.prems by (auto simp: delta_watch_Cancel_def E cancel_inv cancel_parked split: option.split)
    have "delta_watches_Cancel ?C (tw # ws) c = delta_watches_Cancel ?C ws ?c"
      by (simp add: delta_watches_Cancel_def tw)
    with Cons.IH [OF c(1)] c(2) show ?case by (auto simp: tw split: if_splits)
  qed
  have "dst_cache (delta_shutdown E s) = delta_watches_Cancel ?C (dst_watches s) (dst_cache s)"
    by (simp add: delta_shutdown_def Let_def)
  with gone [OF inv, of "dst_watches s"] p have "parked k (dst_cache s) = Some rw"
    and no: "\<forall>(t, w) \<in> set (dst_watches s). dwt_cancel w \<noteq> Some k" by simp_all
  with own ch obtain w where "mget (dst_watches s) (dreq_type_url (dw_Request rw)) = Some w" "dwt_cancel w = Some k"
    unfolding owned_def by blast
  with no show False by (auto dest: mget_in_set)
qed

end

section \<open>The caches keep the contract\<close>

fun linear_parked :: "linear_canceler \<Rightarrow> LinearCache \<Rightarrow> DeltaResponseWatch option" where
  "linear_parked (CancelDelta i) c = mget (lc_deltaWatches c) i"
| "linear_parked _ c = None"

text \<open>The rest of the world: any operation, but no watch on this channel, under resources that keep
  their names; or the maps are visited in another order.\<close>

definition linear_others :: "lib \<Rightarrow> chan \<Rightarrow> LinearCache \<Rightarrow> LinearCache \<Rightarrow> send list \<Rightarrow> bool" where
  "linear_others L ch c c' sends \<longleftrightarrow>
     (\<exists>op err. op_ok c op \<and> linear_step L op c = (c', sends, err) \<and> linear_named c' \<and>
        (\<forall>req st ch'. op = OpCreateDeltaWatch req st ch' \<longrightarrow> ch' \<noteq> ch))
     \<or> linear_reorder c c' \<and> sends = []"

lemma delta_messages_sotw [simp]:
  "delta_messages ch (map (\<lambda>(value, stale). linear_respond c value stale) nl) = []"
  "delta_messages ch (map (\<lambda>value. linear_respond c value stale) chs) = []"
  by (induction nl, simp_all add: linear_respond_def Let_def split_def)
    (induction chs, simp_all)

lemma delta_messages_delta_send:
  "delta_messages ch (map (\<lambda>(i, w). delta_send c w) ws) =
     map (\<lambda>(i, w). map_option RawDelta (linear_respondDelta c (dw_Request w) (dw_StreamState w)))
       (filter (\<lambda>(i, w). dw_Response w = ch) ws)"
  by (induction ws) (auto simp: delta_send_def)

lemma notifyAll_messages:
  assumes L: "lib_total L" and wf: "linear_wf c"
    and vm: "lc_versionMap c = Some vm0" "wf_map vm0"
    and n: "notifyAll L modified c = (c', sends, err)"
  shows "delta_messages ch sends =
     map (\<lambda>(i, w). map_option RawDelta (linear_respondDelta c' (dw_Request w) (dw_StreamState w)))
       (filter (\<lambda>(i, w). dw_Response w = ch) (filter (\<lambda>(i, w). delta_fires modified c' w) (lc_deltaWatches c)))"
proof -
  obtain nl ws where nc: "fold notify_collect modified ([], lc_watches c) = (nl, ws)"
    by (cases "fold notify_collect modified ([], lc_watches c)")
  let ?c1 = "c\<lparr>lc_watches := ws, lc_watchAll := []\<rparr>"
  from updateVersionMap_total [OF L, of ?c1 modified] vm obtain vm where
    upd: "updateVersionMap L modified ?c1 = (?c1\<lparr>lc_versionMap := Some vm\<rparr>, None)"
    by auto
  from wf have wfd: "wf_map (lc_deltaWatches c)" by (simp add: linear_wf_def)
  let ?c2 = "?c1\<lparr>lc_versionMap := Some vm\<rparr>"
  from n nc vm upd have c': "c' = ?c2\<lparr>lc_deltaWatches :=
        filter (\<lambda>(id, w). \<not> delta_fires modified ?c2 w) (lc_deltaWatches c)\<rparr>"
    and sends: "delta_messages ch sends = delta_messages ch (map (\<lambda>(id, w). delta_send ?c2 w)
        (filter (\<lambda>(id, w). delta_fires modified ?c2 w) (lc_deltaWatches c)))"
    by (auto simp: notifyAll_def Let_def fold_notify_delta fold_mdel_own [OF wfd])
  have "linear_respondDelta c' = linear_respondDelta ?c2"
    by (simp add: fun_eq_iff c' linear_respondDelta_def linear_container_def linear_getVersion_def)
  with c' show ?thesis unfolding sends delta_messages_delta_send by simp
qed

lemma list_all2_same_map: "list_all2 P (map f xs) (map g xs) \<longleftrightarrow> list_all (\<lambda>x. P (f x) (g x)) xs"
  by (induction xs) auto

text \<open>A modification answers delta watches and removes the ones it answers.\<close>

lemma linear_modifies_serves:
  assumes L: "lib_total L" and inv: "linear_inv L c" and ok: "op_ok c op" and mod: "op_modifies op"
    and step: "linear_step L op c = (c', sends, err)"
  shows "\<exists>ks. distinct ks \<and>
      list_all2 (\<lambda>k m. \<exists>w. linear_parked k c = Some w \<and> dw_Response w = ch \<and> answers linear_view c' w m)
        ks (delta_messages ch sends) \<and>
      (\<forall>k w. linear_parked k c' = Some w \<and> dw_Response w = ch \<longrightarrow> linear_parked k c = Some w \<and> k \<notin> set ks)"
proof -
  from inv have wf: "linear_wf c" by (simp add: linear_inv_def)
  obtain M c1 where n: "notifyAll L M c1 = (c', sends, err)" and b: "bumped op c c1"
    using op_bump [OF wf ok mod, of L] step by auto
  have wf1: "linear_wf c1" by (rule bumped_wf [OF wf b])
  from b have dws: "lc_deltaWatches c1 = lc_deltaWatches c" "lc_versionMap c1 = lc_versionMap c"
    by (auto simp: bumped_def)
  show ?thesis
  proof (cases "lc_versionMap c")
    case None
    with inv have none: "lc_deltaWatches c = []" by (simp add: linear_inv_def)
    from notifyAll_nomap [OF _ n] dws None none have c': "lc_deltaWatches c' = []" by simp
    have "delta_messages ch sends = []"
      using n None dws by (auto simp: notifyAll_def Let_def split: prod.splits)
    then have "list_all2 P [] (delta_messages ch sends)" for P :: "linear_canceler \<Rightarrow> DeltaResponse option \<Rightarrow> bool"
      by simp
    moreover have "linear_parked k c' = None" for k by (cases k) (simp_all add: c')
    ultimately show ?thesis by (intro exI [of _ "[]"]) auto
  next
    case (Some vm0)
    with inv dws have vm0: "lc_versionMap c1 = Some vm0" "wf_map vm0"
      by (simp_all add: linear_inv_def version_map_current_def)
    from notifyAll_delta [OF L wf1 vm0 n] obtain vm where vm: "lc_versionMap c' = Some vm"
      and left: "lc_deltaWatches c' = filter (\<lambda>(i, w). \<not> delta_fires M c' w) (lc_deltaWatches c)"
      by (auto simp: dws)
    from wf have wfd: "wf_map (lc_deltaWatches c)" by (simp add: linear_wf_def)
    let ?served = "filter (\<lambda>(i, w). dw_Response w = ch) (filter (\<lambda>(i, w). delta_fires M c' w) (lc_deltaWatches c))"
    let ?ks = "map (\<lambda>(i, w). CancelDelta i) ?served"
    note msgs = notifyAll_messages [OF L wf1 vm0 n, of ch, unfolded dws]
    have in_c: "mget (lc_deltaWatches c) i = Some w" if "(i, w) \<in> set (lc_deltaWatches c)" for i w
      using that wfd by (simp add: mget_eq_Some_iff)
    have d: "distinct ?ks"
    proof -
      have "wf_map ?served" using wfd by simp
      then have "distinct (map fst ?served)" unfolding wf_map_def .
      then have "distinct (map CancelDelta (map fst ?served))"
        by (subst distinct_map) (intro conjI inj_onI; simp only: linear_canceler.inject)
      moreover have "map CancelDelta (map fst ?served) = ?ks" by (simp add: comp_def split_def)
      ultimately show ?thesis by (simp only:)
    qed
    have l: "list_all2 (\<lambda>k m. \<exists>w. linear_parked k c = Some w \<and> dw_Response w = ch \<and> answers linear_view c' w m)
        ?ks (delta_messages ch sends)"
      unfolding msgs list_all2_same_map list_all_iff
    proof (clarsimp simp: in_c)
      fix i w assume "delta_fires M c' w"
      then obtain resp where "linear_respondDelta c' (dw_Request w) (dw_StreamState w) = Some resp"
        by (auto simp: delta_fires_def)
      with linear_respondDelta_Some [OF this] vm
      show "answers linear_view c' w (map_option RawDelta (linear_respondDelta c' (dw_Request w) (dw_StreamState w)))"
        by (auto simp: answers_def linear_view_def)
    qed
    have p: "\<forall>k w. linear_parked k c' = Some w \<and> dw_Response w = ch \<longrightarrow> linear_parked k c = Some w \<and> k \<notin> set ?ks"
    proof (intro allI impI)
      fix k w assume "linear_parked k c' = Some w \<and> dw_Response w = ch"
      then obtain i where k: "k = CancelDelta i" and "mget (lc_deltaWatches c') i = Some w" by (cases k) auto
      from this(2) have "(i, w) \<in> set (lc_deltaWatches c')" by (blast intro: mget_in_set)
      then have iw: "(i, w) \<in> set (lc_deltaWatches c)" "\<not> delta_fires M c' w" by (simp_all add: left)
      have "CancelDelta i \<notin> set ?ks"
      proof
        assume "CancelDelta i \<in> set ?ks"
        then obtain v where v: "(i, v) \<in> set (lc_deltaWatches c)" "delta_fires M c' v" by auto
        with in_c [OF v(1)] in_c [OF iw(1)] iw(2) show False by simp
      qed
      with in_c [OF iw(1)] show "linear_parked k c = Some w \<and> k \<notin> set ?ks" unfolding k by simp
    qed
    show ?thesis by (rule exI [of _ ?ks]) (intro conjI d l p)
  qed
qed

text \<open>Every other operation answers no watch of this channel and leaves its watches as they are or
  closes them.\<close>

lemma linear_unmodified_silent:
  assumes mod: "\<not> op_modifies op" and step: "linear_step L op c = (c', sends, err)"
    and ch: "\<And>req st ch'. op = OpCreateDeltaWatch req st ch' \<Longrightarrow> ch' \<noteq> ch"
  shows "delta_messages ch sends = []"
    and "linear_parked k c' = Some w \<Longrightarrow> dw_Response w = ch \<Longrightarrow> linear_parked k c = Some w"
proof -
  have "delta_messages ch sends = [] \<and>
    (linear_parked k c' = Some w \<and> dw_Response w = ch \<longrightarrow> linear_parked k c = Some w)"
  proof (cases op)
    case (OpCreateWatch req st v)
    with step have "lc_deltaWatches c' = lc_deltaWatches c \<and> delta_messages ch sends = []"
      by (auto simp: linear_CreateWatch_def linear_respond_def Let_def split: prod.splits if_splits)
    then show ?thesis by (cases k) auto
  next
    case (OpCreateDeltaWatch req st v)
    with step obtain canc where "linear_CreateDeltaWatch L req st v c = (c', sends, canc)"
      by (auto split: prod.splits)
    note cases = linear_CreateDeltaWatch_cases [OF this]
    note other = ch [OF OpCreateDeltaWatch]
    show ?thesis
    proof (cases "linear_respondDelta c' req st")
      case None
      with cases other show ?thesis by (cases k) (auto simp: mget_put split: if_splits)
    next
      case (Some resp)
      with OpCreateDeltaWatch step have "lc_deltaWatches c' = lc_deltaWatches c"
        using updateVersionMap_frame [of L "mkeys (lc_resources c)" c]
        by (auto simp: linear_CreateDeltaWatch_def nextDeltaWatchID_def Let_def split: option.splits if_splits)
      with Some cases other show ?thesis by (cases k) auto
    qed
  next
    case (OpCancel canc)
    with step show ?thesis by (cases k; cases canc) (auto simp: mget_del split: if_splits)
  qed (use mod step in \<open>auto simp: UpdateResource_def\<close>)
  then show "delta_messages ch sends = []"
    and "linear_parked k c' = Some w \<Longrightarrow> dw_Response w = ch \<Longrightarrow> linear_parked k c = Some w" by simp_all
qed

lemma linear_parked_idle:
  assumes "linear_inv L c" and "linear_parked k c = Some w"
  shows "lc_versionMap c \<noteq> None \<and> up_to_date (dw_StreamState w) (linear_container c)"
proof -
  from assms(2) obtain i where "mget (lc_deltaWatches c) i = Some w" by (cases k) auto
  then have w: "(i, w) \<in> set (lc_deltaWatches c)" by (rule mget_in_set)
  with assms(1) have "linear_respondDelta c (dw_Request w) (dw_StreamState w) = None"
    by (auto simp: linear_inv_def linear_idle_def)
  moreover from assms(1) w have "lc_versionMap c \<noteq> None" by (auto simp: linear_inv_def)
  moreover from assms(1) have "wf_map (lc_resources c)" by (simp add: linear_inv_def linear_wf_def)
  ultimately show ?thesis by (simp add: linear_respondDelta_None_iff)
qed

lemma linear_parked_reorder:
  assumes "linear_inv L c" and "linear_reorder c c'"
  shows "linear_parked k c' = linear_parked k c"
proof -
  from assms have "same_entries (lc_deltaWatches c) (lc_deltaWatches c')"
    and "wf_map (lc_deltaWatches c)" by (auto simp: linear_reorder_def linear_inv_def linear_wf_def)
  then show ?thesis by (cases k) (simp_all add: mget_same_entries)
qed

lemma linear_named_reorder: "linear_reorder c c' \<Longrightarrow> linear_named c \<Longrightarrow> linear_named c'"
  using mset_eq_setD [of "lc_resources c" "lc_resources c'"]
  by (auto simp: linear_reorder_def linear_named_def)

interpretation linear_stream: delta_cache L "\<lambda>c. lib_total L \<and> linear_inv L c \<and> linear_named c"
  linear_view "linear_CreateDeltaWatch L" linear_cancel linear_parked "linear_others L" for L
proof (unfold_locales, goal_cases)
  case (1 c req st ch c' sends k)
  from linear_CreateDeltaWatch_cases [OF 1(2)] 1(3) have "k = None" by (auto split: option.splits)
  moreover have "lc_versionMap c' \<noteq> None"
    using 1 updateVersionMap_frame [of L "mkeys (lc_resources c)" c]
    by (auto simp: linear_CreateDeltaWatch_def nextDeltaWatchID_def Let_def split: option.splits if_splits)
  ultimately show ?case by (simp add: linear_view_def)
next
  case (2 c req st ch c' sends k)
  from linear_CreateDeltaWatch_cases [OF 2(2)] 2(3) show ?case by (auto split: option.splits)
next
  case (3 c req st ch c' sends k i)
  show ?case
  proof (cases "linear_respondDelta c' req st")
    case None
    with linear_CreateDeltaWatch_cases [OF 3(2)] 3(3) show ?thesis by (cases i) (auto simp: mget_put)
  next
    case (Some resp)
    then have "lc_deltaWatches c' = lc_deltaWatches c"
      using 3 updateVersionMap_frame [of L "mkeys (lc_resources c)" c] linear_CreateDeltaWatch_cases [OF 3(2)]
      by (auto simp: linear_CreateDeltaWatch_def nextDeltaWatchID_def Let_def split: option.splits if_splits)
    then show ?thesis by (cases i) auto
  qed
next
  case (4 c i)
  moreover have "lc_resources (linear_cancel i c) = lc_resources c" by (cases i) simp_all
  ultimately show ?case using linear_inv_cancel by (auto simp: linear_named_def)
next
  case (5 c j i)
  then show ?case by (cases i; cases j) (auto simp: mget_del)
next
  case (6 c i w r)
  with linear_parked_idle show ?case by (auto simp: linear_view_def split: if_splits)
next
  case (7 c ch c' sends)
  then show ?case
    unfolding linear_others_def using linear_inv_step linear_inv_reorder linear_named_reorder by blast
next
  case (8 c ch c' sends)
  from 8(2) consider (op) op err where "op_ok c op" "linear_step L op c = (c', sends, err)"
      "\<And>req st ch'. op = OpCreateDeltaWatch req st ch' \<Longrightarrow> ch' \<noteq> ch"
    | (re) "linear_reorder c c'" "sends = []" unfolding linear_others_def by blast
  then show ?case
  proof cases
    case op
    show ?thesis
    proof (cases "op_modifies op")
      case True
      with linear_modifies_serves [OF _ _ op(1) True op(2)] 8(1) show ?thesis by blast
    next
      case False
      note silent = linear_unmodified_silent [OF False op(2,3)]
      then show ?thesis by (intro exI [of _ "[]"]) auto
    qed
  next
    case re
    with 8(1) linear_parked_reorder show ?thesis by (intro exI [of _ "[]"]) auto
  qed
qed

end
