(* ===== verification/DeltaServerProps.thy ===== *)
theory DeltaServerProps
  imports DeltaServerFacts LinearProps
begin

text \<open>
  The properties of the incremental server: streams over a linear cache end to end, the
  subscriptions, the nonces, what happens at the end of a stream, and two places where the server
  falls short.
\<close>

section \<open>Streams over a linear cache\<close>

text \<open>A linear cache when a stream opens: reachable, resources under their names, nothing open on
  the channel the stream has just made.\<close>

definition linear_starts :: "lib \<Rightarrow> chan \<Rightarrow> LinearCache \<Rightarrow> bool" where
  "linear_starts L ch c \<longleftrightarrow>
     (\<exists>k. linear_reach L k c) \<and> linear_named c \<and> (\<forall>(i, w) \<in> set (lc_deltaWatches c). dw_Response w \<noteq> ch)"

text \<open>The runs of a stream over a linear cache, and the careful ones.\<close>

abbreviation linear_stream_runs ::
    "lib \<Rightarrow> (LinearCache, linear_canceler) delta_env \<Rightarrow> client \<Rightarrow> (LinearCache, linear_canceler) delta_stream \<Rightarrow> bool" where
  "linear_stream_runs L E \<equiv> delta_reach False (linear_starts L (de_chan E)) (linear_others L) E"

abbreviation linear_stream_reach ::
    "lib \<Rightarrow> (LinearCache, linear_canceler) delta_env \<Rightarrow> client \<Rightarrow> (LinearCache, linear_canceler) delta_stream \<Rightarrow> bool" where
  "linear_stream_reach L E \<equiv> delta_reach True (linear_starts L (de_chan E)) (linear_others L) E"

lemma linear_starts_inv:
  assumes "lib_total L" and "linear_starts L ch c"
  shows "(lib_total L \<and> linear_inv L c \<and> linear_named c) \<and>
    (\<forall>k rw. linear_parked k c = Some rw \<longrightarrow> dw_Response rw \<noteq> ch)"
proof -
  have "dw_Response rw \<noteq> ch" if "linear_parked k c = Some rw" for k rw
    using that assms(2) unfolding linear_starts_def by (cases k) (auto dest: mget_in_set)
  with assms linear_reach_inv show ?thesis by (auto simp: linear_starts_def)
qed

lemma linear_server_cache:
  assumes "dsv_cache (de_server E) = linear_Cache L"
  shows "CreateDeltaWatch (dsv_cache (de_server E)) = linear_CreateDeltaWatch L"
    and "cancel_fn (dsv_cache (de_server E)) = linear_cancel"
  by (simp_all add: assms cache_defs)

lemma linear_stream_ok:
  assumes "lib_total L" and "dsv_cache (de_server E) = linear_Cache L" and "de_lib E = L"
    and "linear_stream_reach L E cl0 s"
  shows "linear_inv L (dst_cache s) \<and> linear_named (dst_cache s) \<and>
    stream_ok L linear_parked (de_chan E) (client_of cl0 (dst_trace s)) s"
  using linear_stream.stream_reach_ok [OF linear_server_cache [OF assms(2)] assms(3)
      linear_starts_inv [OF assms(1)] assms(4)] by blast

text \<open>C2: whatever a client held when its stream opened and whatever has happened since (its requests,
  the responses it was sent, changes of the linear cache by anybody, at any point of the handling of
  a request but one), as long as the names it adds are ones it and the server agree on, and no
  change makes the cache answer a watch in the moment between the server finding the stream's channel
  empty for a request of the watch's type and cancelling the watch: when the cache keeps a watch of the
  stream open, the client that applied everything it was sent holds, for every name it subscribes to,
  exactly the hash of the resource that is in the cache now, and nothing where there is none.\<close>

theorem delta_stream_in_sync:
  assumes "lib_total L" and "dsv_cache (de_server E) = linear_Cache L" and "de_lib E = L"
    and "linear_stream_reach L E cl0 s"
    and "mget (lc_deltaWatches (dst_cache s)) i = Some rw" and "dw_Response rw = de_chan E"
    and "in_scope (dw_StreamState rw) n"
  shows "client_of cl0 (dst_trace s) (dreq_type_url (dw_Request rw)) n =
    map_option (hash_of L) (mget (lc_resources (dst_cache s)) n)"
proof -
  note ok = linear_stream_ok [OF assms(1-4)]
  then have inv: "lib_total L \<and> linear_inv L (dst_cache s) \<and> linear_named (dst_cache s)"
    using assms(1) by simp
  have p: "linear_parked (CancelDelta i) (dst_cache s) = Some rw" using assms(5) by simp
  from ok linear_parked_idle [OF _ p] have vm: "lc_versionMap (dst_cache s) \<noteq> None" by blast
  then have view: "linear_view (dw_Request rw) (dst_cache s) = Some (linear_container (dst_cache s))"
    by (simp add: linear_view_def)
  have "version_map_current L (dst_cache s)" using inv by (simp add: linear_inv_def)
  with linear_stream.open_watch_in_sync [OF inv _ p assms(6) view assms(7)] ok vm
  show ?thesis by (simp add: linear_target)
qed

text \<open>A stream to show it on: a client that already holds \<open>b\<close> opens a watch for it.\<close>

definition sample_env :: "(LinearCache, linear_canceler) delta_env" where
  "sample_env = \<lparr>de_server = NewDeltaServer (linear_Cache sample_lib) None [], de_lib = sample_lib,
     de_streamID = 1, de_typeURL = ''T'', de_chan = 9, de_send = (\<lambda>trace m. None)\<rparr>"

definition sample_wants :: "string \<Rightarrow> (string, string) gomap option \<Rightarrow> DeltaDiscoveryRequest" where
  "sample_wants n vs = empty_delta_request\<lparr>dreq_type_url := ''T'', dreq_node := Some empty_node,
     dreq_resource_names_subscribe := [n], dreq_initial_resource_versions := vs\<rparr>"

abbreviation "sample_subscribe \<equiv> sample_wants ''b'' (Some [(''b'', sample_hash)])"

definition sample_client :: client where
  "sample_client = (\<lambda>typ. [''b'' \<mapsto> sample_hash])"

abbreviation "sample_opened \<equiv> (new_delta_stream sample_linear :: (LinearCache, linear_canceler) delta_stream)"

lemmas delta_server_defs =
  delta_handle_request_def delta_processAll_def delta_accept_def delta_unwatch_def delta_step_def delta_busy_def
  delta_returns_def delta_handled_def delta_fill_node_def delta_fill_type_def delta_rewatch_def
  delta_first_state_def delta_next_state_def new_delta_stream_def NewDeltaServer_def zero_delta_watch_def

lemma sample_opened_reach: "linear_stream_reach sample_lib sample_env cl0 sample_opened"
proof (rule delta_reach.init)
  show "linear_starts sample_lib (de_chan sample_env) sample_linear"
    using sample_linear_reach sample_named by (auto simp: linear_starts_def sample_linear_eq)
qed (simp add: delta_open_def sample_env_def NewDeltaServer_def)

lemma sample_request_ok:
  assumes "n \<noteq> ''*''" and "cl0 ''T'' n = (case vs of None \<Rightarrow> None | Some m \<Rightarrow> mget m n)"
  shows "dst_phase sample_opened = Selecting" and "dst_muxed sample_opened = []"
    and "delta_fill_type (de_typeURL sample_env) (sample_wants n vs) = Inr (sample_wants n vs)"
    and "request_agrees (sample_wants n vs) (mget (dst_watches sample_opened) (dreq_type_url (sample_wants n vs)))
        (client_of cl0 (dst_trace sample_opened) (dreq_type_url (sample_wants n vs)))"
  using assms
  by (auto simp: delta_fill_type_def sample_env_def type_url_defs request_agrees_def new_delta_stream_def in_scope_def
      delta_first_state_def delta_next_state_def sample_wants_def empty_delta_request_def stream_state_defs
      NewStreamState_def agrees_def split: option.splits)

text \<open>A request for one name of which the client has said what it holds parks.\<close>

lemma sample_watch_parks:
  assumes n: "n \<noteq> ''*''" and cl: "cl0 ''T'' n = (case vs of None \<Rightarrow> None | Some m \<Rightarrow> mget m n)"
    and held: "cl0 ''T'' n = map_option (hash_of sample_lib) (mget (lc_resources sample_linear) n)"
  obtains s rw where "linear_stream_reach sample_lib sample_env cl0 s"
    and "delta_loop sample_env (delta_handled (sample_wants n vs)) sample_opened = (s, None)"
    and "dst_phase s = Selecting" and "lc_deltaWatches (dst_cache s) = [(1, rw)]" and "dw_Response rw = de_chan sample_env"
    and "dreq_type_url (dw_Request rw) = ''T''" and "in_scope (dw_StreamState rw) n"
    and "lc_resources (dst_cache s) = lc_resources sample_linear" and "dst_trace s = []"
    and "dst_muxed s = []" and "IsWildcard (dw_StreamState rw) = False" and "\<not> lc_nilResources (dst_cache s)"
proof -
  let ?st = "(NewStreamState False vs)\<lparr>ss_subscribedResourceNames := [n]\<rparr>" and ?req = "sample_wants n vs"
  obtain c' sends canc where d: "linear_CreateDeltaWatch sample_lib ?req ?st 9 sample_linear = (c', sends, canc)"
    by (metis prod_cases3)
  note inv0 = linear_reach_inv [OF sample_linear_reach lib_total_sample]
  have inv: "linear_inv sample_lib c'" by (rule linear_inv_CreateDeltaWatch [OF lib_total_sample inv0 d])
  then have wf: "wf_map (lc_resources c')" and cur: "version_map_current sample_lib c'"
    by (simp_all add: linear_inv_def linear_wf_def)
  have vm: "lc_versionMap c' \<noteq> None"
    using linear_delta_versions [OF lib_total_sample inv0 d] by (auto simp: linear_view_def split: if_splits)
  note cases = linear_CreateDeltaWatch_cases [OF d]
  have "mget (ss_resourceVersions ?st) n = map_option (hash_of sample_lib) (mget (lc_resources c') n)"
    using cl held cases by (cases vs) (simp_all add: NewStreamState_def)
  then have "linear_respondDelta c' ?req ?st = None"
    unfolding linear_respondDelta_None_iff [OF wf]
    using version_of_linear_current [OF cur vm, of n]
    by (auto simp: up_to_date_def in_scope_def NewStreamState_def stream_state_defs linear_container_def mget_or_def
        split: option.split)
  with cases have sends: "sends = []"
    and i: "lc_deltaWatches c' = [(1, \<lparr>dw_Request = ?req, dw_Response = 9, dw_StreamState = ?st\<rparr>)]"
    by (auto simp: sample_linear_eq)
  obtain vm0 where vm0: "fst (updateVersionMap sample_lib (mkeys (lc_resources sample_linear)) sample_linear) =
      sample_linear\<lparr>lc_versionMap := Some vm0\<rparr>" using updateVersionMap_frame by blast
  have "lc_versionMap sample_linear = None" "\<not> lc_nilResources sample_linear" by (simp_all add: sample_linear_eq)
  then have nil: "\<not> lc_nilResources c'"
    using d by (auto simp: linear_CreateDeltaWatch_def nextDeltaWatchID_def Let_def vm0 split: option.splits)
  have same: "(if vs = None then ?req else ?req\<lparr>dreq_initial_resource_versions := Some (ss_resourceVersions ?st)\<rparr>) = ?req"
    by (cases vs) (simp_all add: sample_wants_def NewStreamState_def)
  have "\<exists>s. delta_loop sample_env (delta_handled ?req) sample_opened = (s, None) \<and> dst_cache s = c' \<and>
      dst_trace s = [] \<and> dst_muxed s = [] \<and> dst_phase s = Selecting"
    using d sends same n
    by (cases vs) (simp_all add: delta_server_defs sample_env_def sample_wants_def empty_delta_request_def Let_def
        stream_state_defs NewStreamState_def cache_defs type_url_defs)
  then obtain s where s: "delta_loop sample_env (delta_handled ?req) sample_opened = (s, None)"
    "dst_cache s = c'" "dst_trace s = []" "dst_muxed s = []" "dst_phase s = Selecting" by blast
  have "linear_stream_reach sample_lib sample_env cl0 s"
    by (rule delta_handled_reach [OF sample_opened_reach sample_request_ok [of n cl0 vs, OF n cl] s(1)])
  with s i cases nil show thesis
    by (intro that [of s]) (auto simp: sample_env_def sample_wants_def in_scope_def empty_delta_request_def
        NewStreamState_def stream_state_defs)
qed

lemma sample_stream_open:
  obtains s i rw where "linear_stream_reach sample_lib sample_env sample_client s"
    and "delta_loop sample_env (delta_handled sample_subscribe) sample_opened = (s, None)"
    and "dst_phase s = Selecting" and "mget (lc_deltaWatches (dst_cache s)) i = Some rw" and "dw_Response rw = de_chan sample_env"
    and "dreq_type_url (dw_Request rw) = ''T''" and "in_scope (dw_StreamState rw) ''b''"
    and "mget (lc_resources (dst_cache s)) ''b'' = Some (cla ''b'' [2])" and "dst_trace s = []"
    and "dst_muxed s = []" and "IsWildcard (dw_StreamState rw) = False"
proof (rule sample_watch_parks [of "''b''" sample_client "Some [(''b'', sample_hash)]"])
  fix s :: "(LinearCache, linear_canceler) delta_stream" and rw
  assume "lc_deltaWatches (dst_cache s) = [(1, rw)]" "lc_resources (dst_cache s) = lc_resources sample_linear"
  then have "mget (lc_deltaWatches (dst_cache s)) 1 = Some rw"
    "mget (lc_resources (dst_cache s)) ''b'' = Some (cla ''b'' [2])" by (simp_all add: sample_linear_eq)
  moreover assume "linear_stream_reach sample_lib sample_env sample_client s"
    "delta_loop sample_env (delta_handled sample_subscribe) sample_opened = (s, None)"
    "dst_phase s = Selecting" "dw_Response rw = de_chan sample_env"
    "dreq_type_url (dw_Request rw) = ''T''" "in_scope (dw_StreamState rw) ''b''" "dst_trace s = []"
    "dst_muxed s = []" "IsWildcard (dw_StreamState rw) = False"
  ultimately show thesis by (intro that [of s 1 rw])
qed (simp_all add: sample_client_def sample_linear_eq)

theorem delta_stream_in_sync_witness:
  "\<exists>s. linear_stream_reach sample_lib sample_env sample_client s \<and>
     client_of sample_client (dst_trace s) ''T'' ''b'' = Some (hash_of sample_lib (cla ''b'' [2]))"
proof -
  obtain s i rw where s: "linear_stream_reach sample_lib sample_env sample_client s"
    and i: "mget (lc_deltaWatches (dst_cache s)) i = Some rw" "dw_Response rw = de_chan sample_env"
    and t: "dreq_type_url (dw_Request rw) = ''T''" and b: "in_scope (dw_StreamState rw) ''b''"
    and r: "mget (lc_resources (dst_cache s)) ''b'' = Some (cla ''b'' [2])"
    by (rule sample_stream_open)
  have "dsv_cache (de_server sample_env) = linear_Cache sample_lib" "de_lib sample_env = sample_lib"
    by (simp_all add: sample_env_def NewDeltaServer_def)
  from delta_stream_in_sync [OF lib_total_sample this s i b] t r s show ?thesis by auto
qed

section \<open>Requests\<close>

lemma found_state_node [simp]: "found_state (req\<lparr>dreq_node := n\<rparr>) = found_state req"
  by (simp add: fun_eq_iff found_state_def delta_next_state_def delta_first_state_def split: option.split)

text \<open>C9: every request is served: when the server of a stream over a linear cache, with nothing in the
  channel, handles a request without being disturbed or refused by a callback, and server and client
  agree on the names the request adds, then its watch has the subscriptions the request asks for, and: if the cache has anything that differs from what the server recorded for a name
  now subscribed to, or it is the first request of a wildcard, the channel holds exactly one message,
  the response for the request's type computed from the state of that watch and the present contents,
  and the cache keeps no watch for it; otherwise nothing is sent (the protocol would have a response
  for a name that is newly subscribed to even then), the watch is open in the cache, and the client
  already holds, for every name it subscribes to, exactly what the cache has.\<close>

theorem delta_request_is_served:
  assumes "lib_total L" and "dsv_cache (de_server E) = linear_Cache L" and "de_lib E = L"
    and "linear_stream_reach L E cl0 s" and "dst_phase s = Selecting" and "dst_muxed s = []"
    and "delta_fill_type (de_typeURL E) req = Inr req1"
    and "request_agrees req1 (mget (dst_watches s) (dreq_type_url req1))
      (client_of cl0 (dst_trace s) (dreq_type_url req1))"
    and "delta_loop E [InRequest (Some req), InStep, InStep, InStep] s = (s', None)"
  shows "\<exists>w. mget (dst_watches s') (dreq_type_url req1) = Some w \<and> dst_phase s' = Selecting \<and>
    dwt_state w = found_state req1 (mget (dst_watches s) (dreq_type_url req1)) \<and>
    (if IsWildcard (dwt_state w) \<and> IsFirst (dwt_state w) \<or> \<not> up_to_date (dwt_state w) (linear_container (dst_cache s'))
     then dwt_cancel w = None \<and> (\<exists>req'. dreq_type_url req' = dreq_type_url req1 \<and>
       dst_muxed s' = [Muxed (Some (RawDelta
         (createDeltaResponse Background req' (dwt_state w) (linear_container (dst_cache s')))))])
     else dst_muxed s' = [] \<and>
       (\<exists>i rw. dwt_cancel w = Some (CancelDelta i) \<and> mget (lc_deltaWatches (dst_cache s')) i = Some rw \<and>
          dw_Response rw = de_chan E \<and> dreq_type_url (dw_Request rw) = dreq_type_url req1 \<and>
          dw_StreamState rw = dwt_state w) \<and>
       (\<forall>n. in_scope (dwt_state w) n \<longrightarrow> client_of cl0 (dst_trace s') (dreq_type_url req1) n =
          map_option (hash_of L) (mget (lc_resources (dst_cache s')) n)))"
proof -
  let ?tp = "dreq_type_url req1" and ?ch = "de_chan E"
  note C = linear_server_cache [OF assms(2)]
  obtain es node sA sR req2 w where
    sA: "sA = s\<lparr>dst_trace := dst_trace s @ es, dst_node := node, dst_phase := Accepted (req1\<lparr>dreq_node := Some node\<rparr>)\<rparr>"
    and un: "delta_unwatch E (req1\<lparr>dreq_node := Some node\<rparr>) sA = (sR, None)" and re: "dst_phase sR = Rewatching req2 w"
    and ty: "dreq_type_url req2 = ?tp" and s': "s' = delta_rewatch E req2 w sR"
    and reach: "linear_stream_reach L E cl0 sA" "linear_stream_reach L E cl0 sR" "linear_stream_reach L E cl0 s'"
    by (rule delta_handled_reach [OF assms(4,5,6,7,8) assms(9) [folded delta_handled_def]]) (rule that)
  note ok = linear_stream_ok [OF assms(1-3)]
  have maps: "\<not> dwt_nilmaps v" if "mget (dst_watches sA) (dreq_type_url (req1\<lparr>dreq_node := Some node\<rparr>)) = Some v" for v
    using ok [OF reach(1)] that unfolding stream_ok_def by blast
  have st: "dwt_state w = found_state req1 (mget (dst_watches s) ?tp)"
    by (rule linear_stream.delta_unwatch_cases [OF C(2) maps un]) (use re in \<open>auto simp: sA\<close>)
  have empty: "dst_muxed sR = []" using delta_unwatch_frame [OF un] assms(6) by (simp add: sA)
  obtain c' sends k where cr: "linear_CreateDeltaWatch L req2 (dwt_state w) ?ch (dst_cache sR) = (c', sends, k)"
    by (metis prod_cases3)
  have eq: "s' = sR\<lparr>dst_phase := Selecting, dst_cache := c', dst_muxed := map Muxed (delta_messages ?ch sends),
      dst_watches := mput ?tp (w\<lparr>dwt_cancel := k\<rparr>) (dst_watches sR)\<rparr>"
    by (simp add: s' delta_rewatch_def C cr empty ty)
  note ok' = ok [OF reach(3)]
  then have inv: "lib_total L \<and> linear_inv L (dst_cache s') \<and> linear_named (dst_cache s')" using assms(1) by simp
  then have "wf_map (lc_resources c')" by (simp add: eq linear_inv_def linear_wf_def)
  note none_iff = linear_respondDelta_None_iff [OF this, of req2 "dwt_state w"]
  note cases = linear_CreateDeltaWatch_cases [OF cr]
  let ?w = "w\<lparr>dwt_cancel := k\<rparr>"
  have w: "mget (dst_watches s') ?tp = Some ?w \<and> dst_phase s' = Selecting" by (simp add: eq)
  show ?thesis
  proof (cases "linear_respondDelta c' req2 (dwt_state w)")
    case None
    with cases have silent: "sends = []" and k: "k = Some (CancelDelta (lc_deltaWatchCount c'))"
      and rw: "mget (lc_deltaWatches c') (lc_deltaWatchCount c') =
        Some \<lparr>dw_Request = req2, dw_Response = ?ch, dw_StreamState = dwt_state w\<rparr>" by auto
    have pk: "linear_parked (CancelDelta (lc_deltaWatchCount c')) (dst_cache s') =
        Some \<lparr>dw_Request = req2, dw_Response = ?ch, dw_StreamState = dwt_state w\<rparr>" using rw by (simp add: eq)
    from linear_parked_idle [OF _ pk] inv have vm: "lc_versionMap (dst_cache s') \<noteq> None" by blast
    then have view: "linear_view req2 (dst_cache s') = Some (linear_container (dst_cache s'))"
      by (simp add: linear_view_def)
    have "version_map_current L (dst_cache s')" using inv by (simp add: linear_inv_def)
    then have "client_of cl0 (dst_trace s') ?tp n = map_option (hash_of L) (mget (lc_resources (dst_cache s')) n)"
      if "in_scope (dwt_state w) n" for n
      using linear_stream.open_watch_in_sync [OF inv _ pk, of ?ch "client_of cl0 (dst_trace s')"] ok' vm view ty that
      by (simp add: linear_target)
    moreover have "\<not> (IsWildcard (dwt_state w) \<and> IsFirst (dwt_state w) \<or> \<not> up_to_date (dwt_state w) (linear_container c'))"
      using None none_iff by simp
    moreover have "dst_muxed s' = []" by (simp add: eq silent)
    ultimately show ?thesis
      using w st k rw ty by (intro exI [of _ ?w]) (simp add: eq)
  next
    case (Some resp)
    with cases have "sends = [SendDelta ?ch (Some (RawDelta resp))]" and k: "k = None" by simp_all
    moreover have "resp = createDeltaResponse Background req2 (dwt_state w) (linear_container c')"
      by (rule linear_respondDelta_Some [OF Some])
    moreover have "IsWildcard (dwt_state w) \<and> IsFirst (dwt_state w) \<or> \<not> up_to_date (dwt_state w) (linear_container c')"
      using Some none_iff by auto
    ultimately show ?thesis using w st ty by (intro exI [of _ ?w]) (auto simp: eq)
  qed
qed

theorem delta_request_is_served_witness:
  "\<exists>s w. delta_loop sample_env [InRequest (Some sample_subscribe), InStep, InStep, InStep] sample_opened = (s, None) \<and>
     mget (dst_watches s) ''T'' = Some w \<and> dst_muxed s = [] \<and> (\<exists>i. dwt_cancel w = Some (CancelDelta i))"
proof -
  obtain s where s: "delta_loop sample_env (delta_handled sample_subscribe) sample_opened = (s, None)"
    and m: "dst_muxed s = []"
    by (rule sample_stream_open)
  have E: "dsv_cache (de_server sample_env) = linear_Cache sample_lib" "de_lib sample_env = sample_lib"
    by (simp_all add: sample_env_def NewDeltaServer_def)
  have cl: "sample_client ''T'' ''b'' = (case Some [(''b'', sample_hash)] of None \<Rightarrow> None | Some m \<Rightarrow> mget m ''b'')"
    by (simp add: sample_client_def)
  have ty: "dreq_type_url sample_subscribe = ''T''" by (simp add: sample_wants_def)
  obtain w where "mget (dst_watches s) ''T'' = Some w" "\<exists>i. dwt_cancel w = Some (CancelDelta i)"
    using delta_request_is_served [OF lib_total_sample E sample_opened_reach sample_request_ok [of "''b''" sample_client, OF _ cl]
        s [unfolded delta_handled_def]] m
    unfolding ty by (auto split: if_splits)
  with s m show ?thesis unfolding delta_handled_def by blast
qed

section \<open>The end of a stream\<close>

text \<open>C23: when the loop of a stream over a linear cache returns, whatever happened before (requests of any
  kind, changes of the cache at any moment) and whatever it returns (the end of the requests, the end of
  the server's context, an empty request, a request without a type, an error of a callback, a response
  that cannot be made or sent, a panic, in the \<open>select\<close> or half-way through a request), the deferred
  function leaves no delta watch in the cache that would send to the channel of the stream, which is
  closed then.\<close>

theorem delta_stream_ends_clean:
  assumes "lib_total L" and "dsv_cache (de_server E) = linear_Cache L"
    and "linear_stream_runs L E cl0 s" and "delta_select E i s = (s1, Some r)"
  shows "de_chan E \<notin> (\<lambda>(i, rw). dw_Response rw) ` set (lc_deltaWatches (dst_cache (delta_shutdown E s1)))"
proof
  let ?c = "dst_cache (delta_shutdown E s1)"
  assume "de_chan E \<in> (\<lambda>(i, rw). dw_Response rw) ` set (lc_deltaWatches ?c)"
  then obtain j rw where rw: "(j, rw) \<in> set (lc_deltaWatches ?c)" "dw_Response rw = de_chan E" by auto
  note C = linear_server_cache [OF assms(2)]
  note run = linear_stream.stream_run_owned [OF C linear_starts_inv [OF assms(1)] assms(3)]
  have "\<And>f. i \<noteq> InCache f" using assms(4) by (auto split: prod.splits)
  with run have inv: "lib_total L \<and> linear_inv L (dst_cache s1) \<and> linear_named (dst_cache s1)"
    and own: "owned linear_parked (de_chan E) s1"
    using linear_stream.owned_select [OF C _ _ assms(4)] by blast+
  have "wf_map (lc_deltaWatches ?c)"
    using linear_stream.shutdown_inv [OF C(2) inv] by (simp add: linear_inv_def linear_wf_def)
  with rw(1) have "linear_parked (CancelDelta j) ?c = Some rw" by (simp add: mget_eq_Some_iff)
  with linear_stream.shutdown_clean [OF C(2) inv own] rw(2) show False by blast
qed

theorem delta_stream_ends_clean_witness:
  "\<exists>s. 9 \<in> (\<lambda>(i, rw). dw_Response rw) ` set (lc_deltaWatches (dst_cache s)) \<and>
     delta_select sample_env (InRequest None) s = (s, Some (Some EmptyRequest)) \<and>
     9 \<notin> (\<lambda>(i, rw). dw_Response rw) ` set (lc_deltaWatches (dst_cache (delta_shutdown sample_env s)))"
proof -
  obtain s i rw where s: "linear_stream_reach sample_lib sample_env sample_client s"
    and i: "mget (lc_deltaWatches (dst_cache s)) i = Some rw" "dw_Response rw = de_chan sample_env"
    and ph: "dst_phase s = Selecting"
    by (rule sample_stream_open)
  have E: "dsv_cache (de_server sample_env) = linear_Cache sample_lib" "de_chan sample_env = 9"
    by (simp_all add: sample_env_def NewDeltaServer_def)
  have "9 \<in> (\<lambda>(i, rw). dw_Response rw) ` set (lc_deltaWatches (dst_cache s))"
    using mget_in_set [OF i(1)] i(2) E(2) by force
  moreover have sel: "delta_select sample_env (InRequest None) s = (s, Some (Some EmptyRequest))"
    using ph by (simp add: delta_busy_iff delta_handle_request_def delta_returns_def)
  ultimately show ?thesis
    using delta_stream_ends_clean [OF lib_total_sample E(1) delta_reach_careless [OF s] sel, unfolded E(2)] by blast
qed

section \<open>Subscriptions\<close>

text \<open>C13: what a request does to the subscriptions of its type: the stream is a wildcard when it was
  or the request subscribes to \<open>"*"\<close>, unless it unsubscribes from \<open>"*"\<close>; the explicit names are the old
  and the subscribed ones without the unsubscribed ones (\<open>"*"\<close> is never a name); a recorded version
  changes only where an explicit name is unsubscribed from a stream that is a wildcard at that moment:
  it becomes empty, so that the resource is sent again.\<close>

theorem subscription_update:
  "IsWildcard (delta_next_state req st) =
     ((IsWildcard st \<or> ''*'' \<in> set (dreq_resource_names_subscribe req)) \<and>
      ''*'' \<notin> set (dreq_resource_names_unsubscribe req))
   \<and> set (ss_subscribedResourceNames (delta_next_state req st)) =
       (set (ss_subscribedResourceNames st) \<union> (set (dreq_resource_names_subscribe req) - {''*''}))
         - (set (dreq_resource_names_unsubscribe req) - {''*''})
   \<and> mget (ss_resourceVersions (delta_next_state req st)) n =
       (if (IsWildcard st \<or> ''*'' \<in> set (dreq_resource_names_subscribe req)) \<and> n \<noteq> ''*''
          \<and> (n \<in> set (ss_subscribedResourceNames st) \<or> n \<in> set (dreq_resource_names_subscribe req))
          \<and> n \<in> set (takeWhile (\<lambda>r. r \<noteq> ''*'') (dreq_resource_names_unsubscribe req))
        then Some '''' else mget (ss_resourceVersions st) n)
   \<and> IsFirst (delta_next_state req st) = IsFirst st"
  unfolding delta_next_state_def mget_versions_unsubscribe
  by (auto simp: IsFirst_def)

section \<open>Nonces\<close>

text \<open>The nonces of the responses that were sent.\<close>

definition sent_nonces :: "delta_event list \<Rightarrow> string list" where
  "sent_nonces trace = concat (map (\<lambda>e. case e of EvDeltaSend m \<Rightarrow> [dresp_nonce m] | _ \<Rightarrow> []) trace)"

lemma sent_nonces_append [simp]: "sent_nonces (xs @ ys) = sent_nonces xs @ sent_nonces ys"
  by (simp add: sent_nonces_def)

lemma sent_nonces_event [simp]:
  "sent_nonces (EvDeltaSend m # es) = dresp_nonce m # sent_nonces es"
  "sent_nonces (EvDeltaResponse i r m # es) = sent_nonces es" "sent_nonces (EvDeltaRequest i r # es) = sent_nonces es"
  "sent_nonces (EvDeltaOpen i t # es) = sent_nonces es" "sent_nonces [] = []"
  by (simp_all add: sent_nonces_def)

text \<open>While the stream runs, the counter is the number of responses sent.\<close>

definition nonces_count :: "nat \<Rightarrow> ('c, 'k) delta_stream \<Rightarrow> bool" where
  "nonces_count k s \<longleftrightarrow> dst_nonce s = of_nat k \<and>
     sent_nonces (dst_trace s) = map (\<lambda>i. FormatInt (of_nat i)) [1..<Suc k]"

lemma nonces_count_frame [simp]:
  "nonces_count k (s\<lparr>dst_phase := ph\<rparr>) = nonces_count k s"
  "nonces_count k (s\<lparr>dst_muxed := q\<rparr>) = nonces_count k s"
  "nonces_count k (s\<lparr>dst_cache := c\<rparr>) = nonces_count k s"
  "nonces_count k (s\<lparr>dst_watches := ws\<rparr>) = nonces_count k s"
  "nonces_count k (s\<lparr>dst_node := n\<rparr>) = nonces_count k s"
  by (simp_all add: nonces_count_def)

lemma nonces_count_log [simp]:
  "sent_nonces [e] = [] \<Longrightarrow> nonces_count k (s\<lparr>dst_trace := dst_trace s @ [e]\<rparr>) = nonces_count k s"
  by (simp add: nonces_count_def)

lemma next_nonce: "(of_nat k :: int64) + 1 = of_nat (Suc k)"
  by simp

lemma nonces_send:
  assumes "nonces_count k s" and "delta_process E m s = (s', None)"
  shows "nonces_count (Suc k) s'"
  using assms
  by (auto simp: delta_process_def delta_send_response_def Let_def nonces_count_def next_nonce simp del: of_nat_Suc
      split: delta_message.splits option.splits prod.splits sum.splits if_splits)

lemma nonces_step:
  assumes "nonces_count k s" and "delta_step E s = (s', None)"
  shows "\<exists>k. nonces_count k s'"
proof (cases "dst_phase s")
  case (Draining req)
  then have all: "delta_processAll E req s = (s', None)" using assms(2) by (simp add: delta_step_def)
  show ?thesis
  proof (cases "dst_muxed s")
    case Nil
    with all have "delta_accept E req s = (s', None)" by (simp add: delta_processAll_def)
    with assms(1) have "nonces_count k s'"
      by (auto simp: delta_accept_def delta_fill_node_def Let_def split: option.splits sum.splits if_splits)
    then show ?thesis by blast
  next
    case (Cons m msgs)
    with all have "delta_process E m (s\<lparr>dst_muxed := msgs\<rparr>) = (s', None)" by (simp add: delta_processAll_def)
    from nonces_send [OF _ this, of k] assms(1) show ?thesis by auto
  qed
next
  case (Accepted req)
  with assms have "nonces_count k s'"
    by (auto simp: delta_step_def delta_unwatch_def Let_def split: option.splits if_splits)
  then show ?thesis by blast
next
  case (Rewatching req w)
  with assms have "nonces_count k s'" by (auto simp: delta_step_def delta_rewatch_def split: prod.splits)
  then show ?thesis by blast
qed (use assms in \<open>auto simp: delta_step_def\<close>)

lemma nonces_select:
  assumes "nonces_count k s" and "delta_select E i s = (s', None)"
  shows "\<exists>k. nonces_count k s'"
proof (cases i)
  case InMessage
  show ?thesis
  proof (cases "delta_busy s \<or> dst_muxed s = []")
    case False
    then obtain m msgs where "dst_muxed s = m # msgs" by (cases "dst_muxed s") auto
    with False InMessage assms(2) have p: "delta_process E m (s\<lparr>dst_muxed := msgs\<rparr>) = (s', None)" by simp
    from nonces_send [OF _ p, of k] assms(1) show ?thesis by auto
  next
    case True
    with InMessage assms show ?thesis by (cases "delta_busy s") auto
  qed
next
  case (InRequest req)
  with assms show ?thesis by (auto simp: delta_handle_request_def split: if_splits option.splits)
next
  case InStep
  with assms nonces_step show ?thesis by simp
qed (use assms in \<open>auto split: prod.splits if_splits\<close>)

text \<open>On a stream that is running, the responses sent so far carry the nonces 1, 2, 3, ... in
  decimal, in this order, whatever the cache, the callbacks and the client do.\<close>

theorem delta_nonces:
  fixes E :: "('c, 'k) delta_env"
  assumes "delta_open E c = (s0, None)" and "delta_loop E inputs s0 = (s, None)"
  shows "\<exists>k. sent_nonces (dst_trace s) = map (\<lambda>i. FormatInt (of_nat i)) [1..<Suc k] \<and> dst_nonce s = of_nat k"
proof -
  have "nonces_count 0 s0"
    using assms(1) by (auto simp: delta_open_def new_delta_stream_def nonces_count_def Let_def split: option.splits)
  moreover have "\<exists>k. nonces_count k s" if "nonces_count k s1" "delta_loop E inputs s1 = (s, None)"
    for k and s1 :: "('c, 'k) delta_stream"
    using that
  proof (induction inputs arbitrary: s1 k)
    case (Cons i inputs)
    then obtain s2 where s2: "delta_select E i s1 = (s2, None)" "delta_loop E inputs s2 = (s, None)"
      by (auto split: prod.splits option.splits)
    with nonces_select Cons.prems(1) obtain k2 where "nonces_count k2 s2" by metis
    from Cons.IH [OF this s2(2)] show ?case .
  qed auto
  ultimately show ?thesis using assms(2) unfolding nonces_count_def by blast
qed

text \<open>A cache that answers every delta request at once with a message of its own.\<close>

definition answering_cache :: "(unit, unit) Cache" where
  "answering_cache = \<lparr>CreateWatch = (\<lambda>req st ch c. (c, [], None)),
     CreateDeltaWatch = (\<lambda>req st ch c. (c, [SendDelta ch (Some (DeltaPassthrough
       \<lparr>passd_request = req, passd_next_version_map = [],
        passd_response = Some \<lparr>dresp_system_version_info = '''', dresp_resources = [], dresp_removed_resources = [],
          dresp_type_url = dreq_type_url req, dresp_nonce = ''''\<rparr>, passd_ctx = Background\<rparr>))], None)),
     Fetch = (\<lambda>ctx req c. Inl NotImplemented), cancel_fn = (\<lambda>k c. c)\<rparr>"

definition answering_env :: "(unit, unit) delta_env" where
  "answering_env = \<lparr>de_server = NewDeltaServer answering_cache None [], de_lib = sample_lib,
     de_streamID = 1, de_typeURL = ''T'', de_chan = 9, de_send = (\<lambda>trace m. None)\<rparr>"

lemmas answering_defs = answering_env_def answering_cache_def new_delta_stream_def NewDeltaServer_def
  delta_open_def delta_server_defs delta_process_def delta_send_response_def Let_def empty_delta_request_def
  empty_node_def NewStreamState_def stream_state_defs type_url_defs FormatInt_def sent_nonces_def

abbreviation "answering_run \<equiv> delta_loop answering_env
  (delta_handled empty_delta_request @ [InMessage] @ delta_handled empty_delta_request @ [InMessage]) (new_delta_stream ())"

theorem delta_nonces_witness:
  "\<exists>k. sent_nonces (dst_trace (fst answering_run)) = map (\<lambda>i. FormatInt (of_nat i)) [1..<Suc k] \<and>
     length (sent_nonces (dst_trace (fst answering_run))) = 2"
proof -
  have o: "delta_open answering_env () = (new_delta_stream (), None)"
    by (simp add: delta_open_def answering_env_def NewDeltaServer_def)
  obtain s where s: "answering_run = (s, None)" and two: "length (sent_nonces (dst_trace s)) = 2"
    by (simp add: answering_defs)
  from delta_nonces [OF o s] two show ?thesis unfolding s by auto
qed

section \<open>Where the server falls short\<close>

lemma linear_cancel_frame:
  "linear_container (linear_cancel k c) = linear_container c"
  "lc_versionMap (linear_cancel k c) = lc_versionMap c"
  by (cases k; simp add: linear_container_def linear_getVersion_def)+

text \<open>A request after which the stream is up to date goes unanswered.\<close>

lemma linear_rewatch_silent:
  assumes "lib_total L" and C: "dsv_cache (de_server E) = linear_Cache L"
    and inv: "linear_inv L (dst_cache s)" "linear_named (dst_cache s)"
    and vm: "lc_versionMap (dst_cache s) \<noteq> None"
    and w: "mget (dst_watches s) (dreq_type_url req) = Some w" "\<not> dwt_nilmaps w"
    and st: "\<not> (IsWildcard (delta_next_state req (dwt_state w)) \<and> IsFirst (delta_next_state req (dwt_state w)))"
    and up: "up_to_date (delta_next_state req (dwt_state w)) (linear_container (dst_cache s))"
    and un: "delta_unwatch E req s = (sR, None)" and re: "dst_phase sR = Rewatching req1 w'"
    and s': "s' = delta_rewatch E req1 w' sR"
  shows "dst_muxed s' = dst_muxed s \<and> dst_phase s' = Selecting \<and> dst_trace s' = dst_trace s
    \<and> linear_inv L (dst_cache s') \<and> linear_named (dst_cache s')
    \<and> lc_versionMap (dst_cache s') \<noteq> None
    \<and> linear_container (dst_cache s') = linear_container (dst_cache s)
    \<and> (\<exists>w'. mget (dst_watches s') (dreq_type_url req) = Some w' \<and> \<not> dwt_nilmaps w' \<and>
          dwt_state w' = delta_next_state req (dwt_state w))
    \<and> (\<exists>i. mget (lc_deltaWatches (dst_cache s')) i =
          Some \<lparr>dw_Request = req1, dw_Response = de_chan E, dw_StreamState = delta_next_state req (dwt_state w)\<rparr>)"
proof -
  note E = linear_server_cache [OF C]
  have maps: "\<not> dwt_nilmaps v" if "mget (dst_watches s) (dreq_type_url req) = Some v" for v
    using that w by simp
  obtain c1 req2 w2 where
    c1: "c1 = (case mget (dst_watches s) (dreq_type_url req) of None \<Rightarrow> dst_cache s
       | Some w \<Rightarrow> (case dwt_cancel w of None \<Rightarrow> dst_cache s | Some i \<Rightarrow> linear_cancel i (dst_cache s)))"
    and "sR = s\<lparr>dst_cache := c1, dst_phase := Rewatching req2 w2\<rparr>" and "dreq_type_url req2 = dreq_type_url req"
    and "dwt_state w2 = found_state req (mget (dst_watches s) (dreq_type_url req))" "\<not> dwt_nilmaps w2"
    by (rule linear_stream.delta_unwatch_cases [OF E(2) maps un]) (assumption, rule that)
  with re have sR: "sR = s\<lparr>dst_cache := c1, dst_phase := Rewatching req1 w'\<rparr>"
    and ty: "dreq_type_url req1 = dreq_type_url req"
    and st': "dwt_state w' = found_state req (mget (dst_watches s) (dreq_type_url req))" "\<not> dwt_nilmaps w'"
    by simp_all
  have same: "linear_container c1 = linear_container (dst_cache s)" "lc_versionMap c1 = lc_versionMap (dst_cache s)"
    by (simp_all add: c1 linear_cancel_frame split: option.split)
  have inv1: "lib_total L \<and> linear_inv L c1 \<and> linear_named c1"
    using linear_stream.cancel_inv [of L "dst_cache s"] inv assms(1) by (simp add: c1 split: option.split)
  have st1: "dwt_state w' = delta_next_state req (dwt_state w)" by (simp add: st' found_state_def w)
  have "wf_map (lc_resources c1)" using inv1 by (simp add: linear_inv_def linear_wf_def)
  then have none: "linear_respondDelta c1 req1 (dwt_state w') = None"
    using st up by (simp add: linear_respondDelta_None_iff st1 same)
  have "lc_versionMap c1 \<noteq> None" using vm same by simp
  then have cr: "linear_CreateDeltaWatch L req1 (dwt_state w') (de_chan E) c1 =
     (c1\<lparr>lc_deltaWatchCount := lc_deltaWatchCount c1 + 1, lc_deltaWatches :=
      mput (lc_deltaWatchCount c1 + 1) \<lparr>dw_Request = req1, dw_Response = de_chan E, dw_StreamState = dwt_state w'\<rparr>
        (lc_deltaWatches c1)\<rparr>, [], Some (CancelDelta (lc_deltaWatchCount c1 + 1)))" (is "_ = (?c, _, _)")
    by (auto simp: linear_CreateDeltaWatch_def Let_def nextDeltaWatchID_def none)
  have "lib_total L \<and> linear_inv L ?c \<and> linear_named ?c" by (rule linear_delta.create_inv [OF inv1 cr])
  moreover have "linear_container ?c = linear_container c1" "lc_versionMap ?c = lc_versionMap c1"
    by (simp_all add: linear_container_def linear_getVersion_def)
  moreover have eq: "s' = s\<lparr>dst_phase := Selecting, dst_cache := ?c,
      dst_watches := mput (dreq_type_url req) (w'\<lparr>dwt_cancel := Some (CancelDelta (lc_deltaWatchCount c1 + 1))\<rparr>) (dst_watches s)\<rparr>"
    by (cases s) (simp add: s' delta_rewatch_def sR E cr ty)
  moreover have "mget (lc_deltaWatches (dst_cache s')) (lc_deltaWatchCount c1 + 1) =
      Some \<lparr>dw_Request = req1, dw_Response = de_chan E, dw_StreamState = delta_next_state req (dwt_state w)\<rparr>"
    by (simp add: eq st1)
  ultimately show ?thesis using same vm st'(2) st1 by (auto intro!: exI [of _ "lc_deltaWatchCount c1 + 1"])
qed

lemma up_to_date_fewer_names:
  "up_to_date st r \<Longrightarrow> \<not> IsWildcard st \<Longrightarrow> \<not> IsWildcard st' \<Longrightarrow>
     ss_resourceVersions st' = ss_resourceVersions st \<Longrightarrow>
     set (ss_subscribedResourceNames st') \<subseteq> set (ss_subscribedResourceNames st) \<Longrightarrow> up_to_date st' r"
  unfolding up_to_date_def in_scope_def by (auto split: option.split)

text \<open>A stream that is not a wildcard and has its watch open drops one name: no answer.\<close>

lemma linear_unsubscribe_silent:
  assumes "lib_total L" and "dsv_cache (de_server E) = linear_Cache L" and "de_lib E = L"
    and "linear_stream_reach L E cl0 s" and "dst_muxed s = []" and "dst_phase s = Selecting"
    and "mget (dst_watches s) typ = Some w" and "\<not> IsWildcard (dwt_state w)" and "n \<noteq> ''*''"
    and "mget (lc_deltaWatches (dst_cache s)) i = Some rw" and "dw_Response rw = de_chan E"
    and "dreq_type_url (dw_Request rw) = typ"
    and "unsub = empty_delta_request\<lparr>dreq_type_url := typ, dreq_resource_names_unsubscribe := [n]\<rparr>"
    and "typ \<noteq> ''''" and s1: "delta_loop E (delta_handled unsub) s = (s1, None)"
  shows "up_to_date (dwt_state w) (linear_container (dst_cache s))
    \<and> dst_muxed s1 = [] \<and> dst_phase s1 = Selecting \<and> linear_inv L (dst_cache s1) \<and> linear_named (dst_cache s1)
    \<and> lc_versionMap (dst_cache s1) \<noteq> None \<and> linear_container (dst_cache s1) = linear_container (dst_cache s)
    \<and> (\<exists>w'. mget (dst_watches s1) typ = Some w' \<and> \<not> dwt_nilmaps w' \<and> dwt_state w' =
          SetSubscribedResourceNames (sdel n (ss_subscribedResourceNames (dwt_state w))) (dwt_state w))"
proof -
  note ok = linear_stream_ok [OF assms(1-4)]
  then have inv: "linear_inv L (dst_cache s)" "linear_named (dst_cache s)" by simp_all
  have pk: "linear_parked (CancelDelta i) (dst_cache s) = Some rw" using assms(10) by simp
  note idle = linear_parked_idle [OF inv(1) pk]
  have rw: "dw_StreamState rw = dwt_state w" and nil: "\<not> dwt_nilmaps w"
    using stream_ok_parkedD [OF conjunct2 [OF conjunct2 [OF ok]] pk assms(11,12)] assms(7) by auto
  have fill: "delta_fill_type (de_typeURL E) unsub = Inr unsub"
    using assms(14) by (simp add: delta_fill_type_def assms(13))
  obtain es1 nd1 sA sR req2 w2 where
    sA: "sA = s\<lparr>dst_trace := dst_trace s @ es1, dst_node := nd1, dst_phase := Accepted (unsub\<lparr>dreq_node := Some nd1\<rparr>)\<rparr>"
    and un: "delta_unwatch E (unsub\<lparr>dreq_node := Some nd1\<rparr>) sA = (sR, None)" and re: "dst_phase sR = Rewatching req2 w2"
    and s1': "s1 = delta_rewatch E req2 w2 sR"
    by (rule delta_handled_cases [OF assms(6,5) fill s1]) (rule that)
  let ?r1 = "unsub\<lparr>dreq_node := Some nd1\<rparr>"
  have next1: "delta_next_state ?r1 (dwt_state w) =
      SetSubscribedResourceNames (sdel n (ss_subscribedResourceNames (dwt_state w))) (dwt_state w)"
    using assms(8,9) by (simp add: assms(13) delta_next_state_def empty_delta_request_def stream_state_defs Let_def)
  have ty1: "dreq_type_url ?r1 = typ" by (simp add: assms(13))
  have up1: "up_to_date (delta_next_state ?r1 (dwt_state w)) (linear_container (dst_cache s))"
    using idle assms(8) unfolding rw next1
    by (elim conjE up_to_date_fewer_names) (auto simp: stream_state_defs)
  have st1: "\<not> (IsWildcard (delta_next_state ?r1 (dwt_state w)) \<and> IsFirst (delta_next_state ?r1 (dwt_state w)))"
    unfolding next1 using assms(8) by (simp add: stream_state_defs)
  have up: "up_to_date (dwt_state w) (linear_container (dst_cache s))" using idle by (simp add: rw)
  from linear_rewatch_silent [OF assms(1,2) _ _ _ _ nil st1 _ un re s1'] inv idle up1 up assms(5,7)
  show ?thesis by (simp add: ty1 next1 sA)
qed

text \<open>C34: a client that unsubscribes from a resource and subscribes to it again is not sent it again.
  The protocol has the client forget a resource it unsubscribes from, and the server send it on the
  new subscription; but the recorded version survives the unsubscription of a stream that is not a
  wildcard, so with a linear cache that has not changed in between both requests go unanswered.\<close>

theorem resubscribe_is_silent:
  assumes "lib_total L" and "dsv_cache (de_server E) = linear_Cache L" and "de_lib E = L"
    and "linear_stream_reach L E cl0 s" and "dst_muxed s = []" and "dst_phase s = Selecting"
    and "mget (dst_watches s) typ = Some w" and "\<not> IsWildcard (dwt_state w)"
    and "n \<in> set (ss_subscribedResourceNames (dwt_state w))" and "n \<noteq> ''*''"
    and "mget (lc_deltaWatches (dst_cache s)) i = Some rw" and "dw_Response rw = de_chan E"
    and "dreq_type_url (dw_Request rw) = typ"
    and "unsub = empty_delta_request\<lparr>dreq_type_url := typ, dreq_resource_names_unsubscribe := [n]\<rparr>"
    and "resub = empty_delta_request\<lparr>dreq_type_url := typ, dreq_resource_names_subscribe := [n]\<rparr>"
    and "typ \<noteq> ''''"
    and "delta_loop E (delta_handled unsub @ delta_handled resub) s = (s', None)"
  shows "dst_muxed s' = [] \<and> (\<exists>w'. mget (dst_watches s') typ = Some w' \<and>
    n \<in> set (ss_subscribedResourceNames (dwt_state w')) \<and>
    ss_resourceVersions (dwt_state w') = ss_resourceVersions (dwt_state w))"
proof -
  obtain s1 where s1: "delta_loop E (delta_handled unsub) s = (s1, None)"
    and s2: "delta_loop E (delta_handled resub) s1 = (s', None)"
    using assms(17) unfolding delta_loop_append by blast
  have fill: "delta_fill_type (de_typeURL E) resub = Inr resub"
    using assms(16) by (simp add: delta_fill_type_def assms(15))
  note silent1 = linear_unsubscribe_silent [OF assms(1-8,10-14,16) s1]
  then obtain w1 where w1: "mget (dst_watches s1) typ = Some w1" "\<not> dwt_nilmaps w1"
    "dwt_state w1 = SetSubscribedResourceNames (sdel n (ss_subscribedResourceNames (dwt_state w))) (dwt_state w)"
    by blast
  have idle1: "dst_phase s1 = Selecting" "dst_muxed s1 = []" using silent1 by blast+
  obtain es2 nd2 sA sR req2 w2 where
    sA: "sA = s1\<lparr>dst_trace := dst_trace s1 @ es2, dst_node := nd2, dst_phase := Accepted (resub\<lparr>dreq_node := Some nd2\<rparr>)\<rparr>"
    and un: "delta_unwatch E (resub\<lparr>dreq_node := Some nd2\<rparr>) sA = (sR, None)" and re: "dst_phase sR = Rewatching req2 w2"
    and s': "s' = delta_rewatch E req2 w2 sR"
    by (rule delta_handled_cases [OF idle1 fill s2]) (rule that)
  let ?r2 = "resub\<lparr>dreq_node := Some nd2\<rparr>"
  have next2: "delta_next_state ?r2 (dwt_state w1) =
      SetSubscribedResourceNames (sadd n (ss_subscribedResourceNames (dwt_state w1))) (dwt_state w1)"
    using assms(10) by (simp add: assms(15) delta_next_state_def empty_delta_request_def stream_state_defs)
  have ty2: "dreq_type_url ?r2 = typ" by (simp add: assms(15))
  from silent1 have eq: "linear_container (dst_cache s1) = linear_container (dst_cache s)" by blast
  have up2: "up_to_date (delta_next_state ?r2 (dwt_state w1)) (linear_container (dst_cache s1))"
    unfolding next2 eq
    by (rule up_to_date_fewer_names [of "dwt_state w"])
      (use silent1 assms(8,9) in \<open>auto simp: w1(3) stream_state_defs\<close>)
  have st2: "\<not> (IsWildcard (delta_next_state ?r2 (dwt_state w1)) \<and> IsFirst (delta_next_state ?r2 (dwt_state w1)))"
    unfolding next2 using assms(8) by (simp add: w1(3) stream_state_defs)
  have "dst_muxed s' = [] \<and> (\<exists>w'. mget (dst_watches s') typ = Some w' \<and> \<not> dwt_nilmaps w' \<and>
          dwt_state w' = delta_next_state ?r2 (dwt_state w1))"
    using linear_rewatch_silent [OF assms(1,2) _ _ _ _ w1(2) st2 _ un re s'] silent1 up2 w1(1)
    by (simp add: ty2 sA)
  moreover have "n \<in> set (ss_subscribedResourceNames (delta_next_state ?r2 (dwt_state w1)))"
    "ss_resourceVersions (delta_next_state ?r2 (dwt_state w1)) = ss_resourceVersions (dwt_state w)"
    unfolding next2 by (simp_all add: w1(3) stream_state_defs)
  ultimately show ?thesis by metis
qed

text \<open>Without callbacks, a request with a type for which there is a watch already is handled without an error.\<close>

lemma delta_handled_succeeds:
  assumes "dsv_callbacks (de_server E) = None" and "dst_phase s = Selecting" and "dst_muxed s = []"
    and "dreq_type_url req = typ" and "typ \<noteq> ''''" and "mget (dst_watches s) typ = Some w" and "\<not> dwt_nilmaps w"
  obtains s' where "delta_loop E (delta_handled req) s = (s', None)"
proof -
  have "\<exists>s'. delta_loop E (delta_handled req) s = (s', None)"
    using assms
    by (cases "dreq_node req") (simp_all add: delta_handled_def delta_busy_def delta_handle_request_def delta_step_def
        delta_processAll_def delta_accept_def delta_fill_node_def delta_fill_type_def delta_unwatch_def Let_def
        delta_returns_def)
  with that show thesis by blast
qed

theorem resubscribe_is_silent_witness:
  "\<exists>s' s w. dst_muxed s' = [] \<and> delta_loop sample_env
      (delta_handled (empty_delta_request\<lparr>dreq_type_url := ''T'', dreq_resource_names_unsubscribe := [''b'']\<rparr>)
       @ delta_handled (empty_delta_request\<lparr>dreq_type_url := ''T'', dreq_resource_names_subscribe := [''b'']\<rparr>)) s
        = (s', None) \<and> mget (dst_watches s') ''T'' = Some w \<and> ''b'' \<in> set (ss_subscribedResourceNames (dwt_state w))"
proof -
  let ?unsub = "empty_delta_request\<lparr>dreq_type_url := ''T'', dreq_resource_names_unsubscribe := [''b'']\<rparr>"
  let ?resub = "empty_delta_request\<lparr>dreq_type_url := ''T'', dreq_resource_names_subscribe := [''b'']\<rparr>"
  obtain s i rw where s: "linear_stream_reach sample_lib sample_env sample_client s"
    and ph: "dst_phase s = Selecting"
    and i: "mget (lc_deltaWatches (dst_cache s)) i = Some rw" "dw_Response rw = de_chan sample_env"
    and t: "dreq_type_url (dw_Request rw) = ''T''" and m: "dst_muxed s = []"
    and st: "IsWildcard (dw_StreamState rw) = False" "in_scope (dw_StreamState rw) ''b''"
    by (rule sample_stream_open)
  have E: "dsv_cache (de_server sample_env) = linear_Cache sample_lib" "de_lib sample_env = sample_lib"
    "dsv_callbacks (de_server sample_env) = None"
    by (simp_all add: sample_env_def NewDeltaServer_def)
  note ok = linear_stream_ok [OF lib_total_sample E(1,2) s]
  have pk: "linear_parked (CancelDelta i) (dst_cache s) = Some rw" using i(1) by simp
  obtain w where w: "mget (dst_watches s) ''T'' = Some w" "dw_StreamState rw = dwt_state w"
    and nil: "\<not> dwt_nilmaps w"
    using stream_ok_parkedD [OF conjunct2 [OF conjunct2 [OF ok]] pk i(2) t] by blast
  have wild: "\<not> IsWildcard (dwt_state w)" "''b'' \<in> set (ss_subscribedResourceNames (dwt_state w))"
    using st w(2) by (simp_all add: in_scope_def)
  obtain s1 where s1: "delta_loop sample_env (delta_handled ?unsub) s = (s1, None)"
    by (rule delta_handled_succeeds [OF E(3) ph m _ _ w(1) nil, of ?unsub]) simp_all
  from linear_unsubscribe_silent [OF lib_total_sample E(1,2) s m ph w(1) wild(1) _ i t refl _ s1]
  obtain w1 where idle: "dst_phase s1 = Selecting" "dst_muxed s1 = []"
    and w1: "mget (dst_watches s1) ''T'' = Some w1" "\<not> dwt_nilmaps w1" by auto
  obtain s' where s2: "delta_loop sample_env (delta_handled ?resub) s1 = (s', None)"
    by (rule delta_handled_succeeds [OF E(3) idle _ _ w1, of ?resub]) simp_all
  have s': "delta_loop sample_env (delta_handled ?unsub @ delta_handled ?resub) s = (s', None)"
    unfolding delta_loop_append using s1 s2 by blast
  from resubscribe_is_silent [OF lib_total_sample E(1,2) s m ph w(1) wild _ i t refl refl _ s'] s'
  show ?thesis by auto
qed

text \<open>A modification that the only watch on a channel has to hear of: it is answered and gone.\<close>

lemma linear_modification_answers:
  assumes L: "lib_total L" and inv: "linear_inv L c" and ok: "op_ok c op" and mod: "op_modifies op"
    and vm: "lc_versionMap c \<noteq> None" and step: "linear_step L op c = (c', sends, err)"
    and only: "filter (\<lambda>(j, w). dw_Response w = ch) (lc_deltaWatches c) = (if b then [(i, rw)] else [])"
    and changed: "b \<Longrightarrow> \<not> up_to_date (dw_StreamState rw) (linear_container c')"
  shows "delta_messages ch sends = (if b then [Some (RawDelta
      (createDeltaResponse Background (dw_Request rw) (dw_StreamState rw) (linear_container c')))] else [])
    \<and> filter (\<lambda>(j, w). dw_Response w = ch) (lc_deltaWatches c') = [] \<and> lc_versionMap c' \<noteq> None"
proof -
  from inv have wf: "linear_wf c" by (simp add: linear_inv_def)
  obtain M c1 where n: "notifyAll L M c1 = (c', sends, err)" and b: "bumped op c c1"
    using op_bump [OF wf ok mod, of L] step by auto
  from b have dws: "lc_deltaWatches c1 = lc_deltaWatches c" "lc_versionMap c1 = lc_versionMap c"
    by (auto simp: bumped_def)
  obtain vm0 where vm0: "lc_versionMap c1 = Some vm0" "wf_map vm0"
    using vm inv dws by (auto simp: linear_inv_def version_map_current_def)
  have wf1: "linear_wf c1" by (rule bumped_wf [OF wf b])
  from notifyAll_delta [OF L wf1 vm0 n] have vm': "lc_versionMap c' \<noteq> None"
    and left: "lc_deltaWatches c' = filter (\<lambda>(i, w). \<not> delta_fires M c' w) (lc_deltaWatches c)"
    by (auto simp: dws)
  have inv': "linear_inv L c'" by (rule linear_inv_step [OF L inv ok step])
  have swap: "filter P (filter Q xs) = filter Q (filter P xs)" for P Q and xs :: "'x list"
    by (induction xs) simp_all
  have fires: "delta_fires M c' rw" if b
  proof (rule ccontr)
    assume "\<not> delta_fires M c' rw"
    moreover have "(i, rw) \<in> set (filter (\<lambda>(j, w). dw_Response w = ch) (lc_deltaWatches c))" using that by (simp add: only)
    ultimately have "(i, rw) \<in> set (lc_deltaWatches c')" by (auto simp: left)
    moreover have "wf_map (lc_deltaWatches c')" using inv' by (simp add: linear_inv_def linear_wf_def)
    ultimately have "linear_parked (CancelDelta i) c' = Some rw" by (simp add: mget_eq_Some_iff)
    with linear_parked_idle [OF inv'] changed [OF that] show False by blast
  qed
  then obtain resp where "b \<Longrightarrow> linear_respondDelta c' (dw_Request rw) (dw_StreamState rw) = Some resp"
    by (cases b) (auto simp: delta_fires_def)
  with linear_respondDelta_Some have resp: "b \<Longrightarrow> linear_respondDelta c' (dw_Request rw) (dw_StreamState rw) =
      Some (createDeltaResponse Background (dw_Request rw) (dw_StreamState rw) (linear_container c'))" by blast
  have "delta_messages ch sends = (if b then [Some (RawDelta
      (createDeltaResponse Background (dw_Request rw) (dw_StreamState rw) (linear_container c')))] else [])"
    unfolding notifyAll_messages [OF L wf1 vm0 n] dws
    by (subst swap, subst only) (simp add: fires resp)
  moreover have "filter (\<lambda>(j, w). dw_Response w = ch) (lc_deltaWatches c') = []"
    unfolding left by (subst swap, subst only) (simp add: fires)
  ultimately show ?thesis using vm' by simp
qed

lemma linear_modified_versions:
  assumes L: "lib_total L" and inv: "linear_inv L c" and ok: "op_ok c op" and mod: "op_modifies op"
    and vm: "lc_versionMap c \<noteq> None" and step: "linear_step L op c = (c', sends, err)"
  shows "lc_versionMap c' \<noteq> None"
proof -
  from inv have wf: "linear_wf c" by (simp add: linear_inv_def)
  obtain M c1 where n: "notifyAll L M c1 = (c', sends, err)" and b: "bumped op c c1"
    using op_bump [OF wf ok mod, of L] step by auto
  obtain vm0 where "lc_versionMap c1 = Some vm0" "wf_map vm0"
    using vm inv b by (auto simp: linear_inv_def version_map_current_def bumped_def)
  from notifyAll_delta [OF L bumped_wf [OF wf b] this n] show ?thesis by auto
qed

lemma linear_named_iff:
  "wf_map (lc_resources c) \<Longrightarrow> linear_named c \<longleftrightarrow> (\<forall>n r. mget (lc_resources c) n = Some r \<longrightarrow> GetResourceName r = n)"
  by (auto simp: linear_named_def mget_eq_Some_iff)

lemma linear_up_to_date_cong:
  assumes "linear_inv L c" and "lc_versionMap c \<noteq> None" and "linear_inv L c'" and "lc_versionMap c' \<noteq> None"
    and "mget (lc_resources c') = mget (lc_resources c)"
  shows "up_to_date st (linear_container c') = up_to_date st (linear_container c)"
proof -
  have "version_of (linear_container c') n = version_of (linear_container c) n" if "mget (lc_resources c) n = Some r" for n r
    using assms that version_of_linear_current [of L c n r] version_of_linear_current [of L c' n r]
    by (simp add: linear_inv_def)
  then show ?thesis
    unfolding up_to_date_def using assms(5)
    by (intro all_cong) (auto simp: linear_container_def fun_eq_iff split: option.split)
qed

text \<open>What the two calls do: the addition answers the watch, the deletion sends nothing more, and the
  watch is up to date again.\<close>

lemma linear_add_and_delete:
  fixes c :: LinearCache and rw :: DeltaResponseWatch and ch :: chan
  defines "st \<equiv> dw_StreamState rw"
  assumes L: "lib_total L" and inv: "linear_inv L c" and named: "linear_named c"
    and only: "filter (\<lambda>(j, w). dw_Response w = ch) (lc_deltaWatches c) = [(i, rw)]"
    and idle: "up_to_date st (linear_container c)" "lc_versionMap c \<noteq> None"
    and x: "in_scope st x" "mget (lc_resources c) x = None" "\<not> lc_nilResources c" "r \<noteq> None" "GetResourceName r = x"
  obtains c1 sends1 e1 c2 sends2 e2 where
    "UpdateResource L x r c = (c1, sends1, e1)" and "DeleteResource L x c1 = (c2, sends2, e2)"
    and "delta_messages ch sends1 =
      [Some (RawDelta (createDeltaResponse Background (dw_Request rw) st (linear_container c1)))]"
    and "delta_messages ch sends2 = []" and "versions_ok L (linear_container c1)"
    and "wf_map (rc_resourceMap (linear_container c1))"
    and "mget (rc_resourceMap (linear_container c1)) x = Some r" and "version_of (linear_container c1) x = hash_of L r"
    and "linear_inv L c2" and "linear_named c2" and "lc_versionMap c2 \<noteq> None"
    and "up_to_date st (linear_container c2)" and "mget (lc_resources c2) x = None"
proof -
  obtain c1 sends1 e1 where u: "UpdateResource L x r c = (c1, sends1, e1)" by (metis prod_cases3)
  obtain c2 sends2 e2 where d: "DeleteResource L x c1 = (c2, sends2, e2)" by (metis prod_cases3)
  have step1: "linear_step L (OpUpdateResource x r) c = (c1, sends1, e1)" and ok1: "op_ok c (OpUpdateResource x r)"
    and step2: "linear_step L (OpDeleteResource x) c1 = (c2, sends2, e2)" and ok2: "op_ok c1 (OpDeleteResource x)"
    using u d x(3) by (simp_all add: op_ok_def op_panics_def)
  have inv1: "linear_inv L c1" by (rule linear_inv_step [OF L inv ok1 step1])
  have inv2: "linear_inv L c2" by (rule linear_inv_step [OF L inv1 ok2 step2])
  have wf: "linear_wf c" "linear_wf c1" using inv inv1 by (simp_all add: linear_inv_def)
  have res1: "mget (lc_resources c1) = (mget (lc_resources c))(x \<mapsto> r)"
    using linear_step_modified(2) [OF wf(1) ok1 _ step1] x(4) by (simp add: fun_eq_iff)
  have res2: "mget (lc_resources c2) = mget (lc_resources c)"
    using linear_step_modified(2) [OF wf(2) ok2 _ step2] res1 x(2) by (auto simp: fun_eq_iff)
  have vm1: "lc_versionMap c1 \<noteq> None" by (rule linear_modified_versions [OF L inv ok1 _ idle(2) step1]) (use x(4) in simp)
  have r1: "mget (rc_resourceMap (linear_container c1)) x = Some r" by (simp add: linear_container_def res1)
  have v1: "version_of (linear_container c1) x = hash_of L r"
    using version_of_linear_current [OF _ vm1, of L x r] inv1 res1 by (simp add: linear_inv_def)
  have none: "mget (ss_resourceVersions st) x = None"
    using idle(1) x(1,2) by (auto simp: up_to_date_def linear_container_def)
  have up: "\<not> up_to_date st (linear_container c1)"
  proof
    assume "up_to_date st (linear_container c1)"
    from this [unfolded up_to_date_def, rule_format, OF x(1)] show False
      using hash_of_nonempty [OF L, of r] by (simp add: r1 v1 none mget_or_def split: if_splits)
  qed
  from linear_modification_answers [OF L inv ok1 _ idle(2) step1, of ch True i rw] up only x(4)
  have m1: "delta_messages ch sends1 =
      [Some (RawDelta (createDeltaResponse Background (dw_Request rw) st (linear_container c1)))]"
    and f1: "filter (\<lambda>(j, w). dw_Response w = ch) (lc_deltaWatches c1) = []" by (simp_all add: st_def)
  from linear_modification_answers [OF L inv1 ok2 _ vm1 step2, of ch False i rw] f1
  have m2: "delta_messages ch sends2 = []" and vm2: "lc_versionMap c2 \<noteq> None" by simp_all
  have named': "linear_named c1" "linear_named c2"
    using named res1 res2 x(5) inv inv1 inv2 by (auto simp: linear_named_iff linear_inv_def linear_wf_def split: if_splits)
  show thesis
    by (rule that [OF u d m1 m2 linear_versions_ok [OF L inv1 named'(1) vm1] _ r1 v1 inv2 named'(2) vm2])
      (use wf(2) linear_up_to_date_cong [OF inv idle(2) inv2 vm2 res2] idle(1) res2 x(2) in
        \<open>simp_all add: linear_wf_def linear_container_def\<close>)
qed

text \<open>A response made from the state the server still has for the type leaves the client with the
  hash of a resource of the response's container.\<close>

lemma delta_message_reaches_client:
  assumes L: "lib_total L" "de_lib E = L" "\<And>trace m. de_send E trace m = None"
    and m: "m = Muxed (Some (RawDelta (createDeltaResponse Background req (dwt_state w) r)))"
    and w: "mget (dst_watches s) (dreq_type_url req) = Some w" and r: "versions_ok L r" "wf_map (rc_resourceMap r)"
    and x: "in_scope (dwt_state w) x" "mget (rc_resourceMap r) x = Some res" "version_of r x = hash_of L res"
    and tr: "tracks (dwt_state w) (client_of cl0 (dst_trace s) (dreq_type_url req))"
  obtains s' where "delta_process E m s = (s', None)" and "dst_cache s' = dst_cache s"
    and "dst_phase s' = dst_phase s" and "dst_muxed s' = dst_muxed s"
    and "client_of cl0 (dst_trace s') (dreq_type_url req) x = Some (hash_of L res)"
proof -
  have w': "mget (dst_watches s) (msg_type m) = Some w" using w by (simp add: m)
  have fl: "in_flight L w m" using r(1) m unfolding in_flight_def by metis
  obtain s' where proc: "delta_process E m s = (s', None)"
    using delta_marshal_total [OF r(1), of Background req "dwt_state w"] L(2,3) w
    by (auto simp: m delta_process_def delta_send_response_def Let_def)
  obtain resp m' w1 es where w1: "w1 = w\<lparr>dwt_nonce := FormatInt (dst_nonce s + 1),
        dwt_state := SetResourceVersions (dresp_GetNextVersionMap resp) (dwt_state w)\<rparr>"
    and resp: "m = Muxed (Some resp)"
    and eq: "s' = s\<lparr>dst_nonce := dst_nonce s + 1, dst_trace := dst_trace s @ es,
        dst_watches := mput (msg_type m) w1 (dst_watches s)\<rparr>"
    and cl: "\<And>cl0. client_of cl0 es = cl0(msg_type m := client_apply m' (cl0 (msg_type m)))"
    and tr1: "tracks (dwt_state w1) (client_apply m' (client_of cl0 (dst_trace s) (dreq_type_url req)))"
    by (rule delta_process_in_flight [OF fl L(2) w' tr proc]) (rule that)
  from mget_next_version_map [OF r(2), of Background req "dwt_state w" x] resp
  have "mget (ss_resourceVersions (dwt_state w1)) x = Some (hash_of L res)"
    using x by (auto simp: m w1 SetResourceVersions_def)
  moreover have "in_scope (dwt_state w1) x" using x(1) by (simp add: w1 in_scope_def stream_state_defs)
  ultimately have "client_apply m' (client_of cl0 (dst_trace s) (dreq_type_url req)) x = Some (hash_of L res)"
    using tr1 hash_of_nonempty [OF L(1), of res] unfolding tracks_def by fastforce
  then show thesis using proc by (intro that [of s']) (simp_all add: eq cl m)
qed

text \<open>What the server and the cache know of an open watch.\<close>

lemma linear_open_watch:
  assumes "lib_total L" and "dsv_cache (de_server E) = linear_Cache L" and "de_lib E = L"
    and reach: "linear_stream_reach L E cl0 s" and rw: "(i, rw) \<in> set (lc_deltaWatches (dst_cache s))"
    and ch: "dw_Response rw = de_chan E" and t: "dreq_type_url (dw_Request rw) = t"
  obtains w where "mget (dst_watches s) t = Some w" and "dw_StreamState rw = dwt_state w" and "\<not> dwt_nilmaps w"
    and "tracks (dwt_state w) (client_of cl0 (dst_trace s) t)"
    and "up_to_date (dwt_state w) (linear_container (dst_cache s))" and "lc_versionMap (dst_cache s) \<noteq> None"
    and "\<not> (IsWildcard (dwt_state w) \<and> IsFirst (dwt_state w))"
proof -
  note ok = linear_stream_ok [OF assms(1-4)]
  then have inv: "linear_inv L (dst_cache s)" by simp
  then have wf: "wf_map (lc_resources (dst_cache s))" "wf_map (lc_deltaWatches (dst_cache s))"
    by (simp_all add: linear_inv_def linear_wf_def)
  from rw wf(2) have pk: "linear_parked (CancelDelta i) (dst_cache s) = Some rw" by (simp add: mget_eq_Some_iff)
  from inv rw have "linear_respondDelta (dst_cache s) (dw_Request rw) (dw_StreamState rw) = None"
    by (auto simp: linear_inv_def linear_idle_def)
  with linear_respondDelta_None_iff [OF wf(1)]
  have quiet: "\<not> (IsWildcard (dw_StreamState rw) \<and> IsFirst (dw_StreamState rw))" by blast
  obtain w where w: "mget (dst_watches s) t = Some w" "dw_StreamState rw = dwt_state w" "\<not> dwt_nilmaps w"
    using stream_ok_parkedD [OF conjunct2 [OF conjunct2 [OF ok]] pk ch t] by blast
  have "tracks (dwt_state w) (client_of cl0 (dst_trace s) t)" using ok w(1) unfolding stream_ok_def by blast
  with w quiet linear_parked_idle [OF inv pk] show thesis by (intro that [of w]) simp_all
qed

text \<open>C35: why the streams of \<open>delta_stream_in_sync\<close> have to be careful: an update that adds a resource and a
  deletion that removes it again, both between the server finding the channel empty for an
  acknowledgement and cancelling the watch, leave a client that holds a resource the cache does not have,
  with a watch of the stream open that will not say so.  The update answers the old watch; the server then
  creates the new one from the state of before that answer, which is up to date again.\<close>

theorem delta_gap_loses_sync:
  assumes "lib_total L" and "dsv_cache (de_server E) = linear_Cache L" and "de_lib E = L"
    and "linear_stream_reach L E cl0 s" and "dst_phase s = Accepted req" and "dst_muxed s = []"
    and "dreq_resource_names_subscribe req = []" and "dreq_resource_names_unsubscribe req = []"
    and "filter (\<lambda>(j, w). dw_Response w = de_chan E) (lc_deltaWatches (dst_cache s)) = [(i, rw)]"
    and "dreq_type_url (dw_Request rw) = dreq_type_url req" and "in_scope (dw_StreamState rw) x"
    and "mget (lc_resources (dst_cache s)) x = None" and "\<not> lc_nilResources (dst_cache s)"
    and "r \<noteq> None" and "GetResourceName r = x" and "\<And>trace m. de_send E trace m = None"
  shows "\<exists>s'. delta_loop E
      [InCache (\<lambda>c. (fst (UpdateResource L x r c), fst (snd (UpdateResource L x r c)))),
       InCache (\<lambda>c. (fst (DeleteResource L x c), fst (snd (DeleteResource L x c)))),
       InStep, InStep, InMessage] s = (s', None) \<and>
    dst_phase s' = Selecting \<and> dst_muxed s' = [] \<and>
    (\<exists>j rw'. mget (lc_deltaWatches (dst_cache s')) j = Some rw' \<and> dw_Response rw' = de_chan E \<and>
       dreq_type_url (dw_Request rw') = dreq_type_url req \<and> in_scope (dw_StreamState rw') x) \<and>
    mget (lc_resources (dst_cache s')) x = None \<and>
    client_of cl0 (dst_trace s') (dreq_type_url req) x = Some (hash_of L r)"
proof -
  let ?c = "dst_cache s" and ?ch = "de_chan E" and ?tp = "dreq_type_url req" and ?st = "dw_StreamState rw"
  note L = assms(1)
  note ok = linear_stream_ok [OF assms(1-4)]
  then have inv: "linear_inv L ?c" and named: "linear_named ?c" by simp_all
  have rw: "(i, rw) \<in> set (filter (\<lambda>(j, w). dw_Response w = ?ch) (lc_deltaWatches ?c))" by (simp add: assms(9))
  obtain w where w: "mget (dst_watches s) ?tp = Some w" "?st = dwt_state w" "\<not> dwt_nilmaps w"
    and tr: "tracks (dwt_state w) (client_of cl0 (dst_trace s) ?tp)"
    and idle: "up_to_date (dwt_state w) (linear_container ?c)" "lc_versionMap ?c \<noteq> None"
    and quiet: "\<not> (IsWildcard (dwt_state w) \<and> IsFirst (dwt_state w))"
    by (rule linear_open_watch [OF assms(1-4) _ _ assms(10), of i]) (use rw in auto)
  obtain c1 sends1 e1 c2 sends2 e2 where u: "UpdateResource L x r ?c = (c1, sends1, e1)"
    and d: "DeleteResource L x c1 = (c2, sends2, e2)"
    and m1: "delta_messages ?ch sends1 =
      [Some (RawDelta (createDeltaResponse Background (dw_Request rw) ?st (linear_container c1)))]"
    and m2: "delta_messages ?ch sends2 = []" and vok: "versions_ok L (linear_container c1)"
    and wf1: "wf_map (rc_resourceMap (linear_container c1))"
    and r1: "mget (rc_resourceMap (linear_container c1)) x = Some r" "version_of (linear_container c1) x = hash_of L r"
    and c2: "linear_inv L c2" "linear_named c2" "lc_versionMap c2 \<noteq> None" "up_to_date ?st (linear_container c2)"
      "mget (lc_resources c2) x = None"
    by (rule linear_add_and_delete [OF L inv named assms(9) _ _ assms(11-15)]) (use idle w(2) in simp_all)
  let ?m = "Muxed (Some (RawDelta (createDeltaResponse Background (dw_Request rw) ?st (linear_container c1))))"
  define s2 where "s2 = s\<lparr>dst_cache := c2, dst_muxed := [?m]\<rparr>"
  have "\<exists>sR. delta_unwatch E req s2 = (sR, None)"
    using w(1,3) by (simp add: delta_unwatch_def Let_def s2_def assms(7))
  then obtain sR where un: "delta_unwatch E req s2 = (sR, None)" by blast
  with delta_unwatch_frame [OF un] obtain req2 w2 where re: "dst_phase sR = Rewatching req2 w2"
    and ty2: "dreq_type_url req2 = ?tp" by auto
  define s3 where "s3 = delta_rewatch E req2 w2 sR"
  have same: "delta_next_state req (dwt_state w) = dwt_state w" by (simp add: delta_next_state_def assms(7,8))
  have silent: "dst_muxed s3 = [?m]" "dst_phase s3 = Selecting" "dst_trace s3 = dst_trace s"
      "linear_container (dst_cache s3) = linear_container c2"
    and "\<exists>w3. mget (dst_watches s3) ?tp = Some w3 \<and> dwt_state w3 = dwt_state w"
    and open3: "\<exists>j. mget (lc_deltaWatches (dst_cache s3)) j =
        Some \<lparr>dw_Request = req2, dw_Response = ?ch, dw_StreamState = dwt_state w\<rparr>"
    using linear_rewatch_silent [OF assms(1,2) _ _ _ _ w(3) _ _ un re s3_def] c2(1-4) w quiet
    by (auto simp: s2_def same)
  then obtain w3 where w3: "mget (dst_watches (s3\<lparr>dst_muxed := []\<rparr>)) ?tp = Some w3"
    and st3: "?st = dwt_state w3" using w(2) by auto
  obtain s' where proc: "delta_process E ?m (s3\<lparr>dst_muxed := []\<rparr>) = (s', None)"
    and s': "dst_cache s' = dst_cache s3" "dst_phase s' = Selecting" "dst_muxed s' = []"
    and held: "client_of cl0 (dst_trace s') ?tp x = Some (hash_of L r)"
    by (rule delta_message_reaches_client [where req = "dw_Request rw" and w = w3 and m = ?m and x = x and res = r
          and s = "s3\<lparr>dst_muxed := []\<rparr>" and r = "linear_container c1", OF assms(1,3,16)])
      (use w3 st3 vok wf1 assms(10,11) r1 tr w(2) silent(2,3) in simp_all)
  have ph2: "dst_phase s2 = Accepted req" by (simp add: s2_def assms(5))
  have steps:
    "delta_select E (InCache (\<lambda>c. (fst (UpdateResource L x r c), fst (snd (UpdateResource L x r c))))) s =
       (s\<lparr>dst_cache := c1, dst_muxed := [?m]\<rparr>, None)"
    "delta_select E (InCache (\<lambda>c. (fst (DeleteResource L x c), fst (snd (DeleteResource L x c)))))
       (s\<lparr>dst_cache := c1, dst_muxed := [?m]\<rparr>) = (s2, None)"
    using m1 m2 by (simp_all add: u d s2_def assms(6))
  have steps': "delta_select E InStep s2 = (sR, None)" "delta_select E InStep sR = (s3, None)"
    "delta_select E InMessage s3 = (s', None)"
    by (simp_all add: delta_step_def ph2 un re s3_def [symmetric] delta_busy_def silent(1,2) proc)
  have run: "delta_loop E
      [InCache (\<lambda>c. (fst (UpdateResource L x r c), fst (snd (UpdateResource L x r c)))),
       InCache (\<lambda>c. (fst (DeleteResource L x c), fst (snd (DeleteResource L x c)))),
       InStep, InStep, InMessage] s = (s', None)"
    by (simp only: delta_loop.simps steps steps' prod.case option.case)
  have gone: "mget (lc_resources (dst_cache s3)) x = None"
    using arg_cong [OF silent(4), of rc_resourceMap] c2(5) by (simp add: linear_container_def)
  obtain j where j: "mget (lc_deltaWatches (dst_cache s')) j =
      Some \<lparr>dw_Request = req2, dw_Response = ?ch, dw_StreamState = dwt_state w\<rparr>"
    using open3 by (auto simp: s'(1))
  show ?thesis
    by (intro exI [of _ s'] conjI run exI [of _ j] exI [of _ "\<lparr>dw_Request = req2, dw_Response = ?ch, dw_StreamState = dwt_state w\<rparr>"] j)
      (use held gone s' ty2 assms(11) w(2) in simp_all)
qed

text \<open>A client that asks for \<open>c\<close>, which is not there, acknowledges.\<close>

theorem delta_gap_loses_sync_witness:
  "\<exists>s s' v. linear_stream_reach sample_lib sample_env (\<lambda>t n. None) s \<and>
     delta_loop sample_env
      [InCache (\<lambda>c. (fst (UpdateResource sample_lib ''c'' (cla ''c'' [3]) c),
                    fst (snd (UpdateResource sample_lib ''c'' (cla ''c'' [3]) c)))),
       InCache (\<lambda>c. (fst (DeleteResource sample_lib ''c'' c), fst (snd (DeleteResource sample_lib ''c'' c)))),
       InStep, InStep, InMessage] s = (s', None) \<and>
     client_of (\<lambda>t n. None) (dst_trace s') ''T'' ''c'' = Some v \<and>
     mget (lc_resources (dst_cache s')) ''c'' = None \<and>
     (\<exists>j rw. mget (lc_deltaWatches (dst_cache s')) j = Some rw \<and> in_scope (dw_StreamState rw) ''c'')"
proof -
  let ?ack = "empty_delta_request\<lparr>dreq_type_url := ''T'', dreq_node := Some empty_node\<rparr>"
  let ?cl = "(\<lambda>t n. None) :: client" and ?L = sample_lib
  obtain s rw where s: "linear_stream_reach ?L sample_env ?cl s" "dst_phase s = Selecting" "dst_muxed s = []"
    and rw: "lc_deltaWatches (dst_cache s) = [(1, rw)]" "dw_Response rw = de_chan sample_env"
      "dreq_type_url (dw_Request rw) = ''T''" "in_scope (dw_StreamState rw) ''c''"
    and res: "lc_resources (dst_cache s) = lc_resources sample_linear" "\<not> lc_nilResources (dst_cache s)"
    by (rule sample_watch_parks [of "''c''" ?cl None]) (simp_all add: sample_linear_eq)
  have E: "dsv_cache (de_server sample_env) = linear_Cache ?L" "de_lib sample_env = ?L"
    "dsv_callbacks (de_server sample_env) = None" "\<And>tr m. de_send sample_env tr m = None" "de_typeURL sample_env = ''T''"
    by (simp_all add: sample_env_def NewDeltaServer_def)
  define sD where "sD = s\<lparr>dst_phase := Draining ?ack\<rparr>"
  define sA where "sA = sD\<lparr>dst_node := empty_node, dst_phase := Accepted ?ack\<rparr>"
  have step: "delta_select sample_env (InRequest (Some ?ack)) s = (sD, None)"
    "delta_select sample_env InStep sD = (sA, None)"
    using s(2,3) by (simp_all add: sD_def sA_def delta_busy_def delta_handle_request_def delta_step_def delta_returns_def
        delta_processAll_def delta_accept_def E Let_def delta_fill_node_def delta_fill_type_def type_url_defs)
  have "linear_stream_reach ?L sample_env ?cl sD"
    by (rule delta_reach.own [OF s(1) _ _ step(1)]) (simp_all add: accepted_agrees_def s(2))
  then have A: "linear_stream_reach ?L sample_env ?cl sA"
    by (rule delta_reach.own [OF _ _ _ step(2)]) (simp_all add: accepted_agrees_def sD_def)
  have "dst_phase sA = Accepted ?ack" "dst_muxed sA = []" "dst_cache sA = dst_cache s"
    using s(3) by (simp_all add: sA_def sD_def)
  moreover have "cla ''c'' [3] \<noteq> None" "GetResourceName (cla ''c'' [3]) = ''c''" by (simp_all add: cla_def)
  moreover have "dreq_resource_names_subscribe ?ack = []" "dreq_resource_names_unsubscribe ?ack = []"
    "dreq_type_url ?ack = ''T''" by (simp_all add: empty_delta_request_def)
  moreover have "filter (\<lambda>(j, w). dw_Response w = de_chan sample_env) (lc_deltaWatches (dst_cache s)) = [(1, rw)]"
    by (simp add: rw)
  moreover have "mget (lc_resources (dst_cache s)) ''c'' = None" by (simp add: res sample_linear_eq)
  ultimately show ?thesis
    using delta_gap_loses_sync [where x = "''c''" and r = "cla ''c'' [3]" and i = 1 and rw = rw and req = ?ack,
        OF lib_total_sample E(1,2) A] rw(3,4) res(2) E(4) A
    by (simp only: not_False_eq_True simp_thms) blast
qed

section \<open>Through the multiplexed cache\<close>

text \<open>C22: the multiplexed cache is transparent: over linear caches, a delta client whose request is
  classified to one of them holds, after \<open>CreateDeltaWatch\<close> with the response applied if there is
  one, exactly the hashes of that cache for the names it subscribes to, and no other cache changes.\<close>

theorem mux_delta_sync:
  assumes "\<And>r. linear_reach L (k r) (s r) \<and> linear_named (s r)" and "lib_total L"
    and "mget (mux_Caches mux) (mux_ClassifyDelta mux req) = Some ref"
    and "mux_CreateDeltaWatch (linear_Cache L) mux req st ch s = (s', sends, canc)"
    and "tracks st cl" and "in_scope st n"
  shows "client_after L sends cl n = map_option (hash_of L) (mget (lc_resources (s ref)) n)
    \<and> (r \<noteq> ref \<longrightarrow> s' r = s r)"
proof -
  have inv: "\<forall>r. lib_total L \<and> linear_inv L (s r) \<and> linear_named (s r)"
    using assms(1,2) linear_reach_inv by blast
  obtain c' canc' where step: "CreateDeltaWatch (linear_Cache L) req st ch (s ref) = (c', sends, canc')"
    and s': "s' = s(ref := c')"
    by (rule mux_CreateDeltaWatch_SomeD [OF assms(4,3)])
  from step have lin: "linear_CreateDeltaWatch L req st ch (s ref) = (c', sends, canc')" by (simp add: cache_defs)
  have view: "linear_view req c' = Some (linear_container c')"
    using linear_delta_versions [OF assms(2) _ lin] inv by blast
  then have mview: "mux_view linear_view mux req s' = Some (linear_container c')"
    by (simp add: mux_view_def assms(3) s')
  have "lc_versionMap c' \<noteq> None" using view by (simp add: linear_view_def split: if_splits)
  moreover have "version_map_current L c'"
    using linear_inv_CreateDeltaWatch [OF assms(2) _ lin] inv by (simp add: linear_inv_def)
  ultimately show ?thesis
    using mux_linear.client_in_sync [OF inv assms(4) mview assms(5,6)] linear_target
      linear_CreateDeltaWatch_cases [OF lin] by (simp add: s')
qed

definition sample_mux :: MuxCache where
  "sample_mux = \<lparr>mux_Classify = req_type_url, mux_ClassifyDelta = dreq_type_url, mux_Caches = [(''T'', 3)]\<rparr>"

theorem mux_delta_sync_witness:
  "client_after sample_lib
     (fst (snd (mux_CreateDeltaWatch (linear_Cache sample_lib) sample_mux (delta_request ''T'')
        (subscribed [''b''] [(''b'', '''')]) 9 (\<lambda>r. sample_linear)))) (\<lambda>n. None) ''b''
     = Some (hash_of sample_lib (cla ''b'' [2]))"
proof -
  let ?st = "subscribed [''b''] [(''b'', '''')]"
  have tr: "tracks ?st (\<lambda>n. None)" and b: "in_scope ?st ''b''"
    by (simp_all add: tracks_def in_scope_def subscribed_def NewStreamState_def stream_state_defs)
  obtain s' sends canc where m: "mux_CreateDeltaWatch (linear_Cache sample_lib) sample_mux (delta_request ''T'') ?st 9
      (\<lambda>r. sample_linear) = (s', sends, canc)" by (metis prod_cases3)
  have ref: "mget (mux_Caches sample_mux) (mux_ClassifyDelta sample_mux (delta_request ''T'')) = Some 3"
    by (simp add: sample_mux_def delta_request_def)
  from mux_delta_sync [of sample_lib "\<lambda>r. 1" "\<lambda>r. sample_linear", OF _ lib_total_sample ref m tr b]
  show ?thesis using sample_linear_reach sample_named by (simp add: m) (simp add: sample_linear_eq)
qed

text \<open>A first delta request whose class has no cache behind the multiplexed cache makes the server
  panic: the cache answers with a nil response, and the server asks the response for its request
  before it looks whether there is one.\<close>

theorem unclassified_delta_request_panics:
  assumes "dsv_cache (de_server E) = mux_Cache C mux" and "dsv_callbacks (de_server E) = None"
    and "\<And>r. dreq_type_url r = typ \<Longrightarrow> mget (mux_Caches mux) (mux_ClassifyDelta mux r) = None"
    and "dst_phase s = Selecting" and "dst_muxed s = []" and "mget (dst_watches s) typ = None"
    and "dreq_type_url req = typ" and "typ \<noteq> ''''"
  shows "snd (delta_loop E (delta_handled req @ [InMessage]) s) = Some (Some PanicNilDereference)"
proof -
  have create: "CreateDeltaWatch (mux_Cache C mux) r st ch c = (c, [SendDelta ch None], None)"
    if "dreq_type_url r = typ" for r st ch c
    using assms(3) [OF that] by (simp add: cache_defs mux_CreateDeltaWatch_def)
  show ?thesis
    using assms(2,4-8) create unfolding assms(1)
    by (cases "dreq_node req") (simp_all add: delta_handled_def delta_busy_def delta_handle_request_def delta_step_def
        delta_processAll_def delta_accept_def delta_fill_node_def delta_fill_type_def delta_unwatch_def
        delta_rewatch_def Let_def assms(1) delta_returns_def delta_process_def)
qed

definition empty_mux :: MuxCache where
  "empty_mux = \<lparr>mux_Classify = req_type_url, mux_ClassifyDelta = dreq_type_url, mux_Caches = []\<rparr>"

definition mux_env :: "(LinearCache store, cache_ref \<times> linear_canceler) delta_env" where
  "mux_env = \<lparr>de_server = NewDeltaServer (mux_Cache (linear_Cache sample_lib) empty_mux) None [],
     de_lib = sample_lib, de_streamID = 1, de_typeURL = ''T'', de_chan = 9, de_send = (\<lambda>trace m. None)\<rparr>"

theorem unclassified_delta_request_panics_witness:
  "snd (delta_loop mux_env (delta_handled (delta_request ''T'') @ [InMessage]) (new_delta_stream (\<lambda>r. sample_linear)))
     = Some (Some PanicNilDereference)"
  by (rule unclassified_delta_request_panics [of mux_env "linear_Cache sample_lib" empty_mux "''T''"])
    (simp_all add: mux_env_def NewDeltaServer_def empty_mux_def new_delta_stream_def delta_request_def)

end
