(* ===== verification/SnapshotStream.thy ===== *)
theory SnapshotStream
  imports DeltaServerFacts SimpleProps
begin

text \<open>
  Incremental streams over a snapshot cache: the snapshot cache keeps the contract \<open>delta_cache\<close>, so
  the invariant of a stream holds over it, and its clients are in sync with the snapshot of their
  node.
\<close>

section \<open>The open delta watches of a node\<close>

definition delta_at :: "string \<Rightarrow> snapshotCache \<Rightarrow> (int64, DeltaResponseWatch) gomap" where
  "delta_at n c = (case mget (sc_status c) n of None \<Rightarrow> [] | Some i \<Rightarrow> si_deltaWatches i)"

fun simple_parked :: "simple_canceler \<Rightarrow> snapshotCache \<Rightarrow> DeltaResponseWatch option" where
  "simple_parked (CancelDeltaWatch n i) c = mget (delta_at n c) i"
| "simple_parked _ c = None"

text \<open>A watch is kept under the node of its request.\<close>

definition simple_placed :: "snapshotCache \<Rightarrow> bool" where
  "simple_placed c \<longleftrightarrow> (\<forall>n i w. mget (delta_at n c) i = Some w \<longrightarrow> dnode_of c (dw_Request w) = n)"

definition no_new_watch :: "snapshotCache \<Rightarrow> snapshotCache \<Rightarrow> bool" where
  "no_new_watch c c' \<longleftrightarrow> sc_hash c' = sc_hash c \<and>
     (\<forall>n i w. mget (delta_at n c') i = Some w \<longrightarrow> mget (delta_at n c) i = Some w)"

lemma no_new_watch_placed: "no_new_watch c c' \<Longrightarrow> simple_placed c \<Longrightarrow> simple_placed c'"
  unfolding no_new_watch_def simple_placed_def by metis

lemma delta_at_put [simp]:
  "delta_at n (put_status m i c) = (if n = m then si_deltaWatches i else delta_at n c)"
  by (simp add: delta_at_def mget_put)

lemma delta_at_frame [simp]:
  "delta_at n (c\<lparr>sc_snapshots := s\<rparr>) = delta_at n c"
  "delta_at n (c\<lparr>sc_watchCount := k\<rparr>) = delta_at n c"
  "delta_at n (c\<lparr>sc_deltaWatchCount := k\<rparr>) = delta_at n c"
  by (simp_all add: delta_at_def)

lemma delta_at_info_of [simp]: "si_deltaWatches (info_of node n c) = delta_at n c"
  by (simp add: delta_at_def info_of_def newStatusInfo_def split: option.split)

lemma delta_at_wf: "simple_inv L c \<Longrightarrow> wf_map (delta_at n c)"
  by (auto simp: delta_at_def simple_inv_def node_ok_def split: option.split)

section \<open>What the operations do to them\<close>

lemma delta_at_CreateWatch:
  assumes "simple_CreateWatch now req st ch c = (c', sends, k)"
  shows "delta_at n c' = delta_at n c \<and> sc_hash c' = sc_hash c \<and> delta_messages ch' sends = []"
  using simple_CreateWatch_shape [OF assms]
  by (auto simp: sotw_answer_def watch_answer_def Let_def split: if_splits)

lemma delta_at_CreateDeltaWatch:
  assumes L: "lib_total L" and inv: "simple_inv L c"
    and step: "simple_CreateDeltaWatch L now req st ch c = (c', sends, k)"
  shows "sc_hash c' = sc_hash c \<and>
    (if sends = [] then k = Some (CancelDeltaWatch (dnode_of c req) (sc_deltaWatchCount c + 1)) \<and>
       (\<forall>n. delta_at n c' = (if n = dnode_of c req
          then mput (sc_deltaWatchCount c + 1) \<lparr>dw_Request = req, dw_Response = ch, dw_StreamState = st\<rparr> (delta_at n c)
          else delta_at n c))
     else k = None \<and> simple_view req c' \<noteq> None \<and> (\<forall>n. delta_at n c' = delta_at n c) \<and>
       (\<exists>m. sends = [SendDelta ch m]))"
proof (cases "mget (sc_snapshots c) (dnode_of c req)")
  case None
  with simple_CreateDeltaWatch_shape [OF step] show ?thesis by simp
next
  case (Some s)
  from simple_CreateDeltaWatch_view [OF L inv step Some] have "simple_view req c' \<noteq> None"
    by (auto simp: Let_def)
  with simple_CreateDeltaWatch_shape [OF step] Some show ?thesis
    by (auto simp: Let_def delta_answer_def split: if_splits)
qed

lemma delta_at_cancel:
  "delta_at n (simple_cancel k c) =
     (case k of CancelDeltaWatch m i \<Rightarrow> (if n = m then mdel i (delta_at n c) else delta_at n c) | _ \<Rightarrow> delta_at n c)"
  "sc_hash (simple_cancel k c) = sc_hash c"
  by (cases k; auto simp: delta_at_def mget_put split: option.split)+

lemma delta_at_Clear:
  "delta_at n (ClearSnapshot m c) = (if n = m then [] else delta_at n c)" "sc_hash (ClearSnapshot m c) = sc_hash c"
  by (simp_all add: ClearSnapshot_def delta_at_def mget_del)

lemma delta_messages_concat:
  "(\<And>x. x \<in> set xs \<Longrightarrow> delta_messages ch (f x) = []) \<Longrightarrow> delta_messages ch (concat (map f xs)) = []"
  by (induction xs) simp_all

lemma delta_messages_answers [simp]:
  "delta_messages ch (sotw_answer ads ctx snap w) = []" "delta_messages ch (heartbeat_answer ads ctx snap w) = []"
  by (simp_all add: sotw_answer_def heartbeat_answer_def watch_answer_def Let_def)

lemma delta_at_heartbeats:
  assumes inv: "simple_inv L c"
  shows "delta_at n (fst (sendHeartbeats never ctx m (c, sends))) = delta_at n c \<and>
    sc_hash (fst (sendHeartbeats never ctx m (c, sends))) = sc_hash c \<and>
    delta_messages ch (snd (sendHeartbeats never ctx m (c, sends))) = delta_messages ch sends"
proof (cases "mget (sc_snapshots c) m"; cases "mget (sc_status c) m")
  fix snap i
  assume some: "mget (sc_snapshots c) m = Some snap" "mget (sc_status c) m = Some i"
  have "wf_map (si_watches i)" using inv some(2) unfolding simple_inv_def node_ok_def by blast
  from sendHeartbeats_shape [OF some this, of ctx sends] some(2) show ?thesis
    by (auto simp: delta_at_def mget_put intro!: delta_messages_concat)
qed (simp_all add: sendHeartbeats_def)

lemma delta_at_tick:
  assumes "simple_inv L c"
  shows "delta_at n (fst (heartbeat_tick never ctx c)) = delta_at n c \<and>
    sc_hash (fst (heartbeat_tick never ctx c)) = sc_hash c \<and>
    delta_messages ch (snd (heartbeat_tick never ctx c)) = []"
proof -
  have "delta_at n (fst (fold (sendHeartbeats never ctx) ns (c, sends))) = delta_at n c \<and>
      sc_hash (fst (fold (sendHeartbeats never ctx) ns (c, sends))) = sc_hash c \<and>
      delta_messages ch (snd (fold (sendHeartbeats never ctx) ns (c, sends))) = delta_messages ch sends"
    if "simple_inv L c" for ns c sends
    using that
  proof (induction ns arbitrary: c sends)
    case (Cons m ns)
    obtain c1 sends1 where h: "sendHeartbeats never ctx m (c, sends) = (c1, sends1)"
      by (cases "sendHeartbeats never ctx m (c, sends)")
    from simple_inv_heartbeats [OF Cons.prems, of ctx m sends] h have "simple_inv L c1" by simp
    from Cons.IH [OF this, of sends1] delta_at_heartbeats [OF Cons.prems, of n ctx m sends ch] h
    show ?case by simp
  qed simp
  from this [OF assms, of _ "[]"] show ?thesis by (simp add: heartbeat_tick_def)
qed

lemma same_deltas:
  "sc_hash c' = sc_hash c \<Longrightarrow> (\<And>n. delta_at n c' = delta_at n c) \<Longrightarrow> no_new_watch c c'"
  by (simp add: no_new_watch_def)

lemma reorder_no_new_watch:
  assumes inv: "simple_inv L c" and re: "simple_reorder c c'"
  shows "no_new_watch c c'"
proof -
  from re obtain sn st where c': "c' = c\<lparr>sc_snapshots := sn, sc_status := st\<rparr>"
    and st: "\<And>n. case mget (sc_status c) n of
           None \<Rightarrow> mget st n = None
         | Some i \<Rightarrow> (\<exists>ws dws. mget st n = Some (i\<lparr>si_watches := ws, si_deltaWatches := dws\<rparr>) \<and>
             same_entries (si_watches i) ws \<and> same_entries (si_deltaWatches i) dws)"
    unfolding simple_reorder_def by blast
  have "mget (delta_at n c') = mget (delta_at n c)" for n
  proof (cases "mget (sc_status c) n")
    case None
    with st [of n] show ?thesis by (simp add: delta_at_def c')
  next
    case (Some i)
    with st [of n] obtain ws dws where "mget st n = Some (i\<lparr>si_watches := ws, si_deltaWatches := dws\<rparr>)"
      and "same_entries (si_deltaWatches i) dws" by auto
    with Some mget_same_entries [of "si_deltaWatches i" dws] delta_at_wf [OF inv, of n] show ?thesis
      by (simp add: delta_at_def c')
  qed
  then show ?thesis by (simp add: no_new_watch_def c')
qed

section \<open>A new snapshot\<close>

lemma delta_messages_delta_answers:
  "delta_messages ch (concat (map (\<lambda>(k, w). delta_answer ctx snap w) ws)) =
     map (\<lambda>(k, w). Some (RawDelta (createDeltaResponse ctx (dw_Request w) (dw_StreamState w)
          (snapshot_container snap (dreq_type_url (dw_Request w))))))
       (filter (\<lambda>(k, w). dw_Response w = ch) ws)"
  by (induction ws) (auto simp: delta_answer_def)

lemma SetSnapshot_serves:
  assumes L: "lib_total L" and inv: "simple_inv L c" and placed: "simple_placed c" and ok: "snap_ok L snap"
    and step: "SetSnapshot L never ctx node snap c = (c', sends, err)"
  shows "no_new_watch c c' \<and> (\<exists>ks. distinct ks \<and>
      list_all2 (\<lambda>k m. \<exists>w. simple_parked k c = Some w \<and> dw_Response w = ch \<and> answers simple_view c' w m)
        ks (delta_messages ch sends) \<and>
      (\<forall>k w. simple_parked k c' = Some w \<and> dw_Response w = ch \<longrightarrow> simple_parked k c = Some w \<and> k \<notin> set ks))"
proof (cases "mget (sc_status c) node")
  case None
  with SetSnapshot_new [OF None, of L ctx snap] step
  have c': "c' = c\<lparr>sc_snapshots := mput node snap (sc_snapshots c)\<rparr>" and sends: "sends = []" by simp_all
  have same: "delta_at n c' = delta_at n c" for n by (simp add: c')
  have "simple_parked k c' = simple_parked k c" for k by (cases k) (simp_all add: same)
  then show ?thesis
    unfolding sends using same_deltas [OF _ same] by (intro conjI exI [of _ "[]"]) (simp_all add: c')
next
  case (Some info)
  have wfd: "wf_map (si_deltaWatches info)" and wfw: "wf_map (si_watches info)"
    using inv Some unfolding simple_inv_def node_ok_def by blast+
  from SetSnapshot_shape [OF L ok Some wfw wfd step] obtain vm dws ws ord dord where
    vm: "si_deltaWatches info \<noteq> [] \<longrightarrow> vm \<noteq> None" and same: "same_entries dws (si_deltaWatches info)"
    and "same_entries ws (si_watches info)"
    and c': "c' = c\<lparr>sc_snapshots := mput node (snap\<lparr>snap_VersionMap := vm\<rparr>) (mput node snap (sc_snapshots c)),
        sc_status := mput node (info\<lparr>
          si_orderedWatches := ord, si_watches := filter (\<lambda>(k, w). \<not> sotw_stale snap w) (si_watches info),
          si_orderedDeltaWatches := dord,
          si_deltaWatches := filter (\<lambda>(k, w). \<not> delta_due (snap\<lparr>snap_VersionMap := vm\<rparr>) w) (si_deltaWatches info)\<rparr>)
        (sc_status c)\<rparr>"
    and sends: "sends = concat (map (\<lambda>(k, w). sotw_answer (sc_ads c) ctx snap w) (filter (\<lambda>(k, w). sotw_stale snap w) ws))
        @ concat (map (\<lambda>(k, w). delta_answer ctx (snap\<lparr>snap_VersionMap := vm\<rparr>) w)
            (filter (\<lambda>(k, w). delta_due (snap\<lparr>snap_VersionMap := vm\<rparr>) w) dws))"
    unfolding set_result_def Let_def by blast
  let ?snap = "snap\<lparr>snap_VersionMap := vm\<rparr>"
  let ?served = "filter (\<lambda>(k, w). dw_Response w = ch) (filter (\<lambda>(k, w). delta_due ?snap w) dws)"
  let ?ks = "map (\<lambda>(i, w). CancelDeltaWatch node i) ?served"
  have at: "delta_at n c' = (if n = node then filter (\<lambda>(k, w). \<not> delta_due ?snap w) (delta_at node c) else delta_at n c)"
    for n by (simp add: c' delta_at_def mget_put Some)
  have node: "delta_at node c = si_deltaWatches info" by (simp add: delta_at_def Some)
  have in_c: "mget (delta_at node c) i = Some w \<longleftrightarrow> (i, w) \<in> set dws" for i w
    using mget_eq_Some_iff [OF wfd] mset_eq_setD [OF same] by (simp add: node)
  have in_c': "mget (delta_at node c') i = Some w \<longleftrightarrow> (i, w) \<in> set dws \<and> \<not> delta_due ?snap w" for i w
  proof -
    have "wf_map (filter (\<lambda>(k, w). \<not> delta_due ?snap w) (si_deltaWatches info))" using wfd by simp
    from mget_eq_Some_iff [OF this] mset_eq_setD [OF same] show ?thesis by (auto simp: at node)
  qed
  have "mget (delta_at n c) i = Some w" if "mget (delta_at n c') i = Some w" for n i w
    using that in_c in_c' at [of n] by (cases "n = node") simp_all
  moreover have "sc_hash c' = sc_hash c" by (simp add: c')
  ultimately have new: "no_new_watch c c'" by (simp add: no_new_watch_def)
  have wfs: "distinct (map fst ?served)"
    using wfd wf_map_same_entries [OF same] wf_map_filter unfolding wf_map_def by metis
  then have "distinct (map (CancelDeltaWatch node) (map fst ?served))"
    by (subst distinct_map) (intro conjI inj_onI; simp)
  moreover have "map (CancelDeltaWatch node) (map fst ?served) = ?ks" by (simp add: comp_def split_def)
  ultimately have d: "distinct ?ks" by (simp only:)
  have msgs: "delta_messages ch sends = map (\<lambda>(k, w). Some (RawDelta (createDeltaResponse ctx (dw_Request w)
      (dw_StreamState w) (snapshot_container ?snap (dreq_type_url (dw_Request w)))))) ?served"
  proof -
    have "delta_messages ch (concat (map (\<lambda>(k, w). sotw_answer (sc_ads c) ctx snap w)
        (filter (\<lambda>(k, w). sotw_stale snap w) ws))) = []"
      by (rule delta_messages_concat) (simp split: prod.split)
    then show ?thesis
      by (simp only: sends delta_messages_append delta_messages_delta_answers append_Nil)
  qed
  have ans: "answers simple_view c' w (Some (RawDelta (createDeltaResponse ctx (dw_Request w)
      (dw_StreamState w) (snapshot_container ?snap (dreq_type_url (dw_Request w))))))"
    if iw: "(i, w) \<in> set dws" for i w
  proof -
    have "dnode_of c (dw_Request w) = node" using iw placed in_c unfolding simple_placed_def by blast
    moreover have "vm \<noteq> None" using vm iw mset_eq_setD [OF same] by auto
    ultimately show ?thesis by (auto simp: answers_def simple_view_def c')
  qed
  have l: "list_all2 (\<lambda>k m. \<exists>w. simple_parked k c = Some w \<and> dw_Response w = ch \<and> answers simple_view c' w m)
      ?ks (delta_messages ch sends)"
    unfolding msgs list_all2_map1 list_all2_map2 list_all2_same
    using ans in_c by auto
  have "simple_parked k c = Some w \<and> k \<notin> set ?ks" if p: "simple_parked k c' = Some w" for k w
  proof -
    from p obtain n i where k: "k = CancelDeltaWatch n i" and iw: "mget (delta_at n c') i = Some w"
      by (cases k) auto
    have "k \<notin> set ?ks"
    proof
      assume "k \<in> set ?ks"
      then obtain v where "n = node" and v: "(i, v) \<in> set dws" "delta_due ?snap v" by (auto simp: k)
      with iw in_c' [of i w] in_c [of i] show False by (metis option.inject)
    qed
    with new iw show ?thesis by (simp add: no_new_watch_def k)
  qed
  with d l new show ?thesis by blast
qed


section \<open>The contract\<close>

text \<open>What the rest of the world may do: any operation, but no delta watch that answers on \<open>ch\<close>.\<close>

definition simple_others :: "lib \<Rightarrow> chan \<Rightarrow> snapshotCache \<Rightarrow> snapshotCache \<Rightarrow> send list \<Rightarrow> bool" where
  "simple_others L ch c c' sends \<longleftrightarrow>
     (\<exists>op. simple_op_ok L op \<and> simple_step L op c = (c', sends) \<and>
        (\<forall>now req st ch'. op = SCreateDeltaWatch now req st ch' \<longrightarrow> ch' \<noteq> ch))
     \<or> simple_reorder c c' \<and> sends = []"

text \<open>Operations other than \<open>SetSnapshot\<close> answer no open delta watch.\<close>

definition unserved :: "chan \<Rightarrow> snapshotCache \<Rightarrow> snapshotCache \<Rightarrow> send list \<Rightarrow> bool" where
  "unserved ch c c' sends \<longleftrightarrow> delta_messages ch sends = [] \<and>
     (\<forall>k w. simple_parked k c' = Some w \<and> dw_Response w = ch \<longrightarrow> simple_parked k c = Some w)"

lemma no_new_watch_unserved:
  assumes "no_new_watch c c'" and "delta_messages ch sends = []"
  shows "unserved ch c c' sends"
  unfolding unserved_def
proof (intro conjI allI impI, rule assms(2))
  fix k w assume "simple_parked k c' = Some w \<and> dw_Response w = ch"
  with assms(1) show "simple_parked k c = Some w" by (cases k) (auto simp: no_new_watch_def)
qed

lemma created_delta_watch:
  assumes L: "lib_total L" and inv: "simple_inv L c"
    and step: "simple_CreateDeltaWatch L now req st ch' c = (c', sends, k)"
  shows "simple_placed c \<Longrightarrow> simple_placed c'" and "ch' \<noteq> ch \<Longrightarrow> unserved ch c c' sends"
proof -
  note at = delta_at_CreateDeltaWatch [OF L inv step]
  show "simple_placed c'" if "simple_placed c"
    using at that unfolding simple_placed_def by (cases "sends = []") (auto simp: mget_put split: if_splits)
  show "unserved ch c c' sends" if "ch' \<noteq> ch"
    unfolding unserved_def
  proof (intro conjI allI impI)
    show "delta_messages ch sends = []" using at that by (cases "sends = []") auto
    fix k w assume "simple_parked k c' = Some w \<and> dw_Response w = ch"
    with at that show "simple_parked k c = Some w"
      by (cases k; cases "sends = []") (auto simp: mget_put split: if_splits)
  qed
qed

lemma simple_step_unserved:
  assumes L: "lib_total L" and inv: "simple_inv L c" and step: "simple_step L op c = (c', sends)"
    and notset: "\<And>ctx node snap. op \<noteq> SSetSnapshot ctx node snap"
    and other: "\<And>now req st ch'. op = SCreateDeltaWatch now req st ch' \<Longrightarrow> ch' \<noteq> ch"
  shows "(simple_placed c \<longrightarrow> simple_placed c') \<and> unserved ch c c' sends"
proof -
  have quiet: ?thesis if "no_new_watch c c'" "delta_messages ch sends = []"
    using no_new_watch_placed [OF that(1)] no_new_watch_unserved [OF that] by blast
  show ?thesis
  proof (cases op)
    case (SSetSnapshot ctx node snap)
    with notset show ?thesis by blast
  next
    case (SClearSnapshot node)
    with step show ?thesis by (intro quiet) (auto simp: no_new_watch_def delta_at_Clear split: if_splits)
  next
    case (SCreateWatch now req st ch')
    with step obtain k where "simple_CreateWatch now req st ch' c = (c', sends, k)" by (auto split: prod.splits)
    from delta_at_CreateWatch [OF this] show ?thesis by (intro quiet same_deltas) auto
  next
    case (SCreateDeltaWatch now req st ch')
    with step obtain k where "simple_CreateDeltaWatch L now req st ch' c = (c', sends, k)"
      by (auto split: prod.splits)
    from created_delta_watch [OF L inv this] other [OF SCreateDeltaWatch] show ?thesis by blast
  next
    case (SCancel k)
    with step show ?thesis
      by (intro quiet)
        (auto simp: no_new_watch_def delta_at_cancel mget_del split: simple_canceler.splits if_splits)
  next
    case (SHeartbeat ctx)
    with step delta_at_tick [OF inv, of _ ctx] show ?thesis by (intro quiet same_deltas) auto
  qed
qed

lemma simple_others_keep:
  assumes L: "lib_total L" and inv: "simple_inv L c" and placed: "simple_placed c"
    and others: "simple_others L ch c c' sends"
  shows "simple_inv L c' \<and> simple_placed c' \<and> (\<exists>ks. distinct ks \<and>
      list_all2 (\<lambda>k m. \<exists>w. simple_parked k c = Some w \<and> dw_Response w = ch \<and> answers simple_view c' w m)
        ks (delta_messages ch sends) \<and>
      (\<forall>k w. simple_parked k c' = Some w \<and> dw_Response w = ch \<longrightarrow> simple_parked k c = Some w \<and> k \<notin> set ks))"
proof -
  have none: ?thesis if "simple_inv L c'" "simple_placed c'" "unserved ch c c' sends"
    using that unfolding unserved_def by (intro conjI exI [of _ "[]"]) auto
  from others consider (op) op where "simple_op_ok L op" "simple_step L op c = (c', sends)"
      "\<And>now req st ch'. op = SCreateDeltaWatch now req st ch' \<Longrightarrow> ch' \<noteq> ch"
    | (re) "simple_reorder c c'" "sends = []" unfolding simple_others_def by blast
  then show ?thesis
  proof cases
    case op
    note inv' = simple_inv_step [OF L inv op(1,2)]
    show ?thesis
    proof (cases "\<exists>ctx node snap. op = SSetSnapshot ctx node snap")
      case True
      with op(1,2) obtain ctx node snap err where "snap_ok L snap"
        "SetSnapshot L never ctx node snap c = (c', sends, err)" by (auto split: prod.splits)
      from SetSnapshot_serves [OF L inv placed this] inv' no_new_watch_placed placed show ?thesis by blast
    next
      case False
      then have notset: "op \<noteq> SSetSnapshot ctx node snap" for ctx node snap by blast
      have "(simple_placed c \<longrightarrow> simple_placed c') \<and> unserved ch c c' sends"
        by (rule simple_step_unserved [OF L inv op(2) notset]) (rule op(3))
      then have "simple_placed c'" "unserved ch c c' sends" using placed by blast+
      with inv' none show ?thesis by blast
    qed
  next
    case re
    note new = reorder_no_new_watch [OF inv re(1)]
    from none [OF simple_inv_reorder [OF inv re(1)] no_new_watch_placed [OF new placed] no_new_watch_unserved [OF new]]
    show ?thesis by (simp add: re(2))
  qed
qed

interpretation simple_stream: delta_cache L "\<lambda>c. lib_total L \<and> simple_inv L c \<and> simple_placed c"
  simple_view "simple_CreateDeltaWatch L now" simple_cancel simple_parked "simple_others L" for L now
proof (unfold_locales, goal_cases)
  case (1 c req r)
  then show ?case using simple_delta.view_ok by blast
next
  case (2 c req st ch c' sends k)
  then show ?case using simple_inv_CreateDeltaWatch created_delta_watch(1) by blast
next
  case (3 c req st ch c' sends k r)
  then show ?case using simple_delta.create_answer by blast
next
  case (4 c req st ch c' sends k)
  then show ?case using delta_at_CreateDeltaWatch [of L c now req st ch c' sends k] by simp
next
  case (5 c req st ch c' sends k)
  then show ?case using delta_at_CreateDeltaWatch [of L c now req st ch c' sends k] by simp
next
  case (6 c req st ch c' sends k i)
  then show ?case using delta_at_CreateDeltaWatch [of L c now req st ch c' sends k]
    by (cases i; cases "sends = []") (auto simp: mget_put)
next
  case (7 c i)
  moreover have "no_new_watch c (simple_cancel i c)"
    by (auto simp: no_new_watch_def delta_at_cancel mget_del split: simple_canceler.splits if_splits)
  ultimately show ?case using simple_inv_cancel no_new_watch_placed by blast
next
  case (8 c j i)
  then show ?case by (cases i; cases j) (auto simp: delta_at_cancel mget_del simp del: simple_cancel.simps)
next
  case (9 c i w r)
  then obtain n k where w: "mget (delta_at n c) k = Some w" by (cases i) auto
  with 9 obtain info s where info: "mget (sc_status c) n = Some info" "mget (si_deltaWatches info) k = Some w"
    and n: "dnode_of c (dw_Request w) = n" and s: "mget (sc_snapshots c) n = Some s"
    and r: "r = snapshot_container s (dreq_type_url (dw_Request w))"
    by (auto simp: simple_view_def simple_placed_def delta_at_def split: option.splits if_splits)
  have "\<not> delta_due s w"
    using 9(1) info s mget_in_set [OF info(2)] unfolding simple_inv_def node_ok_def by fastforce
  then show ?case by (simp add: delta_due_def r)
next
  case (10 c ch c' sends)
  then show ?case using simple_others_keep by blast
next
  case (11 c ch c' sends)
  then show ?case using simple_others_keep by blast
qed


section \<open>Streams over a snapshot cache\<close>

lemma simple_reach_placed:
  assumes "simple_reach L c" and "lib_total L"
  shows "simple_placed c"
  using assms(1)
proof induction
  case (init ads hash)
  show ?case by (simp add: simple_placed_def delta_at_def newSnapshotCache_def)
next
  case (step c op c' sends)
  note inv = simple_reach_inv [OF step.hyps(1) assms(2)]
  show ?case
  proof (cases "\<exists>ctx node snap. op = SSetSnapshot ctx node snap")
    case True
    with step.hyps obtain ctx node snap err where "snap_ok L snap"
      "SetSnapshot L never ctx node snap c = (c', sends, err)" by (auto split: prod.splits)
    from SetSnapshot_serves [OF assms(2) inv step.IH this] no_new_watch_placed step.IH show ?thesis by blast
  next
    case False
    obtain ch :: chan where "\<And>now req st ch'. op = SCreateDeltaWatch now req st ch' \<Longrightarrow> ch' \<noteq> ch"
    proof (cases op)
      case (SCreateDeltaWatch now req st ch')
      then show thesis using that [of "ch' + 1"] by simp
    qed (use that in auto)
    with simple_step_unserved [OF assms(2) inv step.hyps(3), of ch] False step.IH show ?thesis by blast
  qed
next
  case (reorder c c')
  note inv = simple_reach_inv [OF reorder.hyps(1) assms(2)]
  show ?case by (rule no_new_watch_placed [OF reorder_no_new_watch [OF inv reorder.hyps(2)] reorder.IH])
qed

text \<open>A snapshot cache when a stream opens: nothing is open on the channel the stream has just made.\<close>

definition simple_starts :: "lib \<Rightarrow> chan \<Rightarrow> snapshotCache \<Rightarrow> bool" where
  "simple_starts L ch c \<longleftrightarrow> simple_reach L c \<and>
     (\<forall>n info i w. mget (sc_status c) n = Some info \<and> mget (si_deltaWatches info) i = Some w \<longrightarrow> dw_Response w \<noteq> ch)"

text \<open>The runs of a stream over a snapshot cache, and the careful ones.\<close>

abbreviation simple_stream_runs ::
    "lib \<Rightarrow> (snapshotCache, simple_canceler) delta_env \<Rightarrow> client \<Rightarrow> (snapshotCache, simple_canceler) delta_stream \<Rightarrow> bool" where
  "simple_stream_runs L E \<equiv> delta_reach False (simple_starts L (de_chan E)) (simple_others L) E"

abbreviation simple_stream_reach ::
    "lib \<Rightarrow> (snapshotCache, simple_canceler) delta_env \<Rightarrow> client \<Rightarrow> (snapshotCache, simple_canceler) delta_stream \<Rightarrow> bool" where
  "simple_stream_reach L E \<equiv> delta_reach True (simple_starts L (de_chan E)) (simple_others L) E"

lemma simple_parked_eq:
  "simple_parked k c = Some w \<longleftrightarrow>
     (\<exists>n i info. k = CancelDeltaWatch n i \<and> mget (sc_status c) n = Some info \<and> mget (si_deltaWatches info) i = Some w)"
  by (cases k) (auto simp: delta_at_def split: option.splits)

lemma simple_starts_inv:
  assumes "lib_total L" and "simple_starts L ch c"
  shows "(lib_total L \<and> simple_inv L c \<and> simple_placed c) \<and>
    (\<forall>k rw. simple_parked k c = Some rw \<longrightarrow> dw_Response rw \<noteq> ch)"
  using assms simple_reach_inv simple_reach_placed unfolding simple_starts_def simple_parked_eq by blast

lemma simple_server_cache:
  assumes "dsv_cache (de_server E) = simple_Cache L now"
  shows "CreateDeltaWatch (dsv_cache (de_server E)) = simple_CreateDeltaWatch L now"
    and "cancel_fn (dsv_cache (de_server E)) = simple_cancel"
  by (simp_all add: assms cache_defs)

lemma simple_stream_ok:
  assumes "lib_total L" and "dsv_cache (de_server E) = simple_Cache L now" and "de_lib E = L"
    and "simple_stream_reach L E cl0 s"
  shows "simple_inv L (dst_cache s) \<and> simple_placed (dst_cache s) \<and>
    stream_ok L simple_parked (de_chan E) (client_of cl0 (dst_trace s)) s"
  using simple_stream.stream_reach_ok [OF simple_server_cache [OF assms(2)] assms(3)
      simple_starts_inv [OF assms(1)] assms(4)] by blast

text \<open>C5: whatever a client held when its stream opened and whatever has happened since (its requests,
  the responses it was sent, snapshots set and cleared for any node, watches of others, heartbeats, at
  any point of the handling of a request but one, contexts lasting), as long as the names it adds are ones
  it and the server agree on, and no change makes the cache answer a watch in the moment between the
  server finding the stream's channel empty for a request of the watch's type and cancelling the
  watch: when the snapshot cache keeps a watch of the stream open and has a snapshot for its node, the
  client that applied everything it was sent holds, for every name it subscribes to, exactly the hash of
  the resource in that snapshot, and nothing where there is none.\<close>

theorem snapshot_stream_in_sync:
  assumes "lib_total L" and "dsv_cache (de_server E) = simple_Cache L now" and "de_lib E = L"
    and "simple_stream_reach L E cl0 s"
    and "mget (sc_status (dst_cache s)) node = Some info" and "mget (si_deltaWatches info) i = Some rw"
    and "dw_Response rw = de_chan E" and "mget (sc_snapshots (dst_cache s)) node = Some snap"
    and "in_scope (dw_StreamState rw) n"
  shows "client_of cl0 (dst_trace s) (dreq_type_url (dw_Request rw)) n =
    map_option (\<lambda>r. hash_of L (rt_resource r)) (mget (GetResourcesAndTTL (Some snap) (dreq_type_url (dw_Request rw))) n)"
proof -
  note ok = simple_stream_ok [OF assms(1-4)]
  then have inv: "lib_total L \<and> simple_inv L (dst_cache s) \<and> simple_placed (dst_cache s)"
    using assms(1) by simp
  have p: "simple_parked (CancelDeltaWatch node i) (dst_cache s) = Some rw"
    using assms(5,6) unfolding simple_parked_eq by blast
  have node: "dnode_of (dst_cache s) (dw_Request rw) = node"
    using inv p unfolding simple_placed_def by (metis simple_parked.simps(1))
  have "node_ok (Some snap) info" using inv assms(5,8) unfolding simple_inv_def by metis
  then have vm: "snap_VersionMap snap \<noteq> None" using assms(6) by (auto simp: node_ok_def)
  have snap: "snap_ok L snap" using inv assms(8) unfolding simple_inv_def by blast
  have "simple_view (dw_Request rw) (dst_cache s) = Some (snapshot_container snap (dreq_type_url (dw_Request rw)))"
    using assms(8) vm by (simp add: simple_view_def node)
  from simple_stream.open_watch_in_sync [OF inv _ p assms(7) this assms(9)] ok snapshot_target [OF snap vm]
  show ?thesis by simp
qed


text \<open>A client that holds \<open>a\<close> already opens a watch for it.\<close>

definition snapshot_env :: "(snapshotCache, simple_canceler) delta_env" where
  "snapshot_env = \<lparr>de_server = NewDeltaServer (simple_Cache sample_lib 6) None [], de_lib = sample_lib,
     de_streamID = 1, de_typeURL = EndpointType, de_chan = 9, de_send = (\<lambda>trace m. None)\<rparr>"

abbreviation "held_hash \<equiv> hash_of sample_lib (cla ''a'' [1])"

definition snapshot_subscribe :: DeltaDiscoveryRequest where
  "snapshot_subscribe = empty_delta_request\<lparr>dreq_type_url := EndpointType, dreq_node := Some sample_node,
     dreq_resource_names_subscribe := [''a''], dreq_initial_resource_versions := Some [(''a'', held_hash)]\<rparr>"

abbreviation "snapshot_opened \<equiv> (new_delta_stream sample_simple :: (snapshotCache, simple_canceler) delta_stream)"

abbreviation "held_state \<equiv> (NewStreamState False (Some [(''a'', held_hash)]))\<lparr>ss_subscribedResourceNames := [''a'']\<rparr>"

abbreviation "holding_a \<equiv> (\<lambda>typ. [''a'' \<mapsto> held_hash]) :: client"

lemma snapshot_opened_reach: "simple_stream_reach sample_lib snapshot_env cl0 snapshot_opened"
proof (rule delta_reach.init)
  show "simple_starts sample_lib (de_chan snapshot_env) sample_simple"
    using sample_simple_reach by (auto simp: simple_starts_def sample_simple_eq split: if_splits)
qed (simp add: delta_open_def snapshot_env_def NewDeltaServer_def)

lemma held_watch_parks:
  assumes d: "simple_CreateDeltaWatch sample_lib 6 snapshot_subscribe held_state 9 sample_simple = (c', sends, k)"
  shows "sends = []" and "simple_parked (CancelDeltaWatch ''n'' 1) c' =
      Some \<lparr>dw_Request = snapshot_subscribe, dw_Response = 9, dw_StreamState = held_state\<rparr>"
    and "\<exists>snap. mget (sc_snapshots c') ''n'' = Some snap \<and>
      mget (GetResourcesAndTTL (Some snap) EndpointType) ''a'' = Some \<lparr>rt_resource = cla ''a'' [1], rt_ttl = None\<rparr>"
proof -
  let ?e = "endpoints ''1'' [(''a'', [1])]"
  have req: "dreq_type_url snapshot_subscribe = EndpointType" "dreq_node snapshot_subscribe = Some sample_node"
    by (simp_all add: snapshot_subscribe_def)
  have inv: "simple_inv sample_lib sample_simple" by (rule simple_reach_inv [OF sample_simple_reach lib_total_sample])
  have node: "dnode_of sample_simple snapshot_subscribe = ''n''"
    by (simp add: sample_simple_eq req IDHash_ID_def sample_node_def)
  then have snap: "mget (sc_snapshots sample_simple) (dnode_of sample_simple snapshot_subscribe) = Some ?e"
    by (simp add: sample_simple_eq)
  obtain vm where cvm: "ConstructVersionMap sample_lib ?e = (?e\<lparr>snap_VersionMap := Some vm\<rparr>, None)"
    and ok: "snap_ok sample_lib (?e\<lparr>snap_VersionMap := Some vm\<rparr>)"
    using snap_ok_construct [OF lib_total_sample endpoints_ok, of "[(''a'', [1])]"] by auto
  let ?s = "?e\<lparr>snap_VersionMap := Some vm\<rparr>"
  have "GetResourcesAndTTL (Some ?s) EndpointType = GetResourcesAndTTL (Some ?e) EndpointType"
    by (simp add: GetResourcesAndTTL_def Let_def)
  then have get: "mget (GetResourcesAndTTL (Some ?s) EndpointType) ''a'' = Some \<lparr>rt_resource = cla ''a'' [1], rt_ttl = None\<rparr>"
    by (simp add: endpoints_get)
  have "target held_state (snapshot_container ?s EndpointType) ''a'' = Some held_hash"
    using snapshot_target [OF ok] get by simp
  then have "up_to_date held_state (snapshot_container ?s EndpointType)"
    by (auto simp: target_def up_to_date_def in_scope_def NewStreamState_def stream_state_defs mget_or_def
        split: if_splits option.splits)
  then have due: "\<not> delta_due ?s \<lparr>dw_Request = snapshot_subscribe, dw_Response = 9, dw_StreamState = held_state\<rparr>"
    by (simp add: delta_due_def req NewStreamState_def stream_state_defs)
  with simple_CreateDeltaWatch_shape [OF d] snap cvm show sends: "sends = []" by (simp add: Let_def)
  with delta_at_CreateDeltaWatch [OF lib_total_sample inv d] node
  show "simple_parked (CancelDeltaWatch ''n'' 1) c' =
      Some \<lparr>dw_Request = snapshot_subscribe, dw_Response = 9, dw_StreamState = held_state\<rparr>"
    by (simp add: mget_put) (simp add: sample_simple_eq)
  from simple_CreateDeltaWatch_shape [OF d] snap cvm due node
  show "\<exists>snap. mget (sc_snapshots c') ''n'' = Some snap \<and>
      mget (GetResourcesAndTTL (Some snap) EndpointType) ''a'' = Some \<lparr>rt_resource = cla ''a'' [1], rt_ttl = None\<rparr>"
    by (intro exI [of _ ?s]) (simp add: Let_def get)
qed

theorem snapshot_stream_in_sync_witness:
  "\<exists>s. simple_stream_reach sample_lib snapshot_env holding_a s \<and>
     client_of holding_a (dst_trace s) EndpointType ''a'' = Some (hash_of sample_lib (cla ''a'' [1]))"
proof -
  obtain c' sends k where
    d: "simple_CreateDeltaWatch sample_lib 6 snapshot_subscribe held_state 9 sample_simple = (c', sends, k)"
    by (metis prod_cases3)
  note parks = held_watch_parks [OF d]
  have "\<exists>s. delta_loop snapshot_env (delta_handled snapshot_subscribe) snapshot_opened = (s, None) \<and> dst_cache s = c'"
    using d parks(1)
    by (simp add: delta_handled_def delta_handle_request_def delta_processAll_def delta_busy_def delta_step_def
        delta_accept_def delta_unwatch_def delta_returns_def delta_fill_node_def delta_fill_type_def
        delta_rewatch_def delta_first_state_def delta_next_state_def new_delta_stream_def NewDeltaServer_def
        zero_delta_watch_def snapshot_env_def snapshot_subscribe_def empty_delta_request_def Let_def
        stream_state_defs NewStreamState_def cache_defs type_url_defs)
  then obtain s where s: "delta_loop snapshot_env (delta_handled snapshot_subscribe) snapshot_opened = (s, None)"
    and c: "dst_cache s = c'" by blast
  have reach: "simple_stream_reach sample_lib snapshot_env holding_a s"
  proof (rule delta_handled_reach [OF snapshot_opened_reach _ _ _ _ s])
    show "dst_phase snapshot_opened = Selecting" "dst_muxed snapshot_opened = []" by (simp_all add: new_delta_stream_def)
    show "delta_fill_type (de_typeURL snapshot_env) snapshot_subscribe = Inr snapshot_subscribe"
      by (simp add: delta_fill_type_def snapshot_env_def snapshot_subscribe_def type_url_defs)
    show "request_agrees snapshot_subscribe (mget (dst_watches snapshot_opened) (dreq_type_url snapshot_subscribe))
        (client_of holding_a (dst_trace snapshot_opened) (dreq_type_url snapshot_subscribe))"
      by (auto simp: request_agrees_def new_delta_stream_def in_scope_def delta_first_state_def delta_next_state_def
          snapshot_subscribe_def empty_delta_request_def stream_state_defs NewStreamState_def agrees_def)
  qed
  have E: "dsv_cache (de_server snapshot_env) = simple_Cache sample_lib 6" "de_lib snapshot_env = sample_lib"
    "de_chan snapshot_env = 9" by (simp_all add: snapshot_env_def NewDeltaServer_def)
  from parks(2) obtain info where "mget (sc_status (dst_cache s)) ''n'' = Some info" "mget (si_deltaWatches info) 1 =
      Some \<lparr>dw_Request = snapshot_subscribe, dw_Response = 9, dw_StreamState = held_state\<rparr>"
    unfolding simple_parked_eq c by blast
  moreover from parks(3) obtain snap where "mget (sc_snapshots (dst_cache s)) ''n'' = Some snap" and
    "mget (GetResourcesAndTTL (Some snap) EndpointType) ''a'' = Some \<lparr>rt_resource = cla ''a'' [1], rt_ttl = None\<rparr>"
    unfolding c by blast
  ultimately show ?thesis
    using snapshot_stream_in_sync [OF lib_total_sample E(1,2) reach, of "''n''" info 1 _ snap "''a''"] reach
    by (auto simp: E(3) in_scope_def snapshot_subscribe_def stream_state_defs)
qed

end
