(* ===== verification/SotwServer.thy ===== *)
theory SotwServer
  imports ServerConfig
begin

text \<open>
  The state-of-the-world server (\<open>pkg/server/sotw/v3\<close>): \<open>server.go\<close> (the stream wrapper and its
  \<open>send\<close>), \<open>watches.go\<close>, \<open>xds.go\<close> (the loop in which every watch has a channel of its own) and
  \<open>ads.go\<close> (the ordered loop, in which all watches share one).  As in the incremental server a loop
  is a function of the choices its \<open>select\<close> makes, the caches append to the channels, and the
  calls made are recorded in a trace.
\<close>

section \<open>State\<close>

text \<open>The cancel function of a watch is the cache's, or closes the shared channel.\<close>

datatype 'k sotw_cancel = CacheCancel 'k | CloseResponse

record 'k sotw_watch =
  swt_cancel :: "'k sotw_cancel option"
  swt_nonce :: string
  swt_response :: chan

record lastDiscoveryResponse =
  last_nonce :: string
  last_resources :: "string goset"

datatype sotw_event =
    EvOpen int64 string
  | EvRequest int64 DiscoveryRequest
  | EvResponse ctx int64 DiscoveryRequest DiscoveryResponse
  | EvSend DiscoveryResponse
  | EvClosed int64 Node

record SotwCallbacks =
  OnStreamOpen :: "sotw_event list \<Rightarrow> int64 \<Rightarrow> string \<Rightarrow> go_error option"
  OnStreamRequest :: "sotw_event list \<Rightarrow> int64 \<Rightarrow> DiscoveryRequest \<Rightarrow> go_error option"

record ('c, 'k) sotw_server =
  ssv_cache :: "('c, 'k) Cache"
  ssv_callbacks :: "SotwCallbacks option"
  ssv_streamCount :: int64
  ssv_opts :: Opts

definition NewSotwServer ::
    "('c, 'k) Cache \<Rightarrow> SotwCallbacks option \<Rightarrow> XDSOption list \<Rightarrow> ('c, 'k) sotw_server" where
  "NewSotwServer cw callbacks opts =
     \<lparr>ssv_cache = cw, ssv_callbacks = callbacks, ssv_streamCount = 0,
      ssv_opts = fold (\<lambda>opt out. opt out) opts NewOpts\<rparr>"

definition WithOrderedADS :: XDSOption where
  "WithOrderedADS opts = opts\<lparr>opts_Ordered := True\<rparr>"

text \<open>What is fixed for a stream.\<close>

record ('c, 'k) sotw_env =
  se_server :: "('c, 'k) sotw_server"
  se_lib :: lib
  se_ID :: int64
  se_typeURL :: string
  se_send :: "sotw_event list \<Rightarrow> DiscoveryResponse \<Rightarrow> go_error option"

text \<open>
  The stream wrapper, with the cache, the contents of the channels made for the stream, and the
  first request of an ordered stream while a routine is sending it once more.
\<close>

record ('c, 'k) streamWrapper =
  sw_cache :: 'c
  sw_nonce :: int64
  sw_responders :: "(string, 'k sotw_watch) gomap"
  sw_cases :: "chan list"
  sw_node :: Node
  sw_streamState :: StreamState
  sw_lastDiscoveryResponses :: "(string, lastDiscoveryResponse) gomap"
  sw_chans :: "(chan, Response option list) gomap"
  sw_nextchan :: chan
  sw_closed :: "chan goset"
  sw_ordered :: bool
  sw_resent :: "DiscoveryRequest option"
  sw_trace :: "sotw_event list"

definition new_streamWrapper :: "chan \<Rightarrow> 'c \<Rightarrow> ('c, 'k) streamWrapper" where
  "new_streamWrapper ch cache =
     \<lparr>sw_cache = cache, sw_nonce = 0, sw_responders = [], sw_cases = [], sw_node = empty_node,
      sw_streamState = NewStreamState False (Some []), sw_lastDiscoveryResponses = [],
      sw_chans = [], sw_nextchan = ch, sw_closed = [], sw_ordered = False, sw_resent = None, sw_trace = []\<rparr>"

abbreviation sw_log :: "sotw_event list \<Rightarrow> ('c, 'k) streamWrapper \<Rightarrow> ('c, 'k) streamWrapper" where
  "sw_log es s \<equiv> s\<lparr>sw_trace := sw_trace s @ es\<rparr>"

section \<open>Watches\<close>

definition addWatch :: "string \<Rightarrow> 'k sotw_watch \<Rightarrow> ('c, 'k) streamWrapper \<Rightarrow> ('c, 'k) streamWrapper" where
  "addWatch typeURL watch s = s\<lparr>sw_responders := mput typeURL watch (sw_responders s)\<rparr>"

text \<open>The channels of the watches; the two fixed cases of the \<open>select\<close> are inputs of their own.\<close>

definition recompute :: "('c, 'k) streamWrapper \<Rightarrow> ('c, 'k) streamWrapper" where
  "recompute s = s\<lparr>sw_cases := map (\<lambda>(typ, watch). swt_response watch) (sw_responders s)\<rparr>"

text \<open>\<open>make(chan cache.Response, n)\<close>.\<close>

definition make_chan :: "('c, 'k) streamWrapper \<Rightarrow> chan \<times> ('c, 'k) streamWrapper" where
  "make_chan s = (sw_nextchan s,
     s\<lparr>sw_nextchan := Suc (sw_nextchan s), sw_chans := mput (sw_nextchan s) [] (sw_chans s)\<rparr>)"

definition deliver ::
    "send list \<Rightarrow> (chan, Response option list) gomap \<Rightarrow> (chan, Response option list) gomap" where
  "deliver sends chans = map (\<lambda>(ch, q). (ch, q @ sotw_messages ch sends)) chans"

definition sotw_watch_close ::
    "('c, 'k) Cache \<Rightarrow> 'k sotw_watch \<Rightarrow> ('c, 'k) streamWrapper \<Rightarrow> ('c, 'k) streamWrapper" where
  "sotw_watch_close C watch s =
     (case swt_cancel watch of
        None \<Rightarrow> s
      | Some (CacheCancel k) \<Rightarrow> s\<lparr>sw_cache := cancel_fn C k (sw_cache s)\<rparr>
      | Some CloseResponse \<Rightarrow> s\<lparr>sw_closed := sadd (swt_response watch) (sw_closed s)\<rparr>)"

text \<open>
  Calls of the cache by others while the watches of a stream are closed.  A call that sends to a
  channel closed before panics.
\<close>

fun sotw_others ::
    "('c \<Rightarrow> 'c \<times> send list) list \<Rightarrow> ('c, 'k) streamWrapper \<Rightarrow> ('c, 'k) streamWrapper \<times> go_error option" where
  "sotw_others [] s = (s, None)"
| "sotw_others (f # fs) s =
     (case f (sw_cache s) of
        (cache, sends) \<Rightarrow>
          (let s = s\<lparr>sw_cache := cache, sw_chans := deliver sends (sw_chans s)\<rparr> in
           if list_ex (\<lambda>ch. sotw_messages ch sends \<noteq> []) (sw_closed s) then (s, Some PanicClosedChannel)
           else sotw_others fs s))"

text \<open>
  \<open>close\<close> goes over a Go map, so the order is open: a \<open>closing\<close> lists the keys as the iteration
  visits them, each with the calls of the cache made before the next one.
\<close>

type_synonym 'c closing = "(string \<times> ('c \<Rightarrow> 'c \<times> send list) list) list"

fun sotw_watches_close ::
    "('c, 'k) Cache \<Rightarrow> 'c closing \<Rightarrow> ('c, 'k) streamWrapper \<Rightarrow> ('c, 'k) streamWrapper \<times> go_error option" where
  "sotw_watches_close C [] s = (s, None)"
| "sotw_watches_close C ((typ, others) # closing) s =
     (case mget (sw_responders s) typ of
        None \<Rightarrow> sotw_watches_close C closing s
      | Some watch \<Rightarrow>
          (case sotw_others others (sotw_watch_close C watch s) of
             (s, Some err) \<Rightarrow> (s, Some err)
           | (s, None) \<Rightarrow> sotw_watches_close C closing s))"

definition sotw_shutdown ::
    "('c, 'k) sotw_env \<Rightarrow> 'c closing \<Rightarrow> ('c, 'k) streamWrapper \<Rightarrow> ('c, 'k) streamWrapper \<times> go_error option" where
  "sotw_shutdown E closing s =
     (case sotw_watches_close (ssv_cache (se_server E)) closing s of
        (s, Some err) \<Rightarrow> (s, Some err)
      | (s, None) \<Rightarrow>
          ((if ssv_callbacks (se_server E) = None then s else sw_log [EvClosed (se_ID E) (sw_node s)] s), None))"

section \<open>Sending\<close>

definition sotw_send ::
    "('c, 'k) sotw_env \<Rightarrow> Response option \<Rightarrow> ('c, 'k) streamWrapper
       \<Rightarrow> ('c, 'k) streamWrapper \<times> string \<times> go_error option" where
  "sotw_send E resp s =
     (case resp of
        None \<Rightarrow> (s, '''', Some MissingResponse)
      | Some r \<Rightarrow>
          (case fst (resp_GetDiscoveryResponse (se_lib E) r) of
             Inl e \<Rightarrow> (s, '''', Some e)
           | Inr None \<Rightarrow> (s\<lparr>sw_nonce := sw_nonce s + 1\<rparr>, '''', Some PanicNilDereference)
           | Inr (Some out) \<Rightarrow>
               (let s = s\<lparr>sw_nonce := sw_nonce s + 1\<rparr>;
                    out = out\<lparr>resp_nonce := FormatInt (sw_nonce s)\<rparr>;
                    lastResponse = \<lparr>last_nonce = resp_nonce out,
                                    last_resources = fold sadd (req_resource_names (resp_GetRequest r)) []\<rparr>;
                    s = s\<lparr>sw_lastDiscoveryResponses :=
                          mput (req_type_url (resp_GetRequest r)) lastResponse (sw_lastDiscoveryResponses s)\<rparr>;
                    s = (if ssv_callbacks (se_server E) = None then s
                         else sw_log [EvResponse (resp_GetContext r) (se_ID E) (resp_GetRequest r) out] s);
                    err = se_send E (sw_trace s) out;
                    s = (if err = None then sw_log [EvSend out] s else s)
                in (s, resp_nonce out, err))))"

text \<open>\<open>sw.watches.responders[typ].nonce = nonce\<close>: the map holds pointers, a missing one is nil.\<close>

definition set_watch_nonce ::
    "string \<Rightarrow> string \<Rightarrow> ('c, 'k) streamWrapper \<Rightarrow> ('c, 'k) streamWrapper \<times> go_error option" where
  "set_watch_nonce typ nonce s =
     (case mget (sw_responders s) typ of
        None \<Rightarrow> (s, Some PanicNilDereference)
      | Some w \<Rightarrow> (addWatch typ (w\<lparr>swt_nonce := nonce\<rparr>) s, None))"

text \<open>\<open>process\<close> of \<open>ads.go\<close>, which is also what the other loop does with a response.\<close>

definition sotw_process_response ::
    "('c, 'k) sotw_env \<Rightarrow> Response option \<Rightarrow> ('c, 'k) streamWrapper
       \<Rightarrow> ('c, 'k) streamWrapper \<times> go_error option" where
  "sotw_process_response E resp s =
     (case sotw_send E resp s of
        (s, nonce, Some err) \<Rightarrow> (s, Some err)
      | (s, nonce, None) \<Rightarrow>
          set_watch_nonce (req_type_url (resp_GetRequest (the resp))) nonce s)"

section \<open>Requests\<close>

definition sotw_fill_node ::
    "DiscoveryRequest \<Rightarrow> ('c, 'k) streamWrapper \<Rightarrow> DiscoveryRequest \<times> ('c, 'k) streamWrapper" where
  "sotw_fill_node req s =
     (case req_node req of
        Some node \<Rightarrow> (req, s\<lparr>sw_node := node\<rparr>)
      | None \<Rightarrow> (req\<lparr>req_node := Some (sw_node s)\<rparr>, s))"

definition sotw_on_request ::
    "('c, 'k) sotw_env \<Rightarrow> DiscoveryRequest \<Rightarrow> ('c, 'k) streamWrapper
       \<Rightarrow> ('c, 'k) streamWrapper \<times> go_error option" where
  "sotw_on_request E req s =
     (case ssv_callbacks (se_server E) of
        None \<Rightarrow> (s, None)
      | Some cb \<Rightarrow> (sw_log [EvRequest (se_ID E) req] s, OnStreamRequest cb (sw_trace s) (se_ID E) req))"

text \<open>Record the names a client has received, once it answers the last response of the type.\<close>

definition sotw_record_known :: "DiscoveryRequest \<Rightarrow> ('c, 'k) streamWrapper \<Rightarrow> ('c, 'k) streamWrapper" where
  "sotw_record_known req s =
     (case mget (sw_lastDiscoveryResponses s) (req_type_url req) of
        None \<Rightarrow> s
      | Some lastResponse \<Rightarrow>
          if last_nonce lastResponse = '''' \<or> last_nonce lastResponse = req_response_nonce req
          then s\<lparr>sw_streamState :=
                 SetKnownResourceNames (req_type_url req) (last_resources lastResponse) (sw_streamState s)\<rparr>
          else s)"

definition sotw_create_watch ::
    "('c, 'k) sotw_env \<Rightarrow> DiscoveryRequest \<Rightarrow> chan \<Rightarrow> ('c, 'k) streamWrapper \<Rightarrow> ('c, 'k) streamWrapper" where
  "sotw_create_watch E req responder s =
     (case CreateWatch (ssv_cache (se_server E)) req (sw_streamState s) responder (sw_cache s) of
        (cache, sends, k) \<Rightarrow>
          addWatch (req_type_url req)
            \<lparr>swt_cancel = map_option CacheCancel k, swt_nonce = '''', swt_response = responder\<rparr>
            (s\<lparr>sw_cache := cache, sw_chans := deliver sends (sw_chans s)\<rparr>))"

section \<open>The loop of xds.go\<close>

text \<open>
  The part of the request case after the switch to the ordered loop: a new channel, and a new watch
  unless the nonce is not the one of the watch.
\<close>

definition sotw_rewatch ::
    "('c, 'k) sotw_env \<Rightarrow> DiscoveryRequest \<Rightarrow> ('c, 'k) streamWrapper \<Rightarrow> ('c, 'k) streamWrapper" where
  "sotw_rewatch E req s =
     (case make_chan s of
        (responder, s) \<Rightarrow>
          recompute
            (case mget (sw_responders s) (req_type_url req) of
               Some w \<Rightarrow>
                 if swt_nonce w = '''' \<or> swt_nonce w = req_response_nonce req
                 then sotw_create_watch E req responder (sotw_watch_close (ssv_cache (se_server E)) w s)
                 else s
             | None \<Rightarrow> sotw_create_watch E req responder s))"

text \<open>\<open>processADS\<close> begins by making the channel all watches share, under the key \<open>AnyType\<close>.\<close>

definition processADS_start :: "('c, 'k) streamWrapper \<Rightarrow> ('c, 'k) streamWrapper" where
  "processADS_start s =
     (case make_chan s of
        (ch, s) \<Rightarrow> addWatch AnyType
          \<lparr>swt_cancel = Some CloseResponse, swt_nonce = '''', swt_response = ch\<rparr> (s\<lparr>sw_ordered := True\<rparr>))"

definition sotw_xds_request ::
    "('c, 'k) sotw_env \<Rightarrow> DiscoveryRequest option \<Rightarrow> ('c, 'k) streamWrapper
       \<Rightarrow> ('c, 'k) streamWrapper \<times> go_error option" where
  "sotw_xds_request E req s =
     (case req of
        None \<Rightarrow> (s, Some EmptyRequest)
      | Some req \<Rightarrow>
          (case sotw_fill_node req s of
             (req, s) \<Rightarrow>
               if se_typeURL E = AnyType \<and> req_type_url req = '''' then (s, Some TypeURLRequired)
               else if se_typeURL E = AnyType \<and> opts_Ordered (ssv_opts (se_server E))
               then (processADS_start (s\<lparr>sw_resent := Some req\<rparr>), None)
               else
                 (let req = (if se_typeURL E \<noteq> AnyType \<and> req_type_url req = ''''
                             then req\<lparr>req_type_url := se_typeURL E\<rparr> else req) in
                  case sotw_on_request E req s of
                    (s, Some err) \<Rightarrow> (s, Some err)
                  | (s, None) \<Rightarrow> (sotw_rewatch E req (sotw_record_known req s), None))))"

definition sotw_xds_response ::
    "('c, 'k) sotw_env \<Rightarrow> nat \<Rightarrow> ('c, 'k) streamWrapper \<Rightarrow> ('c, 'k) streamWrapper \<times> go_error option" where
  "sotw_xds_response E index s =
     (if index < length (sw_cases s) then
        (let ch = sw_cases s ! index in
         case mget (sw_chans s) ch of
           Some (resp # rest) \<Rightarrow>
             (let s = s\<lparr>sw_chans := mput ch rest (sw_chans s)\<rparr> in
              if resp = None then (s, Some WatchFailed) else sotw_process_response E resp s)
         | _ \<Rightarrow> (s, None))
      else (s, None))"

section \<open>The loop of ads.go\<close>

text \<open>The channel under \<open>AnyType\<close>, and what is in it.\<close>

definition ads_channel :: "('c, 'k) streamWrapper \<Rightarrow> chan option" where
  "ads_channel s = map_option swt_response (mget (sw_responders s) AnyType)"

definition ads_queue :: "('c, 'k) streamWrapper \<Rightarrow> Response option list" where
  "ads_queue s = (case ads_channel s of None \<Rightarrow> [] | Some ch \<Rightarrow> mget_or [] (sw_chans s) ch)"

definition set_ads_queue ::
    "Response option list \<Rightarrow> ('c, 'k) streamWrapper \<Rightarrow> ('c, 'k) streamWrapper" where
  "set_ads_queue q s =
     (case ads_channel s of None \<Rightarrow> s | Some ch \<Rightarrow> s\<lparr>sw_chans := mput ch q (sw_chans s)\<rparr>)"

text \<open>Empties the channel: what has the type of the new request is dropped, the rest is sent.\<close>

fun processAllExcept ::
    "('c, 'k) sotw_env \<Rightarrow> string \<Rightarrow> Response option list \<Rightarrow> ('c, 'k) streamWrapper
       \<Rightarrow> ('c, 'k) streamWrapper \<times> go_error option" where
  "processAllExcept E typeURL [] s = (set_ads_queue [] s, None)"
| "processAllExcept E typeURL (None # q) s = (set_ads_queue q s, Some PanicNilDereference)"
| "processAllExcept E typeURL (Some res # q) s =
     (let s = set_ads_queue q s in
      if req_type_url (resp_GetRequest res) \<noteq> typeURL then
        (case sotw_process_response E (Some res) s of
           (s, Some err) \<Rightarrow> (s, Some err)
         | (s, None) \<Rightarrow> processAllExcept E typeURL q s)
      else processAllExcept E typeURL q s)"

definition sotw_ads_rewatch ::
    "('c, 'k) sotw_env \<Rightarrow> DiscoveryRequest \<Rightarrow> ('c, 'k) streamWrapper
       \<Rightarrow> ('c, 'k) streamWrapper \<times> go_error option" where
  "sotw_ads_rewatch E req s =
     (case ads_channel s of
        None \<Rightarrow> (s, Some PanicNilDereference)
      | Some responder \<Rightarrow>
          (case mget (sw_responders s) (req_type_url req) of
             Some w \<Rightarrow>
               if swt_nonce w = '''' \<or> swt_nonce w = req_response_nonce req then
                 (let s = sotw_watch_close (ssv_cache (se_server E)) w s in
                  case processAllExcept E (req_type_url req) (ads_queue s) s of
                    (s, Some err) \<Rightarrow> (s, Some err)
                  | (s, None) \<Rightarrow> (sotw_create_watch E req responder s, None))
               else (s, None)
           | None \<Rightarrow> (sotw_create_watch E req responder s, None)))"

definition sotw_ads_request ::
    "('c, 'k) sotw_env \<Rightarrow> DiscoveryRequest option \<Rightarrow> ('c, 'k) streamWrapper
       \<Rightarrow> ('c, 'k) streamWrapper \<times> go_error option" where
  "sotw_ads_request E req s =
     (case req of
        None \<Rightarrow> (s, Some EmptyRequest)
      | Some req \<Rightarrow>
          (case sotw_fill_node req s of
             (req, s) \<Rightarrow>
               if se_typeURL E = AnyType \<and> req_type_url req = '''' then (s, Some TypeURLRequired)
               else
                 (case sotw_on_request E req s of
                    (s, Some err) \<Rightarrow> (s, Some err)
                  | (s, None) \<Rightarrow> sotw_ads_rewatch E req (sotw_record_known req s))))"

text \<open>The code wraps an error that comes from here in a gRPC status \<open>Unavailable\<close>; errors carry no status.\<close>

definition sotw_ads_response ::
    "('c, 'k) sotw_env \<Rightarrow> ('c, 'k) streamWrapper \<Rightarrow> ('c, 'k) streamWrapper \<times> go_error option" where
  "sotw_ads_response E s =
     (case ads_queue s of
        [] \<Rightarrow> (s, None)
      | resp # q \<Rightarrow> sotw_process_response E resp (set_ads_queue q s))"

section \<open>Streams\<close>

text \<open>
  The choices of the \<open>select\<close> and the rest of the world.  \<open>SResent\<close>: the request that was sent
  once more arrives.  When the channel of requests is closed while it is still waiting to be
  sent, sending it panics.
\<close>

datatype 'c sotw_input =
    SDone
  | SRequest "DiscoveryRequest option"
  | SResent
  | SEOF
  | SResponse nat
  | SCache "'c \<Rightarrow> 'c \<times> send list"

definition running ::
    "('c, 'k) streamWrapper \<times> go_error option \<Rightarrow> ('c, 'k) streamWrapper \<times> go_error option option" where
  "running r = (case r of (s, None) \<Rightarrow> (s, None) | (s, Some err) \<Rightarrow> (s, Some (Some err)))"

fun sotw_select ::
    "('c, 'k) sotw_env \<Rightarrow> 'c sotw_input \<Rightarrow> ('c, 'k) streamWrapper
       \<Rightarrow> ('c, 'k) streamWrapper \<times> go_error option option" where
  "sotw_select E SDone s = (s, Some None)"
| "sotw_select E (SRequest req) s =
     running (if sw_ordered s then sotw_ads_request E req s else sotw_xds_request E req s)"
| "sotw_select E SResent s =
     (case sw_resent s of
        None \<Rightarrow> (s, None)
      | Some req \<Rightarrow> running (sotw_ads_request E (Some req) (s\<lparr>sw_resent := None\<rparr>)))"
| "sotw_select E SEOF s = (s, Some (if sw_resent s = None then None else Some PanicClosedChannel))"
| "sotw_select E (SResponse index) s =
     running (if sw_ordered s then sotw_ads_response E s else sotw_xds_response E index s)"
| "sotw_select E (SCache f) s =
     (case f (sw_cache s) of
        (cache, sends) \<Rightarrow> (s\<lparr>sw_cache := cache, sw_chans := deliver sends (sw_chans s)\<rparr>, None))"

fun sotw_loop ::
    "('c, 'k) sotw_env \<Rightarrow> 'c sotw_input list \<Rightarrow> ('c, 'k) streamWrapper
       \<Rightarrow> ('c, 'k) streamWrapper \<times> go_error option option" where
  "sotw_loop E [] s = (s, None)"
| "sotw_loop E (i # is) s =
     (case sotw_select E i s of
        (s, Some r) \<Rightarrow> (s, Some r)
      | (s, None) \<Rightarrow> sotw_loop E is s)"

definition sotw_open ::
    "('c, 'k) sotw_env \<Rightarrow> chan \<Rightarrow> 'c \<Rightarrow> ('c, 'k) streamWrapper \<times> go_error option" where
  "sotw_open E ch cache =
     (let s = new_streamWrapper ch cache in
      case ssv_callbacks (se_server E) of
        None \<Rightarrow> (s, None)
      | Some cb \<Rightarrow> (sw_log [EvOpen (se_ID E) (se_typeURL E)] s, OnStreamOpen cb (sw_trace s) (se_ID E) (se_typeURL E)))"

text \<open>\<open>shutdown\<close> is deferred: it runs however the loop ends, and what is returned stays unless it panics.\<close>

definition sotw_deferred ::
    "('c, 'k) sotw_env \<Rightarrow> 'c closing \<Rightarrow> go_error option \<Rightarrow> ('c, 'k) streamWrapper
       \<Rightarrow> ('c, 'k) streamWrapper \<times> go_error option option" where
  "sotw_deferred E closing r s =
     (case sotw_shutdown E closing s of
        (s, Some err) \<Rightarrow> (s, Some (Some err))
      | (s, None) \<Rightarrow> (s, Some r))"

definition sotw_process ::
    "('c, 'k) sotw_env \<Rightarrow> chan \<Rightarrow> 'c \<Rightarrow> 'c sotw_input list \<Rightarrow> 'c closing
       \<Rightarrow> ('c, 'k) streamWrapper \<times> go_error option option" where
  "sotw_process E ch cache inputs closing =
     (case sotw_open E ch cache of
        (s, Some err) \<Rightarrow> sotw_deferred E closing (Some err) s
      | (s, None) \<Rightarrow>
          (case sotw_loop E inputs (recompute s) of
             (s, None) \<Rightarrow> (s, None)
           | (s, Some r) \<Rightarrow> sotw_deferred E closing r s))"

datatype 'c sotw_choice = SChDone | SChRequest | SChResent | SChResponse nat | SChCache "'c \<Rightarrow> 'c \<times> send list"

fun sotw_feed ::
    "'c sotw_choice list \<Rightarrow> (go_error + DiscoveryRequest option) list \<Rightarrow> 'c sotw_input list" where
  "sotw_feed [] recvs = []"
| "sotw_feed (SChDone # cs) recvs = SDone # sotw_feed cs recvs"
| "sotw_feed (SChResent # cs) recvs = SResent # sotw_feed cs recvs"
| "sotw_feed (SChResponse i # cs) recvs = SResponse i # sotw_feed cs recvs"
| "sotw_feed (SChCache f # cs) recvs = SCache f # sotw_feed cs recvs"
| "sotw_feed (SChRequest # cs) (Inr req # recvs) = SRequest req # sotw_feed cs recvs"
| "sotw_feed (SChRequest # cs) recvs = SEOF # sotw_feed cs []"

definition StreamHandler ::
    "lib \<Rightarrow> ('c, 'k) sotw_server \<Rightarrow> string \<Rightarrow> chan \<Rightarrow> (sotw_event list \<Rightarrow> DiscoveryResponse \<Rightarrow> go_error option)
       \<Rightarrow> (go_error + DiscoveryRequest option) list \<Rightarrow> 'c sotw_choice list \<Rightarrow> 'c closing \<Rightarrow> 'c
       \<Rightarrow> ('c, 'k) sotw_server \<times> ('c, 'k) streamWrapper \<times> go_error option option" where
  "StreamHandler L server typeURL ch str_Send recvs choices closing cache =
     (let server = server\<lparr>ssv_streamCount := ssv_streamCount server + 1\<rparr>;
          E = \<lparr>se_server = server, se_lib = L, se_ID = ssv_streamCount server,
               se_typeURL = typeURL, se_send = str_Send\<rparr>
      in (server, sotw_process E ch cache (sotw_feed choices recvs) closing))"

end
