(* ===== verification/SotwProps.thy ===== *)
theory SotwProps
  imports SotwServer LinearProps
begin

text \<open>
  The properties of the state-of-the-world server: the nonces, what an acknowledgement does, what a
  stale request does not do, the order of the ordered loop, and two races at the end of a stream.
\<close>

section \<open>What is sent\<close>

definition sent_responses :: "sotw_event list \<Rightarrow> DiscoveryResponse list" where
  "sent_responses trace = concat (map (\<lambda>e. case e of EvSend m \<Rightarrow> [m] | _ \<Rightarrow> []) trace)"

lemma sent_responses_append [simp]:
  "sent_responses (xs @ ys) = sent_responses xs @ sent_responses ys"
  by (simp add: sent_responses_def)

lemma sent_responses_event [simp]:
  "sent_responses [] = []"
  "sent_responses (EvSend m # es) = m # sent_responses es"
  "sent_responses (EvOpen i t # es) = sent_responses es"
  "sent_responses (EvRequest i r # es) = sent_responses es"
  "sent_responses (EvResponse x i r m # es) = sent_responses es"
  "sent_responses (EvClosed i n # es) = sent_responses es"
  by (simp_all add: sent_responses_def)

text \<open>The message of a response, with its nonce.\<close>

definition message_of :: "lib \<Rightarrow> Response \<Rightarrow> int64 \<Rightarrow> DiscoveryResponse option" where
  "message_of L r nonce =
     (case fst (resp_GetDiscoveryResponse L r) of
        Inr (Some m) \<Rightarrow> Some (m\<lparr>resp_nonce := FormatInt nonce\<rparr>) | _ \<Rightarrow> None)"

text \<open>A response that is handled without an error.\<close>

lemma sotw_process_response_ok:
  assumes "sotw_process_response E resp s = (s', None)"
  obtains r m w es where "resp = Some r" and "message_of (se_lib E) r (sw_nonce s + 1) = Some m"
    and "mget (sw_responders s) (req_type_url (resp_GetRequest r)) = Some w"
    and "sent_responses es = [m]"
    and "s' = s\<lparr>sw_nonce := sw_nonce s + 1,
        sw_lastDiscoveryResponses := mput (req_type_url (resp_GetRequest r))
          \<lparr>last_nonce = FormatInt (sw_nonce s + 1), last_resources = fold sadd (req_resource_names (resp_GetRequest r)) []\<rparr>
          (sw_lastDiscoveryResponses s),
        sw_trace := sw_trace s @ es,
        sw_responders := mput (req_type_url (resp_GetRequest r)) (w\<lparr>swt_nonce := FormatInt (sw_nonce s + 1)\<rparr>)
          (sw_responders s)\<rparr>"
proof -
  from assms obtain s1 nonce where send: "sotw_send E resp s = (s1, nonce, None)"
    and set: "set_watch_nonce (req_type_url (resp_GetRequest (the resp))) nonce s1 = (s', None)"
    by (auto simp: sotw_process_response_def split: prod.splits option.splits)
  from send obtain r out where r: "resp = Some r"
    and out: "fst (resp_GetDiscoveryResponse (se_lib E) r) = Inr (Some out)"
    by (auto simp: sotw_send_def split: option.splits sum.splits)
  let ?n = "FormatInt (sw_nonce s + 1)" and ?t = "req_type_url (resp_GetRequest r)"
  let ?m = "out\<lparr>resp_nonce := ?n\<rparr>"
  define es where "es = (if ssv_callbacks (se_server E) = None then []
      else [EvResponse (resp_GetContext r) (se_ID E) (resp_GetRequest r) ?m]) @ [EvSend ?m]"
  have s1: "nonce = ?n" "s1 = s\<lparr>sw_nonce := sw_nonce s + 1,
        sw_lastDiscoveryResponses := mput ?t
          \<lparr>last_nonce = ?n, last_resources = fold sadd (req_resource_names (resp_GetRequest r)) []\<rparr>
          (sw_lastDiscoveryResponses s),
        sw_trace := sw_trace s @ es\<rparr>"
    using send by (auto simp: sotw_send_def r out es_def Let_def split: if_splits)
  from set obtain w where w: "mget (sw_responders s) ?t = Some w"
    "s' = addWatch ?t (w\<lparr>swt_nonce := ?n\<rparr>) s1"
    by (auto simp: set_watch_nonce_def r s1 split: option.splits)
  show thesis
    by (rule that [of r ?m w es])
      (use r out w in \<open>simp_all add: message_of_def es_def s1 addWatch_def\<close>)
qed

section \<open>Nonces\<close>

text \<open>
  The invariant of a running stream: the counter is the number of responses sent and their nonces
  count; the nonce of a watch is the one of the last response of its type.
\<close>

definition sotw_ok :: "('c, 'k) streamWrapper \<Rightarrow> bool" where
  "sotw_ok s \<longleftrightarrow>
     (\<exists>k. sw_nonce s = of_nat k \<and>
        map resp_nonce (sent_responses (sw_trace s)) = map (\<lambda>i. FormatInt (of_nat i)) [1..<Suc k]) \<and>
     (\<forall>t w. mget (sw_responders s) t = Some w \<and> swt_nonce w \<noteq> '''' \<longrightarrow>
        (\<exists>l. mget (sw_lastDiscoveryResponses s) t = Some l \<and> last_nonce l = swt_nonce w))"

lemma sotw_ok_frame [simp]:
  "sotw_ok (s\<lparr>sw_cache := c\<rparr>) = sotw_ok s" "sotw_ok (s\<lparr>sw_chans := x\<rparr>) = sotw_ok s"
  "sotw_ok (s\<lparr>sw_cases := cs\<rparr>) = sotw_ok s" "sotw_ok (s\<lparr>sw_node := n\<rparr>) = sotw_ok s"
  "sotw_ok (s\<lparr>sw_streamState := st\<rparr>) = sotw_ok s" "sotw_ok (s\<lparr>sw_nextchan := ch\<rparr>) = sotw_ok s"
  "sotw_ok (s\<lparr>sw_closed := cl\<rparr>) = sotw_ok s" "sotw_ok (s\<lparr>sw_ordered := b\<rparr>) = sotw_ok s"
  "sotw_ok (s\<lparr>sw_resent := r\<rparr>) = sotw_ok s"
  by (simp_all add: sotw_ok_def)

lemma sotw_ok_addWatch: "sotw_ok s \<Longrightarrow> swt_nonce w = '''' \<Longrightarrow> sotw_ok (addWatch t w s)"
  by (auto simp: sotw_ok_def addWatch_def mget_put)

lemma sotw_ok_close: "sotw_ok (sotw_watch_close C w s) = sotw_ok s"
  by (simp add: sotw_watch_close_def split: option.split sotw_cancel.split)

lemma sotw_ok_create: "sotw_ok s \<Longrightarrow> sotw_ok (sotw_create_watch E req ch s)"
  by (simp add: sotw_create_watch_def sotw_ok_addWatch split: prod.split)

lemma sotw_ok_process:
  assumes "sotw_ok s" and "sotw_process_response E resp s = (s', None)"
  shows "sotw_ok s'"
  using assms(2)
proof (cases rule: sotw_process_response_ok)
  case (1 r m w es)
  from assms(1) obtain k where k: "sw_nonce s = of_nat k"
    "map resp_nonce (sent_responses (sw_trace s)) = map (\<lambda>i. FormatInt (of_nat i)) [1..<Suc k]"
    unfolding sotw_ok_def by blast
  from 1(2) have "resp_nonce m = FormatInt (of_nat (Suc k))"
    by (auto simp: message_of_def k(1) add.commute split: sum.splits option.splits)
  then have "\<exists>k. sw_nonce s' = of_nat k \<and>
        map resp_nonce (sent_responses (sw_trace s')) = map (\<lambda>i. FormatInt (of_nat i)) [1..<Suc k]"
    by (intro exI [of _ "Suc k"]) (simp add: 1(4,5) k add.commute)
  with assms(1) show ?thesis by (auto simp: sotw_ok_def 1(5) mget_put)
qed

lemma sotw_ok_queue [simp]: "sotw_ok (set_ads_queue q s) = sotw_ok s"
  by (simp add: set_ads_queue_def split: option.split)

lemma sotw_ok_processAll:
  "sotw_ok s \<Longrightarrow> processAllExcept E t q s = (s', None) \<Longrightarrow> sotw_ok s'"
proof (induction E t q s rule: processAllExcept.induct)
  case (3 E t res q s)
  then show ?case by (auto simp: Let_def split: if_splits prod.splits option.splits dest: sotw_ok_process [rotated])
qed auto

lemma sotw_ok_on_request: "sotw_on_request E req s = (s', e) \<Longrightarrow> sotw_ok s' = sotw_ok s"
  by (auto simp: sotw_on_request_def sotw_ok_def split: option.splits)

lemma sotw_ok_fill: "sotw_fill_node req s = (req', s') \<Longrightarrow> sotw_ok s' = sotw_ok s"
  by (auto simp: sotw_fill_node_def split: option.splits)

lemma sotw_ok_known [simp]: "sotw_ok (sotw_record_known req s) = sotw_ok s"
  by (simp add: sotw_record_known_def split: option.split)

lemma sotw_ok_rewatch: "sotw_ok s \<Longrightarrow> sotw_ok (sotw_rewatch E req s)"
  by (simp add: sotw_rewatch_def make_chan_def recompute_def sotw_ok_create sotw_ok_close split: option.split)

lemma sotw_ok_ads_rewatch: "sotw_ok s \<Longrightarrow> sotw_ads_rewatch E req s = (s', None) \<Longrightarrow> sotw_ok s'"
  by (auto simp: sotw_ads_rewatch_def Let_def sotw_ok_close sotw_ok_create split: option.splits if_splits prod.splits
      dest!: sotw_ok_processAll [rotated])

lemma sotw_ok_select:
  assumes ok: "sotw_ok s" and step: "sotw_select E i s = (s', None)"
  shows "sotw_ok s'"
proof -
  have ads: "sotw_ok s'" if "sotw_ads_request E req s = (s', None)" "sotw_ok s" for req s
    using that by (auto simp: sotw_ads_request_def split: option.splits prod.splits if_splits
        dest!: sotw_ok_fill sotw_ok_on_request intro: sotw_ok_ads_rewatch [rotated])
  show ?thesis
  proof (cases i)
    case (SRequest req)
    with step ok ads show ?thesis
      by (auto simp: running_def sotw_xds_request_def Let_def processADS_start_def make_chan_def
          split: option.splits prod.splits if_splits dest!: sotw_ok_fill sotw_ok_on_request
          intro: sotw_ok_rewatch sotw_ok_addWatch)
  next
    case SResent
    with step ok ads show ?thesis by (auto simp: running_def split: option.splits prod.splits)
  next
    case (SResponse n)
    with step ok show ?thesis
      by (auto simp: running_def sotw_ads_response_def sotw_xds_response_def Let_def
          split: option.splits prod.splits if_splits list.splits intro: sotw_ok_process [rotated])
  qed (use assms in \<open>auto split: prod.splits\<close>)
qed

text \<open>C25: on a running state-of-the-world stream, ordered or not, the responses sent so far carry the
  nonces 1, 2, 3, ... in decimal, in this order, and the nonce a watch waits for is the nonce of the last
  response sent for its type.\<close>

theorem sotw_nonces:
  fixes E :: "('c, 'k) sotw_env"
  assumes "sotw_open E ch cache = (s0, None)" and "sotw_loop E inputs (recompute s0) = (s, None)"
  shows "(\<exists>k. map resp_nonce (sent_responses (sw_trace s)) = map (\<lambda>i. FormatInt (of_nat i)) [1..<Suc k])
    \<and> (mget (sw_responders s) t = Some w \<and> swt_nonce w \<noteq> '''' \<longrightarrow>
         map_option last_nonce (mget (sw_lastDiscoveryResponses s) t) = Some (swt_nonce w))"
proof -
  have "sotw_ok (recompute s0)"
    using assms(1)
    by (auto simp: sotw_open_def new_streamWrapper_def sotw_ok_def recompute_def Let_def
        intro!: exI [of _ 0] split: option.splits)
  moreover have "sotw_ok s" if "sotw_ok s1" "sotw_loop E inputs s1 = (s, None)" for s1 :: "('c, 'k) streamWrapper"
    using that
  proof (induction inputs arbitrary: s1)
    case (Cons i inputs)
    then obtain s2 where s2: "sotw_select E i s1 = (s2, None)" "sotw_loop E inputs s2 = (s, None)"
      by (auto split: prod.splits option.splits)
    from Cons.IH [OF sotw_ok_select [OF Cons.prems(1) s2(1)] s2(2)] show ?case .
  qed auto
  ultimately have "sotw_ok s" using assms(2) by blast
  then show ?thesis unfolding sotw_ok_def by fastforce
qed

section \<open>Requests\<close>

lemma sotw_fill_simps [simp]:
  "sotw_fill_node req s = (req', s') \<Longrightarrow> req_type_url req' = req_type_url req"
  "sotw_fill_node req s = (req', s') \<Longrightarrow> req_response_nonce req' = req_response_nonce req"
  by (auto simp: sotw_fill_node_def split: option.splits)

text \<open>What a request that is handled does before it comes to its watch.\<close>

lemma sotw_request_rewatch:
  assumes "sotw_select E (SRequest (Some req)) s = (s', None)" and "req_type_url req \<noteq> ''''"
    and "sw_ordered s \<or> \<not> (se_typeURL E = AnyType \<and> opts_Ordered (ssv_opts (se_server E)))"
  obtains node es req1 s1 where
    "s1 = sotw_record_known req1 (s\<lparr>sw_node := node, sw_trace := sw_trace s @ es\<rparr>)"
    and "req1 = req\<lparr>req_node := Some node\<rparr>" and "sent_responses es = []"
    and "if sw_ordered s then sotw_ads_rewatch E req1 s1 = (s', None) else s' = sotw_rewatch E req1 s1"
proof -
  define node where "node = (case req_node req of None \<Rightarrow> sw_node s | Some n \<Rightarrow> n)"
  let ?req = "req\<lparr>req_node := Some node\<rparr>"
  define es where "es = (if ssv_callbacks (se_server E) = None then [] else [EvRequest (se_ID E) ?req])"
  have fill: "sotw_fill_node req s = (?req, s\<lparr>sw_node := node\<rparr>)"
    by (cases req; cases s) (simp add: sotw_fill_node_def node_def split: option.split)
  let ?s = "s\<lparr>sw_node := node, sw_trace := sw_trace s @ es\<rparr>"
  obtain e where on: "sotw_on_request E ?req (s\<lparr>sw_node := node\<rparr>) = (?s, e)"
    by (cases "ssv_callbacks (se_server E)"; cases s) (auto simp: sotw_on_request_def es_def)
  show thesis
  proof (rule that [OF refl refl])
    show "sent_responses es = []" by (simp add: es_def)
    show "if sw_ordered s then sotw_ads_rewatch E ?req (sotw_record_known ?req ?s) = (s', None)
        else s' = sotw_rewatch E ?req (sotw_record_known ?req ?s)"
      using assms by (auto simp: running_def fill on sotw_ads_request_def sotw_xds_request_def Let_def
        split: if_splits option.splits prod.splits)
  qed
qed

text \<open>C10: a request whose nonce is not the one its watch waits for (the acknowledgement of a response
  that a newer one has overtaken) leaves the open watch alone: nothing is sent, cancelled or opened,
  in both loops.\<close>

theorem sotw_stale_request_ignored:
  assumes "sotw_select E (SRequest (Some req)) s = (s', None)" and "req_type_url req \<noteq> ''''"
    and "sw_ordered s \<or> \<not> (se_typeURL E = AnyType \<and> opts_Ordered (ssv_opts (se_server E)))"
    and "mget (sw_responders s) (req_type_url req) = Some w" and "swt_nonce w \<noteq> ''''"
    and "req_response_nonce req \<noteq> swt_nonce w"
  shows "sw_cache s' = sw_cache s \<and> sw_responders s' = sw_responders s
    \<and> sent_responses (sw_trace s') = sent_responses (sw_trace s)
    \<and> (sw_ordered s \<longrightarrow> sw_chans s' = sw_chans s)"
proof -
  obtain node es req1 s1 where
    s1: "s1 = sotw_record_known req1 (s\<lparr>sw_node := node, sw_trace := sw_trace s @ es\<rparr>)"
    and req1: "req1 = req\<lparr>req_node := Some node\<rparr>" and es: "sent_responses es = []"
    and re: "if sw_ordered s then sotw_ads_rewatch E req1 s1 = (s', None) else s' = sotw_rewatch E req1 s1"
    by (rule sotw_request_rewatch [OF assms(1-3)]) (rule that)
  have same: "sw_responders s1 = sw_responders s" "sw_cache s1 = sw_cache s" "sw_chans s1 = sw_chans s"
    "sent_responses (sw_trace s1) = sent_responses (sw_trace s)"
    by (simp_all add: s1 es sotw_record_known_def split: option.split)
  show ?thesis
    using re assms(4-6) same
    by (auto simp: req1 sotw_ads_rewatch_def sotw_rewatch_def make_chan_def recompute_def
        split: if_splits option.splits)
qed

section \<open>Acknowledgements\<close>

lemma processAllExcept_frame:
  "processAllExcept E t q s = (s', None) \<Longrightarrow>
     sw_cache s' = sw_cache s \<and> sw_streamState s' = sw_streamState s"
proof (induction E t q s rule: processAllExcept.induct)
  case (1 E t s)
  then show ?case by (auto simp: set_ads_queue_def split: option.splits)
next
  case (3 E t res q s)
  have queue: "sw_cache (set_ads_queue q s) = sw_cache s" "sw_streamState (set_ads_queue q s) = sw_streamState s"
    by (simp_all add: set_ads_queue_def split: option.split)
  show ?case
  proof (cases "req_type_url (resp_GetRequest res) = t")
    case True
    with 3(2) [OF refl] 3(3) queue show ?thesis by simp
  next
    case False
    with 3(3) obtain s1 where p: "sotw_process_response E (Some res) (set_ads_queue q s) = (s1, None)"
      and r: "processAllExcept E t q s1 = (s', None)" by (auto simp: Let_def split: prod.splits option.splits)
    from p have "sw_cache s1 = sw_cache s \<and> sw_streamState s1 = sw_streamState s"
      by (cases rule: sotw_process_response_ok) (simp add: queue)
    with 3(1) [OF refl False p [symmetric] refl r] show ?thesis by simp
  qed
qed auto

lemma sotw_create_watch_facts:
  "sw_streamState (sotw_create_watch E req ch s) = sw_streamState s"
  "sw_cache (sotw_create_watch E req ch s) =
     fst (CreateWatch (ssv_cache (se_server E)) req (sw_streamState s) ch (sw_cache s))"
  "mget (sw_responders (sotw_create_watch E req ch s)) (req_type_url req) =
     Some \<lparr>swt_cancel = map_option CacheCancel
             (snd (snd (CreateWatch (ssv_cache (se_server E)) req (sw_streamState s) ch (sw_cache s)))),
           swt_nonce = '''', swt_response = ch\<rparr>"
  by (simp_all add: sotw_create_watch_def addWatch_def split: prod.split)

lemma sotw_close_state [simp]:
  "sw_streamState (sotw_watch_close C w s) = sw_streamState s"
  by (simp add: sotw_watch_close_def split: option.split sotw_cancel.split)

text \<open>A request whose nonce is the one the watch waits for closes the watch and asks the cache again.\<close>

lemma sotw_rewatch_creates:
  assumes re: "if ord then sotw_ads_rewatch E req s = (s', None) else s' = sotw_rewatch E req s"
    and w: "mget (sw_responders s) (req_type_url req) = Some w" and nonce: "swt_nonce w = req_response_nonce req"
  obtains ch s2 where "s' = recompute (sotw_create_watch E req ch s2) \<or> s' = sotw_create_watch E req ch s2"
    and "sw_streamState s2 = sw_streamState s"
    and "sw_cache s2 = sw_cache (sotw_watch_close (ssv_cache (se_server E)) w s)"
proof (cases ord)
  case True
  let ?s = "sotw_watch_close (ssv_cache (se_server E)) w s"
  from True re w nonce obtain ch s2 where "ads_channel s = Some ch" and
    p: "processAllExcept E (req_type_url req) (ads_queue ?s) ?s = (s2, None)" and "s' = sotw_create_watch E req ch s2"
    by (auto simp: sotw_ads_rewatch_def Let_def split: option.splits prod.splits if_splits)
  with processAllExcept_frame [OF p] that show thesis by auto
next
  case False
  let ?s = "snd (make_chan s)"
  have same: "sw_cache ?s = sw_cache s" "sw_streamState ?s = sw_streamState s" by (simp_all add: make_chan_def)
  from False re w nonce have "s' = recompute (sotw_create_watch E req (fst (make_chan s))
      (sotw_watch_close (ssv_cache (se_server E)) w ?s))"
    by (auto simp: sotw_rewatch_def make_chan_def)
  moreover have "sw_cache (sotw_watch_close (ssv_cache (se_server E)) w ?s)
      = sw_cache (sotw_watch_close (ssv_cache (se_server E)) w s)"
    by (auto simp: sotw_watch_close_def same split: option.split sotw_cancel.split)
  moreover have "sw_streamState (sotw_watch_close (ssv_cache (se_server E)) w ?s) = sw_streamState s"
    by (simp add: same)
  ultimately show thesis by (intro that) (rule disjI1)
qed

text \<open>C11: a request that acknowledges (or rejects) the response its watch waits for opens the watch
  again: the old watch is cancelled, the names of the request the last response answered are recorded
  as known to the client, and the cache is asked with this request and that record.\<close>

theorem sotw_ack_reopens_watch:
  assumes "sotw_ok s" and "sotw_select E (SRequest (Some req)) s = (s', None)" and "req_type_url req \<noteq> ''''"
    and "sw_ordered s \<or> \<not> (se_typeURL E = AnyType \<and> opts_Ordered (ssv_opts (se_server E)))"
    and "mget (sw_responders s) (req_type_url req) = Some w" and "swt_nonce w \<noteq> ''''"
    and "req_response_nonce req = swt_nonce w" and "swt_cancel w = map_option CacheCancel k"
  shows "\<exists>l node ch.
    mget (sw_lastDiscoveryResponses s) (req_type_url req) = Some l \<and> last_nonce l = swt_nonce w \<and>
    sw_streamState s' = SetKnownResourceNames (req_type_url req) (last_resources l) (sw_streamState s) \<and>
    sw_cache s' = fst (CreateWatch (ssv_cache (se_server E)) (req\<lparr>req_node := Some node\<rparr>) (sw_streamState s') ch
      (case k of None \<Rightarrow> sw_cache s | Some k \<Rightarrow> cancel_fn (ssv_cache (se_server E)) k (sw_cache s))) \<and>
    map_option swt_nonce (mget (sw_responders s') (req_type_url req)) = Some ''''"
proof -
  let ?C = "ssv_cache (se_server E)"
  obtain node es req1 s1 where
    s1: "s1 = sotw_record_known req1 (s\<lparr>sw_node := node, sw_trace := sw_trace s @ es\<rparr>)"
    and req1: "req1 = req\<lparr>req_node := Some node\<rparr>" and "sent_responses es = []"
    and re: "if sw_ordered s then sotw_ads_rewatch E req1 s1 = (s', None) else s' = sotw_rewatch E req1 s1"
    by (rule sotw_request_rewatch [OF assms(2-4)]) (rule that)
  from assms(1,5,6) obtain l where l: "mget (sw_lastDiscoveryResponses s) (req_type_url req) = Some l"
    "last_nonce l = swt_nonce w" unfolding sotw_ok_def by blast
  have st1: "s1 = s\<lparr>sw_node := node, sw_trace := sw_trace s @ es, sw_streamState :=
      SetKnownResourceNames (req_type_url req) (last_resources l) (sw_streamState s)\<rparr>"
    using l assms(7) by (simp add: s1 req1 sotw_record_known_def)
  have w1: "mget (sw_responders s1) (req_type_url req1) = Some w" using assms(5) by (simp add: st1 req1)
  have closed: "sw_cache (sotw_watch_close ?C w x) = (case k of None \<Rightarrow> sw_cache x | Some k \<Rightarrow> cancel_fn ?C k (sw_cache x))" for x
    by (simp add: sotw_watch_close_def assms(8) split: option.split)
  have nonce: "swt_nonce w = req_response_nonce req1" using assms(7) by (simp add: req1)
  from re w1 nonce obtain ch s2 where
    d: "s' = recompute (sotw_create_watch E req1 ch s2) \<or> s' = sotw_create_watch E req1 ch s2"
    and s2: "sw_streamState s2 = sw_streamState s1" "sw_cache s2 = sw_cache (sotw_watch_close ?C w s1)"
    by (rule sotw_rewatch_creates)
  from d have s': "sw_streamState s' = sw_streamState s1"
    "sw_cache s' = fst (CreateWatch ?C req1 (sw_streamState s2) ch (sw_cache s2))"
    "map_option swt_nonce (mget (sw_responders s') (req_type_url req1)) = Some ''''"
    by (auto simp: recompute_def sotw_create_watch_facts s2)
  have same: "sw_cache s1 = sw_cache s" by (simp add: st1)
  show ?thesis
    using s2 s' l closed [of s1, unfolded same] by (intro exI [of _ l] exI [of _ node] exI [of _ ch]) (simp add: st1 req1)
qed

section \<open>The order of the ordered loop\<close>

text \<open>The messages of a list of responses, numbered from the current counter.\<close>

fun numbered :: "lib \<Rightarrow> int64 \<Rightarrow> Response list \<Rightarrow> DiscoveryResponse option list" where
  "numbered L n [] = []"
| "numbered L n (r # rs) = message_of L r (n + 1) # numbered L (n + 1) rs"

lemma ads_queue_set [simp]:
  "ads_channel s \<noteq> None \<Longrightarrow> ads_queue (set_ads_queue q s) = q"
  "ads_channel (set_ads_queue q s) = ads_channel s"
  "sw_nonce (set_ads_queue q s) = sw_nonce s" "sw_trace (set_ads_queue q s) = sw_trace s"
  by (auto simp: ads_queue_def set_ads_queue_def ads_channel_def split: option.splits)

text \<open>C12: when the ordered loop handles a new request for a type, it first sends what the shared channel
  holds, in exactly the order in which the cache wrote it, without the responses of that type, which
  the new request supersedes; afterwards the channel is empty.\<close>

theorem ads_sends_in_order:
  assumes "processAllExcept E t q s = (s', None)" and "ads_channel s \<noteq> None"
  shows "\<exists>ms. sent_responses (sw_trace s') = sent_responses (sw_trace s) @ ms \<and> ads_queue s' = [] \<and>
    map Some ms = numbered (se_lib E) (sw_nonce s)
      (filter (\<lambda>r. req_type_url (resp_GetRequest r) \<noteq> t) (map the q))"
  using assms
proof (induction E t q s rule: processAllExcept.induct)
  case (3 E t res q s)
  show ?case
  proof (cases "req_type_url (resp_GetRequest res) = t")
    case True
    with 3(2) [OF refl] 3(3,4) show ?thesis by simp
  next
    case False
    with 3(3) obtain s1 where p: "sotw_process_response E (Some res) (set_ads_queue q s) = (s1, None)"
      and r: "processAllExcept E t q s1 = (s', None)" by (auto simp: Let_def split: prod.splits option.splits)
    from p show ?thesis
    proof (cases rule: sotw_process_response_ok)
      case (1 r m w es)
      have "ads_channel s1 \<noteq> None" using 3(4) by (auto simp: 1(5) ads_channel_def mget_put set_ads_queue_def split: option.splits)
      from 3(1) [OF refl False p [symmetric] refl r this] obtain ms where
        "sent_responses (sw_trace s') = sent_responses (sw_trace s1) @ ms" "ads_queue s' = []"
        "map Some ms = numbered (se_lib E) (sw_nonce s1) (filter (\<lambda>r. req_type_url (resp_GetRequest r) \<noteq> t) (map the q))"
        by blast
      with 1 False show ?thesis by (intro exI [of _ "m # ms"]) simp
    qed
  qed
qed auto

section \<open>A stream to show it on\<close>

text \<open>A cache that answers every watch at once with a message of its own.\<close>

definition answering_sotw :: "(unit, unit) Cache" where
  "answering_sotw = \<lparr>CreateWatch = (\<lambda>req st ch c. (c, [Send ch (Some (Passthrough
       \<lparr>pass_request = req, pass_response = Some \<lparr>resp_version_info = '''', resp_resources = [],
          resp_type_url = req_type_url req, resp_nonce = ''''\<rparr>, pass_ctx = Background\<rparr>))], None)),
     CreateDeltaWatch = (\<lambda>req st ch c. (c, [], None)),
     Fetch = (\<lambda>ctx req c. Inl NotImplemented), cancel_fn = (\<lambda>k c. c)\<rparr>"

definition sotw_sample_env :: "XDSOption list \<Rightarrow> string \<Rightarrow> (unit, unit) sotw_env" where
  "sotw_sample_env opts typ = \<lparr>se_server = NewSotwServer answering_sotw None opts, se_lib = sample_lib,
     se_ID = 1, se_typeURL = typ, se_send = (\<lambda>trace m. None)\<rparr>"

definition first_request :: DiscoveryRequest where
  "first_request = sotw_request ''T'' '''' [''a'', ''b'']"

definition ack_request :: "string \<Rightarrow> DiscoveryRequest" where
  "ack_request nonce = (sotw_request ''T'' '''' [''a''])\<lparr>req_response_nonce := nonce\<rparr>"

abbreviation "sotw_start \<equiv> (new_streamWrapper 5 () :: (unit, unit) streamWrapper)"

definition sotw_acked :: "(unit, unit) streamWrapper" where
  "sotw_acked = fst (sotw_loop (sotw_sample_env [] ''T'')
     [SRequest (Some first_request), SResponse 0] (recompute sotw_start))"

lemmas sotw_defs =
  sotw_sample_env_def answering_sotw_def first_request_def ack_request_def NewSotwServer_def NewOpts_def
  new_streamWrapper_def running_def sotw_xds_request_def sotw_fill_node_def sotw_on_request_def
  sotw_record_known_def sotw_rewatch_def make_chan_def sotw_create_watch_def addWatch_def recompute_def deliver_def
  sotw_xds_response_def sotw_process_response_def sotw_send_def set_watch_nonce_def sotw_watch_close_def
  Let_def type_url_defs sotw_request_def empty_request_def FormatInt_def

lemma sotw_acked_eq:
  "sotw_acked = \<lparr>sw_cache = (), sw_nonce = 1, sw_responders = [(''T'', \<lparr>swt_cancel = None,
      swt_nonce = ''1'', swt_response = 5\<rparr>)], sw_cases = [5], sw_node = empty_node,
      sw_streamState = NewStreamState False (Some []),
      sw_lastDiscoveryResponses = [(''T'', \<lparr>last_nonce = ''1'', last_resources = [''b'', ''a'']\<rparr>)],
      sw_chans = [(5, [])], sw_nextchan = 6, sw_closed = [], sw_ordered = False, sw_resent = None,
      sw_trace = [EvSend \<lparr>resp_version_info = '''', resp_resources = [], resp_type_url = ''T'', resp_nonce = ''1''\<rparr>]\<rparr>"
  unfolding sotw_acked_def by (simp add: sotw_defs)

theorem sotw_nonces_witness:
  "\<exists>k. map resp_nonce (sent_responses (sw_trace sotw_acked)) = map (\<lambda>i. FormatInt (of_nat i)) [1..<Suc k]
     \<and> length (sent_responses (sw_trace sotw_acked)) = 1"
proof -
  have o: "sotw_open (sotw_sample_env [] ''T'') 5 () = (sotw_start, None)"
    by (simp add: sotw_open_def sotw_sample_env_def NewSotwServer_def)
  have l: "sotw_loop (sotw_sample_env [] ''T'') [SRequest (Some first_request), SResponse 0] (recompute sotw_start)
      = (sotw_acked, None)" unfolding sotw_acked_def by (simp add: sotw_defs)
  have "length (sent_responses (sw_trace sotw_acked)) = 1" unfolding sotw_acked_eq by simp
  with sotw_nonces [OF o l] show ?thesis by blast
qed

theorem sotw_stale_request_ignored_witness:
  "sw_responders (fst (sotw_select (sotw_sample_env [] ''T'') (SRequest (Some (ack_request ''0''))) sotw_acked))
     = sw_responders sotw_acked"
proof -
  have "snd (sotw_select (sotw_sample_env [] ''T'') (SRequest (Some (ack_request ''0''))) sotw_acked) = None"
    unfolding sotw_acked_eq by (simp add: sotw_defs)
  then obtain s' where s': "sotw_select (sotw_sample_env [] ''T'') (SRequest (Some (ack_request ''0''))) sotw_acked = (s', None)"
    by (metis prod.collapse)
  have "mget (sw_responders sotw_acked) (req_type_url (ack_request ''0'')) =
      Some \<lparr>swt_cancel = None, swt_nonce = ''1'', swt_response = 5\<rparr>"
    unfolding sotw_acked_eq by (simp add: ack_request_def sotw_request_def)
  from sotw_stale_request_ignored [OF s' _ _ this] show ?thesis
    unfolding s' by (simp add: ack_request_def sotw_request_def sotw_sample_env_def type_url_defs)
qed

theorem sotw_ack_reopens_watch_witness:
  "\<exists>s'. sotw_select (sotw_sample_env [] ''T'') (SRequest (Some (ack_request ''1''))) sotw_acked = (s', None)
     \<and> GetKnownResourceNames ''T'' (sw_streamState s') = [''b'', ''a'']"
proof -
  have "snd (sotw_select (sotw_sample_env [] ''T'') (SRequest (Some (ack_request ''1''))) sotw_acked) = None"
    unfolding sotw_acked_eq by (simp add: sotw_defs)
  then obtain s' where s': "sotw_select (sotw_sample_env [] ''T'') (SRequest (Some (ack_request ''1''))) sotw_acked = (s', None)"
    by (metis prod.collapse)
  have ok: "sotw_ok sotw_acked"
    unfolding sotw_acked_eq sotw_ok_def by (auto simp: FormatInt_def intro!: exI [of _ 1])
  have w: "mget (sw_responders sotw_acked) (req_type_url (ack_request ''1'')) =
      Some \<lparr>swt_cancel = None, swt_nonce = ''1'', swt_response = 5\<rparr>"
    unfolding sotw_acked_eq by (simp add: ack_request_def sotw_request_def)
  have "req_type_url (ack_request ''1'') \<noteq> ''''" by (simp add: ack_request_def sotw_request_def)
  from sotw_ack_reopens_watch [OF ok s' this _ w, of None] s' show ?thesis
    by (auto simp: ack_request_def sotw_request_def sotw_sample_env_def type_url_defs sotw_acked_eq)
qed

definition ads_sample :: "(unit, unit) streamWrapper" where
  "ads_sample = (new_streamWrapper 6 ())\<lparr>sw_ordered := True,
     sw_responders := [('''', \<lparr>swt_cancel = Some CloseResponse, swt_nonce = '''', swt_response = 5\<rparr>),
       (''T'', \<lparr>swt_cancel = None, swt_nonce = '''', swt_response = 5\<rparr>),
       (''U'', \<lparr>swt_cancel = None, swt_nonce = '''', swt_response = 5\<rparr>)],
     sw_chans := [(5, map (\<lambda>t. Some (Passthrough \<lparr>pass_request = sotw_request t '''' [],
        pass_response = Some \<lparr>resp_version_info = '''', resp_resources = [], resp_type_url = t, resp_nonce = ''''\<rparr>,
        pass_ctx = Background\<rparr>)) [''U'', ''T'', ''U''])]\<rparr>"

theorem ads_sends_in_order_witness:
  "\<exists>s' ms. processAllExcept (sotw_sample_env [] '''') ''T'' (ads_queue ads_sample) ads_sample = (s', None) \<and>
     sent_responses (sw_trace s') = ms \<and> map resp_nonce ms = [''1'', ''2''] \<and> map resp_type_url ms = [''U'', ''U'']"
proof -
  have ch: "ads_channel ads_sample \<noteq> None" by (simp add: ads_channel_def ads_sample_def type_url_defs)
  have "snd (processAllExcept (sotw_sample_env [] '''') ''T'' (ads_queue ads_sample) ads_sample) = None"
    by (simp add: ads_sample_def sotw_defs ads_queue_def ads_channel_def set_ads_queue_def mget_or_def)
  then obtain s' where s': "processAllExcept (sotw_sample_env [] '''') ''T'' (ads_queue ads_sample) ads_sample = (s', None)"
    by (metis prod.collapse)
  from ads_sends_in_order [OF s' ch] obtain ms where
    "sent_responses (sw_trace s') = sent_responses (sw_trace ads_sample) @ ms"
    and ms: "map Some ms = numbered (se_lib (sotw_sample_env [] '''')) (sw_nonce ads_sample)
      (filter (\<lambda>r. req_type_url (resp_GetRequest r) \<noteq> ''T'') (map the (ads_queue ads_sample)))" by blast
  then have "sent_responses (sw_trace s') = ms" by (simp add: ads_sample_def new_streamWrapper_def)
  moreover have "map Some ms = map Some
      [\<lparr>resp_version_info = '''', resp_resources = [], resp_type_url = ''U'', resp_nonce = ''1''\<rparr>,
       \<lparr>resp_version_info = '''', resp_resources = [], resp_type_url = ''U'', resp_nonce = ''2''\<rparr>]"
    unfolding ms by (simp add: ads_sample_def sotw_defs ads_queue_def ads_channel_def mget_or_def message_of_def)
  then have "ms = [\<lparr>resp_version_info = '''', resp_resources = [], resp_type_url = ''U'', resp_nonce = ''1''\<rparr>,
       \<lparr>resp_version_info = '''', resp_resources = [], resp_type_url = ''U'', resp_nonce = ''2''\<rparr>]"
    by (simp only: inj_map_eq_map inj_Some)
  ultimately show ?thesis using s' by simp
qed

section \<open>Where the server falls short\<close>

text \<open>An ordered stream whose client goes away right after its first request brings the process
  down: the first request is handed to a routine that sends it once more on the channel of requests,
  and when the reader closes that channel before, the send panics outside any handler.\<close>

theorem ordered_ads_eof_panics:
  assumes "se_typeURL E = AnyType" and "opts_Ordered (ssv_opts (se_server E))" and "\<not> sw_ordered s"
    and "req_type_url req \<noteq> ''''"
  shows "snd (sotw_loop E [SRequest (Some req), SEOF] s) = Some (Some PanicClosedChannel)"
proof -
  obtain req' s1 where fill: "sotw_fill_node req s = (req', s1)" by (cases "sotw_fill_node req s")
  with assms have "sotw_xds_request E (Some req) s = (processADS_start (s1\<lparr>sw_resent := Some req'\<rparr>), None)"
    by (simp add: sotw_xds_request_def)
  moreover have "sw_resent (processADS_start (s1\<lparr>sw_resent := Some req'\<rparr>)) = Some req'"
    by (simp add: processADS_start_def make_chan_def addWatch_def)
  ultimately show ?thesis using assms(3) by (simp add: running_def)
qed

theorem ordered_ads_eof_panics_witness:
  "snd (sotw_loop (sotw_sample_env [WithOrderedADS] AnyType) [SRequest (Some first_request), SEOF] sotw_start)
     = Some (Some PanicClosedChannel)"
  by (rule ordered_ads_eof_panics)
    (simp_all add: sotw_sample_env_def NewSotwServer_def WithOrderedADS_def NewOpts_def new_streamWrapper_def
      first_request_def sotw_request_def)

lemma sotw_messages_Nil_iff: "sotw_messages ch sends = [] \<longleftrightarrow> sotw_sends ch sends = []"
  by (induction ch sends rule: sotw_messages.induct) (auto simp: sotw_sends_def)

text \<open>All watches of an ordered stream share the channel that the one under \<open>AnyType\<close> closes.\<close>

definition shared :: "chan \<Rightarrow> ('c, 'k) streamWrapper \<Rightarrow> bool" where
  "shared ch s \<longleftrightarrow> sw_ordered s \<and>
     (\<exists>a. mget (sw_responders s) AnyType = Some a \<and> swt_cancel a = Some CloseResponse) \<and>
     (\<forall>t w. mget (sw_responders s) t = Some w \<longrightarrow> swt_response w = ch)"

lemma shared_frame [simp]:
  "shared ch (s\<lparr>sw_cache := c\<rparr>) = shared ch s" "shared ch (s\<lparr>sw_chans := x\<rparr>) = shared ch s"
  "shared ch (s\<lparr>sw_node := n\<rparr>) = shared ch s" "shared ch (s\<lparr>sw_resent := r\<rparr>) = shared ch s"
  "shared ch (s\<lparr>sw_trace := es\<rparr>) = shared ch s" "shared ch (s\<lparr>sw_streamState := st\<rparr>) = shared ch s"
  "shared ch (s\<lparr>sw_nonce := k\<rparr>) = shared ch s" "shared ch (s\<lparr>sw_lastDiscoveryResponses := l\<rparr>) = shared ch s"
  "shared ch (s\<lparr>sw_closed := cl\<rparr>) = shared ch s"
  by (simp_all add: shared_def)

lemma shared_steps [simp]:
  "shared ch (set_ads_queue q s) = shared ch s" "shared ch (sotw_watch_close C w s) = shared ch s"
  "shared ch (sotw_record_known req s) = shared ch s"
  by (simp_all add: set_ads_queue_def sotw_watch_close_def sotw_record_known_def split: option.split sotw_cancel.split)

lemma shared_put:
  "shared ch s \<Longrightarrow> swt_response w = ch \<Longrightarrow> t = AnyType \<longrightarrow> swt_cancel w = Some CloseResponse \<Longrightarrow> shared ch (addWatch t w s)"
  by (auto simp: shared_def addWatch_def mget_put)

lemma shared_channel: "shared ch s \<Longrightarrow> ads_channel s = Some ch"
  by (auto simp: shared_def ads_channel_def)

lemma shared_create: "shared ch s \<Longrightarrow> req_type_url req \<noteq> AnyType \<Longrightarrow> shared ch (sotw_create_watch E req ch s)"
  by (simp add: sotw_create_watch_def shared_put split: prod.split)

lemma shared_send: "sotw_send E resp s = (s', n, e) \<Longrightarrow> shared ch s' = shared ch s"
  by (auto simp: sotw_send_def Let_def split: option.splits sum.splits if_splits)

lemma shared_process: "shared ch s \<Longrightarrow> sotw_process_response E resp s = (s', e) \<Longrightarrow> shared ch s'"
proof -
  have nonce: "shared ch s \<Longrightarrow> set_watch_nonce t n s = (s', e) \<Longrightarrow> shared ch s'" for t n e and s s' :: "('a, 'b) streamWrapper"
    by (auto simp: set_watch_nonce_def split: option.splits intro!: shared_put) (auto simp: shared_def)
  assume "shared ch s" and "sotw_process_response E resp s = (s', e)"
  then show ?thesis
    by (auto simp: sotw_process_response_def shared_send split: prod.splits option.splits intro: nonce [rotated])
qed

lemma shared_processAll: "shared ch s \<Longrightarrow> processAllExcept E t q s = (s', e) \<Longrightarrow> shared ch s'"
proof (induction E t q s rule: processAllExcept.induct)
  case (3 E t res q s)
  then show ?case by (auto simp: Let_def split: if_splits prod.splits option.splits dest: shared_process [rotated])
qed auto

lemma shared_rewatch:
  "shared ch s \<Longrightarrow> req_type_url req \<noteq> AnyType \<Longrightarrow> sotw_ads_rewatch E req s = (s', e) \<Longrightarrow> shared ch s'"
  by (auto simp: sotw_ads_rewatch_def shared_channel shared_create Let_def split: option.splits if_splits prod.splits
      dest!: shared_processAll [rotated])

lemma shared_request:
  assumes "shared ch s" and "se_typeURL E = AnyType" and "sotw_ads_request E req s = (s', e)"
  shows "shared ch s'"
proof (cases req)
  case (Some q)
  obtain q1 s1 where fill: "sotw_fill_node q s = (q1, s1)" by (cases "sotw_fill_node q s")
  obtain s2 e2 where call: "sotw_on_request E q1 s1 = (s2, e2)" by (cases "sotw_on_request E q1 s1")
  have "shared ch s1" using fill assms(1) by (auto simp: sotw_fill_node_def split: option.splits)
  moreover from this call have "shared ch s2" by (auto simp: sotw_on_request_def split: option.splits)
  ultimately show ?thesis
    using assms(2,3) fill call shared_rewatch [where s = "sotw_record_known q1 s2" and req = q1]
    by (auto simp: Some sotw_ads_request_def AnyType_def split: if_splits option.splits)
qed (use assms in \<open>simp add: sotw_ads_request_def\<close>)

text \<open>A stream that becomes ordered has no watch before.\<close>

definition unshared :: "('c, 'k) streamWrapper \<Rightarrow> bool" where
  "unshared s \<longleftrightarrow> \<not> sw_ordered s \<and> sw_responders s = [] \<and> sw_resent s = None \<and> sw_cases s = []"

lemma unshared_request:
  assumes s: "unshared s" and E: "se_typeURL E = AnyType" "opts_Ordered (ssv_opts (se_server E))"
    and step: "sotw_xds_request E req s = (s', e)"
  shows "unshared s' \<or> (\<exists>ch. shared ch s')"
proof (cases req)
  case (Some q)
  obtain q1 s1 where fill: "sotw_fill_node q s = (q1, s1)" by (cases "sotw_fill_node q s")
  then have "unshared s1" using s by (auto simp: sotw_fill_node_def unshared_def split: option.splits)
  with fill step E show ?thesis
    by (auto simp: Some sotw_xds_request_def processADS_start_def make_chan_def addWatch_def shared_def unshared_def
        split: if_splits)
qed (use s step in \<open>simp add: sotw_xds_request_def\<close>)

lemma shared_select:
  assumes E: "se_typeURL E = AnyType" "opts_Ordered (ssv_opts (se_server E))"
    and s: "unshared s \<or> (\<exists>ch. shared ch s)" and step: "sotw_select E i s = (s', r)"
  shows "unshared s' \<or> (\<exists>ch. shared ch s')"
proof -
  have run: "\<exists>e. x = (s', e)" if "running x = (s', r)" for x
    using that by (auto simp: running_def split: prod.splits option.splits)
  from s show ?thesis
  proof
    assume s: "unshared s"
    then have "\<not> sw_ordered s" "sw_resent s = None" "sw_cases s = []" by (simp_all add: unshared_def)
    with s step show ?thesis
      by (cases i) (auto simp: sotw_xds_response_def unshared_def running_def split: prod.splits option.splits
          dest!: run dest: unshared_request [OF s E])
  next
    assume "\<exists>ch. shared ch s"
    then obtain ch where s: "shared ch s" by blast
    then have "sw_ordered s" by (simp add: shared_def)
    with s step have "shared ch s'"
      by (cases i) (auto simp: sotw_ads_response_def split: prod.splits option.splits list.splits
          dest!: run dest: shared_request [OF _ E(1), rotated] shared_process [rotated])
    then show ?thesis by blast
  qed
qed

lemma shared_loop:
  assumes E: "se_typeURL E = AnyType" "opts_Ordered (ssv_opts (se_server E))"
    and "unshared s \<or> (\<exists>ch. shared ch s)" and "sotw_loop E inputs s = (s', r)"
  shows "unshared s' \<or> (\<exists>ch. shared ch s')"
  using assms(3,4)
proof (induction inputs arbitrary: s)
  case (Cons i inputs)
  obtain s1 r1 where i: "sotw_select E i s = (s1, r1)" by (cases "sotw_select E i s")
  from shared_select [OF E Cons.prems(1) i] Cons show ?case by (auto simp: i split: option.splits)
qed simp

lemma shared_stream:
  assumes "se_typeURL E = AnyType" and "opts_Ordered (ssv_opts (se_server E))"
    and "sotw_open E ch0 c = (s0, None)" and "sotw_loop E inputs (recompute s0) = (s, r)" and "sw_ordered s"
  obtains ch where "shared ch s"
proof -
  have "unshared (recompute s0)"
    using assms(3) by (auto simp: sotw_open_def new_streamWrapper_def unshared_def recompute_def Let_def split: option.splits)
  from shared_loop [OF assms(1,2) _ assms(4)] this assms(5) that show thesis by (auto simp: unshared_def)
qed

text \<open>Without calls of the cache in between, closing the watches does not fail.\<close>

lemma quiet_close: "\<forall>(t, fs) \<in> set closing. fs = [] \<Longrightarrow> snd (sotw_watches_close C closing s) = None"
  by (induction C closing s rule: sotw_watches_close.induct) (auto split: option.splits)

lemma process_ends:
  assumes "sotw_open E ch c = (s0, None)" and "sotw_loop E inputs (recompute s0) = (s, Some r)"
  shows "snd (sotw_process E ch c inputs closing) =
    (case snd (sotw_watches_close (ssv_cache (se_server E)) closing s) of None \<Rightarrow> Some r | Some err \<Rightarrow> Some (Some err))"
  using assms by (simp add: sotw_process_def sotw_deferred_def sotw_shutdown_def split: prod.split option.split)

text \<open>An update of the linear cache sends to a channel that waits for the name.\<close>

lemma update_sends:
  assumes "lib_total L" and "linear_reach L k c" and "res \<noteq> None" and "\<not> lc_nilResources c"
    and "ch \<in> set (mget_or [] (lc_watches c) n)" and step: "UpdateResource L n res c = (c', sends, err)"
  shows "sotw_messages ch sends \<noteq> []"
proof -
  have op: "op_ok c (OpUpdateResource n res)" "op_modifies (OpUpdateResource n res)"
    using assms(3,4) by (simp_all add: op_ok_def op_panics_def)
  obtain M where "set M = op_names (OpUpdateResource n res) (mget (lc_resources c))"
    and sends: "\<And>ch. sotw_sends ch sends = (let stale = stale_for M (lc_watches c) ch
        in (if stale = [] then [] else [linear_respond c' ch stale])
           @ (if ch \<in> set (lc_watchAll c) then [linear_respond c' ch []] else []))"
    using linear_notification_aux [OF linear_inv_reach_step [OF assms(2,1)] op, of L c' sends err] step by auto
  with assms(3) have "n \<in> set M" by simp
  with assms(5) have "stale_for M (lc_watches c) ch \<noteq> []" by (auto simp: stale_for_def filter_empty_conv)
  then have "sotw_sends ch sends \<noteq> []" by (simp add: sends Let_def)
  then show ?thesis by (simp add: sotw_messages_Nil_iff)
qed

text \<open>What a cache user does: the update, without its error.\<close>

definition linear_user :: "lib \<Rightarrow> linear_op \<Rightarrow> LinearCache \<Rightarrow> LinearCache \<times> send list" where
  "linear_user L op c = (case linear_step L op c of (c', sends, err) \<Rightarrow> (c', sends))"

text \<open>C36: when an ordered stream over the linear cache ends, for whatever reason, its watches are closed
  in the order of a Go map.  When the entry of the shared channel comes first and somebody updates a
  resource a watch of the stream waits for before the next entry is closed, the update sends to the
  closed channel and the process panics, whatever the rest of the order is; without a call of the cache in
  between, in any order, the stream ends the way its loop ended.  (The incremental server
  cancels all its watches before it closes the channel.)\<close>

theorem ordered_shutdown_races:
  assumes "se_typeURL E = AnyType" and "opts_Ordered (ssv_opts (se_server E))"
    and "sotw_open E ch c = (s0, None)" and "sotw_loop E inputs (recompute s0) = (s, Some r)" and "sw_ordered s"
    and "lib_total L" and "linear_reach L k (sw_cache s)" and "\<not> lc_nilResources (sw_cache s)" and "res \<noteq> None"
    and "mget (sw_responders s) t = Some w" and "swt_response w \<in> set (mget_or [] (lc_watches (sw_cache s)) n)"
  shows "snd (sotw_process E ch c inputs ((AnyType, [linear_user L (OpUpdateResource n res)]) # closing))
        = Some (Some PanicClosedChannel)
    \<and> ((\<forall>(t, calls) \<in> set quiet. calls = []) \<longrightarrow> snd (sotw_process E ch c inputs quiet) = Some r)"
proof -
  from shared_stream [OF assms(1-5)] obtain sh where sh: "shared sh s" .
  with assms(10) obtain a where a: "mget (sw_responders s) AnyType = Some a" "swt_cancel a = Some CloseResponse"
    "swt_response a = swt_response w" by (auto simp: shared_def)
  obtain c' sends err where step: "UpdateResource L n res (sw_cache s) = (c', sends, err)" by (metis prod_cases3)
  from update_sends [OF assms(6,7,9,8,11) this] have "sotw_messages (swt_response a) sends \<noteq> []" by (simp add: a(3))
  with a step have "snd (sotw_watches_close C ((AnyType, [linear_user L (OpUpdateResource n res)]) # closing) s)
      = Some PanicClosedChannel" for C
    by (auto simp: sotw_watch_close_def linear_user_def Let_def list_ex_iff split: prod.split)
  moreover from quiet_close [of quiet "ssv_cache (se_server E)" s]
  have "(\<forall>(t, calls) \<in> set quiet. calls = []) \<Longrightarrow> snd (sotw_watches_close (ssv_cache (se_server E)) quiet s) = None" .
  ultimately show ?thesis by (simp add: process_ends [OF assms(3,4)])
qed

text \<open>An ordered stream that waits for the resource \<open>a\<close> when its client goes away.\<close>

definition racing_env :: "(LinearCache, linear_canceler) sotw_env" where
  "racing_env = \<lparr>se_server = NewSotwServer (linear_Cache sample_lib) None [WithOrderedADS], se_lib = sample_lib,
     se_ID = 1, se_typeURL = AnyType, se_send = (\<lambda>trace m. None)\<rparr>"

definition racing_inputs :: "LinearCache sotw_input list" where
  "racing_inputs = [SRequest (Some (sotw_request ''T'' ''p1'' [''a''])), SResent, SEOF]"

definition racing_stream :: "(LinearCache, linear_canceler) streamWrapper" where
  "racing_stream = fst (sotw_loop racing_env racing_inputs (recompute (new_streamWrapper 5 sample_linear)))"

lemma racing_stream_eq:
  "sotw_loop racing_env racing_inputs (recompute (new_streamWrapper 5 sample_linear)) = (racing_stream, Some None)
   \<and> sw_ordered racing_stream
   \<and> map_option swt_response (mget (sw_responders racing_stream) ''T'') = Some 5
   \<and> sw_cache racing_stream = sample_linear\<lparr>lc_watches := [(''a'', [5, 7]), (''c'', [7])]\<rparr>"
  by (simp add: racing_stream_def racing_env_def racing_inputs_def sample_linear_eq sotw_defs WithOrderedADS_def
      processADS_start_def sotw_ads_request_def sotw_ads_rewatch_def ads_channel_def linear_Cache_def
      linear_CreateWatch_def linear_getVersion_def linear_stale_def mget_or_def)

theorem ordered_shutdown_races_witness:
  "snd (sotw_process racing_env 5 sample_linear racing_inputs
     [(AnyType, [linear_user sample_lib (OpUpdateResource ''a'' (cla ''a'' [9]))]), (''T'', [])])
     = Some (Some PanicClosedChannel)
   \<and> snd (sotw_process racing_env 5 sample_linear racing_inputs [(AnyType, []), (''T'', [])]) = Some None"
proof -
  let ?req = "(sotw_request ''T'' ''p1'' [''a''])\<lparr>req_node := Some empty_node\<rparr>"
  have "linear_reach sample_lib 1 (sw_cache racing_stream)"
    using linear_reach.step [OF sample_linear_reach, where op = "OpCreateWatch ?req (NewStreamState False (Some [])) 5"]
    by (simp add: racing_stream_eq op_ok_def op_panics_def sample_linear_eq linear_CreateWatch_def
        linear_getVersion_def linear_stale_def mget_or_def Let_def sotw_request_def empty_request_def)
  note reach = this
  obtain w where w: "mget (sw_responders racing_stream) ''T'' = Some w" "swt_response w = 5"
    using racing_stream_eq by auto
  have o: "sotw_open racing_env 5 sample_linear = (new_streamWrapper 5 sample_linear, None)"
    by (simp add: sotw_open_def racing_env_def NewSotwServer_def)
  show ?thesis
    using ordered_shutdown_races [where E = racing_env and inputs = racing_inputs and quiet = "[(AnyType, []), (''T'', [])]"
        and closing = "[(''T'', [])]" and res = "cla ''a'' [9]" and n = "''a''", OF _ _ o _ _ lib_total_sample reach _ _ w(1)]
    by (simp add: racing_stream_eq w(2)) (simp add: racing_env_def NewSotwServer_def WithOrderedADS_def NewOpts_def
        sample_linear_eq cla_def mget_or_def)
qed

end
