(* ===== verification/XdsServer.thy ===== *)
theory XdsServer
  imports DeltaServer SotwServer SimpleFacts
begin

text \<open>
  The polling server (\<open>pkg/server/rest/v3/server.go\<close>), the server that puts the three protocols
  together (\<open>pkg/server/v3/server.go\<close>) and the HTTP gateway (\<open>pkg/server/v3/gateway.go\<close>).  JSON is
  the protobuf runtime's and a parameter; \<open>path.Clean\<close> of the standard library is written out.
\<close>

section \<open>Polling\<close>

record RestCallbacks =
  OnFetchRequest :: "ctx \<Rightarrow> DiscoveryRequest \<Rightarrow> go_error option"

datatype rest_event =
    EvFetchRequest ctx DiscoveryRequest
  | EvFetchResponse DiscoveryRequest "DiscoveryResponse option"

record ('c, 'k) rest_server =
  rsv_cache :: "('c, 'k) Cache"
  rsv_callbacks :: "RestCallbacks option"

definition NewRestServer :: "('c, 'k) Cache \<Rightarrow> RestCallbacks option \<Rightarrow> ('c, 'k) rest_server" where
  "NewRestServer config callbacks = \<lparr>rsv_cache = config, rsv_callbacks = callbacks\<rparr>"

text \<open>
  \<open>Fetch\<close> of a cache never returns a nil response without an error here: the caches of the
  repository do not, so the branch "missing response" is not reachable through the interface as
  modelled.
\<close>

definition rest_Fetch ::
    "lib \<Rightarrow> ('c, 'k) rest_server \<Rightarrow> ctx \<Rightarrow> DiscoveryRequest \<Rightarrow> 'c
       \<Rightarrow> rest_event list \<times> (go_error + DiscoveryResponse option)" where
  "rest_Fetch L s ctx req cache =
     (let err = (case rsv_callbacks s of None \<Rightarrow> None | Some cb \<Rightarrow> OnFetchRequest cb ctx req);
          log1 = (if rsv_callbacks s = None then [] else [EvFetchRequest ctx req])
      in case err of
           Some e \<Rightarrow> (log1, Inl e)
         | None \<Rightarrow>
             (case Fetch (rsv_cache s) ctx req cache of
                Inl e \<Rightarrow> (log1, Inl e)
              | Inr resp \<Rightarrow>
                  (let out = fst (resp_GetDiscoveryResponse L resp);
                       log2 = (if rsv_callbacks s = None then []
                               else [EvFetchResponse req (case out of Inl _ \<Rightarrow> None | Inr m \<Rightarrow> m)])
                   in (log1 @ log2, out))))"

section \<open>Callbacks\<close>

text \<open>
  \<open>CallbackFuncs\<close>: optional functions.  The ones that return nothing are there for their effect,
  which is a value \<open>'e\<close> here.
\<close>

record 'e CallbackFuncs =
  StreamOpenFunc :: "(int64 \<Rightarrow> string \<Rightarrow> go_error option) option"
  StreamClosedFunc :: "(int64 \<Rightarrow> Node \<Rightarrow> 'e) option"
  DeltaStreamOpenFunc :: "(int64 \<Rightarrow> string \<Rightarrow> go_error option) option"
  DeltaStreamClosedFunc :: "(int64 \<Rightarrow> Node \<Rightarrow> 'e) option"
  StreamRequestFunc :: "(int64 \<Rightarrow> DiscoveryRequest \<Rightarrow> go_error option) option"
  StreamResponseFunc :: "(ctx \<Rightarrow> int64 \<Rightarrow> DiscoveryRequest \<Rightarrow> DiscoveryResponse \<Rightarrow> 'e) option"
  StreamDeltaRequestFunc :: "(int64 \<Rightarrow> DeltaDiscoveryRequest \<Rightarrow> go_error option) option"
  StreamDeltaResponseFunc :: "(int64 \<Rightarrow> DeltaDiscoveryRequest \<Rightarrow> DeltaDiscoveryResponse \<Rightarrow> 'e) option"
  FetchRequestFunc :: "(ctx \<Rightarrow> DiscoveryRequest \<Rightarrow> go_error option) option"
  FetchResponseFunc :: "(DiscoveryRequest \<Rightarrow> DiscoveryResponse option \<Rightarrow> 'e) option"

definition funcs_OnStreamOpen :: "'e CallbackFuncs \<Rightarrow> int64 \<Rightarrow> string \<Rightarrow> go_error option" where
  "funcs_OnStreamOpen c streamID typeURL =
     (case StreamOpenFunc c of None \<Rightarrow> None | Some f \<Rightarrow> f streamID typeURL)"

definition funcs_OnStreamClosed :: "'e CallbackFuncs \<Rightarrow> int64 \<Rightarrow> Node \<Rightarrow> 'e list" where
  "funcs_OnStreamClosed c streamID node =
     (case StreamClosedFunc c of None \<Rightarrow> [] | Some f \<Rightarrow> [f streamID node])"

definition funcs_OnDeltaStreamOpen :: "'e CallbackFuncs \<Rightarrow> int64 \<Rightarrow> string \<Rightarrow> go_error option" where
  "funcs_OnDeltaStreamOpen c streamID typeURL =
     (case DeltaStreamOpenFunc c of None \<Rightarrow> None | Some f \<Rightarrow> f streamID typeURL)"

definition funcs_OnDeltaStreamClosed :: "'e CallbackFuncs \<Rightarrow> int64 \<Rightarrow> Node \<Rightarrow> 'e list" where
  "funcs_OnDeltaStreamClosed c streamID node =
     (case DeltaStreamClosedFunc c of None \<Rightarrow> [] | Some f \<Rightarrow> [f streamID node])"

definition funcs_OnStreamRequest :: "'e CallbackFuncs \<Rightarrow> int64 \<Rightarrow> DiscoveryRequest \<Rightarrow> go_error option" where
  "funcs_OnStreamRequest c streamID req =
     (case StreamRequestFunc c of None \<Rightarrow> None | Some f \<Rightarrow> f streamID req)"

definition funcs_OnStreamResponse ::
    "'e CallbackFuncs \<Rightarrow> ctx \<Rightarrow> int64 \<Rightarrow> DiscoveryRequest \<Rightarrow> DiscoveryResponse \<Rightarrow> 'e list" where
  "funcs_OnStreamResponse c ctx streamID req resp =
     (case StreamResponseFunc c of None \<Rightarrow> [] | Some f \<Rightarrow> [f ctx streamID req resp])"

definition funcs_OnStreamDeltaRequest ::
    "'e CallbackFuncs \<Rightarrow> int64 \<Rightarrow> DeltaDiscoveryRequest \<Rightarrow> go_error option" where
  "funcs_OnStreamDeltaRequest c streamID req =
     (case StreamDeltaRequestFunc c of None \<Rightarrow> None | Some f \<Rightarrow> f streamID req)"

definition funcs_OnStreamDeltaResponse ::
    "'e CallbackFuncs \<Rightarrow> int64 \<Rightarrow> DeltaDiscoveryRequest \<Rightarrow> DeltaDiscoveryResponse \<Rightarrow> 'e list" where
  "funcs_OnStreamDeltaResponse c streamID req resp =
     (case StreamDeltaResponseFunc c of None \<Rightarrow> [] | Some f \<Rightarrow> [f streamID req resp])"

definition funcs_OnFetchRequest :: "'e CallbackFuncs \<Rightarrow> ctx \<Rightarrow> DiscoveryRequest \<Rightarrow> go_error option" where
  "funcs_OnFetchRequest c ctx req =
     (case FetchRequestFunc c of None \<Rightarrow> None | Some f \<Rightarrow> f ctx req)"

definition funcs_OnFetchResponse ::
    "'e CallbackFuncs \<Rightarrow> DiscoveryRequest \<Rightarrow> DiscoveryResponse option \<Rightarrow> 'e list" where
  "funcs_OnFetchResponse c req resp =
     (case FetchResponseFunc c of None \<Rightarrow> [] | Some f \<Rightarrow> [f req resp])"

text \<open>\<open>CallbackFuncs\<close> as the callbacks of the three servers, and what its effects are on a trace.\<close>

definition funcs_sotw :: "'e CallbackFuncs \<Rightarrow> SotwCallbacks" where
  "funcs_sotw c = \<lparr>OnStreamOpen = (\<lambda>trace. funcs_OnStreamOpen c),
     OnStreamRequest = (\<lambda>trace. funcs_OnStreamRequest c)\<rparr>"

definition funcs_delta :: "'e CallbackFuncs \<Rightarrow> DeltaCallbacks" where
  "funcs_delta c = \<lparr>OnDeltaStreamOpen = (\<lambda>trace. funcs_OnDeltaStreamOpen c),
     OnStreamDeltaRequest = (\<lambda>trace. funcs_OnStreamDeltaRequest c)\<rparr>"

definition funcs_rest :: "'e CallbackFuncs \<Rightarrow> RestCallbacks" where
  "funcs_rest c = \<lparr>OnFetchRequest = funcs_OnFetchRequest c\<rparr>"

fun funcs_effects :: "'e CallbackFuncs \<Rightarrow> sotw_event \<Rightarrow> 'e list" where
  "funcs_effects c (EvResponse ctx i req resp) = funcs_OnStreamResponse c ctx i req resp"
| "funcs_effects c (EvClosed i node) = funcs_OnStreamClosed c i node"
| "funcs_effects c _ = []"

fun funcs_delta_effects :: "'e CallbackFuncs \<Rightarrow> delta_event \<Rightarrow> 'e list" where
  "funcs_delta_effects c (EvDeltaResponse i req resp) = funcs_OnStreamDeltaResponse c i req resp"
| "funcs_delta_effects c (EvDeltaClosed i node) = funcs_OnDeltaStreamClosed c i node"
| "funcs_delta_effects c _ = []"

fun funcs_rest_effects :: "'e CallbackFuncs \<Rightarrow> rest_event \<Rightarrow> 'e list" where
  "funcs_rest_effects c (EvFetchResponse req resp) = funcs_OnFetchResponse c req resp"
| "funcs_rest_effects c _ = []"

section \<open>The server\<close>

record ('c, 'k) xds_server =
  xs_rest :: "('c, 'k) rest_server"
  xs_sotw :: "('c, 'k) sotw_server"
  xs_delta :: "('c, 'k) delta_server"

definition NewServerAdvanced ::
    "('c, 'k) rest_server \<Rightarrow> ('c, 'k) sotw_server \<Rightarrow> ('c, 'k) delta_server \<Rightarrow> ('c, 'k) xds_server" where
  "NewServerAdvanced restServer sotwServer deltaServer =
     \<lparr>xs_rest = restServer, xs_sotw = sotwServer, xs_delta = deltaServer\<rparr>"

definition NewServer ::
    "('c, 'k) Cache \<Rightarrow> 'e CallbackFuncs option \<Rightarrow> XDSOption list \<Rightarrow> ('c, 'k) xds_server" where
  "NewServer config callbacks opts =
     NewServerAdvanced (NewRestServer config (map_option funcs_rest callbacks))
       (NewSotwServer config (map_option funcs_sotw callbacks) opts)
       (NewDeltaServer config (map_option funcs_delta callbacks) opts)"

text \<open>One stream: its channel, its \<open>Send\<close>, what \<open>Recv\<close> returns, the choices made and, for the end of a
  state-of-the-world stream, the order in which its watches are closed.\<close>

record 'c sotw_client_stream =
  scs_chan :: chan
  scs_Send :: "sotw_event list \<Rightarrow> DiscoveryResponse \<Rightarrow> go_error option"
  scs_Recv :: "(go_error + DiscoveryRequest option) list"
  scs_choices :: "'c sotw_choice list"
  scs_closing :: "'c closing"

record 'c delta_client_stream =
  dcs_chan :: chan
  dcs_Send :: "delta_event list \<Rightarrow> DeltaDiscoveryResponse \<Rightarrow> go_error option"
  dcs_Recv :: "(go_error + DeltaDiscoveryRequest option) list"
  dcs_choices :: "'c delta_choice list"

type_synonym ('c, 'k) sotw_result = "('c, 'k) xds_server \<times> ('c, 'k) streamWrapper \<times> go_error option option"
type_synonym ('c, 'k) delta_result = "('c, 'k) xds_server \<times> ('c, 'k) delta_stream \<times> go_error option option"

definition server_StreamHandler ::
    "lib \<Rightarrow> ('c, 'k) xds_server \<Rightarrow> 'c sotw_client_stream \<Rightarrow> string \<Rightarrow> 'c \<Rightarrow> ('c, 'k) sotw_result" where
  "server_StreamHandler L s stream typeURL cache =
     (case StreamHandler L (xs_sotw s) typeURL (scs_chan stream) (scs_Send stream) (scs_Recv stream)
             (scs_choices stream) (scs_closing stream) cache of
        (sotw, r) \<Rightarrow> (s\<lparr>xs_sotw := sotw\<rparr>, r))"

definition server_DeltaStreamHandler ::
    "lib \<Rightarrow> ('c, 'k) xds_server \<Rightarrow> 'c delta_client_stream \<Rightarrow> string \<Rightarrow> 'c \<Rightarrow> ('c, 'k) delta_result" where
  "server_DeltaStreamHandler L s stream typeURL cache =
     (case DeltaStreamHandler L (xs_delta s) typeURL (dcs_chan stream) (dcs_Send stream) (dcs_Recv stream)
             (dcs_choices stream) cache of
        (delta, r) \<Rightarrow> (s\<lparr>xs_delta := delta\<rparr>, r))"

definition StreamAggregatedResources ::
    "lib \<Rightarrow> ('c, 'k) xds_server \<Rightarrow> 'c sotw_client_stream \<Rightarrow> 'c \<Rightarrow> ('c, 'k) sotw_result" where
  "StreamAggregatedResources L s stream = server_StreamHandler L s stream AnyType"

definition StreamEndpoints ::
    "lib \<Rightarrow> ('c, 'k) xds_server \<Rightarrow> 'c sotw_client_stream \<Rightarrow> 'c \<Rightarrow> ('c, 'k) sotw_result" where
  "StreamEndpoints L s stream = server_StreamHandler L s stream EndpointType"

definition StreamClusters ::
    "lib \<Rightarrow> ('c, 'k) xds_server \<Rightarrow> 'c sotw_client_stream \<Rightarrow> 'c \<Rightarrow> ('c, 'k) sotw_result" where
  "StreamClusters L s stream = server_StreamHandler L s stream ClusterType"

definition StreamRoutes ::
    "lib \<Rightarrow> ('c, 'k) xds_server \<Rightarrow> 'c sotw_client_stream \<Rightarrow> 'c \<Rightarrow> ('c, 'k) sotw_result" where
  "StreamRoutes L s stream = server_StreamHandler L s stream RouteType"

definition StreamScopedRoutes ::
    "lib \<Rightarrow> ('c, 'k) xds_server \<Rightarrow> 'c sotw_client_stream \<Rightarrow> 'c \<Rightarrow> ('c, 'k) sotw_result" where
  "StreamScopedRoutes L s stream = server_StreamHandler L s stream ScopedRouteType"

definition StreamListeners ::
    "lib \<Rightarrow> ('c, 'k) xds_server \<Rightarrow> 'c sotw_client_stream \<Rightarrow> 'c \<Rightarrow> ('c, 'k) sotw_result" where
  "StreamListeners L s stream = server_StreamHandler L s stream ListenerType"

definition StreamSecrets ::
    "lib \<Rightarrow> ('c, 'k) xds_server \<Rightarrow> 'c sotw_client_stream \<Rightarrow> 'c \<Rightarrow> ('c, 'k) sotw_result" where
  "StreamSecrets L s stream = server_StreamHandler L s stream SecretType"

definition StreamRuntime ::
    "lib \<Rightarrow> ('c, 'k) xds_server \<Rightarrow> 'c sotw_client_stream \<Rightarrow> 'c \<Rightarrow> ('c, 'k) sotw_result" where
  "StreamRuntime L s stream = server_StreamHandler L s stream RuntimeType"

definition StreamExtensionConfigs ::
    "lib \<Rightarrow> ('c, 'k) xds_server \<Rightarrow> 'c sotw_client_stream \<Rightarrow> 'c \<Rightarrow> ('c, 'k) sotw_result" where
  "StreamExtensionConfigs L s stream = server_StreamHandler L s stream ExtensionConfigType"

definition StreamRlsConfigs ::
    "lib \<Rightarrow> ('c, 'k) xds_server \<Rightarrow> 'c sotw_client_stream \<Rightarrow> 'c \<Rightarrow> ('c, 'k) sotw_result" where
  "StreamRlsConfigs L s stream = server_StreamHandler L s stream RateLimitConfigType"

section \<open>Fetching\<close>

type_synonym fetch_result = "rest_event list \<times> (go_error + DiscoveryResponse option)"

definition server_Fetch ::
    "lib \<Rightarrow> ('c, 'k) xds_server \<Rightarrow> ctx \<Rightarrow> DiscoveryRequest \<Rightarrow> 'c \<Rightarrow> fetch_result" where
  "server_Fetch L s ctx req cache = rest_Fetch L (xs_rest s) ctx req cache"

definition server_FetchEndpoints ::
    "lib \<Rightarrow> ('c, 'k) xds_server \<Rightarrow> ctx \<Rightarrow> DiscoveryRequest option \<Rightarrow> 'c \<Rightarrow> fetch_result" where
  "server_FetchEndpoints L s ctx req cache =
     (case req of
        None \<Rightarrow> ([], Inl EmptyRequest)
      | Some req \<Rightarrow> server_Fetch L s ctx (req\<lparr>req_type_url := EndpointType\<rparr>) cache)"

definition server_FetchClusters ::
    "lib \<Rightarrow> ('c, 'k) xds_server \<Rightarrow> ctx \<Rightarrow> DiscoveryRequest option \<Rightarrow> 'c \<Rightarrow> fetch_result" where
  "server_FetchClusters L s ctx req cache =
     (case req of
        None \<Rightarrow> ([], Inl EmptyRequest)
      | Some req \<Rightarrow> server_Fetch L s ctx (req\<lparr>req_type_url := ClusterType\<rparr>) cache)"

definition server_FetchRoutes ::
    "lib \<Rightarrow> ('c, 'k) xds_server \<Rightarrow> ctx \<Rightarrow> DiscoveryRequest option \<Rightarrow> 'c \<Rightarrow> fetch_result" where
  "server_FetchRoutes L s ctx req cache =
     (case req of
        None \<Rightarrow> ([], Inl EmptyRequest)
      | Some req \<Rightarrow> server_Fetch L s ctx (req\<lparr>req_type_url := RouteType\<rparr>) cache)"

definition server_FetchScopedRoutes ::
    "lib \<Rightarrow> ('c, 'k) xds_server \<Rightarrow> ctx \<Rightarrow> DiscoveryRequest option \<Rightarrow> 'c \<Rightarrow> fetch_result" where
  "server_FetchScopedRoutes L s ctx req cache =
     (case req of
        None \<Rightarrow> ([], Inl EmptyRequest)
      | Some req \<Rightarrow> server_Fetch L s ctx (req\<lparr>req_type_url := ScopedRouteType\<rparr>) cache)"

definition server_FetchListeners ::
    "lib \<Rightarrow> ('c, 'k) xds_server \<Rightarrow> ctx \<Rightarrow> DiscoveryRequest option \<Rightarrow> 'c \<Rightarrow> fetch_result" where
  "server_FetchListeners L s ctx req cache =
     (case req of
        None \<Rightarrow> ([], Inl EmptyRequest)
      | Some req \<Rightarrow> server_Fetch L s ctx (req\<lparr>req_type_url := ListenerType\<rparr>) cache)"

definition server_FetchSecrets ::
    "lib \<Rightarrow> ('c, 'k) xds_server \<Rightarrow> ctx \<Rightarrow> DiscoveryRequest option \<Rightarrow> 'c \<Rightarrow> fetch_result" where
  "server_FetchSecrets L s ctx req cache =
     (case req of
        None \<Rightarrow> ([], Inl EmptyRequest)
      | Some req \<Rightarrow> server_Fetch L s ctx (req\<lparr>req_type_url := SecretType\<rparr>) cache)"

definition server_FetchRuntime ::
    "lib \<Rightarrow> ('c, 'k) xds_server \<Rightarrow> ctx \<Rightarrow> DiscoveryRequest option \<Rightarrow> 'c \<Rightarrow> fetch_result" where
  "server_FetchRuntime L s ctx req cache =
     (case req of
        None \<Rightarrow> ([], Inl EmptyRequest)
      | Some req \<Rightarrow> server_Fetch L s ctx (req\<lparr>req_type_url := RuntimeType\<rparr>) cache)"

definition server_FetchExtensionConfigs ::
    "lib \<Rightarrow> ('c, 'k) xds_server \<Rightarrow> ctx \<Rightarrow> DiscoveryRequest option \<Rightarrow> 'c \<Rightarrow> fetch_result" where
  "server_FetchExtensionConfigs L s ctx req cache =
     (case req of
        None \<Rightarrow> ([], Inl EmptyRequest)
      | Some req \<Rightarrow> server_Fetch L s ctx (req\<lparr>req_type_url := ExtensionConfigType\<rparr>) cache)"

definition server_FetchRlsConfigs ::
    "lib \<Rightarrow> ('c, 'k) xds_server \<Rightarrow> ctx \<Rightarrow> DiscoveryRequest option \<Rightarrow> 'c \<Rightarrow> fetch_result" where
  "server_FetchRlsConfigs L s ctx req cache =
     (case req of
        None \<Rightarrow> ([], Inl EmptyRequest)
      | Some req \<Rightarrow> server_Fetch L s ctx (req\<lparr>req_type_url := RateLimitConfigType\<rparr>) cache)"

section \<open>Incremental streams\<close>

definition DeltaAggregatedResources ::
    "lib \<Rightarrow> ('c, 'k) xds_server \<Rightarrow> 'c delta_client_stream \<Rightarrow> 'c \<Rightarrow> ('c, 'k) delta_result" where
  "DeltaAggregatedResources L s stream = server_DeltaStreamHandler L s stream AnyType"

definition DeltaEndpoints ::
    "lib \<Rightarrow> ('c, 'k) xds_server \<Rightarrow> 'c delta_client_stream \<Rightarrow> 'c \<Rightarrow> ('c, 'k) delta_result" where
  "DeltaEndpoints L s stream = server_DeltaStreamHandler L s stream EndpointType"

definition DeltaClusters ::
    "lib \<Rightarrow> ('c, 'k) xds_server \<Rightarrow> 'c delta_client_stream \<Rightarrow> 'c \<Rightarrow> ('c, 'k) delta_result" where
  "DeltaClusters L s stream = server_DeltaStreamHandler L s stream ClusterType"

definition DeltaRoutes ::
    "lib \<Rightarrow> ('c, 'k) xds_server \<Rightarrow> 'c delta_client_stream \<Rightarrow> 'c \<Rightarrow> ('c, 'k) delta_result" where
  "DeltaRoutes L s stream = server_DeltaStreamHandler L s stream RouteType"

definition DeltaScopedRoutes ::
    "lib \<Rightarrow> ('c, 'k) xds_server \<Rightarrow> 'c delta_client_stream \<Rightarrow> 'c \<Rightarrow> ('c, 'k) delta_result" where
  "DeltaScopedRoutes L s stream = server_DeltaStreamHandler L s stream ScopedRouteType"

definition DeltaListeners ::
    "lib \<Rightarrow> ('c, 'k) xds_server \<Rightarrow> 'c delta_client_stream \<Rightarrow> 'c \<Rightarrow> ('c, 'k) delta_result" where
  "DeltaListeners L s stream = server_DeltaStreamHandler L s stream ListenerType"

definition DeltaSecrets ::
    "lib \<Rightarrow> ('c, 'k) xds_server \<Rightarrow> 'c delta_client_stream \<Rightarrow> 'c \<Rightarrow> ('c, 'k) delta_result" where
  "DeltaSecrets L s stream = server_DeltaStreamHandler L s stream SecretType"

definition DeltaRuntime ::
    "lib \<Rightarrow> ('c, 'k) xds_server \<Rightarrow> 'c delta_client_stream \<Rightarrow> 'c \<Rightarrow> ('c, 'k) delta_result" where
  "DeltaRuntime L s stream = server_DeltaStreamHandler L s stream RuntimeType"

definition DeltaExtensionConfigs ::
    "lib \<Rightarrow> ('c, 'k) xds_server \<Rightarrow> 'c delta_client_stream \<Rightarrow> 'c \<Rightarrow> ('c, 'k) delta_result" where
  "DeltaExtensionConfigs L s stream = server_DeltaStreamHandler L s stream ExtensionConfigType"

definition DeltaVirtualHosts ::
    "lib \<Rightarrow> ('c, 'k) xds_server \<Rightarrow> 'c delta_client_stream \<Rightarrow> 'c \<Rightarrow> ('c, 'k) delta_result" where
  "DeltaVirtualHosts L s stream = server_DeltaStreamHandler L s stream VirtualHostType"

section \<open>The path of a request\<close>

text \<open>
  \<open>path.Clean\<close>: the components between slashes, without empty ones and \<open>"."\<close>, each \<open>".."\<close>
  taking back the component before it (and dropped at the root).
\<close>

fun split_slash :: "string \<Rightarrow> string list" where
  "split_slash [] = [[]]"
| "split_slash (c # cs) =
     (if c = CHR ''/'' then [] # split_slash cs
      else case split_slash cs of w # ws \<Rightarrow> (c # w) # ws | [] \<Rightarrow> [[c]])"

fun clean_parts :: "bool \<Rightarrow> string list \<Rightarrow> string list \<Rightarrow> string list" where
  "clean_parts rooted done [] = rev done"
| "clean_parts rooted done (w # ws) =
     (if w = '''' \<or> w = ''.'' then clean_parts rooted done ws
      else if w = ''..'' then
        (case done of
           [] \<Rightarrow> clean_parts rooted (if rooted then [] else [''..'']) ws
         | d # ds \<Rightarrow> clean_parts rooted (if d = ''..'' then ''..'' # done else ds) ws)
      else clean_parts rooted (w # done) ws)"

fun join_slash :: "string list \<Rightarrow> string" where
  "join_slash [] = ''''"
| "join_slash [w] = w"
| "join_slash (w # ws) = w @ ''/'' @ join_slash ws"

definition path_Clean :: "string \<Rightarrow> string" where
  "path_Clean p =
     (let rooted = (case p of c # _ \<Rightarrow> c = CHR ''/'' | [] \<Rightarrow> False);
          body = join_slash (clean_parts rooted [] (split_slash p))
      in if rooted then CHR ''/'' # body else if body = '''' then ''.'' else body)"

section \<open>The gateway\<close>

definition fetch_paths :: "(string \<times> string) list" where
  "fetch_paths =
     [(''/v3/discovery:endpoints'', EndpointType),
      (''/v3/discovery:clusters'', ClusterType),
      (''/v3/discovery:listeners'', ListenerType),
      (''/v3/discovery:routes'', RouteType),
      (''/v3/discovery:scoped-routes'', ScopedRouteType),
      (''/v3/discovery:secrets'', SecretType),
      (''/v3/discovery:runtime'', RuntimeType),
      (''/v3/discovery:extension_configs'', ExtensionConfigType)]"

text \<open>The JSON of the protobuf runtime.\<close>

record json =
  json_Unmarshal :: "bytes \<Rightarrow> DiscoveryRequest option"
  json_Marshal :: "DiscoveryResponse option \<Rightarrow> bytes option"

datatype http_error =
    NoEndpoint
  | EmptyBody
  | CannotReadBody
  | CannotParseJSON
  | FetchError go_error
  | MarshalError

text \<open>\<open>errors.As\<close> with a \<open>*types.SkipFetchError\<close>.\<close>

definition as_skip :: "go_error \<Rightarrow> bool" where
  "as_skip err \<longleftrightarrow> err = SkipFetch"

definition ServeHTTP ::
    "json \<Rightarrow> (DiscoveryRequest \<Rightarrow> go_error + DiscoveryResponse option) \<Rightarrow> string \<Rightarrow> (go_error + bytes) option
       \<Rightarrow> bytes option \<times> nat \<times> http_error option" where
  "ServeHTTP J Server_Fetch url_path body =
     (case mget fetch_paths (path_Clean url_path) of
        None \<Rightarrow> (None, 404, Some NoEndpoint)
      | Some typeURL \<Rightarrow>
          (case body of
             None \<Rightarrow> (None, 400, Some EmptyBody)
           | Some (Inl _) \<Rightarrow> (None, 400, Some CannotReadBody)
           | Some (Inr b) \<Rightarrow>
               (case json_Unmarshal J b of
                  None \<Rightarrow> (None, 400, Some CannotParseJSON)
                | Some out \<Rightarrow>
                    (case Server_Fetch (out\<lparr>req_type_url := typeURL\<rparr>) of
                       Inl err \<Rightarrow>
                         if as_skip err then (None, 304, None) else (None, 500, Some (FetchError err))
                     | Inr res \<Rightarrow>
                         (case json_Marshal J res of
                            None \<Rightarrow> (None, 500, Some MarshalError)
                          | Some b \<Rightarrow> (Some b, 200, None))))))"

end
