(* ===== verification/XdsProps.thy ===== *)
theory XdsProps
  imports XdsServer SimpleProps
begin

text \<open>The HTTP gateway over the server and the snapshot cache, composed.\<close>

text \<open>The resources of a snapshot that a request asks for: all of them when it names none.\<close>

definition asked_for :: "string list \<Rightarrow> (string, ResourceWithTTL) gomap \<Rightarrow> ResourceWithTTL list" where
  "asked_for names resources =
     map snd (filter (\<lambda>(name, r). names = [] \<or> name \<in> set names) resources)"

lemma nameSet_member: "mget_or False (nameSet names) name \<longleftrightarrow> name \<in> set names"
proof (cases "mget (nameSet names) name")
  case None
  then show ?thesis using dom_nameSet [of names] by (auto simp: domIff)
next
  case (Some b)
  then show ?thesis by (auto simp: nameSet_def mget_fold_put split: if_splits)
qed

lemma createResponse_eq:
  "createResponse ctx req resources version heartbeat =
     \<lparr>raw_request = req, raw_version = version,
      raw_resources = asked_for (req_resource_names req) resources,
      raw_heartbeat = heartbeat, raw_ctx = ctx, raw_marshaled = None\<rparr>"
  by (auto simp: createResponse_def asked_for_def nameSet_member Let_def)

lemma traverse_marshal_error: "traverse (marshal_one L r) rs = Inl e \<Longrightarrow> e = MarshalFailed"
proof (induction rs)
  case (Cons x rs)
  have "marshal_one L r x = Inl e' \<Longrightarrow> e' = MarshalFailed" for e'
    by (auto simp: marshal_one_def maybeCreateTTLResource_def MarshalResource_def Let_def
        split: sum.splits option.splits if_splits)
  with Cons show ?case by (auto split: sum.splits)
qed simp

lemma rest_callbacks_accept:
  assumes "\<And>cb. callbacks = Some cb \<Longrightarrow> funcs_OnFetchRequest cb ctx req = None"
  shows "snd (server_Fetch L (NewServer C callbacks opts) ctx req cache) =
    (case Fetch C ctx req cache of
       Inl e \<Rightarrow> Inl e
     | Inr resp \<Rightarrow> fst (resp_GetDiscoveryResponse L resp))"
  using assms
  by (cases callbacks)
    (auto simp: server_Fetch_def rest_Fetch_def NewServer_def NewServerAdvanced_def NewRestServer_def
      funcs_rest_def Let_def split: sum.splits)

text \<open>C20: the gateway over a snapshot cache.  For a path that cleans to one of the endpoints and a
  body that parses, whatever type the body claims and unless a callback refuses the request: 500 when
  the node has no snapshot; 304 without a body when the request has the version of the snapshot for
  the type of the endpoint; otherwise 200 with the JSON of a response that has that version and
  exactly the resources asked for, all of them when none is named, or 500 when a resource or the
  response cannot be marshalled.\<close>

theorem gateway_over_snapshot_cache:
  assumes "mget fetch_paths (path_Clean p) = Some typ" and "json_Unmarshal J body = Some req"
    and "\<And>cb. callbacks = Some cb \<Longrightarrow> funcs_OnFetchRequest cb ctx (req\<lparr>req_type_url := typ\<rparr>) = None"
  shows "ServeHTTP J (\<lambda>r. snd (server_Fetch L (NewServer (simple_Cache L now) callbacks opts) ctx r cache)) p
           (Some (Inr body)) =
    (let node = sc_hash cache (req_node req) in
     case mget (sc_snapshots cache) node of
       None \<Rightarrow> (None, 500, Some (FetchError (MissingSnapshot node)))
     | Some snapshot \<Rightarrow>
         (let version = snapshot_GetVersion (Some snapshot) typ;
              raw = \<lparr>raw_request = req\<lparr>req_type_url := typ\<rparr>, raw_version = version,
                     raw_resources = asked_for (req_resource_names req) (GetResourcesAndTTL (Some snapshot) typ),
                     raw_heartbeat = False, raw_ctx = ctx, raw_marshaled = None\<rparr>
          in if req_version_info req = version then (None, 304, None)
             else (case traverse (marshal_one L raw) (raw_resources raw) of
                     Inl e \<Rightarrow> (None, 500, Some (FetchError MarshalFailed))
                   | Inr resources \<Rightarrow>
                       (case json_Marshal J (Some \<lparr>resp_version_info = version, resp_resources = resources,
                                                  resp_type_url = typ, resp_nonce = ''''\<rparr>) of
                          None \<Rightarrow> (None, 500, Some MarshalError)
                        | Some b \<Rightarrow> (Some b, 200, None)))))"
  using assms
  by (auto dest: traverse_marshal_error simp: ServeHTTP_def rest_callbacks_accept simple_Cache_def simple_Fetch_def createResponse_eq
      GetDiscoveryResponse_def as_skip_def Let_def split: option.splits sum.splits)

definition sample_json :: "DiscoveryRequest \<Rightarrow> json" where
  "sample_json req = \<lparr>json_Unmarshal = (\<lambda>b. Some req), json_Marshal = (\<lambda>m. Some [1])\<rparr>"

definition gateway_cache :: snapshotCache where
  "gateway_cache = (newSnapshotCache False IDHash_ID)\<lparr>sc_snapshots := [(''n'', endpoints ''v1'' [(''a'', [1])])]\<rparr>"

theorem gateway_over_snapshot_cache_witness:
  "let get = (\<lambda>version. fst (snd (ServeHTTP (sample_json (eds_request version [''a'']))
        (\<lambda>r. snd (server_Fetch sample_lib (NewServer (simple_Cache sample_lib 0) (None :: unit CallbackFuncs option) [])
                    Background r gateway_cache)) ''//v3/x/../discovery:endpoints/'' (Some (Inr [])))))
   in get ''v1'' = 304 \<and> get '''' = 200"
proof -
  have path: "mget fetch_paths (path_Clean ''//v3/x/../discovery:endpoints/'') = Some EndpointType"
    by (simp add: fetch_paths_def path_Clean_def)
  have marshal: "marshal_one sample_lib r \<lparr>rt_resource = cla ''a'' [1], rt_ttl = None\<rparr> \<noteq> Inl e" for r e
    by (simp add: marshal_one_def maybeCreateTTLResource_def MarshalResource_def sample_lib_def cla_def)
  have get: "fst (snd (ServeHTTP (sample_json (eds_request version [''a'']))
        (\<lambda>r. snd (server_Fetch sample_lib (NewServer (simple_Cache sample_lib 0) (None :: unit CallbackFuncs option) [])
                    Background r gateway_cache)) ''//v3/x/../discovery:endpoints/'' (Some (Inr []))))
      = (if version = ''v1'' then 304 else 200)" for version
    using marshal
    by (subst gateway_over_snapshot_cache [OF path, where req = "eds_request version [''a'']"])
      (auto simp: sample_json_def gateway_cache_def newSnapshotCache_def IDHash_ID_def eds_request_def
        sotw_request_def sample_node_def endpoints_get asked_for_def Let_def split: sum.split)
  show ?thesis by (simp add: get Let_def)
qed

end
