(* ===== verification/AdsClient.thy ===== *)
theory AdsClient
  imports Responses
begin

text \<open>
  The state-of-the-world client (\<open>pkg/client/sotw/v3/client.go\<close>).  The gRPC stream is outside the
  repository: what \<open>Recv\<close> returns is an argument of \<open>Fetch\<close>, what \<open>Send\<close> answers is a function of
  the requests sent on the stream before, and the requests that were sent are recorded in it.  The
  mutex makes the operations atomic.
\<close>

section \<open>State\<close>

text \<open>
  The errors of the client and of its stream.  A gRPC status is an error of its own kind; \<open>Wrapped\<close>
  is an error built with \<open>%w\<close>.
\<close>

type_synonym code = nat

datatype client_error =
    ErrInit
  | ErrNilResp
  | EOF
  | StatusError code string
  | OtherError string
  | Wrapped string client_error

definition Canceled :: code where
  "Canceled = 1"

definition Unavailable :: code where
  "Unavailable = 14"

record ads_stream =
  as_Send :: "DiscoveryRequest list \<Rightarrow> DiscoveryRequest \<Rightarrow> client_error option"
  as_sent :: "DiscoveryRequest list"

record adsClient =
  cl_node :: "Node option"
  cl_typeURL :: string
  cl_streamClient :: "ads_stream option"
  cl_lastAckedResponse :: "DiscoveryResponse option"
  cl_lastReceivedResponse :: "DiscoveryResponse option"

definition NewADSClient :: "Node option \<Rightarrow> string \<Rightarrow> adsClient" where
  "NewADSClient node typeURL =
     \<lparr>cl_node = node, cl_typeURL = typeURL, cl_streamClient = None,
      cl_lastAckedResponse = None, cl_lastReceivedResponse = None\<rparr>"

section \<open>Operations\<close>

text \<open>The generated getters, which read a nil message as the empty one.\<close>

definition GetVersionInfo :: "DiscoveryResponse option \<Rightarrow> string" where
  "GetVersionInfo r = (case r of None \<Rightarrow> '''' | Some r \<Rightarrow> resp_version_info r)"

definition GetNonce :: "DiscoveryResponse option \<Rightarrow> string" where
  "GetNonce r = (case r of None \<Rightarrow> '''' | Some r \<Rightarrow> resp_nonce r)"

definition client_send :: "string option \<Rightarrow> adsClient \<Rightarrow> adsClient \<times> client_error option" where
  "client_send errorDetail c =
     (case cl_streamClient c of
        None \<Rightarrow> (c, Some ErrInit)
      | Some str \<Rightarrow>
          (let req = \<lparr>req_version_info = GetVersionInfo (cl_lastAckedResponse c), req_node = cl_node c,
                      req_resource_names = [], req_type_url = cl_typeURL c,
                      req_response_nonce = GetNonce (cl_lastReceivedResponse c),
                      req_error_detail = errorDetail\<rparr>
           in case as_Send str (as_sent str) req of
                Some err \<Rightarrow> (c, Some err)
              | None \<Rightarrow> (c\<lparr>cl_streamClient := Some (str\<lparr>as_sent := as_sent str @ [req]\<rparr>)\<rparr>, None)))"

definition Ack :: "adsClient \<Rightarrow> adsClient \<times> client_error option" where
  "Ack c = client_send None (c\<lparr>cl_lastAckedResponse := cl_lastReceivedResponse c\<rparr>)"

definition Nack :: "string \<Rightarrow> adsClient \<Rightarrow> adsClient \<times> client_error option" where
  "Nack message c = client_send (Some message) c"

text \<open>\<open>conn\<close>: what opening a stream on the connection gives.\<close>

definition InitConnect :: "client_error + ads_stream \<Rightarrow> adsClient \<Rightarrow> adsClient \<times> client_error option" where
  "InitConnect conn c =
     (case conn of
        Inl err \<Rightarrow> (c, Some err)
      | Inr streamClient \<Rightarrow> Ack (c\<lparr>cl_streamClient := Some streamClient\<rparr>))"

definition client_Fetch ::
    "client_error + DiscoveryResponse option \<Rightarrow> adsClient \<Rightarrow> adsClient \<times> (client_error + Any list)" where
  "client_Fetch recv c =
     (case cl_streamClient c of
        None \<Rightarrow> (c, Inl ErrInit)
      | Some _ \<Rightarrow>
          (case recv of
             Inl err \<Rightarrow> (c, Inl err)
           | Inr None \<Rightarrow> (c, Inl ErrNilResp)
           | Inr (Some resp) \<Rightarrow> (c\<lparr>cl_lastReceivedResponse := Some resp\<rparr>, Inr (resp_resources resp))))"

text \<open>\<open>errors.Is(err, io.EOF)\<close> follows the chain of wrapped errors.  \<open>FromError\<close> is gRPC's.\<close>

fun errors_Is_EOF :: "client_error \<Rightarrow> bool" where
  "errors_Is_EOF EOF \<longleftrightarrow> True"
| "errors_Is_EOF (Wrapped _ e) \<longleftrightarrow> errors_Is_EOF e"
| "errors_Is_EOF _ \<longleftrightarrow> False"

definition IsConnError :: "(client_error \<Rightarrow> code option) \<Rightarrow> client_error option \<Rightarrow> bool" where
  "IsConnError FromError err =
     (case err of
        None \<Rightarrow> False
      | Some err \<Rightarrow>
          if errors_Is_EOF err then True
          else case FromError err of
                 None \<Rightarrow> False
               | Some c \<Rightarrow> c = Unavailable \<or> c = Canceled)"

section \<open>Sessions\<close>

text \<open>
  What a user of the client does with one stream: open it, then for every response fetch it and
  acknowledge it, or reject it with a message.
\<close>

fun exchange :: "DiscoveryResponse \<times> string option \<Rightarrow> adsClient \<Rightarrow> adsClient" where
  "exchange (resp, None) c = fst (Ack (fst (client_Fetch (Inr (Some resp)) c)))"
| "exchange (resp, Some message) c = fst (Nack message (fst (client_Fetch (Inr (Some resp)) c)))"

definition session :: "(DiscoveryResponse \<times> string option) list \<Rightarrow> ads_stream \<Rightarrow> adsClient \<Rightarrow> adsClient" where
  "session answers str c = fold exchange answers (fst (InitConnect (Inr str) c))"

text \<open>
  What the protocol asks for, without the state of a client: each response is answered once, with
  its own nonce and the version of the last response that was accepted.
\<close>

fun answers_from :: "string \<Rightarrow> (DiscoveryResponse \<times> string option) list \<Rightarrow> (string \<times> string \<times> string option) list" where
  "answers_from version [] = []"
| "answers_from version ((resp, None) # rs) =
     (resp_version_info resp, resp_nonce resp, None) # answers_from (resp_version_info resp) rs"
| "answers_from version ((resp, Some message) # rs) =
     (version, resp_nonce resp, Some message) # answers_from version rs"

definition request_of :: "Node option \<Rightarrow> string \<Rightarrow> string \<times> string \<times> string option \<Rightarrow> DiscoveryRequest" where
  "request_of node typeURL a =
     (case a of (version, nonce, detail) \<Rightarrow>
       \<lparr>req_version_info = version, req_node = node, req_resource_names = [], req_type_url = typeURL,
        req_response_nonce = nonce, req_error_detail = detail\<rparr>)"

text \<open>A client whose stream has sent some requests and takes every further one.\<close>

definition connected :: "Node option \<Rightarrow> string \<Rightarrow> string \<Rightarrow> DiscoveryRequest list \<Rightarrow> adsClient \<Rightarrow> bool" where
  "connected node typeURL version sent c \<longleftrightarrow>
     cl_node c = node \<and> cl_typeURL c = typeURL \<and> GetVersionInfo (cl_lastAckedResponse c) = version \<and>
     (\<exists>str. cl_streamClient c = Some str \<and> as_sent str = sent \<and> (\<forall>h r. as_Send str h r = None))"

lemma connected_send:
  assumes "connected node typeURL version sent c"
  shows "snd (client_send detail c) = None"
    and "connected node typeURL version
           (sent @ [request_of node typeURL (version, GetNonce (cl_lastReceivedResponse c), detail)])
           (fst (client_send detail c))"
  using assms by (auto simp: connected_def client_send_def request_of_def Let_def)

lemma connected_Ack:
  assumes "connected node typeURL version sent c"
  shows "connected node typeURL (GetVersionInfo (cl_lastReceivedResponse c))
           (sent @ [request_of node typeURL
              (GetVersionInfo (cl_lastReceivedResponse c), GetNonce (cl_lastReceivedResponse c), None)])
           (fst (Ack c))"
proof -
  have "connected node typeURL (GetVersionInfo (cl_lastReceivedResponse c)) sent
          (c\<lparr>cl_lastAckedResponse := cl_lastReceivedResponse c\<rparr>)"
    using assms by (simp add: connected_def)
  from connected_send(2) [OF this, of None] show ?thesis
    by (simp add: Ack_def)
qed

lemma connected_Fetch:
  assumes "connected node typeURL version sent c"
  shows "connected node typeURL version sent (fst (client_Fetch (Inr (Some resp)) c))"
    and "cl_lastReceivedResponse (fst (client_Fetch (Inr (Some resp)) c)) = Some resp"
    and "snd (client_Fetch (Inr (Some resp)) c) = Inr (resp_resources resp)"
  using assms by (auto simp: connected_def client_Fetch_def)

lemma connected_exchange:
  assumes "connected node typeURL version sent c"
  shows "connected node typeURL
           (case snd a of None \<Rightarrow> resp_version_info (fst a) | Some _ \<Rightarrow> version)
           (sent @ map (request_of node typeURL) (answers_from version [a])) (exchange a c)"
proof (cases a)
  case (Pair resp detail)
  from connected_Fetch [OF assms, of resp]
  have fetched: "connected node typeURL version sent (fst (client_Fetch (Inr (Some resp)) c))"
    and last: "cl_lastReceivedResponse (fst (client_Fetch (Inr (Some resp)) c)) = Some resp" by simp_all
  show ?thesis
    using connected_Ack [OF fetched] connected_send(2) [OF fetched] last Pair
    by (cases detail) (simp_all add: Nack_def GetVersionInfo_def GetNonce_def)
qed

lemma answers_from_Cons:
  "answers_from version (a # rs) =
     answers_from version [a] @ answers_from (case snd a of None \<Rightarrow> resp_version_info (fst a) | Some _ \<Rightarrow> version) rs"
  by (cases "(version, a # rs)" rule: answers_from.cases) simp_all

lemma connected_session:
  assumes "connected node typeURL version sent c"
  shows "\<exists>version'. connected node typeURL version'
           (sent @ map (request_of node typeURL) (answers_from version answers)) (fold exchange answers c)"
  using assms
proof (induction answers arbitrary: version sent c)
  case Nil
  then show ?case by auto
next
  case (Cons a rs)
  from Cons.IH [OF connected_exchange [OF Cons.prems, of a]]
  show ?case by (simp only: answers_from_Cons [of version a rs] map_append append_assoc fold_Cons o_apply)
qed

section \<open>Properties\<close>

text \<open>C24: over a stream that takes every request, a fresh client sends the initial request and
  then answers every response it fetched in order, an accepted one with its version and nonce, a
  rejected one with its nonce, the error detail and the version of the last response accepted on
  the stream (the empty version before that).\<close>

theorem client_session:
  assumes "\<And>h r. as_Send str h r = None" and "as_sent str = []"
  shows "map_option as_sent (cl_streamClient (session answers str (NewADSClient node typeURL)))
           = Some (map (request_of node typeURL) (('''', '''', None) # answers_from '''' answers))"
proof -
  have "connected node typeURL '''' [] ((NewADSClient node typeURL)\<lparr>cl_streamClient := Some str\<rparr>)"
    using assms by (simp add: connected_def NewADSClient_def GetVersionInfo_def)
  from connected_Ack [OF this]
  have "connected node typeURL '''' [request_of node typeURL ('''', '''', None)]
          (fst (InitConnect (Inr str) (NewADSClient node typeURL)))"
    by (simp add: InitConnect_def NewADSClient_def GetVersionInfo_def GetNonce_def)
  from connected_session [OF this, of answers] show ?thesis
    by (auto simp: session_def connected_def)
qed

theorem client_session_witness:
  "let r = (\<lambda>v n. \<lparr>resp_version_info = v, resp_resources = [], resp_type_url = ClusterType, resp_nonce = n\<rparr>);
       str = \<lparr>as_Send = (\<lambda>h r. None), as_sent = []\<rparr>;
       c = session [(r ''a'' ''1'', None), (r ''b'' ''2'', Some ''bad'')] str (NewADSClient None ClusterType)
   in map_option (map (\<lambda>q. (req_version_info q, req_response_nonce q, req_error_detail q)))
        (map_option as_sent (cl_streamClient c))
      = Some [('''', '''', None), (''a'', ''1'', None), (''a'', ''2'', Some ''bad'')]"
  by (simp only: Let_def, subst client_session) (simp_all add: request_of_def)

text \<open>C33: a response that was rejected is acknowledged when the connection is opened again:
  \<open>InitConnect\<close> sends an \<open>Ack\<close>, so the first request of the new stream carries the version and the
  nonce of the last response received, whether it was rejected or never answered, and from then on
  that response counts as the last one accepted.\<close>

theorem reconnect_acks_rejected_response:
  assumes "cl_streamClient c = Some old" and "as_Send new (as_sent new) = (\<lambda>r. None)"
  shows "let c1 = fst (client_Fetch (Inr (Some resp)) c);
             c2 = fst (Nack message c1);
             (c3, err) = InitConnect (Inr new) c2
         in cl_lastAckedResponse c2 = cl_lastAckedResponse c \<and> err = None \<and>
            cl_lastAckedResponse c3 = Some resp \<and>
            map_option as_sent (cl_streamClient c3) = Some (as_sent new @
              [request_of (cl_node c) (cl_typeURL c) (resp_version_info resp, resp_nonce resp, None)])"
  using assms
  by (auto simp: client_Fetch_def Nack_def client_send_def InitConnect_def Ack_def GetVersionInfo_def
      GetNonce_def request_of_def Let_def split: option.splits)

theorem reconnect_acks_rejected_response_witness:
  "let r = \<lparr>resp_version_info = ''bad'', resp_resources = [], resp_type_url = ClusterType, resp_nonce = ''1''\<rparr>;
       str = \<lparr>as_Send = (\<lambda>h r. None), as_sent = []\<rparr>;
       c0 = fst (InitConnect (Inr str) (NewADSClient None ClusterType));
       c1 = fst (client_Fetch (Inr (Some r)) c0);
       c2 = fst (Nack ''rejected'' c1);
       (c3, err) = InitConnect (Inr str) c2
   in cl_lastAckedResponse c2 = None \<and> cl_lastAckedResponse c3 = Some r"
proof -
  let ?str = "\<lparr>as_Send = (\<lambda>h r. None), as_sent = []\<rparr>"
  let ?c0 = "fst (InitConnect (Inr ?str) (NewADSClient None ClusterType))"
  have "cl_streamClient ?c0 \<noteq> None" and "cl_lastAckedResponse ?c0 = None"
    by (simp_all add: InitConnect_def Ack_def client_send_def NewADSClient_def Let_def)
  then obtain old where "cl_streamClient ?c0 = Some old" and "cl_lastAckedResponse ?c0 = None" by blast
  with reconnect_acks_rejected_response [of ?c0 old ?str] show ?thesis
    by (simp add: Let_def case_prod_beta)
qed

end
