(* ===== verification/MatchTree.thy ===== *)
theory MatchTree
  imports ResourceTypes
begin

text \<open>
  The evaluation of xDS match trees (\<open>xdsmatcher/pkg/matcher/matcher.go\<close>,
  \<open>types/types.go\<close>, \<open>registry/registry.go\<close>): the configuration as the protobuf messages hold it,
  the trees built from it, building and matching.  Matching data is of a type \<open>'d\<close>, the objects
  that factories of the registry make are of a type \<open>'x\<close>.
\<close>

section \<open>Results\<close>

text \<open>
  Errors, with one constructor per message; \<open>External\<close> is what a factory, an input, the regular
  expression compiler or the protobuf runtime returns.  \<open>MatcherPanic\<close> is a run-time panic.
\<close>

datatype matcher_error =
    InvariantViolation
  | NotImplementedMatcherTree
  | UnexpectedOnMatch
  | NotImplementedCustomMatch
  | NotImplementedValueMatch
  | ListRequiresOnMatch
  | UnexpectedPredicate
  | NotImplementedTreeType
  | UnexpectedReturnValue
  | ExtensionNotImplemented string
  | External string
  | MatcherPanic

text \<open>The type of availabilities is an integer; \<open>OtherAvailability\<close> is any value without a name.\<close>

datatype DataInputAvailability =
    NotAvailable
  | MoreDataMightBeAvailable
  | AllDataAvailable
  | OtherAvailability int

record DataInputResult =
  Availability :: DataInputAvailability
  Data :: "string option"

type_synonym 'd DataInput = "'d \<Rightarrow> matcher_error + DataInputResult"

record 'r Result =
  MatchResult :: "'r option"
  NeedMoreData :: bool

record matcherResult =
  mr_match :: bool
  mr_needMoreData :: bool

section \<open>Trees\<close>

datatype simpleMatcher = regexMatcher "string \<Rightarrow> bool"

datatype 'd predicateFunc =
    singlePredicate "'d DataInput" simpleMatcher
  | conjunctionPredicate "'d predicateFunc list"
  | disjunctionPredicate "'d predicateFunc list"

text \<open>
  \<open>types.Matcher\<close> is implemented by the three trees of the package.  The logger they share is
  passed to the functions that use it.
\<close>

datatype ('d, 'x) Matcher =
    MatcherTree "('d, 'x) OnMatch option" "('d, 'x) Matcher"
  | matcherList "('d, 'x) matchEntry list"
  | exactMatchTree "(string \<times> ('d, 'x) OnMatch option) list" "'d DataInput"
and ('d, 'x) OnMatch = OnMatch (om_Matcher: "('d, 'x) Matcher option") (om_Action: "'x option")
and ('d, 'x) matchEntry = matchEntry (me_onMatch: "('d, 'x) OnMatch option") (me_predicate: "'d predicateFunc")

section \<open>Logging\<close>

text \<open>
  \<open>tracingLogger\<close>, with the lines it printed: the indentation and the format.  The rendering of the
  arguments is left out.  Every \<open>pop\<close> is deferred after a \<open>push\<close>, so the indentation never falls
  below the one a call starts with and \<open>strings.Repeat\<close> is never given a negative count.
\<close>

record tracingLogger =
  tl_indent :: int
  tl_printed :: "(int \<times> string) list"

definition new_tracingLogger :: tracingLogger where
  "new_tracingLogger = \<lparr>tl_indent = 0, tl_printed = []\<rparr>"

definition push :: "tracingLogger \<Rightarrow> tracingLogger" where
  "push t = t\<lparr>tl_indent := tl_indent t + 1\<rparr>"

definition pop :: "tracingLogger \<Rightarrow> tracingLogger" where
  "pop t = t\<lparr>tl_indent := tl_indent t - 1\<rparr>"

definition log_line :: "string \<Rightarrow> tracingLogger \<Rightarrow> tracingLogger" where
  "log_line formatString t = t\<lparr>tl_printed := tl_printed t @ [(tl_indent t, formatString)]\<rparr>"

text \<open>A verb between single quotes.\<close>

definition quoted :: "string \<Rightarrow> string" where
  "quoted s = CHR 0x27 # s @ [CHR 0x27]"

section \<open>Inputs\<close>

definition handlePossiblyMissingInput ::
    "'d DataInput \<Rightarrow> 'd \<Rightarrow> (string option \<Rightarrow> tracingLogger \<Rightarrow> 'r option \<times> tracingLogger) \<Rightarrow> tracingLogger
       \<Rightarrow> (matcher_error + 'r Result) \<times> tracingLogger" where
  "handlePossiblyMissingInput dataInput data matchFunc l =
     (case dataInput data of
        Inl err \<Rightarrow> (Inl err, l)
      | Inr input \<Rightarrow>
          (let l = log_line (''handling input '' @ quoted ''%v'') l in
           case Availability input of
             AllDataAvailable \<Rightarrow>
               (case matchFunc (Data input) (log_line ''data is available, performing match'' l) of
                  (r, l) \<Rightarrow> (Inr \<lparr>MatchResult = r, NeedMoreData = False\<rparr>, l))
           | MoreDataMightBeAvailable \<Rightarrow>
               (case matchFunc (Data input) (log_line ''more data might be available, performing eager match'' l) of
                  (r, l) \<Rightarrow> (Inr \<lparr>MatchResult = r, NeedMoreData = (r = None)\<rparr>, l))
           | NotAvailable \<Rightarrow>
               (Inr \<lparr>MatchResult = None, NeedMoreData = True\<rparr>, log_line ''data not available, bailing'' l)
           | OtherAvailability _ \<Rightarrow> (Inl UnexpectedReturnValue, l)))"

section \<open>Predicates\<close>

definition regex_match :: "simpleMatcher \<Rightarrow> string option \<Rightarrow> bool" where
  "regex_match m s = (case m of regexMatcher r \<Rightarrow> (case s of None \<Rightarrow> False | Some s \<Rightarrow> r s))"

definition singlePredicate_matchFunc ::
    "simpleMatcher \<Rightarrow> string option \<Rightarrow> tracingLogger \<Rightarrow> (unit, unit) OnMatch option \<times> tracingLogger" where
  "singlePredicate_matchFunc matcher input l =
     (if regex_match matcher input then Some (OnMatch None None) else None,
      log_line (''attempting to match '' @ quoted ''%v'') l)"

definition singlePredicate_match ::
    "'d DataInput \<Rightarrow> simpleMatcher \<Rightarrow> 'd \<Rightarrow> tracingLogger
       \<Rightarrow> (matcher_error + matcherResult) \<times> tracingLogger" where
  "singlePredicate_match input matcher data l =
     (case handlePossiblyMissingInput input data (singlePredicate_matchFunc matcher) l of
        (Inl err, l) \<Rightarrow> (Inl err, l)
      | (Inr result, l) \<Rightarrow>
          (Inr \<lparr>mr_match = (MatchResult result \<noteq> None), mr_needMoreData = NeedMoreData result\<rparr>,
           log_line ''single predicate evaluation result: %+v'' l))"

text \<open>The loops of the conjunction and the disjunction; the deferred \<open>pop\<close> runs on every return.\<close>

fun predicate_match ::
      "'d predicateFunc \<Rightarrow> 'd \<Rightarrow> tracingLogger \<Rightarrow> (matcher_error + matcherResult) \<times> tracingLogger"
  and conjunction_loop ::
      "'d predicateFunc list \<Rightarrow> 'd \<Rightarrow> tracingLogger \<Rightarrow> (matcher_error + matcherResult) \<times> tracingLogger"
  and disjunction_loop ::
      "bool \<Rightarrow> 'd predicateFunc list \<Rightarrow> 'd \<Rightarrow> tracingLogger \<Rightarrow> (matcher_error + matcherResult) \<times> tracingLogger"
where
  "predicate_match (singlePredicate input matcher) data l = singlePredicate_match input matcher data l"
| "predicate_match (conjunctionPredicate predicates) data l =
     (case conjunction_loop predicates data (push (log_line ''performing and matching'' l)) of
        (r, l) \<Rightarrow> (r, pop l))"
| "predicate_match (disjunctionPredicate predicates) data l =
     (case disjunction_loop False predicates data (push (log_line ''performing or matching'' l)) of
        (r, l) \<Rightarrow> (r, pop l))"
| "conjunction_loop [] data l = (Inr \<lparr>mr_match = True, mr_needMoreData = False\<rparr>, l)"
| "conjunction_loop (p # ps) data l =
     (case predicate_match p data l of
        (Inl err, l) \<Rightarrow> (Inl err, l)
      | (Inr result, l) \<Rightarrow>
          if mr_needMoreData result then (Inr result, l)
          else if \<not> mr_match result then (Inr result, l)
          else conjunction_loop ps data l)"
| "disjunction_loop resultCouldChange [] data l =
     (if resultCouldChange then (Inr \<lparr>mr_match = False, mr_needMoreData = True\<rparr>, l)
      else (Inr \<lparr>mr_match = False, mr_needMoreData = False\<rparr>, l))"
| "disjunction_loop resultCouldChange (p # ps) data l =
     (case predicate_match p data l of
        (Inl err, l) \<Rightarrow> (Inl err, l)
      | (Inr result, l) \<Rightarrow>
          if mr_needMoreData result then disjunction_loop True ps data l
          else if mr_match result then (Inr result, l)
          else disjunction_loop resultCouldChange ps data l)"

section \<open>Matching\<close>

type_synonym ('d, 'x) match_result = "(matcher_error + ('d, 'x) OnMatch Result) \<times> tracingLogger"

fun matcherList_loop ::
    "('d, 'x) matchEntry list \<Rightarrow> 'd \<Rightarrow> tracingLogger \<Rightarrow> ('d, 'x) match_result" where
  "matcherList_loop [] data l =
     (Inr \<lparr>MatchResult = None, NeedMoreData = False\<rparr>, log_line ''no matching match entry was found'' l)"
| "matcherList_loop (me # mes) data l =
     (case predicate_match (me_predicate me) data (log_line ''predicate type %T'' l) of
        (Inl err, l) \<Rightarrow> (Inl err, l)
      | (Inr result, l) \<Rightarrow>
          if mr_match result then
            (Inr \<lparr>MatchResult = me_onMatch me, NeedMoreData = False\<rparr>,
             log_line ''found match entry matching input: %+v'' l)
          else if mr_needMoreData result then
            (Inr \<lparr>MatchResult = None, NeedMoreData = True\<rparr>,
             log_line ''found match entry that needs more data, bailing'' l)
          else matcherList_loop mes data l)"

definition matcherList_Match ::
    "('d, 'x) matchEntry list \<Rightarrow> 'd \<Rightarrow> tracingLogger \<Rightarrow> ('d, 'x) match_result" where
  "matcherList_Match matchEntries data l =
     (case matcherList_loop matchEntries data (push (log_line ''attempting to match against match list'' l)) of
        (r, l) \<Rightarrow> (r, pop l))"

definition exactMatchTree_matchFunc ::
    "(string \<times> ('d, 'x) OnMatch option) list \<Rightarrow> string option \<Rightarrow> tracingLogger
       \<Rightarrow> ('d, 'x) OnMatch option \<times> tracingLogger" where
  "exactMatchTree_matchFunc tree data l =
     (case data of
        None \<Rightarrow> (None, log_line ''attempted to exact match nil, no match'' l)
      | Some data \<Rightarrow>
          (case mget tree data of
             Some r \<Rightarrow> (r, log_line (''input '' @ quoted ''%s'' @ '' found in exact match map'') l)
           | None \<Rightarrow> (None, log_line (''input '' @ quoted ''%s'' @ '' not found in exact match map'') l)))"

definition exactMatchTree_Match ::
    "(string \<times> ('d, 'x) OnMatch option) list \<Rightarrow> 'd DataInput \<Rightarrow> 'd \<Rightarrow> tracingLogger
       \<Rightarrow> ('d, 'x) match_result" where
  "exactMatchTree_Match tree input data l =
     (case handlePossiblyMissingInput input data (exactMatchTree_matchFunc tree)
             (push (log_line ''attempting to match against exact tree'' l)) of
        (r, l) \<Rightarrow> (r, pop l))"

text \<open>
  \<open>Match\<close> of the three implementations.  A tree matches its root and, when that gives a matcher,
  calls \<open>Match\<close> of the result: a recursion that nothing in the types bounds, so not returning is
  the value \<open>None\<close>.
\<close>

partial_function (option) Match ::
    "('d, 'x) Matcher \<Rightarrow> 'd \<Rightarrow> tracingLogger \<Rightarrow> ('d, 'x) match_result option" where
  "Match m data l =
     (case m of
        matcherList matchEntries \<Rightarrow> Some (matcherList_Match matchEntries data l)
      | exactMatchTree tree input \<Rightarrow> Some (exactMatchTree_Match tree input data l)
      | MatcherTree onNoMatch matchRoot \<Rightarrow>
          Option.bind (Match matchRoot data l) (\<lambda>(r, l).
            case r of
              Inl err \<Rightarrow> Some (Inl err, l)
            | Inr result \<Rightarrow>
                if MatchResult result \<noteq> None \<and> NeedMoreData result then Some (Inl InvariantViolation, l)
                else
                  (case MatchResult result of
                     Some om \<Rightarrow>
                       (case om_Matcher om of
                          Some matcher \<Rightarrow>
                            Option.bind (Match matcher data (push (log_line ''recursively matching'' l)))
                              (\<lambda>(r, l). Some (r, pop l))
                        | None \<Rightarrow> Some (Inr result, log_line ''arrived at result %+v, %+v'' l))
                   | None \<Rightarrow>
                       if NeedMoreData result
                       then Some (Inr result, log_line ''matcher tree requires more data'' l)
                       else Some (Inr \<lparr>MatchResult = onNoMatch, NeedMoreData = False\<rparr>,
                              log_line ''matcher tree failed to match, falling back to OnNoMatch (%v)'' l))))"

section \<open>Configuration\<close>

text \<open>
  The messages of \<open>xds.type.matcher.v3\<close>, with the fields the code reads; a pointer that may be nil
  is an option, a oneof that is not set is \<open>None\<close>.  The oneof cases that the code does not name are
  one constructor.
\<close>

record TypedExtensionConfig =
  tec_TypedConfig :: "Any option"

datatype pb_MatchPattern = StringMatcher_SafeRegex "string option" | OtherPattern

record pb_StringMatcher =
  pb_MatchPattern :: "pb_MatchPattern option"

datatype pb_SingleMatcher = ValueMatch "pb_StringMatcher option" | CustomMatch

record pb_SinglePredicate =
  sp_Input :: "TypedExtensionConfig option"
  sp_Matcher :: "pb_SingleMatcher option"

datatype pb_Predicate =
    PredicateNone
  | AndMatcher "pb_Predicate option list option"
  | OrMatcher "pb_Predicate option list option"
  | SinglePredicate "pb_SinglePredicate option"
  | OtherPredicate

datatype 'm pb_TreeType = ExactMatchMap "'m option" | OtherTreeType

datatype pb_Matcher = pb_Matcher "pb_OnMatch option" pb_MatcherType
and pb_MatcherType =
    MatcherTypeNone
  | Matcher_MatcherList "pb_FieldMatcher list option"
  | Matcher_MatcherTree "pb_MatcherTree option"
and pb_FieldMatcher = FieldMatcher "pb_OnMatch option" "pb_Predicate option"
and pb_MatcherTree =
    pb_MatcherTree "TypedExtensionConfig option" "(string \<times> pb_OnMatch option) list pb_TreeType option"
and pb_OnMatch =
    OnMatchNone
  | OnMatch_Matcher "pb_Matcher option"
  | OnMatch_Action "TypedExtensionConfig option"

section \<open>The registry\<close>

text \<open>
  The two registries, and what is outside the repository: unmarshalling, the dynamic type of a
  factory's result, the regular expression compiler.  A factory may return nil.
\<close>

type_synonym ('m, 'x) RegistryType = "string \<Rightarrow> ('m \<Rightarrow> matcher_error + 'x option) option"

record ('d, 'm, 'x) registry =
  InputExtensions :: "('m, 'x) RegistryType"
  ActionExtensions :: "('m, 'x) RegistryType"
  UnmarshalNew :: "Any \<Rightarrow> matcher_error + 'm"
  as_DataInput :: "'x \<Rightarrow> 'd DataInput option"
  regexp_Compile :: "string \<Rightarrow> matcher_error + (string \<Rightarrow> bool)"

definition resolveExtension ::
    "('d, 'm, 'x) registry \<Rightarrow> TypedExtensionConfig option \<Rightarrow> ('m, 'x) RegistryType \<Rightarrow> matcher_error + 'x option" where
  "resolveExtension R tec reg =
     (case tec of
        None \<Rightarrow> Inl MatcherPanic
      | Some tec \<Rightarrow>
          (case tec_TypedConfig tec of
             None \<Rightarrow> Inl MatcherPanic
           | Some config \<Rightarrow>
               (case reg (any_type_url config) of
                  None \<Rightarrow> Inl (ExtensionNotImplemented (any_type_url config))
                | Some factory \<Rightarrow>
                    (case UnmarshalNew R config of
                       Inl err \<Rightarrow> Inl err
                     | Inr m \<Rightarrow> factory m))))"

definition ResolveInputExtension ::
    "('d, 'm, 'x) registry \<Rightarrow> TypedExtensionConfig option \<Rightarrow> matcher_error + 'd DataInput" where
  "ResolveInputExtension R tec =
     (case resolveExtension R tec (InputExtensions R) of
        Inl err \<Rightarrow> Inl err
      | Inr out \<Rightarrow>
          (case Option.bind out (as_DataInput R) of
             None \<Rightarrow> Inl MatcherPanic
           | Some input \<Rightarrow> Inr input))"

definition ResolveActionExtension ::
    "('d, 'm, 'x) registry \<Rightarrow> TypedExtensionConfig option \<Rightarrow> matcher_error + 'x option" where
  "ResolveActionExtension R tec = resolveExtension R tec (ActionExtensions R)"

section \<open>Building\<close>

definition createValueMatcher ::
    "('d, 'm, 'x) registry \<Rightarrow> pb_StringMatcher option \<Rightarrow> matcher_error + simpleMatcher" where
  "createValueMatcher R valueMatcher =
     (case valueMatcher of
        None \<Rightarrow> Inl MatcherPanic
      | Some v \<Rightarrow>
          (case pb_MatchPattern v of
             Some (StringMatcher_SafeRegex None) \<Rightarrow> Inl MatcherPanic
           | Some (StringMatcher_SafeRegex (Some regex)) \<Rightarrow>
               (case regexp_Compile R regex of Inl err \<Rightarrow> Inl err | Inr r \<Rightarrow> Inr (regexMatcher r))
           | _ \<Rightarrow> Inl NotImplementedValueMatch))"

definition createSinglePredicate ::
    "('d, 'm, 'x) registry \<Rightarrow> pb_SinglePredicate option \<Rightarrow> matcher_error + 'd predicateFunc" where
  "createSinglePredicate R predicate =
     (case predicate of
        None \<Rightarrow> Inl MatcherPanic
      | Some predicate \<Rightarrow>
          (case ResolveInputExtension R (sp_Input predicate) of
             Inl err \<Rightarrow> Inl err
           | Inr input \<Rightarrow>
               (case sp_Matcher predicate of
                  Some (ValueMatch v) \<Rightarrow>
                    (case createValueMatcher R v of
                       Inl err \<Rightarrow> Inl err
                     | Inr matcher \<Rightarrow> Inr (singlePredicate input matcher))
                | _ \<Rightarrow> Inl NotImplementedCustomMatch)))"

fun createPredicate :: "('d, 'm, 'x) registry \<Rightarrow> pb_Predicate option \<Rightarrow> matcher_error + 'd predicateFunc"
  and createPredicates :: "('d, 'm, 'x) registry \<Rightarrow> pb_Predicate option list \<Rightarrow> matcher_error + 'd predicateFunc list"
where
  "createPredicate R None = Inl MatcherPanic"
| "createPredicate R (Some (AndMatcher None)) = Inl MatcherPanic"
| "createPredicate R (Some (AndMatcher (Some ps))) =
     (case createPredicates R ps of Inl err \<Rightarrow> Inl err | Inr predicates \<Rightarrow> Inr (conjunctionPredicate predicates))"
| "createPredicate R (Some (OrMatcher None)) = Inl MatcherPanic"
| "createPredicate R (Some (OrMatcher (Some ps))) =
     (case createPredicates R ps of Inl err \<Rightarrow> Inl err | Inr predicates \<Rightarrow> Inr (disjunctionPredicate predicates))"
| "createPredicate R (Some (SinglePredicate p)) = createSinglePredicate R p"
| "createPredicate R (Some PredicateNone) = Inl UnexpectedPredicate"
| "createPredicate R (Some OtherPredicate) = Inl UnexpectedPredicate"
| "createPredicates R [] = Inr []"
| "createPredicates R (p # ps) =
     (case createPredicate R p of
        Inl err \<Rightarrow> Inl err
      | Inr pp \<Rightarrow>
          (case createPredicates R ps of Inl err \<Rightarrow> Inl err | Inr pps \<Rightarrow> Inr (pp # pps)))"

text \<open>
  \<open>createMatcherList\<close> appends the entries, \<open>createMatchTree\<close> fills a map in the order in which the
  configuration's map is visited.
\<close>

fun create :: "('d, 'm, 'x) registry \<Rightarrow> pb_Matcher option \<Rightarrow> matcher_error + ('d, 'x) Matcher"
  and createOnMatch :: "('d, 'm, 'x) registry \<Rightarrow> pb_OnMatch option \<Rightarrow> matcher_error + ('d, 'x) OnMatch option"
  and createMatcherList ::
      "('d, 'm, 'x) registry \<Rightarrow> pb_FieldMatcher list \<Rightarrow> ('d, 'x) matchEntry list
         \<Rightarrow> matcher_error + ('d, 'x) matchEntry list"
  and createMatchTree :: "('d, 'm, 'x) registry \<Rightarrow> pb_MatcherTree option \<Rightarrow> matcher_error + ('d, 'x) Matcher"
  and createMatchTree_loop ::
      "('d, 'm, 'x) registry \<Rightarrow> (string \<times> pb_OnMatch option) list \<Rightarrow> (string \<times> ('d, 'x) OnMatch option) list
         \<Rightarrow> matcher_error + (string \<times> ('d, 'x) OnMatch option) list"
where
  "create R None = Inl MatcherPanic"
| "create R (Some (pb_Matcher om mt)) =
     (case createOnMatch R om of
        Inl err \<Rightarrow> Inl err
      | Inr onNoMatch \<Rightarrow>
          (case mt of
             Matcher_MatcherList None \<Rightarrow> Inl MatcherPanic
           | Matcher_MatcherList (Some list) \<Rightarrow>
               (case createMatcherList R list [] of
                  Inl err \<Rightarrow> Inl err
                | Inr mes \<Rightarrow> Inr (MatcherTree onNoMatch (matcherList mes)))
           | Matcher_MatcherTree t \<Rightarrow>
               (case createMatchTree R t of
                  Inl err \<Rightarrow> Inl err
                | Inr matcher \<Rightarrow> Inr (MatcherTree onNoMatch matcher))
           | MatcherTypeNone \<Rightarrow> Inl NotImplementedMatcherTree))"
| "createOnMatch R None = Inr None"
| "createOnMatch R (Some (OnMatch_Matcher m)) =
     (case create R m of Inl err \<Rightarrow> Inl err | Inr matcher \<Rightarrow> Inr (Some (OnMatch (Some matcher) None)))"
| "createOnMatch R (Some (OnMatch_Action a)) =
     (case ResolveActionExtension R a of Inl err \<Rightarrow> Inl err | Inr action \<Rightarrow> Inr (Some (OnMatch None action)))"
| "createOnMatch R (Some OnMatchNone) = Inl UnexpectedOnMatch"
| "createMatcherList R [] mes = Inr mes"
| "createMatcherList R (FieldMatcher om p # ms) mes =
     (case createOnMatch R om of
        Inl err \<Rightarrow> Inl err
      | Inr None \<Rightarrow> Inl ListRequiresOnMatch
      | Inr (Some onMatch) \<Rightarrow>
          (case createPredicate R p of
             Inl err \<Rightarrow> Inl err
           | Inr predicate \<Rightarrow> createMatcherList R ms (mes @ [matchEntry (Some onMatch) predicate])))"
| "createMatchTree R None = Inl MatcherPanic"
| "createMatchTree R (Some (pb_MatcherTree i tt)) =
     (case ResolveInputExtension R i of
        Inl err \<Rightarrow> Inl err
      | Inr input \<Rightarrow>
          (case tt of
             Some (ExactMatchMap None) \<Rightarrow> Inl MatcherPanic
           | Some (ExactMatchMap (Some kvs)) \<Rightarrow>
               (case createMatchTree_loop R kvs [] of
                  Inl err \<Rightarrow> Inl err
                | Inr tree \<Rightarrow> Inr (exactMatchTree tree input))
           | _ \<Rightarrow> Inl NotImplementedTreeType))"
| "createMatchTree_loop R [] tree = Inr tree"
| "createMatchTree_loop R ((k, v) # kvs) tree =
     (case createOnMatch R v of
        Inl err \<Rightarrow> Inl err
      | Inr onMatch \<Rightarrow> createMatchTree_loop R kvs (mput k onMatch tree))"

text \<open>\<open>Create\<close> makes the logger of the tree; \<open>CreateLegacy\<close> casts over the wire format first.\<close>

definition Create ::
    "('d, 'm, 'x) registry \<Rightarrow> pb_Matcher option \<Rightarrow> matcher_error + ('d, 'x) Matcher \<times> tracingLogger" where
  "Create R matcher =
     (case create R matcher of Inl err \<Rightarrow> Inl err | Inr m \<Rightarrow> Inr (m, new_tracingLogger))"

definition CreateLegacy ::
    "('d, 'm, 'x) registry \<Rightarrow> ('l \<Rightarrow> matcher_error + bytes) \<Rightarrow> (bytes \<Rightarrow> matcher_error + pb_Matcher)
       \<Rightarrow> 'l \<Rightarrow> matcher_error + ('d, 'x) Matcher \<times> tracingLogger" where
  "CreateLegacy R proto_Marshal proto_Unmarshal matcher =
     (case proto_Marshal matcher of
        Inl err \<Rightarrow> Inl err
      | Inr b \<Rightarrow>
          (case proto_Unmarshal b of
             Inl err \<Rightarrow> Inl err
           | Inr m \<Rightarrow> Create R (Some m)))"

end
