(* ===== verification/MatchTreeFacts.thy ===== *)
theory MatchTreeFacts
  imports MatchTree
begin

text \<open>
  Lemmas on match trees: the logger never changes an answer and is left at the indentation it was
  found at, matching returns, what a result is a part of, what building gives, and when an answer on
  some data is the answer on later data.
\<close>

named_theorems indent_simps \<open>the indentation after a call\<close>

section \<open>The logger\<close>

lemma indent_push [indent_simps]: "tl_indent (push l) = tl_indent l + 1"
  by (simp add: push_def)

lemma indent_pop [indent_simps]: "tl_indent (pop l) = tl_indent l - 1"
  by (simp add: pop_def)

lemma indent_log [indent_simps]: "tl_indent (log_line s l) = tl_indent l"
  by (simp add: log_line_def)

text \<open>What handling an input answers, when the logger does not decide what \<open>matchFunc\<close> gives.\<close>

definition input_answer ::
    "(string option \<Rightarrow> 'r option) \<Rightarrow> matcher_error + DataInputResult \<Rightarrow> matcher_error + 'r Result" where
  "input_answer g r =
     (case r of
        Inl err \<Rightarrow> Inl err
      | Inr input \<Rightarrow>
          (case Availability input of
             AllDataAvailable \<Rightarrow> Inr \<lparr>MatchResult = g (Data input), NeedMoreData = False\<rparr>
           | MoreDataMightBeAvailable \<Rightarrow>
               Inr \<lparr>MatchResult = g (Data input), NeedMoreData = (g (Data input) = None)\<rparr>
           | NotAvailable \<Rightarrow> Inr \<lparr>MatchResult = None, NeedMoreData = True\<rparr>
           | OtherAvailability _ \<Rightarrow> Inl UnexpectedReturnValue))"

lemma fst_handle:
  assumes "\<And>s l. fst (f s l) = g s"
  shows "fst (handlePossiblyMissingInput input data f l) = input_answer g (input data)"
  using assms
  by (auto simp: handlePossiblyMissingInput_def input_answer_def Let_def case_prod_beta
      split: sum.split DataInputAvailability.split)

lemma indent_handle:
  assumes "\<And>s l. tl_indent (snd (f s l)) = tl_indent l"
  shows "tl_indent (snd (handlePossiblyMissingInput input data f l)) = tl_indent l"
  using assms
  by (auto simp: handlePossiblyMissingInput_def Let_def case_prod_beta indent_simps
      split: sum.split DataInputAvailability.split)

definition single_answer ::
    "simpleMatcher \<Rightarrow> matcher_error + DataInputResult \<Rightarrow> matcher_error + matcherResult" where
  "single_answer matcher r =
     (case input_answer (\<lambda>s. if regex_match matcher s then Some () else None) r of
        Inl err \<Rightarrow> Inl err
      | Inr res \<Rightarrow> Inr \<lparr>mr_match = (MatchResult res \<noteq> None), mr_needMoreData = NeedMoreData res\<rparr>)"

lemma single_match:
  "fst (singlePredicate_match input matcher data l) = single_answer matcher (input data)"
  "tl_indent (snd (singlePredicate_match input matcher data l)) = tl_indent l"
proof -
  let ?g = "\<lambda>s. if regex_match matcher s then Some (OnMatch None None :: (unit, unit) OnMatch) else None"
  have "fst (handlePossiblyMissingInput input data (singlePredicate_matchFunc matcher) l)
          = input_answer ?g (input data)"
    by (rule fst_handle) (simp add: singlePredicate_matchFunc_def)
  moreover have "tl_indent (snd (handlePossiblyMissingInput input data (singlePredicate_matchFunc matcher) l))
                   = tl_indent l"
    by (rule indent_handle) (simp add: singlePredicate_matchFunc_def indent_simps)
  ultimately show "fst (singlePredicate_match input matcher data l) = single_answer matcher (input data)"
    and "tl_indent (snd (singlePredicate_match input matcher data l)) = tl_indent l"
    by (auto simp: singlePredicate_match_def single_answer_def input_answer_def indent_simps case_prod_beta
        split: prod.splits sum.splits DataInputAvailability.splits)
qed

section \<open>Predicates without the logger\<close>

text \<open>What a predicate answers: a reference for the code, which threads the logger.\<close>

fun pred_answer :: "'d predicateFunc \<Rightarrow> 'd \<Rightarrow> matcher_error + matcherResult"
  and conj_answer :: "'d predicateFunc list \<Rightarrow> 'd \<Rightarrow> matcher_error + matcherResult"
  and disj_answer :: "bool \<Rightarrow> 'd predicateFunc list \<Rightarrow> 'd \<Rightarrow> matcher_error + matcherResult"
where
  "pred_answer (singlePredicate input matcher) data = single_answer matcher (input data)"
| "pred_answer (conjunctionPredicate ps) data = conj_answer ps data"
| "pred_answer (disjunctionPredicate ps) data = disj_answer False ps data"
| "conj_answer [] data = Inr \<lparr>mr_match = True, mr_needMoreData = False\<rparr>"
| "conj_answer (p # ps) data =
     (case pred_answer p data of
        Inl err \<Rightarrow> Inl err
      | Inr r \<Rightarrow> if mr_needMoreData r \<or> \<not> mr_match r then Inr r else conj_answer ps data)"
| "disj_answer b [] data = Inr \<lparr>mr_match = False, mr_needMoreData = b\<rparr>"
| "disj_answer b (p # ps) data =
     (case pred_answer p data of
        Inl err \<Rightarrow> Inl err
      | Inr r \<Rightarrow>
          if mr_needMoreData r then disj_answer True ps data
          else if mr_match r then Inr r else disj_answer b ps data)"

lemma predicate_match_answer:
  "fst (predicate_match p data l) = pred_answer p data \<and> tl_indent (snd (predicate_match p data l)) = tl_indent l"
  "fst (conjunction_loop ps data l) = conj_answer ps data \<and> tl_indent (snd (conjunction_loop ps data l)) = tl_indent l"
  "fst (disjunction_loop b ps data l) = disj_answer b ps data \<and> tl_indent (snd (disjunction_loop b ps data l)) = tl_indent l"
proof (induction p data l and ps data l and b ps data l
    rule: predicate_match_conjunction_loop_disjunction_loop.induct)
  case (5 p ps data l)
  then show ?case by (cases "predicate_match p data l") (auto split: sum.splits)
next
  case (7 b p ps data l)
  then show ?case by (cases "predicate_match p data l") (auto split: sum.splits)
qed (simp_all add: single_match case_prod_beta indent_simps)

lemma predicate_match_eq:
  obtains l' where "predicate_match p data l = (pred_answer p data, l')" and "tl_indent l' = tl_indent l"
  using predicate_match_answer(1) [of p data l] by (cases "predicate_match p data l") auto

text \<open>No answer says that there is a match and that more data is needed.\<close>

definition exclusive :: "matcher_error + matcherResult \<Rightarrow> bool" where
  "exclusive r \<longleftrightarrow> (case r of Inl _ \<Rightarrow> True | Inr res \<Rightarrow> \<not> (mr_match res \<and> mr_needMoreData res))"

lemma exclusive_simps [simp]:
  "exclusive (Inl err)"
  "exclusive (Inr res) \<longleftrightarrow> \<not> (mr_match res \<and> mr_needMoreData res)"
  by (simp_all add: exclusive_def)

lemma pred_answer_exclusive:
  "exclusive (pred_answer p data)" "exclusive (conj_answer ps data)" "exclusive (disj_answer b ps data)"
proof (induction p data and ps data and b ps data rule: pred_answer_conj_answer_disj_answer.induct)
  case (1 input matcher data)
  then show ?case
    by (auto simp: single_answer_def input_answer_def split: sum.splits DataInputAvailability.splits)
next
  case (5 p ps data)
  then show ?case by (cases "pred_answer p data") auto
next
  case (7 b p ps data)
  then show ?case by (cases "pred_answer p data") auto
qed simp_all

section \<open>Lists and exact trees without the logger\<close>

fun list_answer :: "('d, 'x) matchEntry list \<Rightarrow> 'd \<Rightarrow> matcher_error + ('d, 'x) OnMatch Result" where
  "list_answer [] data = Inr \<lparr>MatchResult = None, NeedMoreData = False\<rparr>"
| "list_answer (me # mes) data =
     (case pred_answer (me_predicate me) data of
        Inl err \<Rightarrow> Inl err
      | Inr r \<Rightarrow>
          if mr_match r then Inr \<lparr>MatchResult = me_onMatch me, NeedMoreData = False\<rparr>
          else if mr_needMoreData r then Inr \<lparr>MatchResult = None, NeedMoreData = True\<rparr>
          else list_answer mes data)"

lemma matcherList_loop_answer:
  "fst (matcherList_loop mes data l) = list_answer mes data \<and>
   tl_indent (snd (matcherList_loop mes data l)) = tl_indent l"
proof (induction mes arbitrary: l)
  case (Cons me mes)
  obtain l' where "predicate_match (me_predicate me) data (log_line ''predicate type %T'' l)
      = (pred_answer (me_predicate me) data, l')"
    and "tl_indent l' = tl_indent (log_line ''predicate type %T'' l)"
    by (rule predicate_match_eq)
  with Cons.IH show ?case by (auto simp: indent_simps split: sum.splits)
qed (simp add: indent_simps)

lemma matcherList_Match_answer:
  "fst (matcherList_Match mes data l) = list_answer mes data"
  "tl_indent (snd (matcherList_Match mes data l)) = tl_indent l"
  using matcherList_loop_answer [of mes data "push (log_line ''attempting to match against match list'' l)"]
  by (simp_all add: matcherList_Match_def case_prod_beta indent_simps)

definition lookup_match ::
    "(string \<times> ('d, 'x) OnMatch option) list \<Rightarrow> string option \<Rightarrow> ('d, 'x) OnMatch option" where
  "lookup_match tree s = Option.bind s (\<lambda>s. Option.bind (mget tree s) id)"

lemma exactMatchTree_Match_answer:
  "fst (exactMatchTree_Match tree input data l) = input_answer (lookup_match tree) (input data)"
  "tl_indent (snd (exactMatchTree_Match tree input data l)) = tl_indent l"
proof -
  let ?l = "push (log_line ''attempting to match against exact tree'' l)"
  have "fst (handlePossiblyMissingInput input data (exactMatchTree_matchFunc tree) ?l)
          = input_answer (lookup_match tree) (input data)"
    by (rule fst_handle) (auto simp: exactMatchTree_matchFunc_def lookup_match_def split: option.split)
  moreover have "tl_indent (snd (handlePossiblyMissingInput input data (exactMatchTree_matchFunc tree) ?l)) = tl_indent ?l"
    by (rule indent_handle) (auto simp: exactMatchTree_matchFunc_def indent_simps split: option.split)
  ultimately show "fst (exactMatchTree_Match tree input data l) = input_answer (lookup_match tree) (input data)"
    and "tl_indent (snd (exactMatchTree_Match tree input data l)) = tl_indent l"
    by (simp_all add: exactMatchTree_Match_def case_prod_beta indent_simps)
qed

section \<open>Results are parts of the tree\<close>

text \<open>The \<open>OnMatch\<close> nodes of a tree, below the nodes themselves excluded.\<close>

fun onmatches :: "('d, 'x) Matcher \<Rightarrow> ('d, 'x) OnMatch set" where
  "onmatches (MatcherTree onNoMatch root) = set_option onNoMatch \<union> onmatches root"
| "onmatches (matcherList mes) = (\<Union>me \<in> set mes. set_option (me_onMatch me))"
| "onmatches (exactMatchTree tree input) = (\<Union>kv \<in> set tree. set_option (snd kv))"

lemma list_answer_onmatch:
  "list_answer mes data = Inr res \<Longrightarrow> MatchResult res = Some om \<Longrightarrow>
     om \<in> onmatches (matcherList mes) \<and> \<not> NeedMoreData res"
  by (induction mes) (auto split: sum.splits if_splits)

lemma exact_answer_onmatch:
  "input_answer (lookup_match tree) r = Inr res \<Longrightarrow> MatchResult res = Some om \<Longrightarrow>
     om \<in> onmatches (exactMatchTree tree input) \<and> \<not> NeedMoreData res"
  by (force simp: input_answer_def lookup_match_def bind_eq_Some_conv dest: map_of_SomeD
      split: sum.splits DataInputAvailability.splits)

lemma size_onmatch: "om \<in> onmatches m \<Longrightarrow> size om < size m"
proof (induction m rule: onmatches.induct)
  case (2 mes)
  then obtain me where me: "me \<in> set mes" "me_onMatch me = Some om" by (auto)
  have "size om < size me" using me(2) by (cases me rule: matchEntry.exhaust) simp
  also have "size me \<le> size_list size mes" using me(1) by (rule size_list_estimation') simp
  finally show ?case by simp
next
  case (3 tree input)
  then obtain k where kv: "(k, Some om) \<in> set tree" by force
  have "size om < size_prod (\<lambda>x. 0) (size_option size) (k, Some om)" by simp
  also have "\<dots> \<le> size_list (size_prod (\<lambda>x. 0) (size_option size)) tree"
    using kv by (rule size_list_estimation') simp
  finally show ?case by simp
qed auto

lemma size_om_Matcher: "om_Matcher om = Some m \<Longrightarrow> size m < size om"
  by (cases om) auto

section \<open>A big-step semantics\<close>

text \<open>
  What matching gives, as a relation: no logger, no order of calls.  It is what the function
  \<^const>\<open>Match\<close> computes, and the rule to reason about it by.
\<close>

inductive yields :: "('d, 'x) Matcher \<Rightarrow> 'd \<Rightarrow> matcher_error + ('d, 'x) OnMatch Result \<Rightarrow> bool" where
  list: "yields (matcherList mes) data (list_answer mes data)"
| exact: "yields (exactMatchTree tree input) data (input_answer (lookup_match tree) (input data))"
| err: "yields root data (Inl e) \<Longrightarrow> yields (MatcherTree onNoMatch root) data (Inl e)"
| found: "yields root data (Inr res) \<Longrightarrow> MatchResult res = Some om \<Longrightarrow> om_Matcher om = None \<Longrightarrow>
    yields (MatcherTree onNoMatch root) data (Inr res)"
| recurse: "yields root data (Inr res) \<Longrightarrow> MatchResult res = Some om \<Longrightarrow> om_Matcher om = Some m \<Longrightarrow>
    yields m data r \<Longrightarrow> yields (MatcherTree onNoMatch root) data r"
| more: "yields root data (Inr res) \<Longrightarrow> MatchResult res = None \<Longrightarrow> NeedMoreData res \<Longrightarrow>
    yields (MatcherTree onNoMatch root) data (Inr res)"
| none: "yields root data (Inr res) \<Longrightarrow> MatchResult res = None \<Longrightarrow> \<not> NeedMoreData res \<Longrightarrow>
    yields (MatcherTree onNoMatch root) data (Inr \<lparr>MatchResult = onNoMatch, NeedMoreData = False\<rparr>)"

inductive_cases yields_listE [elim!]: "yields (matcherList mes) data r"
inductive_cases yields_exactE [elim!]: "yields (exactMatchTree tree input) data r"
inductive_cases yields_treeE: "yields (MatcherTree onNoMatch root) data r"

lemma yields_match:
  "yields m data r \<Longrightarrow> r = Inr res \<Longrightarrow> MatchResult res = Some om \<Longrightarrow> \<not> NeedMoreData res \<and> size om < size m"
proof (induction arbitrary: res om rule: yields.induct)
  case (list mes data)
  then show ?case using list_answer_onmatch [of mes data res om] size_onmatch by blast
next
  case (exact tree input data)
  then show ?case using exact_answer_onmatch [of tree "input data" res om input] size_onmatch by blast
next
  case (recurse root data res' om' m r onNoMatch)
  have "\<not> NeedMoreData res" and "size om < size m"
    using recurse.IH(2) [OF recurse.prems] by simp_all
  moreover have "size m < size om'" using recurse.hyps(3) by (rule size_om_Matcher)
  moreover have "size om' < size root" using recurse.IH(1) [OF refl recurse.hyps(2)] by simp
  ultimately show ?case by simp
next
  case (found root data res' om' onNoMatch)
  then have "\<not> NeedMoreData res" and "size om < size root" by auto
  then show ?case by simp
qed auto

lemma yields_deterministic: "yields m data r \<Longrightarrow> yields m data r' \<Longrightarrow> r' = r"
proof (induction arbitrary: r' rule: yields.induct)
  case (err root data e onNoMatch)
  from err.prems show ?case by (cases rule: yields_treeE) (auto dest: err.IH)
next
  case (found root data res om onNoMatch)
  from found.prems found.hyps show ?case by (cases rule: yields_treeE) (auto dest: found.IH)
next
  case (recurse root data res om m r onNoMatch)
  show ?case
    by (rule yields_treeE [OF recurse.prems])
      (metis recurse.IH recurse.hyps(2,3) old.sum.inject(1,2) old.sum.distinct(1) option.inject option.distinct(1))+
next
  case (more root data res onNoMatch)
  from more.prems more.hyps show ?case by (cases rule: yields_treeE) (auto dest: more.IH)
next
  case (none root data res onNoMatch)
  from none.prems none.hyps show ?case by (cases rule: yields_treeE) (auto dest: none.IH)
qed auto

section \<open>Matching returns\<close>

lemma Match_list: "Match (matcherList mes) data l = Some (matcherList_Match mes data l)"
  by (subst Match.simps) simp

lemma Match_exact: "Match (exactMatchTree tree input) data l = Some (exactMatchTree_Match tree input data l)"
  by (subst Match.simps) simp

text \<open>The size of the tree bounds the recursion: every call is on a smaller matcher.\<close>

lemma Match_computes:
  "\<exists>r l'. Match m data l = Some (r, l') \<and> yields m data r \<and> tl_indent l' = tl_indent l"
proof (induction m arbitrary: l rule: measure_induct_rule [of size])
  case (less m)
  show ?case
  proof (cases m)
    case (matcherList mes)
    with matcherList_Match_answer [of mes data l] show ?thesis
      by (cases "matcherList_Match mes data l") (auto simp: Match_list intro: yields.list)
  next
    case (exactMatchTree tree input)
    with exactMatchTree_Match_answer [of tree input data l] show ?thesis
      by (cases "exactMatchTree_Match tree input data l") (auto simp: Match_exact intro: yields.exact)
  next
    case (MatcherTree onNoMatch root)
    then have "size root < size m" by simp
    from less [OF this, of l] obtain r l1 where root: "Match root data l = Some (r, l1)"
      and y: "yields root data r" and i: "tl_indent l1 = tl_indent l" by blast
    show ?thesis
    proof (cases r)
      case (Inl err)
      with root y i MatcherTree show ?thesis by (subst Match.simps) (auto intro: yields.err)
    next
      case (Inr res)
      show ?thesis
      proof (cases "MatchResult res")
        case None
        with root y i MatcherTree Inr show ?thesis
          by (subst Match.simps) (auto simp: indent_simps intro: yields.more yields.none)
      next
        case (Some om)
        with yields_match [OF y Inr Some] have om: "\<not> NeedMoreData res" "size om < size root" by simp_all
        show ?thesis
        proof (cases "om_Matcher om")
          case None
          with root y i MatcherTree Inr Some om show ?thesis
            by (subst Match.simps) (auto simp: indent_simps intro: yields.found)
        next
          case sub: (Some matcher)
          then have "size matcher < size m" using om size_om_Matcher [OF sub] MatcherTree by simp
          from less [OF this, of "push (log_line ''recursively matching'' l1)"] obtain r2 l2
            where "Match matcher data (push (log_line ''recursively matching'' l1)) = Some (r2, l2)"
              and "yields matcher data r2" and "tl_indent l2 = tl_indent l1 + 1"
            by (auto simp: indent_simps)
          with root y i MatcherTree Inr Some om sub show ?thesis
            by (subst Match.simps) (auto simp: indent_simps intro: yields.recurse)
        qed
      qed
    qed
  qed
qed

lemma Match_iff_yields: "(\<exists>l'. Match m data l = Some (r, l')) \<longleftrightarrow> yields m data r"
  using Match_computes [of m data l] yields_deterministic by (metis fst_conv option.inject)

lemma Match_yields: "Match m data l = Some (r, l') \<Longrightarrow> yields m data r"
  by (simp add: Match_iff_yields [symmetric, where l = l])

lemma yields_Match: "yields m data r \<Longrightarrow> \<exists>l'. Match m data l = Some (r, l')"
  by (simp add: Match_iff_yields)

section \<open>Properties of all nodes\<close>

function all_onmatches :: "(('d, 'x) OnMatch \<Rightarrow> bool) \<Rightarrow> ('d, 'x) Matcher \<Rightarrow> bool" where
  "all_onmatches P m \<longleftrightarrow>
     (\<forall>om \<in> onmatches m. P om \<and> (\<forall>m' \<in> set_option (om_Matcher om). all_onmatches P m'))"
  by auto
termination
  by (relation "measure (\<lambda>(P, m). size m)") (auto dest!: size_onmatch size_om_Matcher)

declare all_onmatches.simps [simp del]

lemma all_onmatchesD:
  "all_onmatches P m \<Longrightarrow> om \<in> onmatches m \<Longrightarrow> P om \<and> (\<forall>m' \<in> set_option (om_Matcher om). all_onmatches P m')"
  by (subst (asm) all_onmatches.simps) blast

lemma all_onmatchesI:
  "(\<And>om. om \<in> onmatches m \<Longrightarrow> P om \<and> (\<forall>m' \<in> set_option (om_Matcher om). all_onmatches P m')) \<Longrightarrow>
     all_onmatches P m"
  by (subst all_onmatches.simps) blast

lemma all_onmatches_root: "all_onmatches P (MatcherTree onNoMatch root) \<Longrightarrow> all_onmatches P root"
  by (rule all_onmatchesI) (drule all_onmatchesD, simp_all)

lemma yields_all_onmatches:
  "yields m data r \<Longrightarrow> all_onmatches P m \<Longrightarrow> r = Inr res \<Longrightarrow> MatchResult res = Some om \<Longrightarrow>
     P om \<and> (\<forall>m' \<in> set_option (om_Matcher om). all_onmatches P m')"
proof (induction arbitrary: res om rule: yields.induct)
  case (list mes data)
  then show ?case using list_answer_onmatch [of mes data res om] all_onmatchesD by blast
next
  case (exact tree input data)
  then show ?case
    using exact_answer_onmatch [of tree "input data" res om input] all_onmatchesD by blast
next
  case (found root data res' om' onNoMatch)
  show ?case
    by (rule found.IH [OF all_onmatches_root [OF found.prems(1)] found.prems(2,3)])
next
  case (recurse root data res' om' m r onNoMatch)
  from recurse.IH(1) [OF all_onmatches_root [OF recurse.prems(1)] refl recurse.hyps(2)] recurse.hyps(3)
  have "all_onmatches P m" by simp
  from recurse.IH(2) [OF this recurse.prems(2,3)] show ?case .
next
  case (none root data res' onNoMatch)
  from none.prems(2,3) have "om \<in> onmatches (MatcherTree onNoMatch root)" by auto
  with none.prems(1) show ?case by (rule all_onmatchesD)
next
  case (err root data e onNoMatch)
  from err.prems(2) show ?case by simp
next
  case (more root data res' onNoMatch)
  from more.prems(2,3) more.hyps(2) show ?case by simp
qed

end
