(* ===== verification/MatchTreeProps.thy ===== *)
theory MatchTreeProps
  imports MatchTreeFacts
begin

text \<open>The properties of building and matching xDS match trees.\<close>

section \<open>Termination\<close>

text \<open>C16: \<open>Match\<close> of any matcher, built by the code or not, returns on all data, although the tree
  calls \<open>Match\<close> of the result of another \<open>Match\<close>; the shared logger is left at the indentation it
  was found at on every path, errors included.\<close>

theorem match_returns:
  "\<exists>r l'. Match m data l = Some (r, l') \<and> tl_indent l' = tl_indent l"
  using Match_computes [of m data l] by blast

section \<open>What building gives\<close>

text \<open>A node has an action or a tree, and a tree hangs off a list or an exact map, never off a tree.\<close>

fun built :: "('d, 'x) Matcher \<Rightarrow> bool" where
  "built (MatcherTree onNoMatch root) \<longleftrightarrow>
     (case root of
        MatcherTree _ _ \<Rightarrow> False
      | matcherList mes \<Rightarrow> (\<forall>me \<in> set mes. me_onMatch me \<noteq> None)
      | exactMatchTree tree _ \<Rightarrow> wf_map tree)"
| "built _ \<longleftrightarrow> False"

definition typed_onmatch :: "('d, 'x) OnMatch \<Rightarrow> bool" where
  "typed_onmatch om \<longleftrightarrow>
     (case om_Matcher om of None \<Rightarrow> om_Action om \<noteq> None | Some m \<Rightarrow> om_Action om = None \<and> built m)"

definition typed_tree :: "('d, 'x) Matcher \<Rightarrow> bool" where
  "typed_tree m \<longleftrightarrow> built m \<and> all_onmatches typed_onmatch m"

abbreviation typed_node :: "('d, 'x) OnMatch \<Rightarrow> bool" where
  "typed_node om \<equiv> typed_onmatch om \<and> (\<forall>m \<in> set_option (om_Matcher om). all_onmatches typed_onmatch m)"

definition actions_not_nil :: "('d, 'm, 'x) registry \<Rightarrow> bool" where
  "actions_not_nil R \<longleftrightarrow>
     (\<forall>url factory msg. ActionExtensions R url = Some factory \<longrightarrow> factory msg \<noteq> Inr None)"

lemma action_not_nil:
  "actions_not_nil R \<Longrightarrow> ResolveActionExtension R a = Inr out \<Longrightarrow> out \<noteq> None"
  by (cases out) (auto simp: actions_not_nil_def ResolveActionExtension_def resolveExtension_def
      split: option.splits sum.splits)

definition typed_entries :: "('d, 'x) matchEntry list \<Rightarrow> bool" where
  "typed_entries mes \<longleftrightarrow> (\<forall>me \<in> set mes. \<exists>om. me_onMatch me = Some om \<and> typed_node om)"

definition typed_map :: "(string \<times> ('d, 'x) OnMatch option) list \<Rightarrow> bool" where
  "typed_map tree \<longleftrightarrow> wf_map tree \<and> (\<forall>kv \<in> set tree. \<forall>om \<in> set_option (snd kv). typed_node om)"

lemma typed_map_put:
  assumes "typed_map tree" and "\<forall>om \<in> set_option v. typed_node om"
  shows "typed_map (mput k v tree)"
  using assms set_mput [of k v tree] unfolding typed_map_def by (fastforce dest: subsetD)

lemma typed_entries_tree:
  assumes "typed_entries mes" and "\<forall>om \<in> set_option onNoMatch. typed_node om"
  shows "typed_tree (MatcherTree onNoMatch (matcherList mes))"
proof -
  have "built (MatcherTree onNoMatch (matcherList mes))"
    using assms(1) by (auto simp: typed_entries_def)
  moreover have "all_onmatches typed_onmatch (MatcherTree onNoMatch (matcherList mes))"
  proof (rule all_onmatchesI)
    fix om
    assume "om \<in> onmatches (MatcherTree onNoMatch (matcherList mes))"
    then consider "om \<in> set_option onNoMatch" | me where "me \<in> set mes" "me_onMatch me = Some om" by auto
    then show "typed_node om"
      using assms by cases (auto simp: typed_entries_def)
  qed
  ultimately show ?thesis by (simp add: typed_tree_def)
qed

lemma typed_map_tree:
  assumes "typed_map tree" and "\<forall>om \<in> set_option onNoMatch. typed_node om"
  shows "typed_tree (MatcherTree onNoMatch (exactMatchTree tree input))"
proof -
  have "all_onmatches typed_onmatch (MatcherTree onNoMatch (exactMatchTree tree input))"
    by (rule all_onmatchesI) (use assms in \<open>auto simp: typed_map_def\<close>)
  with assms(1) show ?thesis by (simp add: typed_tree_def typed_map_def)
qed

lemma typed_tree_node: "typed_tree m \<Longrightarrow> typed_node (OnMatch (Some m) None)"
  by (simp add: typed_tree_def typed_onmatch_def)

text \<open>By induction on the calls that build a tree.\<close>

lemma create_typed:
  assumes R: "actions_not_nil R"
  shows "\<And>m. create R c = Inr m \<Longrightarrow> typed_tree m"
    and "\<And>om. createOnMatch R o1 = Inr (Some om) \<Longrightarrow> typed_node om"
    and "\<And>mes. createMatcherList R ms acc = Inr mes \<Longrightarrow> typed_entries acc \<Longrightarrow> typed_entries mes"
    and "\<And>m. createMatchTree R t = Inr m \<Longrightarrow> \<exists>tree input. m = exactMatchTree tree input \<and> typed_map tree"
    and "\<And>tree. createMatchTree_loop R kvs tree0 = Inr tree \<Longrightarrow> typed_map tree0 \<Longrightarrow> typed_map tree"
  using R
proof (induction R c and R o1 and R ms acc and R t and R kvs tree0
    rule: create_createOnMatch_createMatcherList_createMatchTree_createMatchTree_loop.induct)
  case (2 R om mt)
  then obtain onNoMatch where o: "createOnMatch R om = Inr onNoMatch" by (auto split: sum.splits)
  with 2 have node: "\<forall>om \<in> set_option onNoMatch. typed_node om" by (cases onNoMatch) auto
  show ?case
  proof (cases mt)
    case (Matcher_MatcherTree t)
    with 2 o obtain tree input where "m = MatcherTree onNoMatch (exactMatchTree tree input)" and "typed_map tree"
      by (auto split: sum.splits) blast
    with node show ?thesis by (simp add: typed_map_tree)
  next
    case (Matcher_MatcherList list)
    with 2 o node show ?thesis
      by (auto simp: typed_entries_def [of "[]"] intro!: typed_entries_tree split: option.splits sum.splits)
  qed (use 2 o in auto)
next
  case (4 R m)
  then show ?case using typed_tree_node by (auto split: sum.splits)
next
  case (5 R a)
  then show ?case
    using action_not_nil by (auto simp: typed_onmatch_def split: sum.splits)
next
  case (8 R om p ms mes)
  then show ?case by (auto simp: typed_entries_def split: sum.splits option.splits)
next
  case (10 R i tt)
  then show ?case by (auto simp: typed_map_def split: sum.splits option.splits pb_TreeType.splits)
next
  case (12 R k v kvs tree)
  then obtain onMatch where o: "createOnMatch R v = Inr onMatch" by (auto split: sum.splits)
  with 12 have "\<forall>om \<in> set_option onMatch. typed_node om" by (cases onMatch) auto
  with typed_map_put [OF _ this] 12 o show ?case by auto
qed auto

text \<open>C17: building never makes an ill-formed tree.  When the action factories return values, a tree
  that is created has, at every node, either an action or a tree and not both, every entry of a
  list has a node, and a tree is always over a list or an exact map with one entry per key.  Matching
  it on any data ends with an error of an input or with a result that is not both a match and a
  request for more data, and whose node is typed in the same way.\<close>

theorem created_trees_are_typed:
  assumes "actions_not_nil R" and "Create R config = Inr (m, l)"
  shows "typed_tree m \<and>
    (\<exists>r l'. Match m data l = Some (r, l') \<and>
       (\<forall>res om. r = Inr res \<longrightarrow> MatchResult res = Some om \<longrightarrow> \<not> NeedMoreData res \<and> typed_onmatch om))"
proof -
  from assms(2) have "create R config = Inr m" by (simp add: Create_def split: sum.splits)
  from create_typed(1) [OF assms(1) this] have typed: "typed_tree m" .
  obtain r l' where "Match m data l = Some (r, l')" and y: "yields m data r"
    using Match_computes [of m data l] by blast
  moreover have "\<not> NeedMoreData res \<and> typed_onmatch om" if "r = Inr res" "MatchResult res = Some om" for res om
    using yields_match [OF y that] yields_all_onmatches [OF y _ that] typed unfolding typed_tree_def by blast
  ultimately show ?thesis using typed by blast
qed

section \<open>Early decisions\<close>

text \<open>
  Data may arrive in parts.  A later reading of an input: it is readable, it is the same when all
  data was available, and what an eager match found is still found.
\<close>

definition readable :: "matcher_error + DataInputResult \<Rightarrow> bool" where
  "readable r \<longleftrightarrow> (case r of Inl _ \<Rightarrow> False
     | Inr i \<Rightarrow> (case Availability i of OtherAvailability _ \<Rightarrow> False | _ \<Rightarrow> True))"

definition settled ::
    "(string option \<Rightarrow> 'r option) \<Rightarrow> matcher_error + DataInputResult \<Rightarrow> matcher_error + DataInputResult \<Rightarrow> bool" where
  "settled g r r' \<longleftrightarrow> readable r' \<and>
     (case r of
        Inl _ \<Rightarrow> True
      | Inr i \<Rightarrow>
          (case Availability i of
             AllDataAvailable \<Rightarrow> r' = r
           | MoreDataMightBeAvailable \<Rightarrow>
               g (Data i) = None \<or>
               (case r' of Inl _ \<Rightarrow> False
                | Inr i' \<Rightarrow> Availability i' \<noteq> NotAvailable \<and> g (Data i') = g (Data i))
           | _ \<Rightarrow> True))"

lemma settled_answer:
  assumes "settled g r r'"
  shows "\<exists>res'. input_answer g r' = Inr res'"
    and "input_answer g r = Inr res \<Longrightarrow> \<not> NeedMoreData res \<Longrightarrow> input_answer g r' = Inr res"
  using assms
  by (auto simp: settled_def readable_def input_answer_def
      split: sum.splits DataInputAvailability.splits)

fun pred_later :: "'d predicateFunc \<Rightarrow> 'd \<Rightarrow> 'd \<Rightarrow> bool" where
  "pred_later (singlePredicate input matcher) d d' \<longleftrightarrow>
     settled (\<lambda>s. if regex_match matcher s then Some () else None) (input d) (input d')"
| "pred_later (conjunctionPredicate ps) d d' \<longleftrightarrow> (\<forall>p \<in> set ps. pred_later p d d')"
| "pred_later (disjunctionPredicate ps) d d' \<longleftrightarrow> (\<forall>p \<in> set ps. pred_later p d d')"

fun leaf_later :: "('d, 'x) Matcher \<Rightarrow> 'd \<Rightarrow> 'd \<Rightarrow> bool" where
  "leaf_later (MatcherTree onNoMatch root) d d' \<longleftrightarrow> leaf_later root d d'"
| "leaf_later (matcherList mes) d d' \<longleftrightarrow> (\<forall>me \<in> set mes. pred_later (me_predicate me) d d')"
| "leaf_later (exactMatchTree tree input) d d' \<longleftrightarrow> settled (lookup_match tree) (input d) (input d')"

text \<open>Every input of the tree and of the trees below it is read later at \<open>d'\<close> than at \<open>d\<close>.\<close>

abbreviation later_onmatch :: "'d \<Rightarrow> 'd \<Rightarrow> ('d, 'x) OnMatch \<Rightarrow> bool" where
  "later_onmatch d d' om \<equiv> \<forall>m \<in> set_option (om_Matcher om). leaf_later m d d'"

definition later :: "('d, 'x) Matcher \<Rightarrow> 'd \<Rightarrow> 'd \<Rightarrow> bool" where
  "later m d d' \<longleftrightarrow> leaf_later m d d' \<and> all_onmatches (later_onmatch d d') m"

abbreviation decided :: "bool \<Rightarrow> matcher_error + matcherResult" where
  "decided b \<equiv> Inr \<lparr>mr_match = b, mr_needMoreData = False\<rparr>"

lemma later_single:
  assumes "settled (\<lambda>s. if regex_match matcher s then Some () else None) r r'"
  shows "\<exists>res'. single_answer matcher r' = Inr res'"
    and "single_answer matcher r = decided b \<Longrightarrow> single_answer matcher r' = decided b"
proof -
  let ?g = "\<lambda>s. if regex_match matcher s then Some () else None"
  from settled_answer(1) [OF assms] show "\<exists>res'. single_answer matcher r' = Inr res'"
    by (auto simp: single_answer_def)
  assume "single_answer matcher r = decided b"
  then obtain res where "input_answer ?g r = Inr res" and "\<not> NeedMoreData res" and "b = (MatchResult res \<noteq> None)"
    by (auto simp: single_answer_def split: sum.splits)
  with settled_answer(2) [OF assms] show "single_answer matcher r' = decided b"
    by (simp add: single_answer_def)
qed

text \<open>On later data nothing fails, and what was decided stays decided.\<close>

definition keeps :: "matcher_error + matcherResult \<Rightarrow> matcher_error + matcherResult \<Rightarrow> bool" where
  "keeps r r' \<longleftrightarrow> (\<exists>res'. r' = Inr res') \<and> (\<forall>b. r = decided b \<longrightarrow> r' = decided b)"

lemma later_conj:
  "(\<And>p. p \<in> set ps \<Longrightarrow> keeps (pred_answer p d) (pred_answer p d')) \<Longrightarrow>
     keeps (conj_answer ps d) (conj_answer ps d')"
proof (induction ps)
  case Nil
  then show ?case by (simp add: keeps_def)
next
  case (Cons p ps)
  from Cons.IH Cons.prems have ps: "keeps (conj_answer ps d) (conj_answer ps d')" by simp
  from Cons.prems have "keeps (pred_answer p d) (pred_answer p d')" by simp
  then obtain res' where r': "pred_answer p d' = Inr res'"
    and keep: "\<And>b. pred_answer p d = decided b \<Longrightarrow> res' = \<lparr>mr_match = b, mr_needMoreData = False\<rparr>"
    by (auto simp: keeps_def)
  show ?case
  proof (cases "pred_answer p d")
    case (Inl e)
    with ps r' show ?thesis by (auto simp: keeps_def)
  next
    case (Inr res)
    have "res = \<lparr>mr_match = mr_match res, mr_needMoreData = mr_needMoreData res\<rparr>" by simp
    with Inr ps r' keep [of "mr_match res"] show ?thesis
      by (cases "mr_needMoreData res"; cases "mr_match res") (auto simp: keeps_def)
  qed
qed

lemma later_disj:
  "(\<And>p. p \<in> set ps \<Longrightarrow> keeps (pred_answer p d) (pred_answer p d')) \<Longrightarrow>
     (\<exists>res'. disj_answer b' ps d' = Inr res') \<and>
     (disj_answer b ps d = decided True \<longrightarrow> disj_answer b' ps d' = decided True) \<and>
     (disj_answer b ps d = decided False \<longrightarrow> \<not> b \<and> disj_answer b ps d' = decided False)"
proof (induction ps arbitrary: b b')
  case Nil
  then show ?case by auto
next
  case (Cons p ps)
  from Cons.prems have "keeps (pred_answer p d) (pred_answer p d')" by simp
  then obtain res' where r': "pred_answer p d' = Inr res'"
    and keep: "\<And>b. pred_answer p d = decided b \<Longrightarrow> res' = \<lparr>mr_match = b, mr_needMoreData = False\<rparr>"
    by (auto simp: keeps_def)
  have ex: "\<not> (mr_match res' \<and> mr_needMoreData res')"
    using pred_answer_exclusive(1) [of p d'] r' by simp
  have true: "res' = \<lparr>mr_match = True, mr_needMoreData = False\<rparr>" if "mr_match res'"
    using ex that by simp
  note IH = Cons.IH [OF Cons.prems [OF list.set_intros(2)]]
  show ?case
  proof (cases "pred_answer p d")
    case (Inl e)
    with IH [where b = True and b' = True] IH [where b = True and b' = b'] r' show ?thesis
      using true by auto
  next
    case (Inr res)
    have res: "res = \<lparr>mr_match = mr_match res, mr_needMoreData = mr_needMoreData res\<rparr>" by simp
    show ?thesis
    proof (cases "mr_needMoreData res")
      case True
      with Inr IH [where b = True and b' = True] IH [where b = True and b' = b'] r' true show ?thesis by auto
    next
      case False
      with res Inr keep have "res' = \<lparr>mr_match = mr_match res, mr_needMoreData = False\<rparr>" by metis
      with False Inr IH [where b = b and b' = b'] r' res show ?thesis by auto
    qed
  qed
qed

lemma later_pred: "pred_later p d d' \<Longrightarrow> keeps (pred_answer p d) (pred_answer p d')"
proof (induction p)
  case (singlePredicate input matcher)
  with later_single [of matcher "input d" "input d'"] show ?case by (auto simp: keeps_def)
next
  case (conjunctionPredicate ps)
  with later_conj [of ps d d'] show ?case by simp
next
  case (disjunctionPredicate ps)
  then have "\<And>p. p \<in> set ps \<Longrightarrow> keeps (pred_answer p d) (pred_answer p d')" by simp
  from later_disj [OF this, of ps False False] show ?case
    unfolding keeps_def pred_answer.simps by (metis (full_types))
qed

lemma later_list:
  "(\<And>me. me \<in> set mes \<Longrightarrow> keeps (pred_answer (me_predicate me) d) (pred_answer (me_predicate me) d')) \<Longrightarrow>
     list_answer mes d = Inr res \<Longrightarrow> \<not> NeedMoreData res \<Longrightarrow> list_answer mes d' = Inr res"
proof (induction mes)
  case (Cons me mes)
  let ?p = "me_predicate me"
  from Cons.prems(2) obtain r where r: "pred_answer ?p d = Inr r" by (auto split: sum.splits)
  with Cons.prems pred_answer_exclusive(1) [of ?p d] have "\<not> mr_needMoreData r"
    by (auto split: if_splits)
  then have "r = \<lparr>mr_match = mr_match r, mr_needMoreData = False\<rparr>" by simp
  with Cons.prems(1) [of me] r have "pred_answer ?p d' = Inr r"
    by (metis keeps_def list.set_intros(1))
  with Cons r \<open>\<not> mr_needMoreData r\<close> show ?case by (auto split: if_splits)
qed simp

lemma yields_later:
  "yields m d r \<Longrightarrow> later m d d' \<Longrightarrow> r = Inr res \<Longrightarrow> \<not> NeedMoreData res \<Longrightarrow> yields m d' r"
proof (induction arbitrary: res rule: yields.induct)
  case (list mes d)
  then have "list_answer mes d' = Inr res"
    by (intro later_list [of mes d d']) (auto simp: later_def later_pred)
  with list.prems(2) yields.list [of mes d'] show ?case by simp
next
  case (exact tree input d)
  then have "input_answer (lookup_match tree) (input d') = Inr res"
    using settled_answer(2) [of "lookup_match tree" "input d" "input d'"] by (simp add: later_def)
  with exact.prems(2) yields.exact [of tree input d'] show ?case by simp
next
  case (err root d e onNoMatch)
  from err.prems(2) show ?case by simp
next
  case (found root d res' om onNoMatch)
  then have "later root d d'" by (auto simp: later_def intro: all_onmatches_root)
  from found.IH [OF this] found.prems have "yields root d' (Inr res')" by simp
  with found.hyps show ?case by (blast intro: yields.found)
next
  case (recurse root d res' om m r onNoMatch)
  then have root: "later root d d'" by (auto simp: later_def intro: all_onmatches_root)
  have "\<not> NeedMoreData res'" using yields_match [OF recurse.hyps(1) refl recurse.hyps(2)] by simp
  from recurse.IH(1) [OF root refl this] have "yields root d' (Inr res')" .
  moreover have "later m d d'"
    using yields_all_onmatches [OF recurse.hyps(1) _ refl recurse.hyps(2), of "later_onmatch d d'"]
      root recurse.hyps(3) by (simp add: later_def)
  then have "yields m d' r" using recurse.IH(2) recurse.prems by blast
  ultimately show ?case using recurse.hyps by (blast intro: yields.recurse)
next
  case (more root d res' onNoMatch)
  from more.prems more.hyps show ?case by simp
next
  case (none root d res' onNoMatch)
  then have "later root d d'" by (auto simp: later_def intro: all_onmatches_root)
  from none.IH [OF this refl none.hyps(3)] none.hyps show ?case by (blast intro: yields.none)
qed

text \<open>C4: a decision taken before all data is there is final.  When every input of the tree is read
  later at \<open>d'\<close> than at \<open>d\<close> (what was completely available is unchanged, what an eager match found
  is still found, nothing fails to be read), a result at \<open>d\<close> that does not ask for more data is the
  result at \<open>d'\<close>, whatever was logged before: the conjunctions, disjunctions, lists and trees wait
  for the data they need.\<close>

theorem early_decision_is_final:
  assumes "later m d d'" and "Match m d l = Some (Inr res, l1)" and "\<not> NeedMoreData res"
  shows "\<exists>l2. Match m d' l' = Some (Inr res, l2)"
  using assms Match_iff_yields yields_later by metis

text \<open>A tree for the witnesses: a list with one entry, a disjunction of a test on the first part of
  a pair, which may still grow, and one on the second.\<close>

definition first_input :: "(DataInputResult \<times> DataInputResult) DataInput" where
  "first_input d = Inr (fst d)"

definition second_input :: "(DataInputResult \<times> DataInputResult) DataInput" where
  "second_input d = Inr (snd d)"

definition sample_tree :: "(DataInputResult \<times> DataInputResult, string) Matcher" where
  "sample_tree = MatcherTree (Some (OnMatch None (Some ''otherwise'')))
     (matcherList [matchEntry (Some (OnMatch None (Some ''allow'')))
        (disjunctionPredicate [singlePredicate first_input (regexMatcher (\<lambda>s. s = ''a'')),
                               singlePredicate second_input (regexMatcher (\<lambda>s. s = ''b''))])])"

abbreviation reading :: "DataInputAvailability \<Rightarrow> string option \<Rightarrow> DataInputResult" where
  "reading a s \<equiv> \<lparr>Availability = a, Data = s\<rparr>"

lemma all_onmatches_leaf:
  "(\<And>om. om \<in> onmatches m \<Longrightarrow> P om \<and> om_Matcher om = None) \<Longrightarrow> all_onmatches P m"
  by (rule all_onmatchesI) simp

theorem early_decision_is_final_witness:
  "\<exists>l2. Match sample_tree (reading AllDataAvailable (Some ''x''), reading AllDataAvailable (Some ''b''))
          new_tracingLogger
        = Some (Inr \<lparr>MatchResult = Some (OnMatch None (Some ''allow'')), NeedMoreData = False\<rparr>, l2)"
proof -
  let ?d = "(reading NotAvailable None, reading MoreDataMightBeAvailable (Some ''b''))"
  let ?d' = "(reading AllDataAvailable (Some ''x''), reading AllDataAvailable (Some ''b''))"
  let ?res = "\<lparr>MatchResult = Some (OnMatch None (Some ''allow'')), NeedMoreData = False\<rparr>"
  have "all_onmatches (later_onmatch ?d ?d') sample_tree"
    by (rule all_onmatches_leaf) (auto simp: sample_tree_def)
  then have later: "later sample_tree ?d ?d'"
    by (simp add: later_def sample_tree_def first_input_def second_input_def settled_def readable_def
        regex_match_def)
  have "yields sample_tree ?d (Inr ?res)"
  proof -
    let ?mes = "[matchEntry (Some (OnMatch None (Some ''allow'')))
       (disjunctionPredicate [singlePredicate first_input (regexMatcher (\<lambda>s. s = ''a'')),
          singlePredicate second_input (regexMatcher (\<lambda>s. s = ''b''))])]
         :: (DataInputResult \<times> DataInputResult, string) matchEntry list"
    have "list_answer ?mes ?d = Inr ?res"
      by (simp add: single_answer_def input_answer_def first_input_def second_input_def regex_match_def)
    with yields.list [of ?mes ?d] have "yields (matcherList ?mes) ?d (Inr ?res)" by simp
    then show ?thesis
      unfolding sample_tree_def by (rule yields.found) (simp, rule OnMatch.sel(1))
  qed
  then obtain l1 where "Match sample_tree ?d new_tracingLogger = Some (Inr ?res, l1)"
    using Match_iff_yields [of sample_tree ?d new_tracingLogger "Inr ?res"] by blast
  from early_decision_is_final [OF later this] show ?thesis by simp
qed

definition sample_registry :: "(string option, unit, string) registry" where
  "sample_registry =
     \<lparr>InputExtensions = (\<lambda>_. Some (\<lambda>_. Inr (Some ''input''))),
      ActionExtensions = (\<lambda>url. if url = ''action'' then Some (\<lambda>_. Inr (Some ''allow'')) else None),
      UnmarshalNew = (\<lambda>_. Inr ()), as_DataInput = (\<lambda>_. Some (\<lambda>d. Inr (reading AllDataAvailable d))),
      regexp_Compile = (\<lambda>r. Inr (\<lambda>s. s = r))\<rparr>"

definition sample_config :: pb_Matcher where
  "sample_config =
     pb_Matcher None (Matcher_MatcherList (Some
       [FieldMatcher
          (Some (OnMatch_Action (Some \<lparr>tec_TypedConfig = Some \<lparr>any_type_url = ''action'', any_value = []\<rparr>\<rparr>)))
          (Some (SinglePredicate (Some
             \<lparr>sp_Input = Some \<lparr>tec_TypedConfig = Some \<lparr>any_type_url = ''input'', any_value = []\<rparr>\<rparr>,
              sp_Matcher = Some (ValueMatch (Some
                \<lparr>pb_MatchPattern = Some (StringMatcher_SafeRegex (Some ''a''))\<rparr>))\<rparr>)))]))"

theorem created_trees_are_typed_witness:
  "\<exists>m l. Create sample_registry (Some sample_config) = Inr (m, l) \<and> typed_tree m"
proof -
  have "\<exists>m. create sample_registry (Some sample_config) = Inr m"
    by (simp add: sample_config_def sample_registry_def ResolveActionExtension_def resolveExtension_def
        createSinglePredicate_def ResolveInputExtension_def createValueMatcher_def)
  then obtain m where m: "Create sample_registry (Some sample_config) = Inr (m, new_tracingLogger)"
    by (auto simp: Create_def)
  have "actions_not_nil sample_registry"
    by (simp add: actions_not_nil_def sample_registry_def)
  from created_trees_are_typed [OF this m] m show ?thesis by blast
qed

section \<open>Falling back\<close>

text \<open>C32: a fallback is not evaluated.  When nothing below a tree matches and its \<open>on_no_match\<close> is
  another tree, the result is the node with that tree, unevaluated, although no more data is needed:
  a caller that looks for an action finds none, whatever the tree would have matched.  And when a
  nested tree without a fallback fails to match, the \<open>on_no_match\<close> of the tree around it is not used
  either.\<close>

theorem on_no_match_is_not_evaluated:
  assumes "Match root data l = Some (Inr \<lparr>MatchResult = None, NeedMoreData = False\<rparr>, l1)"
  shows "(\<exists>l2. Match (MatcherTree (Some (OnMatch (Some sub) None)) root) data l
            = Some (Inr \<lparr>MatchResult = Some (OnMatch (Some sub) None), NeedMoreData = False\<rparr>, l2)) \<and>
    (\<exists>l2. Match (MatcherTree (Some fallback)
                   (matcherList [matchEntry (Some (OnMatch (Some (MatcherTree None root)) None))
                      (conjunctionPredicate [])])) data l
            = Some (Inr \<lparr>MatchResult = None, NeedMoreData = False\<rparr>, l2))"
proof -
  let ?none = "Inr \<lparr>MatchResult = None, NeedMoreData = False\<rparr>"
  let ?mes = "[matchEntry (Some (OnMatch (Some (MatcherTree None root)) None)) (conjunctionPredicate [])]"
  from assms have root: "yields root data ?none" by (rule Match_yields)
  have "yields (MatcherTree (Some (OnMatch (Some sub) None)) root) data
          (Inr \<lparr>MatchResult = Some (OnMatch (Some sub) None), NeedMoreData = False\<rparr>)"
    by (rule yields.none [OF root]) simp_all
  moreover have "yields (MatcherTree (Some fallback) (matcherList ?mes)) data ?none"
  proof (rule yields.recurse)
    show "yields (matcherList ?mes) data
            (Inr \<lparr>MatchResult = Some (OnMatch (Some (MatcherTree None root)) None), NeedMoreData = False\<rparr>)"
      using yields.list [of ?mes data] by simp
    show "yields (MatcherTree None root) data ?none"
      by (rule yields.none [OF root]) simp_all
    show "om_Matcher (OnMatch (Some (MatcherTree None root)) None) = Some (MatcherTree None root)" by simp
  qed simp
  ultimately show ?thesis by (simp add: Match_iff_yields)
qed

theorem on_no_match_is_not_evaluated_witness:
  "\<exists>l2. Match (MatcherTree (Some (OnMatch (Some (MatcherTree (Some (OnMatch None (Some ''allow''))) (matcherList []))) None))
          (matcherList [])) () new_tracingLogger
        = Some (Inr \<lparr>MatchResult = Some (OnMatch (Some (MatcherTree (Some (OnMatch None (Some ''allow''))) (matcherList []))) None),
                     NeedMoreData = False\<rparr>, l2)"
proof -
  have "yields (matcherList [] :: (unit, string) Matcher) () (Inr \<lparr>MatchResult = None, NeedMoreData = False\<rparr>)"
    using yields.list [of "[]" "()"] by simp
  from yields_Match [OF this] obtain l1 where "Match (matcherList [] :: (unit, string) Matcher) () new_tracingLogger
      = Some (Inr \<lparr>MatchResult = None, NeedMoreData = False\<rparr>, l1)" ..
  from on_no_match_is_not_evaluated [OF this] show ?thesis by blast
qed

end
