(* ===== verification/Conversion.thy ===== *)
theory Conversion
  imports XdsPrelude
begin

text \<open>
  Three small packages: the conversion between messages and structs
  (\<open>pkg/conversion/struct.go\<close>), the loggers (\<open>pkg/log/log.go\<close>, \<open>default.go\<close>) and the YAML helper of
  the matcher (\<open>xdsmatcher/internal/proto/proto.go\<close>).  JSON, YAML and the protobuf runtime are
  parameters.
\<close>

section \<open>Messages and structs\<close>

datatype 'e conversion_error = NilMessage | NilStruct | RuntimeError 'e

definition MessageToStruct ::
    "('m \<Rightarrow> 'e + bytes) \<Rightarrow> (bytes \<Rightarrow> 'e + 's) \<Rightarrow> 'm option \<Rightarrow> 'e conversion_error + 's" where
  "MessageToStruct json_Marshal json_Unmarshal msg =
     (case msg of
        None \<Rightarrow> Inl NilMessage
      | Some msg \<Rightarrow>
          (case json_Marshal msg of
             Inl err \<Rightarrow> Inl (RuntimeError err)
           | Inr b \<Rightarrow> (case json_Unmarshal b of Inl err \<Rightarrow> Inl (RuntimeError err) | Inr pbs \<Rightarrow> Inr pbs)))"

text \<open>\<open>out\<close> is the message that is filled in.\<close>

definition StructToMessage ::
    "('s \<Rightarrow> 'e + bytes) \<Rightarrow> (bytes \<Rightarrow> 'm \<Rightarrow> 'e + 'm) \<Rightarrow> 's option \<Rightarrow> 'm \<Rightarrow> 'e conversion_error + 'm" where
  "StructToMessage json_Marshal json_Unmarshal pbst out =
     (case pbst of
        None \<Rightarrow> Inl NilStruct
      | Some pbst \<Rightarrow>
          (case json_Marshal pbst of
             Inl err \<Rightarrow> Inl (RuntimeError err)
           | Inr b \<Rightarrow> (case json_Unmarshal b out of Inl err \<Rightarrow> Inl (RuntimeError err) | Inr m \<Rightarrow> Inr m)))"

text \<open>What is sent through a struct and back is the message itself when the JSON of the runtime is.\<close>

lemma struct_round_trip:
  assumes "\<And>m b out. marshal m = Inr b \<Longrightarrow> unmarshal b out = Inr m"
    and "\<And>b s. unmarshal_struct b = Inr s \<Longrightarrow> marshal_struct s = Inr b"
    and "MessageToStruct marshal unmarshal_struct (Some m) = Inr s"
  shows "StructToMessage marshal_struct unmarshal (Some s) out = Inr m"
proof -
  from assms(3) obtain b where "marshal m = Inr b" and "unmarshal_struct b = Inr s"
    by (auto simp: MessageToStruct_def split: sum.splits)
  from assms(1) [OF this(1)] assms(2) [OF this(2)] show ?thesis by (simp add: StructToMessage_def)
qed

section \<open>Loggers\<close>

text \<open>The functions of a logger are there for their effect, a value \<open>'e\<close>; \<open>'a\<close> is a list of arguments.\<close>

record ('a, 'e) LoggerFuncs =
  DebugFunc :: "(string \<Rightarrow> 'a \<Rightarrow> 'e) option"
  InfoFunc :: "(string \<Rightarrow> 'a \<Rightarrow> 'e) option"
  WarnFunc :: "(string \<Rightarrow> 'a \<Rightarrow> 'e) option"
  ErrorFunc :: "(string \<Rightarrow> 'a \<Rightarrow> 'e) option"

definition Debugf :: "('a, 'e) LoggerFuncs \<Rightarrow> string \<Rightarrow> 'a \<Rightarrow> 'e list" where
  "Debugf l format args = (case DebugFunc l of None \<Rightarrow> [] | Some f \<Rightarrow> [f format args])"

definition Infof :: "('a, 'e) LoggerFuncs \<Rightarrow> string \<Rightarrow> 'a \<Rightarrow> 'e list" where
  "Infof l format args = (case InfoFunc l of None \<Rightarrow> [] | Some f \<Rightarrow> [f format args])"

definition Warnf :: "('a, 'e) LoggerFuncs \<Rightarrow> string \<Rightarrow> 'a \<Rightarrow> 'e list" where
  "Warnf l format args = (case WarnFunc l of None \<Rightarrow> [] | Some f \<Rightarrow> [f format args])"

definition Errorf :: "('a, 'e) LoggerFuncs \<Rightarrow> string \<Rightarrow> 'a \<Rightarrow> 'e list" where
  "Errorf l format args = (case ErrorFunc l of None \<Rightarrow> [] | Some f \<Rightarrow> [f format args])"

text \<open>The default logger does nothing.\<close>

definition NewDefaultLogger :: "('a, 'e) LoggerFuncs" where
  "NewDefaultLogger = \<lparr>DebugFunc = None, InfoFunc = None, WarnFunc = None, ErrorFunc = None\<rparr>"

lemma default_logger_is_silent:
  "Debugf NewDefaultLogger format args = []" "Infof NewDefaultLogger format args = []"
  "Warnf NewDefaultLogger format args = []" "Errorf NewDefaultLogger format args = []"
  by (simp_all add: Debugf_def Infof_def Warnf_def Errorf_def NewDefaultLogger_def)

section \<open>YAML\<close>

text \<open>
  What \<open>yaml.Unmarshal\<close> puts into an interface, and the maps with string keys that
  \<open>json.Marshal\<close> accepts.
\<close>

datatype 's goval =
    MapAny "('s goval \<times> 's goval) list"
  | MapString "(string \<times> 's goval) list"
  | Slice "'s goval list"
  | Text string
  | Scalar 's

text \<open>A key that is not a string fails a type assertion, which panics.\<close>

datatype key_panic = KeyPanic

datatype 'e yaml_error = YamlError 'e | YamlPanic key_panic

fun convert :: "'s goval \<Rightarrow> key_panic + 's goval"
  and convert_pairs ::
    "('s goval \<times> 's goval) list \<Rightarrow> (string \<times> 's goval) list \<Rightarrow> key_panic + (string \<times> 's goval) list"
  and convert_items :: "'s goval list \<Rightarrow> key_panic + 's goval list"
where
  "convert (MapAny kvs) = (case convert_pairs kvs [] of Inl err \<Rightarrow> Inl err | Inr m2 \<Rightarrow> Inr (MapString m2))"
| "convert (Slice xs) = (case convert_items xs of Inl err \<Rightarrow> Inl err | Inr ys \<Rightarrow> Inr (Slice ys))"
| "convert (MapString m) = Inr (MapString m)"
| "convert (Text s) = Inr (Text s)"
| "convert (Scalar s) = Inr (Scalar s)"
| "convert_pairs [] m2 = Inr m2"
| "convert_pairs ((k, v) # kvs) m2 =
     (case convert v of
        Inl err \<Rightarrow> Inl err
      | Inr v' \<Rightarrow>
          (case k of
             Text key \<Rightarrow> convert_pairs kvs (mput key v' m2)
           | _ \<Rightarrow> Inl KeyPanic))"
| "convert_items [] = Inr []"
| "convert_items (x # xs) =
     (case convert x of
        Inl err \<Rightarrow> Inl err
      | Inr y \<Rightarrow> (case convert_items xs of Inl err \<Rightarrow> Inl err | Inr ys \<Rightarrow> Inr (y # ys)))"

definition ProtoFromYaml ::
    "('b \<Rightarrow> 'e + 's goval) \<Rightarrow> ('s goval \<Rightarrow> 'e + bytes) \<Rightarrow> (bytes \<Rightarrow> 'e + 'm) \<Rightarrow> 'b \<Rightarrow> 'e yaml_error + 'm" where
  "ProtoFromYaml yaml_Unmarshal json_Marshal proto_Unmarshal s =
     (case yaml_Unmarshal s of
        Inl err \<Rightarrow> Inl (YamlError err)
      | Inr obj \<Rightarrow>
          (case convert obj of
             Inl err \<Rightarrow> Inl (YamlPanic err)
           | Inr obj \<Rightarrow>
               (case json_Marshal obj of
                  Inl err \<Rightarrow> Inl (YamlError err)
                | Inr rawJSON \<Rightarrow>
                    (case proto_Unmarshal rawJSON of
                       Inl err \<Rightarrow> Inl (YamlError err)
                     | Inr m \<Rightarrow> Inr m))))"

text \<open>A value that JSON can hold: no map has keys of any type.\<close>

fun json_ready :: "'s goval \<Rightarrow> bool" where
  "json_ready (MapAny kvs) \<longleftrightarrow> False"
| "json_ready (MapString m) \<longleftrightarrow> (\<forall>kv \<in> set m. json_ready (snd kv))"
| "json_ready (Slice xs) \<longleftrightarrow> (\<forall>x \<in> set xs. json_ready x)"
| "json_ready _ \<longleftrightarrow> True"

text \<open>What YAML makes: maps with keys of any type only.\<close>

fun from_yaml :: "'s goval \<Rightarrow> bool" where
  "from_yaml (MapAny kvs) \<longleftrightarrow> (\<forall>kv \<in> set kvs. from_yaml (snd kv))"
| "from_yaml (MapString m) \<longleftrightarrow> False"
| "from_yaml (Slice xs) \<longleftrightarrow> (\<forall>x \<in> set xs. from_yaml x)"
| "from_yaml _ \<longleftrightarrow> True"

lemma convert_json_ready:
  fixes x :: "'s goval" and kvs :: "('s goval \<times> 's goval) list" and xs :: "'s goval list"
  shows "\<forall>y. from_yaml x \<longrightarrow> convert x = (Inr y) \<longrightarrow> json_ready y"
  and "\<forall>m. (\<forall>kv \<in> set kvs. from_yaml (snd kv)) \<longrightarrow> (\<forall>kv \<in> set m0. json_ready (snd kv)) \<longrightarrow>
     convert_pairs kvs m0 = (Inr m) \<longrightarrow> (\<forall>kv \<in> set m. json_ready (snd kv))"
  and "\<forall>ys. (\<forall>x \<in> set xs. from_yaml x) \<longrightarrow> convert_items xs = (Inr ys) \<longrightarrow> (\<forall>y \<in> set ys. json_ready y)"
proof (induction x and kvs m0 and xs rule: convert_convert_pairs_convert_items.induct)
  case (7 k v kvs m2)
  show ?case
  proof (cases "convert v")
    case (Inr v')
    show ?thesis
    proof (cases k)
      case (Text key)
      have "\<forall>kv \<in> set (mput key v' m2). json_ready (snd kv)"
        if "from_yaml v" "\<forall>kv \<in> set m2. json_ready (snd kv)"
        using set_mput [of key v' m2] 7(1) that Inr by auto
      with 7(2) [OF Inr Text] Inr Text show ?thesis by simp
    qed (simp_all add: Inr)
  qed simp
next
  case (1 kvs)
  then show ?case by (cases "convert_pairs kvs []") auto
next
  case (2 xs)
  then show ?case by (cases "convert_items xs") auto
next
  case (9 x xs)
  then show ?case by (cases "convert x"; cases "convert_items xs") auto
qed simp_all

end
