(* ===== verification/Validation.thy ===== *)
theory Validation
  imports Strconv "HOL-Library.List_Lexorder" "HOL-Library.Char_ord"
begin

text \<open>
  The frame of the validation functions (\<open>*.pb.validate.go\<close>): every message type has a function
  \<open>validate(all)\<close>, which \<open>Validate\<close> calls with false and \<open>ValidateAll\<close> with true.  It checks the
  fields in turn; with \<open>all\<close> it collects the errors, without it returns the first one.  The functions
  are built from a few statements, which are defined here once; the theories that follow hold the
  messages and, for each, the list of its statements in the order of the code.

  A pointer to a message is an option, with \<open>None\<close> for nil.  The value of a oneof field is a pointer
  to a wrapper struct: \<open>None\<close> for the nil interface, and the pointer in it is an option again, since an
  interface may hold a nil pointer of one of the wrapper types (a typed nil).
\<close>

section \<open>Errors\<close>

text \<open>The field \<open>key\<close> of the error types, which the messages here never set, is left out.\<close>

datatype verror =
    ValidationError (ve_message: string) (ve_field: string) (ve_reason: string) (ve_cause: "verror option")
  | MultiError string "verror list"
  | RuntimeError string

type_synonym 'm validator = "bool \<Rightarrow> 'm option \<Rightarrow> go_error + verror option"

definition join_with :: "string \<Rightarrow> string list \<Rightarrow> string" where
  "join_with sep xs = concat (case xs of [] \<Rightarrow> [] | x # xs \<Rightarrow> x # map (\<lambda>y. sep @ y) xs)"

fun verror_Error :: "verror \<Rightarrow> string" where
  "verror_Error (ValidationError msg field reason cause) =
     ''invalid '' @ msg @ ''.'' @ field @ '': '' @ reason @
     (case cause of None \<Rightarrow> '''' | Some e \<Rightarrow> '' | caused by: '' @ verror_Error e)"
| "verror_Error (MultiError msg es) = join_with ''; '' (map verror_Error es)"
| "verror_Error (RuntimeError s) = s"

section \<open>Statements\<close>

text \<open>
  What a statement does with the errors collected so far: go on, return an error, or panic.  A
  statement knows the name of its message, which is the name of the error types it uses.
\<close>

datatype vflow = Continue "verror list" | Return verror | Panic go_error

type_synonym vstmt = "string \<Rightarrow> bool \<Rightarrow> verror list \<Rightarrow> vflow"

definition skip :: vstmt where
  "skip msg all errs = Continue errs"

fun stmts :: "vstmt list \<Rightarrow> vstmt" where
  "stmts [] msg all errs = Continue errs"
| "stmts (s # ss) msg all errs =
     (case s msg all errs of
        Continue errs' \<Rightarrow> stmts ss msg all errs'
      | Return e \<Rightarrow> Return e
      | Panic p \<Rightarrow> Panic p)"

text \<open>\<open>err := ...; if !all { return err }; errors = append(errors, err)\<close>\<close>

definition fail_with :: "(string \<Rightarrow> verror) \<Rightarrow> vstmt" where
  "fail_with err msg all errs = (if \<not> all then Return (err msg) else Continue (errs @ [err msg]))"

definition violation :: "string \<Rightarrow> string \<Rightarrow> vstmt" where
  "violation field reason = fail_with (\<lambda>msg. ValidationError msg field reason None)"

definition check :: "bool \<Rightarrow> string \<Rightarrow> string \<Rightarrow> vstmt" where
  "check bad field reason = (if bad then violation field reason else skip)"

text \<open>The check of an embedded message that has \<open>Validate\<close> and \<open>ValidateAll\<close>.\<close>

definition embed :: "string \<Rightarrow> 'm validator \<Rightarrow> 'm option \<Rightarrow> vstmt" where
  "embed field v m msg all errs =
     (case v all m of
        Inl p \<Rightarrow> Panic p
      | Inr None \<Rightarrow> Continue errs
      | Inr (Some e) \<Rightarrow>
          fail_with (\<lambda>msg. ValidationError msg field ''embedded message failed validation'' (Some e)) msg all errs)"

text \<open>\<open>for idx, item := range xs\<close>, and the loop over the sorted keys of a map.\<close>

definition index_field :: "string \<Rightarrow> string \<Rightarrow> string" where
  "index_field field i = field @ ''['' @ i @ '']''"

definition each :: "(string \<Rightarrow> 'a \<Rightarrow> vstmt) \<Rightarrow> 'a list \<Rightarrow> vstmt" where
  "each f xs = stmts (map (\<lambda>(i, x). f (fmt_nat i) x) (enumerate 0 xs))"

definition each_key :: "(string \<Rightarrow> 'a option \<Rightarrow> vstmt) \<Rightarrow> (string, 'a option) gomap \<Rightarrow> vstmt" where
  "each_key f m = stmts (map (\<lambda>k. f k (mget_or None m k)) (sort (mkeys m)))"

text \<open>A loop that keeps a set of the items it has seen, and rules for a string that may be empty.\<close>

definition each_unique :: "(string \<Rightarrow> bool \<Rightarrow> 'a \<Rightarrow> vstmt) \<Rightarrow> 'a list \<Rightarrow> vstmt" where
  "each_unique f xs = stmts (map (\<lambda>(i, x). f (fmt_nat i) (x \<in> set (take i xs)) x) (enumerate 0 xs))"

definition guarded :: "bool \<Rightarrow> vstmt \<Rightarrow> vstmt" where
  "guarded b s = (if b then s else skip)"

text \<open>
  A case of the switch over a oneof: a typed nil is an error, and then the body runs, whose getter
  dereferences the pointer.  A case without rules for its value reads nothing.
\<close>

definition nil_dereference :: vstmt where
  "nil_dereference msg all errs = Panic PanicNilDereference"

definition typed_nil :: "string \<Rightarrow> vstmt" where
  "typed_nil field = violation field ''oneof value cannot be a typed-nil''"

definition oneof_case :: "string \<Rightarrow> 'a option \<Rightarrow> ('a \<Rightarrow> vstmt) \<Rightarrow> vstmt" where
  "oneof_case field w body =
     (case w of None \<Rightarrow> stmts [typed_nil field, nil_dereference] | Some v \<Rightarrow> body v)"

definition oneof_unread :: "string \<Rightarrow> 'a option \<Rightarrow> vstmt" where
  "oneof_unread field w = (case w of None \<Rightarrow> typed_nil field | Some v \<Rightarrow> skip)"

text \<open>The whole function.\<close>

definition validate :: "string \<Rightarrow> ('m \<Rightarrow> vstmt list) \<Rightarrow> 'm validator" where
  "validate msg body all m =
     (case m of
        None \<Rightarrow> Inr None
      | Some m \<Rightarrow>
          (case stmts (body m) msg all [] of
             Panic p \<Rightarrow> Inl p
           | Return e \<Rightarrow> Inr (Some e)
           | Continue errs \<Rightarrow> if errs \<noteq> [] then Inr (Some (MultiError msg errs)) else Inr None))"

text \<open>A recursive message calls its function inside the statements: only on what it holds.\<close>

lemma embed_cong [fundef_cong]:
  "field = field' \<Longrightarrow> m = m' \<Longrightarrow> (\<And>all. v all m' = v' all m') \<Longrightarrow> embed field v m = embed field' v' m'"
  by (simp add: embed_def fun_eq_iff)

lemma size_in_list: "x \<in> set xs \<Longrightarrow> size_option size x \<le> size_list (size_option size) xs"
  by (induction xs) auto

lemma in_enumerateD: "(i, x) \<in> set (enumerate k xs) \<Longrightarrow> x \<in> set xs"
  by (metis image_eqI map_snd_enumerate set_map snd_conv)

lemma each_cong [fundef_cong]:
  "xs = ys \<Longrightarrow> (\<And>i x. x \<in> set ys \<Longrightarrow> f i x = g i x) \<Longrightarrow> each f xs = each g ys"
  unfolding each_def by (rule arg_cong [where f = stmts], rule map_cong) (auto dest: in_enumerateD)

lemma oneof_case_cong [fundef_cong]:
  "field = field' \<Longrightarrow> w = w' \<Longrightarrow> (\<And>v. w' = Some v \<Longrightarrow> body v = body' v) \<Longrightarrow>
     oneof_case field w body = oneof_case field' w' body'"
  by (simp add: oneof_case_def split: option.split)

lemma validate_cong [fundef_cong]:
  "m = m' \<Longrightarrow> (\<And>x. m' = Some x \<Longrightarrow> body x = body' x) \<Longrightarrow> validate msg body all m = validate msg body' all m'"
  by (simp add: validate_def split: option.split)

section \<open>What the rules read\<close>

text \<open>
  \<open>utf8.RuneCountInString\<close>: a valid encoding of a rune counts as one, and so does every byte that is
  not part of one.
\<close>

definition in_bytes :: "nat \<Rightarrow> nat \<Rightarrow> char \<Rightarrow> bool" where
  "in_bytes lo hi c \<longleftrightarrow> lo \<le> of_char c \<and> of_char c \<le> hi"

definition second_bytes :: "char \<Rightarrow> char \<Rightarrow> bool" where
  "second_bytes c =
     (if of_char c = (0xE0::nat) then in_bytes 0xA0 0xBF
      else if of_char c = (0xED::nat) then in_bytes 0x80 0x9F
      else if of_char c = (0xF0::nat) then in_bytes 0x90 0xBF
      else if of_char c = (0xF4::nat) then in_bytes 0x80 0x8F
      else in_bytes 0x80 0xBF)"

definition rune_width :: "string \<Rightarrow> nat" where
  "rune_width s =
     (case s of
        c # d # rest \<Rightarrow>
          if \<not> second_bytes c d then 1
          else if in_bytes 0xC2 0xDF c then 2
          else (case rest of
             e # rest' \<Rightarrow>
               if \<not> in_bytes 0x80 0xBF e then 1
               else if in_bytes 0xE0 0xEF c then 3
               else (case rest' of
                  f # _ \<Rightarrow> if in_bytes 0xF0 0xF4 c \<and> in_bytes 0x80 0xBF f then 4 else 1
                | [] \<Rightarrow> 1)
           | [] \<Rightarrow> 1)
      | _ \<Rightarrow> 1)"

lemma rune_width_pos: "0 < rune_width s"
  by (auto simp: rune_width_def split: list.split)

function RuneCountInString :: "string \<Rightarrow> nat" where
  "RuneCountInString s = (if s = [] then 0 else Suc (RuneCountInString (drop (rune_width s) s)))"
  by auto

termination
  by (relation "measure length") (auto simp: rune_width_pos)

declare RuneCountInString.simps [simp del]

lemma RuneCountInString_0 [simp]: "RuneCountInString s = 0 \<longleftrightarrow> s = []"
  by (subst RuneCountInString.simps) simp

lemma RuneCountInString_pos [simp]: "0 < RuneCountInString s \<longleftrightarrow> s \<noteq> []"
  using RuneCountInString_0 [of s] by linarith

definition HasSuffix :: "string \<Rightarrow> string \<Rightarrow> bool" where
  "HasSuffix s p \<longleftrightarrow> drop (length s - length p) s = p"

text \<open>The pattern \<open>^[^\x00\n\r]*$\<close>.\<close>

definition matches_no_control :: "string \<Rightarrow> bool" where
  "matches_no_control s \<longleftrightarrow> list_all (\<lambda>c. c \<notin> {CHR 0x00, CHR 0x0A, CHR 0x0D}) s"

definition no_control_reason :: string where
  "no_control_reason = ''value does not match regex pattern '' @ CHR 0x22 # ''^[^'' @ CHR 0x5C # ''x00'' @
     CHR 0x5C # ''n'' @ CHR 0x5C # ''r]*$'' @ [CHR 0x22]"

text \<open>
  The pattern \<open>^[^\x00-\b\n-\x1f\x7f]*$\<close> of header values, the pattern
  \<open>^:?[0-9a-zA-Z!#$%&'*+-.^_|~`]+$\<close> of header names, and the pattern \<open>^[^?#]+[^?#/]$\<close>, which takes two
  runes; a byte that is not part of a rune counts as one, and is in every complement.
\<close>

definition matches_header_value :: "string \<Rightarrow> bool" where
  "matches_header_value s \<longleftrightarrow> list_all (\<lambda>c. \<not> in_bytes 0 8 c \<and> \<not> in_bytes 0xA 0x1F c \<and> c \<noteq> CHR 0x7F) s"

definition header_value_reason :: string where
  "header_value_reason = ''value does not match regex pattern '' @ CHR 0x22 # ''^[^'' @ CHR 0x5C # ''x00-'' @
     CHR 0x5C # ''b'' @ CHR 0x5C # ''n-'' @ CHR 0x5C # ''x1f'' @ CHR 0x5C # ''x7f]*$'' @ [CHR 0x22]"

definition header_name_char :: "char \<Rightarrow> bool" where
  "header_name_char c \<longleftrightarrow> in_bytes 0x30 0x39 c \<or> in_bytes 0x61 0x7A c \<or> in_bytes 0x41 0x5A c \<or> in_bytes 0x2B 0x2E c \<or>
     c \<in> {CHR ''!'', CHR ''#'', CHR ''$'', CHR ''%'', CHR ''&'', CHR 0x27, CHR ''*'', CHR ''^'', CHR ''_'', CHR ''|'',
       CHR ''~'', CHR 0x60}"

definition matches_header_name :: "string \<Rightarrow> bool" where
  "matches_header_name s =
     (let rest = (case s of c # cs \<Rightarrow> if c = CHR '':'' then cs else s | [] \<Rightarrow> s)
      in rest \<noteq> [] \<and> list_all header_name_char rest)"

definition header_name_reason :: string where
  "header_name_reason = ''value does not match regex pattern '' @ CHR 0x22 # ''^:?[0-9a-zA-Z!#$%&'' @ CHR 0x27 #
     ''*+-.^_|~'' @ CHR 0x60 # '']+$'' @ [CHR 0x22]"

definition matches_separated_path :: "string \<Rightarrow> bool" where
  "matches_separated_path s \<longleftrightarrow>
     2 \<le> RuneCountInString s \<and> list_all (\<lambda>c. c \<notin> {CHR ''?'', CHR ''#''}) s \<and> last s \<noteq> CHR ''/''"

definition separated_path_reason :: string where
  "separated_path_reason = ''value does not match regex pattern '' @ CHR 0x22 # ''^[^?#]+[^?#/]$'' @ [CHR 0x22]"

text \<open>
  64-bit floats, as far as a comparison sees them: a finite one is a mantissa times a power of two.
\<close>

datatype float64 = NaN | NegInf | Finite (mantissa: int) (exponent: int) | PosInf

fun float_le :: "float64 \<Rightarrow> float64 \<Rightarrow> bool" where
  "float_le NaN y = False"
| "float_le x NaN = False"
| "float_le NegInf y = True"
| "float_le x PosInf = True"
| "float_le (Finite m e) (Finite n f) = (m * 2 ^ nat (e - f) \<le> n * 2 ^ nat (f - e))"
| "float_le x y = False"

definition float_less :: "float64 \<Rightarrow> float64 \<Rightarrow> bool" where
  "float_less x y \<longleftrightarrow> float_le x y \<and> \<not> float_le y x"

text \<open>
  The code that is not in the repository: durations of the protobuf runtime in nanoseconds, their
  check, and the validation functions of the \<open>cncf/xds\<close> messages, which are kept as bytes.
\<close>

record Duration =
  Seconds :: int64
  Nanos :: "32 word"

record vlib =
  AsDuration :: "Duration \<Rightarrow> int"
  CheckValid :: "Duration \<Rightarrow> string option"
  Authority_validate :: "bytes validator"
  CollectionEntry_validate :: "bytes validator"
  ContextParams_validate :: "bytes validator"
  xds_Matcher_validate :: "bytes validator"
  xds_CidrRange_validate :: "bytes validator"
  xds_TypedExtensionConfig_validate :: "bytes validator"

text \<open>The rule of a duration field: it is valid, and not \<open>bad\<close>.\<close>

definition check_duration :: "vlib \<Rightarrow> Duration option \<Rightarrow> (int \<Rightarrow> bool) \<Rightarrow> string \<Rightarrow> string \<Rightarrow> vstmt" where
  "check_duration V d bad field reason =
     (case d of
        None \<Rightarrow> skip
      | Some d \<Rightarrow>
          (case CheckValid V d of
             Some err \<Rightarrow> fail_with (\<lambda>msg. ValidationError msg field ''value is not a valid duration''
               (Some (RuntimeError err)))
           | None \<Rightarrow> check (bad (AsDuration V d)) field reason))"

definition duration_of :: "int \<Rightarrow> int \<Rightarrow> int" where
  "duration_of seconds nanos = seconds * 1000000000 + nanos"

end
