(* ===== verification/ValidationFacts.thy ===== *)
theory ValidationFacts
  imports Validation
begin

text \<open>
  What holds of every function built from the statements of Validation: \<open>Validate\<close> and
  \<open>ValidateAll\<close> agree, and what it takes to pass.
\<close>

named_theorems lawful_intros \<open>statements and functions whose two modes agree\<close>
named_theorems pass_simps \<open>what it takes to pass a statement or a function\<close>

section \<open>The two modes agree\<close>

text \<open>The error the early return gives for what the other mode collects.\<close>

fun first_error :: "verror \<Rightarrow> verror" where
  "first_error (MultiError msg (e # es)) = first_error e"
| "first_error (MultiError msg []) = MultiError msg []"
| "first_error (ValidationError msg field reason cause) =
     ValidationError msg field reason (map_option first_error cause)"
| "first_error (RuntimeError s) = RuntimeError s"

text \<open>
  A function is lawful when \<open>Validate\<close> returns, \<open>ValidateAll\<close> accepts exactly what \<open>Validate\<close> accepts,
  and unless it panics its first error is the one \<open>Validate\<close> returns.
\<close>

definition lawful_at :: "'m validator \<Rightarrow> 'm option \<Rightarrow> bool" where
  "lawful_at v m \<longleftrightarrow>
     (case v False m of
        Inl p \<Rightarrow> False
      | Inr None \<Rightarrow> v True m = Inr None
      | Inr (Some e) \<Rightarrow>
          (case v True m of Inl p \<Rightarrow> True | Inr None \<Rightarrow> False | Inr (Some es) \<Rightarrow> first_error es = e))"

lemma lawful_at_cong:
  assumes "\<And>all. v all m = v' all m" and "lawful_at v' m"
  shows "lawful_at v m"
  using assms(2) unfolding lawful_at_def assms(1) .

definition lawful :: "'m validator \<Rightarrow> bool" where
  "lawful v \<longleftrightarrow> (\<forall>m. lawful_at v m)"

definition lawful_stmt :: "vstmt \<Rightarrow> bool" where
  "lawful_stmt s \<longleftrightarrow> (\<forall>msg errs.
     (case s msg False errs of
        Panic p \<Rightarrow> False
      | Continue es \<Rightarrow> es = errs \<and> s msg True errs = Continue errs
      | Return e \<Rightarrow>
          (case s msg True errs of
             Panic p \<Rightarrow> True
           | Return e' \<Rightarrow> False
           | Continue es \<Rightarrow> \<exists>E fs. es = errs @ E # fs \<and> first_error E = e)) \<and>
     (case s msg True errs of Continue es \<Rightarrow> \<exists>fs. es = errs @ fs | Return e \<Rightarrow> False | Panic p \<Rightarrow> True))"

lemma lawful_skip [lawful_intros]: "lawful_stmt skip"
  by (simp add: lawful_stmt_def skip_def)

lemma lawful_fail_with [lawful_intros]:
  assumes "\<And>msg. first_error (err msg) = err msg"
  shows "lawful_stmt (fail_with err)"
  using assms by (simp add: lawful_stmt_def fail_with_def)

lemma lawful_violation [lawful_intros]: "lawful_stmt (violation field reason)"
  unfolding violation_def by (rule lawful_fail_with) simp

lemma lawful_check [lawful_intros]: "lawful_stmt (check bad field reason)"
  by (simp add: check_def lawful_violation lawful_skip)

lemma lawful_embed [lawful_intros]:
  assumes "lawful_at v m"
  shows "lawful_stmt (embed field v m)"
  using assms unfolding lawful_at_def
  by (auto simp: lawful_stmt_def embed_def fail_with_def split: sum.splits option.splits)

lemma lawful_atI [lawful_intros]: "lawful v \<Longrightarrow> lawful_at v m"
  by (simp add: lawful_def)

lemma lawful_stmts [lawful_intros]: "list_all lawful_stmt ss \<Longrightarrow> lawful_stmt (stmts ss)"
proof (induction ss)
  case Nil
  show ?case by (simp add: lawful_stmt_def)
next
  case (Cons s ss)
  then have s: "lawful_stmt s" and ss: "lawful_stmt (stmts ss)" by simp_all
  show ?case
    unfolding lawful_stmt_def
  proof (intro allI)
    fix msg errs
    note s = s [unfolded lawful_stmt_def, THEN spec [where x = msg], THEN spec [where x = errs]]
    note ss = ss [unfolded lawful_stmt_def, THEN spec [where x = msg], THEN spec]
    from s ss [of errs] show "(case stmts (s # ss) msg False errs of
        Panic p \<Rightarrow> False
      | Continue es \<Rightarrow> es = errs \<and> stmts (s # ss) msg True errs = Continue errs
      | Return e \<Rightarrow>
          (case stmts (s # ss) msg True errs of
             Panic p \<Rightarrow> True
           | Return e' \<Rightarrow> False
           | Continue es \<Rightarrow> \<exists>E fs. es = errs @ E # fs \<and> first_error E = e)) \<and>
     (case stmts (s # ss) msg True errs of
        Continue es \<Rightarrow> \<exists>fs. es = errs @ fs | Return e \<Rightarrow> False | Panic p \<Rightarrow> True)"
    proof (cases "s msg False errs")
      case (Return e)
      show ?thesis
      proof (cases "s msg True errs")
        case (Continue es)
        with s Return obtain E fs where es: "es = errs @ E # fs" "first_error E = e" by auto
        with ss [of es] Continue Return show ?thesis by (auto split: vflow.splits)
      qed (use s Return in auto)
    qed (auto split: vflow.splits)
  qed
qed

lemma lawful_each [lawful_intros]:
  assumes "\<And>i x. x \<in> set xs \<Longrightarrow> lawful_stmt (f i x)"
  shows "lawful_stmt (each f xs)"
  unfolding each_def
  by (rule lawful_stmts) (auto simp: list_all_iff intro!: assms dest: in_enumerateD)

lemma lawful_each_unique [lawful_intros]:
  assumes "\<And>i dup x. x \<in> set xs \<Longrightarrow> lawful_stmt (f i dup x)"
  shows "lawful_stmt (each_unique f xs)"
  unfolding each_unique_def
  by (rule lawful_stmts) (auto simp: list_all_iff intro!: assms dest: in_enumerateD)

lemma lawful_guarded [lawful_intros]: "lawful_stmt s \<Longrightarrow> lawful_stmt (guarded b s)"
  by (simp add: guarded_def lawful_skip)

lemma lawful_case_option [lawful_intros]:
  assumes "x = None \<Longrightarrow> lawful_stmt s" and "\<And>w. x = Some w \<Longrightarrow> lawful_stmt (f w)"
  shows "lawful_stmt (case x of None \<Rightarrow> s | Some w \<Rightarrow> f w)"
  using assms by (cases x) simp_all

lemma lawful_each_key [lawful_intros]:
  assumes "\<And>k x. lawful_stmt (f k x)"
  shows "lawful_stmt (each_key f m)"
  unfolding each_key_def by (rule lawful_stmts) (auto simp: list_all_iff intro!: assms)

lemma lawful_oneof_case [lawful_intros]:
  assumes "\<And>v. w = Some v \<Longrightarrow> lawful_stmt (body v)"
  shows "lawful_stmt (oneof_case field w body)"
proof (cases w)
  case None
  then show ?thesis
    by (simp add: lawful_stmt_def oneof_case_def typed_nil_def violation_def fail_with_def nil_dereference_def)
qed (simp add: oneof_case_def assms)

lemma lawful_oneof_unread [lawful_intros]: "lawful_stmt (oneof_unread field w)"
  by (cases w) (simp_all add: oneof_unread_def typed_nil_def lawful_violation lawful_skip)

lemma lawful_check_duration [lawful_intros]: "lawful_stmt (check_duration V d bad field reason)"
  by (auto simp: check_duration_def intro!: lawful_skip lawful_fail_with lawful_check split: option.split)

lemma lawful_at_validate:
  assumes "\<And>x. m = Some x \<Longrightarrow> list_all lawful_stmt (body x)"
  shows "lawful_at (validate msg body) m"
proof (cases m)
  case (Some x)
  from lawful_stmts [OF assms, OF Some, unfolded lawful_stmt_def, THEN spec [where x = msg], THEN spec [where x = "[]"]]
    Some show ?thesis
    by (auto simp: lawful_at_def validate_def split: vflow.splits)
qed (simp add: lawful_at_def validate_def)

lemma lawful_validate [lawful_intros]:
  "(\<And>m. list_all lawful_stmt (body m)) \<Longrightarrow> lawful (validate msg body)"
  unfolding lawful_def by (intro allI lawful_at_validate)

lemma lawfulD:
  assumes "lawful v"
  shows "\<exists>r. v False m = Inr r" and "v False m = Inr None \<longleftrightarrow> v True m = Inr None"
    and "v False m = Inr (Some e) \<Longrightarrow> v True m = Inr (Some es) \<Longrightarrow> first_error es = e"
  using assms [unfolded lawful_def, THEN spec [where x = m]]
  by (auto simp: lawful_at_def split: sum.splits option.splits)

text \<open>What the code that is not in the repository promises.\<close>

definition vlib_lawful :: "vlib \<Rightarrow> bool" where
  "vlib_lawful V \<longleftrightarrow> lawful (Authority_validate V) \<and> lawful (CollectionEntry_validate V) \<and>
     lawful (ContextParams_validate V) \<and> lawful (xds_Matcher_validate V) \<and> lawful (xds_CidrRange_validate V) \<and>
     lawful (xds_TypedExtensionConfig_validate V)"

lemma lawful_external [lawful_intros]:
  "vlib_lawful V \<Longrightarrow> lawful (Authority_validate V)"
  "vlib_lawful V \<Longrightarrow> lawful (CollectionEntry_validate V)"
  "vlib_lawful V \<Longrightarrow> lawful (ContextParams_validate V)"
  "vlib_lawful V \<Longrightarrow> lawful (xds_Matcher_validate V)"
  "vlib_lawful V \<Longrightarrow> lawful (xds_CidrRange_validate V)"
  "vlib_lawful V \<Longrightarrow> lawful (xds_TypedExtensionConfig_validate V)"
  by (simp_all add: vlib_lawful_def)

section \<open>What it takes to pass\<close>

definition accepts :: "'m validator \<Rightarrow> 'm option \<Rightarrow> bool" where
  "accepts v m \<longleftrightarrow> v False m = Inr None"

lemma accepts_validate [pass_simps]:
  "accepts (validate msg body) m \<longleftrightarrow> (\<forall>x. m = Some x \<longrightarrow> stmts (body x) msg False [] = Continue [])"
  by (auto simp: accepts_def validate_def split: option.split vflow.splits)

lemma accepts_None [pass_simps]: "accepts (validate msg body) None"
  by (simp add: accepts_def validate_def)

lemma pass_skip [pass_simps]: "skip msg all errs = Continue es \<longleftrightarrow> es = errs"
  by (auto simp: skip_def)

lemma pass_fail_with [pass_simps]: "fail_with err msg False errs \<noteq> Continue es"
  by (simp add: fail_with_def)

lemma pass_check [pass_simps]: "check bad field reason msg False errs = Continue es \<longleftrightarrow> \<not> bad \<and> es = errs"
  by (auto simp: check_def violation_def pass_simps)

lemma pass_embed [pass_simps]: "embed field v m msg False errs = Continue es \<longleftrightarrow> accepts v m \<and> es = errs"
  by (auto simp: embed_def accepts_def pass_simps split: sum.split option.split)

lemma pass_stmts [pass_simps]:
  "stmts [] msg all errs = Continue es \<longleftrightarrow> es = errs"
  "stmts (s # ss) msg all errs = Continue es \<longleftrightarrow>
     (\<exists>es'. s msg all errs = Continue es' \<and> stmts ss msg all es' = Continue es)"
  by (auto split: vflow.split)

lemma pass_stmts_all:
  assumes "\<And>x errs es. x \<in> set xs \<Longrightarrow> f x msg False errs = Continue es \<longleftrightarrow> P x \<and> es = errs"
  shows "stmts (map f xs) msg False errs = Continue es \<longleftrightarrow> (\<forall>x \<in> set xs. P x) \<and> es = errs"
  using assms by (induction xs) (auto simp: pass_simps simp del: stmts.simps)

lemma pass_each [pass_simps]:
  "each (\<lambda>i x. embed (g i) v x) xs msg False errs = Continue es \<longleftrightarrow> (\<forall>x \<in> set xs. accepts v x) \<and> es = errs"
proof -
  have "each (\<lambda>i x. embed (g i) v x) xs msg False errs = Continue es \<longleftrightarrow>
      (\<forall>p \<in> set (enumerate 0 xs). accepts v (snd p)) \<and> es = errs"
    unfolding each_def by (rule pass_stmts_all) (simp add: split_def pass_simps)
  moreover have "(\<forall>p \<in> set (enumerate 0 xs). accepts v (snd p)) \<longleftrightarrow> (\<forall>x \<in> set xs. accepts v x)"
    using map_snd_enumerate [of 0 xs] by (metis (no_types, lifting) image_iff set_map)
  ultimately show ?thesis by simp
qed

lemma pass_each_key [pass_simps]:
  "each_key (\<lambda>k x. embed (g k) v x) m msg False errs = Continue es \<longleftrightarrow>
     (\<forall>k \<in> fst ` set m. accepts v (mget_or None m k)) \<and> es = errs"
  "each_key (\<lambda>k x. check (bad k) (g k) reason) m' msg False errs = Continue es \<longleftrightarrow>
     (\<forall>k \<in> fst ` set m'. \<not> bad k) \<and> es = errs"
  unfolding each_key_def
  by (subst pass_stmts_all [where P = "\<lambda>k. accepts v (mget_or None m k)"]; simp add: pass_simps)
    (subst pass_stmts_all [where P = "\<lambda>k. \<not> bad k"]; simp add: pass_simps)

lemma pass_guarded [pass_simps]:
  "guarded b s msg False errs = Continue es \<longleftrightarrow> (if b then s msg False errs = Continue es else es = errs)"
  by (simp add: guarded_def pass_simps)

lemma pass_oneof_case [pass_simps]:
  "oneof_case field w body msg False errs = Continue es \<longleftrightarrow>
     (\<exists>v. w = Some v \<and> body v msg False errs = Continue es)"
  by (cases w) (auto simp: oneof_case_def typed_nil_def violation_def fail_with_def)

lemma pass_oneof_unread [pass_simps]:
  "oneof_unread field w msg False errs = Continue es \<longleftrightarrow> w \<noteq> None \<and> es = errs"
  by (cases w) (auto simp: oneof_unread_def typed_nil_def violation_def pass_simps)

lemma pass_check_duration [pass_simps]:
  "check_duration V d bad field reason msg False errs = Continue es \<longleftrightarrow>
     (\<forall>x. d = Some x \<longrightarrow> CheckValid V x = None \<and> \<not> bad (AsDuration V x)) \<and> es = errs"
  by (auto simp: check_duration_def pass_simps split: option.split)

end
