(* ===== verification/CoreValidation.thy ===== *)
theory CoreValidation
  imports Validation
begin

text \<open>
  Validation of the messages of \<open>envoy/config/core/v3\<close> that endpoints, nodes and discovery requests are
  made of: addresses, socket options, data sources, header values, metadata, nodes.
\<close>

record SemanticVersion =
  SemanticVersion_MajorNumber :: "32 word"
  SemanticVersion_MinorNumber :: "32 word"
  SemanticVersion_Patch :: "32 word"

definition SemanticVersion_validate :: "SemanticVersion validator" where
  "SemanticVersion_validate = validate ''SemanticVersion'' (\<lambda>m. [])"

record Percent =
  Percent_Value :: "float64"

definition Percent_validate :: "Percent validator" where
  "Percent_validate = validate ''Percent'' (\<lambda>m. [
     check (float_less (Percent_Value m) (Finite 0 0) \<or> float_less (Finite 100 0)
         (Percent_Value m)) ''Value'' ''value must be inside range [0, 100]''])"

record FractionalPercent =
  FractionalPercent_Numerator :: "32 word"
  FractionalPercent_Denominator :: "32 word"

definition FractionalPercent_DenominatorType_name :: "(32 word, string) gomap" where
  "FractionalPercent_DenominatorType_name = [(0, ''HUNDRED''), (1, ''TEN_THOUSAND''), (2, ''MILLION'')]"

definition FractionalPercent_validate :: "FractionalPercent validator" where
  "FractionalPercent_validate = validate ''FractionalPercent'' (\<lambda>m. [
     check (mget FractionalPercent_DenominatorType_name (FractionalPercent_Denominator m) = None)
         ''Denominator'' ''value must be one of the defined enum values''])"

record BackoffStrategy =
  BackoffStrategy_BaseInterval :: "Duration option"
  BackoffStrategy_MaxInterval :: "Duration option"

definition BackoffStrategy_validate :: "vlib \<Rightarrow> BackoffStrategy validator" where
  "BackoffStrategy_validate V = validate ''BackoffStrategy'' (\<lambda>m. [
     check (BackoffStrategy_BaseInterval m = None) ''BaseInterval'' ''value is required'',
     check_duration V (BackoffStrategy_BaseInterval m) (\<lambda>dur. dur < duration_of 0 1000000)
         ''BaseInterval'' ''value must be greater than or equal to 1ms'',
     check_duration V (BackoffStrategy_MaxInterval m) (\<lambda>dur. dur \<le> duration_of 0 0)
         ''MaxInterval'' ''value must be greater than 0s''])"

record TypedExtensionConfig =
  TypedExtensionConfig_Name :: "string"
  TypedExtensionConfig_TypedConfig :: "bytes option"

definition TypedExtensionConfig_validate :: "TypedExtensionConfig validator" where
  "TypedExtensionConfig_validate = validate ''TypedExtensionConfig'' (\<lambda>m. [
     check (RuneCountInString (TypedExtensionConfig_Name m) < 1) ''Name''
         ''value length must be at least 1 runes'',
     check (TypedExtensionConfig_TypedConfig m = None) ''TypedConfig'' ''value is required''])"

datatype SocketOption_SocketType_Stream = empty_SocketOption_SocketType_Stream

definition SocketOption_SocketType_Stream_validate ::
    "SocketOption_SocketType_Stream validator" where
  "SocketOption_SocketType_Stream_validate =
     validate ''SocketOption_SocketType_Stream'' (\<lambda>m. [])"

datatype SocketOption_SocketType_Datagram = empty_SocketOption_SocketType_Datagram

definition SocketOption_SocketType_Datagram_validate ::
    "SocketOption_SocketType_Datagram validator" where
  "SocketOption_SocketType_Datagram_validate =
     validate ''SocketOption_SocketType_Datagram'' (\<lambda>m. [])"

record SocketOption_SocketType =
  SocketOption_SocketType_Stream :: "SocketOption_SocketType_Stream option"
  SocketOption_SocketType_Datagram :: "SocketOption_SocketType_Datagram option"

definition SocketOption_SocketType_validate :: "SocketOption_SocketType validator" where
  "SocketOption_SocketType_validate = validate ''SocketOption_SocketType'' (\<lambda>m. [
     embed ''Stream'' SocketOption_SocketType_Stream_validate (SocketOption_SocketType_Stream m),
     embed ''Datagram'' SocketOption_SocketType_Datagram_validate (SocketOption_SocketType_Datagram m)])"

datatype oneof_SocketOption_Value =
    SocketOption_IntValue "(64 word) option"
  | SocketOption_BufValue "bytes option"

record SocketOption =
  SocketOption_Description :: "string"
  SocketOption_Level :: "64 word"
  SocketOption_Name :: "64 word"
  SocketOption_Value :: "oneof_SocketOption_Value option"
  SocketOption_State :: "32 word"
  SocketOption_Type :: "SocketOption_SocketType option"

definition SocketOption_SocketState_name :: "(32 word, string) gomap" where
  "SocketOption_SocketState_name = [(0, ''STATE_PREBIND''), (1, ''STATE_BOUND''), (2, ''STATE_LISTENING'')]"

definition SocketOption_validate :: "SocketOption validator" where
  "SocketOption_validate = validate ''SocketOption'' (\<lambda>m. [
     check (mget SocketOption_SocketState_name (SocketOption_State m) = None) ''State''
         ''value must be one of the defined enum values'',
     embed ''Type'' SocketOption_SocketType_validate (SocketOption_Type m),
     (case SocketOption_Value m of
         None \<Rightarrow> skip
       | Some (SocketOption_IntValue w) \<Rightarrow> oneof_unread ''Value'' w
       | Some (SocketOption_BufValue w) \<Rightarrow> oneof_unread ''Value'' w),
     check (SocketOption_Value m = None) ''Value'' ''value is required''])"

record SocketOptionsOverride =
  SocketOptionsOverride_SocketOptions :: "SocketOption option list"

definition SocketOptionsOverride_validate :: "SocketOptionsOverride validator" where
  "SocketOptionsOverride_validate = validate ''SocketOptionsOverride'' (\<lambda>m. [
     each (\<lambda>i x. embed (index_field ''SocketOptions'' i) SocketOption_validate x)
         (SocketOptionsOverride_SocketOptions m)])"

record Pipe =
  Pipe_Path :: "string"
  Pipe_Mode :: "32 word"

definition Pipe_validate :: "Pipe validator" where
  "Pipe_validate = validate ''Pipe'' (\<lambda>m. [
     check (RuneCountInString (Pipe_Path m) < 1) ''Path'' ''value length must be at least 1 runes'',
     check (Pipe_Mode m > 511) ''Mode'' ''value must be less than or equal to 511''])"

datatype oneof_EnvoyInternalAddress_AddressNameSpecifier =
    EnvoyInternalAddress_ServerListenerName "string option"

record EnvoyInternalAddress =
  EnvoyInternalAddress_AddressNameSpecifier :: "oneof_EnvoyInternalAddress_AddressNameSpecifier option"
  EnvoyInternalAddress_EndpointId :: "string"

definition EnvoyInternalAddress_validate :: "EnvoyInternalAddress validator" where
  "EnvoyInternalAddress_validate = validate ''EnvoyInternalAddress'' (\<lambda>m. [
     (case EnvoyInternalAddress_AddressNameSpecifier m of
         None \<Rightarrow> skip
       | Some (EnvoyInternalAddress_ServerListenerName w) \<Rightarrow> oneof_unread ''AddressNameSpecifier'' w),
     check (EnvoyInternalAddress_AddressNameSpecifier m = None) ''AddressNameSpecifier''
         ''value is required''])"

datatype oneof_SocketAddress_PortSpecifier =
    SocketAddress_PortValue "(32 word) option"
  | SocketAddress_NamedPort "string option"

record SocketAddress =
  SocketAddress_Protocol :: "32 word"
  SocketAddress_Address :: "string"
  SocketAddress_PortSpecifier :: "oneof_SocketAddress_PortSpecifier option"
  SocketAddress_ResolverName :: "string"
  SocketAddress_Ipv4Compat :: "bool"
  SocketAddress_NetworkNamespaceFilepath :: "string"

definition SocketAddress_Protocol_name :: "(32 word, string) gomap" where
  "SocketAddress_Protocol_name = [(0, ''TCP''), (1, ''UDP'')]"

definition SocketAddress_validate :: "SocketAddress validator" where
  "SocketAddress_validate = validate ''SocketAddress'' (\<lambda>m. [
     check (mget SocketAddress_Protocol_name (SocketAddress_Protocol m) = None) ''Protocol''
         ''value must be one of the defined enum values'',
     check (RuneCountInString (SocketAddress_Address m) < 1) ''Address''
         ''value length must be at least 1 runes'',
     (case SocketAddress_PortSpecifier m of
         None \<Rightarrow> skip
       | Some (SocketAddress_PortValue w) \<Rightarrow> oneof_case ''PortSpecifier'' w
           (\<lambda>v. check (v > 65535) ''PortValue''
           ''value must be less than or equal to 65535'')
       | Some (SocketAddress_NamedPort w) \<Rightarrow> oneof_unread ''PortSpecifier'' w),
     check (SocketAddress_PortSpecifier m = None) ''PortSpecifier'' ''value is required''])"

record TcpKeepalive =
  TcpKeepalive_KeepaliveProbes :: "32 word option"
  TcpKeepalive_KeepaliveTime :: "32 word option"
  TcpKeepalive_KeepaliveInterval :: "32 word option"

definition TcpKeepalive_validate :: "TcpKeepalive validator" where
  "TcpKeepalive_validate = validate ''TcpKeepalive'' (\<lambda>m. [])"

record ExtraSourceAddress =
  ExtraSourceAddress_Address :: "SocketAddress option"
  ExtraSourceAddress_SocketOptions :: "SocketOptionsOverride option"

definition ExtraSourceAddress_validate :: "ExtraSourceAddress validator" where
  "ExtraSourceAddress_validate = validate ''ExtraSourceAddress'' (\<lambda>m. [
     check (ExtraSourceAddress_Address m = None) ''Address'' ''value is required'',
     embed ''Address'' SocketAddress_validate (ExtraSourceAddress_Address m),
     embed ''SocketOptions'' SocketOptionsOverride_validate (ExtraSourceAddress_SocketOptions m)])"

record BindConfig =
  BindConfig_SourceAddress :: "SocketAddress option"
  BindConfig_Freebind :: "bool option"
  BindConfig_SocketOptions :: "SocketOption option list"
  BindConfig_ExtraSourceAddresses :: "ExtraSourceAddress option list"
  BindConfig_AdditionalSourceAddresses :: "SocketAddress option list"
  BindConfig_LocalAddressSelector :: "TypedExtensionConfig option"

definition BindConfig_validate :: "BindConfig validator" where
  "BindConfig_validate = validate ''BindConfig'' (\<lambda>m. [
     embed ''SourceAddress'' SocketAddress_validate (BindConfig_SourceAddress m),
     each (\<lambda>i x. embed (index_field ''SocketOptions'' i) SocketOption_validate x)
         (BindConfig_SocketOptions m),
     each (\<lambda>i x. embed (index_field ''ExtraSourceAddresses'' i) ExtraSourceAddress_validate x)
         (BindConfig_ExtraSourceAddresses m),
     each (\<lambda>i x. embed (index_field ''AdditionalSourceAddresses'' i) SocketAddress_validate x)
         (BindConfig_AdditionalSourceAddresses m),
     embed ''LocalAddressSelector'' TypedExtensionConfig_validate (BindConfig_LocalAddressSelector m)])"

datatype oneof_Address_Address =
    Address_SocketAddress "(SocketAddress option) option"
  | Address_Pipe "(Pipe option) option"
  | Address_EnvoyInternalAddress "(EnvoyInternalAddress option) option"

record Address =
  Address_Address :: "oneof_Address_Address option"

definition Address_validate :: "Address validator" where
  "Address_validate = validate ''Address'' (\<lambda>m. [
     (case Address_Address m of
         None \<Rightarrow> skip
       | Some (Address_SocketAddress w) \<Rightarrow> oneof_case ''Address'' w (\<lambda>v.
           embed ''SocketAddress'' SocketAddress_validate v)
       | Some (Address_Pipe w) \<Rightarrow> oneof_case ''Address'' w (\<lambda>v.
           embed ''Pipe'' Pipe_validate v)
       | Some (Address_EnvoyInternalAddress w) \<Rightarrow> oneof_case ''Address'' w
           (\<lambda>v. embed ''EnvoyInternalAddress'' EnvoyInternalAddress_validate v)),
     check (Address_Address m = None) ''Address'' ''value is required''])"

record CidrRange =
  CidrRange_AddressPrefix :: "string"
  CidrRange_PrefixLen :: "32 word option"

definition CidrRange_validate :: "CidrRange validator" where
  "CidrRange_validate = validate ''CidrRange'' (\<lambda>m. [
     check (RuneCountInString (CidrRange_AddressPrefix m) < 1) ''AddressPrefix''
         ''value length must be at least 1 runes'',
     (case CidrRange_PrefixLen m of None \<Rightarrow> skip | Some w \<Rightarrow> check (w > 128)
         ''PrefixLen'' ''value must be less than or equal to 128'')])"

datatype oneof_HttpUri_HttpUpstreamType =
    HttpUri_Cluster "string option"

record HttpUri =
  HttpUri_Uri :: "string"
  HttpUri_HttpUpstreamType :: "oneof_HttpUri_HttpUpstreamType option"
  HttpUri_Timeout :: "Duration option"

definition HttpUri_validate :: "vlib \<Rightarrow> HttpUri validator" where
  "HttpUri_validate V = validate ''HttpUri'' (\<lambda>m. [
     check (RuneCountInString (HttpUri_Uri m) < 1) ''Uri'' ''value length must be at least 1 runes'',
     check (HttpUri_Timeout m = None) ''Timeout'' ''value is required'',
     check_duration V (HttpUri_Timeout m)
         (\<lambda>dur. dur < duration_of 0 0 \<or> dur \<ge> duration_of 4294967296 0)
         ''Timeout'' ''value must be inside range [0s, 1193046h28m16s)'',
     (case HttpUri_HttpUpstreamType m of
         None \<Rightarrow> skip
       | Some (HttpUri_Cluster w) \<Rightarrow> oneof_case ''HttpUpstreamType'' w (\<lambda>v.
           check (RuneCountInString v < 1) ''Cluster'' ''value length must be at least 1 runes'')),
     check (HttpUri_HttpUpstreamType m = None) ''HttpUpstreamType'' ''value is required''])"

record Locality =
  Locality_Region :: "string"
  Locality_Zone :: "string"
  Locality_SubZone :: "string"

definition Locality_validate :: "Locality validator" where
  "Locality_validate = validate ''Locality'' (\<lambda>m. [])"

record BuildVersion =
  BuildVersion_Version :: "SemanticVersion option"
  BuildVersion_Metadata :: "bytes option"

definition BuildVersion_validate :: "BuildVersion validator" where
  "BuildVersion_validate = validate ''BuildVersion'' (\<lambda>m. [
     embed ''Version'' SemanticVersion_validate (BuildVersion_Version m)])"

record Extension =
  Extension_Name :: "string"
  Extension_Category :: "string"
  Extension_TypeDescriptor :: "string"
  Extension_Version :: "BuildVersion option"
  Extension_Disabled :: "bool"
  Extension_TypeUrls :: "string list"

definition Extension_validate :: "Extension validator" where
  "Extension_validate = validate ''Extension'' (\<lambda>m. [
     embed ''Version'' BuildVersion_validate (Extension_Version m)])"

datatype oneof_NodeMsg_UserAgentVersionType =
    Node_UserAgentVersion "string option"
  | Node_UserAgentBuildVersion "(BuildVersion option) option"

record NodeMsg =
  NodeMsg_Id :: "string"
  NodeMsg_Cluster :: "string"
  NodeMsg_Metadata :: "bytes option"
  NodeMsg_DynamicParameters :: "(string, bytes option) gomap"
  NodeMsg_Locality :: "Locality option"
  NodeMsg_UserAgentName :: "string"
  NodeMsg_UserAgentVersionType :: "oneof_NodeMsg_UserAgentVersionType option"
  NodeMsg_Extensions :: "Extension option list"
  NodeMsg_ClientFeatures :: "string list"
  NodeMsg_ListeningAddresses :: "Address option list"

definition NodeMsg_validate :: "vlib \<Rightarrow> NodeMsg validator" where
  "NodeMsg_validate V = validate ''Node'' (\<lambda>m. [
     each_key (\<lambda>k x. embed (index_field ''DynamicParameters'' k) (ContextParams_validate V) x)
         (NodeMsg_DynamicParameters m),
     embed ''Locality'' Locality_validate (NodeMsg_Locality m),
     each (\<lambda>i x. embed (index_field ''Extensions'' i) Extension_validate x)
         (NodeMsg_Extensions m),
     each (\<lambda>i x. embed (index_field ''ListeningAddresses'' i) Address_validate x)
         (NodeMsg_ListeningAddresses m),
     (case NodeMsg_UserAgentVersionType m of
         None \<Rightarrow> skip
       | Some (Node_UserAgentVersion w) \<Rightarrow> oneof_unread ''UserAgentVersionType'' w
       | Some (Node_UserAgentBuildVersion w) \<Rightarrow> oneof_case ''UserAgentVersionType'' w
           (\<lambda>v. embed ''UserAgentBuildVersion'' BuildVersion_validate v))])"

record Metadata =
  Metadata_FilterMetadata :: "(string, bytes option) gomap"
  Metadata_TypedFilterMetadata :: "(string, bytes option) gomap"

definition Metadata_validate :: "Metadata validator" where
  "Metadata_validate = validate ''Metadata'' (\<lambda>m. [
     each_key (\<lambda>k x. check (RuneCountInString k < 1) (index_field ''FilterMetadata'' k)
         ''value length must be at least 1 runes'') (Metadata_FilterMetadata m),
     each_key (\<lambda>k x. check (RuneCountInString k < 1) (index_field ''TypedFilterMetadata'' k)
         ''value length must be at least 1 runes'') (Metadata_TypedFilterMetadata m)])"

record RuntimeUInt32 =
  RuntimeUInt32_DefaultValue :: "32 word"
  RuntimeUInt32_RuntimeKey :: "string"

definition RuntimeUInt32_validate :: "RuntimeUInt32 validator" where
  "RuntimeUInt32_validate = validate ''RuntimeUInt32'' (\<lambda>m. [])"

record RuntimePercent =
  RuntimePercent_DefaultValue :: "Percent option"
  RuntimePercent_RuntimeKey :: "string"

definition RuntimePercent_validate :: "RuntimePercent validator" where
  "RuntimePercent_validate = validate ''RuntimePercent'' (\<lambda>m. [
     embed ''DefaultValue'' Percent_validate (RuntimePercent_DefaultValue m)])"

record RuntimeDouble =
  RuntimeDouble_DefaultValue :: "float64"
  RuntimeDouble_RuntimeKey :: "string"

definition RuntimeDouble_validate :: "RuntimeDouble validator" where
  "RuntimeDouble_validate = validate ''RuntimeDouble'' (\<lambda>m. [])"

record RuntimeFeatureFlag =
  RuntimeFeatureFlag_DefaultValue :: "bool option"
  RuntimeFeatureFlag_RuntimeKey :: "string"

definition RuntimeFeatureFlag_validate :: "RuntimeFeatureFlag validator" where
  "RuntimeFeatureFlag_validate = validate ''RuntimeFeatureFlag'' (\<lambda>m. [
     check (RuntimeFeatureFlag_DefaultValue m = None) ''DefaultValue'' ''value is required''])"

record KeyValue =
  KeyValue_Key :: "string"
  KeyValue_Value :: "bytes"

definition KeyValue_validate :: "KeyValue validator" where
  "KeyValue_validate = validate ''KeyValue'' (\<lambda>m. [
     check (RuneCountInString (KeyValue_Key m) < 1) ''Key'' ''value length must be at least 1 runes'',
     check (length (KeyValue_Key m) > 16384) ''Key'' ''value length must be at most 16384 bytes''])"

record KeyValuePair =
  KeyValuePair_Key :: "string"
  KeyValuePair_Value :: "bytes option"

definition KeyValuePair_validate :: "KeyValuePair validator" where
  "KeyValuePair_validate = validate ''KeyValuePair'' (\<lambda>m. [
     check (RuneCountInString (KeyValuePair_Key m) < 1) ''Key''
         ''value length must be at least 1 runes'',
     check (length (KeyValuePair_Key m) > 16384) ''Key'' ''value length must be at most 16384 bytes''])"

record KeyValueAppend =
  KeyValueAppend_Record :: "KeyValuePair option"
  KeyValueAppend_Entry :: "KeyValue option"
  KeyValueAppend_Action :: "32 word"

definition KeyValueAppend_KeyValueAppendAction_name :: "(32 word, string) gomap" where
  "KeyValueAppend_KeyValueAppendAction_name = [(0, ''APPEND_IF_EXISTS_OR_ADD''), (1, ''ADD_IF_ABSENT''), (2,
      ''OVERWRITE_IF_EXISTS_OR_ADD''), (3, ''OVERWRITE_IF_EXISTS'')]"

definition KeyValueAppend_validate :: "KeyValueAppend validator" where
  "KeyValueAppend_validate = validate ''KeyValueAppend'' (\<lambda>m. [
     embed ''Record'' KeyValuePair_validate (KeyValueAppend_Record m),
     check (mget KeyValueAppend_KeyValueAppendAction_name (KeyValueAppend_Action m) = None) ''Action''
         ''value must be one of the defined enum values''])"

record KeyValueMutation =
  KeyValueMutation_Append :: "KeyValueAppend option"
  KeyValueMutation_Remove :: "string"

definition KeyValueMutation_validate :: "KeyValueMutation validator" where
  "KeyValueMutation_validate = validate ''KeyValueMutation'' (\<lambda>m. [
     embed ''Append'' KeyValueAppend_validate (KeyValueMutation_Append m),
     check (length (KeyValueMutation_Remove m) > 16384) ''Remove''
         ''value length must be at most 16384 bytes''])"

record QueryParameter =
  QueryParameter_Key :: "string"
  QueryParameter_Value :: "string"

definition QueryParameter_validate :: "QueryParameter validator" where
  "QueryParameter_validate = validate ''QueryParameter'' (\<lambda>m. [
     check (RuneCountInString (QueryParameter_Key m) < 1) ''Key''
         ''value length must be at least 1 runes''])"

record HeaderValue =
  HeaderValue_Key :: "string"
  HeaderValue_Value :: "string"
  HeaderValue_RawValue :: "bytes"

definition HeaderValue_validate :: "HeaderValue validator" where
  "HeaderValue_validate = validate ''HeaderValue'' (\<lambda>m. [
     check (RuneCountInString (HeaderValue_Key m) < 1) ''Key''
         ''value length must be at least 1 runes'',
     check (length (HeaderValue_Key m) > 16384) ''Key'' ''value length must be at most 16384 bytes'',
     check (\<not> matches_no_control (HeaderValue_Key m)) ''Key'' no_control_reason,
     check (length (HeaderValue_Value m) > 16384) ''Value''
         ''value length must be at most 16384 bytes'',
     check (\<not> matches_no_control (HeaderValue_Value m)) ''Value'' no_control_reason,
     check (length (HeaderValue_RawValue m) < 0 \<or> length (HeaderValue_RawValue m) > 16384)
         ''RawValue'' ''value length must be between 0 and 16384 bytes, inclusive''])"

record HeaderValueOption =
  HeaderValueOption_Header :: "HeaderValue option"
  HeaderValueOption_Append :: "bool option"
  HeaderValueOption_AppendAction :: "32 word"
  HeaderValueOption_KeepEmptyValue :: "bool"

definition HeaderValueOption_HeaderAppendAction_name :: "(32 word, string) gomap" where
  "HeaderValueOption_HeaderAppendAction_name = [(0, ''APPEND_IF_EXISTS_OR_ADD''), (1, ''ADD_IF_ABSENT''), (2,
      ''OVERWRITE_IF_EXISTS_OR_ADD''), (3, ''OVERWRITE_IF_EXISTS'')]"

definition HeaderValueOption_validate :: "HeaderValueOption validator" where
  "HeaderValueOption_validate = validate ''HeaderValueOption'' (\<lambda>m. [
     check (HeaderValueOption_Header m = None) ''Header'' ''value is required'',
     embed ''Header'' HeaderValue_validate (HeaderValueOption_Header m),
     check (mget HeaderValueOption_HeaderAppendAction_name (HeaderValueOption_AppendAction m) = None)
         ''AppendAction'' ''value must be one of the defined enum values''])"

record HeaderMap =
  HeaderMap_Headers :: "HeaderValue option list"

definition HeaderMap_validate :: "HeaderMap validator" where
  "HeaderMap_validate = validate ''HeaderMap'' (\<lambda>m. [
     each (\<lambda>i x. embed (index_field ''Headers'' i) HeaderValue_validate x)
         (HeaderMap_Headers m)])"

record WatchedDirectory =
  WatchedDirectory_Path :: "string"

definition WatchedDirectory_validate :: "WatchedDirectory validator" where
  "WatchedDirectory_validate = validate ''WatchedDirectory'' (\<lambda>m. [
     check (RuneCountInString (WatchedDirectory_Path m) < 1) ''Path''
         ''value length must be at least 1 runes''])"

datatype oneof_DataSource_Specifier =
    DataSource_Filename "string option"
  | DataSource_InlineBytes "bytes option"
  | DataSource_InlineString "string option"
  | DataSource_EnvironmentVariable "string option"

record DataSource =
  DataSource_Specifier :: "oneof_DataSource_Specifier option"
  DataSource_WatchedDirectory :: "WatchedDirectory option"

definition DataSource_validate :: "DataSource validator" where
  "DataSource_validate = validate ''DataSource'' (\<lambda>m. [
     embed ''WatchedDirectory'' WatchedDirectory_validate (DataSource_WatchedDirectory m),
     (case DataSource_Specifier m of
         None \<Rightarrow> skip
       | Some (DataSource_Filename w) \<Rightarrow> oneof_case ''Specifier'' w (\<lambda>v.
           check (RuneCountInString v < 1) ''Filename''
           ''value length must be at least 1 runes'')
       | Some (DataSource_InlineBytes w) \<Rightarrow> oneof_unread ''Specifier'' w
       | Some (DataSource_InlineString w) \<Rightarrow> oneof_unread ''Specifier'' w
       | Some (DataSource_EnvironmentVariable w) \<Rightarrow> oneof_case ''Specifier'' w
           (\<lambda>v. check (RuneCountInString v < 1) ''EnvironmentVariable''
           ''value length must be at least 1 runes'')),
     check (DataSource_Specifier m = None) ''Specifier'' ''value is required''])"

datatype oneof_RetryPolicy_RetryPriority_ConfigType =
    RetryPolicy_RetryPriority_TypedConfig "(bytes option) option"

record RetryPolicy_RetryPriority =
  RetryPolicy_RetryPriority_Name :: "string"
  RetryPolicy_RetryPriority_ConfigType :: "oneof_RetryPolicy_RetryPriority_ConfigType option"

definition RetryPolicy_RetryPriority_validate :: "RetryPolicy_RetryPriority validator" where
  "RetryPolicy_RetryPriority_validate = validate ''RetryPolicy_RetryPriority'' (\<lambda>m. [
     check (RuneCountInString (RetryPolicy_RetryPriority_Name m) < 1) ''Name''
         ''value length must be at least 1 runes'',
     (case RetryPolicy_RetryPriority_ConfigType m of
         None \<Rightarrow> skip
       | Some (RetryPolicy_RetryPriority_TypedConfig w) \<Rightarrow> oneof_case ''ConfigType'' w
           (\<lambda>v. skip))])"

datatype oneof_RetryPolicy_RetryHostPredicate_ConfigType =
    RetryPolicy_RetryHostPredicate_TypedConfig "(bytes option) option"

record RetryPolicy_RetryHostPredicate =
  RetryPolicy_RetryHostPredicate_Name :: "string"
  RetryPolicy_RetryHostPredicate_ConfigType :: "oneof_RetryPolicy_RetryHostPredicate_ConfigType option"

definition RetryPolicy_RetryHostPredicate_validate ::
    "RetryPolicy_RetryHostPredicate validator" where
  "RetryPolicy_RetryHostPredicate_validate =
     validate ''RetryPolicy_RetryHostPredicate'' (\<lambda>m. [
     check (RuneCountInString (RetryPolicy_RetryHostPredicate_Name m) < 1) ''Name''
         ''value length must be at least 1 runes'',
     (case RetryPolicy_RetryHostPredicate_ConfigType m of
         None \<Rightarrow> skip
       | Some (RetryPolicy_RetryHostPredicate_TypedConfig w) \<Rightarrow>
           oneof_case ''ConfigType'' w (\<lambda>v. skip))])"

record RetryPolicy =
  RetryPolicy_RetryBackOff :: "BackoffStrategy option"
  RetryPolicy_NumRetries :: "32 word option"
  RetryPolicy_RetryOn :: "string"
  RetryPolicy_RetryPriority :: "RetryPolicy_RetryPriority option"
  RetryPolicy_RetryHostPredicate :: "RetryPolicy_RetryHostPredicate option list"
  RetryPolicy_HostSelectionRetryMaxAttempts :: "64 word"

definition RetryPolicy_validate :: "vlib \<Rightarrow> RetryPolicy validator" where
  "RetryPolicy_validate V = validate ''RetryPolicy'' (\<lambda>m. [
     embed ''RetryBackOff'' (BackoffStrategy_validate V) (RetryPolicy_RetryBackOff m),
     embed ''RetryPriority'' RetryPolicy_RetryPriority_validate (RetryPolicy_RetryPriority m),
     each (\<lambda>i x.
         embed (index_field ''RetryHostPredicate'' i) RetryPolicy_RetryHostPredicate_validate x)
         (RetryPolicy_RetryHostPredicate m)])"

record RemoteDataSource =
  RemoteDataSource_HttpUri :: "HttpUri option"
  RemoteDataSource_Sha256 :: "string"
  RemoteDataSource_RetryPolicy :: "RetryPolicy option"

definition RemoteDataSource_validate :: "vlib \<Rightarrow> RemoteDataSource validator" where
  "RemoteDataSource_validate V = validate ''RemoteDataSource'' (\<lambda>m. [
     check (RemoteDataSource_HttpUri m = None) ''HttpUri'' ''value is required'',
     embed ''HttpUri'' (HttpUri_validate V) (RemoteDataSource_HttpUri m),
     check (RuneCountInString (RemoteDataSource_Sha256 m) < 1) ''Sha256''
         ''value length must be at least 1 runes'',
     embed ''RetryPolicy'' (RetryPolicy_validate V) (RemoteDataSource_RetryPolicy m)])"

datatype oneof_AsyncDataSource_Specifier =
    AsyncDataSource_Local "(DataSource option) option"
  | AsyncDataSource_Remote "(RemoteDataSource option) option"

record AsyncDataSource =
  AsyncDataSource_Specifier :: "oneof_AsyncDataSource_Specifier option"

definition AsyncDataSource_validate :: "vlib \<Rightarrow> AsyncDataSource validator" where
  "AsyncDataSource_validate V = validate ''AsyncDataSource'' (\<lambda>m. [
     (case AsyncDataSource_Specifier m of
         None \<Rightarrow> skip
       | Some (AsyncDataSource_Local w) \<Rightarrow> oneof_case ''Specifier'' w (\<lambda>v.
           embed ''Local'' DataSource_validate v)
       | Some (AsyncDataSource_Remote w) \<Rightarrow> oneof_case ''Specifier'' w (\<lambda>v.
           embed ''Remote'' (RemoteDataSource_validate V) v)),
     check (AsyncDataSource_Specifier m = None) ''Specifier'' ''value is required''])"

datatype oneof_TransportSocket_ConfigType =
    TransportSocket_TypedConfig "(bytes option) option"

record TransportSocket =
  TransportSocket_Name :: "string"
  TransportSocket_ConfigType :: "oneof_TransportSocket_ConfigType option"

definition TransportSocket_validate :: "TransportSocket validator" where
  "TransportSocket_validate = validate ''TransportSocket'' (\<lambda>m. [
     check (RuneCountInString (TransportSocket_Name m) < 1) ''Name''
         ''value length must be at least 1 runes'',
     (case TransportSocket_ConfigType m of
         None \<Rightarrow> skip
       | Some (TransportSocket_TypedConfig w) \<Rightarrow> oneof_case ''ConfigType'' w
           (\<lambda>v. skip))])"

record RuntimeFractionalPercent =
  RuntimeFractionalPercent_DefaultValue :: "FractionalPercent option"
  RuntimeFractionalPercent_RuntimeKey :: "string"

definition RuntimeFractionalPercent_validate :: "RuntimeFractionalPercent validator" where
  "RuntimeFractionalPercent_validate = validate ''RuntimeFractionalPercent'' (\<lambda>m. [
     check (RuntimeFractionalPercent_DefaultValue m = None) ''DefaultValue'' ''value is required'',
     embed ''DefaultValue'' FractionalPercent_validate (RuntimeFractionalPercent_DefaultValue m)])"

record ControlPlane =
  ControlPlane_Identifier :: "string"

definition ControlPlane_validate :: "ControlPlane validator" where
  "ControlPlane_validate = validate ''ControlPlane'' (\<lambda>m. [])"

end
