(* ===== verification/ConfigValidation.thy ===== *)
theory ConfigValidation
  imports CoreValidation
begin

text \<open>
  Validation of gRPC services and configuration sources (\<open>grpc_service.pb.validate.go\<close>,
  \<open>config_source.pb.validate.go\<close>).
\<close>

record GrpcService_EnvoyGrpc =
  GrpcService_EnvoyGrpc_ClusterName :: "string"
  GrpcService_EnvoyGrpc_Authority :: "string"
  GrpcService_EnvoyGrpc_RetryPolicy :: "RetryPolicy option"
  GrpcService_EnvoyGrpc_MaxReceiveMessageLength :: "32 word option"
  GrpcService_EnvoyGrpc_SkipEnvoyHeaders :: "bool"

definition GrpcService_EnvoyGrpc_validate ::
    "vlib \<Rightarrow> GrpcService_EnvoyGrpc validator" where
  "GrpcService_EnvoyGrpc_validate V = validate ''GrpcService_EnvoyGrpc'' (\<lambda>m. [
     check (RuneCountInString (GrpcService_EnvoyGrpc_ClusterName m) < 1) ''ClusterName''
         ''value length must be at least 1 runes'',
     check (RuneCountInString (GrpcService_EnvoyGrpc_Authority m) < 0) ''Authority''
         ''value length must be at least 0 runes'',
     check (length (GrpcService_EnvoyGrpc_Authority m) > 16384) ''Authority''
         ''value length must be at most 16384 bytes'',
     check (\<not> matches_no_control (GrpcService_EnvoyGrpc_Authority m))
         ''Authority'' no_control_reason,
     embed ''RetryPolicy'' (RetryPolicy_validate V) (GrpcService_EnvoyGrpc_RetryPolicy m)])"

record GrpcService_GoogleGrpc_SslCredentials =
  GrpcService_GoogleGrpc_SslCredentials_RootCerts :: "DataSource option"
  GrpcService_GoogleGrpc_SslCredentials_PrivateKey :: "DataSource option"
  GrpcService_GoogleGrpc_SslCredentials_CertChain :: "DataSource option"

definition GrpcService_GoogleGrpc_SslCredentials_validate ::
    "GrpcService_GoogleGrpc_SslCredentials validator" where
  "GrpcService_GoogleGrpc_SslCredentials_validate =
     validate ''GrpcService_GoogleGrpc_SslCredentials'' (\<lambda>m. [
     embed ''RootCerts'' DataSource_validate (GrpcService_GoogleGrpc_SslCredentials_RootCerts m),
     embed ''PrivateKey'' DataSource_validate (GrpcService_GoogleGrpc_SslCredentials_PrivateKey m),
     embed ''CertChain'' DataSource_validate (GrpcService_GoogleGrpc_SslCredentials_CertChain m)])"

datatype GrpcService_GoogleGrpc_GoogleLocalCredentials = empty_GrpcService_GoogleGrpc_GoogleLocalCredentials

definition GrpcService_GoogleGrpc_GoogleLocalCredentials_validate ::
    "GrpcService_GoogleGrpc_GoogleLocalCredentials validator" where
  "GrpcService_GoogleGrpc_GoogleLocalCredentials_validate =
     validate ''GrpcService_GoogleGrpc_GoogleLocalCredentials'' (\<lambda>m. [])"

datatype oneof_GrpcService_GoogleGrpc_ChannelCredentials_CredentialSpecifier =
    GrpcService_GoogleGrpc_ChannelCredentials_SslCredentials "(GrpcService_GoogleGrpc_SslCredentials option) option"
  | GrpcService_GoogleGrpc_ChannelCredentials_GoogleDefault "(bytes option) option"
  | GrpcService_GoogleGrpc_ChannelCredentials_LocalCredentials "(GrpcService_GoogleGrpc_GoogleLocalCredentials option) option"

record GrpcService_GoogleGrpc_ChannelCredentials =
  GrpcService_GoogleGrpc_ChannelCredentials_CredentialSpecifier :: "oneof_GrpcService_GoogleGrpc_ChannelCredentials_CredentialSpecifier option"

definition GrpcService_GoogleGrpc_ChannelCredentials_validate ::
    "GrpcService_GoogleGrpc_ChannelCredentials validator" where
  "GrpcService_GoogleGrpc_ChannelCredentials_validate =
     validate ''GrpcService_GoogleGrpc_ChannelCredentials'' (\<lambda>m. [
     (case GrpcService_GoogleGrpc_ChannelCredentials_CredentialSpecifier m of
         None \<Rightarrow> skip
       | Some (GrpcService_GoogleGrpc_ChannelCredentials_SslCredentials w) \<Rightarrow>
           oneof_case ''CredentialSpecifier'' w (\<lambda>v.
           embed ''SslCredentials'' GrpcService_GoogleGrpc_SslCredentials_validate v)
       | Some (GrpcService_GoogleGrpc_ChannelCredentials_GoogleDefault w) \<Rightarrow>
           oneof_case ''CredentialSpecifier'' w (\<lambda>v. skip)
       | Some (GrpcService_GoogleGrpc_ChannelCredentials_LocalCredentials w) \<Rightarrow>
           oneof_case ''CredentialSpecifier'' w (\<lambda>v.
           embed ''LocalCredentials'' GrpcService_GoogleGrpc_GoogleLocalCredentials_validate v)),
     check (GrpcService_GoogleGrpc_ChannelCredentials_CredentialSpecifier m = None)
         ''CredentialSpecifier'' ''value is required''])"

record GrpcService_GoogleGrpc_CallCredentials_ServiceAccountJWTAccessCredentials =
  GrpcService_GoogleGrpc_CallCredentials_ServiceAccountJWTAccessCredentials_JsonKey :: "string"
  GrpcService_GoogleGrpc_CallCredentials_ServiceAccountJWTAccessCredentials_TokenLifetimeSeconds :: "64 word"

definition GrpcService_GoogleGrpc_CallCredentials_ServiceAccountJWTAccessCredentials_validate ::
    "GrpcService_GoogleGrpc_CallCredentials_ServiceAccountJWTAccessCredentials validator" where
  "GrpcService_GoogleGrpc_CallCredentials_ServiceAccountJWTAccessCredentials_validate =
     validate ''GrpcService_GoogleGrpc_CallCredentials_ServiceAccountJWTAccessCredentials'' (\<lambda>m. [])"

record GrpcService_GoogleGrpc_CallCredentials_GoogleIAMCredentials =
  GrpcService_GoogleGrpc_CallCredentials_GoogleIAMCredentials_AuthorizationToken :: "string"
  GrpcService_GoogleGrpc_CallCredentials_GoogleIAMCredentials_AuthoritySelector :: "string"

definition GrpcService_GoogleGrpc_CallCredentials_GoogleIAMCredentials_validate ::
    "GrpcService_GoogleGrpc_CallCredentials_GoogleIAMCredentials validator" where
  "GrpcService_GoogleGrpc_CallCredentials_GoogleIAMCredentials_validate =
     validate ''GrpcService_GoogleGrpc_CallCredentials_GoogleIAMCredentials'' (\<lambda>m. [])"

datatype oneof_GrpcService_GoogleGrpc_CallCredentials_MetadataCredentialsFromPlugin_ConfigType =
    GrpcService_GoogleGrpc_CallCredentials_MetadataCredentialsFromPlugin_TypedConfig "(bytes option) option"

record GrpcService_GoogleGrpc_CallCredentials_MetadataCredentialsFromPlugin =
  GrpcService_GoogleGrpc_CallCredentials_MetadataCredentialsFromPlugin_Name :: "string"
  GrpcService_GoogleGrpc_CallCredentials_MetadataCredentialsFromPlugin_ConfigType :: "oneof_GrpcService_GoogleGrpc_CallCredentials_MetadataCredentialsFromPlugin_ConfigType option"

definition GrpcService_GoogleGrpc_CallCredentials_MetadataCredentialsFromPlugin_validate ::
    "GrpcService_GoogleGrpc_CallCredentials_MetadataCredentialsFromPlugin validator" where
  "GrpcService_GoogleGrpc_CallCredentials_MetadataCredentialsFromPlugin_validate =
     validate ''GrpcService_GoogleGrpc_CallCredentials_MetadataCredentialsFromPlugin'' (\<lambda>m. [
     (case GrpcService_GoogleGrpc_CallCredentials_MetadataCredentialsFromPlugin_ConfigType m of
         None \<Rightarrow> skip
       | Some (GrpcService_GoogleGrpc_CallCredentials_MetadataCredentialsFromPlugin_TypedConfig w) \<Rightarrow> oneof_case ''ConfigType'' w (\<lambda>v. skip))])"

record GrpcService_GoogleGrpc_CallCredentials_StsService =
  GrpcService_GoogleGrpc_CallCredentials_StsService_TokenExchangeServiceUri :: "string"
  GrpcService_GoogleGrpc_CallCredentials_StsService_Resource :: "string"
  GrpcService_GoogleGrpc_CallCredentials_StsService_Audience :: "string"
  GrpcService_GoogleGrpc_CallCredentials_StsService_Scope :: "string"
  GrpcService_GoogleGrpc_CallCredentials_StsService_RequestedTokenType :: "string"
  GrpcService_GoogleGrpc_CallCredentials_StsService_SubjectTokenPath :: "string"
  GrpcService_GoogleGrpc_CallCredentials_StsService_SubjectTokenType :: "string"
  GrpcService_GoogleGrpc_CallCredentials_StsService_ActorTokenPath :: "string"
  GrpcService_GoogleGrpc_CallCredentials_StsService_ActorTokenType :: "string"

definition GrpcService_GoogleGrpc_CallCredentials_StsService_validate ::
    "GrpcService_GoogleGrpc_CallCredentials_StsService validator" where
  "GrpcService_GoogleGrpc_CallCredentials_StsService_validate =
     validate ''GrpcService_GoogleGrpc_CallCredentials_StsService'' (\<lambda>m. [
     check (RuneCountInString (GrpcService_GoogleGrpc_CallCredentials_StsService_SubjectTokenPath
         m) < 1) ''SubjectTokenPath'' ''value length must be at least 1 runes'',
     check (RuneCountInString (GrpcService_GoogleGrpc_CallCredentials_StsService_SubjectTokenType
         m) < 1) ''SubjectTokenType'' ''value length must be at least 1 runes''])"

datatype oneof_GrpcService_GoogleGrpc_CallCredentials_CredentialSpecifier =
    GrpcService_GoogleGrpc_CallCredentials_AccessToken "string option"
  | GrpcService_GoogleGrpc_CallCredentials_GoogleComputeEngine "(bytes option) option"
  | GrpcService_GoogleGrpc_CallCredentials_GoogleRefreshToken "string option"
  | GrpcService_GoogleGrpc_CallCredentials_ServiceAccountJwtAccess "(GrpcService_GoogleGrpc_CallCredentials_ServiceAccountJWTAccessCredentials option) option"
  | GrpcService_GoogleGrpc_CallCredentials_GoogleIam "(GrpcService_GoogleGrpc_CallCredentials_GoogleIAMCredentials option) option"
  | GrpcService_GoogleGrpc_CallCredentials_FromPlugin "(GrpcService_GoogleGrpc_CallCredentials_MetadataCredentialsFromPlugin option) option"
  | GrpcService_GoogleGrpc_CallCredentials_StsService_case "(GrpcService_GoogleGrpc_CallCredentials_StsService option) option"

record GrpcService_GoogleGrpc_CallCredentials =
  GrpcService_GoogleGrpc_CallCredentials_CredentialSpecifier :: "oneof_GrpcService_GoogleGrpc_CallCredentials_CredentialSpecifier option"

definition GrpcService_GoogleGrpc_CallCredentials_validate ::
    "GrpcService_GoogleGrpc_CallCredentials validator" where
  "GrpcService_GoogleGrpc_CallCredentials_validate =
     validate ''GrpcService_GoogleGrpc_CallCredentials'' (\<lambda>m. [
     (case GrpcService_GoogleGrpc_CallCredentials_CredentialSpecifier m of
         None \<Rightarrow> skip
       | Some (GrpcService_GoogleGrpc_CallCredentials_AccessToken w) \<Rightarrow> oneof_unread ''CredentialSpecifier'' w
       | Some (GrpcService_GoogleGrpc_CallCredentials_GoogleComputeEngine w) \<Rightarrow>
           oneof_case ''CredentialSpecifier'' w (\<lambda>v. skip)
       | Some (GrpcService_GoogleGrpc_CallCredentials_GoogleRefreshToken w) \<Rightarrow> oneof_unread ''CredentialSpecifier'' w
       | Some (GrpcService_GoogleGrpc_CallCredentials_ServiceAccountJwtAccess w) \<Rightarrow>
           oneof_case ''CredentialSpecifier'' w (\<lambda>v.
           embed ''ServiceAccountJwtAccess'' GrpcService_GoogleGrpc_CallCredentials_ServiceAccountJWTAccessCredentials_validate v)
       | Some (GrpcService_GoogleGrpc_CallCredentials_GoogleIam w) \<Rightarrow>
           oneof_case ''CredentialSpecifier'' w (\<lambda>v.
           embed ''GoogleIam'' GrpcService_GoogleGrpc_CallCredentials_GoogleIAMCredentials_validate v)
       | Some (GrpcService_GoogleGrpc_CallCredentials_FromPlugin w) \<Rightarrow>
           oneof_case ''CredentialSpecifier'' w (\<lambda>v.
           embed ''FromPlugin'' GrpcService_GoogleGrpc_CallCredentials_MetadataCredentialsFromPlugin_validate v)
       | Some (GrpcService_GoogleGrpc_CallCredentials_StsService_case w) \<Rightarrow>
           oneof_case ''CredentialSpecifier'' w (\<lambda>v.
           embed ''StsService'' GrpcService_GoogleGrpc_CallCredentials_StsService_validate v)),
     check (GrpcService_GoogleGrpc_CallCredentials_CredentialSpecifier m = None)
         ''CredentialSpecifier'' ''value is required''])"

datatype oneof_GrpcService_GoogleGrpc_ChannelArgs_Value_ValueSpecifier =
    GrpcService_GoogleGrpc_ChannelArgs_Value_StringValue "string option"
  | GrpcService_GoogleGrpc_ChannelArgs_Value_IntValue "(64 word) option"

record GrpcService_GoogleGrpc_ChannelArgs_Value =
  GrpcService_GoogleGrpc_ChannelArgs_Value_ValueSpecifier :: "oneof_GrpcService_GoogleGrpc_ChannelArgs_Value_ValueSpecifier option"

definition GrpcService_GoogleGrpc_ChannelArgs_Value_validate ::
    "GrpcService_GoogleGrpc_ChannelArgs_Value validator" where
  "GrpcService_GoogleGrpc_ChannelArgs_Value_validate =
     validate ''GrpcService_GoogleGrpc_ChannelArgs_Value'' (\<lambda>m. [
     (case GrpcService_GoogleGrpc_ChannelArgs_Value_ValueSpecifier m of
         None \<Rightarrow> skip
       | Some (GrpcService_GoogleGrpc_ChannelArgs_Value_StringValue w) \<Rightarrow> oneof_unread ''ValueSpecifier'' w
       | Some (GrpcService_GoogleGrpc_ChannelArgs_Value_IntValue w) \<Rightarrow> oneof_unread ''ValueSpecifier'' w),
     check (GrpcService_GoogleGrpc_ChannelArgs_Value_ValueSpecifier m = None) ''ValueSpecifier''
         ''value is required''])"

record GrpcService_GoogleGrpc_ChannelArgs =
  GrpcService_GoogleGrpc_ChannelArgs_Args :: "(string, GrpcService_GoogleGrpc_ChannelArgs_Value option) gomap"

definition GrpcService_GoogleGrpc_ChannelArgs_validate ::
    "GrpcService_GoogleGrpc_ChannelArgs validator" where
  "GrpcService_GoogleGrpc_ChannelArgs_validate =
     validate ''GrpcService_GoogleGrpc_ChannelArgs'' (\<lambda>m. [
     each_key (\<lambda>k x.
         embed (index_field ''Args'' k) GrpcService_GoogleGrpc_ChannelArgs_Value_validate x)
         (GrpcService_GoogleGrpc_ChannelArgs_Args m)])"

record GrpcService_GoogleGrpc =
  GrpcService_GoogleGrpc_TargetUri :: "string"
  GrpcService_GoogleGrpc_ChannelCredentials :: "GrpcService_GoogleGrpc_ChannelCredentials option"
  GrpcService_GoogleGrpc_CallCredentials :: "GrpcService_GoogleGrpc_CallCredentials option list"
  GrpcService_GoogleGrpc_StatPrefix :: "string"
  GrpcService_GoogleGrpc_CredentialsFactoryName :: "string"
  GrpcService_GoogleGrpc_Config :: "bytes option"
  GrpcService_GoogleGrpc_PerStreamBufferLimitBytes :: "32 word option"
  GrpcService_GoogleGrpc_ChannelArgs :: "GrpcService_GoogleGrpc_ChannelArgs option"

definition GrpcService_GoogleGrpc_validate :: "GrpcService_GoogleGrpc validator" where
  "GrpcService_GoogleGrpc_validate = validate ''GrpcService_GoogleGrpc'' (\<lambda>m. [
     check (RuneCountInString (GrpcService_GoogleGrpc_TargetUri m) < 1) ''TargetUri''
         ''value length must be at least 1 runes'',
     embed ''ChannelCredentials'' GrpcService_GoogleGrpc_ChannelCredentials_validate
         (GrpcService_GoogleGrpc_ChannelCredentials m),
     each (\<lambda>i x.
         embed (index_field ''CallCredentials'' i) GrpcService_GoogleGrpc_CallCredentials_validate x) (GrpcService_GoogleGrpc_CallCredentials m),
     check (RuneCountInString (GrpcService_GoogleGrpc_StatPrefix m) < 1) ''StatPrefix''
         ''value length must be at least 1 runes'',
     embed ''ChannelArgs'' GrpcService_GoogleGrpc_ChannelArgs_validate
         (GrpcService_GoogleGrpc_ChannelArgs m)])"

datatype oneof_GrpcService_TargetSpecifier =
    GrpcService_EnvoyGrpc_case "(GrpcService_EnvoyGrpc option) option"
  | GrpcService_GoogleGrpc_case "(GrpcService_GoogleGrpc option) option"

record GrpcService =
  GrpcService_TargetSpecifier :: "oneof_GrpcService_TargetSpecifier option"
  GrpcService_Timeout :: "Duration option"
  GrpcService_InitialMetadata :: "HeaderValue option list"
  GrpcService_RetryPolicy :: "RetryPolicy option"

definition GrpcService_validate :: "vlib \<Rightarrow> GrpcService validator" where
  "GrpcService_validate V = validate ''GrpcService'' (\<lambda>m. [
     each (\<lambda>i x. embed (index_field ''InitialMetadata'' i) HeaderValue_validate x)
         (GrpcService_InitialMetadata m),
     embed ''RetryPolicy'' (RetryPolicy_validate V) (GrpcService_RetryPolicy m),
     (case GrpcService_TargetSpecifier m of
         None \<Rightarrow> skip
       | Some (GrpcService_EnvoyGrpc_case w) \<Rightarrow> oneof_case ''TargetSpecifier'' w
           (\<lambda>v. embed ''EnvoyGrpc'' (GrpcService_EnvoyGrpc_validate V) v)
       | Some (GrpcService_GoogleGrpc_case w) \<Rightarrow> oneof_case ''TargetSpecifier'' w
           (\<lambda>v. embed ''GoogleGrpc'' GrpcService_GoogleGrpc_validate v)),
     check (GrpcService_TargetSpecifier m = None) ''TargetSpecifier'' ''value is required''])"

record RateLimitSettings =
  RateLimitSettings_MaxTokens :: "32 word option"
  RateLimitSettings_FillRate :: "float64 option"

definition RateLimitSettings_validate :: "RateLimitSettings validator" where
  "RateLimitSettings_validate = validate ''RateLimitSettings'' (\<lambda>m. [
     (case RateLimitSettings_FillRate m of None \<Rightarrow> skip | Some w \<Rightarrow>
         check (float_le w (Finite 0 0)) ''FillRate'' ''value must be greater than 0'')])"

record ApiConfigSource =
  ApiConfigSource_ApiType :: "32 word"
  ApiConfigSource_TransportApiVersion :: "32 word"
  ApiConfigSource_ClusterNames :: "string list"
  ApiConfigSource_GrpcServices :: "GrpcService option list"
  ApiConfigSource_RefreshDelay :: "Duration option"
  ApiConfigSource_RequestTimeout :: "Duration option"
  ApiConfigSource_RateLimitSettings :: "RateLimitSettings option"
  ApiConfigSource_SetNodeOnFirstMessageOnly :: "bool"
  ApiConfigSource_ConfigValidators :: "TypedExtensionConfig option list"

definition ApiConfigSource_ApiType_name :: "(32 word, string) gomap" where
  "ApiConfigSource_ApiType_name = [(0, ''DEPRECATED_AND_UNAVAILABLE_DO_NOT_USE''), (1, ''REST''), (2, ''GRPC''), (3,
      ''DELTA_GRPC''), (5, ''AGGREGATED_GRPC''), (6, ''AGGREGATED_DELTA_GRPC'')]"

definition ApiVersion_name :: "(32 word, string) gomap" where
  "ApiVersion_name = [(0, ''AUTO''), (1, ''V2''), (2, ''V3'')]"

definition ApiConfigSource_validate :: "vlib \<Rightarrow> ApiConfigSource validator" where
  "ApiConfigSource_validate V = validate ''ApiConfigSource'' (\<lambda>m. [
     check (mget ApiConfigSource_ApiType_name (ApiConfigSource_ApiType m) = None) ''ApiType''
         ''value must be one of the defined enum values'',
     check (mget ApiVersion_name (ApiConfigSource_TransportApiVersion m) = None)
         ''TransportApiVersion'' ''value must be one of the defined enum values'',
     each (\<lambda>i x. embed (index_field ''GrpcServices'' i) (GrpcService_validate V) x)
         (ApiConfigSource_GrpcServices m),
     check_duration V (ApiConfigSource_RequestTimeout m) (\<lambda>dur. dur \<le> duration_of 0 0)
         ''RequestTimeout'' ''value must be greater than 0s'',
     embed ''RateLimitSettings'' RateLimitSettings_validate (ApiConfigSource_RateLimitSettings m),
     each (\<lambda>i x. embed (index_field ''ConfigValidators'' i) TypedExtensionConfig_validate x)
         (ApiConfigSource_ConfigValidators m)])"

datatype AggregatedConfigSource = empty_AggregatedConfigSource

definition AggregatedConfigSource_validate :: "AggregatedConfigSource validator" where
  "AggregatedConfigSource_validate = validate ''AggregatedConfigSource'' (\<lambda>m. [])"

record SelfConfigSource =
  SelfConfigSource_TransportApiVersion :: "32 word"

definition SelfConfigSource_validate :: "SelfConfigSource validator" where
  "SelfConfigSource_validate = validate ''SelfConfigSource'' (\<lambda>m. [
     check (mget ApiVersion_name (SelfConfigSource_TransportApiVersion m) = None)
         ''TransportApiVersion'' ''value must be one of the defined enum values''])"

record PathConfigSource =
  PathConfigSource_Path :: "string"
  PathConfigSource_WatchedDirectory :: "WatchedDirectory option"

definition PathConfigSource_validate :: "PathConfigSource validator" where
  "PathConfigSource_validate = validate ''PathConfigSource'' (\<lambda>m. [
     check (RuneCountInString (PathConfigSource_Path m) < 1) ''Path''
         ''value length must be at least 1 runes'',
     embed ''WatchedDirectory'' WatchedDirectory_validate (PathConfigSource_WatchedDirectory m)])"

datatype oneof_ConfigSource_ConfigSourceSpecifier =
    ConfigSource_Path "string option"
  | ConfigSource_PathConfigSource "(PathConfigSource option) option"
  | ConfigSource_ApiConfigSource "(ApiConfigSource option) option"
  | ConfigSource_Ads "(AggregatedConfigSource option) option"
  | ConfigSource_Self "(SelfConfigSource option) option"

record ConfigSource =
  ConfigSource_Authorities :: "bytes option list"
  ConfigSource_ConfigSourceSpecifier :: "oneof_ConfigSource_ConfigSourceSpecifier option"
  ConfigSource_InitialFetchTimeout :: "Duration option"
  ConfigSource_ResourceApiVersion :: "32 word"

definition ConfigSource_validate :: "vlib \<Rightarrow> ConfigSource validator" where
  "ConfigSource_validate V = validate ''ConfigSource'' (\<lambda>m. [
     each (\<lambda>i x. embed (index_field ''Authorities'' i) (Authority_validate V) x)
         (ConfigSource_Authorities m),
     check (mget ApiVersion_name (ConfigSource_ResourceApiVersion m) = None) ''ResourceApiVersion''
         ''value must be one of the defined enum values'',
     (case ConfigSource_ConfigSourceSpecifier m of
         None \<Rightarrow> skip
       | Some (ConfigSource_Path w) \<Rightarrow> oneof_unread ''ConfigSourceSpecifier'' w
       | Some (ConfigSource_PathConfigSource w) \<Rightarrow>
           oneof_case ''ConfigSourceSpecifier'' w (\<lambda>v.
           embed ''PathConfigSource'' PathConfigSource_validate v)
       | Some (ConfigSource_ApiConfigSource w) \<Rightarrow>
           oneof_case ''ConfigSourceSpecifier'' w (\<lambda>v. embed ''ApiConfigSource''
           (ApiConfigSource_validate V) v)
       | Some (ConfigSource_Ads w) \<Rightarrow> oneof_case ''ConfigSourceSpecifier'' w
           (\<lambda>v. embed ''Ads'' AggregatedConfigSource_validate v)
       | Some (ConfigSource_Self w) \<Rightarrow> oneof_case ''ConfigSourceSpecifier'' w
           (\<lambda>v. embed ''Self'' SelfConfigSource_validate v)),
     check (ConfigSource_ConfigSourceSpecifier m = None) ''ConfigSourceSpecifier''
         ''value is required''])"

record ExtensionConfigSource =
  ExtensionConfigSource_ConfigSource :: "ConfigSource option"
  ExtensionConfigSource_DefaultConfig :: "bytes option"
  ExtensionConfigSource_ApplyDefaultConfigWithoutWarming :: "bool"
  ExtensionConfigSource_TypeUrls :: "string list"

definition ExtensionConfigSource_validate :: "ExtensionConfigSource validator" where
  "ExtensionConfigSource_validate = validate ''ExtensionConfigSource'' (\<lambda>m. [
     check (ExtensionConfigSource_ConfigSource m = None) ''ConfigSource'' ''value is required'',
     check (length (ExtensionConfigSource_TypeUrls m) < 1) ''TypeUrls''
         ''value must contain at least 1 item(s)''])"

end
