(* ===== verification/EndpointValidation.thy ===== *)
theory EndpointValidation
  imports ConfigValidation
begin

text \<open>
  Validation of the endpoint resources (\<open>envoy/config/endpoint/v3\<close>), up to \<open>ClusterLoadAssignment\<close>.
\<close>

record Endpoint_HealthCheckConfig =
  Endpoint_HealthCheckConfig_PortValue :: "32 word"
  Endpoint_HealthCheckConfig_Hostname :: "string"
  Endpoint_HealthCheckConfig_Address :: "Address option"
  Endpoint_HealthCheckConfig_DisableActiveHealthCheck :: "bool"

definition Endpoint_HealthCheckConfig_validate :: "Endpoint_HealthCheckConfig validator" where
  "Endpoint_HealthCheckConfig_validate = validate ''Endpoint_HealthCheckConfig'' (\<lambda>m. [
     check (Endpoint_HealthCheckConfig_PortValue m > 65535) ''PortValue''
         ''value must be less than or equal to 65535'',
     embed ''Address'' Address_validate (Endpoint_HealthCheckConfig_Address m)])"

record Endpoint_AdditionalAddress =
  Endpoint_AdditionalAddress_Address :: "Address option"

definition Endpoint_AdditionalAddress_validate :: "Endpoint_AdditionalAddress validator" where
  "Endpoint_AdditionalAddress_validate = validate ''Endpoint_AdditionalAddress'' (\<lambda>m. [
     embed ''Address'' Address_validate (Endpoint_AdditionalAddress_Address m)])"

record Endpoint =
  Endpoint_Address :: "Address option"
  Endpoint_HealthCheckConfig :: "Endpoint_HealthCheckConfig option"
  Endpoint_Hostname :: "string"
  Endpoint_AdditionalAddresses :: "Endpoint_AdditionalAddress option list"

definition Endpoint_validate :: "Endpoint validator" where
  "Endpoint_validate = validate ''Endpoint'' (\<lambda>m. [
     embed ''Address'' Address_validate (Endpoint_Address m),
     embed ''HealthCheckConfig'' Endpoint_HealthCheckConfig_validate (Endpoint_HealthCheckConfig m),
     each (\<lambda>i x.
         embed (index_field ''AdditionalAddresses'' i) Endpoint_AdditionalAddress_validate x)
         (Endpoint_AdditionalAddresses m)])"

datatype oneof_LbEndpoint_HostIdentifier =
    LbEndpoint_Endpoint "(Endpoint option) option"
  | LbEndpoint_EndpointName "string option"

record LbEndpoint =
  LbEndpoint_HostIdentifier :: "oneof_LbEndpoint_HostIdentifier option"
  LbEndpoint_HealthStatus :: "32 word"
  LbEndpoint_Metadata :: "Metadata option"
  LbEndpoint_LoadBalancingWeight :: "32 word option"

definition LbEndpoint_validate :: "LbEndpoint validator" where
  "LbEndpoint_validate = validate ''LbEndpoint'' (\<lambda>m. [
     embed ''Metadata'' Metadata_validate (LbEndpoint_Metadata m),
     (case LbEndpoint_LoadBalancingWeight m of None \<Rightarrow> skip | Some w \<Rightarrow>
         check (w < 1) ''LoadBalancingWeight'' ''value must be greater than or equal to 1''),
     (case LbEndpoint_HostIdentifier m of
         None \<Rightarrow> skip
       | Some (LbEndpoint_Endpoint w) \<Rightarrow> oneof_case ''HostIdentifier'' w (\<lambda>v.
           embed ''Endpoint'' Endpoint_validate v)
       | Some (LbEndpoint_EndpointName w) \<Rightarrow> oneof_unread ''HostIdentifier'' w)])"

record LbEndpointCollection =
  LbEndpointCollection_Entries :: "bytes option"

definition LbEndpointCollection_validate ::
    "vlib \<Rightarrow> LbEndpointCollection validator" where
  "LbEndpointCollection_validate V = validate ''LbEndpointCollection'' (\<lambda>m. [
     embed ''Entries'' (CollectionEntry_validate V) (LbEndpointCollection_Entries m)])"

record LedsClusterLocalityConfig =
  LedsClusterLocalityConfig_LedsConfig :: "ConfigSource option"
  LedsClusterLocalityConfig_LedsCollectionName :: "string"

definition LedsClusterLocalityConfig_validate ::
    "vlib \<Rightarrow> LedsClusterLocalityConfig validator" where
  "LedsClusterLocalityConfig_validate V = validate ''LedsClusterLocalityConfig'' (\<lambda>m. [
     embed ''LedsConfig'' (ConfigSource_validate V) (LedsClusterLocalityConfig_LedsConfig m)])"

record LocalityLbEndpoints_LbEndpointList =
  LocalityLbEndpoints_LbEndpointList_LbEndpoints :: "LbEndpoint option list"

definition LocalityLbEndpoints_LbEndpointList_validate ::
    "LocalityLbEndpoints_LbEndpointList validator" where
  "LocalityLbEndpoints_LbEndpointList_validate =
     validate ''LocalityLbEndpoints_LbEndpointList'' (\<lambda>m. [
     each (\<lambda>i x. embed (index_field ''LbEndpoints'' i) LbEndpoint_validate x)
         (LocalityLbEndpoints_LbEndpointList_LbEndpoints m)])"

datatype oneof_LocalityLbEndpoints_LbConfig =
    LocalityLbEndpoints_LoadBalancerEndpoints "(LocalityLbEndpoints_LbEndpointList option) option"
  | LocalityLbEndpoints_LedsClusterLocalityConfig "(LedsClusterLocalityConfig option) option"

record LocalityLbEndpoints =
  LocalityLbEndpoints_Locality :: "Locality option"
  LocalityLbEndpoints_Metadata :: "Metadata option"
  LocalityLbEndpoints_LbEndpoints :: "LbEndpoint option list"
  LocalityLbEndpoints_LbConfig :: "oneof_LocalityLbEndpoints_LbConfig option"
  LocalityLbEndpoints_LoadBalancingWeight :: "32 word option"
  LocalityLbEndpoints_Priority :: "32 word"
  LocalityLbEndpoints_Proximity :: "32 word option"

definition LocalityLbEndpoints_validate :: "vlib \<Rightarrow> LocalityLbEndpoints validator" where
  "LocalityLbEndpoints_validate V = validate ''LocalityLbEndpoints'' (\<lambda>m. [
     embed ''Locality'' Locality_validate (LocalityLbEndpoints_Locality m),
     embed ''Metadata'' Metadata_validate (LocalityLbEndpoints_Metadata m),
     each (\<lambda>i x. embed (index_field ''LbEndpoints'' i) LbEndpoint_validate x)
         (LocalityLbEndpoints_LbEndpoints m),
     (case LocalityLbEndpoints_LoadBalancingWeight m of None \<Rightarrow> skip | Some w \<Rightarrow>
         check (w < 1) ''LoadBalancingWeight'' ''value must be greater than or equal to 1''),
     check (LocalityLbEndpoints_Priority m > 128) ''Priority''
         ''value must be less than or equal to 128'',
     (case LocalityLbEndpoints_LbConfig m of
         None \<Rightarrow> skip
       | Some (LocalityLbEndpoints_LoadBalancerEndpoints w) \<Rightarrow>
           oneof_case ''LbConfig'' w (\<lambda>v.
           embed ''LoadBalancerEndpoints'' LocalityLbEndpoints_LbEndpointList_validate v)
       | Some (LocalityLbEndpoints_LedsClusterLocalityConfig w) \<Rightarrow>
           oneof_case ''LbConfig'' w (\<lambda>v. embed ''LedsClusterLocalityConfig''
           (LedsClusterLocalityConfig_validate V) v))])"

record ClusterLoadAssignment_Policy_DropOverload =
  ClusterLoadAssignment_Policy_DropOverload_Category :: "string"
  ClusterLoadAssignment_Policy_DropOverload_DropPercentage :: "FractionalPercent option"

definition ClusterLoadAssignment_Policy_DropOverload_validate ::
    "ClusterLoadAssignment_Policy_DropOverload validator" where
  "ClusterLoadAssignment_Policy_DropOverload_validate =
     validate ''ClusterLoadAssignment_Policy_DropOverload'' (\<lambda>m. [
     check (RuneCountInString (ClusterLoadAssignment_Policy_DropOverload_Category m) < 1) ''Category''
         ''value length must be at least 1 runes'',
     embed ''DropPercentage'' FractionalPercent_validate
         (ClusterLoadAssignment_Policy_DropOverload_DropPercentage m)])"

record ClusterLoadAssignment_Policy =
  ClusterLoadAssignment_Policy_DropOverloads :: "ClusterLoadAssignment_Policy_DropOverload option list"
  ClusterLoadAssignment_Policy_OverprovisioningFactor :: "32 word option"
  ClusterLoadAssignment_Policy_EndpointStaleAfter :: "Duration option"
  ClusterLoadAssignment_Policy_WeightedPriorityHealth :: "bool"

definition ClusterLoadAssignment_Policy_validate ::
    "vlib \<Rightarrow> ClusterLoadAssignment_Policy validator" where
  "ClusterLoadAssignment_Policy_validate V =
     validate ''ClusterLoadAssignment_Policy'' (\<lambda>m. [
     each (\<lambda>i x.
         embed (index_field ''DropOverloads'' i) ClusterLoadAssignment_Policy_DropOverload_validate x) (ClusterLoadAssignment_Policy_DropOverloads m),
     (case ClusterLoadAssignment_Policy_OverprovisioningFactor m of None \<Rightarrow> skip
         | Some w \<Rightarrow> check (w \<le> 0) ''OverprovisioningFactor''
         ''value must be greater than 0''),
     check_duration V (ClusterLoadAssignment_Policy_EndpointStaleAfter m)
         (\<lambda>dur. dur \<le> duration_of 0 0) ''EndpointStaleAfter''
         ''value must be greater than 0s''])"

record ClusterLoadAssignmentMsg =
  ClusterLoadAssignmentMsg_ClusterName :: "string"
  ClusterLoadAssignmentMsg_Endpoints :: "LocalityLbEndpoints option list"
  ClusterLoadAssignmentMsg_NamedEndpoints :: "(string, Endpoint option) gomap"
  ClusterLoadAssignmentMsg_Policy :: "ClusterLoadAssignment_Policy option"

definition ClusterLoadAssignmentMsg_validate ::
    "vlib \<Rightarrow> ClusterLoadAssignmentMsg validator" where
  "ClusterLoadAssignmentMsg_validate V = validate ''ClusterLoadAssignment'' (\<lambda>m. [
     check (RuneCountInString (ClusterLoadAssignmentMsg_ClusterName m) < 1) ''ClusterName''
         ''value length must be at least 1 runes'',
     each (\<lambda>i x. embed (index_field ''Endpoints'' i) (LocalityLbEndpoints_validate V) x)
         (ClusterLoadAssignmentMsg_Endpoints m),
     each_key (\<lambda>k x. embed (index_field ''NamedEndpoints'' k) Endpoint_validate x)
         (ClusterLoadAssignmentMsg_NamedEndpoints m),
     embed ''Policy'' (ClusterLoadAssignment_Policy_validate V) (ClusterLoadAssignmentMsg_Policy m)])"

end
