(* ===== verification/DiscoveryValidation.thy ===== *)
theory DiscoveryValidation
  imports CoreValidation
begin

text \<open>
  Validation of the discovery requests and responses (\<open>discovery.pb.validate.go\<close>).  The constraints on
  dynamic parameters are a recursive message, and their validation functions call each other.
\<close>

datatype DynamicParameterConstraints_SingleConstraint_Exists = empty_DynamicParameterConstraints_SingleConstraint_Exists

definition DynamicParameterConstraints_SingleConstraint_Exists_validate ::
    "DynamicParameterConstraints_SingleConstraint_Exists validator" where
  "DynamicParameterConstraints_SingleConstraint_Exists_validate =
     validate ''DynamicParameterConstraints_SingleConstraint_Exists'' (\<lambda>m. [])"

datatype oneof_DynamicParameterConstraints_SingleConstraint_ConstraintType =
    DynamicParameterConstraints_SingleConstraint_Value "string option"
  | DynamicParameterConstraints_SingleConstraint_Exists_case "(DynamicParameterConstraints_SingleConstraint_Exists option) option"

record DynamicParameterConstraints_SingleConstraint =
  DynamicParameterConstraints_SingleConstraint_Key :: "string"
  DynamicParameterConstraints_SingleConstraint_ConstraintType :: "oneof_DynamicParameterConstraints_SingleConstraint_ConstraintType option"

definition DynamicParameterConstraints_SingleConstraint_validate ::
    "DynamicParameterConstraints_SingleConstraint validator" where
  "DynamicParameterConstraints_SingleConstraint_validate =
     validate ''DynamicParameterConstraints_SingleConstraint'' (\<lambda>m. [
     (case DynamicParameterConstraints_SingleConstraint_ConstraintType m of
         None \<Rightarrow> skip
       | Some (DynamicParameterConstraints_SingleConstraint_Value w) \<Rightarrow> oneof_unread ''ConstraintType'' w
       | Some (DynamicParameterConstraints_SingleConstraint_Exists_case w) \<Rightarrow>
           oneof_case ''ConstraintType'' w (\<lambda>v.
           embed ''Exists'' DynamicParameterConstraints_SingleConstraint_Exists_validate v)),
     check (DynamicParameterConstraints_SingleConstraint_ConstraintType m = None) ''ConstraintType''
         ''value is required''])"

datatype oneof_DynamicParameterConstraints_Type =
    DynamicParameterConstraints_Constraint "DynamicParameterConstraints_SingleConstraint option option"
  | DynamicParameterConstraints_OrConstraints "DynamicParameterConstraints_ConstraintList option option"
  | DynamicParameterConstraints_AndConstraints "DynamicParameterConstraints_ConstraintList option option"
  | DynamicParameterConstraints_NotConstraints "DynamicParameterConstraints option option"
and DynamicParameterConstraints =
    DynamicParameterConstraints
      (DynamicParameterConstraints_Type: "oneof_DynamicParameterConstraints_Type option")
and DynamicParameterConstraints_ConstraintList =
    DynamicParameterConstraints_ConstraintList
      (DynamicParameterConstraints_ConstraintList_Constraints: "DynamicParameterConstraints option list")

function DynamicParameterConstraints_validate :: "DynamicParameterConstraints validator"
  and DynamicParameterConstraints_ConstraintList_validate ::
    "DynamicParameterConstraints_ConstraintList validator" where
  "DynamicParameterConstraints_validate all m = validate ''DynamicParameterConstraints'' (\<lambda>m. [
     (case DynamicParameterConstraints_Type m of
         None \<Rightarrow> skip
       | Some (DynamicParameterConstraints_Constraint w) \<Rightarrow> oneof_case ''Type'' w
             (\<lambda>v. embed ''Constraint'' DynamicParameterConstraints_SingleConstraint_validate v)
       | Some (DynamicParameterConstraints_OrConstraints w) \<Rightarrow> oneof_case ''Type'' w
             (\<lambda>v. embed ''OrConstraints'' DynamicParameterConstraints_ConstraintList_validate v)
       | Some (DynamicParameterConstraints_AndConstraints w) \<Rightarrow> oneof_case ''Type'' w
             (\<lambda>v. embed ''AndConstraints'' DynamicParameterConstraints_ConstraintList_validate v)
       | Some (DynamicParameterConstraints_NotConstraints w) \<Rightarrow> oneof_case ''Type'' w
             (\<lambda>v. embed ''NotConstraints'' DynamicParameterConstraints_validate v))]) all m"
| "DynamicParameterConstraints_ConstraintList_validate all m =
     validate ''DynamicParameterConstraints_ConstraintList'' (\<lambda>m. [
       each (\<lambda>i x. embed (index_field ''Constraints'' i) DynamicParameterConstraints_validate x)
         (DynamicParameterConstraints_ConstraintList_Constraints m)]) all m"
  by pat_completeness auto

termination
proof (relation "measure (case_sum (\<lambda>(all, m). size_option size m) (\<lambda>(all, m). size_option size m))", goal_cases)
  case 1
  show ?case by simp
next
  case (2 all m x w v all')
  then show ?case by (cases x) auto
next
  case (3 all m x w v all')
  then show ?case by (cases x) auto
next
  case (4 all m x w v all')
  then show ?case by (cases x) auto
next
  case (5 all m x i y all')
  then show ?case by (cases x) (auto dest: size_in_list)
qed

declare DynamicParameterConstraints_validate.simps [simp del]
declare DynamicParameterConstraints_ConstraintList_validate.simps [simp del]

record ResourceLocator =
  ResourceLocator_Name :: "string"
  ResourceLocator_DynamicParameters :: "(string, string) gomap"

definition ResourceLocator_validate :: "ResourceLocator validator" where
  "ResourceLocator_validate = validate ''ResourceLocator'' (\<lambda>m. [])"

record ResourceName =
  ResourceName_Name :: "string"
  ResourceName_DynamicParameterConstraints :: "DynamicParameterConstraints option"

definition ResourceName_validate :: "ResourceName validator" where
  "ResourceName_validate = validate ''ResourceName'' (\<lambda>m. [
     embed ''DynamicParameterConstraints'' DynamicParameterConstraints_validate
         (ResourceName_DynamicParameterConstraints m)])"

record ResourceError =
  ResourceError_ResourceName :: "ResourceName option"
  ResourceError_ErrorDetail :: "bytes option"

definition ResourceError_validate :: "ResourceError validator" where
  "ResourceError_validate = validate ''ResourceError'' (\<lambda>m. [
     embed ''ResourceName'' ResourceName_validate (ResourceError_ResourceName m)])"

record DiscoveryRequestMsg =
  DiscoveryRequestMsg_VersionInfo :: "string"
  DiscoveryRequestMsg_Node :: "NodeMsg option"
  DiscoveryRequestMsg_ResourceNames :: "string list"
  DiscoveryRequestMsg_ResourceLocators :: "ResourceLocator option list"
  DiscoveryRequestMsg_TypeUrl :: "string"
  DiscoveryRequestMsg_ResponseNonce :: "string"
  DiscoveryRequestMsg_ErrorDetail :: "bytes option"

definition DiscoveryRequestMsg_validate :: "vlib \<Rightarrow> DiscoveryRequestMsg validator" where
  "DiscoveryRequestMsg_validate V = validate ''DiscoveryRequest'' (\<lambda>m. [
     embed ''Node'' (NodeMsg_validate V) (DiscoveryRequestMsg_Node m),
     each (\<lambda>i x. embed (index_field ''ResourceLocators'' i) ResourceLocator_validate x)
         (DiscoveryRequestMsg_ResourceLocators m)])"

record DiscoveryResponseMsg =
  DiscoveryResponseMsg_VersionInfo :: "string"
  DiscoveryResponseMsg_Resources :: "bytes option list"
  DiscoveryResponseMsg_Canary :: "bool"
  DiscoveryResponseMsg_TypeUrl :: "string"
  DiscoveryResponseMsg_Nonce :: "string"
  DiscoveryResponseMsg_ControlPlane :: "ControlPlane option"
  DiscoveryResponseMsg_ResourceErrors :: "ResourceError option list"

definition DiscoveryResponseMsg_validate :: "DiscoveryResponseMsg validator" where
  "DiscoveryResponseMsg_validate = validate ''DiscoveryResponse'' (\<lambda>m. [
     embed ''ControlPlane'' ControlPlane_validate (DiscoveryResponseMsg_ControlPlane m),
     each (\<lambda>i x. embed (index_field ''ResourceErrors'' i) ResourceError_validate x)
         (DiscoveryResponseMsg_ResourceErrors m)])"

record DeltaDiscoveryRequestMsg =
  DeltaDiscoveryRequestMsg_Node :: "NodeMsg option"
  DeltaDiscoveryRequestMsg_TypeUrl :: "string"
  DeltaDiscoveryRequestMsg_ResourceNamesSubscribe :: "string list"
  DeltaDiscoveryRequestMsg_ResourceNamesUnsubscribe :: "string list"
  DeltaDiscoveryRequestMsg_ResourceLocatorsSubscribe :: "ResourceLocator option list"
  DeltaDiscoveryRequestMsg_ResourceLocatorsUnsubscribe :: "ResourceLocator option list"
  DeltaDiscoveryRequestMsg_InitialResourceVersions :: "(string, string) gomap"
  DeltaDiscoveryRequestMsg_ResponseNonce :: "string"
  DeltaDiscoveryRequestMsg_ErrorDetail :: "bytes option"

definition DeltaDiscoveryRequestMsg_validate ::
    "vlib \<Rightarrow> DeltaDiscoveryRequestMsg validator" where
  "DeltaDiscoveryRequestMsg_validate V = validate ''DeltaDiscoveryRequest'' (\<lambda>m. [
     embed ''Node'' (NodeMsg_validate V) (DeltaDiscoveryRequestMsg_Node m),
     each (\<lambda>i x.
         embed (index_field ''ResourceLocatorsSubscribe'' i) ResourceLocator_validate x)
         (DeltaDiscoveryRequestMsg_ResourceLocatorsSubscribe m),
     each (\<lambda>i x.
         embed (index_field ''ResourceLocatorsUnsubscribe'' i) ResourceLocator_validate x)
         (DeltaDiscoveryRequestMsg_ResourceLocatorsUnsubscribe m)])"

record Resource_CacheControl =
  Resource_CacheControl_DoNotCache :: "bool"

definition Resource_CacheControl_validate :: "Resource_CacheControl validator" where
  "Resource_CacheControl_validate = validate ''Resource_CacheControl'' (\<lambda>m. [])"

record ResourceMsg =
  ResourceMsg_Name :: "string"
  ResourceMsg_ResourceName :: "ResourceName option"
  ResourceMsg_Aliases :: "string list"
  ResourceMsg_Version :: "string"
  ResourceMsg_Resource :: "bytes option"
  ResourceMsg_Ttl :: "Duration option"
  ResourceMsg_CacheControl :: "Resource_CacheControl option"
  ResourceMsg_Metadata :: "Metadata option"

definition ResourceMsg_validate :: "ResourceMsg validator" where
  "ResourceMsg_validate = validate ''Resource'' (\<lambda>m. [
     embed ''ResourceName'' ResourceName_validate (ResourceMsg_ResourceName m),
     embed ''CacheControl'' Resource_CacheControl_validate (ResourceMsg_CacheControl m),
     embed ''Metadata'' Metadata_validate (ResourceMsg_Metadata m)])"

record DeltaDiscoveryResponseMsg =
  DeltaDiscoveryResponseMsg_SystemVersionInfo :: "string"
  DeltaDiscoveryResponseMsg_Resources :: "ResourceMsg option list"
  DeltaDiscoveryResponseMsg_TypeUrl :: "string"
  DeltaDiscoveryResponseMsg_RemovedResources :: "string list"
  DeltaDiscoveryResponseMsg_RemovedResourceNames :: "ResourceName option list"
  DeltaDiscoveryResponseMsg_Nonce :: "string"
  DeltaDiscoveryResponseMsg_ControlPlane :: "ControlPlane option"
  DeltaDiscoveryResponseMsg_ResourceErrors :: "ResourceError option list"

definition DeltaDiscoveryResponseMsg_validate :: "DeltaDiscoveryResponseMsg validator" where
  "DeltaDiscoveryResponseMsg_validate = validate ''DeltaDiscoveryResponse'' (\<lambda>m. [
     each (\<lambda>i x. embed (index_field ''Resources'' i) ResourceMsg_validate x)
         (DeltaDiscoveryResponseMsg_Resources m),
     each (\<lambda>i x. embed (index_field ''RemovedResourceNames'' i) ResourceName_validate x)
         (DeltaDiscoveryResponseMsg_RemovedResourceNames m),
     embed ''ControlPlane'' ControlPlane_validate (DeltaDiscoveryResponseMsg_ControlPlane m),
     each (\<lambda>i x. embed (index_field ''ResourceErrors'' i) ResourceError_validate x)
         (DeltaDiscoveryResponseMsg_ResourceErrors m)])"

end
