(* ===== verification/ValidationLaws.thy ===== *)
theory ValidationLaws
  imports ValidationFacts EndpointValidation DiscoveryValidation
begin

text \<open>
  The two modes of every validation function agree: the messages in the order in which they embed
  each other, first those that embed none.
\<close>

lemma lawful_messages_1 [lawful_intros]:
  "lawful SemanticVersion_validate" "lawful Percent_validate" "lawful FractionalPercent_validate"
  "vlib_lawful V \<Longrightarrow> lawful (BackoffStrategy_validate V)"
  "lawful TypedExtensionConfig_validate" "lawful SocketOption_SocketType_Stream_validate"
  "lawful SocketOption_SocketType_Datagram_validate" "lawful Pipe_validate"
  "lawful EnvoyInternalAddress_validate" "lawful SocketAddress_validate"
  "lawful TcpKeepalive_validate" "lawful CidrRange_validate"
  "vlib_lawful V \<Longrightarrow> lawful (HttpUri_validate V)" "lawful Locality_validate"
  "lawful Metadata_validate" "lawful RuntimeUInt32_validate" "lawful RuntimeDouble_validate"
  "lawful RuntimeFeatureFlag_validate" "lawful KeyValue_validate" "lawful KeyValuePair_validate"
  "lawful QueryParameter_validate" "lawful HeaderValue_validate" "lawful WatchedDirectory_validate"
  "lawful TransportSocket_validate" "lawful ControlPlane_validate"
  "lawful RetryPolicy_RetryPriority_validate" "lawful RetryPolicy_RetryHostPredicate_validate"
  "lawful GrpcService_GoogleGrpc_GoogleLocalCredentials_validate"
  "lawful GrpcService_GoogleGrpc_CallCredentials_ServiceAccountJWTAccessCredentials_validate"
  "lawful GrpcService_GoogleGrpc_CallCredentials_GoogleIAMCredentials_validate"
  "lawful GrpcService_GoogleGrpc_CallCredentials_MetadataCredentialsFromPlugin_validate"
  "lawful GrpcService_GoogleGrpc_CallCredentials_StsService_validate"
  "lawful GrpcService_GoogleGrpc_ChannelArgs_Value_validate"
  "lawful AggregatedConfigSource_validate" "lawful SelfConfigSource_validate"
  "lawful RateLimitSettings_validate"
  "vlib_lawful V \<Longrightarrow> lawful (LbEndpointCollection_validate V)"
  "lawful ResourceLocator_validate"
  "lawful DynamicParameterConstraints_SingleConstraint_Exists_validate"
  "lawful Resource_CacheControl_validate"
  unfolding SemanticVersion_validate_def Percent_validate_def FractionalPercent_validate_def
    BackoffStrategy_validate_def TypedExtensionConfig_validate_def
    SocketOption_SocketType_Stream_validate_def SocketOption_SocketType_Datagram_validate_def
    Pipe_validate_def EnvoyInternalAddress_validate_def SocketAddress_validate_def
    TcpKeepalive_validate_def CidrRange_validate_def HttpUri_validate_def Locality_validate_def
    Metadata_validate_def RuntimeUInt32_validate_def RuntimeDouble_validate_def
    RuntimeFeatureFlag_validate_def KeyValue_validate_def KeyValuePair_validate_def
    QueryParameter_validate_def HeaderValue_validate_def WatchedDirectory_validate_def
    TransportSocket_validate_def ControlPlane_validate_def RetryPolicy_RetryPriority_validate_def
    RetryPolicy_RetryHostPredicate_validate_def
    GrpcService_GoogleGrpc_GoogleLocalCredentials_validate_def
    GrpcService_GoogleGrpc_CallCredentials_ServiceAccountJWTAccessCredentials_validate_def
    GrpcService_GoogleGrpc_CallCredentials_GoogleIAMCredentials_validate_def
    GrpcService_GoogleGrpc_CallCredentials_MetadataCredentialsFromPlugin_validate_def
    GrpcService_GoogleGrpc_CallCredentials_StsService_validate_def
    GrpcService_GoogleGrpc_ChannelArgs_Value_validate_def AggregatedConfigSource_validate_def
    SelfConfigSource_validate_def RateLimitSettings_validate_def LbEndpointCollection_validate_def
    ResourceLocator_validate_def DynamicParameterConstraints_SingleConstraint_Exists_validate_def
    Resource_CacheControl_validate_def
  by (auto intro!: lawful_intros split:
    oneof_EnvoyInternalAddress_AddressNameSpecifier.split oneof_SocketAddress_PortSpecifier.split
    oneof_HttpUri_HttpUpstreamType.split oneof_TransportSocket_ConfigType.split
    oneof_RetryPolicy_RetryPriority_ConfigType.split
    oneof_RetryPolicy_RetryHostPredicate_ConfigType.split
    oneof_GrpcService_GoogleGrpc_CallCredentials_MetadataCredentialsFromPlugin_ConfigType.split
    oneof_GrpcService_GoogleGrpc_ChannelArgs_Value_ValueSpecifier.split)

lemma lawful_messages_2 [lawful_intros]:
  "lawful SocketOption_SocketType_validate" "lawful Address_validate" "lawful BuildVersion_validate"
  "lawful RuntimePercent_validate" "lawful KeyValueAppend_validate"
  "lawful HeaderValueOption_validate" "lawful HeaderMap_validate" "lawful DataSource_validate"
  "vlib_lawful V \<Longrightarrow> lawful (RetryPolicy_validate V)"
  "lawful RuntimeFractionalPercent_validate"
  "lawful GrpcService_GoogleGrpc_CallCredentials_validate"
  "lawful GrpcService_GoogleGrpc_ChannelArgs_validate" "lawful PathConfigSource_validate"
  "lawful ClusterLoadAssignment_Policy_DropOverload_validate"
  "lawful DynamicParameterConstraints_SingleConstraint_validate"
  unfolding SocketOption_SocketType_validate_def Address_validate_def BuildVersion_validate_def
    RuntimePercent_validate_def KeyValueAppend_validate_def HeaderValueOption_validate_def
    HeaderMap_validate_def DataSource_validate_def RetryPolicy_validate_def
    RuntimeFractionalPercent_validate_def GrpcService_GoogleGrpc_CallCredentials_validate_def
    GrpcService_GoogleGrpc_ChannelArgs_validate_def PathConfigSource_validate_def
    ClusterLoadAssignment_Policy_DropOverload_validate_def
    DynamicParameterConstraints_SingleConstraint_validate_def
  by (auto intro!: lawful_intros split:
    oneof_Address_Address.split oneof_DataSource_Specifier.split
    oneof_GrpcService_GoogleGrpc_CallCredentials_CredentialSpecifier.split
    oneof_DynamicParameterConstraints_SingleConstraint_ConstraintType.split)

lemma lawful_messages_3 [lawful_intros]:
  "lawful SocketOption_validate" "lawful Extension_validate" "lawful KeyValueMutation_validate"
  "vlib_lawful V \<Longrightarrow> lawful (RemoteDataSource_validate V)"
  "vlib_lawful V \<Longrightarrow> lawful (GrpcService_EnvoyGrpc_validate V)"
  "lawful GrpcService_GoogleGrpc_SslCredentials_validate"
  "lawful Endpoint_HealthCheckConfig_validate" "lawful Endpoint_AdditionalAddress_validate"
  "vlib_lawful V \<Longrightarrow> lawful (ClusterLoadAssignment_Policy_validate V)"
  unfolding SocketOption_validate_def Extension_validate_def KeyValueMutation_validate_def
    RemoteDataSource_validate_def GrpcService_EnvoyGrpc_validate_def
    GrpcService_GoogleGrpc_SslCredentials_validate_def Endpoint_HealthCheckConfig_validate_def
    Endpoint_AdditionalAddress_validate_def ClusterLoadAssignment_Policy_validate_def
  by (auto intro!: lawful_intros split:
    oneof_SocketOption_Value.split)

lemma lawful_constraints [lawful_intros]:
  "lawful DynamicParameterConstraints_validate" "lawful DynamicParameterConstraints_ConstraintList_validate"
proof -
  have "lawful_at DynamicParameterConstraints_validate m"
    and "lawful_at DynamicParameterConstraints_ConstraintList_validate l" for m l and all :: bool
  proof (induction all m and all l rule:
      DynamicParameterConstraints_validate_DynamicParameterConstraints_ConstraintList_validate.induct)
    case (1 all m)
    show ?case
      by (rule lawful_at_cong, rule DynamicParameterConstraints_validate.simps, rule lawful_at_validate)
        (auto intro!: lawful_oneof_case lawful_embed lawful_skip
          intro: 1 lawful_messages_2 [THEN lawful_atI] split: option.split
          oneof_DynamicParameterConstraints_Type.split)
  next
    case (2 all m)
    show ?case
      by (rule lawful_at_cong, rule DynamicParameterConstraints_ConstraintList_validate.simps, rule lawful_at_validate)
        (auto intro!: lawful_each lawful_embed 2)
  qed
  then show "lawful DynamicParameterConstraints_validate" "lawful DynamicParameterConstraints_ConstraintList_validate"
    by (simp_all add: lawful_def)
qed

lemma lawful_messages_4 [lawful_intros]:
  "lawful SocketOptionsOverride_validate"
  "vlib_lawful V \<Longrightarrow> lawful (NodeMsg_validate V)"
  "vlib_lawful V \<Longrightarrow> lawful (AsyncDataSource_validate V)"
  "lawful GrpcService_GoogleGrpc_ChannelCredentials_validate" "lawful Endpoint_validate"
  "lawful ResourceName_validate"
  unfolding SocketOptionsOverride_validate_def NodeMsg_validate_def AsyncDataSource_validate_def
    GrpcService_GoogleGrpc_ChannelCredentials_validate_def Endpoint_validate_def
    ResourceName_validate_def
  by (auto intro!: lawful_intros split:
    oneof_NodeMsg_UserAgentVersionType.split oneof_AsyncDataSource_Specifier.split
    oneof_GrpcService_GoogleGrpc_ChannelCredentials_CredentialSpecifier.split)

lemma lawful_messages_5 [lawful_intros]:
  "lawful ExtraSourceAddress_validate" "lawful GrpcService_GoogleGrpc_validate"
  "lawful LbEndpoint_validate" "lawful ResourceError_validate"
  "vlib_lawful V \<Longrightarrow> lawful (DiscoveryRequestMsg_validate V)"
  "vlib_lawful V \<Longrightarrow> lawful (DeltaDiscoveryRequestMsg_validate V)"
  "lawful ResourceMsg_validate"
  unfolding ExtraSourceAddress_validate_def GrpcService_GoogleGrpc_validate_def LbEndpoint_validate_def
    ResourceError_validate_def DiscoveryRequestMsg_validate_def
    DeltaDiscoveryRequestMsg_validate_def ResourceMsg_validate_def
  by (auto intro!: lawful_intros split:
    oneof_LbEndpoint_HostIdentifier.split)

lemma lawful_messages_6 [lawful_intros]:
  "lawful BindConfig_validate" "vlib_lawful V \<Longrightarrow> lawful (GrpcService_validate V)"
  "lawful LocalityLbEndpoints_LbEndpointList_validate" "lawful DiscoveryResponseMsg_validate"
  "lawful DeltaDiscoveryResponseMsg_validate"
  unfolding BindConfig_validate_def GrpcService_validate_def LocalityLbEndpoints_LbEndpointList_validate_def
    DiscoveryResponseMsg_validate_def DeltaDiscoveryResponseMsg_validate_def
  by (auto intro!: lawful_intros split:
    oneof_GrpcService_TargetSpecifier.split)

lemma lawful_messages_7 [lawful_intros]:
  "vlib_lawful V \<Longrightarrow> lawful (ApiConfigSource_validate V)"
  unfolding ApiConfigSource_validate_def
  by (auto intro!: lawful_intros)

lemma lawful_messages_8 [lawful_intros]:
  "vlib_lawful V \<Longrightarrow> lawful (ConfigSource_validate V)"
  unfolding ConfigSource_validate_def
  by (auto intro!: lawful_intros split:
    oneof_ConfigSource_ConfigSourceSpecifier.split)

lemma lawful_messages_9 [lawful_intros]:
  "lawful ExtensionConfigSource_validate"
  "vlib_lawful V \<Longrightarrow> lawful (LedsClusterLocalityConfig_validate V)"
  unfolding ExtensionConfigSource_validate_def LedsClusterLocalityConfig_validate_def
  by (auto intro!: lawful_intros)

lemma lawful_messages_10 [lawful_intros]:
  "vlib_lawful V \<Longrightarrow> lawful (LocalityLbEndpoints_validate V)"
  unfolding LocalityLbEndpoints_validate_def
  by (auto intro!: lawful_intros split:
    oneof_LocalityLbEndpoints_LbConfig.split)

lemma lawful_messages_11 [lawful_intros]:
  "vlib_lawful V \<Longrightarrow> lawful (ClusterLoadAssignmentMsg_validate V)"
  unfolding ClusterLoadAssignmentMsg_validate_def
  by (auto intro!: lawful_intros)

end
