(* ===== verification/TypeValidation.thy ===== *)
theory TypeValidation
  imports Validation
begin

text \<open>
  Validation of ranges, regular expressions, string matchers and metadata keys (\<open>envoy/type\<close>), and the
  routing priorities of \<open>envoy/config/core/v3\<close>.
\<close>

definition RoutingPriority_name :: "(32 word, string) gomap" where
  "RoutingPriority_name = [(0, ''DEFAULT''), (1, ''HIGH'')]"

record Int64Range =
  Int64Range_Start :: "64 word"
  Int64Range_End :: "64 word"

definition Int64Range_validate :: "Int64Range validator" where
  "Int64Range_validate = validate ''Int64Range'' (\<lambda>m. [])"

record Int32Range =
  Int32Range_Start :: "32 word"
  Int32Range_End :: "32 word"

definition Int32Range_validate :: "Int32Range validator" where
  "Int32Range_validate = validate ''Int32Range'' (\<lambda>m. [])"

record DoubleRange =
  DoubleRange_Start :: "float64"
  DoubleRange_End :: "float64"

definition DoubleRange_validate :: "DoubleRange validator" where
  "DoubleRange_validate = validate ''DoubleRange'' (\<lambda>m. [])"

record RegexMatcher_GoogleRE2 =
  RegexMatcher_GoogleRE2_MaxProgramSize :: "32 word option"

definition RegexMatcher_GoogleRE2_validate :: "RegexMatcher_GoogleRE2 validator" where
  "RegexMatcher_GoogleRE2_validate = validate ''RegexMatcher_GoogleRE2'' (\<lambda>m. [])"

datatype oneof_RegexMatcher_EngineType =
    RegexMatcher_GoogleRe2 "(RegexMatcher_GoogleRE2 option) option"

record RegexMatcher =
  RegexMatcher_EngineType :: "oneof_RegexMatcher_EngineType option"
  RegexMatcher_Regex :: "string"

definition RegexMatcher_validate :: "RegexMatcher validator" where
  "RegexMatcher_validate = validate ''RegexMatcher'' (\<lambda>m. [
     check (RuneCountInString (RegexMatcher_Regex m) < 1) ''Regex''
         ''value length must be at least 1 runes'',
     (case RegexMatcher_EngineType m of
         None \<Rightarrow> skip
       | Some (RegexMatcher_GoogleRe2 w) \<Rightarrow> oneof_case ''EngineType'' w (\<lambda>v.
           embed ''GoogleRe2'' RegexMatcher_GoogleRE2_validate v))])"

record RegexMatchAndSubstitute =
  RegexMatchAndSubstitute_Pattern :: "RegexMatcher option"
  RegexMatchAndSubstitute_Substitution :: "string"

definition RegexMatchAndSubstitute_validate :: "RegexMatchAndSubstitute validator" where
  "RegexMatchAndSubstitute_validate = validate ''RegexMatchAndSubstitute'' (\<lambda>m. [
     check (RegexMatchAndSubstitute_Pattern m = None) ''Pattern'' ''value is required'',
     embed ''Pattern'' RegexMatcher_validate (RegexMatchAndSubstitute_Pattern m),
     check (\<not> matches_no_control (RegexMatchAndSubstitute_Substitution m))
         ''Substitution'' no_control_reason])"

datatype oneof_StringMatcher_MatchPattern =
    StringMatcher_Exact "string option"
  | StringMatcher_Prefix "string option"
  | StringMatcher_Suffix "string option"
  | StringMatcher_SafeRegex "(RegexMatcher option) option"
  | StringMatcher_Contains "string option"
  | StringMatcher_Custom "(bytes option) option"

record StringMatcher =
  StringMatcher_MatchPattern :: "oneof_StringMatcher_MatchPattern option"
  StringMatcher_IgnoreCase :: "bool"

definition StringMatcher_validate :: "vlib \<Rightarrow> StringMatcher validator" where
  "StringMatcher_validate V = validate ''StringMatcher'' (\<lambda>m. [
     (case StringMatcher_MatchPattern m of
         None \<Rightarrow> skip
       | Some (StringMatcher_Exact w) \<Rightarrow> oneof_unread ''MatchPattern'' w
       | Some (StringMatcher_Prefix w) \<Rightarrow> oneof_case ''MatchPattern'' w (\<lambda>v.
           check (RuneCountInString v < 1) ''Prefix'' ''value length must be at least 1 runes'')
       | Some (StringMatcher_Suffix w) \<Rightarrow> oneof_case ''MatchPattern'' w (\<lambda>v.
           check (RuneCountInString v < 1) ''Suffix'' ''value length must be at least 1 runes'')
       | Some (StringMatcher_SafeRegex w) \<Rightarrow> oneof_case ''MatchPattern'' w
           (\<lambda>v. stmts [check (v = None) ''SafeRegex'' ''value is required'',
           embed ''SafeRegex'' RegexMatcher_validate v])
       | Some (StringMatcher_Contains w) \<Rightarrow> oneof_case ''MatchPattern'' w (\<lambda>v.
           check (RuneCountInString v < 1) ''Contains''
           ''value length must be at least 1 runes'')
       | Some (StringMatcher_Custom w) \<Rightarrow> oneof_case ''MatchPattern'' w (\<lambda>v.
           embed ''Custom'' (xds_TypedExtensionConfig_validate V) v)),
     check (StringMatcher_MatchPattern m = None) ''MatchPattern'' ''value is required''])"

record ListStringMatcher =
  ListStringMatcher_Patterns :: "StringMatcher option list"

definition ListStringMatcher_validate :: "vlib \<Rightarrow> ListStringMatcher validator" where
  "ListStringMatcher_validate V = validate ''ListStringMatcher'' (\<lambda>m. [
     check (length (ListStringMatcher_Patterns m) < 1) ''Patterns''
         ''value must contain at least 1 item(s)'',
     each (\<lambda>i x. embed (index_field ''Patterns'' i) (StringMatcher_validate V) x)
         (ListStringMatcher_Patterns m)])"

datatype oneof_MetadataKey_PathSegment_Segment =
    MetadataKey_PathSegment_Key "string option"

record MetadataKey_PathSegment =
  MetadataKey_PathSegment_Segment :: "oneof_MetadataKey_PathSegment_Segment option"

definition MetadataKey_PathSegment_validate :: "MetadataKey_PathSegment validator" where
  "MetadataKey_PathSegment_validate = validate ''MetadataKey_PathSegment'' (\<lambda>m. [
     (case MetadataKey_PathSegment_Segment m of
         None \<Rightarrow> skip
       | Some (MetadataKey_PathSegment_Key w) \<Rightarrow> oneof_case ''Segment'' w (\<lambda>v.
           check (RuneCountInString v < 1) ''Key'' ''value length must be at least 1 runes'')),
     check (MetadataKey_PathSegment_Segment m = None) ''Segment'' ''value is required''])"

record MetadataKey =
  MetadataKey_Key :: "string"
  MetadataKey_Path :: "MetadataKey_PathSegment option list"

definition MetadataKey_validate :: "MetadataKey validator" where
  "MetadataKey_validate = validate ''MetadataKey'' (\<lambda>m. [
     check (RuneCountInString (MetadataKey_Key m) < 1) ''Key''
         ''value length must be at least 1 runes'',
     check (length (MetadataKey_Path m) < 1) ''Path'' ''value must contain at least 1 item(s)'',
     each (\<lambda>i x. embed (index_field ''Path'' i) MetadataKey_PathSegment_validate x)
         (MetadataKey_Path m)])"

datatype MetadataKind_Request = empty_MetadataKind_Request

definition MetadataKind_Request_validate :: "MetadataKind_Request validator" where
  "MetadataKind_Request_validate = validate ''MetadataKind_Request'' (\<lambda>m. [])"

datatype MetadataKind_Route = empty_MetadataKind_Route

definition MetadataKind_Route_validate :: "MetadataKind_Route validator" where
  "MetadataKind_Route_validate = validate ''MetadataKind_Route'' (\<lambda>m. [])"

datatype MetadataKind_Cluster = empty_MetadataKind_Cluster

definition MetadataKind_Cluster_validate :: "MetadataKind_Cluster validator" where
  "MetadataKind_Cluster_validate = validate ''MetadataKind_Cluster'' (\<lambda>m. [])"

datatype MetadataKind_Host = empty_MetadataKind_Host

definition MetadataKind_Host_validate :: "MetadataKind_Host validator" where
  "MetadataKind_Host_validate = validate ''MetadataKind_Host'' (\<lambda>m. [])"

datatype oneof_MetadataKind_Kind =
    MetadataKind_Request_case "(MetadataKind_Request option) option"
  | MetadataKind_Route_case "(MetadataKind_Route option) option"
  | MetadataKind_Cluster_case "(MetadataKind_Cluster option) option"
  | MetadataKind_Host_case "(MetadataKind_Host option) option"

record MetadataKind =
  MetadataKind_Kind :: "oneof_MetadataKind_Kind option"

definition MetadataKind_validate :: "MetadataKind validator" where
  "MetadataKind_validate = validate ''MetadataKind'' (\<lambda>m. [
     (case MetadataKind_Kind m of
         None \<Rightarrow> skip
       | Some (MetadataKind_Request_case w) \<Rightarrow> oneof_case ''Kind'' w (\<lambda>v.
           embed ''Request'' MetadataKind_Request_validate v)
       | Some (MetadataKind_Route_case w) \<Rightarrow> oneof_case ''Kind'' w (\<lambda>v.
           embed ''Route'' MetadataKind_Route_validate v)
       | Some (MetadataKind_Cluster_case w) \<Rightarrow> oneof_case ''Kind'' w (\<lambda>v.
           embed ''Cluster'' MetadataKind_Cluster_validate v)
       | Some (MetadataKind_Host_case w) \<Rightarrow> oneof_case ''Kind'' w (\<lambda>v.
           embed ''Host'' MetadataKind_Host_validate v)),
     check (MetadataKind_Kind m = None) ''Kind'' ''value is required''])"

record ProxyProtocolPassThroughTLVs =
  ProxyProtocolPassThroughTLVs_MatchType :: "32 word"
  ProxyProtocolPassThroughTLVs_TlvType :: "32 word list"

definition ProxyProtocolPassThroughTLVs_validate :: "ProxyProtocolPassThroughTLVs validator" where
  "ProxyProtocolPassThroughTLVs_validate = validate ''ProxyProtocolPassThroughTLVs'' (\<lambda>m. [
     each (\<lambda>i x. check (x \<ge> 256) (index_field ''TlvType'' i)
         ''value must be less than 256'') (ProxyProtocolPassThroughTLVs_TlvType m)])"

record TlvEntry =
  TlvEntry_Type :: "32 word"
  TlvEntry_Value :: "bytes"

definition TlvEntry_validate :: "TlvEntry validator" where
  "TlvEntry_validate = validate ''TlvEntry'' (\<lambda>m. [
     check (TlvEntry_Type m \<ge> 256) ''Type'' ''value must be less than 256'',
     check (length (TlvEntry_Value m) < 1) ''Value'' ''value length must be at least 1 bytes''])"

record ProxyProtocolConfig =
  ProxyProtocolConfig_Version :: "32 word"
  ProxyProtocolConfig_PassThroughTlvs :: "ProxyProtocolPassThroughTLVs option"
  ProxyProtocolConfig_AddedTlvs :: "TlvEntry option list"

definition ProxyProtocolConfig_validate :: "ProxyProtocolConfig validator" where
  "ProxyProtocolConfig_validate = validate ''ProxyProtocolConfig'' (\<lambda>m. [
     embed ''PassThroughTlvs'' ProxyProtocolPassThroughTLVs_validate
         (ProxyProtocolConfig_PassThroughTlvs m),
     each (\<lambda>i x. embed (index_field ''AddedTlvs'' i) TlvEntry_validate x)
         (ProxyProtocolConfig_AddedTlvs m)])"

record PerHostConfig =
  PerHostConfig_AddedTlvs :: "TlvEntry option list"

definition PerHostConfig_validate :: "PerHostConfig validator" where
  "PerHostConfig_validate = validate ''PerHostConfig'' (\<lambda>m. [
     each (\<lambda>i x. embed (index_field ''AddedTlvs'' i) TlvEntry_validate x)
         (PerHostConfig_AddedTlvs m)])"

end
