(* ===== verification/ProtocolValidation.thy ===== *)
theory ProtocolValidation
  imports ConfigValidation TypeValidation
begin

text \<open>
  Validation of what clusters share with listeners: protocol options, resolvers, event services and health checks
  (\<open>envoy/config/core/v3\<close>).
\<close>

datatype oneof_EventServiceConfig_ConfigSourceSpecifier =
    EventServiceConfig_GrpcService "(GrpcService option) option"

record EventServiceConfig =
  EventServiceConfig_ConfigSourceSpecifier :: "oneof_EventServiceConfig_ConfigSourceSpecifier
      option"

definition EventServiceConfig_validate :: "vlib \<Rightarrow> EventServiceConfig validator" where
  "EventServiceConfig_validate V = validate ''EventServiceConfig'' (\<lambda>m. [
     (case EventServiceConfig_ConfigSourceSpecifier m of
         None \<Rightarrow> skip
       | Some (EventServiceConfig_GrpcService w) \<Rightarrow>
           oneof_case ''ConfigSourceSpecifier'' w (\<lambda>v. embed ''GrpcService''
           (GrpcService_validate V) v)),
     check (EventServiceConfig_ConfigSourceSpecifier m = None) ''ConfigSourceSpecifier''
         ''value is required''])"

record DnsResolverOptions =
  DnsResolverOptions_UseTcpForDnsLookups :: "bool"
  DnsResolverOptions_NoDefaultSearchDomain :: "bool"

definition DnsResolverOptions_validate :: "DnsResolverOptions validator" where
  "DnsResolverOptions_validate = validate ''DnsResolverOptions'' (\<lambda>m. [])"

record DnsResolutionConfig =
  DnsResolutionConfig_Resolvers :: "Address option list"
  DnsResolutionConfig_DnsResolverOptions :: "DnsResolverOptions option"

definition DnsResolutionConfig_validate :: "DnsResolutionConfig validator" where
  "DnsResolutionConfig_validate = validate ''DnsResolutionConfig'' (\<lambda>m. [
     check (length (DnsResolutionConfig_Resolvers m) < 1) ''Resolvers''
         ''value must contain at least 1 item(s)'',
     each (\<lambda>i x. embed (index_field ''Resolvers'' i) Address_validate x)
         (DnsResolutionConfig_Resolvers m),
     embed ''DnsResolverOptions'' DnsResolverOptions_validate
         (DnsResolutionConfig_DnsResolverOptions m)])"

datatype TcpProtocolOptions = empty_TcpProtocolOptions

definition TcpProtocolOptions_validate :: "TcpProtocolOptions validator" where
  "TcpProtocolOptions_validate = validate ''TcpProtocolOptions'' (\<lambda>m. [])"

record QuicKeepAliveSettings =
  QuicKeepAliveSettings_MaxInterval :: "Duration option"
  QuicKeepAliveSettings_InitialInterval :: "Duration option"

definition QuicKeepAliveSettings_validate ::
    "vlib \<Rightarrow> QuicKeepAliveSettings validator" where
  "QuicKeepAliveSettings_validate V = validate ''QuicKeepAliveSettings'' (\<lambda>m. [
     check_duration V (QuicKeepAliveSettings_InitialInterval m)
         (\<lambda>dur. dur > duration_of 0 0 \<and> dur < duration_of 0 1000000)
         ''InitialInterval'' ''value must be outside range (0s, 1ms)''])"

record QuicProtocolOptions =
  QuicProtocolOptions_MaxConcurrentStreams :: "32 word option"
  QuicProtocolOptions_InitialStreamWindowSize :: "32 word option"
  QuicProtocolOptions_InitialConnectionWindowSize :: "32 word option"
  QuicProtocolOptions_NumTimeoutsToTriggerPortMigration :: "32 word option"
  QuicProtocolOptions_ConnectionKeepalive :: "QuicKeepAliveSettings option"
  QuicProtocolOptions_ConnectionOptions :: "string"
  QuicProtocolOptions_ClientConnectionOptions :: "string"
  QuicProtocolOptions_IdleNetworkTimeout :: "Duration option"
  QuicProtocolOptions_MaxPacketLength :: "64 word option"

definition QuicProtocolOptions_validate :: "vlib \<Rightarrow> QuicProtocolOptions validator" where
  "QuicProtocolOptions_validate V = validate ''QuicProtocolOptions'' (\<lambda>m. [
     (case QuicProtocolOptions_MaxConcurrentStreams m of None \<Rightarrow> skip | Some w
         \<Rightarrow>
         check (w < 1) ''MaxConcurrentStreams'' ''value must be greater than or equal to 1''),
     (case QuicProtocolOptions_InitialStreamWindowSize m of None \<Rightarrow> skip
         | Some w \<Rightarrow> check (w < 1 \<or> w > 16777216) ''InitialStreamWindowSize''
         ''value must be inside range [1, 16777216]''),
     (case QuicProtocolOptions_InitialConnectionWindowSize m of None \<Rightarrow> skip
         | Some w \<Rightarrow> check (w < 1 \<or> w > 25165824) ''InitialConnectionWindowSize''
         ''value must be inside range [1, 25165824]''),
     (case QuicProtocolOptions_NumTimeoutsToTriggerPortMigration m of None \<Rightarrow> skip
         | Some w \<Rightarrow> check (w < 0 \<or> w > 5) ''NumTimeoutsToTriggerPortMigration''
         ''value must be inside range [0, 5]''),
     embed ''ConnectionKeepalive''
         (QuicKeepAliveSettings_validate V) (QuicProtocolOptions_ConnectionKeepalive m),
     check_duration V (QuicProtocolOptions_IdleNetworkTimeout m)
         (\<lambda>dur. dur < duration_of 1 0)
         ''IdleNetworkTimeout'' ''value must be greater than or equal to 1s''])"

record UpstreamHttpProtocolOptions =
  UpstreamHttpProtocolOptions_AutoSni :: "bool"
  UpstreamHttpProtocolOptions_AutoSanValidation :: "bool"
  UpstreamHttpProtocolOptions_OverrideAutoSniHeader :: "string"

definition UpstreamHttpProtocolOptions_validate :: "UpstreamHttpProtocolOptions validator" where
  "UpstreamHttpProtocolOptions_validate = validate ''UpstreamHttpProtocolOptions'' (\<lambda>m. [
     guarded (UpstreamHttpProtocolOptions_OverrideAutoSniHeader m \<noteq> '''')
         (check (\<not> matches_header_name (UpstreamHttpProtocolOptions_OverrideAutoSniHeader m))
         ''OverrideAutoSniHeader'' header_name_reason)])"

record AlternateProtocolsCacheOptions_AlternateProtocolsCacheEntry =
  AlternateProtocolsCacheOptions_AlternateProtocolsCacheEntry_Hostname :: "string"
  AlternateProtocolsCacheOptions_AlternateProtocolsCacheEntry_Port :: "32 word"

definition AlternateProtocolsCacheOptions_AlternateProtocolsCacheEntry_validate ::
    "AlternateProtocolsCacheOptions_AlternateProtocolsCacheEntry validator" where
  "AlternateProtocolsCacheOptions_AlternateProtocolsCacheEntry_validate =
     validate ''AlternateProtocolsCacheOptions_AlternateProtocolsCacheEntry'' (\<lambda>m. [
     guarded (AlternateProtocolsCacheOptions_AlternateProtocolsCacheEntry_Hostname m \<noteq> '''')
         (check (\<not> matches_header_name
         (AlternateProtocolsCacheOptions_AlternateProtocolsCacheEntry_Hostname m)) ''Hostname''
         header_name_reason),
     check (AlternateProtocolsCacheOptions_AlternateProtocolsCacheEntry_Port m \<le> 0 \<or>
         AlternateProtocolsCacheOptions_AlternateProtocolsCacheEntry_Port m \<ge> 65535) ''Port''
         ''value must be inside range (0, 65535)''])"

record AlternateProtocolsCacheOptions =
  AlternateProtocolsCacheOptions_Name :: "string"
  AlternateProtocolsCacheOptions_MaxEntries :: "32 word option"
  AlternateProtocolsCacheOptions_KeyValueStoreConfig :: "TypedExtensionConfig option"
  AlternateProtocolsCacheOptions_PrepopulatedEntries ::
      "AlternateProtocolsCacheOptions_AlternateProtocolsCacheEntry option list"
  AlternateProtocolsCacheOptions_CanonicalSuffixes :: "string list"

definition AlternateProtocolsCacheOptions_validate ::
    "AlternateProtocolsCacheOptions validator" where
  "AlternateProtocolsCacheOptions_validate =
     validate ''AlternateProtocolsCacheOptions'' (\<lambda>m. [
     check (RuneCountInString (AlternateProtocolsCacheOptions_Name m) < 1) ''Name''
         ''value length must be at least 1 runes'',
     (case AlternateProtocolsCacheOptions_MaxEntries m of None \<Rightarrow> skip
         | Some w \<Rightarrow> check (w \<le> 0) ''MaxEntries'' ''value must be greater than 0''),
     embed ''KeyValueStoreConfig'' TypedExtensionConfig_validate
         (AlternateProtocolsCacheOptions_KeyValueStoreConfig m),
     each (\<lambda>i x.
         embed (index_field ''PrepopulatedEntries'' i)
             AlternateProtocolsCacheOptions_AlternateProtocolsCacheEntry_validate x)
             (AlternateProtocolsCacheOptions_PrepopulatedEntries m)])"

record HttpProtocolOptions =
  HttpProtocolOptions_IdleTimeout :: "Duration option"
  HttpProtocolOptions_MaxConnectionDuration :: "Duration option"
  HttpProtocolOptions_MaxHeadersCount :: "32 word option"
  HttpProtocolOptions_MaxResponseHeadersKb :: "32 word option"
  HttpProtocolOptions_MaxStreamDuration :: "Duration option"
  HttpProtocolOptions_HeadersWithUnderscoresAction :: "32 word"
  HttpProtocolOptions_MaxRequestsPerConnection :: "32 word option"

definition HttpProtocolOptions_validate :: "HttpProtocolOptions validator" where
  "HttpProtocolOptions_validate = validate ''HttpProtocolOptions'' (\<lambda>m. [
     (case HttpProtocolOptions_MaxHeadersCount m of None \<Rightarrow> skip | Some w \<Rightarrow>
         check (w < 1) ''MaxHeadersCount'' ''value must be greater than or equal to 1''),
     (case HttpProtocolOptions_MaxResponseHeadersKb m of None \<Rightarrow> skip | Some w
         \<Rightarrow>
         check (w \<le> 0 \<or> w > 8192) ''MaxResponseHeadersKb''
         ''value must be inside range (0, 8192]'')])"

datatype Http1ProtocolOptions_HeaderKeyFormat_ProperCaseWords =
    empty_Http1ProtocolOptions_HeaderKeyFormat_ProperCaseWords

definition Http1ProtocolOptions_HeaderKeyFormat_ProperCaseWords_validate ::
    "Http1ProtocolOptions_HeaderKeyFormat_ProperCaseWords validator" where
  "Http1ProtocolOptions_HeaderKeyFormat_ProperCaseWords_validate =
     validate ''Http1ProtocolOptions_HeaderKeyFormat_ProperCaseWords'' (\<lambda>m. [])"

datatype oneof_Http1ProtocolOptions_HeaderKeyFormat_HeaderFormat =
    Http1ProtocolOptions_HeaderKeyFormat_ProperCaseWords_case
        "(Http1ProtocolOptions_HeaderKeyFormat_ProperCaseWords option) option"
  | Http1ProtocolOptions_HeaderKeyFormat_StatefulFormatter "(TypedExtensionConfig option) option"

record Http1ProtocolOptions_HeaderKeyFormat =
  Http1ProtocolOptions_HeaderKeyFormat_HeaderFormat ::
      "oneof_Http1ProtocolOptions_HeaderKeyFormat_HeaderFormat option"

definition Http1ProtocolOptions_HeaderKeyFormat_validate ::
    "Http1ProtocolOptions_HeaderKeyFormat validator" where
  "Http1ProtocolOptions_HeaderKeyFormat_validate =
     validate ''Http1ProtocolOptions_HeaderKeyFormat'' (\<lambda>m. [
     (case Http1ProtocolOptions_HeaderKeyFormat_HeaderFormat m of
         None \<Rightarrow> skip
       | Some (Http1ProtocolOptions_HeaderKeyFormat_ProperCaseWords_case w) \<Rightarrow>
           oneof_case ''HeaderFormat'' w (\<lambda>v.
           embed ''ProperCaseWords'' Http1ProtocolOptions_HeaderKeyFormat_ProperCaseWords_validate
               v)
       | Some (Http1ProtocolOptions_HeaderKeyFormat_StatefulFormatter w) \<Rightarrow>
           oneof_case ''HeaderFormat'' w (\<lambda>v.
           embed ''StatefulFormatter'' TypedExtensionConfig_validate v)),
     check (Http1ProtocolOptions_HeaderKeyFormat_HeaderFormat m = None) ''HeaderFormat''
         ''value is required''])"

record Http1ProtocolOptions =
  Http1ProtocolOptions_AllowAbsoluteUrl :: "bool option"
  Http1ProtocolOptions_AcceptHttp_10 :: "bool"
  Http1ProtocolOptions_DefaultHostForHttp_10 :: "string"
  Http1ProtocolOptions_HeaderKeyFormat :: "Http1ProtocolOptions_HeaderKeyFormat option"
  Http1ProtocolOptions_EnableTrailers :: "bool"
  Http1ProtocolOptions_AllowChunkedLength :: "bool"
  Http1ProtocolOptions_OverrideStreamErrorOnInvalidHttpMessage :: "bool option"
  Http1ProtocolOptions_SendFullyQualifiedUrl :: "bool"
  Http1ProtocolOptions_UseBalsaParser :: "bool option"
  Http1ProtocolOptions_AllowCustomMethods :: "bool"
  Http1ProtocolOptions_IgnoreHttp_11Upgrade :: "StringMatcher option list"

definition Http1ProtocolOptions_validate ::
    "vlib \<Rightarrow> Http1ProtocolOptions validator" where
  "Http1ProtocolOptions_validate V = validate ''Http1ProtocolOptions'' (\<lambda>m. [
     embed ''HeaderKeyFormat'' Http1ProtocolOptions_HeaderKeyFormat_validate
         (Http1ProtocolOptions_HeaderKeyFormat m),
     each (\<lambda>i x. embed (index_field ''IgnoreHttp_11Upgrade'' i) (StringMatcher_validate V)
         x)
         (Http1ProtocolOptions_IgnoreHttp_11Upgrade m)])"

record KeepaliveSettings =
  KeepaliveSettings_Interval :: "Duration option"
  KeepaliveSettings_Timeout :: "Duration option"
  KeepaliveSettings_IntervalJitter :: "Percent option"
  KeepaliveSettings_ConnectionIdleInterval :: "Duration option"

definition KeepaliveSettings_validate :: "vlib \<Rightarrow> KeepaliveSettings validator" where
  "KeepaliveSettings_validate V = validate ''KeepaliveSettings'' (\<lambda>m. [
     check_duration V (KeepaliveSettings_Interval m) (\<lambda>dur. dur < duration_of 0 1000000)
         ''Interval'' ''value must be greater than or equal to 1ms'',
     check (KeepaliveSettings_Timeout m = None) ''Timeout'' ''value is required'',
     check_duration V (KeepaliveSettings_Timeout m) (\<lambda>dur. dur < duration_of 0 1000000)
         ''Timeout'' ''value must be greater than or equal to 1ms'',
     embed ''IntervalJitter'' Percent_validate (KeepaliveSettings_IntervalJitter m),
     check_duration V (KeepaliveSettings_ConnectionIdleInterval m)
         (\<lambda>dur. dur < duration_of 0 1000000) ''ConnectionIdleInterval''
         ''value must be greater than or equal to 1ms''])"

record Http2ProtocolOptions_SettingsParameter =
  Http2ProtocolOptions_SettingsParameter_Identifier :: "32 word option"
  Http2ProtocolOptions_SettingsParameter_Value :: "32 word option"

definition Http2ProtocolOptions_SettingsParameter_validate ::
    "Http2ProtocolOptions_SettingsParameter validator" where
  "Http2ProtocolOptions_SettingsParameter_validate =
     validate ''Http2ProtocolOptions_SettingsParameter'' (\<lambda>m. [
     (case Http2ProtocolOptions_SettingsParameter_Identifier m of
         None \<Rightarrow> check True ''Identifier'' ''value is required and must not be nil.''
         | Some w \<Rightarrow> check (w < 0 \<or> w > 65535) ''Identifier''
         ''value must be inside range [0, 65535]''),
     check (Http2ProtocolOptions_SettingsParameter_Value m = None) ''Value''
         ''value is required''])"

record Http2ProtocolOptions =
  Http2ProtocolOptions_HpackTableSize :: "32 word option"
  Http2ProtocolOptions_MaxConcurrentStreams :: "32 word option"
  Http2ProtocolOptions_InitialStreamWindowSize :: "32 word option"
  Http2ProtocolOptions_InitialConnectionWindowSize :: "32 word option"
  Http2ProtocolOptions_AllowConnect :: "bool"
  Http2ProtocolOptions_AllowMetadata :: "bool"
  Http2ProtocolOptions_MaxOutboundFrames :: "32 word option"
  Http2ProtocolOptions_MaxOutboundControlFrames :: "32 word option"
  Http2ProtocolOptions_MaxConsecutiveInboundFramesWithEmptyPayload :: "32 word option"
  Http2ProtocolOptions_MaxInboundPriorityFramesPerStream :: "32 word option"
  Http2ProtocolOptions_MaxInboundWindowUpdateFramesPerDataFrameSent :: "32 word option"
  Http2ProtocolOptions_StreamErrorOnInvalidHttpMessaging :: "bool"
  Http2ProtocolOptions_OverrideStreamErrorOnInvalidHttpMessage :: "bool option"
  Http2ProtocolOptions_CustomSettingsParameters :: "Http2ProtocolOptions_SettingsParameter option
      list"
  Http2ProtocolOptions_ConnectionKeepalive :: "KeepaliveSettings option"
  Http2ProtocolOptions_UseOghttp2Codec :: "bool option"
  Http2ProtocolOptions_MaxMetadataSize :: "64 word option"

definition Http2ProtocolOptions_validate ::
    "vlib \<Rightarrow> Http2ProtocolOptions validator" where
  "Http2ProtocolOptions_validate V = validate ''Http2ProtocolOptions'' (\<lambda>m. [
     (case Http2ProtocolOptions_MaxConcurrentStreams m of None \<Rightarrow> skip
         | Some w \<Rightarrow> check (w < 1 \<or> w > 2147483647) ''MaxConcurrentStreams''
         ''value must be inside range [1, 2147483647]''),
     (case Http2ProtocolOptions_InitialStreamWindowSize m of None \<Rightarrow> skip
         | Some w \<Rightarrow> check (w < 65535 \<or> w > 2147483647)
         ''InitialStreamWindowSize'' ''value must be inside range [65535, 2147483647]''),
     (case Http2ProtocolOptions_InitialConnectionWindowSize m of None \<Rightarrow> skip
         | Some w \<Rightarrow> check (w < 65535 \<or> w > 2147483647)
         ''InitialConnectionWindowSize'' ''value must be inside range [65535, 2147483647]''),
     (case Http2ProtocolOptions_MaxOutboundFrames m of None \<Rightarrow> skip | Some w
         \<Rightarrow>
         check (w < 1) ''MaxOutboundFrames'' ''value must be greater than or equal to 1''),
     (case Http2ProtocolOptions_MaxOutboundControlFrames m of None \<Rightarrow> skip
         | Some w \<Rightarrow> check (w < 1) ''MaxOutboundControlFrames''
         ''value must be greater than or equal to 1''),
     (case Http2ProtocolOptions_MaxInboundWindowUpdateFramesPerDataFrameSent m of None
         \<Rightarrow> skip | Some w \<Rightarrow> check (w < 1)
         ''MaxInboundWindowUpdateFramesPerDataFrameSent''
         ''value must be greater than or equal to 1''),
     each (\<lambda>i x.
         embed (index_field ''CustomSettingsParameters'' i)
             Http2ProtocolOptions_SettingsParameter_validate x)
             (Http2ProtocolOptions_CustomSettingsParameters m),
     embed ''ConnectionKeepalive''
         (KeepaliveSettings_validate V) (Http2ProtocolOptions_ConnectionKeepalive m)])"

record GrpcProtocolOptions =
  GrpcProtocolOptions_Http2ProtocolOptions :: "Http2ProtocolOptions option"

definition GrpcProtocolOptions_validate :: "vlib \<Rightarrow> GrpcProtocolOptions validator" where
  "GrpcProtocolOptions_validate V = validate ''GrpcProtocolOptions'' (\<lambda>m. [
     embed ''Http2ProtocolOptions''
         (Http2ProtocolOptions_validate V) (GrpcProtocolOptions_Http2ProtocolOptions m)])"

record Http3ProtocolOptions =
  Http3ProtocolOptions_QuicProtocolOptions :: "QuicProtocolOptions option"
  Http3ProtocolOptions_OverrideStreamErrorOnInvalidHttpMessage :: "bool option"
  Http3ProtocolOptions_AllowExtendedConnect :: "bool"
  Http3ProtocolOptions_AllowMetadata :: "bool"
  Http3ProtocolOptions_DisableQpack :: "bool"
  Http3ProtocolOptions_DisableConnectionFlowControlForStreams :: "bool"

definition Http3ProtocolOptions_validate ::
    "vlib \<Rightarrow> Http3ProtocolOptions validator" where
  "Http3ProtocolOptions_validate V = validate ''Http3ProtocolOptions'' (\<lambda>m. [
     embed ''QuicProtocolOptions''
         (QuicProtocolOptions_validate V) (Http3ProtocolOptions_QuicProtocolOptions m)])"

datatype oneof_SchemeHeaderTransformation_Transformation =
    SchemeHeaderTransformation_SchemeToOverwrite "string option"

record SchemeHeaderTransformation =
  SchemeHeaderTransformation_Transformation :: "oneof_SchemeHeaderTransformation_Transformation
      option"
  SchemeHeaderTransformation_MatchUpstream :: "bool"

definition SchemeHeaderTransformation_SchemeToOverwrite_InLookup :: "string list" where
  "SchemeHeaderTransformation_SchemeToOverwrite_InLookup = [''http'', ''https'']"

definition SchemeHeaderTransformation_validate :: "SchemeHeaderTransformation validator" where
  "SchemeHeaderTransformation_validate = validate ''SchemeHeaderTransformation'' (\<lambda>m. [
     (case SchemeHeaderTransformation_Transformation m of
         None \<Rightarrow> skip
       | Some (SchemeHeaderTransformation_SchemeToOverwrite w) \<Rightarrow>
           oneof_case ''Transformation'' w (\<lambda>v.
           check (v \<notin> set SchemeHeaderTransformation_SchemeToOverwrite_InLookup)
           ''SchemeToOverwrite'' ''value must be in list [http https]''))])"

record HealthStatusSet =
  HealthStatusSet_Statuses :: "32 word list"

definition HealthStatus_name :: "(32 word, string) gomap" where
  "HealthStatus_name = [(0, ''UNKNOWN''), (1, ''HEALTHY''), (2, ''UNHEALTHY''), (3, ''DRAINING''),
      (4, ''TIMEOUT''),
      (5, ''DEGRADED'')]"

definition HealthStatusSet_validate :: "HealthStatusSet validator" where
  "HealthStatusSet_validate = validate ''HealthStatusSet'' (\<lambda>m. [
     each (\<lambda>i x. check (mget HealthStatus_name x = None) (index_field ''Statuses'' i)
         ''value must be one of the defined enum values'') (HealthStatusSet_Statuses m)])"

datatype oneof_HealthCheck_Payload_Payload =
    HealthCheck_Payload_Text "string option"
  | HealthCheck_Payload_Binary "bytes option"

record HealthCheck_Payload =
  HealthCheck_Payload_Payload :: "oneof_HealthCheck_Payload_Payload option"

definition HealthCheck_Payload_validate :: "HealthCheck_Payload validator" where
  "HealthCheck_Payload_validate = validate ''HealthCheck_Payload'' (\<lambda>m. [
     (case HealthCheck_Payload_Payload m of
         None \<Rightarrow> skip
       | Some (HealthCheck_Payload_Text w) \<Rightarrow> oneof_case ''Payload'' w (\<lambda>v.
           check (RuneCountInString v < 1) ''Text'' ''value length must be at least 1 runes'')
       | Some (HealthCheck_Payload_Binary w) \<Rightarrow> oneof_unread ''Payload'' w),
     check (HealthCheck_Payload_Payload m = None) ''Payload'' ''value is required''])"

record HealthCheck_HttpHealthCheck =
  HealthCheck_HttpHealthCheck_Host :: "string"
  HealthCheck_HttpHealthCheck_Path :: "string"
  HealthCheck_HttpHealthCheck_Send :: "HealthCheck_Payload option"
  HealthCheck_HttpHealthCheck_Receive :: "HealthCheck_Payload option list"
  HealthCheck_HttpHealthCheck_ResponseBufferSize :: "64 word option"
  HealthCheck_HttpHealthCheck_RequestHeadersToAdd :: "HeaderValueOption option list"
  HealthCheck_HttpHealthCheck_RequestHeadersToRemove :: "string list"
  HealthCheck_HttpHealthCheck_ExpectedStatuses :: "Int64Range option list"
  HealthCheck_HttpHealthCheck_RetriableStatuses :: "Int64Range option list"
  HealthCheck_HttpHealthCheck_CodecClientType :: "32 word"
  HealthCheck_HttpHealthCheck_ServiceNameMatcher :: "StringMatcher option"
  HealthCheck_HttpHealthCheck_Method :: "32 word"

definition CodecClientType_name :: "(32 word, string) gomap" where
  "CodecClientType_name = [(0, ''HTTP1''), (1, ''HTTP2''), (2, ''HTTP3'')]"

definition HealthCheck_HttpHealthCheck_Method_NotInLookup :: "32 word list" where
  "HealthCheck_HttpHealthCheck_Method_NotInLookup = [6]"

definition RequestMethod_name :: "(32 word, string) gomap" where
  "RequestMethod_name = [(0, ''METHOD_UNSPECIFIED''), (1, ''GET''), (2, ''HEAD''), (3, ''POST''),
      (4, ''PUT''), (5,
      ''DELETE''), (6, ''CONNECT''), (7, ''OPTIONS''), (8, ''TRACE''), (9, ''PATCH'')]"

definition HealthCheck_HttpHealthCheck_validate ::
    "vlib \<Rightarrow> HealthCheck_HttpHealthCheck validator" where
  "HealthCheck_HttpHealthCheck_validate V = validate ''HealthCheck_HttpHealthCheck'' (\<lambda>m. [
     check (\<not> matches_header_value (HealthCheck_HttpHealthCheck_Host m))
         ''Host'' header_value_reason,
     check (RuneCountInString (HealthCheck_HttpHealthCheck_Path m) < 1) ''Path''
         ''value length must be at least 1 runes'',
     check (\<not> matches_header_value (HealthCheck_HttpHealthCheck_Path m))
         ''Path'' header_value_reason,
     embed ''Send'' HealthCheck_Payload_validate (HealthCheck_HttpHealthCheck_Send m),
     each (\<lambda>i x. embed (index_field ''Receive'' i) HealthCheck_Payload_validate x)
         (HealthCheck_HttpHealthCheck_Receive m),
     (case HealthCheck_HttpHealthCheck_ResponseBufferSize m of None \<Rightarrow> skip
         | Some w \<Rightarrow> check (w < 0) ''ResponseBufferSize''
         ''value must be greater than or equal to 0''),
     check (length (HealthCheck_HttpHealthCheck_RequestHeadersToAdd m) > 1000)
         ''RequestHeadersToAdd''
         ''value must contain no more than 1000 item(s)'',
     each (\<lambda>i x. embed (index_field ''RequestHeadersToAdd'' i) HeaderValueOption_validate x)
         (HealthCheck_HttpHealthCheck_RequestHeadersToAdd m),
     each (\<lambda>i x. check (\<not> matches_no_control x)
         (index_field ''RequestHeadersToRemove'' i) no_control_reason)
             (HealthCheck_HttpHealthCheck_RequestHeadersToRemove m),
     each (\<lambda>i x. embed (index_field ''ExpectedStatuses'' i) Int64Range_validate x)
         (HealthCheck_HttpHealthCheck_ExpectedStatuses m),
     each (\<lambda>i x. embed (index_field ''RetriableStatuses'' i) Int64Range_validate x)
         (HealthCheck_HttpHealthCheck_RetriableStatuses m),
     check (mget CodecClientType_name (HealthCheck_HttpHealthCheck_CodecClientType m) = None)
         ''CodecClientType'' ''value must be one of the defined enum values'',
     embed ''ServiceNameMatcher''
         (StringMatcher_validate V) (HealthCheck_HttpHealthCheck_ServiceNameMatcher m),
     check (HealthCheck_HttpHealthCheck_Method m \<in> set
         HealthCheck_HttpHealthCheck_Method_NotInLookup) ''Method''
         ''value must not be in list [CONNECT]'',
     check (mget RequestMethod_name (HealthCheck_HttpHealthCheck_Method m) = None) ''Method''
         ''value must be one of the defined enum values''])"

record HealthCheck_TcpHealthCheck =
  HealthCheck_TcpHealthCheck_Send :: "HealthCheck_Payload option"
  HealthCheck_TcpHealthCheck_Receive :: "HealthCheck_Payload option list"
  HealthCheck_TcpHealthCheck_ProxyProtocolConfig :: "ProxyProtocolConfig option"

definition HealthCheck_TcpHealthCheck_validate :: "HealthCheck_TcpHealthCheck validator" where
  "HealthCheck_TcpHealthCheck_validate = validate ''HealthCheck_TcpHealthCheck'' (\<lambda>m. [
     embed ''Send'' HealthCheck_Payload_validate (HealthCheck_TcpHealthCheck_Send m),
     each (\<lambda>i x. embed (index_field ''Receive'' i) HealthCheck_Payload_validate x)
         (HealthCheck_TcpHealthCheck_Receive m),
     embed ''ProxyProtocolConfig'' ProxyProtocolConfig_validate
         (HealthCheck_TcpHealthCheck_ProxyProtocolConfig m)])"

record HealthCheck_GrpcHealthCheck =
  HealthCheck_GrpcHealthCheck_ServiceName :: "string"
  HealthCheck_GrpcHealthCheck_Authority :: "string"
  HealthCheck_GrpcHealthCheck_InitialMetadata :: "HeaderValueOption option list"

definition HealthCheck_GrpcHealthCheck_validate :: "HealthCheck_GrpcHealthCheck validator" where
  "HealthCheck_GrpcHealthCheck_validate = validate ''HealthCheck_GrpcHealthCheck'' (\<lambda>m. [
     check (\<not> matches_no_control (HealthCheck_GrpcHealthCheck_Authority m))
         ''Authority'' no_control_reason,
     check (length (HealthCheck_GrpcHealthCheck_InitialMetadata m) > 1000) ''InitialMetadata''
         ''value must contain no more than 1000 item(s)'',
     each (\<lambda>i x. embed (index_field ''InitialMetadata'' i) HeaderValueOption_validate x)
         (HealthCheck_GrpcHealthCheck_InitialMetadata m)])"

datatype oneof_HealthCheck_CustomHealthCheck_ConfigType =
    HealthCheck_CustomHealthCheck_TypedConfig "(bytes option) option"

record HealthCheck_CustomHealthCheck =
  HealthCheck_CustomHealthCheck_Name :: "string"
  HealthCheck_CustomHealthCheck_ConfigType :: "oneof_HealthCheck_CustomHealthCheck_ConfigType
      option"

definition HealthCheck_CustomHealthCheck_validate :: "HealthCheck_CustomHealthCheck validator" where
  "HealthCheck_CustomHealthCheck_validate =
     validate ''HealthCheck_CustomHealthCheck'' (\<lambda>m. [
     check (RuneCountInString (HealthCheck_CustomHealthCheck_Name m) < 1) ''Name''
         ''value length must be at least 1 runes'',
     (case HealthCheck_CustomHealthCheck_ConfigType m of
         None \<Rightarrow> skip
       | Some (HealthCheck_CustomHealthCheck_TypedConfig w) \<Rightarrow>
           oneof_case ''ConfigType'' w (\<lambda>v. skip))])"

record HealthCheck_TlsOptions =
  HealthCheck_TlsOptions_AlpnProtocols :: "string list"

definition HealthCheck_TlsOptions_validate :: "HealthCheck_TlsOptions validator" where
  "HealthCheck_TlsOptions_validate = validate ''HealthCheck_TlsOptions'' (\<lambda>m. [])"

datatype oneof_HealthCheck_HealthChecker =
    HealthCheck_HttpHealthCheck_case "(HealthCheck_HttpHealthCheck option) option"
  | HealthCheck_TcpHealthCheck_case "(HealthCheck_TcpHealthCheck option) option"
  | HealthCheck_GrpcHealthCheck_case "(HealthCheck_GrpcHealthCheck option) option"
  | HealthCheck_CustomHealthCheck_case "(HealthCheck_CustomHealthCheck option) option"

record HealthCheck =
  HealthCheck_Timeout :: "Duration option"
  HealthCheck_Interval :: "Duration option"
  HealthCheck_InitialJitter :: "Duration option"
  HealthCheck_IntervalJitter :: "Duration option"
  HealthCheck_IntervalJitterPercent :: "32 word"
  HealthCheck_UnhealthyThreshold :: "32 word option"
  HealthCheck_HealthyThreshold :: "32 word option"
  HealthCheck_AltPort :: "32 word option"
  HealthCheck_ReuseConnection :: "bool option"
  HealthCheck_HealthChecker :: "oneof_HealthCheck_HealthChecker option"
  HealthCheck_NoTrafficInterval :: "Duration option"
  HealthCheck_NoTrafficHealthyInterval :: "Duration option"
  HealthCheck_UnhealthyInterval :: "Duration option"
  HealthCheck_UnhealthyEdgeInterval :: "Duration option"
  HealthCheck_HealthyEdgeInterval :: "Duration option"
  HealthCheck_EventLogPath :: "string"
  HealthCheck_EventLogger :: "TypedExtensionConfig option list"
  HealthCheck_EventService :: "EventServiceConfig option"
  HealthCheck_AlwaysLogHealthCheckFailures :: "bool"
  HealthCheck_AlwaysLogHealthCheckSuccess :: "bool"
  HealthCheck_TlsOptions :: "HealthCheck_TlsOptions option"
  HealthCheck_TransportSocketMatchCriteria :: "bytes option"

definition HealthCheck_validate :: "vlib \<Rightarrow> HealthCheck validator" where
  "HealthCheck_validate V = validate ''HealthCheck'' (\<lambda>m. [
     check (HealthCheck_Timeout m = None) ''Timeout'' ''value is required'',
     check_duration V (HealthCheck_Timeout m) (\<lambda>dur. dur \<le> duration_of 0 0) ''Timeout''
         ''value must be greater than 0s'',
     check (HealthCheck_Interval m = None) ''Interval'' ''value is required'',
     check_duration V (HealthCheck_Interval m) (\<lambda>dur. dur \<le> duration_of 0 0)
         ''Interval''
         ''value must be greater than 0s'',
     check (HealthCheck_UnhealthyThreshold m = None) ''UnhealthyThreshold'' ''value is required'',
     check (HealthCheck_HealthyThreshold m = None) ''HealthyThreshold'' ''value is required'',
     check_duration V (HealthCheck_NoTrafficInterval m) (\<lambda>dur. dur \<le> duration_of 0 0)
         ''NoTrafficInterval'' ''value must be greater than 0s'',
     check_duration V (HealthCheck_NoTrafficHealthyInterval m)
         (\<lambda>dur. dur \<le> duration_of 0 0) ''NoTrafficHealthyInterval''
         ''value must be greater than 0s'',
     check_duration V (HealthCheck_UnhealthyInterval m) (\<lambda>dur. dur \<le> duration_of 0 0)
         ''UnhealthyInterval'' ''value must be greater than 0s'',
     check_duration V (HealthCheck_UnhealthyEdgeInterval m)
         (\<lambda>dur. dur \<le> duration_of 0 0)
         ''UnhealthyEdgeInterval'' ''value must be greater than 0s'',
     check_duration V (HealthCheck_HealthyEdgeInterval m) (\<lambda>dur. dur \<le> duration_of 0 0)
         ''HealthyEdgeInterval'' ''value must be greater than 0s'',
     each (\<lambda>i x. embed (index_field ''EventLogger'' i) TypedExtensionConfig_validate x)
         (HealthCheck_EventLogger m),
     embed ''EventService'' (EventServiceConfig_validate V) (HealthCheck_EventService m),
     embed ''TlsOptions'' HealthCheck_TlsOptions_validate (HealthCheck_TlsOptions m),
     (case HealthCheck_HealthChecker m of
         None \<Rightarrow> skip
       | Some (HealthCheck_HttpHealthCheck_case w) \<Rightarrow> oneof_case ''HealthChecker'' w
           (\<lambda>v. embed ''HttpHealthCheck'' (HealthCheck_HttpHealthCheck_validate V) v)
       | Some (HealthCheck_TcpHealthCheck_case w) \<Rightarrow> oneof_case ''HealthChecker'' w
           (\<lambda>v. embed ''TcpHealthCheck'' HealthCheck_TcpHealthCheck_validate v)
       | Some (HealthCheck_GrpcHealthCheck_case w) \<Rightarrow> oneof_case ''HealthChecker'' w
           (\<lambda>v. embed ''GrpcHealthCheck'' HealthCheck_GrpcHealthCheck_validate v)
       | Some (HealthCheck_CustomHealthCheck_case w) \<Rightarrow> oneof_case ''HealthChecker'' w
           (\<lambda>v. embed ''CustomHealthCheck'' HealthCheck_CustomHealthCheck_validate v)),
     check (HealthCheck_HealthChecker m = None) ''HealthChecker'' ''value is required''])"

record HealthCheck_RedisHealthCheck =
  HealthCheck_RedisHealthCheck_Key :: "string"

definition HealthCheck_RedisHealthCheck_validate :: "HealthCheck_RedisHealthCheck validator" where
  "HealthCheck_RedisHealthCheck_validate =
     validate ''HealthCheck_RedisHealthCheck'' (\<lambda>m. [])"

end
