(* ===== verification/ClusterValidation.thy ===== *)
theory ClusterValidation
  imports EndpointValidation ProtocolValidation
begin

text \<open>
  Validation of clusters (\<open>envoy/config/cluster/v3\<close>): circuit breakers, filters, outlier detection, load
  balancing, up to \<open>Cluster\<close>.
\<close>

record CircuitBreakers_Thresholds_RetryBudget =
  CircuitBreakers_Thresholds_RetryBudget_BudgetPercent :: "Percent option"
  CircuitBreakers_Thresholds_RetryBudget_MinRetryConcurrency :: "32 word option"

definition CircuitBreakers_Thresholds_RetryBudget_validate ::
    "CircuitBreakers_Thresholds_RetryBudget validator" where
  "CircuitBreakers_Thresholds_RetryBudget_validate =
     validate ''CircuitBreakers_Thresholds_RetryBudget'' (\<lambda>m. [
     embed ''BudgetPercent'' Percent_validate
         (CircuitBreakers_Thresholds_RetryBudget_BudgetPercent m)])"

record CircuitBreakers_Thresholds =
  CircuitBreakers_Thresholds_Priority :: "32 word"
  CircuitBreakers_Thresholds_MaxConnections :: "32 word option"
  CircuitBreakers_Thresholds_MaxPendingRequests :: "32 word option"
  CircuitBreakers_Thresholds_MaxRequests :: "32 word option"
  CircuitBreakers_Thresholds_MaxRetries :: "32 word option"
  CircuitBreakers_Thresholds_RetryBudget :: "CircuitBreakers_Thresholds_RetryBudget option"
  CircuitBreakers_Thresholds_TrackRemaining :: "bool"
  CircuitBreakers_Thresholds_MaxConnectionPools :: "32 word option"

definition CircuitBreakers_Thresholds_validate :: "CircuitBreakers_Thresholds validator" where
  "CircuitBreakers_Thresholds_validate = validate ''CircuitBreakers_Thresholds'' (\<lambda>m. [
     check (mget RoutingPriority_name (CircuitBreakers_Thresholds_Priority m) = None) ''Priority''
         ''value must be one of the defined enum values'',
     embed ''RetryBudget'' CircuitBreakers_Thresholds_RetryBudget_validate
         (CircuitBreakers_Thresholds_RetryBudget m)])"

record CircuitBreakers =
  CircuitBreakers_Thresholds :: "CircuitBreakers_Thresholds option list"
  CircuitBreakers_PerHostThresholds :: "CircuitBreakers_Thresholds option list"

definition CircuitBreakers_validate :: "CircuitBreakers validator" where
  "CircuitBreakers_validate = validate ''CircuitBreakers'' (\<lambda>m. [
     each (\<lambda>i x. embed (index_field ''Thresholds'' i) CircuitBreakers_Thresholds_validate x)
         (CircuitBreakers_Thresholds m),
     each (\<lambda>i x.
         embed (index_field ''PerHostThresholds'' i) CircuitBreakers_Thresholds_validate x)
         (CircuitBreakers_PerHostThresholds m)])"

record FilterMsg =
  FilterMsg_Name :: "string"
  FilterMsg_TypedConfig :: "bytes option"
  FilterMsg_ConfigDiscovery :: "ExtensionConfigSource option"

definition FilterMsg_validate :: "FilterMsg validator" where
  "FilterMsg_validate = validate ''Filter'' (\<lambda>m. [
     check (RuneCountInString (FilterMsg_Name m) < 1) ''Name''
         ''value length must be at least 1 runes'',
     embed ''ConfigDiscovery'' ExtensionConfigSource_validate (FilterMsg_ConfigDiscovery m)])"

record OutlierDetection =
  OutlierDetection_Consecutive_5Xx :: "32 word option"
  OutlierDetection_Interval :: "Duration option"
  OutlierDetection_BaseEjectionTime :: "Duration option"
  OutlierDetection_MaxEjectionPercent :: "32 word option"
  OutlierDetection_EnforcingConsecutive_5Xx :: "32 word option"
  OutlierDetection_EnforcingSuccessRate :: "32 word option"
  OutlierDetection_SuccessRateMinimumHosts :: "32 word option"
  OutlierDetection_SuccessRateRequestVolume :: "32 word option"
  OutlierDetection_SuccessRateStdevFactor :: "32 word option"
  OutlierDetection_ConsecutiveGatewayFailure :: "32 word option"
  OutlierDetection_EnforcingConsecutiveGatewayFailure :: "32 word option"
  OutlierDetection_SplitExternalLocalOriginErrors :: "bool"
  OutlierDetection_ConsecutiveLocalOriginFailure :: "32 word option"
  OutlierDetection_EnforcingConsecutiveLocalOriginFailure :: "32 word option"
  OutlierDetection_EnforcingLocalOriginSuccessRate :: "32 word option"
  OutlierDetection_FailurePercentageThreshold :: "32 word option"
  OutlierDetection_EnforcingFailurePercentage :: "32 word option"
  OutlierDetection_EnforcingFailurePercentageLocalOrigin :: "32 word option"
  OutlierDetection_FailurePercentageMinimumHosts :: "32 word option"
  OutlierDetection_FailurePercentageRequestVolume :: "32 word option"
  OutlierDetection_MaxEjectionTime :: "Duration option"
  OutlierDetection_MaxEjectionTimeJitter :: "Duration option"
  OutlierDetection_SuccessfulActiveHealthCheckUnejectHost :: "bool option"
  OutlierDetection_Monitors :: "TypedExtensionConfig option list"
  OutlierDetection_AlwaysEjectOneHost :: "bool option"

definition OutlierDetection_validate :: "vlib \<Rightarrow> OutlierDetection validator" where
  "OutlierDetection_validate V = validate ''OutlierDetection'' (\<lambda>m. [
     check_duration V (OutlierDetection_Interval m) (\<lambda>dur. dur \<le> duration_of 0 0)
         ''Interval'' ''value must be greater than 0s'',
     check_duration V (OutlierDetection_BaseEjectionTime m)
         (\<lambda>dur. dur \<le> duration_of 0 0)
         ''BaseEjectionTime'' ''value must be greater than 0s'',
     (case OutlierDetection_MaxEjectionPercent m of None \<Rightarrow> skip | Some w \<Rightarrow>
         check (w > 100) ''MaxEjectionPercent'' ''value must be less than or equal to 100''),
     (case OutlierDetection_EnforcingConsecutive_5Xx m of None \<Rightarrow> skip
         | Some w \<Rightarrow> check (w > 100) ''EnforcingConsecutive_5Xx''
         ''value must be less than or equal to 100''),
     (case OutlierDetection_EnforcingSuccessRate m of None \<Rightarrow> skip | Some w \<Rightarrow>
         check (w > 100) ''EnforcingSuccessRate'' ''value must be less than or equal to 100''),
     (case OutlierDetection_EnforcingConsecutiveGatewayFailure m of None \<Rightarrow> skip
         | Some w \<Rightarrow> check (w > 100) ''EnforcingConsecutiveGatewayFailure''
         ''value must be less than or equal to 100''),
     (case OutlierDetection_EnforcingConsecutiveLocalOriginFailure m of None \<Rightarrow> skip
         | Some w \<Rightarrow> check (w > 100) ''EnforcingConsecutiveLocalOriginFailure''
         ''value must be less than or equal to 100''),
     (case OutlierDetection_EnforcingLocalOriginSuccessRate m of None \<Rightarrow> skip
         | Some w \<Rightarrow> check (w > 100) ''EnforcingLocalOriginSuccessRate''
         ''value must be less than or equal to 100''),
     (case OutlierDetection_FailurePercentageThreshold m of None \<Rightarrow> skip
         | Some w \<Rightarrow> check (w > 100) ''FailurePercentageThreshold''
         ''value must be less than or equal to 100''),
     (case OutlierDetection_EnforcingFailurePercentage m of None \<Rightarrow> skip
         | Some w \<Rightarrow> check (w > 100) ''EnforcingFailurePercentage''
         ''value must be less than or equal to 100''),
     (case OutlierDetection_EnforcingFailurePercentageLocalOrigin m of None \<Rightarrow> skip
         | Some w \<Rightarrow> check (w > 100) ''EnforcingFailurePercentageLocalOrigin''
         ''value must be less than or equal to 100''),
     check_duration V (OutlierDetection_MaxEjectionTime m) (\<lambda>dur. dur \<le> duration_of 0 0)
         ''MaxEjectionTime'' ''value must be greater than 0s'',
     each (\<lambda>i x. embed (index_field ''Monitors'' i) TypedExtensionConfig_validate x)
         (OutlierDetection_Monitors m)])"

record ClusterCollection =
  ClusterCollection_Entries :: "bytes option"

definition ClusterCollection_validate :: "vlib \<Rightarrow> ClusterCollection validator" where
  "ClusterCollection_validate V = validate ''ClusterCollection'' (\<lambda>m. [
     embed ''Entries'' (CollectionEntry_validate V) (ClusterCollection_Entries m)])"

record Cluster_TransportSocketMatch =
  Cluster_TransportSocketMatch_Name :: "string"
  Cluster_TransportSocketMatch_Match :: "bytes option"
  Cluster_TransportSocketMatch_TransportSocket :: "TransportSocket option"

definition Cluster_TransportSocketMatch_validate :: "Cluster_TransportSocketMatch validator" where
  "Cluster_TransportSocketMatch_validate = validate ''Cluster_TransportSocketMatch'' (\<lambda>m. [
     check (RuneCountInString (Cluster_TransportSocketMatch_Name m) < 1) ''Name''
         ''value length must be at least 1 runes'',
     embed ''TransportSocket'' TransportSocket_validate
         (Cluster_TransportSocketMatch_TransportSocket m)])"

record Cluster_CustomClusterType =
  Cluster_CustomClusterType_Name :: "string"
  Cluster_CustomClusterType_TypedConfig :: "bytes option"

definition Cluster_CustomClusterType_validate :: "Cluster_CustomClusterType validator" where
  "Cluster_CustomClusterType_validate = validate ''Cluster_CustomClusterType'' (\<lambda>m. [
     check (RuneCountInString (Cluster_CustomClusterType_Name m) < 1) ''Name''
         ''value length must be at least 1 runes''])"

record Cluster_EdsClusterConfig =
  Cluster_EdsClusterConfig_EdsConfig :: "ConfigSource option"
  Cluster_EdsClusterConfig_ServiceName :: "string"

definition Cluster_EdsClusterConfig_validate ::
    "vlib \<Rightarrow> Cluster_EdsClusterConfig validator" where
  "Cluster_EdsClusterConfig_validate V = validate ''Cluster_EdsClusterConfig'' (\<lambda>m. [
     embed ''EdsConfig'' (ConfigSource_validate V) (Cluster_EdsClusterConfig_EdsConfig m)])"

record Cluster_RefreshRate =
  Cluster_RefreshRate_BaseInterval :: "Duration option"
  Cluster_RefreshRate_MaxInterval :: "Duration option"

definition Cluster_RefreshRate_validate :: "vlib \<Rightarrow> Cluster_RefreshRate validator" where
  "Cluster_RefreshRate_validate V = validate ''Cluster_RefreshRate'' (\<lambda>m. [
     check (Cluster_RefreshRate_BaseInterval m = None) ''BaseInterval'' ''value is required'',
     check_duration V (Cluster_RefreshRate_BaseInterval m)
         (\<lambda>dur. dur \<le> duration_of 0 1000000) ''BaseInterval''
         ''value must be greater than 1ms'',
     check_duration V (Cluster_RefreshRate_MaxInterval m)
         (\<lambda>dur. dur \<le> duration_of 0 1000000) ''MaxInterval''
         ''value must be greater than 1ms''])"

record Cluster_LbSubsetConfig_LbSubsetSelector =
  Cluster_LbSubsetConfig_LbSubsetSelector_Keys :: "string list"
  Cluster_LbSubsetConfig_LbSubsetSelector_SingleHostPerSubset :: "bool"
  Cluster_LbSubsetConfig_LbSubsetSelector_FallbackPolicy :: "32 word"
  Cluster_LbSubsetConfig_LbSubsetSelector_FallbackKeysSubset :: "string list"

definition Cluster_LbSubsetConfig_LbSubsetSelector_LbSubsetSelectorFallbackPolicy_name ::
    "(32 word, string) gomap" where
  "Cluster_LbSubsetConfig_LbSubsetSelector_LbSubsetSelectorFallbackPolicy_name = [(0,
      ''NOT_DEFINED''), (1, ''NO_FALLBACK''), (2, ''ANY_ENDPOINT''), (3, ''DEFAULT_SUBSET''),
      (4, ''KEYS_SUBSET'')]"

definition Cluster_LbSubsetConfig_LbSubsetSelector_validate ::
    "Cluster_LbSubsetConfig_LbSubsetSelector validator" where
  "Cluster_LbSubsetConfig_LbSubsetSelector_validate =
     validate ''Cluster_LbSubsetConfig_LbSubsetSelector'' (\<lambda>m. [
     check (mget Cluster_LbSubsetConfig_LbSubsetSelector_LbSubsetSelectorFallbackPolicy_name
         (Cluster_LbSubsetConfig_LbSubsetSelector_FallbackPolicy m) = None) ''FallbackPolicy''
         ''value must be one of the defined enum values''])"

record Cluster_LbSubsetConfig =
  Cluster_LbSubsetConfig_FallbackPolicy :: "32 word"
  Cluster_LbSubsetConfig_DefaultSubset :: "bytes option"
  Cluster_LbSubsetConfig_SubsetSelectors :: "Cluster_LbSubsetConfig_LbSubsetSelector option list"
  Cluster_LbSubsetConfig_LocalityWeightAware :: "bool"
  Cluster_LbSubsetConfig_ScaleLocalityWeight :: "bool"
  Cluster_LbSubsetConfig_PanicModeAny :: "bool"
  Cluster_LbSubsetConfig_ListAsAny :: "bool"
  Cluster_LbSubsetConfig_MetadataFallbackPolicy :: "32 word"

definition Cluster_LbSubsetConfig_LbSubsetFallbackPolicy_name :: "(32 word, string) gomap" where
  "Cluster_LbSubsetConfig_LbSubsetFallbackPolicy_name = [(0, ''NO_FALLBACK''),
      (1, ''ANY_ENDPOINT''), (2, ''DEFAULT_SUBSET'')]"

definition Cluster_LbSubsetConfig_LbSubsetMetadataFallbackPolicy_name :: "(32 word, string) gomap"
    where
  "Cluster_LbSubsetConfig_LbSubsetMetadataFallbackPolicy_name = [(0, ''METADATA_NO_FALLBACK''),
      (1, ''FALLBACK_LIST'')]"

definition Cluster_LbSubsetConfig_validate :: "Cluster_LbSubsetConfig validator" where
  "Cluster_LbSubsetConfig_validate = validate ''Cluster_LbSubsetConfig'' (\<lambda>m. [
     check (mget Cluster_LbSubsetConfig_LbSubsetFallbackPolicy_name
         (Cluster_LbSubsetConfig_FallbackPolicy m) = None) ''FallbackPolicy''
         ''value must be one of the defined enum values'',
     each (\<lambda>i x.
         embed (index_field ''SubsetSelectors'' i) Cluster_LbSubsetConfig_LbSubsetSelector_validate
             x) (Cluster_LbSubsetConfig_SubsetSelectors m),
     check (mget Cluster_LbSubsetConfig_LbSubsetMetadataFallbackPolicy_name
         (Cluster_LbSubsetConfig_MetadataFallbackPolicy m) = None) ''MetadataFallbackPolicy''
         ''value must be one of the defined enum values''])"

record Cluster_RingHashLbConfig =
  Cluster_RingHashLbConfig_MinimumRingSize :: "64 word option"
  Cluster_RingHashLbConfig_HashFunction :: "32 word"
  Cluster_RingHashLbConfig_MaximumRingSize :: "64 word option"

definition Cluster_RingHashLbConfig_HashFunction_name :: "(32 word, string) gomap" where
  "Cluster_RingHashLbConfig_HashFunction_name = [(0, ''XX_HASH''), (1, ''MURMUR_HASH_2'')]"

definition Cluster_RingHashLbConfig_validate :: "Cluster_RingHashLbConfig validator" where
  "Cluster_RingHashLbConfig_validate = validate ''Cluster_RingHashLbConfig'' (\<lambda>m. [
     (case Cluster_RingHashLbConfig_MinimumRingSize m of None \<Rightarrow> skip | Some w
         \<Rightarrow>
         check (w > 8388608) ''MinimumRingSize'' ''value must be less than or equal to 8388608''),
     check (mget Cluster_RingHashLbConfig_HashFunction_name
         (Cluster_RingHashLbConfig_HashFunction m) = None) ''HashFunction''
         ''value must be one of the defined enum values'',
     (case Cluster_RingHashLbConfig_MaximumRingSize m of None \<Rightarrow> skip | Some w
         \<Rightarrow>
         check (w > 8388608) ''MaximumRingSize'' ''value must be less than or equal to 8388608'')])"

record Cluster_MaglevLbConfig =
  Cluster_MaglevLbConfig_TableSize :: "64 word option"

definition Cluster_MaglevLbConfig_validate :: "Cluster_MaglevLbConfig validator" where
  "Cluster_MaglevLbConfig_validate = validate ''Cluster_MaglevLbConfig'' (\<lambda>m. [
     (case Cluster_MaglevLbConfig_TableSize m of None \<Rightarrow> skip | Some w \<Rightarrow>
         check (w > 5000011) ''TableSize'' ''value must be less than or equal to 5000011'')])"

record Cluster_OriginalDstLbConfig =
  Cluster_OriginalDstLbConfig_UseHttpHeader :: "bool"
  Cluster_OriginalDstLbConfig_HttpHeaderName :: "string"
  Cluster_OriginalDstLbConfig_UpstreamPortOverride :: "32 word option"
  Cluster_OriginalDstLbConfig_MetadataKey :: "MetadataKey option"

definition Cluster_OriginalDstLbConfig_validate :: "Cluster_OriginalDstLbConfig validator" where
  "Cluster_OriginalDstLbConfig_validate = validate ''Cluster_OriginalDstLbConfig'' (\<lambda>m. [
     (case Cluster_OriginalDstLbConfig_UpstreamPortOverride m of None \<Rightarrow> skip
         | Some w \<Rightarrow> check (w > 65535) ''UpstreamPortOverride''
         ''value must be less than or equal to 65535''),
     embed ''MetadataKey'' MetadataKey_validate (Cluster_OriginalDstLbConfig_MetadataKey m)])"

record Cluster_SlowStartConfig =
  Cluster_SlowStartConfig_SlowStartWindow :: "Duration option"
  Cluster_SlowStartConfig_Aggression :: "RuntimeDouble option"
  Cluster_SlowStartConfig_MinWeightPercent :: "Percent option"

definition Cluster_SlowStartConfig_validate :: "Cluster_SlowStartConfig validator" where
  "Cluster_SlowStartConfig_validate = validate ''Cluster_SlowStartConfig'' (\<lambda>m. [
     embed ''Aggression'' RuntimeDouble_validate (Cluster_SlowStartConfig_Aggression m),
     embed ''MinWeightPercent'' Percent_validate (Cluster_SlowStartConfig_MinWeightPercent m)])"

record Cluster_LeastRequestLbConfig =
  Cluster_LeastRequestLbConfig_ChoiceCount :: "32 word option"
  Cluster_LeastRequestLbConfig_ActiveRequestBias :: "RuntimeDouble option"
  Cluster_LeastRequestLbConfig_SlowStartConfig :: "Cluster_SlowStartConfig option"

definition Cluster_LeastRequestLbConfig_validate :: "Cluster_LeastRequestLbConfig validator" where
  "Cluster_LeastRequestLbConfig_validate = validate ''Cluster_LeastRequestLbConfig'' (\<lambda>m. [
     (case Cluster_LeastRequestLbConfig_ChoiceCount m of None \<Rightarrow> skip | Some w
         \<Rightarrow>
         check (w < 2) ''ChoiceCount'' ''value must be greater than or equal to 2''),
     embed ''ActiveRequestBias'' RuntimeDouble_validate
         (Cluster_LeastRequestLbConfig_ActiveRequestBias m),
     embed ''SlowStartConfig'' Cluster_SlowStartConfig_validate
         (Cluster_LeastRequestLbConfig_SlowStartConfig m)])"

record Cluster_RoundRobinLbConfig =
  Cluster_RoundRobinLbConfig_SlowStartConfig :: "Cluster_SlowStartConfig option"

definition Cluster_RoundRobinLbConfig_validate :: "Cluster_RoundRobinLbConfig validator" where
  "Cluster_RoundRobinLbConfig_validate = validate ''Cluster_RoundRobinLbConfig'' (\<lambda>m. [
     embed ''SlowStartConfig'' Cluster_SlowStartConfig_validate
         (Cluster_RoundRobinLbConfig_SlowStartConfig m)])"

record Cluster_CommonLbConfig_ZoneAwareLbConfig =
  Cluster_CommonLbConfig_ZoneAwareLbConfig_RoutingEnabled :: "Percent option"
  Cluster_CommonLbConfig_ZoneAwareLbConfig_MinClusterSize :: "64 word option"
  Cluster_CommonLbConfig_ZoneAwareLbConfig_FailTrafficOnPanic :: "bool"

definition Cluster_CommonLbConfig_ZoneAwareLbConfig_validate ::
    "Cluster_CommonLbConfig_ZoneAwareLbConfig validator" where
  "Cluster_CommonLbConfig_ZoneAwareLbConfig_validate =
     validate ''Cluster_CommonLbConfig_ZoneAwareLbConfig'' (\<lambda>m. [
     embed ''RoutingEnabled'' Percent_validate
         (Cluster_CommonLbConfig_ZoneAwareLbConfig_RoutingEnabled m)])"

datatype Cluster_CommonLbConfig_LocalityWeightedLbConfig =
    empty_Cluster_CommonLbConfig_LocalityWeightedLbConfig

definition Cluster_CommonLbConfig_LocalityWeightedLbConfig_validate ::
    "Cluster_CommonLbConfig_LocalityWeightedLbConfig validator" where
  "Cluster_CommonLbConfig_LocalityWeightedLbConfig_validate =
     validate ''Cluster_CommonLbConfig_LocalityWeightedLbConfig'' (\<lambda>m. [])"

record Cluster_CommonLbConfig_ConsistentHashingLbConfig =
  Cluster_CommonLbConfig_ConsistentHashingLbConfig_UseHostnameForHashing :: "bool"
  Cluster_CommonLbConfig_ConsistentHashingLbConfig_HashBalanceFactor :: "32 word option"

definition Cluster_CommonLbConfig_ConsistentHashingLbConfig_validate ::
    "Cluster_CommonLbConfig_ConsistentHashingLbConfig validator" where
  "Cluster_CommonLbConfig_ConsistentHashingLbConfig_validate =
     validate ''Cluster_CommonLbConfig_ConsistentHashingLbConfig'' (\<lambda>m. [
     (case Cluster_CommonLbConfig_ConsistentHashingLbConfig_HashBalanceFactor m of None
         \<Rightarrow> skip | Some w \<Rightarrow> check (w < 100) ''HashBalanceFactor''
         ''value must be greater than or equal to 100'')])"

datatype oneof_Cluster_CommonLbConfig_LocalityConfigSpecifier =
    Cluster_CommonLbConfig_ZoneAwareLbConfig_case "(Cluster_CommonLbConfig_ZoneAwareLbConfig
        option) option"
  | Cluster_CommonLbConfig_LocalityWeightedLbConfig_case
      "(Cluster_CommonLbConfig_LocalityWeightedLbConfig option) option"

record Cluster_CommonLbConfig =
  Cluster_CommonLbConfig_HealthyPanicThreshold :: "Percent option"
  Cluster_CommonLbConfig_LocalityConfigSpecifier ::
      "oneof_Cluster_CommonLbConfig_LocalityConfigSpecifier option"
  Cluster_CommonLbConfig_UpdateMergeWindow :: "Duration option"
  Cluster_CommonLbConfig_IgnoreNewHostsUntilFirstHc :: "bool"
  Cluster_CommonLbConfig_CloseConnectionsOnHostSetChange :: "bool"
  Cluster_CommonLbConfig_ConsistentHashingLbConfig ::
      "Cluster_CommonLbConfig_ConsistentHashingLbConfig option"
  Cluster_CommonLbConfig_OverrideHostStatus :: "HealthStatusSet option"

definition Cluster_CommonLbConfig_validate :: "Cluster_CommonLbConfig validator" where
  "Cluster_CommonLbConfig_validate = validate ''Cluster_CommonLbConfig'' (\<lambda>m. [
     embed ''HealthyPanicThreshold'' Percent_validate
         (Cluster_CommonLbConfig_HealthyPanicThreshold m),
     embed ''ConsistentHashingLbConfig'' Cluster_CommonLbConfig_ConsistentHashingLbConfig_validate
         (Cluster_CommonLbConfig_ConsistentHashingLbConfig m),
     embed ''OverrideHostStatus'' HealthStatusSet_validate
         (Cluster_CommonLbConfig_OverrideHostStatus m),
     (case Cluster_CommonLbConfig_LocalityConfigSpecifier m of
         None \<Rightarrow> skip
       | Some (Cluster_CommonLbConfig_ZoneAwareLbConfig_case w) \<Rightarrow>
           oneof_case ''LocalityConfigSpecifier'' w (\<lambda>v.
           embed ''ZoneAwareLbConfig'' Cluster_CommonLbConfig_ZoneAwareLbConfig_validate v)
       | Some (Cluster_CommonLbConfig_LocalityWeightedLbConfig_case w) \<Rightarrow>
           oneof_case ''LocalityConfigSpecifier'' w (\<lambda>v.
           embed ''LocalityWeightedLbConfig''
               Cluster_CommonLbConfig_LocalityWeightedLbConfig_validate v))])"

record UpstreamConnectionOptions_HappyEyeballsConfig =
  UpstreamConnectionOptions_HappyEyeballsConfig_FirstAddressFamilyVersion :: "32 word"
  UpstreamConnectionOptions_HappyEyeballsConfig_FirstAddressFamilyCount :: "32 word option"

definition UpstreamConnectionOptions_HappyEyeballsConfig_validate ::
    "UpstreamConnectionOptions_HappyEyeballsConfig validator" where
  "UpstreamConnectionOptions_HappyEyeballsConfig_validate =
     validate ''UpstreamConnectionOptions_HappyEyeballsConfig'' (\<lambda>m. [
     (case UpstreamConnectionOptions_HappyEyeballsConfig_FirstAddressFamilyCount m of None
         \<Rightarrow> skip | Some w \<Rightarrow> check (w < 1) ''FirstAddressFamilyCount''
         ''value must be greater than or equal to 1'')])"

record UpstreamConnectionOptions =
  UpstreamConnectionOptions_TcpKeepalive :: "TcpKeepalive option"
  UpstreamConnectionOptions_SetLocalInterfaceNameOnUpstreamConnections :: "bool"
  UpstreamConnectionOptions_HappyEyeballsConfig :: "UpstreamConnectionOptions_HappyEyeballsConfig
      option"

definition UpstreamConnectionOptions_validate :: "UpstreamConnectionOptions validator" where
  "UpstreamConnectionOptions_validate = validate ''UpstreamConnectionOptions'' (\<lambda>m. [
     embed ''TcpKeepalive'' TcpKeepalive_validate (UpstreamConnectionOptions_TcpKeepalive m),
     embed ''HappyEyeballsConfig'' UpstreamConnectionOptions_HappyEyeballsConfig_validate
         (UpstreamConnectionOptions_HappyEyeballsConfig m)])"

record LoadBalancingPolicy_Policy =
  LoadBalancingPolicy_Policy_TypedExtensionConfig :: "TypedExtensionConfig option"

definition LoadBalancingPolicy_Policy_validate :: "LoadBalancingPolicy_Policy validator" where
  "LoadBalancingPolicy_Policy_validate = validate ''LoadBalancingPolicy_Policy'' (\<lambda>m. [
     embed ''TypedExtensionConfig'' TypedExtensionConfig_validate
         (LoadBalancingPolicy_Policy_TypedExtensionConfig m)])"

record LoadBalancingPolicy =
  LoadBalancingPolicy_Policies :: "LoadBalancingPolicy_Policy option list"

definition LoadBalancingPolicy_validate :: "LoadBalancingPolicy validator" where
  "LoadBalancingPolicy_validate = validate ''LoadBalancingPolicy'' (\<lambda>m. [
     each (\<lambda>i x. embed (index_field ''Policies'' i) LoadBalancingPolicy_Policy_validate x)
         (LoadBalancingPolicy_Policies m)])"

record TrackClusterStats =
  TrackClusterStats_TimeoutBudgets :: "bool"
  TrackClusterStats_RequestResponseSizes :: "bool"
  TrackClusterStats_PerEndpointStats :: "bool"

definition TrackClusterStats_validate :: "TrackClusterStats validator" where
  "TrackClusterStats_validate = validate ''TrackClusterStats'' (\<lambda>m. [])"

record Cluster_PreconnectPolicy =
  Cluster_PreconnectPolicy_PerUpstreamPreconnectRatio :: "float64 option"
  Cluster_PreconnectPolicy_PredictivePreconnectRatio :: "float64 option"

definition Cluster_PreconnectPolicy_validate :: "Cluster_PreconnectPolicy validator" where
  "Cluster_PreconnectPolicy_validate = validate ''Cluster_PreconnectPolicy'' (\<lambda>m. [
     (case Cluster_PreconnectPolicy_PerUpstreamPreconnectRatio m of None \<Rightarrow> skip
         | Some w \<Rightarrow> check (float_less w (Finite 1 0) \<or> float_less (Finite 3 0) w)
         ''PerUpstreamPreconnectRatio'' ''value must be inside range [1, 3]''),
     (case Cluster_PreconnectPolicy_PredictivePreconnectRatio m of None \<Rightarrow> skip
         | Some w \<Rightarrow> check (float_less w (Finite 1 0) \<or> float_less (Finite 3 0) w)
         ''PredictivePreconnectRatio'' ''value must be inside range [1, 3]'')])"

datatype oneof_Cluster_ClusterDiscoveryType =
    Cluster_Type "(32 word) option"
  | Cluster_ClusterType "(Cluster_CustomClusterType option) option"

datatype oneof_Cluster_LbConfig =
    Cluster_RingHashLbConfig_case "(Cluster_RingHashLbConfig option) option"
  | Cluster_MaglevLbConfig_case "(Cluster_MaglevLbConfig option) option"
  | Cluster_OriginalDstLbConfig_case "(Cluster_OriginalDstLbConfig option) option"
  | Cluster_LeastRequestLbConfig_case "(Cluster_LeastRequestLbConfig option) option"
  | Cluster_RoundRobinLbConfig_case "(Cluster_RoundRobinLbConfig option) option"

record Cluster =
  Cluster_TransportSocketMatches :: "Cluster_TransportSocketMatch option list"
  Cluster_Name :: "string"
  Cluster_AltStatName :: "string"
  Cluster_ClusterDiscoveryType :: "oneof_Cluster_ClusterDiscoveryType option"
  Cluster_EdsClusterConfig :: "Cluster_EdsClusterConfig option"
  Cluster_ConnectTimeout :: "Duration option"
  Cluster_PerConnectionBufferLimitBytes :: "32 word option"
  Cluster_LbPolicy :: "32 word"
  Cluster_LoadAssignment :: "ClusterLoadAssignmentMsg option"
  Cluster_HealthChecks :: "HealthCheck option list"
  Cluster_MaxRequestsPerConnection :: "32 word option"
  Cluster_CircuitBreakers :: "CircuitBreakers option"
  Cluster_UpstreamHttpProtocolOptions :: "UpstreamHttpProtocolOptions option"
  Cluster_CommonHttpProtocolOptions :: "HttpProtocolOptions option"
  Cluster_HttpProtocolOptions :: "Http1ProtocolOptions option"
  Cluster_Http2ProtocolOptions :: "Http2ProtocolOptions option"
  Cluster_TypedExtensionProtocolOptions :: "(string, bytes option) gomap"
  Cluster_DnsRefreshRate :: "Duration option"
  Cluster_DnsJitter :: "Duration option"
  Cluster_DnsFailureRefreshRate :: "Cluster_RefreshRate option"
  Cluster_RespectDnsTtl :: "bool"
  Cluster_DnsLookupFamily :: "32 word"
  Cluster_DnsResolvers :: "Address option list"
  Cluster_UseTcpForDnsLookups :: "bool"
  Cluster_DnsResolutionConfig :: "DnsResolutionConfig option"
  Cluster_TypedDnsResolverConfig :: "TypedExtensionConfig option"
  Cluster_WaitForWarmOnInit :: "bool option"
  Cluster_OutlierDetection :: "OutlierDetection option"
  Cluster_CleanupInterval :: "Duration option"
  Cluster_UpstreamBindConfig :: "BindConfig option"
  Cluster_LbSubsetConfig :: "Cluster_LbSubsetConfig option"
  Cluster_LbConfig :: "oneof_Cluster_LbConfig option"
  Cluster_CommonLbConfig :: "Cluster_CommonLbConfig option"
  Cluster_TransportSocket :: "TransportSocket option"
  Cluster_Metadata :: "Metadata option"
  Cluster_ProtocolSelection :: "32 word"
  Cluster_UpstreamConnectionOptions :: "UpstreamConnectionOptions option"
  Cluster_CloseConnectionsOnHostHealthFailure :: "bool"
  Cluster_IgnoreHealthOnHostRemoval :: "bool"
  Cluster_Filters :: "FilterMsg option list"
  Cluster_LoadBalancingPolicy :: "LoadBalancingPolicy option"
  Cluster_LrsServer :: "ConfigSource option"
  Cluster_LrsReportEndpointMetrics :: "string list"
  Cluster_TrackTimeoutBudgets :: "bool"
  Cluster_UpstreamConfig :: "TypedExtensionConfig option"
  Cluster_TrackClusterStats :: "TrackClusterStats option"
  Cluster_PreconnectPolicy :: "Cluster_PreconnectPolicy option"
  Cluster_ConnectionPoolPerDownstreamConnection :: "bool"

definition Cluster_LbPolicy_name :: "(32 word, string) gomap" where
  "Cluster_LbPolicy_name = [(0, ''ROUND_ROBIN''), (1, ''LEAST_REQUEST''), (2, ''RING_HASH''),
      (3, ''RANDOM''), (5,
      ''MAGLEV''), (6, ''CLUSTER_PROVIDED''), (7, ''LOAD_BALANCING_POLICY_CONFIG'')]"

definition Cluster_DnsLookupFamily_name :: "(32 word, string) gomap" where
  "Cluster_DnsLookupFamily_name = [(0, ''AUTO''), (1, ''V4_ONLY''), (2, ''V6_ONLY''),
      (3, ''V4_PREFERRED''), (4, ''ALL'')]"

definition Cluster_DiscoveryType_name :: "(32 word, string) gomap" where
  "Cluster_DiscoveryType_name = [(0, ''STATIC''), (1, ''STRICT_DNS''), (2, ''LOGICAL_DNS''),
      (3, ''EDS''), (4,
      ''ORIGINAL_DST'')]"

definition Cluster_validate :: "vlib \<Rightarrow> Cluster validator" where
  "Cluster_validate V = validate ''Cluster'' (\<lambda>m. [
     each (\<lambda>i x.
         embed (index_field ''TransportSocketMatches'' i) Cluster_TransportSocketMatch_validate x)
             (Cluster_TransportSocketMatches m),
     check (RuneCountInString (Cluster_Name m) < 1) ''Name''
         ''value length must be at least 1 runes'',
     embed ''EdsClusterConfig'' (Cluster_EdsClusterConfig_validate V) (Cluster_EdsClusterConfig m),
     check_duration V (Cluster_ConnectTimeout m) (\<lambda>dur. dur \<le> duration_of 0 0)
         ''ConnectTimeout'' ''value must be greater than 0s'',
     check (mget Cluster_LbPolicy_name (Cluster_LbPolicy m) = None) ''LbPolicy''
         ''value must be one of the defined enum values'',
     embed ''LoadAssignment'' (ClusterLoadAssignmentMsg_validate V) (Cluster_LoadAssignment m),
     each (\<lambda>i x. embed (index_field ''HealthChecks'' i) (HealthCheck_validate V) x)
         (Cluster_HealthChecks m),
     embed ''CircuitBreakers'' CircuitBreakers_validate (Cluster_CircuitBreakers m),
     embed ''UpstreamHttpProtocolOptions'' UpstreamHttpProtocolOptions_validate
         (Cluster_UpstreamHttpProtocolOptions m),
     embed ''CommonHttpProtocolOptions'' HttpProtocolOptions_validate
         (Cluster_CommonHttpProtocolOptions m),
     embed ''HttpProtocolOptions'' (Http1ProtocolOptions_validate V)
         (Cluster_HttpProtocolOptions m),
     embed ''Http2ProtocolOptions'' (Http2ProtocolOptions_validate V)
         (Cluster_Http2ProtocolOptions m),
     check_duration V (Cluster_DnsRefreshRate m) (\<lambda>dur. dur \<le> duration_of 0 1000000)
         ''DnsRefreshRate'' ''value must be greater than 1ms'',
     check_duration V (Cluster_DnsJitter m) (\<lambda>dur. dur < duration_of 0 0) ''DnsJitter''
         ''value must be greater than or equal to 0s'',
     embed ''DnsFailureRefreshRate''
         (Cluster_RefreshRate_validate V) (Cluster_DnsFailureRefreshRate m),
     check (mget Cluster_DnsLookupFamily_name (Cluster_DnsLookupFamily m) = None)
         ''DnsLookupFamily''
         ''value must be one of the defined enum values'',
     each (\<lambda>i x. embed (index_field ''DnsResolvers'' i) Address_validate x)
         (Cluster_DnsResolvers m),
     embed ''DnsResolutionConfig'' DnsResolutionConfig_validate (Cluster_DnsResolutionConfig m),
     embed ''TypedDnsResolverConfig'' TypedExtensionConfig_validate
         (Cluster_TypedDnsResolverConfig m),
     embed ''OutlierDetection'' (OutlierDetection_validate V) (Cluster_OutlierDetection m),
     check_duration V (Cluster_CleanupInterval m) (\<lambda>dur. dur \<le> duration_of 0 0)
         ''CleanupInterval'' ''value must be greater than 0s'',
     embed ''UpstreamBindConfig'' BindConfig_validate (Cluster_UpstreamBindConfig m),
     embed ''LbSubsetConfig'' Cluster_LbSubsetConfig_validate (Cluster_LbSubsetConfig m),
     embed ''CommonLbConfig'' Cluster_CommonLbConfig_validate (Cluster_CommonLbConfig m),
     embed ''TransportSocket'' TransportSocket_validate (Cluster_TransportSocket m),
     embed ''Metadata'' Metadata_validate (Cluster_Metadata m),
     embed ''UpstreamConnectionOptions'' UpstreamConnectionOptions_validate
         (Cluster_UpstreamConnectionOptions m),
     each (\<lambda>i x. embed (index_field ''Filters'' i) FilterMsg_validate x)
         (Cluster_Filters m),
     embed ''LoadBalancingPolicy'' LoadBalancingPolicy_validate (Cluster_LoadBalancingPolicy m),
     embed ''LrsServer'' (ConfigSource_validate V) (Cluster_LrsServer m),
     embed ''UpstreamConfig'' TypedExtensionConfig_validate (Cluster_UpstreamConfig m),
     embed ''TrackClusterStats'' TrackClusterStats_validate (Cluster_TrackClusterStats m),
     embed ''PreconnectPolicy'' Cluster_PreconnectPolicy_validate (Cluster_PreconnectPolicy m),
     (case Cluster_ClusterDiscoveryType m of
         None \<Rightarrow> skip
       | Some (Cluster_Type w) \<Rightarrow> oneof_case ''ClusterDiscoveryType'' w (\<lambda>v.
           check (mget Cluster_DiscoveryType_name v = None) ''Type''
           ''value must be one of the defined enum values'')
       | Some (Cluster_ClusterType w) \<Rightarrow> oneof_case ''ClusterDiscoveryType'' w
           (\<lambda>v. embed ''ClusterType'' Cluster_CustomClusterType_validate v)),
     (case Cluster_LbConfig m of
         None \<Rightarrow> skip
       | Some (Cluster_RingHashLbConfig_case w) \<Rightarrow> oneof_case ''LbConfig'' w
           (\<lambda>v. embed ''RingHashLbConfig'' Cluster_RingHashLbConfig_validate v)
       | Some (Cluster_MaglevLbConfig_case w) \<Rightarrow> oneof_case ''LbConfig'' w
           (\<lambda>v. embed ''MaglevLbConfig'' Cluster_MaglevLbConfig_validate v)
       | Some (Cluster_OriginalDstLbConfig_case w) \<Rightarrow> oneof_case ''LbConfig'' w
           (\<lambda>v. embed ''OriginalDstLbConfig'' Cluster_OriginalDstLbConfig_validate v)
       | Some (Cluster_LeastRequestLbConfig_case w) \<Rightarrow> oneof_case ''LbConfig'' w
           (\<lambda>v. embed ''LeastRequestLbConfig'' Cluster_LeastRequestLbConfig_validate v)
       | Some (Cluster_RoundRobinLbConfig_case w) \<Rightarrow> oneof_case ''LbConfig'' w
           (\<lambda>v. embed ''RoundRobinLbConfig'' Cluster_RoundRobinLbConfig_validate v))])"

end
