(* ===== verification/SecretValidation.thy ===== *)
theory SecretValidation
  imports TypeValidation ConfigValidation
begin

text \<open>
  Validation of secrets (\<open>envoy/extensions/transport_sockets/tls/v3\<close>): TLS parameters, certificates, up
  to \<open>Secret\<close>; and of the runtime layers (\<open>envoy/service/runtime/v3\<close>).
\<close>

record TlsParameters =
  TlsParameters_TlsMinimumProtocolVersion :: "32 word"
  TlsParameters_TlsMaximumProtocolVersion :: "32 word"
  TlsParameters_CipherSuites :: "string list"
  TlsParameters_EcdhCurves :: "string list"
  TlsParameters_SignatureAlgorithms :: "string list"
  TlsParameters_CompliancePolicies :: "32 word list"

definition TlsParameters_TlsProtocol_name :: "(32 word, string) gomap" where
  "TlsParameters_TlsProtocol_name = [(0, ''TLS_AUTO''), (1, ''TLSv1_0''), (2, ''TLSv1_1''),
      (3, ''TLSv1_2''), (4, ''TLSv1_3'')]"

definition TlsParameters_validate :: "TlsParameters validator" where
  "TlsParameters_validate = validate ''TlsParameters'' (\<lambda>m. [
     check (mget TlsParameters_TlsProtocol_name (TlsParameters_TlsMinimumProtocolVersion m) = None)
         ''TlsMinimumProtocolVersion'' ''value must be one of the defined enum values'',
     check (mget TlsParameters_TlsProtocol_name (TlsParameters_TlsMaximumProtocolVersion m) = None)
         ''TlsMaximumProtocolVersion'' ''value must be one of the defined enum values'',
     check (length (TlsParameters_CompliancePolicies m) > 1) ''CompliancePolicies''
         ''value must contain no more than 1 item(s)''])"

datatype oneof_PrivateKeyProvider_ConfigType =
    PrivateKeyProvider_TypedConfig "(bytes option) option"

record PrivateKeyProvider =
  PrivateKeyProvider_ProviderName :: "string"
  PrivateKeyProvider_ConfigType :: "oneof_PrivateKeyProvider_ConfigType option"
  PrivateKeyProvider_Fallback :: "bool"

definition PrivateKeyProvider_validate :: "PrivateKeyProvider validator" where
  "PrivateKeyProvider_validate = validate ''PrivateKeyProvider'' (\<lambda>m. [
     check (RuneCountInString (PrivateKeyProvider_ProviderName m) < 1) ''ProviderName''
         ''value length must be at least 1 runes'',
     (case PrivateKeyProvider_ConfigType m of
         None \<Rightarrow> skip
       | Some (PrivateKeyProvider_TypedConfig w) \<Rightarrow> oneof_case ''ConfigType'' w
           (\<lambda>v. skip))])"

record TlsCertificate =
  TlsCertificate_CertificateChain :: "DataSource option"
  TlsCertificate_PrivateKey :: "DataSource option"
  TlsCertificate_Pkcs12 :: "DataSource option"
  TlsCertificate_WatchedDirectory :: "WatchedDirectory option"
  TlsCertificate_PrivateKeyProvider :: "PrivateKeyProvider option"
  TlsCertificate_Password :: "DataSource option"
  TlsCertificate_OcspStaple :: "DataSource option"
  TlsCertificate_SignedCertificateTimestamp :: "DataSource option list"

definition TlsCertificate_validate :: "TlsCertificate validator" where
  "TlsCertificate_validate = validate ''TlsCertificate'' (\<lambda>m. [
     embed ''CertificateChain'' DataSource_validate (TlsCertificate_CertificateChain m),
     embed ''PrivateKey'' DataSource_validate (TlsCertificate_PrivateKey m),
     embed ''Pkcs12'' DataSource_validate (TlsCertificate_Pkcs12 m),
     embed ''WatchedDirectory'' WatchedDirectory_validate (TlsCertificate_WatchedDirectory m),
     embed ''PrivateKeyProvider'' PrivateKeyProvider_validate (TlsCertificate_PrivateKeyProvider m),
     embed ''Password'' DataSource_validate (TlsCertificate_Password m),
     embed ''OcspStaple'' DataSource_validate (TlsCertificate_OcspStaple m),
     each (\<lambda>i x. embed (index_field ''SignedCertificateTimestamp'' i) DataSource_validate x)
         (TlsCertificate_SignedCertificateTimestamp m)])"

record TlsSessionTicketKeys =
  TlsSessionTicketKeys_Keys :: "DataSource option list"

definition TlsSessionTicketKeys_validate :: "TlsSessionTicketKeys validator" where
  "TlsSessionTicketKeys_validate = validate ''TlsSessionTicketKeys'' (\<lambda>m. [
     check (length (TlsSessionTicketKeys_Keys m) < 1) ''Keys''
         ''value must contain at least 1 item(s)'',
     each (\<lambda>i x. embed (index_field ''Keys'' i) DataSource_validate x)
         (TlsSessionTicketKeys_Keys m)])"

record CertificateProviderPluginInstance =
  CertificateProviderPluginInstance_InstanceName :: "string"
  CertificateProviderPluginInstance_CertificateName :: "string"

definition CertificateProviderPluginInstance_validate ::
    "CertificateProviderPluginInstance validator" where
  "CertificateProviderPluginInstance_validate =
     validate ''CertificateProviderPluginInstance'' (\<lambda>m. [
     check (RuneCountInString (CertificateProviderPluginInstance_InstanceName m) < 1)
         ''InstanceName''
         ''value length must be at least 1 runes''])"

record SubjectAltNameMatcher =
  SubjectAltNameMatcher_SanType :: "32 word"
  SubjectAltNameMatcher_Matcher :: "StringMatcher option"
  SubjectAltNameMatcher_Oid :: "string"

definition SubjectAltNameMatcher_SanType_NotInLookup :: "32 word list" where
  "SubjectAltNameMatcher_SanType_NotInLookup = [0]"

definition SubjectAltNameMatcher_SanType_name :: "(32 word, string) gomap" where
  "SubjectAltNameMatcher_SanType_name = [(0, ''SAN_TYPE_UNSPECIFIED''), (1, ''EMAIL''),
      (2, ''DNS''), (3, ''URI''), (4,
      ''IP_ADDRESS''), (5, ''OTHER_NAME'')]"

definition SubjectAltNameMatcher_validate ::
    "vlib \<Rightarrow> SubjectAltNameMatcher validator" where
  "SubjectAltNameMatcher_validate V = validate ''SubjectAltNameMatcher'' (\<lambda>m. [
     check (SubjectAltNameMatcher_SanType m \<in> set SubjectAltNameMatcher_SanType_NotInLookup)
         ''SanType'' ''value must not be in list [SAN_TYPE_UNSPECIFIED]'',
     check (mget SubjectAltNameMatcher_SanType_name (SubjectAltNameMatcher_SanType m) = None)
         ''SanType'' ''value must be one of the defined enum values'',
     check (SubjectAltNameMatcher_Matcher m = None) ''Matcher'' ''value is required'',
     embed ''Matcher'' (StringMatcher_validate V) (SubjectAltNameMatcher_Matcher m)])"

datatype CertificateValidationContext_SystemRootCerts =
    empty_CertificateValidationContext_SystemRootCerts

definition CertificateValidationContext_SystemRootCerts_validate ::
    "CertificateValidationContext_SystemRootCerts validator" where
  "CertificateValidationContext_SystemRootCerts_validate =
     validate ''CertificateValidationContext_SystemRootCerts'' (\<lambda>m. [])"

record CertificateValidationContext =
  CertificateValidationContext_TrustedCa :: "DataSource option"
  CertificateValidationContext_CaCertificateProviderInstance :: "CertificateProviderPluginInstance
      option"
  CertificateValidationContext_SystemRootCerts :: "CertificateValidationContext_SystemRootCerts
      option"
  CertificateValidationContext_WatchedDirectory :: "WatchedDirectory option"
  CertificateValidationContext_VerifyCertificateSpki :: "string list"
  CertificateValidationContext_VerifyCertificateHash :: "string list"
  CertificateValidationContext_MatchTypedSubjectAltNames :: "SubjectAltNameMatcher option list"
  CertificateValidationContext_MatchSubjectAltNames :: "StringMatcher option list"
  CertificateValidationContext_RequireSignedCertificateTimestamp :: "bool option"
  CertificateValidationContext_Crl :: "DataSource option"
  CertificateValidationContext_AllowExpiredCertificate :: "bool"
  CertificateValidationContext_TrustChainVerification :: "32 word"
  CertificateValidationContext_CustomValidatorConfig :: "TypedExtensionConfig option"
  CertificateValidationContext_OnlyVerifyLeafCertCrl :: "bool"
  CertificateValidationContext_MaxVerifyDepth :: "32 word option"

definition CertificateValidationContext_TrustChainVerification_name :: "(32 word, string) gomap"
    where
  "CertificateValidationContext_TrustChainVerification_name = [(0, ''VERIFY_TRUST_CHAIN''),
      (1, ''ACCEPT_UNTRUSTED'')]"

definition CertificateValidationContext_validate ::
    "vlib \<Rightarrow> CertificateValidationContext validator" where
  "CertificateValidationContext_validate V =
     validate ''CertificateValidationContext'' (\<lambda>m. [
     embed ''TrustedCa'' DataSource_validate (CertificateValidationContext_TrustedCa m),
     embed ''CaCertificateProviderInstance'' CertificateProviderPluginInstance_validate
         (CertificateValidationContext_CaCertificateProviderInstance m),
     embed ''SystemRootCerts'' CertificateValidationContext_SystemRootCerts_validate
         (CertificateValidationContext_SystemRootCerts m),
     embed ''WatchedDirectory'' WatchedDirectory_validate
         (CertificateValidationContext_WatchedDirectory m),
     each (\<lambda>i x.
         stmts [check (RuneCountInString x < 44) (index_field ''VerifyCertificateSpki'' i)
         ''value length must be at least 44 runes'',
         check (length x > 44) (index_field ''VerifyCertificateSpki'' i)
         ''value length must be at most 44 bytes''])
             (CertificateValidationContext_VerifyCertificateSpki m),
     each (\<lambda>i x.
         stmts [check (RuneCountInString x < 64) (index_field ''VerifyCertificateHash'' i)
         ''value length must be at least 64 runes'',
         check (length x > 95) (index_field ''VerifyCertificateHash'' i)
         ''value length must be at most 95 bytes''])
             (CertificateValidationContext_VerifyCertificateHash m),
     each (\<lambda>i x.
         embed (index_field ''MatchTypedSubjectAltNames'' i) (SubjectAltNameMatcher_validate V) x)
             (CertificateValidationContext_MatchTypedSubjectAltNames m),
     each (\<lambda>i x. embed (index_field ''MatchSubjectAltNames'' i) (StringMatcher_validate V)
         x)
         (CertificateValidationContext_MatchSubjectAltNames m),
     embed ''Crl'' DataSource_validate (CertificateValidationContext_Crl m),
     check (mget CertificateValidationContext_TrustChainVerification_name
         (CertificateValidationContext_TrustChainVerification m) = None) ''TrustChainVerification''
         ''value must be one of the defined enum values'',
     embed ''CustomValidatorConfig'' TypedExtensionConfig_validate
         (CertificateValidationContext_CustomValidatorConfig m),
     (case CertificateValidationContext_MaxVerifyDepth m of None \<Rightarrow> skip
         | Some w \<Rightarrow> check (w > 100) ''MaxVerifyDepth''
         ''value must be less than or equal to 100'')])"

record GenericSecret =
  GenericSecret_Secret :: "DataSource option"
  GenericSecret_Secrets :: "(string, DataSource option) gomap"

definition GenericSecret_validate :: "GenericSecret validator" where
  "GenericSecret_validate = validate ''GenericSecret'' (\<lambda>m. [
     embed ''Secret'' DataSource_validate (GenericSecret_Secret m),
     each_key (\<lambda>k x. embed (index_field ''Secrets'' k) DataSource_validate x)
         (GenericSecret_Secrets m)])"

record SdsSecretConfig =
  SdsSecretConfig_Name :: "string"
  SdsSecretConfig_SdsConfig :: "ConfigSource option"

definition SdsSecretConfig_validate :: "vlib \<Rightarrow> SdsSecretConfig validator" where
  "SdsSecretConfig_validate V = validate ''SdsSecretConfig'' (\<lambda>m. [
     check (RuneCountInString (SdsSecretConfig_Name m) < 1) ''Name''
         ''value length must be at least 1 runes'',
     embed ''SdsConfig'' (ConfigSource_validate V) (SdsSecretConfig_SdsConfig m)])"

datatype oneof_Secret_Type =
    Secret_TlsCertificate "(TlsCertificate option) option"
  | Secret_SessionTicketKeys "(TlsSessionTicketKeys option) option"
  | Secret_ValidationContext "(CertificateValidationContext option) option"
  | Secret_GenericSecret "(GenericSecret option) option"

record Secret =
  Secret_Name :: "string"
  Secret_Type :: "oneof_Secret_Type option"

definition Secret_validate :: "vlib \<Rightarrow> Secret validator" where
  "Secret_validate V = validate ''Secret'' (\<lambda>m. [
     (case Secret_Type m of
         None \<Rightarrow> skip
       | Some (Secret_TlsCertificate w) \<Rightarrow> oneof_case ''Type'' w (\<lambda>v.
           embed ''TlsCertificate'' TlsCertificate_validate v)
       | Some (Secret_SessionTicketKeys w) \<Rightarrow> oneof_case ''Type'' w (\<lambda>v.
           embed ''SessionTicketKeys'' TlsSessionTicketKeys_validate v)
       | Some (Secret_ValidationContext w) \<Rightarrow> oneof_case ''Type'' w (\<lambda>v.
           embed ''ValidationContext'' (CertificateValidationContext_validate V) v)
       | Some (Secret_GenericSecret w) \<Rightarrow> oneof_case ''Type'' w (\<lambda>v.
           embed ''GenericSecret'' GenericSecret_validate v))])"

datatype RtdsDummy = empty_RtdsDummy

definition RtdsDummy_validate :: "RtdsDummy validator" where
  "RtdsDummy_validate = validate ''RtdsDummy'' (\<lambda>m. [])"

record Runtime =
  Runtime_Name :: "string"
  Runtime_Layer :: "bytes option"

definition Runtime_validate :: "Runtime validator" where
  "Runtime_validate = validate ''Runtime'' (\<lambda>m. [
     check (RuneCountInString (Runtime_Name m) < 1) ''Name''
         ''value length must be at least 1 runes''])"

end
