(* ===== verification/ClusterLaws.thy ===== *)
theory ClusterLaws
  imports ValidationLaws ClusterValidation SecretValidation
begin

text \<open>
  The two modes of the validation functions of clusters and secrets agree.
\<close>

lemma lawful_cluster_1 [lawful_intros]:
  "lawful MetadataKey_PathSegment_validate"
  "vlib_lawful V \<Longrightarrow> lawful (EventServiceConfig_validate V)"
  "lawful SchemeHeaderTransformation_validate" "lawful HealthCheck_Payload_validate"
  "lawful HealthCheck_CustomHealthCheck_validate" "lawful PrivateKeyProvider_validate"
  "lawful Int64Range_validate" "lawful Int32Range_validate" "lawful DoubleRange_validate"
  "lawful RegexMatcher_GoogleRE2_validate"
  unfolding MetadataKey_PathSegment_validate_def EventServiceConfig_validate_def
    SchemeHeaderTransformation_validate_def HealthCheck_Payload_validate_def
    HealthCheck_CustomHealthCheck_validate_def PrivateKeyProvider_validate_def
    Int64Range_validate_def Int32Range_validate_def DoubleRange_validate_def
    RegexMatcher_GoogleRE2_validate_def
  by (auto intro!: lawful_intros split:
    oneof_MetadataKey_PathSegment_Segment.split oneof_EventServiceConfig_ConfigSourceSpecifier.split
    oneof_SchemeHeaderTransformation_Transformation.split oneof_HealthCheck_Payload_Payload.split
    oneof_HealthCheck_CustomHealthCheck_ConfigType.split oneof_PrivateKeyProvider_ConfigType.split)

lemma lawful_cluster_2 [lawful_intros]:
  "lawful MetadataKind_Request_validate" "lawful MetadataKind_Route_validate"
  "lawful MetadataKind_Cluster_validate" "lawful MetadataKind_Host_validate"
  "lawful ProxyProtocolPassThroughTLVs_validate" "lawful TlvEntry_validate"
  "lawful DnsResolverOptions_validate" "lawful TcpProtocolOptions_validate"
  "vlib_lawful V \<Longrightarrow> lawful (QuicKeepAliveSettings_validate V)"
  "lawful UpstreamHttpProtocolOptions_validate"
  unfolding MetadataKind_Request_validate_def MetadataKind_Route_validate_def
    MetadataKind_Cluster_validate_def MetadataKind_Host_validate_def
    ProxyProtocolPassThroughTLVs_validate_def TlvEntry_validate_def DnsResolverOptions_validate_def
    TcpProtocolOptions_validate_def QuicKeepAliveSettings_validate_def
    UpstreamHttpProtocolOptions_validate_def
  by (auto intro!: lawful_intros)

lemma lawful_cluster_3 [lawful_intros]:
  "lawful HttpProtocolOptions_validate"
  "vlib_lawful V \<Longrightarrow> lawful (KeepaliveSettings_validate V)"
  "lawful AlternateProtocolsCacheOptions_AlternateProtocolsCacheEntry_validate"
  "lawful Http1ProtocolOptions_HeaderKeyFormat_ProperCaseWords_validate"
  "lawful Http2ProtocolOptions_SettingsParameter_validate" "lawful HealthStatusSet_validate"
  "lawful HealthCheck_RedisHealthCheck_validate" "lawful HealthCheck_GrpcHealthCheck_validate"
  "lawful HealthCheck_TlsOptions_validate" "lawful CircuitBreakers_Thresholds_RetryBudget_validate"
  unfolding HttpProtocolOptions_validate_def KeepaliveSettings_validate_def
    AlternateProtocolsCacheOptions_AlternateProtocolsCacheEntry_validate_def
    Http1ProtocolOptions_HeaderKeyFormat_ProperCaseWords_validate_def
    Http2ProtocolOptions_SettingsParameter_validate_def HealthStatusSet_validate_def
    HealthCheck_RedisHealthCheck_validate_def HealthCheck_GrpcHealthCheck_validate_def
    HealthCheck_TlsOptions_validate_def CircuitBreakers_Thresholds_RetryBudget_validate_def
  by (auto intro!: lawful_intros)

lemma lawful_cluster_4 [lawful_intros]:
  "lawful FilterMsg_validate" "vlib_lawful V \<Longrightarrow> lawful (OutlierDetection_validate V)"
  "vlib_lawful V \<Longrightarrow> lawful (ClusterCollection_validate V)"
  "lawful TrackClusterStats_validate" "lawful Cluster_TransportSocketMatch_validate"
  "lawful Cluster_CustomClusterType_validate"
  "vlib_lawful V \<Longrightarrow> lawful (Cluster_EdsClusterConfig_validate V)"
  "lawful Cluster_SlowStartConfig_validate" "lawful Cluster_RingHashLbConfig_validate"
  "lawful Cluster_MaglevLbConfig_validate"
  unfolding FilterMsg_validate_def OutlierDetection_validate_def ClusterCollection_validate_def
    TrackClusterStats_validate_def Cluster_TransportSocketMatch_validate_def
    Cluster_CustomClusterType_validate_def Cluster_EdsClusterConfig_validate_def
    Cluster_SlowStartConfig_validate_def Cluster_RingHashLbConfig_validate_def
    Cluster_MaglevLbConfig_validate_def
  by (auto intro!: lawful_intros)

lemma lawful_cluster_5 [lawful_intros]:
  "vlib_lawful V \<Longrightarrow> lawful (Cluster_RefreshRate_validate V)"
  "lawful Cluster_PreconnectPolicy_validate"
  "lawful Cluster_LbSubsetConfig_LbSubsetSelector_validate"
  "lawful Cluster_CommonLbConfig_ZoneAwareLbConfig_validate"
  "lawful Cluster_CommonLbConfig_LocalityWeightedLbConfig_validate"
  "lawful Cluster_CommonLbConfig_ConsistentHashingLbConfig_validate"
  "lawful LoadBalancingPolicy_Policy_validate"
  "lawful UpstreamConnectionOptions_HappyEyeballsConfig_validate" "lawful TlsParameters_validate"
  "lawful TlsSessionTicketKeys_validate"
  unfolding Cluster_RefreshRate_validate_def Cluster_PreconnectPolicy_validate_def
    Cluster_LbSubsetConfig_LbSubsetSelector_validate_def
    Cluster_CommonLbConfig_ZoneAwareLbConfig_validate_def
    Cluster_CommonLbConfig_LocalityWeightedLbConfig_validate_def
    Cluster_CommonLbConfig_ConsistentHashingLbConfig_validate_def
    LoadBalancingPolicy_Policy_validate_def
    UpstreamConnectionOptions_HappyEyeballsConfig_validate_def TlsParameters_validate_def
    TlsSessionTicketKeys_validate_def
  by (auto intro!: lawful_intros)

lemma lawful_cluster_6 [lawful_intros]:
  "lawful CertificateProviderPluginInstance_validate"
  "lawful CertificateValidationContext_SystemRootCerts_validate" "lawful GenericSecret_validate"
  "vlib_lawful V \<Longrightarrow> lawful (SdsSecretConfig_validate V)" "lawful RtdsDummy_validate"
  "lawful Runtime_validate"
  unfolding CertificateProviderPluginInstance_validate_def
    CertificateValidationContext_SystemRootCerts_validate_def GenericSecret_validate_def
    SdsSecretConfig_validate_def RtdsDummy_validate_def Runtime_validate_def
  by (auto intro!: lawful_intros)

lemma lawful_cluster_7 [lawful_intros]:
  "lawful RegexMatcher_validate" "lawful MetadataKind_validate"
  "lawful Http1ProtocolOptions_HeaderKeyFormat_validate" "lawful Cluster_CommonLbConfig_validate"
  "lawful MetadataKey_validate" "lawful ProxyProtocolConfig_validate"
  "lawful PerHostConfig_validate" "lawful DnsResolutionConfig_validate"
  "vlib_lawful V \<Longrightarrow> lawful (QuicProtocolOptions_validate V)"
  "lawful AlternateProtocolsCacheOptions_validate"
  unfolding RegexMatcher_validate_def MetadataKind_validate_def
    Http1ProtocolOptions_HeaderKeyFormat_validate_def Cluster_CommonLbConfig_validate_def
    MetadataKey_validate_def ProxyProtocolConfig_validate_def PerHostConfig_validate_def
    DnsResolutionConfig_validate_def QuicProtocolOptions_validate_def
    AlternateProtocolsCacheOptions_validate_def
  by (auto intro!: lawful_intros split:
    oneof_RegexMatcher_EngineType.split oneof_MetadataKind_Kind.split
    oneof_Http1ProtocolOptions_HeaderKeyFormat_HeaderFormat.split
    oneof_Cluster_CommonLbConfig_LocalityConfigSpecifier.split)

lemma lawful_cluster_8 [lawful_intros]:
  "vlib_lawful V \<Longrightarrow> lawful (Http2ProtocolOptions_validate V)"
  "lawful CircuitBreakers_Thresholds_validate" "lawful LoadBalancingPolicy_validate"
  "lawful UpstreamConnectionOptions_validate" "lawful Cluster_LbSubsetConfig_validate"
  "lawful Cluster_RoundRobinLbConfig_validate" "lawful Cluster_LeastRequestLbConfig_validate"
  "lawful TlsCertificate_validate"
  unfolding Http2ProtocolOptions_validate_def CircuitBreakers_Thresholds_validate_def
    LoadBalancingPolicy_validate_def UpstreamConnectionOptions_validate_def
    Cluster_LbSubsetConfig_validate_def Cluster_RoundRobinLbConfig_validate_def
    Cluster_LeastRequestLbConfig_validate_def TlsCertificate_validate_def
  by (auto intro!: lawful_intros)

lemma lawful_cluster_9 [lawful_intros]:
  "vlib_lawful V \<Longrightarrow> lawful (StringMatcher_validate V)"
  "lawful RegexMatchAndSubstitute_validate"
  "vlib_lawful V \<Longrightarrow> lawful (GrpcProtocolOptions_validate V)"
  "vlib_lawful V \<Longrightarrow> lawful (Http3ProtocolOptions_validate V)"
  "lawful HealthCheck_TcpHealthCheck_validate" "lawful CircuitBreakers_validate"
  "lawful Cluster_OriginalDstLbConfig_validate"
  unfolding StringMatcher_validate_def RegexMatchAndSubstitute_validate_def GrpcProtocolOptions_validate_def
    Http3ProtocolOptions_validate_def HealthCheck_TcpHealthCheck_validate_def
    CircuitBreakers_validate_def Cluster_OriginalDstLbConfig_validate_def
  by (auto intro!: lawful_intros split:
    oneof_StringMatcher_MatchPattern.split)

lemma lawful_cluster_10 [lawful_intros]:
  "vlib_lawful V \<Longrightarrow> lawful (ListStringMatcher_validate V)"
  "vlib_lawful V \<Longrightarrow> lawful (Http1ProtocolOptions_validate V)"
  "vlib_lawful V \<Longrightarrow> lawful (HealthCheck_HttpHealthCheck_validate V)"
  "vlib_lawful V \<Longrightarrow> lawful (SubjectAltNameMatcher_validate V)"
  unfolding ListStringMatcher_validate_def Http1ProtocolOptions_validate_def
    HealthCheck_HttpHealthCheck_validate_def SubjectAltNameMatcher_validate_def
  by (auto intro!: lawful_intros)

lemma lawful_cluster_11 [lawful_intros]:
  "vlib_lawful V \<Longrightarrow> lawful (HealthCheck_validate V)"
  "vlib_lawful V \<Longrightarrow> lawful (CertificateValidationContext_validate V)"
  unfolding HealthCheck_validate_def CertificateValidationContext_validate_def
  by (auto intro!: lawful_intros split:
    oneof_HealthCheck_HealthChecker.split)

lemma lawful_cluster_12 [lawful_intros]:
  "vlib_lawful V \<Longrightarrow> lawful (Cluster_validate V)"
  "vlib_lawful V \<Longrightarrow> lawful (Secret_validate V)"
  unfolding Cluster_validate_def Secret_validate_def
  by (auto intro!: lawful_intros split:
    oneof_Cluster_ClusterDiscoveryType.split oneof_Cluster_LbConfig.split oneof_Secret_Type.split)

end
