(* ===== verification/MatcherValidation.thy ===== *)
theory MatcherValidation
  imports TypeValidation CoreValidation
begin

text \<open>
  Validation of the matchers of \<open>envoy/type/matcher/v3\<close> that routes and access logs use, and of custom
  tags.  A value matcher is a recursive message.
\<close>

datatype oneof_DoubleMatcher_MatchPattern =
    DoubleMatcher_Range "(DoubleRange option) option"
  | DoubleMatcher_Exact "float64 option"

record DoubleMatcher =
  DoubleMatcher_MatchPattern :: "oneof_DoubleMatcher_MatchPattern option"

definition DoubleMatcher_validate :: "DoubleMatcher validator" where
  "DoubleMatcher_validate = validate ''DoubleMatcher'' (\<lambda>m. [
     (case DoubleMatcher_MatchPattern m of
         None \<Rightarrow> skip
       | Some (DoubleMatcher_Range w) \<Rightarrow> oneof_case ''MatchPattern'' w (\<lambda>v.
           embed ''Range'' DoubleRange_validate v)
       | Some (DoubleMatcher_Exact w) \<Rightarrow> oneof_unread ''MatchPattern'' w),
     check (DoubleMatcher_MatchPattern m = None) ''MatchPattern'' ''value is required''])"

datatype ValueMatcher_NullMatch = empty_ValueMatcher_NullMatch

definition ValueMatcher_NullMatch_validate :: "ValueMatcher_NullMatch validator" where
  "ValueMatcher_NullMatch_validate = validate ''ValueMatcher_NullMatch'' (\<lambda>m. [])"

datatype oneof_ValueMatcher_MatchPattern =
    ValueMatcher_NullMatch_case "(ValueMatcher_NullMatch option) option"
  | ValueMatcher_DoubleMatch "(DoubleMatcher option) option"
  | ValueMatcher_StringMatch "(StringMatcher option) option"
  | ValueMatcher_BoolMatch "bool option"
  | ValueMatcher_PresentMatch "bool option"
  | ValueMatcher_ListMatch "(ListMatcher option) option"
  | ValueMatcher_OrMatch "(OrMatcher option) option"
and ValueMatcher =
    ValueMatcher
      (ValueMatcher_MatchPattern: "oneof_ValueMatcher_MatchPattern option")
and ListMatcher =
    ListMatcher
      (ListMatcher_MatchPattern: "oneof_ListMatcher_MatchPattern option")
and oneof_ListMatcher_MatchPattern =
    ListMatcher_OneOf "(ValueMatcher option) option"
and OrMatcher =
    OrMatcher
      (OrMatcher_ValueMatchers: "ValueMatcher option list")

function ValueMatcher_validate :: "vlib \<Rightarrow> ValueMatcher validator"
  and ListMatcher_validate :: "vlib \<Rightarrow> ListMatcher validator"
  and OrMatcher_validate :: "vlib \<Rightarrow> OrMatcher validator" where
  "ValueMatcher_validate V all m = validate ''ValueMatcher'' (\<lambda>m. [
     (case ValueMatcher_MatchPattern m of
         None \<Rightarrow> skip
       | Some (ValueMatcher_NullMatch_case w) \<Rightarrow> oneof_case ''MatchPattern'' w
           (\<lambda>v. embed ''NullMatch'' ValueMatcher_NullMatch_validate v)
       | Some (ValueMatcher_DoubleMatch w) \<Rightarrow> oneof_case ''MatchPattern'' w
           (\<lambda>v. embed ''DoubleMatch'' DoubleMatcher_validate v)
       | Some (ValueMatcher_StringMatch w) \<Rightarrow> oneof_case ''MatchPattern'' w
           (\<lambda>v. embed ''StringMatch'' (StringMatcher_validate V) v)
       | Some (ValueMatcher_BoolMatch w) \<Rightarrow> oneof_unread ''MatchPattern'' w
       | Some (ValueMatcher_PresentMatch w) \<Rightarrow> oneof_unread ''MatchPattern'' w
       | Some (ValueMatcher_ListMatch w) \<Rightarrow> oneof_case ''MatchPattern'' w (\<lambda>v.
           embed ''ListMatch'' (ListMatcher_validate V) v)
       | Some (ValueMatcher_OrMatch w) \<Rightarrow> oneof_case ''MatchPattern'' w (\<lambda>v.
           embed ''OrMatch'' (OrMatcher_validate V) v)),
     check (ValueMatcher_MatchPattern m = None) ''MatchPattern'' ''value is required'']) all m"
| "ListMatcher_validate V all m = validate ''ListMatcher'' (\<lambda>m. [
     (case ListMatcher_MatchPattern m of
         None \<Rightarrow> skip
       | Some (ListMatcher_OneOf w) \<Rightarrow> oneof_case ''MatchPattern'' w (\<lambda>v.
           embed ''OneOf'' (ValueMatcher_validate V) v)),
     check (ListMatcher_MatchPattern m = None) ''MatchPattern'' ''value is required'']) all m"
| "OrMatcher_validate V all m = validate ''OrMatcher'' (\<lambda>m. [
     check (length (OrMatcher_ValueMatchers m) < 2) ''ValueMatchers''
         ''value must contain at least 2 item(s)'',
     each (\<lambda>i x. embed (index_field ''ValueMatchers'' i) (ValueMatcher_validate V) x)
         (OrMatcher_ValueMatchers m)]) all m"
  by pat_completeness auto

termination
  by (relation "measure (case_sum (\<lambda>(V, all, m). size_option size m)
      (case_sum (\<lambda>(V, all, m). size_option size m)
      (\<lambda>(V, all, m). size_option size m)))")
    (simp, (case_tac x; auto dest: size_in_list)+)

declare ValueMatcher_validate.simps [simp del]
declare ListMatcher_validate.simps [simp del]
declare OrMatcher_validate.simps [simp del]

datatype oneof_MetadataMatcher_PathSegment_Segment =
    MetadataMatcher_PathSegment_Key "string option"

record MetadataMatcher_PathSegment =
  MetadataMatcher_PathSegment_Segment :: "oneof_MetadataMatcher_PathSegment_Segment option"

definition MetadataMatcher_PathSegment_validate :: "MetadataMatcher_PathSegment validator" where
  "MetadataMatcher_PathSegment_validate = validate ''MetadataMatcher_PathSegment'' (\<lambda>m. [
     (case MetadataMatcher_PathSegment_Segment m of
         None \<Rightarrow> skip
       | Some (MetadataMatcher_PathSegment_Key w) \<Rightarrow> oneof_case ''Segment'' w
           (\<lambda>v. check (RuneCountInString v < 1) ''Key''
           ''value length must be at least 1 runes'')),
     check (MetadataMatcher_PathSegment_Segment m = None) ''Segment'' ''value is required''])"

record MetadataMatcher =
  MetadataMatcher_Filter :: "string"
  MetadataMatcher_Path :: "MetadataMatcher_PathSegment option list"
  MetadataMatcher_Value :: "ValueMatcher option"
  MetadataMatcher_Invert :: "bool"

definition MetadataMatcher_validate :: "vlib \<Rightarrow> MetadataMatcher validator" where
  "MetadataMatcher_validate V = validate ''MetadataMatcher'' (\<lambda>m. [
     check (RuneCountInString (MetadataMatcher_Filter m) < 1) ''Filter''
         ''value length must be at least 1 runes'',
     check (length (MetadataMatcher_Path m) < 1) ''Path'' ''value must contain at least 1 item(s)'',
     each (\<lambda>i x. embed (index_field ''Path'' i) MetadataMatcher_PathSegment_validate x)
         (MetadataMatcher_Path m),
     check (MetadataMatcher_Value m = None) ''Value'' ''value is required'',
     embed ''Value'' (ValueMatcher_validate V) (MetadataMatcher_Value m)])"

record AddressMatcher =
  AddressMatcher_Ranges :: "bytes option list"

definition AddressMatcher_validate :: "vlib \<Rightarrow> AddressMatcher validator" where
  "AddressMatcher_validate V = validate ''AddressMatcher'' (\<lambda>m. [
     each (\<lambda>i x. embed (index_field ''Ranges'' i) (xds_CidrRange_validate V) x)
         (AddressMatcher_Ranges m)])"

datatype oneof_FilterStateMatcher_Matcher =
    FilterStateMatcher_StringMatch "(StringMatcher option) option"
  | FilterStateMatcher_AddressMatch "(AddressMatcher option) option"

record FilterStateMatcher =
  FilterStateMatcher_Key :: "string"
  FilterStateMatcher_Matcher :: "oneof_FilterStateMatcher_Matcher option"

definition FilterStateMatcher_validate :: "vlib \<Rightarrow> FilterStateMatcher validator" where
  "FilterStateMatcher_validate V = validate ''FilterStateMatcher'' (\<lambda>m. [
     check (RuneCountInString (FilterStateMatcher_Key m) < 1) ''Key''
         ''value length must be at least 1 runes'',
     (case FilterStateMatcher_Matcher m of
         None \<Rightarrow> skip
       | Some (FilterStateMatcher_StringMatch w) \<Rightarrow> oneof_case ''Matcher'' w
           (\<lambda>v. embed ''StringMatch'' (StringMatcher_validate V) v)
       | Some (FilterStateMatcher_AddressMatch w) \<Rightarrow> oneof_case ''Matcher'' w
           (\<lambda>v. embed ''AddressMatch'' (AddressMatcher_validate V) v)),
     check (FilterStateMatcher_Matcher m = None) ''Matcher'' ''value is required''])"

record CustomTag_Literal =
  CustomTag_Literal_Value :: "string"

definition CustomTag_Literal_validate :: "CustomTag_Literal validator" where
  "CustomTag_Literal_validate = validate ''CustomTag_Literal'' (\<lambda>m. [
     check (RuneCountInString (CustomTag_Literal_Value m) < 1) ''Value''
         ''value length must be at least 1 runes''])"

record CustomTag_Environment =
  CustomTag_Environment_Name :: "string"
  CustomTag_Environment_DefaultValue :: "string"

definition CustomTag_Environment_validate :: "CustomTag_Environment validator" where
  "CustomTag_Environment_validate = validate ''CustomTag_Environment'' (\<lambda>m. [
     check (RuneCountInString (CustomTag_Environment_Name m) < 1) ''Name''
         ''value length must be at least 1 runes''])"

record CustomTag_Header =
  CustomTag_Header_Name :: "string"
  CustomTag_Header_DefaultValue :: "string"

definition CustomTag_Header_validate :: "CustomTag_Header validator" where
  "CustomTag_Header_validate = validate ''CustomTag_Header'' (\<lambda>m. [
     check (RuneCountInString (CustomTag_Header_Name m) < 1) ''Name''
         ''value length must be at least 1 runes'',
     check (\<not> matches_no_control (CustomTag_Header_Name m)) ''Name'' no_control_reason])"

record CustomTag_Metadata =
  CustomTag_Metadata_Kind :: "MetadataKind option"
  CustomTag_Metadata_MetadataKey :: "MetadataKey option"
  CustomTag_Metadata_DefaultValue :: "string"

definition CustomTag_Metadata_validate :: "CustomTag_Metadata validator" where
  "CustomTag_Metadata_validate = validate ''CustomTag_Metadata'' (\<lambda>m. [
     embed ''Kind'' MetadataKind_validate (CustomTag_Metadata_Kind m),
     embed ''MetadataKey'' MetadataKey_validate (CustomTag_Metadata_MetadataKey m)])"

datatype oneof_CustomTag_Type =
    CustomTag_Literal_case "(CustomTag_Literal option) option"
  | CustomTag_Environment_case "(CustomTag_Environment option) option"
  | CustomTag_RequestHeader "(CustomTag_Header option) option"
  | CustomTag_Metadata_case "(CustomTag_Metadata option) option"

record CustomTag =
  CustomTag_Tag :: "string"
  CustomTag_Type :: "oneof_CustomTag_Type option"

definition CustomTag_validate :: "CustomTag validator" where
  "CustomTag_validate = validate ''CustomTag'' (\<lambda>m. [
     check (RuneCountInString (CustomTag_Tag m) < 1) ''Tag''
         ''value length must be at least 1 runes'',
     (case CustomTag_Type m of
         None \<Rightarrow> skip
       | Some (CustomTag_Literal_case w) \<Rightarrow> oneof_case ''Type'' w (\<lambda>v.
           embed ''Literal'' CustomTag_Literal_validate v)
       | Some (CustomTag_Environment_case w) \<Rightarrow> oneof_case ''Type'' w (\<lambda>v.
           embed ''Environment'' CustomTag_Environment_validate v)
       | Some (CustomTag_RequestHeader w) \<Rightarrow> oneof_case ''Type'' w (\<lambda>v.
           embed ''RequestHeader'' CustomTag_Header_validate v)
       | Some (CustomTag_Metadata_case w) \<Rightarrow> oneof_case ''Type'' w (\<lambda>v.
           embed ''Metadata'' CustomTag_Metadata_validate v)),
     check (CustomTag_Type m = None) ''Type'' ''value is required''])"

end
