(* ===== verification/RouteValidation.thy ===== *)
theory RouteValidation
  imports MatcherValidation ConfigValidation
begin

text \<open>
  Validation of route configurations (\<open>envoy/config/route/v3\<close>): virtual hosts, routes, their matches and
  actions, retry policies, rate limits, up to \<open>RouteConfiguration\<close> and
      \<open>ScopedRouteConfiguration\<close>.
\<close>

datatype RouteMatch_ConnectMatcher = empty_RouteMatch_ConnectMatcher

definition RouteMatch_ConnectMatcher_validate :: "RouteMatch_ConnectMatcher validator" where
  "RouteMatch_ConnectMatcher_validate = validate ''RouteMatch_ConnectMatcher'' (\<lambda>m. [])"

datatype oneof_HeaderMatcher_HeaderMatchSpecifier =
    HeaderMatcher_ExactMatch "string option"
  | HeaderMatcher_SafeRegexMatch "(RegexMatcher option) option"
  | HeaderMatcher_RangeMatch "(Int64Range option) option"
  | HeaderMatcher_PresentMatch "bool option"
  | HeaderMatcher_PrefixMatch "string option"
  | HeaderMatcher_SuffixMatch "string option"
  | HeaderMatcher_ContainsMatch "string option"
  | HeaderMatcher_StringMatch "(StringMatcher option) option"

record HeaderMatcher =
  HeaderMatcher_Name :: "string"
  HeaderMatcher_HeaderMatchSpecifier :: "oneof_HeaderMatcher_HeaderMatchSpecifier option"
  HeaderMatcher_InvertMatch :: "bool"
  HeaderMatcher_TreatMissingHeaderAsEmpty :: "bool"

definition HeaderMatcher_validate :: "vlib \<Rightarrow> HeaderMatcher validator" where
  "HeaderMatcher_validate V = validate ''HeaderMatcher'' (\<lambda>m. [
     check (RuneCountInString (HeaderMatcher_Name m) < 1) ''Name''
         ''value length must be at least 1 runes'',
     check (\<not> matches_no_control (HeaderMatcher_Name m)) ''Name'' no_control_reason,
     (case HeaderMatcher_HeaderMatchSpecifier m of
         None \<Rightarrow> skip
       | Some (HeaderMatcher_ExactMatch w) \<Rightarrow> oneof_unread ''HeaderMatchSpecifier'' w
       | Some (HeaderMatcher_SafeRegexMatch w) \<Rightarrow>
           oneof_case ''HeaderMatchSpecifier'' w (\<lambda>v.
           embed ''SafeRegexMatch'' RegexMatcher_validate v)
       | Some (HeaderMatcher_RangeMatch w) \<Rightarrow> oneof_case ''HeaderMatchSpecifier'' w
           (\<lambda>v. embed ''RangeMatch'' Int64Range_validate v)
       | Some (HeaderMatcher_PresentMatch w) \<Rightarrow> oneof_unread ''HeaderMatchSpecifier'' w
       | Some (HeaderMatcher_PrefixMatch w) \<Rightarrow> oneof_case ''HeaderMatchSpecifier'' w
           (\<lambda>v. check (RuneCountInString v < 1) ''PrefixMatch''
           ''value length must be at least 1 runes'')
       | Some (HeaderMatcher_SuffixMatch w) \<Rightarrow> oneof_case ''HeaderMatchSpecifier'' w
           (\<lambda>v. check (RuneCountInString v < 1) ''SuffixMatch''
           ''value length must be at least 1 runes'')
       | Some (HeaderMatcher_ContainsMatch w) \<Rightarrow> oneof_case ''HeaderMatchSpecifier'' w
           (\<lambda>v. check (RuneCountInString v < 1) ''ContainsMatch''
           ''value length must be at least 1 runes'')
       | Some (HeaderMatcher_StringMatch w) \<Rightarrow> oneof_case ''HeaderMatchSpecifier'' w
           (\<lambda>v. embed ''StringMatch'' (StringMatcher_validate V) v))])"

datatype oneof_QueryParameterMatcher_QueryParameterMatchSpecifier =
    QueryParameterMatcher_StringMatch "(StringMatcher option) option"
  | QueryParameterMatcher_PresentMatch "bool option"

record QueryParameterMatcher =
  QueryParameterMatcher_Name :: "string"
  QueryParameterMatcher_QueryParameterMatchSpecifier ::
      "oneof_QueryParameterMatcher_QueryParameterMatchSpecifier option"

definition QueryParameterMatcher_validate ::
    "vlib \<Rightarrow> QueryParameterMatcher validator" where
  "QueryParameterMatcher_validate V = validate ''QueryParameterMatcher'' (\<lambda>m. [
     check (RuneCountInString (QueryParameterMatcher_Name m) < 1) ''Name''
         ''value length must be at least 1 runes'',
     check (length (QueryParameterMatcher_Name m) > 1024) ''Name''
         ''value length must be at most 1024 bytes'',
     (case QueryParameterMatcher_QueryParameterMatchSpecifier m of
         None \<Rightarrow> skip
       | Some (QueryParameterMatcher_StringMatch w) \<Rightarrow>
           oneof_case ''QueryParameterMatchSpecifier'' w (\<lambda>v. stmts [check (v = None)
           ''StringMatch'' ''value is required'', embed ''StringMatch''
           (StringMatcher_validate V) v])
       | Some (QueryParameterMatcher_PresentMatch w) \<Rightarrow> oneof_unread
           ''QueryParameterMatchSpecifier'' w)])"

datatype RouteMatch_GrpcRouteMatchOptions = empty_RouteMatch_GrpcRouteMatchOptions

definition RouteMatch_GrpcRouteMatchOptions_validate ::
    "RouteMatch_GrpcRouteMatchOptions validator" where
  "RouteMatch_GrpcRouteMatchOptions_validate =
     validate ''RouteMatch_GrpcRouteMatchOptions'' (\<lambda>m. [])"

record RouteMatch_TlsContextMatchOptions =
  RouteMatch_TlsContextMatchOptions_Presented :: "bool option"
  RouteMatch_TlsContextMatchOptions_Validated :: "bool option"

definition RouteMatch_TlsContextMatchOptions_validate ::
    "RouteMatch_TlsContextMatchOptions validator" where
  "RouteMatch_TlsContextMatchOptions_validate =
     validate ''RouteMatch_TlsContextMatchOptions'' (\<lambda>m. [])"

datatype oneof_RouteMatch_PathSpecifier =
    RouteMatch_Prefix "string option"
  | RouteMatch_Path "string option"
  | RouteMatch_SafeRegex "(RegexMatcher option) option"
  | RouteMatch_ConnectMatcher_case "(RouteMatch_ConnectMatcher option) option"
  | RouteMatch_PathSeparatedPrefix "string option"
  | RouteMatch_PathMatchPolicy "(TypedExtensionConfig option) option"

record RouteMatch =
  RouteMatch_PathSpecifier :: "oneof_RouteMatch_PathSpecifier option"
  RouteMatch_CaseSensitive :: "bool option"
  RouteMatch_RuntimeFraction :: "RuntimeFractionalPercent option"
  RouteMatch_Headers :: "HeaderMatcher option list"
  RouteMatch_QueryParameters :: "QueryParameterMatcher option list"
  RouteMatch_Grpc :: "RouteMatch_GrpcRouteMatchOptions option"
  RouteMatch_TlsContext :: "RouteMatch_TlsContextMatchOptions option"
  RouteMatch_DynamicMetadata :: "MetadataMatcher option list"
  RouteMatch_FilterState :: "FilterStateMatcher option list"

definition RouteMatch_validate :: "vlib \<Rightarrow> RouteMatch validator" where
  "RouteMatch_validate V = validate ''RouteMatch'' (\<lambda>m. [
     embed ''RuntimeFraction'' RuntimeFractionalPercent_validate (RouteMatch_RuntimeFraction m),
     each (\<lambda>i x. embed (index_field ''Headers'' i) (HeaderMatcher_validate V) x)
         (RouteMatch_Headers m),
     each (\<lambda>i x.
         embed (index_field ''QueryParameters'' i) (QueryParameterMatcher_validate V) x)
         (RouteMatch_QueryParameters m),
     embed ''Grpc'' RouteMatch_GrpcRouteMatchOptions_validate (RouteMatch_Grpc m),
     embed ''TlsContext'' RouteMatch_TlsContextMatchOptions_validate (RouteMatch_TlsContext m),
     each (\<lambda>i x. embed (index_field ''DynamicMetadata'' i) (MetadataMatcher_validate V) x)
         (RouteMatch_DynamicMetadata m),
     each (\<lambda>i x. embed (index_field ''FilterState'' i) (FilterStateMatcher_validate V) x)
         (RouteMatch_FilterState m),
     (case RouteMatch_PathSpecifier m of
         None \<Rightarrow> skip
       | Some (RouteMatch_Prefix w) \<Rightarrow> oneof_unread ''PathSpecifier'' w
       | Some (RouteMatch_Path w) \<Rightarrow> oneof_unread ''PathSpecifier'' w
       | Some (RouteMatch_SafeRegex w) \<Rightarrow> oneof_case ''PathSpecifier'' w (\<lambda>v.
           stmts [check (v = None) ''SafeRegex'' ''value is required'',
           embed ''SafeRegex'' RegexMatcher_validate v])
       | Some (RouteMatch_ConnectMatcher_case w) \<Rightarrow> oneof_case ''PathSpecifier'' w
           (\<lambda>v. embed ''ConnectMatcher'' RouteMatch_ConnectMatcher_validate v)
       | Some (RouteMatch_PathSeparatedPrefix w) \<Rightarrow> oneof_case ''PathSpecifier'' w
           (\<lambda>v. check (\<not> matches_separated_path v)
           ''PathSeparatedPrefix'' separated_path_reason)
       | Some (RouteMatch_PathMatchPolicy w) \<Rightarrow> oneof_case ''PathSpecifier'' w
           (\<lambda>v. embed ''PathMatchPolicy'' TypedExtensionConfig_validate v)),
     check (RouteMatch_PathSpecifier m = None) ''PathSpecifier'' ''value is required''])"

datatype oneof_WeightedCluster_ClusterWeight_HostRewriteSpecifier =
    WeightedCluster_ClusterWeight_HostRewriteLiteral "string option"

record WeightedCluster_ClusterWeight =
  WeightedCluster_ClusterWeight_Name :: "string"
  WeightedCluster_ClusterWeight_ClusterHeader :: "string"
  WeightedCluster_ClusterWeight_Weight :: "32 word option"
  WeightedCluster_ClusterWeight_MetadataMatch :: "Metadata option"
  WeightedCluster_ClusterWeight_RequestHeadersToAdd :: "HeaderValueOption option list"
  WeightedCluster_ClusterWeight_RequestHeadersToRemove :: "string list"
  WeightedCluster_ClusterWeight_ResponseHeadersToAdd :: "HeaderValueOption option list"
  WeightedCluster_ClusterWeight_ResponseHeadersToRemove :: "string list"
  WeightedCluster_ClusterWeight_TypedPerFilterConfig :: "(string, bytes option) gomap"
  WeightedCluster_ClusterWeight_HostRewriteSpecifier ::
      "oneof_WeightedCluster_ClusterWeight_HostRewriteSpecifier option"

definition WeightedCluster_ClusterWeight_validate :: "WeightedCluster_ClusterWeight validator" where
  "WeightedCluster_ClusterWeight_validate =
     validate ''WeightedCluster_ClusterWeight'' (\<lambda>m. [
     check (\<not> matches_no_control (WeightedCluster_ClusterWeight_ClusterHeader m))
         ''ClusterHeader'' no_control_reason,
     embed ''MetadataMatch'' Metadata_validate (WeightedCluster_ClusterWeight_MetadataMatch m),
     check (length (WeightedCluster_ClusterWeight_RequestHeadersToAdd m) > 1000)
         ''RequestHeadersToAdd'' ''value must contain no more than 1000 item(s)'',
     each (\<lambda>i x. embed (index_field ''RequestHeadersToAdd'' i) HeaderValueOption_validate x)
         (WeightedCluster_ClusterWeight_RequestHeadersToAdd m),
     each (\<lambda>i x. check (\<not> matches_no_control x)
         (index_field ''RequestHeadersToRemove'' i) no_control_reason)
             (WeightedCluster_ClusterWeight_RequestHeadersToRemove m),
     check (length (WeightedCluster_ClusterWeight_ResponseHeadersToAdd m) > 1000)
         ''ResponseHeadersToAdd'' ''value must contain no more than 1000 item(s)'',
     each (\<lambda>i x. embed (index_field ''ResponseHeadersToAdd'' i) HeaderValueOption_validate
         x)
         (WeightedCluster_ClusterWeight_ResponseHeadersToAdd m),
     each (\<lambda>i x. check (\<not> matches_no_control x)
         (index_field ''ResponseHeadersToRemove'' i) no_control_reason)
             (WeightedCluster_ClusterWeight_ResponseHeadersToRemove m),
     (case WeightedCluster_ClusterWeight_HostRewriteSpecifier m of
         None \<Rightarrow> skip
       | Some (WeightedCluster_ClusterWeight_HostRewriteLiteral w) \<Rightarrow>
           oneof_case ''HostRewriteSpecifier'' w (\<lambda>v. check (\<not> matches_no_control v)
           ''HostRewriteLiteral'' no_control_reason))])"

datatype oneof_WeightedCluster_RandomValueSpecifier =
    WeightedCluster_HeaderName "string option"

record WeightedCluster =
  WeightedCluster_Clusters :: "WeightedCluster_ClusterWeight option list"
  WeightedCluster_TotalWeight :: "32 word option"
  WeightedCluster_RuntimeKeyPrefix :: "string"
  WeightedCluster_RandomValueSpecifier :: "oneof_WeightedCluster_RandomValueSpecifier option"

definition WeightedCluster_validate :: "WeightedCluster validator" where
  "WeightedCluster_validate = validate ''WeightedCluster'' (\<lambda>m. [
     check (length (WeightedCluster_Clusters m) < 1) ''Clusters''
         ''value must contain at least 1 item(s)'',
     each (\<lambda>i x. embed (index_field ''Clusters'' i) WeightedCluster_ClusterWeight_validate
         x)
         (WeightedCluster_Clusters m),
     (case WeightedCluster_RandomValueSpecifier m of
         None \<Rightarrow> skip
       | Some (WeightedCluster_HeaderName w) \<Rightarrow> oneof_case ''RandomValueSpecifier'' w
           (\<lambda>v. check (\<not> matches_no_control v) ''HeaderName'' no_control_reason))])"

record ClusterSpecifierPlugin =
  ClusterSpecifierPlugin_Extension :: "TypedExtensionConfig option"
  ClusterSpecifierPlugin_IsOptional :: "bool"

definition ClusterSpecifierPlugin_validate :: "ClusterSpecifierPlugin validator" where
  "ClusterSpecifierPlugin_validate = validate ''ClusterSpecifierPlugin'' (\<lambda>m. [
     check (ClusterSpecifierPlugin_Extension m = None) ''Extension'' ''value is required'',
     embed ''Extension'' TypedExtensionConfig_validate (ClusterSpecifierPlugin_Extension m)])"

datatype oneof_Route_RetryPolicy_RetryPriority_ConfigType =
    RetryPolicy_RetryPriority_TypedConfig "(bytes option) option"

record Route_RetryPolicy_RetryPriority =
  Route_RetryPolicy_RetryPriority_Name :: "string"
  Route_RetryPolicy_RetryPriority_ConfigType :: "oneof_Route_RetryPolicy_RetryPriority_ConfigType
      option"

definition Route_RetryPolicy_RetryPriority_validate ::
    "Route_RetryPolicy_RetryPriority validator" where
  "Route_RetryPolicy_RetryPriority_validate = validate ''RetryPolicy_RetryPriority'' (\<lambda>m. [
     check (RuneCountInString (Route_RetryPolicy_RetryPriority_Name m) < 1) ''Name''
         ''value length must be at least 1 runes'',
     (case Route_RetryPolicy_RetryPriority_ConfigType m of
         None \<Rightarrow> skip
       | Some (RetryPolicy_RetryPriority_TypedConfig w) \<Rightarrow> oneof_case ''ConfigType'' w
           (\<lambda>v. skip))])"

datatype oneof_Route_RetryPolicy_RetryHostPredicate_ConfigType =
    RetryPolicy_RetryHostPredicate_TypedConfig "(bytes option) option"

record Route_RetryPolicy_RetryHostPredicate =
  Route_RetryPolicy_RetryHostPredicate_Name :: "string"
  Route_RetryPolicy_RetryHostPredicate_ConfigType ::
      "oneof_Route_RetryPolicy_RetryHostPredicate_ConfigType option"

definition Route_RetryPolicy_RetryHostPredicate_validate ::
    "Route_RetryPolicy_RetryHostPredicate validator" where
  "Route_RetryPolicy_RetryHostPredicate_validate =
     validate ''RetryPolicy_RetryHostPredicate'' (\<lambda>m. [
     check (RuneCountInString (Route_RetryPolicy_RetryHostPredicate_Name m) < 1) ''Name''
         ''value length must be at least 1 runes'',
     (case Route_RetryPolicy_RetryHostPredicate_ConfigType m of
         None \<Rightarrow> skip
       | Some (RetryPolicy_RetryHostPredicate_TypedConfig w) \<Rightarrow>
           oneof_case ''ConfigType'' w (\<lambda>v. skip))])"

record RetryPolicy_RetryBackOff =
  RetryPolicy_RetryBackOff_BaseInterval :: "Duration option"
  RetryPolicy_RetryBackOff_MaxInterval :: "Duration option"

definition RetryPolicy_RetryBackOff_validate ::
    "vlib \<Rightarrow> RetryPolicy_RetryBackOff validator" where
  "RetryPolicy_RetryBackOff_validate V = validate ''RetryPolicy_RetryBackOff'' (\<lambda>m. [
     check (RetryPolicy_RetryBackOff_BaseInterval m = None) ''BaseInterval'' ''value is required'',
     check_duration V (RetryPolicy_RetryBackOff_BaseInterval m)
         (\<lambda>dur. dur \<le> duration_of 0 0) ''BaseInterval''
         ''value must be greater than 0s'',
     check_duration V (RetryPolicy_RetryBackOff_MaxInterval m)
         (\<lambda>dur. dur \<le> duration_of 0 0) ''MaxInterval''
         ''value must be greater than 0s''])"

record RetryPolicy_ResetHeader =
  RetryPolicy_ResetHeader_Name :: "string"
  RetryPolicy_ResetHeader_Format :: "32 word"

definition RetryPolicy_ResetHeaderFormat_name :: "(32 word, string) gomap" where
  "RetryPolicy_ResetHeaderFormat_name = [(0, ''SECONDS''), (1, ''UNIX_TIMESTAMP'')]"

definition RetryPolicy_ResetHeader_validate :: "RetryPolicy_ResetHeader validator" where
  "RetryPolicy_ResetHeader_validate = validate ''RetryPolicy_ResetHeader'' (\<lambda>m. [
     check (RuneCountInString (RetryPolicy_ResetHeader_Name m) < 1) ''Name''
         ''value length must be at least 1 runes'',
     check (\<not> matches_no_control (RetryPolicy_ResetHeader_Name m)) ''Name'' no_control_reason,
     check (mget RetryPolicy_ResetHeaderFormat_name (RetryPolicy_ResetHeader_Format m) = None)
         ''Format'' ''value must be one of the defined enum values''])"

record RetryPolicy_RateLimitedRetryBackOff =
  RetryPolicy_RateLimitedRetryBackOff_ResetHeaders :: "RetryPolicy_ResetHeader option list"
  RetryPolicy_RateLimitedRetryBackOff_MaxInterval :: "Duration option"

definition RetryPolicy_RateLimitedRetryBackOff_validate ::
    "vlib \<Rightarrow> RetryPolicy_RateLimitedRetryBackOff validator" where
  "RetryPolicy_RateLimitedRetryBackOff_validate V =
     validate ''RetryPolicy_RateLimitedRetryBackOff'' (\<lambda>m. [
     check (length (RetryPolicy_RateLimitedRetryBackOff_ResetHeaders m) < 1) ''ResetHeaders''
         ''value must contain at least 1 item(s)'',
     each (\<lambda>i x. embed (index_field ''ResetHeaders'' i) RetryPolicy_ResetHeader_validate x)
         (RetryPolicy_RateLimitedRetryBackOff_ResetHeaders m),
     check_duration V (RetryPolicy_RateLimitedRetryBackOff_MaxInterval m)
         (\<lambda>dur. dur \<le> duration_of 0 0) ''MaxInterval''
         ''value must be greater than 0s''])"

record Route_RetryPolicy =
  Route_RetryPolicy_RetryOn :: "string"
  Route_RetryPolicy_NumRetries :: "32 word option"
  Route_RetryPolicy_PerTryTimeout :: "Duration option"
  Route_RetryPolicy_PerTryIdleTimeout :: "Duration option"
  Route_RetryPolicy_RetryPriority :: "Route_RetryPolicy_RetryPriority option"
  Route_RetryPolicy_RetryHostPredicate :: "Route_RetryPolicy_RetryHostPredicate option list"
  Route_RetryPolicy_RetryOptionsPredicates :: "TypedExtensionConfig option list"
  Route_RetryPolicy_HostSelectionRetryMaxAttempts :: "64 word"
  Route_RetryPolicy_RetriableStatusCodes :: "32 word list"
  Route_RetryPolicy_RetryBackOff :: "RetryPolicy_RetryBackOff option"
  Route_RetryPolicy_RateLimitedRetryBackOff :: "RetryPolicy_RateLimitedRetryBackOff option"
  Route_RetryPolicy_RetriableHeaders :: "HeaderMatcher option list"
  Route_RetryPolicy_RetriableRequestHeaders :: "HeaderMatcher option list"

definition Route_RetryPolicy_validate :: "vlib \<Rightarrow> Route_RetryPolicy validator" where
  "Route_RetryPolicy_validate V = validate ''RetryPolicy'' (\<lambda>m. [
     embed ''RetryPriority'' Route_RetryPolicy_RetryPriority_validate
         (Route_RetryPolicy_RetryPriority m),
     each (\<lambda>i x.
         embed (index_field ''RetryHostPredicate'' i) Route_RetryPolicy_RetryHostPredicate_validate
             x) (Route_RetryPolicy_RetryHostPredicate m),
     each (\<lambda>i x.
         embed (index_field ''RetryOptionsPredicates'' i) TypedExtensionConfig_validate x)
         (Route_RetryPolicy_RetryOptionsPredicates m),
     embed ''RetryBackOff'' (RetryPolicy_RetryBackOff_validate V)
         (Route_RetryPolicy_RetryBackOff m),
     embed ''RateLimitedRetryBackOff''
         (RetryPolicy_RateLimitedRetryBackOff_validate V)
             (Route_RetryPolicy_RateLimitedRetryBackOff m),
     each (\<lambda>i x. embed (index_field ''RetriableHeaders'' i) (HeaderMatcher_validate V) x)
         (Route_RetryPolicy_RetriableHeaders m),
     each (\<lambda>i x.
         embed (index_field ''RetriableRequestHeaders'' i) (HeaderMatcher_validate V) x)
         (Route_RetryPolicy_RetriableRequestHeaders m)])"

record RouteAction_RequestMirrorPolicy =
  RouteAction_RequestMirrorPolicy_Cluster :: "string"
  RouteAction_RequestMirrorPolicy_ClusterHeader :: "string"
  RouteAction_RequestMirrorPolicy_RuntimeFraction :: "RuntimeFractionalPercent option"
  RouteAction_RequestMirrorPolicy_TraceSampled :: "bool option"
  RouteAction_RequestMirrorPolicy_DisableShadowHostSuffixAppend :: "bool"

definition RouteAction_RequestMirrorPolicy_validate ::
    "RouteAction_RequestMirrorPolicy validator" where
  "RouteAction_RequestMirrorPolicy_validate =
     validate ''RouteAction_RequestMirrorPolicy'' (\<lambda>m. [
     check (\<not> matches_no_control (RouteAction_RequestMirrorPolicy_ClusterHeader m))
         ''ClusterHeader'' no_control_reason,
     embed ''RuntimeFraction'' RuntimeFractionalPercent_validate
         (RouteAction_RequestMirrorPolicy_RuntimeFraction m)])"

datatype RateLimit_Action_SourceCluster = empty_RateLimit_Action_SourceCluster

definition RateLimit_Action_SourceCluster_validate ::
    "RateLimit_Action_SourceCluster validator" where
  "RateLimit_Action_SourceCluster_validate =
     validate ''RateLimit_Action_SourceCluster'' (\<lambda>m. [])"

datatype RateLimit_Action_DestinationCluster = empty_RateLimit_Action_DestinationCluster

definition RateLimit_Action_DestinationCluster_validate ::
    "RateLimit_Action_DestinationCluster validator" where
  "RateLimit_Action_DestinationCluster_validate =
     validate ''RateLimit_Action_DestinationCluster'' (\<lambda>m. [])"

record RateLimit_Action_RequestHeaders =
  RateLimit_Action_RequestHeaders_HeaderName :: "string"
  RateLimit_Action_RequestHeaders_DescriptorKey :: "string"
  RateLimit_Action_RequestHeaders_SkipIfAbsent :: "bool"

definition RateLimit_Action_RequestHeaders_validate ::
    "RateLimit_Action_RequestHeaders validator" where
  "RateLimit_Action_RequestHeaders_validate =
     validate ''RateLimit_Action_RequestHeaders'' (\<lambda>m. [
     check (RuneCountInString (RateLimit_Action_RequestHeaders_HeaderName m) < 1) ''HeaderName''
         ''value length must be at least 1 runes'',
     check (\<not> matches_no_control (RateLimit_Action_RequestHeaders_HeaderName m))
         ''HeaderName'' no_control_reason,
     check (RuneCountInString (RateLimit_Action_RequestHeaders_DescriptorKey m) < 1)
         ''DescriptorKey''
         ''value length must be at least 1 runes''])"

record RateLimit_Action_QueryParameters =
  RateLimit_Action_QueryParameters_QueryParameterName :: "string"
  RateLimit_Action_QueryParameters_DescriptorKey :: "string"
  RateLimit_Action_QueryParameters_SkipIfAbsent :: "bool"

definition RateLimit_Action_QueryParameters_validate ::
    "RateLimit_Action_QueryParameters validator" where
  "RateLimit_Action_QueryParameters_validate =
     validate ''RateLimit_Action_QueryParameters'' (\<lambda>m. [
     check (RuneCountInString (RateLimit_Action_QueryParameters_QueryParameterName m) < 1)
         ''QueryParameterName'' ''value length must be at least 1 runes'',
     check (RuneCountInString (RateLimit_Action_QueryParameters_DescriptorKey m) < 1)
         ''DescriptorKey'' ''value length must be at least 1 runes''])"

datatype RateLimit_Action_RemoteAddress = empty_RateLimit_Action_RemoteAddress

definition RateLimit_Action_RemoteAddress_validate ::
    "RateLimit_Action_RemoteAddress validator" where
  "RateLimit_Action_RemoteAddress_validate =
     validate ''RateLimit_Action_RemoteAddress'' (\<lambda>m. [])"

record RateLimit_Action_GenericKey =
  RateLimit_Action_GenericKey_DescriptorValue :: "string"
  RateLimit_Action_GenericKey_DescriptorKey :: "string"

definition RateLimit_Action_GenericKey_validate :: "RateLimit_Action_GenericKey validator" where
  "RateLimit_Action_GenericKey_validate = validate ''RateLimit_Action_GenericKey'' (\<lambda>m. [
     check (RuneCountInString (RateLimit_Action_GenericKey_DescriptorValue m) < 1)
         ''DescriptorValue''
         ''value length must be at least 1 runes''])"

record RateLimit_Action_HeaderValueMatch =
  RateLimit_Action_HeaderValueMatch_DescriptorKey :: "string"
  RateLimit_Action_HeaderValueMatch_DescriptorValue :: "string"
  RateLimit_Action_HeaderValueMatch_ExpectMatch :: "bool option"
  RateLimit_Action_HeaderValueMatch_Headers :: "HeaderMatcher option list"

definition RateLimit_Action_HeaderValueMatch_validate ::
    "vlib \<Rightarrow> RateLimit_Action_HeaderValueMatch validator" where
  "RateLimit_Action_HeaderValueMatch_validate V =
     validate ''RateLimit_Action_HeaderValueMatch'' (\<lambda>m. [
     check (RuneCountInString (RateLimit_Action_HeaderValueMatch_DescriptorValue m) < 1)
         ''DescriptorValue'' ''value length must be at least 1 runes'',
     check (length (RateLimit_Action_HeaderValueMatch_Headers m) < 1) ''Headers''
         ''value must contain at least 1 item(s)'',
     each (\<lambda>i x. embed (index_field ''Headers'' i) (HeaderMatcher_validate V) x)
         (RateLimit_Action_HeaderValueMatch_Headers m)])"

record RateLimit_Action_DynamicMetaData =
  RateLimit_Action_DynamicMetaData_DescriptorKey :: "string"
  RateLimit_Action_DynamicMetaData_MetadataKey :: "MetadataKey option"
  RateLimit_Action_DynamicMetaData_DefaultValue :: "string"

definition RateLimit_Action_DynamicMetaData_validate ::
    "RateLimit_Action_DynamicMetaData validator" where
  "RateLimit_Action_DynamicMetaData_validate =
     validate ''RateLimit_Action_DynamicMetaData'' (\<lambda>m. [
     check (RuneCountInString (RateLimit_Action_DynamicMetaData_DescriptorKey m) < 1)
         ''DescriptorKey'' ''value length must be at least 1 runes'',
     check (RateLimit_Action_DynamicMetaData_MetadataKey m = None) ''MetadataKey''
         ''value is required'',
     embed ''MetadataKey'' MetadataKey_validate (RateLimit_Action_DynamicMetaData_MetadataKey m)])"

record RateLimit_Action_MetaData =
  RateLimit_Action_MetaData_DescriptorKey :: "string"
  RateLimit_Action_MetaData_MetadataKey :: "MetadataKey option"
  RateLimit_Action_MetaData_DefaultValue :: "string"
  RateLimit_Action_MetaData_Source :: "32 word"
  RateLimit_Action_MetaData_SkipIfAbsent :: "bool"

definition RateLimit_Action_MetaData_Source_name :: "(32 word, string) gomap" where
  "RateLimit_Action_MetaData_Source_name = [(0, ''DYNAMIC''), (1, ''ROUTE_ENTRY'')]"

definition RateLimit_Action_MetaData_validate :: "RateLimit_Action_MetaData validator" where
  "RateLimit_Action_MetaData_validate = validate ''RateLimit_Action_MetaData'' (\<lambda>m. [
     check (RuneCountInString (RateLimit_Action_MetaData_DescriptorKey m) < 1) ''DescriptorKey''
         ''value length must be at least 1 runes'',
     check (RateLimit_Action_MetaData_MetadataKey m = None) ''MetadataKey'' ''value is required'',
     embed ''MetadataKey'' MetadataKey_validate (RateLimit_Action_MetaData_MetadataKey m),
     check (mget RateLimit_Action_MetaData_Source_name (RateLimit_Action_MetaData_Source m) = None)
         ''Source'' ''value must be one of the defined enum values''])"

record RateLimit_Action_MaskedRemoteAddress =
  RateLimit_Action_MaskedRemoteAddress_V4PrefixMaskLen :: "32 word option"
  RateLimit_Action_MaskedRemoteAddress_V6PrefixMaskLen :: "32 word option"

definition RateLimit_Action_MaskedRemoteAddress_validate ::
    "RateLimit_Action_MaskedRemoteAddress validator" where
  "RateLimit_Action_MaskedRemoteAddress_validate =
     validate ''RateLimit_Action_MaskedRemoteAddress'' (\<lambda>m. [
     (case RateLimit_Action_MaskedRemoteAddress_V4PrefixMaskLen m of None \<Rightarrow> skip
         | Some w \<Rightarrow> check (w > 32) ''V4PrefixMaskLen''
         ''value must be less than or equal to 32''),
     (case RateLimit_Action_MaskedRemoteAddress_V6PrefixMaskLen m of None \<Rightarrow> skip
         | Some w \<Rightarrow> check (w > 128) ''V6PrefixMaskLen''
         ''value must be less than or equal to 128'')])"

record RateLimit_Action_QueryParameterValueMatch =
  RateLimit_Action_QueryParameterValueMatch_DescriptorKey :: "string"
  RateLimit_Action_QueryParameterValueMatch_DescriptorValue :: "string"
  RateLimit_Action_QueryParameterValueMatch_ExpectMatch :: "bool option"
  RateLimit_Action_QueryParameterValueMatch_QueryParameters :: "QueryParameterMatcher option list"

definition RateLimit_Action_QueryParameterValueMatch_validate ::
    "vlib \<Rightarrow> RateLimit_Action_QueryParameterValueMatch validator" where
  "RateLimit_Action_QueryParameterValueMatch_validate V =
     validate ''RateLimit_Action_QueryParameterValueMatch'' (\<lambda>m. [
     check (RuneCountInString (RateLimit_Action_QueryParameterValueMatch_DescriptorValue m) < 1)
         ''DescriptorValue'' ''value length must be at least 1 runes'',
     check (length (RateLimit_Action_QueryParameterValueMatch_QueryParameters m) < 1)
         ''QueryParameters'' ''value must contain at least 1 item(s)'',
     each (\<lambda>i x.
         embed (index_field ''QueryParameters'' i) (QueryParameterMatcher_validate V) x)
         (RateLimit_Action_QueryParameterValueMatch_QueryParameters m)])"

datatype oneof_RateLimit_Action_ActionSpecifier =
    RateLimit_Action_SourceCluster_case "(RateLimit_Action_SourceCluster option) option"
  | RateLimit_Action_DestinationCluster_case "(RateLimit_Action_DestinationCluster option) option"
  | RateLimit_Action_RequestHeaders_case "(RateLimit_Action_RequestHeaders option) option"
  | RateLimit_Action_QueryParameters_case "(RateLimit_Action_QueryParameters option) option"
  | RateLimit_Action_RemoteAddress_case "(RateLimit_Action_RemoteAddress option) option"
  | RateLimit_Action_GenericKey_case "(RateLimit_Action_GenericKey option) option"
  | RateLimit_Action_HeaderValueMatch_case "(RateLimit_Action_HeaderValueMatch option) option"
  | RateLimit_Action_DynamicMetadata "(RateLimit_Action_DynamicMetaData option) option"
  | RateLimit_Action_Metadata "(RateLimit_Action_MetaData option) option"
  | RateLimit_Action_Extension "(TypedExtensionConfig option) option"
  | RateLimit_Action_MaskedRemoteAddress_case "(RateLimit_Action_MaskedRemoteAddress option) option"
  | RateLimit_Action_QueryParameterValueMatch_case "(RateLimit_Action_QueryParameterValueMatch
      option) option"

record RateLimit_Action =
  RateLimit_Action_ActionSpecifier :: "oneof_RateLimit_Action_ActionSpecifier option"

definition RateLimit_Action_validate :: "vlib \<Rightarrow> RateLimit_Action validator" where
  "RateLimit_Action_validate V = validate ''RateLimit_Action'' (\<lambda>m. [
     (case RateLimit_Action_ActionSpecifier m of
         None \<Rightarrow> skip
       | Some (RateLimit_Action_SourceCluster_case w) \<Rightarrow>
           oneof_case ''ActionSpecifier'' w (\<lambda>v.
           embed ''SourceCluster'' RateLimit_Action_SourceCluster_validate v)
       | Some (RateLimit_Action_DestinationCluster_case w) \<Rightarrow>
           oneof_case ''ActionSpecifier'' w (\<lambda>v.
           embed ''DestinationCluster'' RateLimit_Action_DestinationCluster_validate v)
       | Some (RateLimit_Action_RequestHeaders_case w) \<Rightarrow>
           oneof_case ''ActionSpecifier'' w (\<lambda>v.
           embed ''RequestHeaders'' RateLimit_Action_RequestHeaders_validate v)
       | Some (RateLimit_Action_QueryParameters_case w) \<Rightarrow>
           oneof_case ''ActionSpecifier'' w (\<lambda>v.
           embed ''QueryParameters'' RateLimit_Action_QueryParameters_validate v)
       | Some (RateLimit_Action_RemoteAddress_case w) \<Rightarrow>
           oneof_case ''ActionSpecifier'' w (\<lambda>v.
           embed ''RemoteAddress'' RateLimit_Action_RemoteAddress_validate v)
       | Some (RateLimit_Action_GenericKey_case w) \<Rightarrow> oneof_case ''ActionSpecifier'' w
           (\<lambda>v. embed ''GenericKey'' RateLimit_Action_GenericKey_validate v)
       | Some (RateLimit_Action_HeaderValueMatch_case w) \<Rightarrow>
           oneof_case ''ActionSpecifier'' w (\<lambda>v. embed ''HeaderValueMatch''
           (RateLimit_Action_HeaderValueMatch_validate V) v)
       | Some (RateLimit_Action_DynamicMetadata w) \<Rightarrow> oneof_case ''ActionSpecifier'' w
           (\<lambda>v. embed ''DynamicMetadata'' RateLimit_Action_DynamicMetaData_validate v)
       | Some (RateLimit_Action_Metadata w) \<Rightarrow> oneof_case ''ActionSpecifier'' w
           (\<lambda>v. embed ''Metadata'' RateLimit_Action_MetaData_validate v)
       | Some (RateLimit_Action_Extension w) \<Rightarrow> oneof_case ''ActionSpecifier'' w
           (\<lambda>v. embed ''Extension'' TypedExtensionConfig_validate v)
       | Some (RateLimit_Action_MaskedRemoteAddress_case w) \<Rightarrow>
           oneof_case ''ActionSpecifier'' w (\<lambda>v.
           embed ''MaskedRemoteAddress'' RateLimit_Action_MaskedRemoteAddress_validate v)
       | Some (RateLimit_Action_QueryParameterValueMatch_case w) \<Rightarrow>
           oneof_case ''ActionSpecifier'' w (\<lambda>v. embed ''QueryParameterValueMatch''
           (RateLimit_Action_QueryParameterValueMatch_validate V) v)),
     check (RateLimit_Action_ActionSpecifier m = None) ''ActionSpecifier'' ''value is required''])"

record RateLimit_Override_DynamicMetadata =
  RateLimit_Override_DynamicMetadata_MetadataKey :: "MetadataKey option"

definition RateLimit_Override_DynamicMetadata_validate ::
    "RateLimit_Override_DynamicMetadata validator" where
  "RateLimit_Override_DynamicMetadata_validate =
     validate ''RateLimit_Override_DynamicMetadata'' (\<lambda>m. [
     check (RateLimit_Override_DynamicMetadata_MetadataKey m = None) ''MetadataKey''
         ''value is required'',
     embed ''MetadataKey'' MetadataKey_validate
         (RateLimit_Override_DynamicMetadata_MetadataKey m)])"

datatype oneof_RateLimit_Override_OverrideSpecifier =
    RateLimit_Override_DynamicMetadata_case "(RateLimit_Override_DynamicMetadata option) option"

record RateLimit_Override =
  RateLimit_Override_OverrideSpecifier :: "oneof_RateLimit_Override_OverrideSpecifier option"

definition RateLimit_Override_validate :: "RateLimit_Override validator" where
  "RateLimit_Override_validate = validate ''RateLimit_Override'' (\<lambda>m. [
     (case RateLimit_Override_OverrideSpecifier m of
         None \<Rightarrow> skip
       | Some (RateLimit_Override_DynamicMetadata_case w) \<Rightarrow>
           oneof_case ''OverrideSpecifier'' w (\<lambda>v.
           embed ''DynamicMetadata'' RateLimit_Override_DynamicMetadata_validate v)),
     check (RateLimit_Override_OverrideSpecifier m = None) ''OverrideSpecifier''
         ''value is required''])"

record RateLimit_HitsAddend =
  RateLimit_HitsAddend_Number :: "64 word option"
  RateLimit_HitsAddend_Format :: "string"

definition RateLimit_HitsAddend_validate :: "RateLimit_HitsAddend validator" where
  "RateLimit_HitsAddend_validate = validate ''RateLimit_HitsAddend'' (\<lambda>m. [
     (case RateLimit_HitsAddend_Number m of None \<Rightarrow> skip | Some w \<Rightarrow>
         check (w > 1000000000) ''Number'' ''value must be less than or equal to 1000000000''),
     guarded (RateLimit_HitsAddend_Format m \<noteq> '''')
         (stmts [check (\<not> HasPrefix (RateLimit_HitsAddend_Format m) ''%'') ''Format''
         (''value does not have prefix '' @ CHR 0x22 # ''%'' @ CHR 0x22 # ''''),
         check (\<not> HasSuffix (RateLimit_HitsAddend_Format m) ''%'') ''Format''
         (''value does not have suffix '' @ CHR 0x22 # ''%'' @ CHR 0x22 # '''')])])"

record RateLimit =
  RateLimit_Stage :: "32 word option"
  RateLimit_DisableKey :: "string"
  RateLimit_Actions :: "RateLimit_Action option list"
  RateLimit_Limit :: "RateLimit_Override option"
  RateLimit_HitsAddend :: "RateLimit_HitsAddend option"
  RateLimit_ApplyOnStreamDone :: "bool"

definition RateLimit_validate :: "vlib \<Rightarrow> RateLimit validator" where
  "RateLimit_validate V = validate ''RateLimit'' (\<lambda>m. [
     (case RateLimit_Stage m of None \<Rightarrow> skip | Some w \<Rightarrow> check (w > 10)
         ''Stage''
         ''value must be less than or equal to 10''),
     check (length (RateLimit_Actions m) < 1) ''Actions'' ''value must contain at least 1 item(s)'',
     each (\<lambda>i x. embed (index_field ''Actions'' i) (RateLimit_Action_validate V) x)
         (RateLimit_Actions m),
     embed ''Limit'' RateLimit_Override_validate (RateLimit_Limit m),
     embed ''HitsAddend'' RateLimit_HitsAddend_validate (RateLimit_HitsAddend m)])"

record RouteAction_HashPolicy_Header =
  RouteAction_HashPolicy_Header_HeaderName :: "string"
  RouteAction_HashPolicy_Header_RegexRewrite :: "RegexMatchAndSubstitute option"

definition RouteAction_HashPolicy_Header_validate :: "RouteAction_HashPolicy_Header validator" where
  "RouteAction_HashPolicy_Header_validate =
     validate ''RouteAction_HashPolicy_Header'' (\<lambda>m. [
     check (RuneCountInString (RouteAction_HashPolicy_Header_HeaderName m) < 1) ''HeaderName''
         ''value length must be at least 1 runes'',
     check (\<not> matches_no_control (RouteAction_HashPolicy_Header_HeaderName m))
         ''HeaderName'' no_control_reason,
     embed ''RegexRewrite'' RegexMatchAndSubstitute_validate
         (RouteAction_HashPolicy_Header_RegexRewrite m)])"

record RouteAction_HashPolicy_CookieAttribute =
  RouteAction_HashPolicy_CookieAttribute_Name :: "string"
  RouteAction_HashPolicy_CookieAttribute_Value :: "string"

definition RouteAction_HashPolicy_CookieAttribute_validate ::
    "RouteAction_HashPolicy_CookieAttribute validator" where
  "RouteAction_HashPolicy_CookieAttribute_validate =
     validate ''RouteAction_HashPolicy_CookieAttribute'' (\<lambda>m. [
     check (RuneCountInString (RouteAction_HashPolicy_CookieAttribute_Name m) < 1) ''Name''
         ''value length must be at least 1 runes'',
     check (length (RouteAction_HashPolicy_CookieAttribute_Name m) > 16384) ''Name''
         ''value length must be at most 16384 bytes'',
     check (\<not> matches_no_control (RouteAction_HashPolicy_CookieAttribute_Name m))
         ''Name'' no_control_reason,
     check (length (RouteAction_HashPolicy_CookieAttribute_Value m) > 16384) ''Value''
         ''value length must be at most 16384 bytes'',
     check (\<not> matches_no_control (RouteAction_HashPolicy_CookieAttribute_Value m))
         ''Value'' no_control_reason])"

record RouteAction_HashPolicy_Cookie =
  RouteAction_HashPolicy_Cookie_Name :: "string"
  RouteAction_HashPolicy_Cookie_Ttl :: "Duration option"
  RouteAction_HashPolicy_Cookie_Path :: "string"
  RouteAction_HashPolicy_Cookie_Attributes :: "RouteAction_HashPolicy_CookieAttribute option list"

definition RouteAction_HashPolicy_Cookie_validate :: "RouteAction_HashPolicy_Cookie validator" where
  "RouteAction_HashPolicy_Cookie_validate =
     validate ''RouteAction_HashPolicy_Cookie'' (\<lambda>m. [
     check (RuneCountInString (RouteAction_HashPolicy_Cookie_Name m) < 1) ''Name''
         ''value length must be at least 1 runes'',
     each (\<lambda>i x.
         embed (index_field ''Attributes'' i) RouteAction_HashPolicy_CookieAttribute_validate x)
         (RouteAction_HashPolicy_Cookie_Attributes m)])"

record RouteAction_HashPolicy_ConnectionProperties =
  RouteAction_HashPolicy_ConnectionProperties_SourceIp :: "bool"

definition RouteAction_HashPolicy_ConnectionProperties_validate ::
    "RouteAction_HashPolicy_ConnectionProperties validator" where
  "RouteAction_HashPolicy_ConnectionProperties_validate =
     validate ''RouteAction_HashPolicy_ConnectionProperties'' (\<lambda>m. [])"

record RouteAction_HashPolicy_QueryParameter =
  RouteAction_HashPolicy_QueryParameter_Name :: "string"

definition RouteAction_HashPolicy_QueryParameter_validate ::
    "RouteAction_HashPolicy_QueryParameter validator" where
  "RouteAction_HashPolicy_QueryParameter_validate =
     validate ''RouteAction_HashPolicy_QueryParameter'' (\<lambda>m. [
     check (RuneCountInString (RouteAction_HashPolicy_QueryParameter_Name m) < 1) ''Name''
         ''value length must be at least 1 runes''])"

record RouteAction_HashPolicy_FilterState =
  RouteAction_HashPolicy_FilterState_Key :: "string"

definition RouteAction_HashPolicy_FilterState_validate ::
    "RouteAction_HashPolicy_FilterState validator" where
  "RouteAction_HashPolicy_FilterState_validate =
     validate ''RouteAction_HashPolicy_FilterState'' (\<lambda>m. [
     check (RuneCountInString (RouteAction_HashPolicy_FilterState_Key m) < 1) ''Key''
         ''value length must be at least 1 runes''])"

datatype oneof_RouteAction_HashPolicy_PolicySpecifier =
    RouteAction_HashPolicy_Header_case "(RouteAction_HashPolicy_Header option) option"
  | RouteAction_HashPolicy_Cookie_case "(RouteAction_HashPolicy_Cookie option) option"
  | RouteAction_HashPolicy_ConnectionProperties_case "(RouteAction_HashPolicy_ConnectionProperties
      option) option"
  | RouteAction_HashPolicy_QueryParameter_case "(RouteAction_HashPolicy_QueryParameter option)
      option"
  | RouteAction_HashPolicy_FilterState_case "(RouteAction_HashPolicy_FilterState option) option"

record RouteAction_HashPolicy =
  RouteAction_HashPolicy_PolicySpecifier :: "oneof_RouteAction_HashPolicy_PolicySpecifier option"
  RouteAction_HashPolicy_Terminal :: "bool"

definition RouteAction_HashPolicy_validate :: "RouteAction_HashPolicy validator" where
  "RouteAction_HashPolicy_validate = validate ''RouteAction_HashPolicy'' (\<lambda>m. [
     (case RouteAction_HashPolicy_PolicySpecifier m of
         None \<Rightarrow> skip
       | Some (RouteAction_HashPolicy_Header_case w) \<Rightarrow>
           oneof_case ''PolicySpecifier'' w (\<lambda>v.
           embed ''Header'' RouteAction_HashPolicy_Header_validate v)
       | Some (RouteAction_HashPolicy_Cookie_case w) \<Rightarrow>
           oneof_case ''PolicySpecifier'' w (\<lambda>v.
           embed ''Cookie'' RouteAction_HashPolicy_Cookie_validate v)
       | Some (RouteAction_HashPolicy_ConnectionProperties_case w) \<Rightarrow>
           oneof_case ''PolicySpecifier'' w (\<lambda>v.
           embed ''ConnectionProperties'' RouteAction_HashPolicy_ConnectionProperties_validate v)
       | Some (RouteAction_HashPolicy_QueryParameter_case w) \<Rightarrow>
           oneof_case ''PolicySpecifier'' w (\<lambda>v.
           embed ''QueryParameter'' RouteAction_HashPolicy_QueryParameter_validate v)
       | Some (RouteAction_HashPolicy_FilterState_case w) \<Rightarrow>
           oneof_case ''PolicySpecifier'' w (\<lambda>v.
           embed ''FilterState'' RouteAction_HashPolicy_FilterState_validate v)),
     check (RouteAction_HashPolicy_PolicySpecifier m = None) ''PolicySpecifier''
         ''value is required''])"

datatype oneof_CorsPolicy_EnabledSpecifier =
    CorsPolicy_FilterEnabled "(RuntimeFractionalPercent option) option"

record CorsPolicy =
  CorsPolicy_AllowOriginStringMatch :: "StringMatcher option list"
  CorsPolicy_AllowMethods :: "string"
  CorsPolicy_AllowHeaders :: "string"
  CorsPolicy_ExposeHeaders :: "string"
  CorsPolicy_MaxAge :: "string"
  CorsPolicy_AllowCredentials :: "bool option"
  CorsPolicy_EnabledSpecifier :: "oneof_CorsPolicy_EnabledSpecifier option"
  CorsPolicy_ShadowEnabled :: "RuntimeFractionalPercent option"
  CorsPolicy_AllowPrivateNetworkAccess :: "bool option"
  CorsPolicy_ForwardNotMatchingPreflights :: "bool option"

definition CorsPolicy_validate :: "vlib \<Rightarrow> CorsPolicy validator" where
  "CorsPolicy_validate V = validate ''CorsPolicy'' (\<lambda>m. [
     each (\<lambda>i x.
         embed (index_field ''AllowOriginStringMatch'' i) (StringMatcher_validate V) x)
         (CorsPolicy_AllowOriginStringMatch m),
     embed ''ShadowEnabled'' RuntimeFractionalPercent_validate (CorsPolicy_ShadowEnabled m),
     (case CorsPolicy_EnabledSpecifier m of
         None \<Rightarrow> skip
       | Some (CorsPolicy_FilterEnabled w) \<Rightarrow> oneof_case ''EnabledSpecifier'' w
           (\<lambda>v. embed ''FilterEnabled'' RuntimeFractionalPercent_validate v))])"

record RouteAction_UpgradeConfig_ConnectConfig =
  RouteAction_UpgradeConfig_ConnectConfig_ProxyProtocolConfig :: "ProxyProtocolConfig option"
  RouteAction_UpgradeConfig_ConnectConfig_AllowPost :: "bool"

definition RouteAction_UpgradeConfig_ConnectConfig_validate ::
    "RouteAction_UpgradeConfig_ConnectConfig validator" where
  "RouteAction_UpgradeConfig_ConnectConfig_validate =
     validate ''RouteAction_UpgradeConfig_ConnectConfig'' (\<lambda>m. [
     embed ''ProxyProtocolConfig'' ProxyProtocolConfig_validate
         (RouteAction_UpgradeConfig_ConnectConfig_ProxyProtocolConfig m)])"

record RouteAction_UpgradeConfig =
  RouteAction_UpgradeConfig_UpgradeType :: "string"
  RouteAction_UpgradeConfig_Enabled :: "bool option"
  RouteAction_UpgradeConfig_ConnectConfig :: "RouteAction_UpgradeConfig_ConnectConfig option"

definition RouteAction_UpgradeConfig_validate :: "RouteAction_UpgradeConfig validator" where
  "RouteAction_UpgradeConfig_validate = validate ''RouteAction_UpgradeConfig'' (\<lambda>m. [
     check (RuneCountInString (RouteAction_UpgradeConfig_UpgradeType m) < 1) ''UpgradeType''
         ''value length must be at least 1 runes'',
     check (\<not> matches_no_control (RouteAction_UpgradeConfig_UpgradeType m))
         ''UpgradeType'' no_control_reason,
     embed ''ConnectConfig'' RouteAction_UpgradeConfig_ConnectConfig_validate
         (RouteAction_UpgradeConfig_ConnectConfig m)])"

record InternalRedirectPolicy =
  InternalRedirectPolicy_MaxInternalRedirects :: "32 word option"
  InternalRedirectPolicy_RedirectResponseCodes :: "32 word list"
  InternalRedirectPolicy_Predicates :: "TypedExtensionConfig option list"
  InternalRedirectPolicy_AllowCrossSchemeRedirect :: "bool"
  InternalRedirectPolicy_ResponseHeadersToCopy :: "string list"

definition InternalRedirectPolicy_validate :: "InternalRedirectPolicy validator" where
  "InternalRedirectPolicy_validate = validate ''InternalRedirectPolicy'' (\<lambda>m. [
     check (length (InternalRedirectPolicy_RedirectResponseCodes m) > 5) ''RedirectResponseCodes''
         ''value must contain no more than 5 item(s)'',
     each (\<lambda>i x. embed (index_field ''Predicates'' i) TypedExtensionConfig_validate x)
         (InternalRedirectPolicy_Predicates m),
     each_unique (\<lambda>i dup x. stmts [check dup (index_field ''ResponseHeadersToCopy'' i)
         ''repeated value must contain unique items'', check (\<not> matches_no_control x)
         (index_field ''ResponseHeadersToCopy'' i) no_control_reason])
             (InternalRedirectPolicy_ResponseHeadersToCopy m)])"

record HedgePolicy =
  HedgePolicy_InitialRequests :: "32 word option"
  HedgePolicy_AdditionalRequestChance :: "FractionalPercent option"
  HedgePolicy_HedgeOnPerTryTimeout :: "bool"

definition HedgePolicy_validate :: "HedgePolicy validator" where
  "HedgePolicy_validate = validate ''HedgePolicy'' (\<lambda>m. [
     (case HedgePolicy_InitialRequests m of None \<Rightarrow> skip | Some w \<Rightarrow>
         check (w < 1) ''InitialRequests'' ''value must be greater than or equal to 1''),
     embed ''AdditionalRequestChance'' FractionalPercent_validate
         (HedgePolicy_AdditionalRequestChance m)])"

record RouteAction_MaxStreamDuration =
  RouteAction_MaxStreamDuration_MaxStreamDuration :: "Duration option"
  RouteAction_MaxStreamDuration_GrpcTimeoutHeaderMax :: "Duration option"
  RouteAction_MaxStreamDuration_GrpcTimeoutHeaderOffset :: "Duration option"

definition RouteAction_MaxStreamDuration_validate :: "RouteAction_MaxStreamDuration validator" where
  "RouteAction_MaxStreamDuration_validate =
     validate ''RouteAction_MaxStreamDuration'' (\<lambda>m. [])"

datatype oneof_RouteAction_ClusterSpecifier =
    RouteAction_Cluster "string option"
  | RouteAction_ClusterHeader "string option"
  | RouteAction_WeightedClusters "(WeightedCluster option) option"
  | RouteAction_ClusterSpecifierPlugin "string option"
  | RouteAction_InlineClusterSpecifierPlugin "(ClusterSpecifierPlugin option) option"

datatype oneof_RouteAction_HostRewriteSpecifier =
    RouteAction_HostRewriteLiteral "string option"
  | RouteAction_AutoHostRewrite "(bool option) option"
  | RouteAction_HostRewriteHeader "string option"
  | RouteAction_HostRewritePathRegex "(RegexMatchAndSubstitute option) option"

record RouteAction =
  RouteAction_ClusterSpecifier :: "oneof_RouteAction_ClusterSpecifier option"
  RouteAction_ClusterNotFoundResponseCode :: "32 word"
  RouteAction_MetadataMatch :: "Metadata option"
  RouteAction_PrefixRewrite :: "string"
  RouteAction_RegexRewrite :: "RegexMatchAndSubstitute option"
  RouteAction_PathRewritePolicy :: "TypedExtensionConfig option"
  RouteAction_HostRewriteSpecifier :: "oneof_RouteAction_HostRewriteSpecifier option"
  RouteAction_AppendXForwardedHost :: "bool"
  RouteAction_Timeout :: "Duration option"
  RouteAction_IdleTimeout :: "Duration option"
  RouteAction_FlushTimeout :: "Duration option"
  RouteAction_EarlyDataPolicy :: "TypedExtensionConfig option"
  RouteAction_RetryPolicy :: "Route_RetryPolicy option"
  RouteAction_RetryPolicyTypedConfig :: "bytes option"
  RouteAction_RequestMirrorPolicies :: "RouteAction_RequestMirrorPolicy option list"
  RouteAction_Priority :: "32 word"
  RouteAction_RateLimits :: "RateLimit option list"
  RouteAction_IncludeVhRateLimits :: "bool option"
  RouteAction_HashPolicy :: "RouteAction_HashPolicy option list"
  RouteAction_Cors :: "CorsPolicy option"
  RouteAction_MaxGrpcTimeout :: "Duration option"
  RouteAction_GrpcTimeoutOffset :: "Duration option"
  RouteAction_UpgradeConfigs :: "RouteAction_UpgradeConfig option list"
  RouteAction_InternalRedirectPolicy :: "InternalRedirectPolicy option"
  RouteAction_InternalRedirectAction :: "32 word"
  RouteAction_MaxInternalRedirects :: "32 word option"
  RouteAction_HedgePolicy :: "HedgePolicy option"
  RouteAction_MaxStreamDuration :: "RouteAction_MaxStreamDuration option"

definition RouteAction_ClusterNotFoundResponseCode_name :: "(32 word, string) gomap" where
  "RouteAction_ClusterNotFoundResponseCode_name = [(0, ''SERVICE_UNAVAILABLE''),
      (1, ''NOT_FOUND''), (2, ''INTERNAL_SERVER_ERROR'')]"

definition RouteAction_validate :: "vlib \<Rightarrow> RouteAction validator" where
  "RouteAction_validate V = validate ''RouteAction'' (\<lambda>m. [
     check (mget RouteAction_ClusterNotFoundResponseCode_name
         (RouteAction_ClusterNotFoundResponseCode m) = None) ''ClusterNotFoundResponseCode''
         ''value must be one of the defined enum values'',
     embed ''MetadataMatch'' Metadata_validate (RouteAction_MetadataMatch m),
     check (\<not> matches_no_control (RouteAction_PrefixRewrite m))
         ''PrefixRewrite'' no_control_reason,
     embed ''RegexRewrite'' RegexMatchAndSubstitute_validate (RouteAction_RegexRewrite m),
     embed ''PathRewritePolicy'' TypedExtensionConfig_validate (RouteAction_PathRewritePolicy m),
     embed ''EarlyDataPolicy'' TypedExtensionConfig_validate (RouteAction_EarlyDataPolicy m),
     embed ''RetryPolicy'' (Route_RetryPolicy_validate V) (RouteAction_RetryPolicy m),
     each (\<lambda>i x.
         embed (index_field ''RequestMirrorPolicies'' i) RouteAction_RequestMirrorPolicy_validate
             x) (RouteAction_RequestMirrorPolicies m),
     check (mget RoutingPriority_name (RouteAction_Priority m) = None) ''Priority''
         ''value must be one of the defined enum values'',
     each (\<lambda>i x. embed (index_field ''RateLimits'' i) (RateLimit_validate V) x)
         (RouteAction_RateLimits m),
     each (\<lambda>i x. embed (index_field ''HashPolicy'' i) RouteAction_HashPolicy_validate x)
         (RouteAction_HashPolicy m),
     embed ''Cors'' (CorsPolicy_validate V) (RouteAction_Cors m),
     each (\<lambda>i x.
         embed (index_field ''UpgradeConfigs'' i) RouteAction_UpgradeConfig_validate x)
         (RouteAction_UpgradeConfigs m),
     embed ''InternalRedirectPolicy'' InternalRedirectPolicy_validate
         (RouteAction_InternalRedirectPolicy m),
     embed ''HedgePolicy'' HedgePolicy_validate (RouteAction_HedgePolicy m),
     embed ''MaxStreamDuration'' RouteAction_MaxStreamDuration_validate
         (RouteAction_MaxStreamDuration m),
     (case RouteAction_ClusterSpecifier m of
         None \<Rightarrow> skip
       | Some (RouteAction_Cluster w) \<Rightarrow> oneof_case ''ClusterSpecifier'' w
           (\<lambda>v. check (RuneCountInString v < 1) ''Cluster''
           ''value length must be at least 1 runes'')
       | Some (RouteAction_ClusterHeader w) \<Rightarrow> oneof_case ''ClusterSpecifier'' w
           (\<lambda>v. stmts [check (RuneCountInString v < 1) ''ClusterHeader''
           ''value length must be at least 1 runes'', check (\<not> matches_no_control v)
           ''ClusterHeader'' no_control_reason])
       | Some (RouteAction_WeightedClusters w) \<Rightarrow> oneof_case ''ClusterSpecifier'' w
           (\<lambda>v. embed ''WeightedClusters'' WeightedCluster_validate v)
       | Some (RouteAction_ClusterSpecifierPlugin w) \<Rightarrow> oneof_unread
           ''ClusterSpecifier'' w
       | Some (RouteAction_InlineClusterSpecifierPlugin w) \<Rightarrow>
           oneof_case ''ClusterSpecifier'' w (\<lambda>v.
           embed ''InlineClusterSpecifierPlugin'' ClusterSpecifierPlugin_validate v)),
     check (RouteAction_ClusterSpecifier m = None) ''ClusterSpecifier'' ''value is required'',
     (case RouteAction_HostRewriteSpecifier m of
         None \<Rightarrow> skip
       | Some (RouteAction_HostRewriteLiteral w) \<Rightarrow>
           oneof_case ''HostRewriteSpecifier'' w (\<lambda>v. check (\<not> matches_no_control v)
           ''HostRewriteLiteral'' no_control_reason)
       | Some (RouteAction_AutoHostRewrite w) \<Rightarrow> oneof_case ''HostRewriteSpecifier'' w
           (\<lambda>v. skip)
       | Some (RouteAction_HostRewriteHeader w) \<Rightarrow>
           oneof_case ''HostRewriteSpecifier'' w (\<lambda>v. check (\<not> matches_no_control v)
           ''HostRewriteHeader'' no_control_reason)
       | Some (RouteAction_HostRewritePathRegex w) \<Rightarrow>
           oneof_case ''HostRewriteSpecifier'' w (\<lambda>v.
           embed ''HostRewritePathRegex'' RegexMatchAndSubstitute_validate v))])"

datatype oneof_RedirectAction_SchemeRewriteSpecifier =
    RedirectAction_HttpsRedirect "bool option"
  | RedirectAction_SchemeRedirect "string option"

datatype oneof_RedirectAction_PathRewriteSpecifier =
    RedirectAction_PathRedirect "string option"
  | RedirectAction_PrefixRewrite "string option"
  | RedirectAction_RegexRewrite "(RegexMatchAndSubstitute option) option"

record RedirectAction =
  RedirectAction_SchemeRewriteSpecifier :: "oneof_RedirectAction_SchemeRewriteSpecifier option"
  RedirectAction_HostRedirect :: "string"
  RedirectAction_PortRedirect :: "32 word"
  RedirectAction_PathRewriteSpecifier :: "oneof_RedirectAction_PathRewriteSpecifier option"
  RedirectAction_ResponseCode :: "32 word"
  RedirectAction_StripQuery :: "bool"

definition RedirectAction_RedirectResponseCode_name :: "(32 word, string) gomap" where
  "RedirectAction_RedirectResponseCode_name = [(0, ''MOVED_PERMANENTLY''), (1, ''FOUND''),
      (2, ''SEE_OTHER''), (3, ''TEMPORARY_REDIRECT''),
      (4, ''PERMANENT_REDIRECT'')]"

definition RedirectAction_validate :: "RedirectAction validator" where
  "RedirectAction_validate = validate ''RedirectAction'' (\<lambda>m. [
     check (\<not> matches_no_control (RedirectAction_HostRedirect m))
         ''HostRedirect'' no_control_reason,
     check (mget RedirectAction_RedirectResponseCode_name (RedirectAction_ResponseCode m) = None)
         ''ResponseCode'' ''value must be one of the defined enum values'',
     (case RedirectAction_SchemeRewriteSpecifier m of
         None \<Rightarrow> skip
       | Some (RedirectAction_HttpsRedirect w) \<Rightarrow> oneof_unread
           ''SchemeRewriteSpecifier'' w
       | Some (RedirectAction_SchemeRedirect w) \<Rightarrow> oneof_unread
           ''SchemeRewriteSpecifier'' w),
     (case RedirectAction_PathRewriteSpecifier m of
         None \<Rightarrow> skip
       | Some (RedirectAction_PathRedirect w) \<Rightarrow> oneof_case ''PathRewriteSpecifier'' w
           (\<lambda>v. check (\<not> matches_no_control v) ''PathRedirect'' no_control_reason)
       | Some (RedirectAction_PrefixRewrite w) \<Rightarrow>
           oneof_case ''PathRewriteSpecifier'' w (\<lambda>v. check (\<not> matches_no_control v)
           ''PrefixRewrite'' no_control_reason)
       | Some (RedirectAction_RegexRewrite w) \<Rightarrow> oneof_case ''PathRewriteSpecifier'' w
           (\<lambda>v. embed ''RegexRewrite'' RegexMatchAndSubstitute_validate v))])"

record DirectResponseAction =
  DirectResponseAction_Status :: "32 word"
  DirectResponseAction_Body :: "DataSource option"

definition DirectResponseAction_validate :: "DirectResponseAction validator" where
  "DirectResponseAction_validate = validate ''DirectResponseAction'' (\<lambda>m. [
     check (DirectResponseAction_Status m < 200 \<or> DirectResponseAction_Status m \<ge> 600)
         ''Status'' ''value must be inside range [200, 600)'',
     embed ''Body'' DataSource_validate (DirectResponseAction_Body m)])"

record FilterAction =
  FilterAction_Action :: "bytes option"

definition FilterAction_validate :: "FilterAction validator" where
  "FilterAction_validate = validate ''FilterAction'' (\<lambda>m. [])"

datatype NonForwardingAction = empty_NonForwardingAction

definition NonForwardingAction_validate :: "NonForwardingAction validator" where
  "NonForwardingAction_validate = validate ''NonForwardingAction'' (\<lambda>m. [])"

record Decorator =
  Decorator_Operation :: "string"
  Decorator_Propagate :: "bool option"

definition Decorator_validate :: "Decorator validator" where
  "Decorator_validate = validate ''Decorator'' (\<lambda>m. [
     check (RuneCountInString (Decorator_Operation m) < 1) ''Operation''
         ''value length must be at least 1 runes''])"

record Tracing =
  Tracing_ClientSampling :: "FractionalPercent option"
  Tracing_RandomSampling :: "FractionalPercent option"
  Tracing_OverallSampling :: "FractionalPercent option"
  Tracing_CustomTags :: "CustomTag option list"

definition Tracing_validate :: "Tracing validator" where
  "Tracing_validate = validate ''Tracing'' (\<lambda>m. [
     embed ''ClientSampling'' FractionalPercent_validate (Tracing_ClientSampling m),
     embed ''RandomSampling'' FractionalPercent_validate (Tracing_RandomSampling m),
     embed ''OverallSampling'' FractionalPercent_validate (Tracing_OverallSampling m),
     each (\<lambda>i x. embed (index_field ''CustomTags'' i) CustomTag_validate x)
         (Tracing_CustomTags m)])"

datatype oneof_Route_Action =
    Route_Route "(RouteAction option) option"
  | Route_Redirect "(RedirectAction option) option"
  | Route_DirectResponse "(DirectResponseAction option) option"
  | Route_FilterAction "(FilterAction option) option"
  | Route_NonForwardingAction "(NonForwardingAction option) option"

record Route =
  Route_Name :: "string"
  Route_Match :: "RouteMatch option"
  Route_Action :: "oneof_Route_Action option"
  Route_Metadata :: "Metadata option"
  Route_Decorator :: "Decorator option"
  Route_TypedPerFilterConfig :: "(string, bytes option) gomap"
  Route_RequestHeadersToAdd :: "HeaderValueOption option list"
  Route_RequestHeadersToRemove :: "string list"
  Route_ResponseHeadersToAdd :: "HeaderValueOption option list"
  Route_ResponseHeadersToRemove :: "string list"
  Route_Tracing :: "Tracing option"
  Route_PerRequestBufferLimitBytes :: "32 word option"
  Route_StatPrefix :: "string"
  Route_RequestBodyBufferLimit :: "64 word option"

definition Route_validate :: "vlib \<Rightarrow> Route validator" where
  "Route_validate V = validate ''Route'' (\<lambda>m. [
     check (Route_Match m = None) ''Match'' ''value is required'',
     embed ''Match'' (RouteMatch_validate V) (Route_Match m),
     embed ''Metadata'' Metadata_validate (Route_Metadata m),
     embed ''Decorator'' Decorator_validate (Route_Decorator m),
     check (length (Route_RequestHeadersToAdd m) > 1000) ''RequestHeadersToAdd''
         ''value must contain no more than 1000 item(s)'',
     each (\<lambda>i x. embed (index_field ''RequestHeadersToAdd'' i) HeaderValueOption_validate x)
         (Route_RequestHeadersToAdd m),
     each (\<lambda>i x.
         stmts [check (RuneCountInString x < 1) (index_field ''RequestHeadersToRemove'' i)
         ''value length must be at least 1 runes'', check (\<not> matches_no_control x)
         (index_field ''RequestHeadersToRemove'' i) no_control_reason])
             (Route_RequestHeadersToRemove m),
     check (length (Route_ResponseHeadersToAdd m) > 1000) ''ResponseHeadersToAdd''
         ''value must contain no more than 1000 item(s)'',
     each (\<lambda>i x. embed (index_field ''ResponseHeadersToAdd'' i) HeaderValueOption_validate
         x)
         (Route_ResponseHeadersToAdd m),
     each (\<lambda>i x.
         stmts [check (RuneCountInString x < 1) (index_field ''ResponseHeadersToRemove'' i)
         ''value length must be at least 1 runes'', check (\<not> matches_no_control x)
         (index_field ''ResponseHeadersToRemove'' i) no_control_reason])
             (Route_ResponseHeadersToRemove m),
     embed ''Tracing'' Tracing_validate (Route_Tracing m),
     (case Route_Action m of
         None \<Rightarrow> skip
       | Some (Route_Route w) \<Rightarrow> oneof_case ''Action'' w (\<lambda>v. embed ''Route''
           (RouteAction_validate V) v)
       | Some (Route_Redirect w) \<Rightarrow> oneof_case ''Action'' w (\<lambda>v.
           embed ''Redirect'' RedirectAction_validate v)
       | Some (Route_DirectResponse w) \<Rightarrow> oneof_case ''Action'' w (\<lambda>v.
           embed ''DirectResponse'' DirectResponseAction_validate v)
       | Some (Route_FilterAction w) \<Rightarrow> oneof_case ''Action'' w (\<lambda>v.
           embed ''FilterAction'' FilterAction_validate v)
       | Some (Route_NonForwardingAction w) \<Rightarrow> oneof_case ''Action'' w (\<lambda>v.
           embed ''NonForwardingAction'' NonForwardingAction_validate v)),
     check (Route_Action m = None) ''Action'' ''value is required''])"

record VirtualCluster =
  VirtualCluster_Headers :: "HeaderMatcher option list"
  VirtualCluster_Name :: "string"

definition VirtualCluster_validate :: "vlib \<Rightarrow> VirtualCluster validator" where
  "VirtualCluster_validate V = validate ''VirtualCluster'' (\<lambda>m. [
     each (\<lambda>i x. embed (index_field ''Headers'' i) (HeaderMatcher_validate V) x)
         (VirtualCluster_Headers m),
     check (RuneCountInString (VirtualCluster_Name m) < 1) ''Name''
         ''value length must be at least 1 runes''])"

record VirtualHost =
  VirtualHost_Name :: "string"
  VirtualHost_Domains :: "string list"
  VirtualHost_Routes :: "Route option list"
  VirtualHost_Matcher :: "bytes option"
  VirtualHost_RequireTls :: "32 word"
  VirtualHost_VirtualClusters :: "VirtualCluster option list"
  VirtualHost_RateLimits :: "RateLimit option list"
  VirtualHost_RequestHeadersToAdd :: "HeaderValueOption option list"
  VirtualHost_RequestHeadersToRemove :: "string list"
  VirtualHost_ResponseHeadersToAdd :: "HeaderValueOption option list"
  VirtualHost_ResponseHeadersToRemove :: "string list"
  VirtualHost_Cors :: "CorsPolicy option"
  VirtualHost_TypedPerFilterConfig :: "(string, bytes option) gomap"
  VirtualHost_IncludeRequestAttemptCount :: "bool"
  VirtualHost_IncludeAttemptCountInResponse :: "bool"
  VirtualHost_RetryPolicy :: "Route_RetryPolicy option"
  VirtualHost_RetryPolicyTypedConfig :: "bytes option"
  VirtualHost_HedgePolicy :: "HedgePolicy option"
  VirtualHost_IncludeIsTimeoutRetryHeader :: "bool"
  VirtualHost_PerRequestBufferLimitBytes :: "32 word option"
  VirtualHost_RequestBodyBufferLimit :: "64 word option"
  VirtualHost_RequestMirrorPolicies :: "RouteAction_RequestMirrorPolicy option list"
  VirtualHost_Metadata :: "Metadata option"

definition VirtualHost_TlsRequirementType_name :: "(32 word, string) gomap" where
  "VirtualHost_TlsRequirementType_name = [(0, ''NONE''), (1, ''EXTERNAL_ONLY''), (2, ''ALL'')]"

definition VirtualHost_validate :: "vlib \<Rightarrow> VirtualHost validator" where
  "VirtualHost_validate V = validate ''VirtualHost'' (\<lambda>m. [
     check (RuneCountInString (VirtualHost_Name m) < 1) ''Name''
         ''value length must be at least 1 runes'',
     check (length (VirtualHost_Domains m) < 1) ''Domains''
         ''value must contain at least 1 item(s)'',
     each (\<lambda>i x. check (\<not> matches_no_control x)
         (index_field ''Domains'' i) no_control_reason) (VirtualHost_Domains m),
     each (\<lambda>i x. embed (index_field ''Routes'' i) (Route_validate V) x)
         (VirtualHost_Routes m),
     embed ''Matcher'' (xds_Matcher_validate V) (VirtualHost_Matcher m),
     check (mget VirtualHost_TlsRequirementType_name (VirtualHost_RequireTls m) = None)
         ''RequireTls''
         ''value must be one of the defined enum values'',
     each (\<lambda>i x. embed (index_field ''VirtualClusters'' i) (VirtualCluster_validate V) x)
         (VirtualHost_VirtualClusters m),
     each (\<lambda>i x. embed (index_field ''RateLimits'' i) (RateLimit_validate V) x)
         (VirtualHost_RateLimits m),
     check (length (VirtualHost_RequestHeadersToAdd m) > 1000) ''RequestHeadersToAdd''
         ''value must contain no more than 1000 item(s)'',
     each (\<lambda>i x. embed (index_field ''RequestHeadersToAdd'' i) HeaderValueOption_validate x)
         (VirtualHost_RequestHeadersToAdd m),
     each (\<lambda>i x.
         stmts [check (RuneCountInString x < 1) (index_field ''RequestHeadersToRemove'' i)
         ''value length must be at least 1 runes'', check (\<not> matches_no_control x)
         (index_field ''RequestHeadersToRemove'' i) no_control_reason])
             (VirtualHost_RequestHeadersToRemove m),
     check (length (VirtualHost_ResponseHeadersToAdd m) > 1000) ''ResponseHeadersToAdd''
         ''value must contain no more than 1000 item(s)'',
     each (\<lambda>i x. embed (index_field ''ResponseHeadersToAdd'' i) HeaderValueOption_validate
         x)
         (VirtualHost_ResponseHeadersToAdd m),
     each (\<lambda>i x.
         stmts [check (RuneCountInString x < 1) (index_field ''ResponseHeadersToRemove'' i)
         ''value length must be at least 1 runes'', check (\<not> matches_no_control x)
         (index_field ''ResponseHeadersToRemove'' i) no_control_reason])
             (VirtualHost_ResponseHeadersToRemove m),
     embed ''Cors'' (CorsPolicy_validate V) (VirtualHost_Cors m),
     embed ''RetryPolicy'' (Route_RetryPolicy_validate V) (VirtualHost_RetryPolicy m),
     embed ''HedgePolicy'' HedgePolicy_validate (VirtualHost_HedgePolicy m),
     each (\<lambda>i x.
         embed (index_field ''RequestMirrorPolicies'' i) RouteAction_RequestMirrorPolicy_validate
             x) (VirtualHost_RequestMirrorPolicies m),
     embed ''Metadata'' Metadata_validate (VirtualHost_Metadata m)])"

record RouteList =
  RouteList_Routes :: "Route option list"

definition RouteList_validate :: "vlib \<Rightarrow> RouteList validator" where
  "RouteList_validate V = validate ''RouteList'' (\<lambda>m. [
     each (\<lambda>i x. embed (index_field ''Routes'' i) (Route_validate V) x)
         (RouteList_Routes m)])"

record FilterConfig =
  FilterConfig_Config :: "bytes option"
  FilterConfig_IsOptional :: "bool"
  FilterConfig_Disabled :: "bool"

definition FilterConfig_validate :: "FilterConfig validator" where
  "FilterConfig_validate = validate ''FilterConfig'' (\<lambda>m. [])"

record Vhds =
  Vhds_ConfigSource :: "ConfigSource option"

definition Vhds_validate :: "vlib \<Rightarrow> Vhds validator" where
  "Vhds_validate V = validate ''Vhds'' (\<lambda>m. [
     check (Vhds_ConfigSource m = None) ''ConfigSource'' ''value is required'',
     embed ''ConfigSource'' (ConfigSource_validate V) (Vhds_ConfigSource m)])"

record RouteConfiguration =
  RouteConfiguration_Name :: "string"
  RouteConfiguration_VirtualHosts :: "VirtualHost option list"
  RouteConfiguration_Vhds :: "Vhds option"
  RouteConfiguration_InternalOnlyHeaders :: "string list"
  RouteConfiguration_ResponseHeadersToAdd :: "HeaderValueOption option list"
  RouteConfiguration_ResponseHeadersToRemove :: "string list"
  RouteConfiguration_RequestHeadersToAdd :: "HeaderValueOption option list"
  RouteConfiguration_RequestHeadersToRemove :: "string list"
  RouteConfiguration_MostSpecificHeaderMutationsWins :: "bool"
  RouteConfiguration_ValidateClusters :: "bool option"
  RouteConfiguration_MaxDirectResponseBodySizeBytes :: "32 word option"
  RouteConfiguration_ClusterSpecifierPlugins :: "ClusterSpecifierPlugin option list"
  RouteConfiguration_RequestMirrorPolicies :: "RouteAction_RequestMirrorPolicy option list"
  RouteConfiguration_IgnorePortInHostMatching :: "bool"
  RouteConfiguration_IgnorePathParametersInPathMatching :: "bool"
  RouteConfiguration_TypedPerFilterConfig :: "(string, bytes option) gomap"
  RouteConfiguration_Metadata :: "Metadata option"

definition RouteConfiguration_validate :: "vlib \<Rightarrow> RouteConfiguration validator" where
  "RouteConfiguration_validate V = validate ''RouteConfiguration'' (\<lambda>m. [
     each (\<lambda>i x. embed (index_field ''VirtualHosts'' i) (VirtualHost_validate V) x)
         (RouteConfiguration_VirtualHosts m),
     embed ''Vhds'' (Vhds_validate V) (RouteConfiguration_Vhds m),
     each (\<lambda>i x. check (\<not> matches_no_control x)
         (index_field ''InternalOnlyHeaders'' i) no_control_reason)
             (RouteConfiguration_InternalOnlyHeaders m),
     check (length (RouteConfiguration_ResponseHeadersToAdd m) > 1000) ''ResponseHeadersToAdd''
         ''value must contain no more than 1000 item(s)'',
     each (\<lambda>i x. embed (index_field ''ResponseHeadersToAdd'' i) HeaderValueOption_validate
         x)
         (RouteConfiguration_ResponseHeadersToAdd m),
     each (\<lambda>i x. check (\<not> matches_no_control x)
         (index_field ''ResponseHeadersToRemove'' i) no_control_reason)
             (RouteConfiguration_ResponseHeadersToRemove m),
     check (length (RouteConfiguration_RequestHeadersToAdd m) > 1000) ''RequestHeadersToAdd''
         ''value must contain no more than 1000 item(s)'',
     each (\<lambda>i x. embed (index_field ''RequestHeadersToAdd'' i) HeaderValueOption_validate x)
         (RouteConfiguration_RequestHeadersToAdd m),
     each (\<lambda>i x. check (\<not> matches_no_control x)
         (index_field ''RequestHeadersToRemove'' i) no_control_reason)
             (RouteConfiguration_RequestHeadersToRemove m),
     each (\<lambda>i x.
         embed (index_field ''ClusterSpecifierPlugins'' i) ClusterSpecifierPlugin_validate x)
         (RouteConfiguration_ClusterSpecifierPlugins m),
     each (\<lambda>i x.
         embed (index_field ''RequestMirrorPolicies'' i) RouteAction_RequestMirrorPolicy_validate
             x) (RouteConfiguration_RequestMirrorPolicies m),
     embed ''Metadata'' Metadata_validate (RouteConfiguration_Metadata m)])"

datatype oneof_ScopedRouteConfiguration_Key_Fragment_Type =
    ScopedRouteConfiguration_Key_Fragment_StringKey "string option"

record ScopedRouteConfiguration_Key_Fragment =
  ScopedRouteConfiguration_Key_Fragment_Type :: "oneof_ScopedRouteConfiguration_Key_Fragment_Type
      option"

definition ScopedRouteConfiguration_Key_Fragment_validate ::
    "ScopedRouteConfiguration_Key_Fragment validator" where
  "ScopedRouteConfiguration_Key_Fragment_validate =
     validate ''ScopedRouteConfiguration_Key_Fragment'' (\<lambda>m. [
     (case ScopedRouteConfiguration_Key_Fragment_Type m of
         None \<Rightarrow> skip
       | Some (ScopedRouteConfiguration_Key_Fragment_StringKey w) \<Rightarrow> oneof_unread
           ''Type'' w),
     check (ScopedRouteConfiguration_Key_Fragment_Type m = None) ''Type'' ''value is required''])"

record ScopedRouteConfiguration_Key =
  ScopedRouteConfiguration_Key_Fragments :: "ScopedRouteConfiguration_Key_Fragment option list"

definition ScopedRouteConfiguration_Key_validate :: "ScopedRouteConfiguration_Key validator" where
  "ScopedRouteConfiguration_Key_validate = validate ''ScopedRouteConfiguration_Key'' (\<lambda>m. [
     check (length (ScopedRouteConfiguration_Key_Fragments m) < 1) ''Fragments''
         ''value must contain at least 1 item(s)'',
     each (\<lambda>i x.
         embed (index_field ''Fragments'' i) ScopedRouteConfiguration_Key_Fragment_validate x)
         (ScopedRouteConfiguration_Key_Fragments m)])"

record ScopedRouteConfiguration =
  ScopedRouteConfiguration_OnDemand :: "bool"
  ScopedRouteConfiguration_Name :: "string"
  ScopedRouteConfiguration_RouteConfigurationName :: "string"
  ScopedRouteConfiguration_RouteConfiguration :: "RouteConfiguration option"
  ScopedRouteConfiguration_Key :: "ScopedRouteConfiguration_Key option"

definition ScopedRouteConfiguration_validate ::
    "vlib \<Rightarrow> ScopedRouteConfiguration validator" where
  "ScopedRouteConfiguration_validate V = validate ''ScopedRouteConfiguration'' (\<lambda>m. [
     check (RuneCountInString (ScopedRouteConfiguration_Name m) < 1) ''Name''
         ''value length must be at least 1 runes'',
     embed ''RouteConfiguration''
         (RouteConfiguration_validate V) (ScopedRouteConfiguration_RouteConfiguration m),
     check (ScopedRouteConfiguration_Key m = None) ''Key'' ''value is required'',
     embed ''Key'' ScopedRouteConfiguration_Key_validate (ScopedRouteConfiguration_Key m)])"

end
