(* ===== verification/RouteLaws.thy ===== *)
theory RouteLaws
  imports ClusterLaws RouteValidation
begin

text \<open>
  The two modes of the validation functions of route configurations agree.
\<close>

lemma lawful_route_1 [lawful_intros]:
  "lawful DoubleMatcher_validate" "lawful MetadataMatcher_PathSegment_validate"
  "vlib_lawful V \<Longrightarrow> lawful (CorsPolicy_validate V)" "lawful RedirectAction_validate"
  "vlib_lawful V \<Longrightarrow> lawful (HeaderMatcher_validate V)"
  "vlib_lawful V \<Longrightarrow> lawful (QueryParameterMatcher_validate V)"
  "lawful WeightedCluster_ClusterWeight_validate" "lawful Route_RetryPolicy_RetryPriority_validate"
  "lawful Route_RetryPolicy_RetryHostPredicate_validate"
  "lawful ScopedRouteConfiguration_Key_Fragment_validate"
  unfolding DoubleMatcher_validate_def MetadataMatcher_PathSegment_validate_def CorsPolicy_validate_def
    RedirectAction_validate_def HeaderMatcher_validate_def QueryParameterMatcher_validate_def
    WeightedCluster_ClusterWeight_validate_def Route_RetryPolicy_RetryPriority_validate_def
    Route_RetryPolicy_RetryHostPredicate_validate_def
    ScopedRouteConfiguration_Key_Fragment_validate_def
  by (auto intro!: lawful_intros split:
    oneof_DoubleMatcher_MatchPattern.split oneof_MetadataMatcher_PathSegment_Segment.split
    oneof_CorsPolicy_EnabledSpecifier.split oneof_RedirectAction_SchemeRewriteSpecifier.split
    oneof_RedirectAction_PathRewriteSpecifier.split oneof_HeaderMatcher_HeaderMatchSpecifier.split
    oneof_QueryParameterMatcher_QueryParameterMatchSpecifier.split
    oneof_WeightedCluster_ClusterWeight_HostRewriteSpecifier.split
    oneof_Route_RetryPolicy_RetryPriority_ConfigType.split
    oneof_Route_RetryPolicy_RetryHostPredicate_ConfigType.split
    oneof_ScopedRouteConfiguration_Key_Fragment_Type.split)

lemma lawful_route_2 [lawful_intros]:
  "lawful ValueMatcher_NullMatch_validate"
  "vlib_lawful V \<Longrightarrow> lawful (AddressMatcher_validate V)"
  "lawful CustomTag_Literal_validate" "lawful CustomTag_Environment_validate"
  "lawful CustomTag_Header_validate" "lawful CustomTag_Metadata_validate"
  "lawful FilterAction_validate" "lawful ClusterSpecifierPlugin_validate"
  "lawful HedgePolicy_validate" "lawful DirectResponseAction_validate"
  unfolding ValueMatcher_NullMatch_validate_def AddressMatcher_validate_def CustomTag_Literal_validate_def
    CustomTag_Environment_validate_def CustomTag_Header_validate_def CustomTag_Metadata_validate_def
    FilterAction_validate_def ClusterSpecifierPlugin_validate_def HedgePolicy_validate_def
    DirectResponseAction_validate_def
  by (auto intro!: lawful_intros)

lemma lawful_route_3 [lawful_intros]:
  "lawful NonForwardingAction_validate" "lawful Decorator_validate"
  "lawful InternalRedirectPolicy_validate" "lawful FilterConfig_validate"
  "lawful RouteMatch_GrpcRouteMatchOptions_validate"
  "lawful RouteMatch_TlsContextMatchOptions_validate" "lawful RouteMatch_ConnectMatcher_validate"
  "lawful RouteAction_RequestMirrorPolicy_validate" "lawful RouteAction_MaxStreamDuration_validate"
  "lawful RouteAction_HashPolicy_Header_validate"
  unfolding NonForwardingAction_validate_def Decorator_validate_def InternalRedirectPolicy_validate_def
    FilterConfig_validate_def RouteMatch_GrpcRouteMatchOptions_validate_def
    RouteMatch_TlsContextMatchOptions_validate_def RouteMatch_ConnectMatcher_validate_def
    RouteAction_RequestMirrorPolicy_validate_def RouteAction_MaxStreamDuration_validate_def
    RouteAction_HashPolicy_Header_validate_def
  by (auto intro!: lawful_intros)

lemma lawful_route_4 [lawful_intros]:
  "lawful RouteAction_HashPolicy_CookieAttribute_validate"
  "lawful RouteAction_HashPolicy_ConnectionProperties_validate"
  "lawful RouteAction_HashPolicy_QueryParameter_validate"
  "lawful RouteAction_HashPolicy_FilterState_validate"
  "lawful RouteAction_UpgradeConfig_ConnectConfig_validate"
  "vlib_lawful V \<Longrightarrow> lawful (RetryPolicy_RetryBackOff_validate V)"
  "lawful RetryPolicy_ResetHeader_validate" "lawful RateLimit_HitsAddend_validate"
  "lawful RateLimit_Action_SourceCluster_validate"
  "lawful RateLimit_Action_DestinationCluster_validate"
  unfolding RouteAction_HashPolicy_CookieAttribute_validate_def
    RouteAction_HashPolicy_ConnectionProperties_validate_def
    RouteAction_HashPolicy_QueryParameter_validate_def
    RouteAction_HashPolicy_FilterState_validate_def
    RouteAction_UpgradeConfig_ConnectConfig_validate_def RetryPolicy_RetryBackOff_validate_def
    RetryPolicy_ResetHeader_validate_def RateLimit_HitsAddend_validate_def
    RateLimit_Action_SourceCluster_validate_def RateLimit_Action_DestinationCluster_validate_def
  by (auto intro!: lawful_intros)

lemma lawful_route_5 [lawful_intros]:
  "lawful RateLimit_Action_RequestHeaders_validate"
  "lawful RateLimit_Action_QueryParameters_validate"
  "lawful RateLimit_Action_RemoteAddress_validate"
  "lawful RateLimit_Action_MaskedRemoteAddress_validate"
  "lawful RateLimit_Action_GenericKey_validate" "lawful RateLimit_Action_DynamicMetaData_validate"
  "lawful RateLimit_Action_MetaData_validate" "lawful RateLimit_Override_DynamicMetadata_validate"
  "vlib_lawful V \<Longrightarrow> lawful (Vhds_validate V)"
  unfolding RateLimit_Action_RequestHeaders_validate_def RateLimit_Action_QueryParameters_validate_def
    RateLimit_Action_RemoteAddress_validate_def RateLimit_Action_MaskedRemoteAddress_validate_def
    RateLimit_Action_GenericKey_validate_def RateLimit_Action_DynamicMetaData_validate_def
    RateLimit_Action_MetaData_validate_def RateLimit_Override_DynamicMetadata_validate_def
    Vhds_validate_def
  by (auto intro!: lawful_intros)

lemma lawful_valueMatcher [lawful_intros]:
  assumes "vlib_lawful V"
  shows "lawful (ValueMatcher_validate V)" "lawful (ListMatcher_validate V)"
    "lawful (OrMatcher_validate V)"
proof -
  have "vlib_lawful V \<Longrightarrow> lawful_at (ValueMatcher_validate V) m"
    and "vlib_lawful V \<Longrightarrow> lawful_at (ListMatcher_validate V) l"
    and "vlib_lawful V \<Longrightarrow> lawful_at (OrMatcher_validate V) k" for m l k and all :: bool
  proof (induction V all m and V all l and V all k rule:
      ValueMatcher_validate_ListMatcher_validate_OrMatcher_validate.induct)
    case (1 V all m)
    show ?case
      by (rule lawful_at_cong, rule ValueMatcher_validate.simps, rule lawful_at_validate)
        (auto intro!: lawful_oneof_case lawful_embed lawful_each lawful_check lawful_skip
          intro: 1 lawful_intros split: option.split oneof_ValueMatcher_MatchPattern.split oneof_ListMatcher_MatchPattern.split)
  next
    case (2 V all m)
    show ?case
      by (rule lawful_at_cong, rule ListMatcher_validate.simps, rule lawful_at_validate)
        (auto intro!: lawful_oneof_case lawful_embed lawful_each lawful_check lawful_skip
          intro: 2 lawful_intros split: option.split oneof_ValueMatcher_MatchPattern.split oneof_ListMatcher_MatchPattern.split)
  next
    case (3 V all m)
    show ?case
      by (rule lawful_at_cong, rule OrMatcher_validate.simps, rule lawful_at_validate)
        (auto intro!: lawful_oneof_case lawful_embed lawful_each lawful_check lawful_skip
          intro: 3 lawful_intros split: option.split oneof_ValueMatcher_MatchPattern.split oneof_ListMatcher_MatchPattern.split)
  qed
  then show "lawful (ValueMatcher_validate V)" "lawful (ListMatcher_validate V)"
    "lawful (OrMatcher_validate V)"
    using assms by (simp_all add: lawful_def)
qed

lemma lawful_route_6 [lawful_intros]:
  "vlib_lawful V \<Longrightarrow> lawful (FilterStateMatcher_validate V)"
  "lawful CustomTag_validate" "lawful WeightedCluster_validate" "lawful RateLimit_Override_validate"
  "vlib_lawful V \<Longrightarrow> lawful (VirtualCluster_validate V)"
  "lawful RouteAction_UpgradeConfig_validate" "lawful RouteAction_HashPolicy_Cookie_validate"
  "vlib_lawful V \<Longrightarrow> lawful (RetryPolicy_RateLimitedRetryBackOff_validate V)"
  "vlib_lawful V \<Longrightarrow> lawful (RateLimit_Action_HeaderValueMatch_validate V)"
  "vlib_lawful V \<Longrightarrow> lawful (RateLimit_Action_QueryParameterValueMatch_validate V)"
  unfolding FilterStateMatcher_validate_def CustomTag_validate_def WeightedCluster_validate_def
    RateLimit_Override_validate_def VirtualCluster_validate_def
    RouteAction_UpgradeConfig_validate_def RouteAction_HashPolicy_Cookie_validate_def
    RetryPolicy_RateLimitedRetryBackOff_validate_def RateLimit_Action_HeaderValueMatch_validate_def
    RateLimit_Action_QueryParameterValueMatch_validate_def
  by (auto intro!: lawful_intros split:
    oneof_FilterStateMatcher_Matcher.split oneof_CustomTag_Type.split
    oneof_WeightedCluster_RandomValueSpecifier.split
    oneof_RateLimit_Override_OverrideSpecifier.split)

lemma lawful_route_7 [lawful_intros]:
  "lawful ScopedRouteConfiguration_Key_validate"
  unfolding ScopedRouteConfiguration_Key_validate_def
  by (auto intro!: lawful_intros)

lemma lawful_route_8 [lawful_intros]:
  "lawful RouteAction_HashPolicy_validate"
  "vlib_lawful V \<Longrightarrow> lawful (RateLimit_Action_validate V)"
  "vlib_lawful V \<Longrightarrow> lawful (MetadataMatcher_validate V)"
  "vlib_lawful V \<Longrightarrow> lawful (Route_RetryPolicy_validate V)" "lawful Tracing_validate"
  unfolding RouteAction_HashPolicy_validate_def RateLimit_Action_validate_def MetadataMatcher_validate_def
    Route_RetryPolicy_validate_def Tracing_validate_def
  by (auto intro!: lawful_intros split:
    oneof_RouteAction_HashPolicy_PolicySpecifier.split oneof_RateLimit_Action_ActionSpecifier.split)

lemma lawful_route_9 [lawful_intros]:
  "vlib_lawful V \<Longrightarrow> lawful (RouteMatch_validate V)"
  "vlib_lawful V \<Longrightarrow> lawful (RateLimit_validate V)"
  unfolding RouteMatch_validate_def RateLimit_validate_def
  by (auto intro!: lawful_intros split:
    oneof_RouteMatch_PathSpecifier.split)

lemma lawful_route_10 [lawful_intros]:
  "vlib_lawful V \<Longrightarrow> lawful (RouteAction_validate V)"
  unfolding RouteAction_validate_def
  by (auto intro!: lawful_intros split:
    oneof_RouteAction_ClusterSpecifier.split oneof_RouteAction_HostRewriteSpecifier.split)

lemma lawful_route_11 [lawful_intros]:
  "vlib_lawful V \<Longrightarrow> lawful (Route_validate V)"
  unfolding Route_validate_def
  by (auto intro!: lawful_intros split:
    oneof_Route_Action.split)

lemma lawful_route_12 [lawful_intros]:
  "vlib_lawful V \<Longrightarrow> lawful (VirtualHost_validate V)"
  "vlib_lawful V \<Longrightarrow> lawful (RouteList_validate V)"
  unfolding VirtualHost_validate_def RouteList_validate_def
  by (auto intro!: lawful_intros)

lemma lawful_route_13 [lawful_intros]:
  "vlib_lawful V \<Longrightarrow> lawful (RouteConfiguration_validate V)"
  unfolding RouteConfiguration_validate_def
  by (auto intro!: lawful_intros)

lemma lawful_route_14 [lawful_intros]:
  "vlib_lawful V \<Longrightarrow> lawful (ScopedRouteConfiguration_validate V)"
  unfolding ScopedRouteConfiguration_validate_def
  by (auto intro!: lawful_intros)

end
