(* ===== verification/ListenerValidation.thy ===== *)
theory ListenerValidation
  imports RouteValidation ProtocolValidation
begin

text \<open>
  Validation of listeners (\<open>envoy/config/listener/v3\<close>) with their access logs
  (\<open>envoy/config/accesslog/v3\<close>): filters and filter chains, up to
      \<open>Listener\<close>.  Access log filters and the
  predicates of listener filters are recursive messages.
\<close>

record ComparisonFilter =
  ComparisonFilter_Op :: "32 word"
  ComparisonFilter_Value :: "RuntimeUInt32 option"

definition ComparisonFilter_Op_name :: "(32 word, string) gomap" where
  "ComparisonFilter_Op_name = [(0, ''EQ''), (1, ''GE''), (2, ''LE'')]"

definition ComparisonFilter_validate :: "ComparisonFilter validator" where
  "ComparisonFilter_validate = validate ''ComparisonFilter'' (\<lambda>m. [
     check (mget ComparisonFilter_Op_name (ComparisonFilter_Op m) = None) ''Op''
         ''value must be one of the defined enum values'',
     check (ComparisonFilter_Value m = None) ''Value'' ''value is required'',
     embed ''Value'' RuntimeUInt32_validate (ComparisonFilter_Value m)])"

record StatusCodeFilter =
  StatusCodeFilter_Comparison :: "ComparisonFilter option"

definition StatusCodeFilter_validate :: "StatusCodeFilter validator" where
  "StatusCodeFilter_validate = validate ''StatusCodeFilter'' (\<lambda>m. [
     check (StatusCodeFilter_Comparison m = None) ''Comparison'' ''value is required'',
     embed ''Comparison'' ComparisonFilter_validate (StatusCodeFilter_Comparison m)])"

record DurationFilter =
  DurationFilter_Comparison :: "ComparisonFilter option"

definition DurationFilter_validate :: "DurationFilter validator" where
  "DurationFilter_validate = validate ''DurationFilter'' (\<lambda>m. [
     check (DurationFilter_Comparison m = None) ''Comparison'' ''value is required'',
     embed ''Comparison'' ComparisonFilter_validate (DurationFilter_Comparison m)])"

datatype NotHealthCheckFilter = empty_NotHealthCheckFilter

definition NotHealthCheckFilter_validate :: "NotHealthCheckFilter validator" where
  "NotHealthCheckFilter_validate = validate ''NotHealthCheckFilter'' (\<lambda>m. [])"

datatype TraceableFilter = empty_TraceableFilter

definition TraceableFilter_validate :: "TraceableFilter validator" where
  "TraceableFilter_validate = validate ''TraceableFilter'' (\<lambda>m. [])"

record RuntimeFilter =
  RuntimeFilter_RuntimeKey :: "string"
  RuntimeFilter_PercentSampled :: "FractionalPercent option"
  RuntimeFilter_UseIndependentRandomness :: "bool"

definition RuntimeFilter_validate :: "RuntimeFilter validator" where
  "RuntimeFilter_validate = validate ''RuntimeFilter'' (\<lambda>m. [
     check (RuneCountInString (RuntimeFilter_RuntimeKey m) < 1) ''RuntimeKey''
         ''value length must be at least 1 runes'',
     embed ''PercentSampled'' FractionalPercent_validate (RuntimeFilter_PercentSampled m)])"

record HeaderFilter =
  HeaderFilter_Header :: "HeaderMatcher option"

definition HeaderFilter_validate :: "vlib \<Rightarrow> HeaderFilter validator" where
  "HeaderFilter_validate V = validate ''HeaderFilter'' (\<lambda>m. [
     check (HeaderFilter_Header m = None) ''Header'' ''value is required'',
     embed ''Header'' (HeaderMatcher_validate V) (HeaderFilter_Header m)])"

record ResponseFlagFilter =
  ResponseFlagFilter_Flags :: "string list"

definition ResponseFlagFilter_Flags_InLookup :: "string list" where
  "ResponseFlagFilter_Flags_InLookup = [''LH'', ''UH'', ''UT'', ''LR'', ''UR'', ''UF'', ''UC'',
      ''UO'', ''NR'', ''DI'', ''FI'',
      ''RL'', ''UAEX'', ''RLSE'', ''DC'', ''URX'', ''SI'', ''IH'', ''DPE'', ''UMSDR'',
      ''RFCF'', ''NFCF'', ''DT'', ''UPE'', ''NC'', ''OM'', ''DF'', ''DO'', ''DR'', ''UDO'']"

definition ResponseFlagFilter_validate :: "ResponseFlagFilter validator" where
  "ResponseFlagFilter_validate = validate ''ResponseFlagFilter'' (\<lambda>m. [
     each (\<lambda>i x.
         check (x \<notin> set ResponseFlagFilter_Flags_InLookup) (index_field ''Flags'' i)
         ''value must be in list [LH UH UT LR UR UF UC UO NR DI FI RL UAEX RLSE DC URX SI IH DPE UMSDR RFCF NFCF DT UPE NC OM DF DO DR UDO]'') (ResponseFlagFilter_Flags m)])"

record GrpcStatusFilter =
  GrpcStatusFilter_Statuses :: "32 word list"
  GrpcStatusFilter_Exclude :: "bool"

definition GrpcStatusFilter_Status_name :: "(32 word, string) gomap" where
  "GrpcStatusFilter_Status_name = [(0, ''OK''), (1, ''CANCELED''), (2, ''UNKNOWN''),
      (3, ''INVALID_ARGUMENT''), (4,
      ''DEADLINE_EXCEEDED''), (5, ''NOT_FOUND''), (6, ''ALREADY_EXISTS''), (7,
      ''PERMISSION_DENIED''), (8, ''RESOURCE_EXHAUSTED''), (9, ''FAILED_PRECONDITION''), (10,
      ''ABORTED''), (11, ''OUT_OF_RANGE''), (12, ''UNIMPLEMENTED''), (13, ''INTERNAL''), (14,
      ''UNAVAILABLE''), (15, ''DATA_LOSS''), (16, ''UNAUTHENTICATED'')]"

definition GrpcStatusFilter_validate :: "GrpcStatusFilter validator" where
  "GrpcStatusFilter_validate = validate ''GrpcStatusFilter'' (\<lambda>m. [
     each (\<lambda>i x.
         check (mget GrpcStatusFilter_Status_name x = None) (index_field ''Statuses'' i)
         ''value must be one of the defined enum values'') (GrpcStatusFilter_Statuses m)])"

datatype oneof_ExtensionFilter_ConfigType =
    ExtensionFilter_TypedConfig "(bytes option) option"

record ExtensionFilter =
  ExtensionFilter_Name :: "string"
  ExtensionFilter_ConfigType :: "oneof_ExtensionFilter_ConfigType option"

definition ExtensionFilter_validate :: "ExtensionFilter validator" where
  "ExtensionFilter_validate = validate ''ExtensionFilter'' (\<lambda>m. [
     (case ExtensionFilter_ConfigType m of
         None \<Rightarrow> skip
       | Some (ExtensionFilter_TypedConfig w) \<Rightarrow> oneof_case ''ConfigType'' w
           (\<lambda>v. skip))])"

record MetadataFilter =
  MetadataFilter_Matcher :: "MetadataMatcher option"
  MetadataFilter_MatchIfKeyNotFound :: "bool option"

definition MetadataFilter_validate :: "vlib \<Rightarrow> MetadataFilter validator" where
  "MetadataFilter_validate V = validate ''MetadataFilter'' (\<lambda>m. [
     embed ''Matcher'' (MetadataMatcher_validate V) (MetadataFilter_Matcher m)])"

record LogTypeFilter =
  LogTypeFilter_Types :: "32 word list"
  LogTypeFilter_Exclude :: "bool"

definition AccessLogType_name :: "(32 word, string) gomap" where
  "AccessLogType_name = [(0, ''NotSet''), (1, ''TcpUpstreamConnected''), (2, ''TcpPeriodic''), (3,
      ''TcpConnectionEnd''), (4, ''DownstreamStart''), (5, ''DownstreamPeriodic''), (6,
      ''DownstreamEnd''), (7, ''UpstreamPoolReady''), (8, ''UpstreamPeriodic''), (9,
      ''UpstreamEnd''), (10, ''DownstreamTunnelSuccessfullyEstablished''), (11,
      ''UdpTunnelUpstreamConnected''), (12, ''UdpPeriodic''), (13, ''UdpSessionEnd'')]"

definition LogTypeFilter_validate :: "LogTypeFilter validator" where
  "LogTypeFilter_validate = validate ''LogTypeFilter'' (\<lambda>m. [
     each (\<lambda>i x. check (mget AccessLogType_name x = None) (index_field ''Types'' i)
         ''value must be one of the defined enum values'') (LogTypeFilter_Types m)])"

datatype oneof_AccessLogFilter_FilterSpecifier =
    AccessLogFilter_StatusCodeFilter "(StatusCodeFilter option) option"
  | AccessLogFilter_DurationFilter "(DurationFilter option) option"
  | AccessLogFilter_NotHealthCheckFilter "(NotHealthCheckFilter option) option"
  | AccessLogFilter_TraceableFilter "(TraceableFilter option) option"
  | AccessLogFilter_RuntimeFilter "(RuntimeFilter option) option"
  | AccessLogFilter_AndFilter "(AndFilter option) option"
  | AccessLogFilter_OrFilter "(OrFilter option) option"
  | AccessLogFilter_HeaderFilter "(HeaderFilter option) option"
  | AccessLogFilter_ResponseFlagFilter "(ResponseFlagFilter option) option"
  | AccessLogFilter_GrpcStatusFilter "(GrpcStatusFilter option) option"
  | AccessLogFilter_ExtensionFilter "(ExtensionFilter option) option"
  | AccessLogFilter_MetadataFilter "(MetadataFilter option) option"
  | AccessLogFilter_LogTypeFilter "(LogTypeFilter option) option"
and AccessLogFilter =
    AccessLogFilter
      (AccessLogFilter_FilterSpecifier: "oneof_AccessLogFilter_FilterSpecifier option")
and AndFilter =
    AndFilter
      (AndFilter_Filters: "AccessLogFilter option list")
and OrFilter =
    OrFilter
      (OrFilter_Filters: "AccessLogFilter option list")

function AccessLogFilter_validate :: "vlib \<Rightarrow> AccessLogFilter validator"
  and AndFilter_validate :: "vlib \<Rightarrow> AndFilter validator"
  and OrFilter_validate :: "vlib \<Rightarrow> OrFilter validator" where
  "AccessLogFilter_validate V all m = validate ''AccessLogFilter'' (\<lambda>m. [
     (case AccessLogFilter_FilterSpecifier m of
         None \<Rightarrow> skip
       | Some (AccessLogFilter_StatusCodeFilter w) \<Rightarrow> oneof_case ''FilterSpecifier'' w
           (\<lambda>v. embed ''StatusCodeFilter'' StatusCodeFilter_validate v)
       | Some (AccessLogFilter_DurationFilter w) \<Rightarrow> oneof_case ''FilterSpecifier'' w
           (\<lambda>v. embed ''DurationFilter'' DurationFilter_validate v)
       | Some (AccessLogFilter_NotHealthCheckFilter w) \<Rightarrow>
           oneof_case ''FilterSpecifier'' w (\<lambda>v.
           embed ''NotHealthCheckFilter'' NotHealthCheckFilter_validate v)
       | Some (AccessLogFilter_TraceableFilter w) \<Rightarrow> oneof_case ''FilterSpecifier'' w
           (\<lambda>v. embed ''TraceableFilter'' TraceableFilter_validate v)
       | Some (AccessLogFilter_RuntimeFilter w) \<Rightarrow> oneof_case ''FilterSpecifier'' w
           (\<lambda>v. embed ''RuntimeFilter'' RuntimeFilter_validate v)
       | Some (AccessLogFilter_AndFilter w) \<Rightarrow> oneof_case ''FilterSpecifier'' w
           (\<lambda>v. embed ''AndFilter'' (AndFilter_validate V) v)
       | Some (AccessLogFilter_OrFilter w) \<Rightarrow> oneof_case ''FilterSpecifier'' w
           (\<lambda>v. embed ''OrFilter'' (OrFilter_validate V) v)
       | Some (AccessLogFilter_HeaderFilter w) \<Rightarrow> oneof_case ''FilterSpecifier'' w
           (\<lambda>v. embed ''HeaderFilter'' (HeaderFilter_validate V) v)
       | Some (AccessLogFilter_ResponseFlagFilter w) \<Rightarrow>
           oneof_case ''FilterSpecifier'' w (\<lambda>v.
           embed ''ResponseFlagFilter'' ResponseFlagFilter_validate v)
       | Some (AccessLogFilter_GrpcStatusFilter w) \<Rightarrow> oneof_case ''FilterSpecifier'' w
           (\<lambda>v. embed ''GrpcStatusFilter'' GrpcStatusFilter_validate v)
       | Some (AccessLogFilter_ExtensionFilter w) \<Rightarrow> oneof_case ''FilterSpecifier'' w
           (\<lambda>v. embed ''ExtensionFilter'' ExtensionFilter_validate v)
       | Some (AccessLogFilter_MetadataFilter w) \<Rightarrow> oneof_case ''FilterSpecifier'' w
           (\<lambda>v. embed ''MetadataFilter'' (MetadataFilter_validate V) v)
       | Some (AccessLogFilter_LogTypeFilter w) \<Rightarrow> oneof_case ''FilterSpecifier'' w
           (\<lambda>v. embed ''LogTypeFilter'' LogTypeFilter_validate v)),
     check (AccessLogFilter_FilterSpecifier m = None) ''FilterSpecifier'' ''value is required''])
         all m"
| "AndFilter_validate V all m = validate ''AndFilter'' (\<lambda>m. [
     check (length (AndFilter_Filters m) < 2) ''Filters'' ''value must contain at least 2 item(s)'',
     each (\<lambda>i x. embed (index_field ''Filters'' i) (AccessLogFilter_validate V) x)
         (AndFilter_Filters m)]) all m"
| "OrFilter_validate V all m = validate ''OrFilter'' (\<lambda>m. [
     check (length (OrFilter_Filters m) < 2) ''Filters'' ''value must contain at least 2 item(s)'',
     each (\<lambda>i x. embed (index_field ''Filters'' i) (AccessLogFilter_validate V) x)
         (OrFilter_Filters m)]) all m"
  by pat_completeness auto

termination
  by (relation "measure (case_sum (\<lambda>(V, all, m). size_option size m)
      (case_sum (\<lambda>(V, all, m). size_option size m)
      (\<lambda>(V, all, m). size_option size m)))")
    (simp, (case_tac x; auto dest: size_in_list)+)

declare AccessLogFilter_validate.simps [simp del]
declare AndFilter_validate.simps [simp del]
declare OrFilter_validate.simps [simp del]

datatype oneof_AccessLog_ConfigType =
    AccessLog_TypedConfig "(bytes option) option"

record AccessLog =
  AccessLog_Name :: "string"
  AccessLog_Filter :: "AccessLogFilter option"
  AccessLog_ConfigType :: "oneof_AccessLog_ConfigType option"

definition AccessLog_validate :: "vlib \<Rightarrow> AccessLog validator" where
  "AccessLog_validate V = validate ''AccessLog'' (\<lambda>m. [
     embed ''Filter'' (AccessLogFilter_validate V) (AccessLog_Filter m),
     (case AccessLog_ConfigType m of
         None \<Rightarrow> skip
       | Some (AccessLog_TypedConfig w) \<Rightarrow> oneof_case ''ConfigType'' w
           (\<lambda>v. skip))])"

record SocketCmsgHeaders =
  SocketCmsgHeaders_Level :: "32 word option"
  SocketCmsgHeaders_Type :: "32 word option"
  SocketCmsgHeaders_ExpectedSize :: "32 word"

definition SocketCmsgHeaders_validate :: "SocketCmsgHeaders validator" where
  "SocketCmsgHeaders_validate = validate ''SocketCmsgHeaders'' (\<lambda>m. [])"

record UdpSocketConfig =
  UdpSocketConfig_MaxRxDatagramSize :: "64 word option"
  UdpSocketConfig_PreferGro :: "bool option"

definition UdpSocketConfig_validate :: "UdpSocketConfig validator" where
  "UdpSocketConfig_validate = validate ''UdpSocketConfig'' (\<lambda>m. [
     (case UdpSocketConfig_MaxRxDatagramSize m of None \<Rightarrow> skip | Some w \<Rightarrow>
         check (w \<le> 0 \<or> w \<ge> 65536) ''MaxRxDatagramSize''
         ''value must be inside range (0, 65536)'')])"

record ApiListener =
  ApiListener_ApiListener :: "bytes option"

definition ApiListener_validate :: "ApiListener validator" where
  "ApiListener_validate = validate ''ApiListener'' (\<lambda>m. [])"

record Listener_QuicProtocolOptions =
  Listener_QuicProtocolOptions_QuicProtocolOptions :: "QuicProtocolOptions option"
  Listener_QuicProtocolOptions_IdleTimeout :: "Duration option"
  Listener_QuicProtocolOptions_CryptoHandshakeTimeout :: "Duration option"
  Listener_QuicProtocolOptions_Enabled :: "RuntimeFeatureFlag option"
  Listener_QuicProtocolOptions_PacketsToReadToConnectionCountRatio :: "32 word option"
  Listener_QuicProtocolOptions_CryptoStreamConfig :: "TypedExtensionConfig option"
  Listener_QuicProtocolOptions_ProofSourceConfig :: "TypedExtensionConfig option"
  Listener_QuicProtocolOptions_ConnectionIdGeneratorConfig :: "TypedExtensionConfig option"
  Listener_QuicProtocolOptions_ServerPreferredAddressConfig :: "TypedExtensionConfig option"
  Listener_QuicProtocolOptions_SendDisableActiveMigration :: "bool option"
  Listener_QuicProtocolOptions_ConnectionDebugVisitorConfig :: "TypedExtensionConfig option"
  Listener_QuicProtocolOptions_SaveCmsgConfig :: "SocketCmsgHeaders option list"
  Listener_QuicProtocolOptions_RejectNewConnections :: "bool"

definition Listener_QuicProtocolOptions_validate ::
    "vlib \<Rightarrow> Listener_QuicProtocolOptions validator" where
  "Listener_QuicProtocolOptions_validate V = validate ''QuicProtocolOptions'' (\<lambda>m. [
     embed ''QuicProtocolOptions''
         (QuicProtocolOptions_validate V) (Listener_QuicProtocolOptions_QuicProtocolOptions m),
     embed ''Enabled'' RuntimeFeatureFlag_validate (Listener_QuicProtocolOptions_Enabled m),
     (case Listener_QuicProtocolOptions_PacketsToReadToConnectionCountRatio m of None \<Rightarrow>
         skip | Some w \<Rightarrow> check (w < 1) ''PacketsToReadToConnectionCountRatio''
         ''value must be greater than or equal to 1''),
     embed ''CryptoStreamConfig'' TypedExtensionConfig_validate
         (Listener_QuicProtocolOptions_CryptoStreamConfig m),
     embed ''ProofSourceConfig'' TypedExtensionConfig_validate
         (Listener_QuicProtocolOptions_ProofSourceConfig m),
     embed ''ConnectionIdGeneratorConfig'' TypedExtensionConfig_validate
         (Listener_QuicProtocolOptions_ConnectionIdGeneratorConfig m),
     embed ''ServerPreferredAddressConfig'' TypedExtensionConfig_validate
         (Listener_QuicProtocolOptions_ServerPreferredAddressConfig m),
     embed ''ConnectionDebugVisitorConfig'' TypedExtensionConfig_validate
         (Listener_QuicProtocolOptions_ConnectionDebugVisitorConfig m),
     check (length (Listener_QuicProtocolOptions_SaveCmsgConfig m) > 1) ''SaveCmsgConfig''
         ''value must contain no more than 1 item(s)'',
     each (\<lambda>i x. embed (index_field ''SaveCmsgConfig'' i) SocketCmsgHeaders_validate x)
         (Listener_QuicProtocolOptions_SaveCmsgConfig m)])"

record UdpListenerConfig =
  UdpListenerConfig_DownstreamSocketConfig :: "UdpSocketConfig option"
  UdpListenerConfig_QuicOptions :: "Listener_QuicProtocolOptions option"
  UdpListenerConfig_UdpPacketPacketWriterConfig :: "TypedExtensionConfig option"

definition UdpListenerConfig_validate :: "vlib \<Rightarrow> UdpListenerConfig validator" where
  "UdpListenerConfig_validate V = validate ''UdpListenerConfig'' (\<lambda>m. [
     embed ''DownstreamSocketConfig'' UdpSocketConfig_validate
         (UdpListenerConfig_DownstreamSocketConfig m),
     embed ''QuicOptions'' (Listener_QuicProtocolOptions_validate V)
         (UdpListenerConfig_QuicOptions m),
     embed ''UdpPacketPacketWriterConfig'' TypedExtensionConfig_validate
         (UdpListenerConfig_UdpPacketPacketWriterConfig m)])"

datatype ActiveRawUdpListenerConfig = empty_ActiveRawUdpListenerConfig

definition ActiveRawUdpListenerConfig_validate :: "ActiveRawUdpListenerConfig validator" where
  "ActiveRawUdpListenerConfig_validate = validate ''ActiveRawUdpListenerConfig'' (\<lambda>m. [])"

datatype oneof_Listener_Filter_ConfigType =
    Filter_TypedConfig "(bytes option) option"
  | Filter_ConfigDiscovery "(ExtensionConfigSource option) option"

record Listener_Filter =
  Listener_Filter_Name :: "string"
  Listener_Filter_ConfigType :: "oneof_Listener_Filter_ConfigType option"

definition Listener_Filter_validate :: "Listener_Filter validator" where
  "Listener_Filter_validate = validate ''Filter'' (\<lambda>m. [
     check (RuneCountInString (Listener_Filter_Name m) < 1) ''Name''
         ''value length must be at least 1 runes'',
     (case Listener_Filter_ConfigType m of
         None \<Rightarrow> skip
       | Some (Filter_TypedConfig w) \<Rightarrow> oneof_case ''ConfigType'' w (\<lambda>v. skip)
       | Some (Filter_ConfigDiscovery w) \<Rightarrow> oneof_case ''ConfigType'' w (\<lambda>v.
           embed ''ConfigDiscovery'' ExtensionConfigSource_validate v))])"

record FilterChainMatch =
  FilterChainMatch_DestinationPort :: "32 word option"
  FilterChainMatch_PrefixRanges :: "CidrRange option list"
  FilterChainMatch_AddressSuffix :: "string"
  FilterChainMatch_SuffixLen :: "32 word option"
  FilterChainMatch_DirectSourcePrefixRanges :: "CidrRange option list"
  FilterChainMatch_SourceType :: "32 word"
  FilterChainMatch_SourcePrefixRanges :: "CidrRange option list"
  FilterChainMatch_SourcePorts :: "32 word list"
  FilterChainMatch_ServerNames :: "string list"
  FilterChainMatch_TransportProtocol :: "string"
  FilterChainMatch_ApplicationProtocols :: "string list"

definition FilterChainMatch_ConnectionSourceType_name :: "(32 word, string) gomap" where
  "FilterChainMatch_ConnectionSourceType_name = [(0, ''ANY''), (1, ''SAME_IP_OR_LOOPBACK''),
      (2, ''EXTERNAL'')]"

definition FilterChainMatch_validate :: "FilterChainMatch validator" where
  "FilterChainMatch_validate = validate ''FilterChainMatch'' (\<lambda>m. [
     (case FilterChainMatch_DestinationPort m of None \<Rightarrow> skip | Some w \<Rightarrow>
         check (w < 1 \<or> w > 65535) ''DestinationPort''
         ''value must be inside range [1, 65535]''),
     each (\<lambda>i x. embed (index_field ''PrefixRanges'' i) CidrRange_validate x)
         (FilterChainMatch_PrefixRanges m),
     each (\<lambda>i x. embed (index_field ''DirectSourcePrefixRanges'' i) CidrRange_validate x)
         (FilterChainMatch_DirectSourcePrefixRanges m),
     check (mget FilterChainMatch_ConnectionSourceType_name (FilterChainMatch_SourceType m) = None)
         ''SourceType'' ''value must be one of the defined enum values'',
     each (\<lambda>i x. embed (index_field ''SourcePrefixRanges'' i) CidrRange_validate x)
         (FilterChainMatch_SourcePrefixRanges m),
     each (\<lambda>i x. check (x < 1 \<or> x > 65535) (index_field ''SourcePorts'' i)
         ''value must be inside range [1, 65535]'') (FilterChainMatch_SourcePorts m)])"

record FilterChainMsg =
  FilterChainMsg_FilterChainMatch :: "FilterChainMatch option"
  FilterChainMsg_Filters :: "Listener_Filter option list"
  FilterChainMsg_UseProxyProto :: "bool option"
  FilterChainMsg_Metadata :: "Metadata option"
  FilterChainMsg_TransportSocket :: "TransportSocket option"
  FilterChainMsg_TransportSocketConnectTimeout :: "Duration option"
  FilterChainMsg_Name :: "string"

definition FilterChainMsg_validate :: "FilterChainMsg validator" where
  "FilterChainMsg_validate = validate ''FilterChain'' (\<lambda>m. [
     embed ''FilterChainMatch'' FilterChainMatch_validate (FilterChainMsg_FilterChainMatch m),
     each (\<lambda>i x. embed (index_field ''Filters'' i) Listener_Filter_validate x)
         (FilterChainMsg_Filters m),
     embed ''Metadata'' Metadata_validate (FilterChainMsg_Metadata m),
     embed ''TransportSocket'' TransportSocket_validate (FilterChainMsg_TransportSocket m)])"

datatype oneof_ListenerFilterChainMatchPredicate_Rule =
    ListenerFilterChainMatchPredicate_OrMatch "(ListenerFilterChainMatchPredicate_MatchSet option)
        option"
  | ListenerFilterChainMatchPredicate_AndMatch "(ListenerFilterChainMatchPredicate_MatchSet option)
      option"
  | ListenerFilterChainMatchPredicate_NotMatch "(ListenerFilterChainMatchPredicate option) option"
  | ListenerFilterChainMatchPredicate_AnyMatch "bool option"
  | ListenerFilterChainMatchPredicate_DestinationPortRange "(Int32Range option) option"
and ListenerFilterChainMatchPredicate =
    ListenerFilterChainMatchPredicate
      (ListenerFilterChainMatchPredicate_Rule: "oneof_ListenerFilterChainMatchPredicate_Rule
          option")
and ListenerFilterChainMatchPredicate_MatchSet =
    ListenerFilterChainMatchPredicate_MatchSet
      (ListenerFilterChainMatchPredicate_MatchSet_Rules: "ListenerFilterChainMatchPredicate option
          list")

function ListenerFilterChainMatchPredicate_validate :: "ListenerFilterChainMatchPredicate validator"
  and ListenerFilterChainMatchPredicate_MatchSet_validate ::
      "ListenerFilterChainMatchPredicate_MatchSet validator" where
  "ListenerFilterChainMatchPredicate_validate all m = validate
      ''ListenerFilterChainMatchPredicate'' (\<lambda>m. [
     (case ListenerFilterChainMatchPredicate_Rule m of
         None \<Rightarrow> skip
       | Some (ListenerFilterChainMatchPredicate_OrMatch w) \<Rightarrow> oneof_case ''Rule'' w
           (\<lambda>v. embed ''OrMatch'' ListenerFilterChainMatchPredicate_MatchSet_validate v)
       | Some (ListenerFilterChainMatchPredicate_AndMatch w) \<Rightarrow> oneof_case ''Rule'' w
           (\<lambda>v. embed ''AndMatch'' ListenerFilterChainMatchPredicate_MatchSet_validate v)
       | Some (ListenerFilterChainMatchPredicate_NotMatch w) \<Rightarrow> oneof_case ''Rule'' w
           (\<lambda>v. embed ''NotMatch'' ListenerFilterChainMatchPredicate_validate v)
       | Some (ListenerFilterChainMatchPredicate_AnyMatch w) \<Rightarrow> oneof_case ''Rule'' w
           (\<lambda>v. check (\<not> v) ''AnyMatch'' ''value must equal true'')
       | Some (ListenerFilterChainMatchPredicate_DestinationPortRange w) \<Rightarrow>
           oneof_case ''Rule'' w (\<lambda>v.
           embed ''DestinationPortRange'' Int32Range_validate v)),
     check (ListenerFilterChainMatchPredicate_Rule m = None) ''Rule'' ''value is required'']) all m"
| "ListenerFilterChainMatchPredicate_MatchSet_validate all m = validate
    ''ListenerFilterChainMatchPredicate_MatchSet'' (\<lambda>m. [
     check (length (ListenerFilterChainMatchPredicate_MatchSet_Rules m) < 2) ''Rules''
         ''value must contain at least 2 item(s)'',
     each (\<lambda>i x. embed (index_field ''Rules'' i) ListenerFilterChainMatchPredicate_validate
         x)
         (ListenerFilterChainMatchPredicate_MatchSet_Rules m)]) all m"
  by pat_completeness auto

termination
  by (relation "measure (case_sum (\<lambda>(all, m). size_option size m)
      (\<lambda>(all, m). size_option size m))")
    (simp, (case_tac x; auto dest: size_in_list)+)

declare ListenerFilterChainMatchPredicate_validate.simps [simp del]
declare ListenerFilterChainMatchPredicate_MatchSet_validate.simps [simp del]

datatype oneof_ListenerFilter_ConfigType =
    ListenerFilter_TypedConfig "(bytes option) option"
  | ListenerFilter_ConfigDiscovery "(ExtensionConfigSource option) option"

record ListenerFilter =
  ListenerFilter_Name :: "string"
  ListenerFilter_ConfigType :: "oneof_ListenerFilter_ConfigType option"
  ListenerFilter_FilterDisabled :: "ListenerFilterChainMatchPredicate option"

definition ListenerFilter_validate :: "ListenerFilter validator" where
  "ListenerFilter_validate = validate ''ListenerFilter'' (\<lambda>m. [
     check (RuneCountInString (ListenerFilter_Name m) < 1) ''Name''
         ''value length must be at least 1 runes'',
     embed ''FilterDisabled'' ListenerFilterChainMatchPredicate_validate
         (ListenerFilter_FilterDisabled m),
     (case ListenerFilter_ConfigType m of
         None \<Rightarrow> skip
       | Some (ListenerFilter_TypedConfig w) \<Rightarrow> oneof_case ''ConfigType'' w
           (\<lambda>v. skip)
       | Some (ListenerFilter_ConfigDiscovery w) \<Rightarrow> oneof_case ''ConfigType'' w
           (\<lambda>v. embed ''ConfigDiscovery'' ExtensionConfigSource_validate v))])"

record AdditionalAddress =
  AdditionalAddress_Address :: "Address option"
  AdditionalAddress_SocketOptions :: "SocketOptionsOverride option"

definition AdditionalAddress_validate :: "AdditionalAddress validator" where
  "AdditionalAddress_validate = validate ''AdditionalAddress'' (\<lambda>m. [
     embed ''Address'' Address_validate (AdditionalAddress_Address m),
     embed ''SocketOptions'' SocketOptionsOverride_validate (AdditionalAddress_SocketOptions m)])"

record ListenerCollection =
  ListenerCollection_Entries :: "bytes option list"

definition ListenerCollection_validate :: "vlib \<Rightarrow> ListenerCollection validator" where
  "ListenerCollection_validate V = validate ''ListenerCollection'' (\<lambda>m. [
     each (\<lambda>i x. embed (index_field ''Entries'' i) (CollectionEntry_validate V) x)
         (ListenerCollection_Entries m)])"

record Listener_FcdsConfig =
  Listener_FcdsConfig_Name :: "string"
  Listener_FcdsConfig_ConfigSource :: "ConfigSource option"

definition Listener_FcdsConfig_validate :: "vlib \<Rightarrow> Listener_FcdsConfig validator" where
  "Listener_FcdsConfig_validate V = validate ''Listener_FcdsConfig'' (\<lambda>m. [
     embed ''ConfigSource'' (ConfigSource_validate V) (Listener_FcdsConfig_ConfigSource m)])"

record Listener_DeprecatedV1 =
  Listener_DeprecatedV1_BindToPort :: "bool option"

definition Listener_DeprecatedV1_validate :: "Listener_DeprecatedV1 validator" where
  "Listener_DeprecatedV1_validate = validate ''Listener_DeprecatedV1'' (\<lambda>m. [])"

datatype Listener_ConnectionBalanceConfig_ExactBalance =
    empty_Listener_ConnectionBalanceConfig_ExactBalance

definition Listener_ConnectionBalanceConfig_ExactBalance_validate ::
    "Listener_ConnectionBalanceConfig_ExactBalance validator" where
  "Listener_ConnectionBalanceConfig_ExactBalance_validate =
     validate ''Listener_ConnectionBalanceConfig_ExactBalance'' (\<lambda>m. [])"

datatype oneof_Listener_ConnectionBalanceConfig_BalanceType =
    Listener_ConnectionBalanceConfig_ExactBalance_case
        "(Listener_ConnectionBalanceConfig_ExactBalance option) option"
  | Listener_ConnectionBalanceConfig_ExtendBalance "(TypedExtensionConfig option) option"

record Listener_ConnectionBalanceConfig =
  Listener_ConnectionBalanceConfig_BalanceType ::
      "oneof_Listener_ConnectionBalanceConfig_BalanceType option"

definition Listener_ConnectionBalanceConfig_validate ::
    "Listener_ConnectionBalanceConfig validator" where
  "Listener_ConnectionBalanceConfig_validate =
     validate ''Listener_ConnectionBalanceConfig'' (\<lambda>m. [
     (case Listener_ConnectionBalanceConfig_BalanceType m of
         None \<Rightarrow> skip
       | Some (Listener_ConnectionBalanceConfig_ExactBalance_case w) \<Rightarrow>
           oneof_case ''BalanceType'' w (\<lambda>v.
           embed ''ExactBalance'' Listener_ConnectionBalanceConfig_ExactBalance_validate v)
       | Some (Listener_ConnectionBalanceConfig_ExtendBalance w) \<Rightarrow>
           oneof_case ''BalanceType'' w (\<lambda>v.
           embed ''ExtendBalance'' TypedExtensionConfig_validate v)),
     check (Listener_ConnectionBalanceConfig_BalanceType m = None) ''BalanceType''
         ''value is required''])"

datatype Listener_InternalListenerConfig = empty_Listener_InternalListenerConfig

definition Listener_InternalListenerConfig_validate ::
    "Listener_InternalListenerConfig validator" where
  "Listener_InternalListenerConfig_validate =
     validate ''Listener_InternalListenerConfig'' (\<lambda>m. [])"

datatype oneof_Listener_ListenerSpecifier =
    Listener_InternalListener "(Listener_InternalListenerConfig option) option"

record Listener =
  Listener_Name :: "string"
  Listener_Address :: "Address option"
  Listener_AdditionalAddresses :: "AdditionalAddress option list"
  Listener_StatPrefix :: "string"
  Listener_FilterChains :: "FilterChainMsg option list"
  Listener_FcdsConfig :: "Listener_FcdsConfig option"
  Listener_FilterChainMatcher :: "bytes option"
  Listener_UseOriginalDst :: "bool option"
  Listener_DefaultFilterChain :: "FilterChainMsg option"
  Listener_PerConnectionBufferLimitBytes :: "32 word option"
  Listener_Metadata :: "Metadata option"
  Listener_DeprecatedV1 :: "Listener_DeprecatedV1 option"
  Listener_DrainType :: "32 word"
  Listener_ListenerFilters :: "ListenerFilter option list"
  Listener_ListenerFiltersTimeout :: "Duration option"
  Listener_ContinueOnListenerFiltersTimeout :: "bool"
  Listener_Transparent :: "bool option"
  Listener_Freebind :: "bool option"
  Listener_SocketOptions :: "SocketOption option list"
  Listener_TcpFastOpenQueueLength :: "32 word option"
  Listener_TrafficDirection :: "32 word"
  Listener_UdpListenerConfig :: "UdpListenerConfig option"
  Listener_ApiListener :: "ApiListener option"
  Listener_ConnectionBalanceConfig :: "Listener_ConnectionBalanceConfig option"
  Listener_ReusePort :: "bool"
  Listener_EnableReusePort :: "bool option"
  Listener_AccessLog :: "AccessLog option list"
  Listener_TcpBacklogSize :: "32 word option"
  Listener_MaxConnectionsToAcceptPerSocketEvent :: "32 word option"
  Listener_BindToPort :: "bool option"
  Listener_ListenerSpecifier :: "oneof_Listener_ListenerSpecifier option"
  Listener_EnableMptcp :: "bool"
  Listener_IgnoreGlobalConnLimit :: "bool"
  Listener_BypassOverloadManager :: "bool"

definition Listener_validate :: "vlib \<Rightarrow> Listener validator" where
  "Listener_validate V = validate ''Listener'' (\<lambda>m. [
     embed ''Address'' Address_validate (Listener_Address m),
     each (\<lambda>i x. embed (index_field ''AdditionalAddresses'' i) AdditionalAddress_validate x)
         (Listener_AdditionalAddresses m),
     each (\<lambda>i x. embed (index_field ''FilterChains'' i) FilterChainMsg_validate x)
         (Listener_FilterChains m),
     embed ''FcdsConfig'' (Listener_FcdsConfig_validate V) (Listener_FcdsConfig m),
     embed ''FilterChainMatcher'' (xds_Matcher_validate V) (Listener_FilterChainMatcher m),
     embed ''DefaultFilterChain'' FilterChainMsg_validate (Listener_DefaultFilterChain m),
     embed ''Metadata'' Metadata_validate (Listener_Metadata m),
     embed ''DeprecatedV1'' Listener_DeprecatedV1_validate (Listener_DeprecatedV1 m),
     each (\<lambda>i x. embed (index_field ''ListenerFilters'' i) ListenerFilter_validate x)
         (Listener_ListenerFilters m),
     each (\<lambda>i x. embed (index_field ''SocketOptions'' i) SocketOption_validate x)
         (Listener_SocketOptions m),
     embed ''UdpListenerConfig'' (UdpListenerConfig_validate V) (Listener_UdpListenerConfig m),
     embed ''ApiListener'' ApiListener_validate (Listener_ApiListener m),
     embed ''ConnectionBalanceConfig'' Listener_ConnectionBalanceConfig_validate
         (Listener_ConnectionBalanceConfig m),
     each (\<lambda>i x. embed (index_field ''AccessLog'' i) (AccessLog_validate V) x)
         (Listener_AccessLog m),
     (case Listener_MaxConnectionsToAcceptPerSocketEvent m of None \<Rightarrow> skip
         | Some w \<Rightarrow> check (w \<le> 0) ''MaxConnectionsToAcceptPerSocketEvent''
         ''value must be greater than 0''),
     (case Listener_ListenerSpecifier m of
         None \<Rightarrow> skip
       | Some (Listener_InternalListener w) \<Rightarrow> oneof_case ''ListenerSpecifier'' w
           (\<lambda>v. embed ''InternalListener'' Listener_InternalListenerConfig_validate v))])"

datatype ListenerManager = empty_ListenerManager

definition ListenerManager_validate :: "ListenerManager validator" where
  "ListenerManager_validate = validate ''ListenerManager'' (\<lambda>m. [])"

datatype ValidationListenerManager = empty_ValidationListenerManager

definition ValidationListenerManager_validate :: "ValidationListenerManager validator" where
  "ValidationListenerManager_validate = validate ''ValidationListenerManager'' (\<lambda>m. [])"

datatype ApiListenerManager = empty_ApiListenerManager

definition ApiListenerManager_validate :: "ApiListenerManager validator" where
  "ApiListenerManager_validate = validate ''ApiListenerManager'' (\<lambda>m. [])"

end
