(* ===== verification/ListenerLaws.thy ===== *)
theory ListenerLaws
  imports RouteLaws ListenerValidation
begin

text \<open>
  The two modes of the validation functions of listeners agree.
\<close>

lemma lawful_listenerFilterChainMatchPredicate [lawful_intros]:
  "lawful ListenerFilterChainMatchPredicate_validate"
    "lawful ListenerFilterChainMatchPredicate_MatchSet_validate"
proof -
  have "lawful_at ListenerFilterChainMatchPredicate_validate m"
    and "lawful_at ListenerFilterChainMatchPredicate_MatchSet_validate l" for m l and all :: bool
  proof (induction all m and all l rule:
      ListenerFilterChainMatchPredicate_validate_ListenerFilterChainMatchPredicate_MatchSet_validate.induct)
    case (1 all m)
    show ?case
      by (rule lawful_at_cong, rule ListenerFilterChainMatchPredicate_validate.simps, rule lawful_at_validate)
        (auto intro!: lawful_oneof_case lawful_embed lawful_each lawful_check lawful_skip
          intro: 1 lawful_intros split: option.split oneof_ListenerFilterChainMatchPredicate_Rule.split)
  next
    case (2 all m)
    show ?case
      by (rule lawful_at_cong, rule ListenerFilterChainMatchPredicate_MatchSet_validate.simps, rule lawful_at_validate)
        (auto intro!: lawful_oneof_case lawful_embed lawful_each lawful_check lawful_skip
          intro: 2 lawful_intros split: option.split oneof_ListenerFilterChainMatchPredicate_Rule.split)
  qed
  then show "lawful ListenerFilterChainMatchPredicate_validate"
    "lawful ListenerFilterChainMatchPredicate_MatchSet_validate"
    by (simp_all add: lawful_def)
qed

lemma lawful_listener_1 [lawful_intros]:
  "lawful ExtensionFilter_validate" "lawful Listener_Filter_validate"
  "lawful ComparisonFilter_validate" "lawful NotHealthCheckFilter_validate"
  "lawful TraceableFilter_validate" "lawful RuntimeFilter_validate"
  "vlib_lawful V \<Longrightarrow> lawful (HeaderFilter_validate V)"
  "lawful ResponseFlagFilter_validate" "lawful GrpcStatusFilter_validate"
  "vlib_lawful V \<Longrightarrow> lawful (MetadataFilter_validate V)"
  unfolding ExtensionFilter_validate_def Listener_Filter_validate_def ComparisonFilter_validate_def
    NotHealthCheckFilter_validate_def TraceableFilter_validate_def RuntimeFilter_validate_def
    HeaderFilter_validate_def ResponseFlagFilter_validate_def GrpcStatusFilter_validate_def
    MetadataFilter_validate_def
  by (auto intro!: lawful_intros split:
    oneof_ExtensionFilter_ConfigType.split oneof_Listener_Filter_ConfigType.split)

lemma lawful_listener_2 [lawful_intros]:
  "lawful LogTypeFilter_validate" "lawful SocketCmsgHeaders_validate"
  "lawful UdpSocketConfig_validate" "lawful ApiListener_validate"
  "lawful ActiveRawUdpListenerConfig_validate" "lawful FilterChainMatch_validate"
  "lawful AdditionalAddress_validate"
  "vlib_lawful V \<Longrightarrow> lawful (ListenerCollection_validate V)"
  "lawful ListenerManager_validate" "lawful ValidationListenerManager_validate"
  unfolding LogTypeFilter_validate_def SocketCmsgHeaders_validate_def UdpSocketConfig_validate_def
    ApiListener_validate_def ActiveRawUdpListenerConfig_validate_def FilterChainMatch_validate_def
    AdditionalAddress_validate_def ListenerCollection_validate_def ListenerManager_validate_def
    ValidationListenerManager_validate_def
  by (auto intro!: lawful_intros)

lemma lawful_listener_3 [lawful_intros]:
  "lawful ApiListenerManager_validate" "lawful Listener_DeprecatedV1_validate"
  "lawful Listener_InternalListenerConfig_validate"
  "vlib_lawful V \<Longrightarrow> lawful (Listener_FcdsConfig_validate V)"
  "lawful Listener_ConnectionBalanceConfig_ExactBalance_validate"
  unfolding ApiListenerManager_validate_def Listener_DeprecatedV1_validate_def
    Listener_InternalListenerConfig_validate_def Listener_FcdsConfig_validate_def
    Listener_ConnectionBalanceConfig_ExactBalance_validate_def
  by (auto intro!: lawful_intros)

lemma lawful_listener_4 [lawful_intros]:
  "lawful ListenerFilter_validate" "lawful Listener_ConnectionBalanceConfig_validate"
  "lawful StatusCodeFilter_validate" "lawful DurationFilter_validate"
  "vlib_lawful V \<Longrightarrow> lawful (Listener_QuicProtocolOptions_validate V)"
  "lawful FilterChainMsg_validate"
  unfolding ListenerFilter_validate_def Listener_ConnectionBalanceConfig_validate_def
    StatusCodeFilter_validate_def DurationFilter_validate_def
    Listener_QuicProtocolOptions_validate_def FilterChainMsg_validate_def
  by (auto intro!: lawful_intros split:
    oneof_ListenerFilter_ConfigType.split oneof_Listener_ConnectionBalanceConfig_BalanceType.split)

lemma lawful_accessLogFilter [lawful_intros]:
  assumes "vlib_lawful V"
  shows "lawful (AccessLogFilter_validate V)" "lawful (AndFilter_validate V)"
    "lawful (OrFilter_validate V)"
proof -
  have "vlib_lawful V \<Longrightarrow> lawful_at (AccessLogFilter_validate V) m"
    and "vlib_lawful V \<Longrightarrow> lawful_at (AndFilter_validate V) l"
    and "vlib_lawful V \<Longrightarrow> lawful_at (OrFilter_validate V) k" for m l k and all :: bool
  proof (induction V all m and V all l and V all k rule:
      AccessLogFilter_validate_AndFilter_validate_OrFilter_validate.induct)
    case (1 V all m)
    show ?case
      by (rule lawful_at_cong, rule AccessLogFilter_validate.simps, rule lawful_at_validate)
        (auto intro!: lawful_oneof_case lawful_embed lawful_each lawful_check lawful_skip
          intro: 1 lawful_intros split: option.split oneof_AccessLogFilter_FilterSpecifier.split)
  next
    case (2 V all m)
    show ?case
      by (rule lawful_at_cong, rule AndFilter_validate.simps, rule lawful_at_validate)
        (auto intro!: lawful_oneof_case lawful_embed lawful_each lawful_check lawful_skip
          intro: 2 lawful_intros split: option.split oneof_AccessLogFilter_FilterSpecifier.split)
  next
    case (3 V all m)
    show ?case
      by (rule lawful_at_cong, rule OrFilter_validate.simps, rule lawful_at_validate)
        (auto intro!: lawful_oneof_case lawful_embed lawful_each lawful_check lawful_skip
          intro: 3 lawful_intros split: option.split oneof_AccessLogFilter_FilterSpecifier.split)
  qed
  then show "lawful (AccessLogFilter_validate V)" "lawful (AndFilter_validate V)"
    "lawful (OrFilter_validate V)"
    using assms by (simp_all add: lawful_def)
qed

lemma lawful_listener_5 [lawful_intros]:
  "vlib_lawful V \<Longrightarrow> lawful (UdpListenerConfig_validate V)"
  unfolding UdpListenerConfig_validate_def
  by (auto intro!: lawful_intros)

lemma lawful_listener_6 [lawful_intros]:
  "vlib_lawful V \<Longrightarrow> lawful (AccessLog_validate V)"
  unfolding AccessLog_validate_def
  by (auto intro!: lawful_intros split:
    oneof_AccessLog_ConfigType.split)

lemma lawful_listener_7 [lawful_intros]:
  "vlib_lawful V \<Longrightarrow> lawful (Listener_validate V)"
  unfolding Listener_validate_def
  by (auto intro!: lawful_intros split:
    oneof_Listener_ListenerSpecifier.split)

end
