(* ===== verification/ValidationProps.thy ===== *)
theory ValidationProps
  imports ListenerLaws
begin

text \<open>
  The properties of the validation functions: \<open>Validate\<close> and \<open>ValidateAll\<close> agree, what an accepted
  endpoint assignment is guaranteed to be, and where \<open>ValidateAll\<close> panics.
\<close>

section \<open>Validate and ValidateAll\<close>

text \<open>C19: \<open>Validate\<close> always returns, and \<open>ValidateAll\<close> accepts exactly the assignments that \<open>Validate\<close>
  accepts; for the others \<open>Validate\<close> returns the first error of the list that \<open>ValidateAll\<close> returns,
  at every level of nesting, unless \<open>ValidateAll\<close> panics.  The same holds of every other type of
  resource the caches serve (clusters, routes, scoped routes, virtual hosts, listeners, secrets,
  runtimes and extension configurations) and of the discovery requests and responses, though filters,
  matchers and constraints on parameters are recursive, provided that the validation functions
  of other modules do the same.\<close>

theorem validate_agrees_with_validate_all:
  assumes "vlib_lawful V"
  shows "(\<exists>r. ClusterLoadAssignmentMsg_validate V False m = Inr r) \<and>
    (ClusterLoadAssignmentMsg_validate V False m = Inr None \<longleftrightarrow>
      ClusterLoadAssignmentMsg_validate V True m = Inr None) \<and>
    (\<forall>e es. ClusterLoadAssignmentMsg_validate V False m = Inr (Some e) \<longrightarrow>
      ClusterLoadAssignmentMsg_validate V True m = Inr (Some es) \<longrightarrow> first_error es = e) \<and>
    lawful (Cluster_validate V) \<and> lawful (RouteConfiguration_validate V) \<and>
    lawful (ScopedRouteConfiguration_validate V) \<and> lawful (VirtualHost_validate V) \<and>
    lawful (Listener_validate V) \<and> lawful (Secret_validate V) \<and> lawful Runtime_validate \<and>
    lawful TypedExtensionConfig_validate \<and>
    lawful (DiscoveryRequestMsg_validate V) \<and> lawful (DeltaDiscoveryRequestMsg_validate V) \<and>
    lawful DiscoveryResponseMsg_validate \<and> lawful DeltaDiscoveryResponseMsg_validate"
proof -
  have "lawful (ClusterLoadAssignmentMsg_validate V)" using assms by (intro lawful_intros)
  note law = lawfulD [OF this, of m]
  have "lawful (Cluster_validate V)" "lawful (RouteConfiguration_validate V)"
    "lawful (ScopedRouteConfiguration_validate V)" "lawful (VirtualHost_validate V)"
    "lawful (Listener_validate V)" "lawful (Secret_validate V)" "lawful Runtime_validate"
    "lawful TypedExtensionConfig_validate"
    "lawful (DiscoveryRequestMsg_validate V)" "lawful (DeltaDiscoveryRequestMsg_validate V)"
    "lawful DiscoveryResponseMsg_validate" "lawful DeltaDiscoveryResponseMsg_validate"
    using assms by (intro lawful_intros; simp)+
  with law show ?thesis by blast
qed

text \<open>External functions that accept everything, and durations of the runtime as documented.\<close>

definition sample_vlib :: vlib where
  "sample_vlib = \<lparr>AsDuration = (\<lambda>d. sint (Seconds d) * 1000000000 + sint (Nanos d)),
     CheckValid = (\<lambda>d. if \<bar>sint (Nanos d)\<bar> < 1000000000 then None else Some ''out of range nanos''),
     Authority_validate = (\<lambda>all m. Inr None), CollectionEntry_validate = (\<lambda>all m. Inr None),
     ContextParams_validate = (\<lambda>all m. Inr None), xds_Matcher_validate = (\<lambda>all m. Inr None),
     xds_CidrRange_validate = (\<lambda>all m. Inr None), xds_TypedExtensionConfig_validate = (\<lambda>all m. Inr None)\<rparr>"

lemma sample_vlib_lawful: "vlib_lawful sample_vlib"
  by (simp add: vlib_lawful_def sample_vlib_def lawful_def lawful_at_def)

definition empty_assignment :: ClusterLoadAssignmentMsg where
  "empty_assignment = \<lparr>ClusterLoadAssignmentMsg_ClusterName = '''', ClusterLoadAssignmentMsg_Endpoints = [],
     ClusterLoadAssignmentMsg_NamedEndpoints = [], ClusterLoadAssignmentMsg_Policy = None\<rparr>"

theorem validate_agrees_with_validate_all_witness:
  "ClusterLoadAssignmentMsg_validate sample_vlib True (Some empty_assignment) \<noteq> Inr None \<and>
   first_error (MultiError ''ClusterLoadAssignment''
     [ValidationError ''ClusterLoadAssignment'' ''ClusterName'' ''value length must be at least 1 runes'' None]) =
     ValidationError ''ClusterLoadAssignment'' ''ClusterName'' ''value length must be at least 1 runes'' None"
proof -
  let ?err = "ValidationError ''ClusterLoadAssignment'' ''ClusterName'' ''value length must be at least 1 runes'' None"
  have v: "ClusterLoadAssignmentMsg_validate sample_vlib False (Some empty_assignment) = Inr (Some ?err)"
    "ClusterLoadAssignmentMsg_validate sample_vlib True (Some empty_assignment) =
      Inr (Some (MultiError ''ClusterLoadAssignment'' [?err]))"
    by (simp_all add: ClusterLoadAssignmentMsg_validate_def empty_assignment_def validate_def check_def violation_def
        fail_with_def each_def each_key_def embed_def ClusterLoadAssignment_Policy_validate_def)
  from validate_agrees_with_validate_all [OF sample_vlib_lawful, of "Some empty_assignment"] v show ?thesis
    by simp
qed

section \<open>What is accepted\<close>

text \<open>
  An address that passes names a host and a port, a path, or a listener.  A oneof that holds a nil
  message passes too, since the embedded check of nil does.
\<close>

fun socket_address_ok :: "SocketAddress option \<Rightarrow> bool" where
  "socket_address_ok None = True"
| "socket_address_ok (Some s) \<longleftrightarrow>
     SocketAddress_Protocol s \<in> {0, 1} \<and> SocketAddress_Address s \<noteq> '''' \<and>
     (case SocketAddress_PortSpecifier s of
        Some (SocketAddress_PortValue (Some port)) \<Rightarrow> unat port \<le> 65535
      | Some (SocketAddress_NamedPort (Some name)) \<Rightarrow> True
      | _ \<Rightarrow> False)"

definition address_ok :: "Address \<Rightarrow> bool" where
  "address_ok a \<longleftrightarrow>
     (case Address_Address a of
        Some (Address_SocketAddress (Some s)) \<Rightarrow> socket_address_ok s
      | Some (Address_Pipe (Some p)) \<Rightarrow>
          (\<forall>q. p = Some q \<longrightarrow> Pipe_Path q \<noteq> '''' \<and> unat (Pipe_Mode q) \<le> 511)
      | Some (Address_EnvoyInternalAddress (Some i)) \<Rightarrow>
          (\<forall>x. i = Some x \<longrightarrow> (\<exists>name. EnvoyInternalAddress_AddressNameSpecifier x =
             Some (EnvoyInternalAddress_ServerListenerName (Some name))))
      | _ \<Rightarrow> False)"

lemma word_le_nat: "\<not> numeral k < (w :: 32 word) \<longleftrightarrow> unat w \<le> unat (numeral k :: 32 word)"
  by (simp add: word_less_nat_alt not_less)

lemma one_le_word: "1 \<le> (w :: 32 word) \<longleftrightarrow> w \<noteq> 0"
  by (simp add: word_le_nat_alt Suc_le_eq unat_gt_0)

lemma accepts_SocketAddress: "accepts SocketAddress_validate s \<longleftrightarrow> socket_address_ok s"
  by (cases s)
    (auto simp: SocketAddress_validate_def SocketAddress_Protocol_name_def pass_simps word_le_nat
      simp del: stmts.simps split: option.splits oneof_SocketAddress_PortSpecifier.splits if_splits)

lemma accepts_Pipe:
  "accepts Pipe_validate p \<longleftrightarrow> (\<forall>q. p = Some q \<longrightarrow> Pipe_Path q \<noteq> '''' \<and> unat (Pipe_Mode q) \<le> 511)"
  by (auto simp: Pipe_validate_def pass_simps word_le_nat simp del: stmts.simps)

lemma accepts_EnvoyInternalAddress:
  "accepts EnvoyInternalAddress_validate i \<longleftrightarrow>
     (\<forall>x. i = Some x \<longrightarrow> (\<exists>name. EnvoyInternalAddress_AddressNameSpecifier x =
        Some (EnvoyInternalAddress_ServerListenerName (Some name))))"
proof (cases i)
  case (Some x)
  then show ?thesis
    by (cases "EnvoyInternalAddress_AddressNameSpecifier x")
      (auto simp: EnvoyInternalAddress_validate_def pass_simps simp del: stmts.simps
        split: oneof_EnvoyInternalAddress_AddressNameSpecifier.splits)
qed (simp add: EnvoyInternalAddress_validate_def pass_simps)

lemma accepts_Address: "accepts Address_validate (Some a) \<longleftrightarrow> address_ok a"
  by (auto simp: address_ok_def Address_validate_def accepts_SocketAddress accepts_Pipe
      accepts_EnvoyInternalAddress pass_simps simp del: stmts.simps
      split: option.splits oneof_Address_Address.splits)

text \<open>Endpoints, and what else an assignment is made of; \<open>all_of\<close> is about the messages that are not nil.\<close>

definition all_of :: "('m \<Rightarrow> bool) \<Rightarrow> 'm option \<Rightarrow> bool" where
  "all_of P m \<longleftrightarrow> (\<forall>x. m = Some x \<longrightarrow> P x)"

definition endpoint_ok :: "Endpoint \<Rightarrow> bool" where
  "endpoint_ok e \<longleftrightarrow>
     all_of address_ok (Endpoint_Address e) \<and>
     all_of (\<lambda>h. unat (Endpoint_HealthCheckConfig_PortValue h) \<le> 65535 \<and>
       all_of address_ok (Endpoint_HealthCheckConfig_Address h)) (Endpoint_HealthCheckConfig e) \<and>
     (\<forall>x \<in> set (Endpoint_AdditionalAddresses e).
        all_of (\<lambda>x. all_of address_ok (Endpoint_AdditionalAddress_Address x)) x)"

definition metadata_ok :: "Metadata \<Rightarrow> bool" where
  "metadata_ok m \<longleftrightarrow> (\<forall>k \<in> fst ` set (Metadata_FilterMetadata m). k \<noteq> '''') \<and>
     (\<forall>k \<in> fst ` set (Metadata_TypedFilterMetadata m). k \<noteq> '''')"

definition lb_endpoint_ok :: "LbEndpoint \<Rightarrow> bool" where
  "lb_endpoint_ok l \<longleftrightarrow>
     all_of metadata_ok (LbEndpoint_Metadata l) \<and> all_of (\<lambda>w. 1 \<le> w) (LbEndpoint_LoadBalancingWeight l) \<and>
     (case LbEndpoint_HostIdentifier l of
        None \<Rightarrow> True
      | Some (LbEndpoint_Endpoint w) \<Rightarrow> (\<exists>e. w = Some e \<and> all_of endpoint_ok e)
      | Some (LbEndpoint_EndpointName w) \<Rightarrow> w \<noteq> None)"

definition locality_ok :: "vlib \<Rightarrow> LocalityLbEndpoints \<Rightarrow> bool" where
  "locality_ok V l \<longleftrightarrow>
     all_of metadata_ok (LocalityLbEndpoints_Metadata l) \<and>
     (\<forall>e \<in> set (LocalityLbEndpoints_LbEndpoints l). all_of lb_endpoint_ok e) \<and>
     all_of (\<lambda>w. 1 \<le> w) (LocalityLbEndpoints_LoadBalancingWeight l) \<and>
     unat (LocalityLbEndpoints_Priority l) \<le> 128 \<and>
     (case LocalityLbEndpoints_LbConfig l of
        None \<Rightarrow> True
      | Some (LocalityLbEndpoints_LoadBalancerEndpoints w) \<Rightarrow>
          (\<exists>es. w = Some es \<and> all_of (\<lambda>es.
             \<forall>e \<in> set (LocalityLbEndpoints_LbEndpointList_LbEndpoints es). all_of lb_endpoint_ok e) es)
      | Some (LocalityLbEndpoints_LedsClusterLocalityConfig w) \<Rightarrow>
          (\<exists>c. w = Some c \<and> all_of (\<lambda>c.
             accepts (ConfigSource_validate V) (LedsClusterLocalityConfig_LedsConfig c)) c))"

definition policy_ok :: "vlib \<Rightarrow> ClusterLoadAssignment_Policy \<Rightarrow> bool" where
  "policy_ok V p \<longleftrightarrow>
     (\<forall>d \<in> set (ClusterLoadAssignment_Policy_DropOverloads p). all_of (\<lambda>d.
        ClusterLoadAssignment_Policy_DropOverload_Category d \<noteq> '''' \<and>
        all_of (\<lambda>f. FractionalPercent_Denominator f \<in> {0, 1, 2})
          (ClusterLoadAssignment_Policy_DropOverload_DropPercentage d)) d) \<and>
     all_of (\<lambda>w. 0 < w) (ClusterLoadAssignment_Policy_OverprovisioningFactor p) \<and>
     all_of (\<lambda>t. CheckValid V t = None \<and> 0 < AsDuration V t) (ClusterLoadAssignment_Policy_EndpointStaleAfter p)"

lemma all_of_None [simp]: "all_of P None"
  by (simp add: all_of_def)

lemma all_of_Some [simp]: "all_of P (Some x) \<longleftrightarrow> P x"
  by (simp add: all_of_def)

text \<open>A validation function that decides a predicate of its message.\<close>

definition decides :: "'m validator \<Rightarrow> ('m \<Rightarrow> bool) \<Rightarrow> bool" where
  "decides v P \<longleftrightarrow> (\<forall>m. accepts v m \<longleftrightarrow> all_of P m)"

lemma decides_validate:
  "(\<And>x. stmts (body x) msg False [] = Continue [] \<longleftrightarrow> P x) \<Longrightarrow> decides (validate msg body) P"
  by (simp add: decides_def all_of_def pass_simps)

lemma accepts_decides: "decides v P \<Longrightarrow> accepts v m \<longleftrightarrow> all_of P m"
  by (simp add: decides_def)

lemma decides_Address: "decides Address_validate address_ok"
  unfolding decides_def
proof
  show "accepts Address_validate m \<longleftrightarrow> all_of address_ok m" for m
    by (cases m) (simp_all add: accepts_Address, simp add: Address_validate_def pass_simps)
qed

lemma decides_HealthCheckConfig:
  "decides Endpoint_HealthCheckConfig_validate (\<lambda>h. unat (Endpoint_HealthCheckConfig_PortValue h) \<le> 65535 \<and>
     all_of address_ok (Endpoint_HealthCheckConfig_Address h))"
  unfolding Endpoint_HealthCheckConfig_validate_def
  by (rule decides_validate)
    (simp add: pass_simps accepts_decides [OF decides_Address] word_le_nat del: stmts.simps)

lemma decides_AdditionalAddress:
  "decides Endpoint_AdditionalAddress_validate (\<lambda>x. all_of address_ok (Endpoint_AdditionalAddress_Address x))"
  unfolding Endpoint_AdditionalAddress_validate_def
  by (rule decides_validate) (simp add: pass_simps accepts_decides [OF decides_Address] del: stmts.simps)

lemma decides_Endpoint: "decides Endpoint_validate endpoint_ok"
  unfolding Endpoint_validate_def
  by (rule decides_validate) (simp add: pass_simps endpoint_ok_def accepts_decides [OF decides_Address]
      accepts_decides [OF decides_HealthCheckConfig] accepts_decides [OF decides_AdditionalAddress] del: stmts.simps)

lemma decides_Metadata: "decides Metadata_validate metadata_ok"
  unfolding Metadata_validate_def
  by (rule decides_validate) (simp add: pass_simps metadata_ok_def del: stmts.simps)

lemma decides_LbEndpoint: "decides LbEndpoint_validate lb_endpoint_ok"
  unfolding LbEndpoint_validate_def
  by (rule decides_validate) (auto simp: pass_simps lb_endpoint_ok_def all_of_def [of "\<lambda>w. 1 \<le> w"] one_le_word
      accepts_decides [OF decides_Metadata] accepts_decides [OF decides_Endpoint] simp del: stmts.simps
      split: option.splits oneof_LbEndpoint_HostIdentifier.splits)

lemma decides_LbEndpointList:
  "decides LocalityLbEndpoints_LbEndpointList_validate (\<lambda>es.
     \<forall>e \<in> set (LocalityLbEndpoints_LbEndpointList_LbEndpoints es). all_of lb_endpoint_ok e)"
  unfolding LocalityLbEndpoints_LbEndpointList_validate_def
  by (rule decides_validate) (simp add: pass_simps accepts_decides [OF decides_LbEndpoint] del: stmts.simps)

lemma decides_Leds:
  "decides (LedsClusterLocalityConfig_validate V)
     (\<lambda>c. accepts (ConfigSource_validate V) (LedsClusterLocalityConfig_LedsConfig c))"
  unfolding LedsClusterLocalityConfig_validate_def
  by (rule decides_validate) (simp add: pass_simps del: stmts.simps)

lemma accepts_Locality [simp]: "accepts Locality_validate l"
  by (cases l) (simp_all add: Locality_validate_def pass_simps)

lemma decides_LocalityLbEndpoints: "decides (LocalityLbEndpoints_validate V) (locality_ok V)"
  unfolding LocalityLbEndpoints_validate_def
  by (rule decides_validate) (auto simp: pass_simps locality_ok_def all_of_def [of "\<lambda>w. 1 \<le> w"] one_le_word
      word_le_nat accepts_decides [OF decides_Metadata] accepts_decides [OF decides_LbEndpoint]
      accepts_decides [OF decides_LbEndpointList] accepts_decides [OF decides_Leds] simp del: stmts.simps
      split: option.splits oneof_LocalityLbEndpoints_LbConfig.splits)

lemma decides_FractionalPercent:
  "decides FractionalPercent_validate (\<lambda>f. FractionalPercent_Denominator f \<in> {0, 1, 2})"
  unfolding FractionalPercent_validate_def
  by (rule decides_validate)
    (auto simp: pass_simps FractionalPercent_DenominatorType_name_def simp del: stmts.simps)

lemma decides_DropOverload:
  "decides ClusterLoadAssignment_Policy_DropOverload_validate (\<lambda>d.
     ClusterLoadAssignment_Policy_DropOverload_Category d \<noteq> '''' \<and>
     all_of (\<lambda>f. FractionalPercent_Denominator f \<in> {0, 1, 2})
       (ClusterLoadAssignment_Policy_DropOverload_DropPercentage d))"
  unfolding ClusterLoadAssignment_Policy_DropOverload_validate_def
  by (rule decides_validate) (simp add: pass_simps accepts_decides [OF decides_FractionalPercent] del: stmts.simps)

lemma decides_Policy: "decides (ClusterLoadAssignment_Policy_validate V) (policy_ok V)"
  unfolding ClusterLoadAssignment_Policy_validate_def
  by (rule decides_validate) (auto simp: pass_simps policy_ok_def accepts_decides [OF decides_DropOverload]
      all_of_def [of "\<lambda>w. 0 < w"] all_of_def [of "\<lambda>t. CheckValid V t = None \<and> 0 < AsDuration V t"]
      duration_of_def word_neq_0_conv not_le simp del: stmts.simps split: option.splits)

text \<open>C18: \<open>Validate\<close> accepts an endpoint assignment exactly when it names its cluster, every locality has
  a priority of at most 128, weights are positive, every endpoint's addresses (its own, its health
  check's and the additional ones) name a host with a defined protocol and a port of at most 65535, a
  path with a mode of at most 0777, or a listener, no oneof is a typed nil, metadata have names, and
  the policy has names, denominators and a positive stale time; nil messages are accepted throughout.
  Of a locality that gets its endpoints from elsewhere (\<open>leds_cluster_locality_config\<close>) it asks that
  \<open>ConfigSource_validate\<close> (in ConfigValidation) accepts the source; its rules are not unfolded here.\<close>

theorem accepted_assignments:
  "ClusterLoadAssignmentMsg_validate V False (Some cla) = Inr None \<longleftrightarrow>
     ClusterLoadAssignmentMsg_ClusterName cla \<noteq> '''' \<and>
     (\<forall>l \<in> set (ClusterLoadAssignmentMsg_Endpoints cla). all_of (locality_ok V) l) \<and>
     (\<forall>name \<in> fst ` set (ClusterLoadAssignmentMsg_NamedEndpoints cla).
        all_of endpoint_ok (mget_or None (ClusterLoadAssignmentMsg_NamedEndpoints cla) name)) \<and>
     all_of (policy_ok V) (ClusterLoadAssignmentMsg_Policy cla)"
  unfolding accepts_def [symmetric] ClusterLoadAssignmentMsg_validate_def
  by (simp add: pass_simps accepts_decides [OF decides_LocalityLbEndpoints] accepts_decides [OF decides_Endpoint]
      accepts_decides [OF decides_Policy] del: stmts.simps)

definition endpoint_at :: "string \<Rightarrow> 32 word \<Rightarrow> Endpoint" where
  "endpoint_at host port = \<lparr>Endpoint_Address = Some \<lparr>Address_Address = Some (Address_SocketAddress (Some (Some
       \<lparr>SocketAddress_Protocol = 0, SocketAddress_Address = host,
        SocketAddress_PortSpecifier = Some (SocketAddress_PortValue (Some port)), SocketAddress_ResolverName = '''',
        SocketAddress_Ipv4Compat = False, SocketAddress_NetworkNamespaceFilepath = ''''\<rparr>)))\<rparr>,
     Endpoint_HealthCheckConfig = None, Endpoint_Hostname = '''', Endpoint_AdditionalAddresses = []\<rparr>"

definition one_endpoint :: "32 word \<Rightarrow> ClusterLoadAssignmentMsg" where
  "one_endpoint port = \<lparr>ClusterLoadAssignmentMsg_ClusterName = ''c'', ClusterLoadAssignmentMsg_Endpoints =
     [Some \<lparr>LocalityLbEndpoints_Locality = None, LocalityLbEndpoints_Metadata = None, LocalityLbEndpoints_LbEndpoints =
        [Some \<lparr>LbEndpoint_HostIdentifier = Some (LbEndpoint_Endpoint (Some (Some (endpoint_at ''127.0.0.1'' port)))),
           LbEndpoint_HealthStatus = 0, LbEndpoint_Metadata = None, LbEndpoint_LoadBalancingWeight = Some 5\<rparr>],
        LocalityLbEndpoints_LbConfig = None, LocalityLbEndpoints_LoadBalancingWeight = None,
        LocalityLbEndpoints_Priority = 1, LocalityLbEndpoints_Proximity = None\<rparr>],
     ClusterLoadAssignmentMsg_NamedEndpoints = [], ClusterLoadAssignmentMsg_Policy = None\<rparr>"

theorem accepted_assignments_witness:
  "ClusterLoadAssignmentMsg_validate sample_vlib False (Some (one_endpoint 8080)) = Inr None \<and>
   ClusterLoadAssignmentMsg_validate sample_vlib False (Some (one_endpoint 65536)) \<noteq> Inr None"
  unfolding accepted_assignments
  by (simp add: one_endpoint_def endpoint_at_def locality_ok_def lb_endpoint_ok_def endpoint_ok_def address_ok_def)

section \<open>Typed nils\<close>

text \<open>C40: a oneof that holds a nil pointer of one of its wrapper types is reported by \<open>Validate\<close>, but
  \<open>ValidateAll\<close> notes the error, goes on to the value and dereferences the nil pointer: it panics,
  also when it was called on an endpoint that has such an address.\<close>

theorem typed_nil_panics:
  assumes "Address_Address a = Some (Address_SocketAddress None) \<or> Address_Address a = Some (Address_Pipe None) \<or>
      Address_Address a = Some (Address_EnvoyInternalAddress None)"
  shows "Address_validate False (Some a) =
      Inr (Some (ValidationError ''Address'' ''Address'' ''oneof value cannot be a typed-nil'' None)) \<and>
    Address_validate True (Some a) = Inl PanicNilDereference \<and>
    (Endpoint_Address e = Some a \<longrightarrow> Endpoint_validate True (Some e) = Inl PanicNilDereference)"
proof -
  have "Address_validate False (Some a) =
      Inr (Some (ValidationError ''Address'' ''Address'' ''oneof value cannot be a typed-nil'' None))"
    and all: "Address_validate True (Some a) = Inl PanicNilDereference"
    using assms by (auto simp: Address_validate_def validate_def oneof_case_def typed_nil_def violation_def
        fail_with_def nil_dereference_def)
  moreover have "Endpoint_validate True (Some e) = Inl PanicNilDereference" if "Endpoint_Address e = Some a"
    using that all by (simp add: Endpoint_validate_def validate_def [of "''Endpoint''"] embed_def)
  ultimately show ?thesis by blast
qed

theorem typed_nil_panics_witness:
  "Endpoint_validate True (Some \<lparr>Endpoint_Address = Some \<lparr>Address_Address = Some (Address_Pipe None)\<rparr>,
     Endpoint_HealthCheckConfig = None, Endpoint_Hostname = '''', Endpoint_AdditionalAddresses = []\<rparr>)
   = Inl PanicNilDereference"
  using typed_nil_panics [of "\<lparr>Address_Address = Some (Address_Pipe None)\<rparr>"
      "\<lparr>Endpoint_Address = Some \<lparr>Address_Address = Some (Address_Pipe None)\<rparr>,
     Endpoint_HealthCheckConfig = None, Endpoint_Hostname = '''', Endpoint_AdditionalAddresses = []\<rparr>"] by simp

end
