(* ===== verification/WatchCounts.thy ===== *)
theory WatchCounts
  imports SimpleProps ServerConfig
begin

text \<open>
  Accounting for the watches of the snapshot cache: whatever an operation sends, it sends to
  watches it takes away or to the one it creates, so the number of answers sent and of watches still
  open, among those any given predicate selects, only grows by the watches created.  The channels of
  the servers are bounded with it.
\<close>

section \<open>Counting watches\<close>

text \<open>The watch an operation is asked to create.\<close>

fun new_watches :: "simple_op \<Rightarrow> ResponseWatch list" where
  "new_watches (SCreateWatch now req st ch) = [\<lparr>w_Request = req, w_Response = ch\<rparr>]"
| "new_watches _ = []"

text \<open>How many of the open watches satisfy \<open>P\<close>.\<close>

definition msum :: "('v \<Rightarrow> nat) \<Rightarrow> ('k, 'v) gomap \<Rightarrow> nat" where
  "msum f m = sum_list (map (\<lambda>(k, v). f v) m)"

definition node_open :: "(ResponseWatch \<Rightarrow> bool) \<Rightarrow> statusInfo \<Rightarrow> nat" where
  "node_open P i = msum (\<lambda>w. of_bool (P w)) (si_watches i)"

definition open_on :: "(ResponseWatch \<Rightarrow> bool) \<Rightarrow> snapshotCache \<Rightarrow> nat" where
  "open_on P c = msum (node_open P) (sc_status c)"

lemma msum_mput:
  "msum f (mput k v m) + (case mget m k of None \<Rightarrow> 0 | Some old \<Rightarrow> f old) = msum f m + f v"
  by (induction m) (auto simp: msum_def split: option.splits)

lemma msum_mput_le: "msum f (mput k v m) \<le> msum f m + f v"
  using msum_mput [of f k v m] by simp

lemma msum_mdel: "msum f (mdel k m) \<le> msum f m"
  by (induction m) (auto simp: msum_def)

lemma msum_filter:
  "msum f (filter (\<lambda>(k, v). P v) m) + msum f (filter (\<lambda>(k, v). \<not> P v) m) = msum f m"
  by (induction m) (auto simp: msum_def)

lemma msum_same: "same_entries m m' \<Longrightarrow> msum f m = msum f m'"
  unfolding msum_def by (metis mset_map sum_mset_sum_list)

lemma msum_dom: "wf_map m \<Longrightarrow> msum f m = (\<Sum>k \<in> dom (mget m). f (the (mget m k)))"
proof (induction m)
  case (Cons kv m)
  obtain k v where kv: "kv = (k, v)" by (cases kv)
  from Cons.prems kv have new: "k \<notin> dom (mget m)" and wf: "wf_map m" by (simp_all add: dom_map_of_conv_image_fst)
  have "dom (mget (kv # m)) = insert k (dom (mget m))" by (auto simp: kv)
  moreover have "(\<Sum>j \<in> dom (mget m). f (the (mget (kv # m) j))) = (\<Sum>j \<in> dom (mget m). f (the (mget m j)))"
    by (rule sum.cong) (use new in \<open>auto simp: kv\<close>)
  ultimately show ?case using Cons.IH [OF wf] new by (simp add: msum_def kv finite_dom_map_of)
qed (simp add: msum_def)

lemma open_on_put:
  "open_on P (put_status n i' c) + (case mget (sc_status c) n of None \<Rightarrow> 0 | Some i \<Rightarrow> node_open P i)
     = open_on P c + node_open P i'"
  using msum_mput [of "node_open P" n i' "sc_status c"] by (simp add: open_on_def)

lemma open_on_info_of:
  "open_on P (put_status n i' c) + node_open P (info_of node n c) = open_on P c + node_open P i'"
  using open_on_put [of P n i' c]
  by (auto simp: info_of_def newStatusInfo_def node_open_def msum_def split: option.splits)

lemma node_open_frame [simp]:
  "node_open P (i\<lparr>si_lastWatchRequestTime := t\<rparr>) = node_open P i"
  "node_open P (i\<lparr>si_lastDeltaWatchRequestTime := t\<rparr>) = node_open P i"
  "node_open P (i\<lparr>si_deltaWatches := ws\<rparr>) = node_open P i"
  by (simp_all add: node_open_def)

lemma open_on_frame [simp]:
  "open_on P (c\<lparr>sc_watchCount := k\<rparr>) = open_on P c"
  "open_on P (c\<lparr>sc_deltaWatchCount := k\<rparr>) = open_on P c"
  "open_on P (c\<lparr>sc_snapshots := sn\<rparr>) = open_on P c"
  by (simp_all add: open_on_def)

text \<open>How many responses answer a watch that satisfies \<open>P\<close>; an answer carries the request of its watch.\<close>

fun sent :: "(ResponseWatch \<Rightarrow> bool) \<Rightarrow> send list \<Rightarrow> nat" where
  "sent P [] = 0"
| "sent P (Send ch m # sends) =
     of_bool (P \<lparr>w_Request = resp_GetRequest (the m), w_Response = ch\<rparr>) + sent P sends"
| "sent P (SendDelta ch m # sends) = sent P sends"

lemma sent_append [simp]: "sent P (xs @ ys) = sent P xs + sent P ys"
  by (induction P xs rule: sent.induct) simp_all

lemma sent_channel: "sent (\<lambda>w. w_Response w = ch) sends = length (sotw_messages ch sends)"
  by (induction ch sends rule: sotw_messages.induct) simp_all

text \<open>Each operation answers at most the watches it takes away, and one it creates.\<close>

lemma sent_answers:
  assumes "\<And>w. sent P (f w) \<le> of_bool (P w)"
  shows "sent P (concat (map (\<lambda>(k, w). f w) ws)) \<le> msum (\<lambda>w. of_bool (P w)) ws"
  using assms by (induction ws) (auto simp: msum_def intro: add_mono)

lemma sent_answer:
  "sent P (watch_answer ads ctx snap res hb w) \<le> of_bool (P w)"
  "sent P (sotw_answer ads ctx snap w) \<le> of_bool (P w)"
  "sent P (heartbeat_answer ads ctx snap w) \<le> of_bool (P w)"
  by (cases w; simp add: watch_answer_def sotw_answer_def heartbeat_answer_def createResponse_def Let_def)+

lemma sent_delta: "sent P (concat (map (\<lambda>(k, w). delta_answer ctx snap w) ws)) = 0"
  by (induction ws) (auto simp: delta_answer_def)

lemma sent_SetSnapshot:
  assumes L: "lib_total L" and inv: "simple_inv L c" and ok: "snap_ok L snap"
    and step: "SetSnapshot L never ctx node snap c = (c', sends, err)"
  shows "sent P sends + open_on P c' \<le> open_on P c"
proof (cases "mget (sc_status c) node")
  case None
  with step have "c' = c\<lparr>sc_snapshots := mput node snap (sc_snapshots c)\<rparr>" "sends = []"
    by (simp_all add: SetSnapshot_new)
  then show ?thesis by simp
next
  case (Some i)
  with inv have wf: "wf_map (si_watches i)" "wf_map (si_deltaWatches i)"
    by (auto simp: simple_inv_def node_ok_def)
  let ?f = "\<lambda>w. of_bool (P w) :: nat"
  from SetSnapshot_shape [OF L ok Some wf step] obtain vm ws dws ord dord where
    ws: "same_entries ws (si_watches i)" and dws: "same_entries dws (si_deltaWatches i)"
    and c': "c' = c\<lparr>sc_snapshots := mput node (snap\<lparr>snap_VersionMap := vm\<rparr>) (mput node snap (sc_snapshots c)),
        sc_status := mput node (i\<lparr>
          si_orderedWatches := ord, si_watches := filter (\<lambda>(k, w). \<not> sotw_stale snap w) (si_watches i),
          si_orderedDeltaWatches := dord,
          si_deltaWatches := filter (\<lambda>(k, w). \<not> delta_due (snap\<lparr>snap_VersionMap := vm\<rparr>) w) (si_deltaWatches i)\<rparr>)
        (sc_status c)\<rparr>"
    and sends: "sends = concat (map (\<lambda>(k, w). sotw_answer (sc_ads c) ctx snap w) (filter (\<lambda>(k, w). sotw_stale snap w) ws))
      @ concat (map (\<lambda>(k, w). delta_answer ctx (snap\<lparr>snap_VersionMap := vm\<rparr>) w)
          (filter (\<lambda>(k, w). delta_due (snap\<lparr>snap_VersionMap := vm\<rparr>) w) dws))"
    unfolding set_result_def Let_def by blast
  have "sent P sends \<le> msum ?f (filter (\<lambda>(k, w). sotw_stale snap w) ws)"
    using sent_answers [of P "sotw_answer (sc_ads c) ctx snap", OF sent_answer(2)]
    by (simp add: sends sent_delta)
  also have "\<dots> = msum ?f (filter (\<lambda>(k, w). sotw_stale snap w) (si_watches i))"
    by (rule msum_same) (use ws in simp)
  finally have "sent P sends + msum ?f (filter (\<lambda>(k, w). \<not> sotw_stale snap w) (si_watches i))
      \<le> node_open P i"
    using msum_filter [of ?f "sotw_stale snap" "si_watches i"] by (simp add: node_open_def)
  moreover have "open_on P c' + node_open P i = open_on P c + msum ?f (filter (\<lambda>(k, w). \<not> sotw_stale snap w) (si_watches i))"
    unfolding c' using msum_mput [of "node_open P" node _ "sc_status c"] Some by (simp add: open_on_def node_open_def)
  ultimately show ?thesis by linarith
qed

lemma sent_CreateWatch:
  assumes step: "simple_CreateWatch now req st ch' c = (c', sends, k)"
  shows "sent P sends + open_on P c' \<le> open_on P c + of_bool (P \<lparr>w_Request = req, w_Response = ch'\<rparr>)"
proof -
  let ?n = "node_of c req" and ?w = "\<lparr>w_Request = req, w_Response = ch'\<rparr>"
  let ?i = "(info_of (req_node req) ?n c)\<lparr>si_lastWatchRequestTime := now\<rparr>"
  let ?i' = "?i\<lparr>si_watches := mput (sc_watchCount c + 1) ?w (si_watches ?i)\<rparr>"
  note shape = simple_CreateWatch_shape [OF step]
  have same: "open_on P (put_status ?n ?i c) = open_on P c"
    using open_on_info_of [of P ?n ?i c "req_node req"] by simp
  show ?thesis
  proof (cases "answered_now c req st")
    case True
    with shape same sent_answer(2) [of P "sc_ads c" Background _ ?w] show ?thesis by (fastforce simp: add.commute)
  next
    case False
    have "open_on P (put_status ?n ?i' (put_status ?n ?i c)) + node_open P ?i = open_on P c + node_open P ?i'"
      using open_on_put [of P ?n ?i' "put_status ?n ?i c"] same by simp
    moreover have "node_open P ?i' \<le> node_open P ?i + of_bool (P ?w)"
      using msum_mput_le [of "\<lambda>w. of_bool (P w)" _ ?w "si_watches ?i"] by (simp add: node_open_def)
    ultimately have "open_on P (put_status ?n ?i' (put_status ?n ?i c)) \<le> open_on P c + of_bool (P ?w)" by linarith
    with shape False show ?thesis by (simp add: put_status_def open_on_def)
  qed
qed

lemma sent_CreateDeltaWatch:
  assumes step: "simple_CreateDeltaWatch L now req st ch' c = (c', sends, k)"
  shows "sent P sends + open_on P c' \<le> open_on P c"
proof -
  let ?n = "dnode_of c req"
  let ?i = "(info_of (dreq_node req) ?n c)\<lparr>si_lastDeltaWatchRequestTime := now\<rparr>"
  have same: "open_on P (put_status ?n ?i c) = open_on P c"
    using open_on_info_of [of P ?n ?i c "dreq_node req"] by simp
  have again: "open_on P (put_status ?n (?i\<lparr>si_deltaWatches := ws\<rparr>) (put_status ?n ?i c)) = open_on P c" for ws
    using open_on_put [of P ?n "?i\<lparr>si_deltaWatches := ws\<rparr>" "put_status ?n ?i c"] same by simp
  show ?thesis
    using simple_CreateDeltaWatch_shape [OF step] same again
    by (auto simp: Let_def delta_answer_def put_status_def open_on_def split: option.splits if_splits)
qed

lemma open_cancel: "open_on P (simple_cancel k c) \<le> open_on P c"
proof (cases k)
  case (CancelSotw n i)
  show ?thesis
  proof (cases "mget (sc_status c) n")
    case (Some info)
    have "node_open P (info\<lparr>si_watches := mdel i (si_watches info)\<rparr>) \<le> node_open P info"
      using msum_mdel by (simp add: node_open_def)
    with Some CancelSotw open_on_put [of P n "info\<lparr>si_watches := mdel i (si_watches info)\<rparr>" c] show ?thesis by simp
  qed (use CancelSotw in simp)
next
  case (CancelDeltaWatch n i)
  then show ?thesis
    using open_on_put [of P n _ c] by (cases "mget (sc_status c) n") (auto, metis add_right_cancel le_refl node_open_frame(3))
qed simp

lemma sent_heartbeats:
  assumes inv: "simple_inv L c" and step: "sendHeartbeats never ctx n (c, s) = (c', s')"
  shows "sent P s' + open_on P c' \<le> sent P s + open_on P c"
proof (cases "mget (sc_snapshots c) n"; cases "mget (sc_status c) n")
  fix snap i
  assume some: "mget (sc_snapshots c) n = Some snap" "mget (sc_status c) n = Some i"
  with inv have "node_ok (Some snap) i" unfolding simple_inv_def by metis
  then have wf: "wf_map (si_watches i)" by (simp add: node_ok_def)
  let ?f = "\<lambda>w. of_bool (P w) :: nat"
  let ?left = "filter (\<lambda>(k, w). \<not> heartbeat_due snap w) (si_watches i)"
  let ?due = "filter (\<lambda>(k, w). heartbeat_due snap w) (si_watches i)"
  have "sent P (concat (map (\<lambda>(k, w). heartbeat_answer (sc_ads c) ctx snap w) ?due)) \<le> msum ?f ?due"
    by (rule sent_answers [OF sent_answer(3)])
  moreover have "msum ?f ?due + msum ?f ?left = node_open P i"
    using msum_filter [of ?f "heartbeat_due snap" "si_watches i"] by (simp add: node_open_def)
  moreover have "open_on P c' + node_open P i = open_on P c + msum ?f ?left"
    using sendHeartbeats_shape [OF some wf] step some(2)
      open_on_put [of P n "i\<lparr>si_watches := ?left\<rparr>" c] by (simp add: node_open_def)
  ultimately show ?thesis using sendHeartbeats_shape [OF some wf, of ctx s] step by simp
qed (use step in \<open>simp_all add: sendHeartbeats_def\<close>)

lemma sent_tick:
  assumes "simple_inv L c"
  shows "sent P (snd (heartbeat_tick never ctx c)) + open_on P (fst (heartbeat_tick never ctx c)) \<le> open_on P c"
proof -
  have "sent P (snd r) + open_on P (fst r) \<le> sent P s + open_on P c"
    if "simple_inv L c" and "r = fold (sendHeartbeats never ctx) ns (c, s)" for ns c s r
    using that
  proof (induction ns arbitrary: c s)
    case (Cons n ns)
    obtain c1 s1 where one: "sendHeartbeats never ctx n (c, s) = (c1, s1)" by (cases "sendHeartbeats never ctx n (c, s)")
    have "simple_inv L c1" using simple_inv_heartbeats [OF Cons.prems(1), of ctx n s] one by simp
    from Cons.IH [OF this, of s1] sent_heartbeats [OF Cons.prems(1) one] Cons.prems(2) one show ?case
      by (fastforce intro: le_trans)
  qed simp
  from this [OF assms refl, where s = "[]"] show ?thesis by (simp add: heartbeat_tick_def)
qed

lemma sent_step:
  assumes L: "lib_total L" and inv: "simple_inv L c" and ok: "simple_op_ok L op"
    and step: "simple_step L op c = (c', sends)"
  shows "sent P sends + open_on P c' \<le> open_on P c + length (filter P (new_watches op))"
proof (cases op)
  case (SHeartbeat ctx)
  with step sent_tick [OF inv, of P ctx] show ?thesis by simp
next
  case (SClearSnapshot n)
  with step msum_mdel [of "node_open P" n "sc_status c"] show ?thesis by (auto simp: ClearSnapshot_def open_on_def)
next
  case (SCreateWatch now req st ch')
  then obtain k where "simple_CreateWatch now req st ch' c = (c', sends, k)" using step by (auto split: prod.splits)
  from sent_CreateWatch [OF this, of P] SCreateWatch show ?thesis by auto
next
  case (SCancel k)
  with step open_cancel [of P k c] show ?thesis by simp
qed (use assms in \<open>auto split: prod.splits dest: sent_CreateDeltaWatch [of L _ _ _ _ c] sent_SetSnapshot [OF L inv]\<close>)

lemma open_on_reorder:
  assumes inv: "simple_inv L c" and re: "simple_reorder c c'"
  shows "open_on P c' = open_on P c"
proof -
  from re obtain sn st where c': "c' = c\<lparr>sc_snapshots := sn, sc_status := st\<rparr>" and wf: "wf_map st"
    and st: "\<And>n. case mget (sc_status c) n of None \<Rightarrow> mget st n = None
         | Some i \<Rightarrow> (\<exists>ws dws. mget st n = Some (i\<lparr>si_watches := ws, si_deltaWatches := dws\<rparr>) \<and>
             same_entries (si_watches i) ws \<and> same_entries (si_deltaWatches i) dws)"
    unfolding simple_reorder_def by blast
  have dom: "dom (mget st) = dom (mget (sc_status c))"
    using st by (force split: option.splits)
  have "node_open P (the (mget st n)) = node_open P (the (mget (sc_status c) n))"
    if some: "n \<in> dom (mget (sc_status c))" for n
  proof -
    from some obtain i where "mget (sc_status c) n = Some i" by blast
    with st [of n] obtain ws dws where "mget st n = Some (i\<lparr>si_watches := ws, si_deltaWatches := dws\<rparr>)"
      "same_entries (si_watches i) ws" by auto
    with \<open>mget (sc_status c) n = Some i\<close> msum_same [of "si_watches i" ws] show ?thesis by (simp add: node_open_def)
  qed
  moreover from inv have "wf_map (sc_status c)" by (simp add: simple_inv_def)
  ultimately show ?thesis using wf by (simp add: c' open_on_def msum_dom dom)
qed

section \<open>Where the open watches are\<close>

definition watches_at :: "string \<Rightarrow> snapshotCache \<Rightarrow> (int64, ResponseWatch) gomap" where
  "watches_at n c = (case mget (sc_status c) n of None \<Rightarrow> [] | Some i \<Rightarrow> si_watches i)"

lemma watches_at_put [simp]:
  "watches_at n (put_status m i c) = (if n = m then si_watches i else watches_at n c)"
  by (simp add: watches_at_def mget_put)

lemma watches_at_frame [simp]:
  "watches_at n (c\<lparr>sc_snapshots := s\<rparr>) = watches_at n c"
  "watches_at n (c\<lparr>sc_watchCount := k\<rparr>) = watches_at n c"
  "watches_at n (c\<lparr>sc_deltaWatchCount := k\<rparr>) = watches_at n c"
  by (simp_all add: watches_at_def)

lemma watches_at_info_of [simp]: "si_watches (info_of node n c) = watches_at n c"
  by (simp add: watches_at_def info_of_def newStatusInfo_def split: option.split)

lemma watches_at_wf: "simple_inv L c \<Longrightarrow> wf_map (watches_at n c)"
  by (auto simp: watches_at_def simple_inv_def node_ok_def split: option.split)

text \<open>Every watch of \<open>c'\<close> is a watch of \<open>c\<close>.\<close>

definition no_more_watches :: "snapshotCache \<Rightarrow> snapshotCache \<Rightarrow> bool" where
  "no_more_watches c c' \<longleftrightarrow> (\<forall>n i w. mget (watches_at n c') i = Some w \<longrightarrow> mget (watches_at n c) i = Some w)"

lemma no_more_watches_refl [simp]: "no_more_watches c c"
  by (simp add: no_more_watches_def)

lemma no_more_watches_trans: "no_more_watches c c' \<Longrightarrow> no_more_watches c' c'' \<Longrightarrow> no_more_watches c c''"
  unfolding no_more_watches_def by blast

lemma no_more_watches_same: "(\<And>n. watches_at n c' = watches_at n c) \<Longrightarrow> no_more_watches c c'"
  by (simp add: no_more_watches_def)

lemma no_more_SetSnapshot:
  assumes L: "lib_total L" and inv: "simple_inv L c" and ok: "snap_ok L snap"
    and step: "SetSnapshot L never ctx node snap c = (c', sends, err)"
  shows "no_more_watches c c'"
proof (cases "mget (sc_status c) node")
  case None
  with step have "c' = c\<lparr>sc_snapshots := mput node snap (sc_snapshots c)\<rparr>" by (simp_all add: SetSnapshot_new)
  then show ?thesis by (simp add: no_more_watches_def)
next
  case (Some i)
  with inv have wf: "wf_map (si_watches i)" "wf_map (si_deltaWatches i)"
    by (auto simp: simple_inv_def node_ok_def)
  from SetSnapshot_shape [OF L ok Some wf step] have
    "watches_at n c' = (if n = node then filter (\<lambda>(k, w). \<not> sotw_stale snap w) (si_watches i) else watches_at n c)" for n
    unfolding set_result_def Let_def by (auto simp: watches_at_def mget_put)
  with Some wf show ?thesis
    by (auto simp: no_more_watches_def mget_eq_Some_iff watches_at_def split: if_splits)
qed

lemma created_watch:
  assumes step: "simple_CreateWatch now req st ch c = (c', sends, k)"
    and w: "mget (watches_at n c') i = Some w"
  shows "mget (watches_at n c) i = Some w \<or> k = Some (CancelSotw n i) \<and> w = \<lparr>w_Request = req, w_Response = ch\<rparr>"
proof (cases "answered_now c req st")
  case True
  with simple_CreateWatch_shape [OF step] w show ?thesis by (auto split: if_splits)
next
  case False
  with simple_CreateWatch_shape [OF step] w show ?thesis
    by (auto simp: mget_put put_status_def watches_at_def split: if_splits)
qed

lemma no_more_CreateDeltaWatch:
  assumes "simple_CreateDeltaWatch L now req st ch c = (c', sends, k)"
  shows "no_more_watches c c'"
  using simple_CreateDeltaWatch_shape [OF assms]
  by (intro no_more_watches_same) (auto simp: Let_def delta_answer_def split: option.splits if_splits)

lemma watches_at_cancel:
  "watches_at n (simple_cancel k c) =
     (case k of CancelSotw m i \<Rightarrow> (if n = m then mdel i (watches_at n c) else watches_at n c) | _ \<Rightarrow> watches_at n c)"
  by (cases k; auto simp: watches_at_def mget_put split: option.split)

lemma no_more_cancel: "no_more_watches c (simple_cancel k c)"
  by (auto simp: no_more_watches_def watches_at_cancel mget_del split: simple_canceler.splits if_splits)

lemma no_more_Clear: "no_more_watches c (ClearSnapshot m c)"
  by (auto simp: no_more_watches_def ClearSnapshot_def watches_at_def mget_del split: option.splits if_splits)

lemma no_more_heartbeats:
  assumes inv: "simple_inv L c"
  shows "no_more_watches c (fst (sendHeartbeats never ctx m (c, sends)))"
proof (cases "mget (sc_snapshots c) m"; cases "mget (sc_status c) m")
  fix snap i
  assume some: "mget (sc_snapshots c) m = Some snap" "mget (sc_status c) m = Some i"
  have wf: "wf_map (si_watches i)" using inv some(2) unfolding simple_inv_def node_ok_def by blast
  from sendHeartbeats_shape [OF some this, of ctx sends] some(2) wf show ?thesis
    by (auto simp: no_more_watches_def watches_at_def mget_put mget_eq_Some_iff split: if_splits)
qed (simp_all add: sendHeartbeats_def)

lemma no_more_tick:
  assumes "simple_inv L c"
  shows "no_more_watches c (fst (heartbeat_tick never ctx c))"
proof -
  have "no_more_watches c (fst (fold (sendHeartbeats never ctx) ns (c, sends)))" if "simple_inv L c" for ns c sends
    using that
  proof (induction ns arbitrary: c sends)
    case (Cons m ns)
    obtain c1 sends1 where h: "sendHeartbeats never ctx m (c, sends) = (c1, sends1)"
      by (cases "sendHeartbeats never ctx m (c, sends)")
    from simple_inv_heartbeats [OF Cons.prems, of ctx m sends] h have "simple_inv L c1" by simp
    from Cons.IH [OF this, of sends1] no_more_heartbeats [OF Cons.prems, of ctx m sends] h
    show ?case by (auto intro: no_more_watches_trans)
  qed simp
  from this [OF assms, of _ "[]"] show ?thesis by (simp add: heartbeat_tick_def)
qed

text \<open>An operation opens at most the watch it is asked to create.\<close>

lemma step_watches:
  assumes L: "lib_total L" and inv: "simple_inv L c" and ok: "simple_op_ok L op"
    and step: "simple_step L op c = (c', sends)" and w: "mget (watches_at n c') i = Some w"
  shows "mget (watches_at n c) i = Some w \<or> w \<in> set (new_watches op)"
proof -
  have old: "mget (watches_at n c) i = Some w" if "no_more_watches c c'"
    using that w unfolding no_more_watches_def by blast
  show ?thesis
  proof (cases op)
    case (SCreateWatch now req st ch)
    with step obtain k where "simple_CreateWatch now req st ch c = (c', sends, k)" by (auto split: prod.splits)
    from created_watch [OF this w] SCreateWatch show ?thesis by auto
  next
    case (SHeartbeat ctx)
    with step no_more_tick [OF inv, of ctx] old show ?thesis by simp
  next
    case (SClearSnapshot m)
    with step old no_more_Clear [of c m] show ?thesis by auto
  next
    case (SCancel k)
    with step old no_more_cancel [of c k] show ?thesis by auto
  qed (use step ok old in \<open>auto split: prod.splits intro!: disjI1
        dest: no_more_CreateDeltaWatch no_more_SetSnapshot [OF L inv]\<close>)
qed

lemma reorder_watches:
  assumes inv: "simple_inv L c" and re: "simple_reorder c c'"
  shows "mget (watches_at n c') = mget (watches_at n c)"
proof -
  from re obtain sn st where c': "c' = c\<lparr>sc_snapshots := sn, sc_status := st\<rparr>"
    and st: "\<And>n. case mget (sc_status c) n of
           None \<Rightarrow> mget st n = None
         | Some i \<Rightarrow> (\<exists>ws dws. mget st n = Some (i\<lparr>si_watches := ws, si_deltaWatches := dws\<rparr>) \<and>
             same_entries (si_watches i) ws \<and> same_entries (si_deltaWatches i) dws)"
    unfolding simple_reorder_def by blast
  show ?thesis
  proof (cases "mget (sc_status c) n")
    case None
    with st [of n] show ?thesis by (simp add: watches_at_def c')
  next
    case (Some i)
    with st [of n] obtain ws dws where "mget st n = Some (i\<lparr>si_watches := ws, si_deltaWatches := dws\<rparr>)"
      and "same_entries (si_watches i) ws" by auto
    with Some mget_same_entries [of "si_watches i" ws] watches_at_wf [OF inv, of n] show ?thesis
      by (simp add: watches_at_def c')
  qed
qed

text \<open>The two views agree on whether there is a watch at all.\<close>

lemma open_on_none:
  assumes inv: "simple_inv L c" and none: "\<And>n i w. mget (watches_at n c) i = Some w \<Longrightarrow> \<not> P w"
  shows "open_on P c = 0"
proof -
  have "node_open P i = 0" if i: "(n, i) \<in> set (sc_status c)" for n i
  proof -
    from inv have "mget (sc_status c) n = Some i" using i by (simp add: simple_inv_def mget_eq_Some_iff)
    then have at: "watches_at n c = si_watches i" by (simp add: watches_at_def)
    have "\<not> P w" if "(k, w) \<in> set (si_watches i)" for k w
      using none [of n k w] watches_at_wf [OF inv, of n] that by (simp add: at mget_eq_Some_iff)
    then show ?thesis by (auto simp: node_open_def msum_def sum_list_eq_0_iff)
  qed
  then show ?thesis by (auto simp: open_on_def msum_def sum_list_eq_0_iff)
qed

lemma open_on_pos:
  assumes "simple_inv L c" and "0 < open_on P c"
  obtains n i w where "mget (watches_at n c) i = Some w" and "P w"
  using open_on_none [OF assms(1)] assms(2) by (metis less_irrefl)

lemma open_on_none':
  assumes inv: "simple_inv L c" and none: "open_on P c = 0" and w: "mget (watches_at n c) i = Some w"
  shows "\<not> P w"
proof -
  from w obtain info where info: "mget (sc_status c) n = Some info" "mget (si_watches info) i = Some w"
    by (auto simp: watches_at_def split: option.splits)
  have "node_open P info = 0"
    using none map_of_SomeD [OF info(1)] by (force simp: open_on_def msum_def sum_list_eq_0_iff)
  with map_of_SomeD [OF info(2)] show ?thesis by (force simp: node_open_def msum_def sum_list_eq_0_iff)
qed

end
