(* ===== verification/ChannelCapacity.thy ===== *)
theory ChannelCapacity
  imports SnapshotStream LinearProps WatchCounts
begin

text \<open>
  Channels with a capacity.  The other theories let every send succeed.  Here the operations of a cache
  are taken apart: a goroutine takes the mutex, its sends happen one by one and wait while the channel
  is full, then it releases the mutex.  A goroutine of the server reads a channel only while it waits
  in its \<open>select\<close>, not while it waits for the mutex.
\<close>

section \<open>Goroutines, the mutex and the channels\<close>

text \<open>The channels of the two protocols, and the capacities the servers make them with.\<close>

type_synonym slot = "chan + chan"

fun slot_of :: "send \<Rightarrow> slot" where
  "slot_of (Send ch m) = Inl ch"
| "slot_of (SendDelta ch m) = Inr ch"

definition responder_capacity :: nat where
  "responder_capacity = 1"

definition muxed_capacity :: nat where
  "muxed_capacity = rt_index UnknownType * 2"

datatype 'op goroutine = Idle | Waiting 'op | Holding

record ('g, 'c, 'op) world =
  wd_cache :: 'c
  wd_lock :: "('g \<times> send list) option"
  wd_buffered :: "slot \<Rightarrow> nat"
  wd_goroutine :: "'g \<Rightarrow> 'op goroutine"

text \<open>
  The holder of the mutex has computed its operation and has the sends in the list still to do.  What
  \<open>run\<close> computes does not depend on when the sends happen, since nobody else can look at the cache.
\<close>

inductive world_step ::
    "('op \<Rightarrow> 'c \<Rightarrow> 'c \<times> send list) \<Rightarrow> ('op \<Rightarrow> 'c \<Rightarrow> bool) \<Rightarrow> ('c \<Rightarrow> 'c \<Rightarrow> bool) \<Rightarrow> (slot \<Rightarrow> nat) \<Rightarrow> (slot \<Rightarrow> 'g)
       \<Rightarrow> ('g, 'c, 'op) world \<Rightarrow> ('g, 'c, 'op) world \<Rightarrow> bool"
  for run allowed reorder cap reader where
  call: "wd_goroutine w g = Idle
     \<Longrightarrow> world_step run allowed reorder cap reader w (w\<lparr>wd_goroutine := (wd_goroutine w)(g := Waiting op)\<rparr>)"
| lock: "wd_goroutine w g = Waiting op \<Longrightarrow> wd_lock w = None \<Longrightarrow> allowed op (wd_cache w)
     \<Longrightarrow> run op (wd_cache w) = (c', sends)
     \<Longrightarrow> world_step run allowed reorder cap reader w
           (w\<lparr>wd_cache := c', wd_lock := Some (g, sends), wd_goroutine := (wd_goroutine w)(g := Holding)\<rparr>)"
| send: "wd_lock w = Some (g, s # sends) \<Longrightarrow> wd_buffered w (slot_of s) < cap (slot_of s)
     \<Longrightarrow> world_step run allowed reorder cap reader w
           (w\<lparr>wd_lock := Some (g, sends),
              wd_buffered := (wd_buffered w)(slot_of s := wd_buffered w (slot_of s) + 1)\<rparr>)"
| unlock: "wd_lock w = Some (g, [])
     \<Longrightarrow> world_step run allowed reorder cap reader w
           (w\<lparr>wd_lock := None, wd_goroutine := (wd_goroutine w)(g := Idle)\<rparr>)"
| receive: "wd_goroutine w (reader x) = Idle \<Longrightarrow> 0 < wd_buffered w x
     \<Longrightarrow> world_step run allowed reorder cap reader w
           (w\<lparr>wd_buffered := (wd_buffered w)(x := wd_buffered w x - 1)\<rparr>)"
| reorder: "wd_lock w = None \<Longrightarrow> reorder (wd_cache w) c'
     \<Longrightarrow> world_step run allowed reorder cap reader w (w\<lparr>wd_cache := c'\<rparr>)"

abbreviation "world_steps run allowed reorder cap reader \<equiv> (world_step run allowed reorder cap reader)\<^sup>*\<^sup>*"

definition world_start :: "'c \<Rightarrow> ('g, 'c, 'op) world" where
  "world_start c = \<lparr>wd_cache = c, wd_lock = None, wd_buffered = (\<lambda>x. 0), wd_goroutine = (\<lambda>g. Idle)\<rparr>"

text \<open>A goroutine that is idle may call an operation and take the mutex when it is free.\<close>

lemma world_takes:
  assumes "wd_goroutine w g = Idle" and "wd_lock w = None" and "allowed op (wd_cache w)" and "run op (wd_cache w) = (c', sends)"
  shows "world_steps run allowed reorder cap reader w
    (w\<lparr>wd_cache := c', wd_lock := Some (g, sends), wd_goroutine := (wd_goroutine w)(g := Holding)\<rparr>)"
proof -
  let ?w = "w\<lparr>wd_goroutine := (wd_goroutine w)(g := Waiting op)\<rparr>"
  have "world_step run allowed reorder cap reader w ?w" by (rule world_step.call) (rule assms(1))
  moreover have "world_step run allowed reorder cap reader ?w
      (w\<lparr>wd_cache := c', wd_lock := Some (g, sends), wd_goroutine := (wd_goroutine w)(g := Holding)\<rparr>)"
    using world_step.lock [of ?w g op allowed run c' sends] assms(2-4) by simp
  ultimately show ?thesis by (meson converse_rtranclp_into_rtranclp r_into_rtranclp)
qed

lemma world_releases:
  "wd_lock w = Some (g, []) \<Longrightarrow> world_steps run allowed reorder cap reader w
     (w\<lparr>wd_lock := None, wd_goroutine := (wd_goroutine w)(g := Idle)\<rparr>)"
  by (rule r_into_rtranclp) (rule world_step.unlock)

text \<open>
  A deadlock: the holder waits for room in a channel whose reader waits for the mutex.
\<close>

definition deadlocked :: "(slot \<Rightarrow> nat) \<Rightarrow> (slot \<Rightarrow> 'g) \<Rightarrow> ('g, 'c, 'op) world \<Rightarrow> bool" where
  "deadlocked cap reader w \<longleftrightarrow>
     (\<exists>g s sends op. wd_lock w = Some (g, s # sends) \<and> cap (slot_of s) \<le> wd_buffered w (slot_of s) \<and>
        wd_goroutine w (reader (slot_of s)) = Waiting op)"

lemma deadlocked_step:
  assumes "world_step run allowed reorder cap reader w w'" and "deadlocked cap reader w"
  shows "deadlocked cap reader w' \<and> wd_lock w' = wd_lock w \<and> wd_cache w' = wd_cache w"
proof -
  from assms(2) obtain g s sends op where w: "wd_lock w = Some (g, s # sends)"
    "cap (slot_of s) \<le> wd_buffered w (slot_of s)" "wd_goroutine w (reader (slot_of s)) = Waiting op"
    unfolding deadlocked_def by blast
  have "wd_lock w' = Some (g, s # sends) \<and> cap (slot_of s) \<le> wd_buffered w' (slot_of s) \<and>
      wd_goroutine w' (reader (slot_of s)) = Waiting op \<and> wd_cache w' = wd_cache w"
    using assms(1) by cases (use w in auto)
  with w(1) show ?thesis unfolding deadlocked_def by auto
qed

lemma deadlocked_forever:
  assumes "world_steps run allowed reorder cap reader w w'" and "deadlocked cap reader w"
  shows "deadlocked cap reader w' \<and> wd_lock w' = wd_lock w \<and> wd_cache w' = wd_cache w"
  using assms(1)
proof (induction rule: rtranclp_induct)
  case (step y z)
  with deadlocked_step [OF step.hyps(2)] show ?case by simp
qed (use assms(2) in simp)

section \<open>The linear cache\<close>

definition linear_locked :: "lib \<Rightarrow> linear_op \<Rightarrow> LinearCache \<Rightarrow> LinearCache \<times> send list" where
  "linear_locked L op c = (case linear_step L op c of (c', sends, err) \<Rightarrow> (c', sends))"

abbreviation "linear_world_steps L \<equiv> world_steps (linear_locked L) (\<lambda>op c. op_ok c op) linear_reorder"

text \<open>An update of the only watched name sends one response to the one channel that watches it.\<close>

lemma linear_update_one:
  assumes "r \<noteq> None" and "mget (lc_watches c) n = Some [ch]" and "lc_watchAll c = []" and "lc_versionMap c = None"
    and "\<not> lc_nilResources c"
  obtains c' m where "linear_locked L (OpUpdateResource n r) c = (c', [Send ch m])"
    and "lc_watches c' = mdel n (lc_watches c)" and "lc_watchAll c' = []" and "lc_versionMap c' = None"
    and "\<not> lc_nilResources c'"
proof -
  have "\<exists>c' m. linear_locked L (OpUpdateResource n r) c = (c', [Send ch m]) \<and>
      lc_watches c' = mdel n (lc_watches c) \<and> lc_watchAll c' = [] \<and> lc_versionMap c' = None \<and> \<not> lc_nilResources c'"
    using assms by (auto simp: linear_locked_def UpdateResource_def notifyAll_def Let_def notify_collect_def
        linear_respond_def mget_or_def split: option.splits)
  with that show thesis by blast
qed

text \<open>C38: an update of the linear cache, whose map of resources is not nil, can lock it up for good.  A
  state-of-the-world watch for two names has a channel with room for one response; one goroutine updates the two names one after the other,
  and before the stream's goroutine reads the first response, it takes a request up, which waits for the
  mutex.  Then the second update waits for room in the channel with the mutex held, and whatever
  happens afterwards, neither goes on, and the contents of the cache never change again.\<close>

theorem linear_update_deadlock:
  assumes "mget (lc_watches (wd_cache w)) m = Some [ch]" and "mget (lc_watches (wd_cache w)) n = Some [ch]" and "m \<noteq> n"
    and "lc_watchAll (wd_cache w) = []" and "lc_versionMap (wd_cache w) = None" and "r1 \<noteq> None" and "r2 \<noteq> None"
    and "\<not> lc_nilResources (wd_cache w)"
    and "wd_lock w = None" and "wd_buffered w (Inl ch) = 0" and "cap (Inl ch) = responder_capacity"
    and "wd_goroutine w u = Idle" and "wd_goroutine w (reader (Inl ch)) = Idle" and "u \<noteq> reader (Inl ch)"
    and "UpdateResource L m r1 (wd_cache w) = (c1, sends1, err1)" and "UpdateResource L n r2 c1 = (c2, sends2, err2)"
  shows "\<exists>w'. linear_world_steps L cap reader w w' \<and>
    (\<forall>w''. linear_world_steps L cap reader w' w'' \<longrightarrow> wd_lock w'' = Some (u, sends2) \<and> sends2 \<noteq> [] \<and> wd_cache w'' = c2)"
proof -
  let ?steps = "linear_world_steps L cap reader"
  let ?up1 = "OpUpdateResource m r1" and ?up2 = "OpUpdateResource n r2" and ?g = "wd_goroutine w"
  obtain resp1 where u1: "linear_locked L ?up1 (wd_cache w) = (c1, [Send ch resp1])"
    and c1: "lc_watches c1 = mdel m (lc_watches (wd_cache w))" "lc_watchAll c1 = []" "lc_versionMap c1 = None"
      "\<not> lc_nilResources c1"
    by (rule linear_update_one [OF assms(6,1,4,5,8), of L]) (use assms(15) in \<open>auto simp: linear_locked_def\<close>)
  have "mget (lc_watches c1) n = Some [ch]" using assms(2,3) by (simp add: c1)
  then obtain resp2 where u2: "linear_locked L ?up2 c1 = (c2, [Send ch resp2])" and s2: "sends2 = [Send ch resp2]"
    by (rule linear_update_one [OF assms(7) _ c1(2,3,4), of n ch L]) (use assms(16) in \<open>auto simp: linear_locked_def\<close>)
  define w1 where "w1 = w\<lparr>wd_cache := c1, wd_lock := Some (u, [Send ch resp1]), wd_goroutine := ?g(u := Holding)\<rparr>"
  define w2 where "w2 = w1\<lparr>wd_lock := Some (u, []), wd_buffered := (wd_buffered w)(Inl ch := 1)\<rparr>"
  define w3 where "w3 = w2\<lparr>wd_lock := None, wd_goroutine := ?g(u := Idle)\<rparr>"
  define w4 where "w4 = w3\<lparr>wd_cache := c2, wd_lock := Some (u, [Send ch resp2]), wd_goroutine := ?g(u := Holding)\<rparr>"
  define w5 where "w5 = w4\<lparr>wd_goroutine := ?g(u := Holding, reader (Inl ch) := Waiting ?up1)\<rparr>"
  note worlds = w1_def w2_def w3_def w4_def w5_def
  note once = r_into_rtranclp [of "world_step _ _ _ _ _"]
  have "?steps w w1"
    unfolding w1_def by (rule world_takes [where op = ?up1]) (use assms(8,9,12) u1 in \<open>simp_all add: op_ok_def op_panics_def\<close>)
  also have "?steps w1 w2"
    by (rule once) (use world_step.send [of w1 u "Send ch resp1" "[]" cap] assms(10,11)
        in \<open>simp add: worlds responder_capacity_def\<close>)
  also have "?steps w2 w3" using world_releases [of w2 u] by (simp add: worlds)
  also have "?steps w3 w4"
    using world_takes [of w3 u "\<lambda>op c. op_ok c op" ?up2 "linear_locked L"] u2 c1(4)
    by (simp add: worlds op_ok_def op_panics_def)
  also have "?steps w4 w5"
    by (rule once) (use world_step.call [of w4 "reader (Inl ch)"] assms(13,14) in \<open>simp add: worlds\<close>)
  finally have path: "?steps w w5" .
  have "deadlocked cap reader w5"
    using assms(11) by (auto simp: worlds deadlocked_def responder_capacity_def intro!: exI [of _ "Send ch resp2"])
  from deadlocked_forever [OF _ this] have "wd_lock w'' = Some (u, sends2) \<and> sends2 \<noteq> [] \<and> wd_cache w'' = c2"
    if "?steps w5 w''" for w''
    using that s2 by (fastforce simp: worlds)
  with path show ?thesis by blast
qed


text \<open>A cache with one watch, for the two names.\<close>

definition sample_watched :: LinearCache where
  "sample_watched = linear_run sample_lib
     [OpCreateWatch (sotw_request ''T'' ''p0'' [''a'', ''c'']) (NewStreamState False None) 7]
     (NewLinearCache ''T'' [WithVersionPrefix ''p''])"


lemma sample_watched_eq:
  "sample_watched = \<lparr>lc_typeURL = ''T'', lc_resources = [], lc_nilResources = False, lc_watches = [(''a'', [7]), (''c'', [7])],
     lc_watchAll = [], lc_deltaWatches = [], lc_deltaWatchCount = 0, lc_versionMap = None, lc_version = 0,
     lc_versionPrefix = ''p'', lc_versionVector = [], lc_log = False\<rparr>"
  using parse_version_format [of "''p''" 0] by (simp add: sample_watched_def sample_defs linear_defs)

text \<open>One goroutine updates, another one serves all the streams.\<close>

theorem linear_update_deadlock_witness:
  "\<exists>w'. linear_world_steps sample_lib (\<lambda>x. responder_capacity) (\<lambda>x. False) (world_start sample_watched) w' \<and>
    (\<forall>w''. linear_world_steps sample_lib (\<lambda>x. responder_capacity) (\<lambda>x. False) w' w'' \<longrightarrow> wd_lock w'' \<noteq> None)"
proof -
  let ?r = "\<lambda>n v. UpdateResource sample_lib n (cla n v)"
  obtain c1 s1 e1 where u1: "?r ''a'' [1] sample_watched = (c1, s1, e1)" by (metis prod_cases3)
  obtain c2 s2 e2 where u2: "?r ''c'' [2] c1 = (c2, s2, e2)" by (metis prod_cases3)
  from linear_update_deadlock [of "world_start sample_watched" "''a''" 7 "''c''" _ _ "\<lambda>x. responder_capacity"
      True "\<lambda>x. False", OF _ _ _ _ _ _ _ _ _ _ _ _ _ _ _ u2] u1
  show ?thesis by (simp add: world_start_def sample_watched_eq cla_def) fastforce
qed


section \<open>The snapshot cache\<close>

text \<open>
  The plain server makes a channel for each watch it creates, so the operations are restricted to
  those that create a watch with a channel not used before; the channels used are kept beside the cache.
\<close>

type_synonym simple_channels = "snapshotCache \<times> chan set"

fun watch_channels :: "simple_op \<Rightarrow> chan set" where
  "watch_channels (SCreateWatch now req st ch) = {ch}"
| "watch_channels _ = {}"

definition simple_locked :: "lib \<Rightarrow> simple_op \<Rightarrow> simple_channels \<Rightarrow> simple_channels \<times> send list" where
  "simple_locked L op = (\<lambda>(c, used). case simple_step L op c of
     (c', sends) \<Rightarrow> ((c', used \<union> watch_channels op), sends))"

abbreviation "simple_allowed L \<equiv> \<lambda>op (c, used). simple_op_ok L op \<and> watch_channels op \<inter> used = {}"

abbreviation "simple_world_steps L \<equiv>
  world_steps (simple_locked L) (simple_allowed L) (\<lambda>(c, used) (c', used'). simple_reorder c c' \<and> used' = used)"

abbreviation on_channel :: "chan \<Rightarrow> ResponseWatch \<Rightarrow> bool" where
  "on_channel ch \<equiv> \<lambda>w. w_Response w = ch"

lemma new_watch_channel: "length (filter (on_channel ch) (new_watches op)) = of_bool (ch \<in> watch_channels op)"
  by (cases op) simp_all

text \<open>
  For a channel, the responses in its buffer, those still to be sent by the holder of the mutex, and the
  watches open on it are together at most one.
\<close>

definition pending :: "('g \<times> send list) option \<Rightarrow> send list" where
  "pending l = (case l of None \<Rightarrow> [] | Some (g, sends) \<Rightarrow> sends)"

definition one_response :: "lib \<Rightarrow> ('g, simple_channels, simple_op) world \<Rightarrow> bool" where
  "one_response L w \<longleftrightarrow> simple_inv L (fst (wd_cache w)) \<and>
     (\<forall>ch. wd_buffered w (Inl ch) + length (sotw_messages ch (pending (wd_lock w))) + open_on (on_channel ch) (fst (wd_cache w))
        \<le> of_bool (ch \<in> snd (wd_cache w)))"

lemma one_response_step:
  assumes L: "lib_total L"
    and "world_step (simple_locked L) (simple_allowed L) (\<lambda>(c, used) (c', used'). simple_reorder c c' \<and> used' = used)
           cap reader w w'"
    and one: "one_response L w"
  shows "one_response L w'"
  using assms(2)
proof cases
  case (lock g op c' sends)
  obtain c used where w: "wd_cache w = (c, used)" by (cases "wd_cache w")
  from lock(4,5) w obtain c1 where step: "simple_step L op c = (c1, sends)" and c': "c' = (c1, used \<union> watch_channels op)"
    and ok: "simple_op_ok L op" "watch_channels op \<inter> used = {}"
    by (auto simp: simple_locked_def split: prod.splits)
  from one w have inv: "simple_inv L c" by (simp add: one_response_def)
  have "wd_buffered w (Inl ch) + length (sotw_messages ch sends) + open_on (on_channel ch) c1 \<le> of_bool (ch \<in> used \<union> watch_channels op)" for ch
  proof -
    have "wd_buffered w (Inl ch) + open_on (on_channel ch) c \<le> of_bool (ch \<in> used)"
      using one w lock(3) unfolding one_response_def by (simp add: pending_def)
    moreover note sent_step [OF L inv ok(1) step, of "on_channel ch", unfolded sent_channel new_watch_channel]
    moreover have "of_bool (ch \<in> used) + of_bool (ch \<in> watch_channels op) = (of_bool (ch \<in> used \<union> watch_channels op) :: nat)"
      using ok(2) by auto
    ultimately show ?thesis by linarith
  qed
  with simple_inv_step [OF L inv ok(1) step] show ?thesis
    by (simp add: lock(1) c' one_response_def pending_def)
next
  case (send g s sends)
  then have "wd_cache w' = wd_cache w"
    "wd_buffered w' (Inl ch) + length (sotw_messages ch (pending (wd_lock w')))
       = wd_buffered w (Inl ch) + length (sotw_messages ch (pending (wd_lock w)))" for ch
    by (cases s; simp add: pending_def)+
  with one show ?thesis by (simp add: one_response_def)
next
  case (reorder c')
  obtain c used where w: "wd_cache w = (c, used)" by (cases "wd_cache w")
  with reorder(3) obtain c1 where c': "c' = (c1, used)" and re: "simple_reorder c c1" by (cases c') simp
  from one w have inv: "simple_inv L c" by (simp add: one_response_def)
  from one w show ?thesis
    by (simp add: one_response_def reorder(1) c' open_on_reorder [OF inv re] simple_inv_reorder [OF inv re])
next
  case (receive x)
  then have same: "wd_cache w' = wd_cache w" "wd_lock w' = wd_lock w" and "wd_buffered w' y \<le> wd_buffered w y" for y
    by auto
  then have "wd_buffered w' (Inl ch) + length (sotw_messages ch (pending (wd_lock w'))) + open_on (on_channel ch) (fst (wd_cache w'))
      \<le> wd_buffered w (Inl ch) + length (sotw_messages ch (pending (wd_lock w))) + open_on (on_channel ch) (fst (wd_cache w))" for ch
    by simp
  with one show ?thesis unfolding one_response_def same by (meson order_trans)
qed (use one in \<open>simp_all add: one_response_def pending_def\<close>)

lemma one_response_reach:
  assumes "lib_total L" and "simple_world_steps L cap reader (world_start (newSnapshotCache ads hash, {})) w"
  shows "one_response L w"
  using assms(2)
proof (induction rule: rtranclp_induct)
  case base
  show ?case
    by (simp add: one_response_def world_start_def pending_def newSnapshotCache_def simple_inv_def open_on_def msum_def)
next
  case (step y z)
  from one_response_step [OF assms(1) step.hyps(2) step.IH] show ?case .
qed

text \<open>C27: with the plain server the snapshot cache is never held up by a state-of-the-world channel.  The
  server makes a channel with room for one response for each watch, and in every interleaving of
  goroutines that set and clear snapshots, create and cancel watches and send heartbeats, no channel
  ever has more than one response in its buffer or on its way to it: when the goroutine that holds the
  mutex has a response to send, the channel it goes to is empty, so it never waits.\<close>

theorem snapshot_channels_never_block:
  assumes "lib_total L" and "simple_world_steps L cap reader (world_start (newSnapshotCache ads hash, {})) w"
  shows "wd_buffered w (Inl ch) \<le> responder_capacity \<and>
    (\<forall>g m sends. wd_lock w = Some (g, Send ch m # sends) \<longrightarrow> wd_buffered w (Inl ch) < responder_capacity)"
proof -
  have "wd_buffered w (Inl ch) + length (sotw_messages ch (pending (wd_lock w))) \<le> 1"
    using one_response_reach [OF assms] unfolding one_response_def
    by (meson add_leD1 order_trans of_bool_less_eq_one)
  then show ?thesis by (auto simp: pending_def responder_capacity_def)
qed


theorem snapshot_channels_never_block_witness:
  "\<exists>w m. simple_world_steps sample_lib (\<lambda>x. responder_capacity) (\<lambda>x. False)
      (world_start (newSnapshotCache True IDHash_ID, {})) w \<and>
    wd_lock w = Some (True, [Send 3 m]) \<and> wd_buffered w (Inl 3) < responder_capacity"
proof -
  let ?steps = "simple_world_steps sample_lib (\<lambda>x. responder_capacity) (\<lambda>x. False)"
  define w0 where "w0 = (world_start (newSnapshotCache True IDHash_ID, {}) :: (bool, simple_channels, simple_op) world)"
  let ?snap = "endpoints ''1'' [(''a'', [1])]"
  let ?c = "(newSnapshotCache True IDHash_ID)\<lparr>sc_snapshots := [(''n'', ?snap)]\<rparr>"
  obtain c3 sends k where r: "simple_CreateWatch 6 (eds_request '''' []) (NewStreamState False None) 3 ?c = (c3, sends, k)"
    by (metis prod_cases3)
  have url: "req_type_url (eds_request '''' []) = EndpointType" "req_node (eds_request '''' []) = Some sample_node"
    "req_version_info (eds_request '''' []) = ''''" "req_resource_names (eds_request '''' []) = []"
    by (simp_all add: eds_request_def sotw_request_def empty_request_def)
  have "answered_now ?c (eds_request '''' []) (NewStreamState False None)"
    by (simp add: answered_now_def url endpoints_get newSnapshotCache_def IDHash_ID_def sample_node_def)
  with simple_CreateWatch_shape [OF r] obtain m where m: "sends = [Send 3 m]"
    by (auto simp: sotw_answer_def watch_answer_def url Let_def)
  define w1 where "w1 = w0\<lparr>wd_cache := (?c, {}), wd_lock := Some (True, []), wd_goroutine := (wd_goroutine w0)(True := Holding)\<rparr>"
  define w2 where "w2 = w0\<lparr>wd_cache := (?c, {})\<rparr>"
  define w3 where "w3 = w2\<lparr>wd_cache := (c3, {3}), wd_lock := Some (True, sends), wd_goroutine := (wd_goroutine w2)(True := Holding)\<rparr>"
  have "?steps w0 w1"
    unfolding w1_def by (rule world_takes [where op = "SSetSnapshot Background ''n'' ?snap"])
      (simp_all add: w0_def world_start_def endpoints_ok simple_locked_def SetSnapshot_def newSnapshotCache_def)
  also have "?steps w1 w2"
    using world_releases [of w1 True] by (simp add: w0_def w1_def w2_def world_start_def fun_upd_idem)
  also have "?steps w2 w3"
    unfolding w3_def by (rule world_takes [where op = "SCreateWatch 6 (eds_request '''' []) (NewStreamState False None) 3"])
      (simp_all add: w0_def w2_def world_start_def simple_locked_def r)
  finally have "?steps w0 w3" .
  moreover have "wd_lock w3 = Some (True, [Send 3 m])" by (simp add: w3_def m)
  moreover from snapshot_channels_never_block [OF lib_total_sample \<open>?steps w0 w3\<close> [unfolded w0_def], of 3] this
  have "wd_buffered w3 (Inl 3) < responder_capacity" by blast
  ultimately show ?thesis unfolding w0_def by blast
qed


section \<open>The channel of an incremental stream\<close>

text \<open>
  What is on its way to the client for a type: the messages in the channel and the watch that may
  become one.
\<close>

definition open_on ::
    "('k \<Rightarrow> 'c \<Rightarrow> DeltaResponseWatch option) \<Rightarrow> chan \<Rightarrow> ('c, 'k) delta_stream \<Rightarrow> string \<Rightarrow> bool" where
  "open_on parked ch s t \<longleftrightarrow>
     (\<exists>k rw. parked k (dst_cache s) = Some rw \<and> dw_Response rw = ch \<and> dreq_type_url (dw_Request rw) = t)"

definition messages_of :: "('c, 'k) delta_stream \<Rightarrow> string \<Rightarrow> nat" where
  "messages_of s t = length (filter (\<lambda>m. msg_type m = t) (dst_muxed s))"

definition under_way ::
    "('k \<Rightarrow> 'c \<Rightarrow> DeltaResponseWatch option) \<Rightarrow> chan \<Rightarrow> ('c, 'k) delta_stream \<Rightarrow> string \<Rightarrow> nat" where
  "under_way parked ch s t = messages_of s t + of_bool (open_on parked ch s t)"

text \<open>
  At most one thing is on its way for a type, two for one of them, and not two while a request is
  accepted: it found the channel empty.
\<close>

definition balanced ::
    "('k \<Rightarrow> 'c \<Rightarrow> DeltaResponseWatch option) \<Rightarrow> chan \<Rightarrow> ('c, 'k) delta_stream \<Rightarrow> bool" where
  "balanced parked ch s \<longleftrightarrow>
     msg_type ` set (dst_muxed s) \<subseteq> dom (mget (dst_watches s)) \<and>
     (\<exists>t0. \<forall>t. under_way parked ch s t \<le> (if t = t0 then 2 else 1)) \<and>
     (\<forall>req w. dst_phase s = Accepted req \<or> dst_phase s = Rewatching req w \<longrightarrow> (\<forall>t. under_way parked ch s t \<le> 1))"

lemma balanced_mono:
  assumes "balanced parked ch s" and "msg_type ` set (dst_muxed s') \<subseteq> dom (mget (dst_watches s'))"
    and "\<And>t. under_way parked ch s' t \<le> under_way parked ch s t"
    and "\<And>req w. dst_phase s' = Accepted req \<or> dst_phase s' = Rewatching req w \<Longrightarrow>
      (\<exists>req' w'. dst_phase s = Accepted req' \<or> dst_phase s = Rewatching req' w') \<or> dst_muxed s' = []"
  shows "balanced parked ch s'"
proof -
  have "under_way parked ch s' t \<le> 1" if "dst_phase s' = Accepted req \<or> dst_phase s' = Rewatching req w" for t req w
    using assms(4) [OF that]
  proof
    assume "dst_muxed s' = []"
    then show ?thesis by (simp add: under_way_def messages_of_def)
  next
    assume "\<exists>req' w'. dst_phase s = Accepted req' \<or> dst_phase s = Rewatching req' w'"
    with assms(1) have "under_way parked ch s t \<le> 1" unfolding balanced_def by blast
    with assms(3) [of t] show ?thesis by simp
  qed
  with assms(1-3) show ?thesis unfolding balanced_def by (meson le_trans)
qed

lemma balanced_bound:
  assumes "balanced parked ch s"
  shows "length (dst_muxed s) \<le> card (dom (mget (dst_watches s))) + 1"
proof -
  let ?D = "dom (mget (dst_watches s))"
  from assms obtain t0 where D: "msg_type ` set (dst_muxed s) \<subseteq> ?D" and
    b: "\<And>t. messages_of s t \<le> (if t = t0 then 2 else 1)"
    unfolding balanced_def under_way_def by (meson add_leD1)
  have fin: "finite ?D" by (rule finite_dom_map_of)
  have "length ms = (\<Sum>t\<in>?D. length (filter (\<lambda>m. msg_type m = t) ms))" if "msg_type ` set ms \<subseteq> ?D" for ms
    using that
  proof (induction ms)
    case (Cons a ms)
    have "length (filter (\<lambda>m. msg_type m = t) (a # ms)) =
        (if msg_type a = t then 1 else 0) + length (filter (\<lambda>m. msg_type m = t) ms)" for t by simp
    with Cons fin show ?case by (simp only: sum.distrib) simp
  qed simp
  with D have "length (dst_muxed s) = (\<Sum>t\<in>?D. messages_of s t)" by (simp add: messages_of_def)
  also have "messages_of s t \<le> 1 + of_bool (t = t0)" for t using b [of t] by (simp split: if_splits)
  then have "(\<Sum>t\<in>?D. messages_of s t) \<le> (\<Sum>t\<in>?D. 1 + of_bool (t = t0))" by (rule sum_mono)
  also have "(\<Sum>t\<in>?D. 1 + of_bool (t = t0)) = card ?D + (\<Sum>t\<in>?D. if t = t0 then 1 else 0)"
    by (simp only: sum.distrib of_bool_def) simp
  also have "\<dots> \<le> card ?D + 1" using fin by simp
  finally show ?thesis .
qed

context delta_cache
begin

lemma balanced_others:
  assumes inv: "inv (dst_cache s)" and own: "owned parked ch s" and bal: "balanced parked ch s"
    and step: "others ch (dst_cache s) c' sends"
  shows "balanced parked ch (s\<lparr>dst_cache := c', dst_muxed := dst_muxed s @ map Muxed (delta_messages ch sends)\<rparr>)"
    (is "balanced parked ch ?s")
proof (rule balanced_mono [OF bal])
  obtain ks where ks: "distinct ks"
    "list_all2 (\<lambda>k m. \<exists>w. parked k (dst_cache s) = Some w \<and> dw_Response w = ch \<and> answers view c' w m)
       ks (delta_messages ch sends)"
    and left: "\<And>k w. parked k c' = Some w \<Longrightarrow> dw_Response w = ch \<Longrightarrow>
       parked k (dst_cache s) = Some w \<and> k \<notin> set ks"
    using others_serve [OF inv step] by blast
  define type_of where "type_of k = dreq_type_url (dw_Request (the (parked k (dst_cache s))))" for k
  have "list_all2 (\<lambda>k m. type_of k = msg_type (Muxed m)) ks (delta_messages ch sends)"
    using ks(2) by (rule list_all2_mono) (auto simp: answers_def type_of_def)
  then have types: "length (filter (\<lambda>m. msg_type m = t) (map Muxed (delta_messages ch sends)))
      = length (filter (\<lambda>k. type_of k = t) ks)" for t
    by (induction rule: list_all2_induct) simp_all
  have open_k: "\<exists>rw. parked k (dst_cache s) = Some rw \<and> dw_Response rw = ch \<and> type_of k = dreq_type_url (dw_Request rw)"
    if "k \<in> set ks" for k
    using ks(2) that by (fastforce simp: list_all2_conv_all_nth in_set_conv_nth type_of_def)
  show "under_way parked ch ?s t \<le> under_way parked ch s t" for t
  proof (cases "filter (\<lambda>k. type_of k = t) ks")
    case Nil
    moreover have "open_on parked ch ?s t \<Longrightarrow> open_on parked ch s t"
      using left unfolding open_on_def by fastforce
    ultimately show ?thesis using types [of t] by (auto simp: under_way_def messages_of_def)
  next
    case (Cons k ks')
    from Cons have "k \<in> set (filter (\<lambda>k. type_of k = t) ks)" by simp
    then have k: "k \<in> set ks" "type_of k = t" by simp_all
    obtain rw where rw: "parked k (dst_cache s) = Some rw" "dw_Response rw = ch" "t = dreq_type_url (dw_Request rw)"
      using open_k [OF k(1)] k(2) by auto
    have one: "k' = k" if "k' \<in> set ks" "type_of k' = t" for k'
      using open_k [OF that(1)] that(2) owned_unique [OF own _ _ rw(1,2)] rw(3) by auto
    have "set (k # ks') \<subseteq> {k}" using one unfolding Cons [symmetric] by auto
    moreover have "distinct (k # ks')" using ks(1) unfolding Cons [symmetric] by simp
    ultimately have "ks' = []" by (cases ks') auto
    moreover have "\<not> open_on parked ch ?s t"
    proof
      assume "open_on parked ch ?s t"
      then obtain k' rw' where k': "parked k' c' = Some rw'" "dw_Response rw' = ch" "dreq_type_url (dw_Request rw') = t"
        by (auto simp: open_on_def)
      with left [OF k'(1,2)] owned_unique [OF own _ k'(2) rw(1,2)] rw(3) k(1) show False by auto
    qed
    moreover have "open_on parked ch s t" using rw unfolding open_on_def by blast
    ultimately show ?thesis using types [of t] Cons by (simp add: under_way_def messages_of_def)
  qed
  show "msg_type ` set (dst_muxed ?s) \<subseteq> dom (mget (dst_watches ?s))"
  proof (rule image_subsetI)
    fix m assume "m \<in> set (dst_muxed ?s)"
    then consider (old) "m \<in> set (dst_muxed s)" | (new) x where "m = Muxed x" "x \<in> set (delta_messages ch sends)"
      by auto
    then show "msg_type m \<in> dom (mget (dst_watches ?s))"
    proof cases
      case old
      with bal show ?thesis by (auto simp: balanced_def)
    next
      case new
      with others_types(1) [OF inv step new(2)] obtain k rw where "parked k (dst_cache s) = Some rw" "dw_Response rw = ch"
        and ty: "msg_type m = dreq_type_url (dw_Request rw)" by blast
      with own have "mget (dst_watches s) (dreq_type_url (dw_Request rw)) \<noteq> None" unfolding owned_def by blast
      then show ?thesis by (simp add: ty domIff)
    qed
  qed
qed auto

lemma balanced_own_step:
  assumes E: "CreateDeltaWatch (dsv_cache (de_server E)) = create" "cancel_fn (dsv_cache (de_server E)) = cancel"
    and inv: "inv (dst_cache s)" and own: "owned parked (de_chan E) s" and bal: "balanced parked (de_chan E) s"
    and step: "delta_select E i s = (s', None)" and i: "i \<in> {InMessage, InRequest req, InStep}"
  shows "balanced parked (de_chan E) s'"
  using step i
proof (cases rule: delta_own_cases)
  case (process m msgs)
  note frame = delta_process_frame [OF process(2)]
  have "mget (dst_watches s') t \<noteq> None" if "mget (dst_watches s) t \<noteq> None" for t using frame that by auto
  with bal frame process(1) have "msg_type ` set (dst_muxed s') \<subseteq> dom (mget (dst_watches s'))"
    unfolding balanced_def by (simp add: subset_iff domIff image_iff)
  with frame process show ?thesis
    by (intro balanced_mono [OF bal]) (auto simp: under_way_def messages_of_def open_on_def)
next
  case (request req)
  then show ?thesis using bal by (simp add: balanced_def under_way_def messages_of_def open_on_def)
next
  case (accept req)
  with delta_accept_frame [OF accept(3)] show ?thesis
    by (intro balanced_mono [OF bal]) (auto simp: under_way_def messages_of_def open_on_def)
next
  case (unwatch req)
  note un = delta_unwatch_frame [OF unwatch(2), unfolded E]
  then have "parked k (dst_cache s') = Some rw \<Longrightarrow> parked k (dst_cache s) = Some rw" for k rw
    by (auto simp: cancel_parked [OF inv] split: option.splits if_splits)
  then have "open_on parked (de_chan E) s' t \<Longrightarrow> open_on parked (de_chan E) s t" for t
    unfolding open_on_def by blast
  moreover have "msg_type ` set (dst_muxed s') \<subseteq> dom (mget (dst_watches s'))"
    using un bal by (simp add: balanced_def)
  ultimately show ?thesis using un unwatch(1)
    by (intro balanced_mono [OF bal]) (auto simp: under_way_def messages_of_def)
next
  case (rewatch req w)
  let ?tp = "dreq_type_url req" and ?ch = "de_chan E"
  obtain c' sends k where cr: "create req (dwt_state w) ?ch (dst_cache s) = (c', sends, k)" by (metis prod_cases3)
  have s': "s' = s\<lparr>dst_phase := Selecting, dst_cache := c',
      dst_muxed := dst_muxed s @ map Muxed (delta_messages ?ch sends),
      dst_watches := mput ?tp (w\<lparr>dwt_cancel := k\<rparr>) (dst_watches s)\<rparr>"
    by (simp add: rewatch(2) delta_rewatch_def E cr)
  have le: "under_way parked ?ch s t \<le> 1" for t using bal rewatch(1) unfolding balanced_def by blast
  have none: "\<not> open_on parked ?ch s ?tp" using own rewatch(1) unfolding owned_def open_on_def by blast
  have "\<exists>n. messages_of s' = (messages_of s)(?tp := messages_of s ?tp + n) \<and>
      (\<forall>t. open_on parked ?ch s' t \<longrightarrow> open_on parked ?ch s t \<or> t = ?tp \<and> n = 0) \<and> n \<le> 1 \<and>
      (\<forall>m \<in> set (dst_muxed s'). m \<in> set (dst_muxed s) \<or> msg_type m = ?tp)"
  proof (cases "sends = []")
    case True
    from create_parks [OF inv cr True] obtain j where j: "k = Some j"
      "parked j c' = Some \<lparr>dw_Request = req, dw_Response = ?ch, dw_StreamState = dwt_state w\<rparr>" by blast
    have "open_on parked ?ch s' t \<Longrightarrow> open_on parked ?ch s t \<or> t = ?tp" for t
      using create_keeps [OF inv cr] j unfolding open_on_def s' by simp (metis DeltaResponseWatch.select_convs(1) option.inject)
    with True show ?thesis by (intro exI [of _ 0]) (simp add: s' messages_of_def fun_eq_iff)
  next
    case False
    with create_answered [OF inv cr] obtain r where r: "view req c' = Some r" and k: "k = None" by blast
    from create_answer [OF inv cr r] False obtain ctx where
      sends: "sends = [SendDelta ?ch (Some (RawDelta (createDeltaResponse ctx req (dwt_state w) r)))]" by blast
    have "parked j c' = parked j (dst_cache s)" for j using create_keeps [OF inv cr, of j] k by simp
    then show ?thesis
      by (intro exI [of _ 1]) (auto simp: s' sends messages_of_def fun_eq_iff open_on_def)
  qed
  then obtain n where n: "messages_of s' = (messages_of s)(?tp := messages_of s ?tp + n)" "n \<le> 1"
    and op: "\<And>t. open_on parked ?ch s' t \<Longrightarrow> open_on parked ?ch s t \<or> t = ?tp \<and> n = 0"
    and ms: "\<And>m. m \<in> set (dst_muxed s') \<Longrightarrow> m \<in> set (dst_muxed s) \<or> msg_type m = ?tp" by blast
  have "under_way parked ?ch s' t \<le> (if t = ?tp then 2 else 1)" for t
  proof (cases "t = ?tp")
    case True
    with none le [of t] op [of t] n show ?thesis by (auto simp: under_way_def)
  next
    case False
    with le [of t] op [of t] n show ?thesis by (auto simp: under_way_def)
  qed
  moreover have "msg_type ` set (dst_muxed s') \<subseteq> dom (mget (dst_watches s'))"
  proof (rule image_subsetI)
    fix m assume "m \<in> set (dst_muxed s')"
    from ms [OF this] bal have "msg_type m \<in> insert ?tp (dom (mget (dst_watches s)))"
      by (auto simp: balanced_def)
    then show "msg_type m \<in> dom (mget (dst_watches s'))" by (auto simp: s' mget_put)
  qed
  moreover have "dst_phase s' = Selecting" by (simp add: s')
  ultimately show ?thesis unfolding balanced_def by (intro conjI exI [of _ ?tp]) simp_all
qed (use bal in simp)

lemma stream_run_balanced:
  assumes E: "CreateDeltaWatch (dsv_cache (de_server E)) = create" "cancel_fn (dsv_cache (de_server E)) = cancel"
    and starts: "\<And>c. starts c \<Longrightarrow> inv c \<and> (\<forall>k rw. parked k c = Some rw \<longrightarrow> dw_Response rw \<noteq> de_chan E)"
    and reach: "delta_reach careful starts others E cl0 s"
  shows "balanced parked (de_chan E) s"
  using reach
proof induction
  case (init c s)
  from delta_open_cases [OF init(2)] obtain es where "s = (new_delta_stream c)\<lparr>dst_trace := es\<rparr>" by blast
  with starts [OF init(1)] show ?case
    by (auto simp: balanced_def new_delta_stream_def under_way_def messages_of_def open_on_def)
next
  case (own s i req s')
  with stream_run_owned [OF E starts own.hyps(1)] balanced_own_step [OF E _ _ _ own.hyps(4,2)] show ?case by blast
next
  case (others s c' sends s')
  from others.hyps(4) have s': "s' = s\<lparr>dst_cache := c',
      dst_muxed := dst_muxed s @ map Muxed (delta_messages (de_chan E) sends)\<rparr>" by simp
  from stream_run_owned [OF E starts others.hyps(1)] others.IH balanced_others [OF _ _ _ others.hyps(2)]
  show ?case by (simp add: s')
qed

end

text \<open>C28: at any moment of any run, careful or not, the one channel an incremental stream reads its
  responses from holds at most two responses of one type and at most one of every other type, so at
  most one more than the stream has types with a watch; as long as these are fewer than the channel has
  room for, neither the snapshot cache nor the stream's own goroutine waits to send to it.\<close>

theorem delta_channel_bound:
  assumes "lib_total L" and "dsv_cache (de_server E) = simple_Cache L now" and "simple_stream_runs L E cl0 s"
  shows "(\<exists>t0. \<forall>t. length (filter (\<lambda>m. msg_type m = t) (dst_muxed s)) \<le> (if t = t0 then 2 else 1)) \<and>
    length (dst_muxed s) \<le> card (dom (mget (dst_watches s))) + 1 \<and>
    (card (dom (mget (dst_watches s))) < muxed_capacity \<longrightarrow> length (dst_muxed s) \<le> muxed_capacity)"
proof -
  have bal: "balanced simple_parked (de_chan E) s"
    by (rule simple_stream.stream_run_balanced [OF simple_server_cache [OF assms(2)] simple_starts_inv [OF assms(1)] assms(3)])
  then have "\<exists>t0. \<forall>t. messages_of s t \<le> (if t = t0 then 2 else 1)"
    unfolding balanced_def under_way_def by (meson add_leD1)
  with balanced_bound [OF bal] show ?thesis by (simp add: messages_of_def)
qed

text \<open>A client that holds nothing asks for everything: its response is in the channel.\<close>

definition fresh_subscribe :: DeltaDiscoveryRequest where
  "fresh_subscribe = snapshot_subscribe\<lparr>dreq_initial_resource_versions := None, dreq_resource_names_subscribe := []\<rparr>"

theorem delta_channel_bound_witness:
  "\<exists>s. simple_stream_runs sample_lib snapshot_env (\<lambda>typ n. None) s \<and> 0 < length (dst_muxed s) \<and> length (dst_muxed s) \<le> 2 \<and>
     card (dom (mget (dst_watches s))) = 1"
proof -
  let ?st = "NewStreamState True None"
  obtain c' sends k where d: "simple_CreateDeltaWatch sample_lib 6 fresh_subscribe ?st 9 sample_simple = (c', sends, k)"
    by (metis prod_cases3)
  have st: "delta_next_state fresh_subscribe (delta_first_state fresh_subscribe) = ?st"
    by (simp add: delta_first_state_def delta_next_state_def fresh_subscribe_def snapshot_subscribe_def
        empty_delta_request_def stream_state_defs NewStreamState_def)
  have req: "dreq_type_url fresh_subscribe = EndpointType" "dreq_node fresh_subscribe = Some sample_node"
    "dreq_initial_resource_versions fresh_subscribe = None"
    by (simp_all add: fresh_subscribe_def snapshot_subscribe_def empty_delta_request_def)
  have fill: "delta_fill_type EndpointType fresh_subscribe = Inr fresh_subscribe"
    by (simp add: delta_fill_type_def req) (simp add: type_url_defs)
  have E: "dsv_cache (de_server snapshot_env) = simple_Cache sample_lib 6" "dsv_callbacks (de_server snapshot_env) = None"
    "de_lib snapshot_env = sample_lib" "de_chan snapshot_env = 9" "de_typeURL snapshot_env = EndpointType"
    by (simp_all add: snapshot_env_def NewDeltaServer_def)
  let ?w = "\<lparr>dwt_cancel = k, dwt_nonce = '''', dwt_state = ?st, dwt_nilmaps = False\<rparr>"
  let ?s = "\<lparr>dst_phase = Selecting, dst_cache = c', dst_watches = [(EndpointType, ?w)], dst_muxed = map Muxed (delta_messages 9 sends),
    dst_nonce = 0, dst_node = sample_node, dst_trace = []\<rparr>"
  have s: "delta_loop snapshot_env (delta_handled fresh_subscribe) snapshot_opened = (?s, None)"
    using d
    by (simp add: delta_handled_def delta_busy_def delta_handle_request_def delta_step_def delta_processAll_def
        delta_accept_def delta_unwatch_def delta_returns_def new_delta_stream_def delta_fill_node_def fill req E
        delta_rewatch_def Let_def st zero_delta_watch_def cache_defs)
  have reach: "simple_stream_runs sample_lib snapshot_env (\<lambda>typ n. None) ?s"
  proof (rule delta_handled_reach [OF delta_reach_careless [OF snapshot_opened_reach] _ _ _ _ s])
    show "dst_phase snapshot_opened = Selecting" "dst_muxed snapshot_opened = []" by (simp_all add: new_delta_stream_def)
    show "delta_fill_type (de_typeURL snapshot_env) fresh_subscribe = Inr fresh_subscribe" by (simp add: E fill)
    show "request_agrees fresh_subscribe (mget (dst_watches snapshot_opened) (dreq_type_url fresh_subscribe))
        (client_of (\<lambda>typ n. None) (dst_trace snapshot_opened) (dreq_type_url fresh_subscribe))"
      by (auto simp: request_agrees_def new_delta_stream_def in_scope_def delta_first_state_def delta_next_state_def
          fresh_subscribe_def snapshot_subscribe_def empty_delta_request_def stream_state_defs NewStreamState_def agrees_def)
  qed
  have snap: "mget (sc_snapshots sample_simple) (dnode_of sample_simple fresh_subscribe) = Some (endpoints ''1'' [(''a'', [1])])"
    by (simp add: sample_simple_eq req IDHash_ID_def sample_node_def)
  have "delta_due snap' \<lparr>dw_Request = fresh_subscribe, dw_Response = 9, dw_StreamState = ?st\<rparr>" for snap'
    by (simp add: delta_due_def NewStreamState_def stream_state_defs)
  with simple_CreateDeltaWatch_shape [OF d] snap have "length (dst_muxed ?s) \<noteq> 0"
    by (simp add: Let_def delta_answer_def)
  moreover have one: "card (dom (mget (dst_watches ?s))) = 1" by (subst dom_map_of_conv_image_fst) simp
  moreover have "length (dst_muxed ?s) \<le> card (dom (mget (dst_watches ?s))) + 1"
    using delta_channel_bound [OF lib_total_sample E(1) reach] by blast
  ultimately show ?thesis using reach one by (intro exI [of _ ?s]) simp
qed

end
