(* ===== verification/OrderedChannel.thy ===== *)
theory OrderedChannel
  imports SotwProps WatchCounts
begin

text \<open>
  The channel all watches of an ordered stream share (\<open>pkg/server/sotw/v3/ads.go\<close>).  It is made with
  room for one response of each response type, and the loop that reads it is the one that asks the
  cache for watches.  With the snapshot cache it holds at most one response for each type URL
  the client has asked for; a client that asks for more type URLs than there are response types
  fills it.
\<close>

definition ads_capacity :: nat where
  "ads_capacity = rt_index UnknownType"

section \<open>Frames\<close>

lemma mget_deliver: "mget (deliver sends chans) ch = map_option (\<lambda>q. q @ sotw_messages ch sends) (mget chans ch)"
  by (induction chans) (auto simp: deliver_def)

lemma ads_channel_create:
  "req_type_url req \<noteq> AnyType \<Longrightarrow> ads_channel (sotw_create_watch E req ch s) = ads_channel s"
  by (simp add: sotw_create_watch_def ads_channel_def addWatch_def mget_put split: prod.split)

lemma ads_channel_known [simp]:
  "ads_channel (sotw_record_known req s) = ads_channel s" "sw_chans (sotw_record_known req s) = sw_chans s"
  "sw_responders (sotw_record_known req s) = sw_responders s" "sw_cache (sotw_record_known req s) = sw_cache s"
  "sw_trace (sotw_record_known req s) = sw_trace s" "sw_ordered (sotw_record_known req s) = sw_ordered s"
  by (simp_all add: sotw_record_known_def ads_channel_def split: option.split)

lemma ads_channel_frame [simp]:
  "ads_channel (s\<lparr>sw_node := n\<rparr>) = ads_channel s" "ads_channel (s\<lparr>sw_trace := es\<rparr>) = ads_channel s"
  "ads_channel (s\<lparr>sw_chans := cs\<rparr>) = ads_channel s" "ads_channel (s\<lparr>sw_cache := c\<rparr>) = ads_channel s"
  "ads_channel (s\<lparr>sw_resent := r\<rparr>) = ads_channel s"
  by (simp_all add: ads_channel_def)

section \<open>Too many type URLs\<close>

text \<open>
  A request the snapshot cache answers at once: the type URL is none of the response types, so the
  version of the snapshot is empty, and the request names another.
\<close>

definition unknown_request :: "Node \<Rightarrow> DiscoveryRequest \<Rightarrow> bool" where
  "unknown_request node req \<longleftrightarrow> req_node req = Some node \<and> req_type_url req \<noteq> ''''
     \<and> GetResponseType (req_type_url req) = UnknownType \<and> req_version_info req \<noteq> ''''"

lemma unknown_answered:
  assumes "unknown_request node req" and "mget (sc_snapshots c) (sc_hash c (Some node)) = Some snap"
    and step: "simple_CreateWatch now req st ch c = (c', sends, k)"
  shows "(\<exists>m. sends = [Send ch m]) \<and> sc_snapshots c' = sc_snapshots c \<and> sc_hash c' = sc_hash c"
proof -
  from assms(1,2) have "answered_now c req st" "GetResourcesAndTTL (Some snap) (req_type_url req) = []"
    by (simp_all add: unknown_request_def answered_now_def snapshot_GetVersion_def GetResourcesAndTTL_def)
  with simple_CreateWatch_shape [OF step] assms(1,2) show ?thesis
    by (auto simp: unknown_request_def sotw_answer_def watch_answer_def put_status_def)
qed

text \<open>Such a request on an ordered stream leaves one more response in the channel, and reads none.\<close>

definition ads_holds :: "Response option list \<Rightarrow> ('c, 'k) streamWrapper \<Rightarrow> bool" where
  "ads_holds q s \<longleftrightarrow> sw_ordered s \<and> (\<exists>ch. ads_channel s = Some ch \<and> mget (sw_chans s) ch = Some q)"

lemma ads_holds_queue: "ads_holds q s \<Longrightarrow> ads_queue s = q"
  by (auto simp: ads_holds_def ads_queue_def mget_or_def)

lemma ordered_unknown_request:
  assumes E: "ssv_cache (se_server E) = simple_Cache L now" "ssv_callbacks (se_server E) = None"
    and s: "ads_holds q s" "mget (sc_snapshots (sw_cache s)) (sc_hash (sw_cache s) (Some node)) = Some snap"
    and req: "unknown_request node req" "mget (sw_responders s) (req_type_url req) = None"
  shows "\<exists>s' m. sotw_select E (SRequest (Some req)) s = (s', None) \<and> ads_holds (q @ [m]) s' \<and>
    sc_snapshots (sw_cache s') = sc_snapshots (sw_cache s) \<and> sc_hash (sw_cache s') = sc_hash (sw_cache s) \<and>
    sw_trace s' = sw_trace s \<and>
    (\<forall>t. t \<noteq> req_type_url req \<longrightarrow> mget (sw_responders s') t = mget (sw_responders s) t)"
proof -
  from s(1) obtain ch where ch: "sw_ordered s" "ads_channel s = Some ch" "mget (sw_chans s) ch = Some q"
    by (auto simp: ads_holds_def)
  let ?s = "sotw_record_known req (s\<lparr>sw_node := node\<rparr>)"
  obtain c' sends k where step: "simple_CreateWatch now req (sw_streamState ?s) ch (sw_cache s) = (c', sends, k)"
    by (metis prod_cases3)
  from unknown_answered [OF req(1) s(2) step] obtain m where m: "sends = [Send ch m]"
    and same: "sc_snapshots c' = sc_snapshots (sw_cache s)" "sc_hash c' = sc_hash (sw_cache s)" by blast
  let ?s' = "sotw_create_watch E req ch ?s"
  have t: "req_type_url req \<noteq> AnyType" "req_node req = Some node"
    using req(1) by (auto simp: unknown_request_def AnyType_def)
  have "sotw_select E (SRequest (Some req)) s = (?s', None)"
    using ch req(2) t E(2)
    by (simp add: sotw_ads_request_def sotw_fill_node_def sotw_on_request_def sotw_ads_rewatch_def running_def AnyType_def)
  moreover have "ads_holds (q @ [m]) ?s'"
    using ch t step E(1) by (simp add: ads_holds_def ads_channel_create mget_deliver m)
      (simp add: sotw_create_watch_def simple_Cache_def addWatch_def mget_deliver m)
  ultimately show ?thesis
    using step E(1) same
    by (intro exI [of _ ?s'] exI [of _ m]) (simp add: sotw_create_watch_def simple_Cache_def addWatch_def mget_put)
qed

lemma ordered_unknown_requests:
  assumes E: "ssv_cache (se_server E) = simple_Cache L now" "ssv_callbacks (se_server E) = None"
    and "ads_holds q s" "mget (sc_snapshots (sw_cache s)) (sc_hash (sw_cache s) (Some node)) = Some snap"
    and "\<forall>req \<in> set reqs. unknown_request node req \<and> mget (sw_responders s) (req_type_url req) = None"
    and "distinct (map req_type_url reqs)"
  shows "\<exists>s' ms. sotw_loop E (map (\<lambda>req. SRequest (Some req)) reqs) s = (s', None) \<and> ads_holds (q @ ms) s' \<and>
    length ms = length reqs \<and> sw_trace s' = sw_trace s \<and>
    mget (sc_snapshots (sw_cache s')) (sc_hash (sw_cache s') (Some node)) = Some snap \<and>
    (\<forall>t. t \<notin> req_type_url ` set reqs \<longrightarrow> mget (sw_responders s') t = mget (sw_responders s) t)"
  using assms(3-6)
proof (induction reqs arbitrary: q s)
  case (Cons req reqs)
  from Cons.prems(3) have req: "unknown_request node req" "mget (sw_responders s) (req_type_url req) = None" by simp_all
  from ordered_unknown_request [OF E Cons.prems(1,2) req] obtain s1 m where
    one: "sotw_select E (SRequest (Some req)) s = (s1, None)" "ads_holds (q @ [m]) s1" "sw_trace s1 = sw_trace s"
    and cache: "sc_snapshots (sw_cache s1) = sc_snapshots (sw_cache s)" "sc_hash (sw_cache s1) = sc_hash (sw_cache s)"
    and old: "\<And>t. t \<noteq> req_type_url req \<Longrightarrow> mget (sw_responders s1) t = mget (sw_responders s) t" by blast
  have rest: "\<forall>r \<in> set reqs. unknown_request node r \<and> mget (sw_responders s1) (req_type_url r) = None"
    using Cons.prems(3,4) old by (metis image_eqI list.set_intros(2) list.simps(9) distinct.simps(2) set_map)
  have "mget (sc_snapshots (sw_cache s1)) (sc_hash (sw_cache s1) (Some node)) = Some snap"
    using Cons.prems(2) cache by simp
  from Cons.IH [OF one(2) this rest] Cons.prems(4) obtain s' ms where
    r: "sotw_loop E (map (\<lambda>req. SRequest (Some req)) reqs) s1 = (s', None)" "ads_holds ((q @ [m]) @ ms) s'"
    "length ms = length reqs" "sw_trace s' = sw_trace s1"
    "mget (sc_snapshots (sw_cache s')) (sc_hash (sw_cache s') (Some node)) = Some snap"
    "\<And>t. t \<notin> req_type_url ` set reqs \<Longrightarrow> mget (sw_responders s') t = mget (sw_responders s1) t" by auto
  show ?case
    using one(1,3) r old by (intro exI [of _ s'] exI [of _ "m # ms"]) simp
qed auto

text \<open>C39: a client of an ordered stream can make it wait for itself.  For every type URL that is none of
  the response types and a version that is not empty the snapshot cache answers at once, inside
  \<open>CreateWatch\<close>, and the loop goes on to the next request without reading the channel.  After as many
  requests as the channel has room for nothing has been sent and the channel is full; the next request
  sends to it once more from the goroutine that alone would read it, which then waits for ever and
  holds the mutex of the cache.\<close>

theorem ordered_channel_overflows:
  assumes "ssv_cache (se_server E) = simple_Cache L now" and "ssv_callbacks (se_server E) = None"
    and "sw_ordered s" and "ads_channel s = Some ch" and "mget (sw_chans s) ch = Some []"
    and "mget (sc_snapshots (sw_cache s)) (sc_hash (sw_cache s) (Some node)) = Some snap"
    and "\<forall>req \<in> set reqs. unknown_request node req \<and> mget (sw_responders s) (req_type_url req) = None"
    and "distinct (map req_type_url reqs)" and "ads_capacity < length reqs"
  shows "\<exists>s1 s2. sotw_loop E (map (\<lambda>req. SRequest (Some req)) (take ads_capacity reqs)) s = (s1, None) \<and>
    length (ads_queue s1) = ads_capacity \<and> sw_trace s1 = sw_trace s \<and>
    sotw_select E (SRequest (Some (reqs ! ads_capacity))) s1 = (s2, None) \<and> length (ads_queue s2) = Suc ads_capacity"
proof -
  let ?before = "take ads_capacity reqs" and ?req = "reqs ! ads_capacity"
  have split: "take (Suc ads_capacity) reqs = ?before @ [?req]"
    using assms(9) by (rule take_Suc_conv_app_nth)
  then have "distinct (map req_type_url (?before @ [?req]))"
    using assms(8) by (metis distinct_take take_map)
  then have new: "req_type_url ?req \<notin> req_type_url ` set ?before" "distinct (map req_type_url ?before)" by auto
  have before: "\<forall>req \<in> set ?before. unknown_request node req \<and> mget (sw_responders s) (req_type_url req) = None"
    using assms(7) by (meson in_set_takeD)
  have "ads_holds [] s" using assms(3-5) by (simp add: ads_holds_def)
  from ordered_unknown_requests [OF assms(1,2) this assms(6) before new(2)] obtain s1 ms where
    r: "sotw_loop E (map (\<lambda>req. SRequest (Some req)) ?before) s = (s1, None)" "ads_holds ms s1"
    "length ms = ads_capacity" "sw_trace s1 = sw_trace s"
    "mget (sc_snapshots (sw_cache s1)) (sc_hash (sw_cache s1) (Some node)) = Some snap"
    "mget (sw_responders s1) (req_type_url ?req) = mget (sw_responders s) (req_type_url ?req)"
    using assms(9) new(1) by auto
  have "unknown_request node ?req" "mget (sw_responders s1) (req_type_url ?req) = None"
    using assms(7,9) r(6) by simp_all
  from ordered_unknown_request [OF assms(1,2) r(2,5) this] obtain s2 m where
    "sotw_select E (SRequest (Some ?req)) s1 = (s2, None)" "ads_holds (ms @ [m]) s2" by blast
  with r show ?thesis by (auto simp: ads_holds_queue)
qed

text \<open>Eleven type URLs no resource has.\<close>

definition strange_requests :: "DiscoveryRequest list" where
  "strange_requests = map (\<lambda>t. (sotw_request t ''1'' [])\<lparr>req_node := Some sample_node\<rparr>)
     [''a'', ''b'', ''c'', ''d'', ''e'', ''f'', ''g'', ''h'', ''i'', ''j'', ''k'']"

definition ordered_env :: "(snapshotCache, simple_canceler) sotw_env" where
  "ordered_env = \<lparr>se_server = NewSotwServer (simple_Cache sample_lib 6) None [WithOrderedADS], se_lib = sample_lib,
     se_ID = 1, se_typeURL = AnyType, se_send = (\<lambda>trace m. None)\<rparr>"

abbreviation ordered_start :: "(snapshotCache, simple_canceler) streamWrapper" where
  "ordered_start \<equiv> processADS_start (new_streamWrapper 9 sample_simple)"

theorem ordered_channel_overflows_witness:
  "\<exists>s1 s2. sotw_loop ordered_env (map (\<lambda>req. SRequest (Some req)) (take 10 strange_requests)) ordered_start = (s1, None) \<and>
    length (ads_queue s1) = 10 \<and> sw_trace s1 = [] \<and>
    sotw_select ordered_env (SRequest (Some (strange_requests ! 10))) s1 = (s2, None) \<and> length (ads_queue s2) = 11"
proof -
  have E: "ssv_cache (se_server ordered_env) = simple_Cache sample_lib 6" "ssv_callbacks (se_server ordered_env) = None"
    by (simp_all add: ordered_env_def NewSotwServer_def)
  have s: "sw_ordered ordered_start" "ads_channel ordered_start = Some 9" "mget (sw_chans ordered_start) 9 = Some []"
    "sw_cache ordered_start = sample_simple" "sw_trace ordered_start = []"
    "mget (sw_responders ordered_start) t = None" if "t \<noteq> AnyType" for t
    using that by (simp_all add: processADS_start_def make_chan_def addWatch_def new_streamWrapper_def ads_channel_def)
  have snap: "mget (sc_snapshots (sw_cache ordered_start)) (sc_hash (sw_cache ordered_start) (Some sample_node))
      = Some (endpoints ''1'' [(''a'', [1])])"
    using s(4) [of "''a''"] by (simp add: AnyType_def sample_simple_eq IDHash_ID_def sample_node_def)
  have reqs: "\<forall>req \<in> set strange_requests. unknown_request sample_node req \<and>
      mget (sw_responders ordered_start) (req_type_url req) = None"
    using s(6) by (simp add: strange_requests_def unknown_request_def sotw_request_def empty_request_def
        GetResponseType_def type_url_defs)
  have d: "distinct (map req_type_url strange_requests)" "ads_capacity < length strange_requests" "ads_capacity = 10"
    by (simp_all add: strange_requests_def sotw_request_def ads_capacity_def)
  from ordered_channel_overflows [OF E _ _ _ snap reqs d(1,2)] s [of "''a''"] show ?thesis
    by (simp add: d(3) AnyType_def)
qed

section \<open>One response for each type URL\<close>

text \<open>The type URL a response in the channel answers, and the watches of a type that answer there.\<close>

definition answered_type :: "Response option \<Rightarrow> string" where
  "answered_type m = req_type_url (resp_GetRequest (the m))"

definition for_type :: "chan \<Rightarrow> string \<Rightarrow> ResponseWatch \<Rightarrow> bool" where
  "for_type ch t w \<longleftrightarrow> w_Response w = ch \<and> req_type_url (w_Request w) = t"

lemma sent_for_type:
  "sent (for_type ch t) sends = count_list (map answered_type (sotw_messages ch sends)) t"
  by (induction ch sends rule: sotw_messages.induct) (auto simp: for_type_def answered_type_def)

text \<open>What the stream would cancel for a type: \<open>None\<close> when it has no watch for the type.\<close>

definition cancels :: "('c, 'k) streamWrapper \<Rightarrow> string \<Rightarrow> 'k sotw_cancel option option" where
  "cancels s t = map_option swt_cancel (mget (sw_responders s) t)"

text \<open>
  For each type the responses in the channel and the open watches on it are together at most one, and the
  stream has a watch for the type that cancels the one in the cache.
\<close>

definition one_each ::
    "lib \<Rightarrow> chan \<Rightarrow> Response option list \<Rightarrow> snapshotCache \<Rightarrow> (string \<Rightarrow> simple_canceler sotw_cancel option option) \<Rightarrow> bool" where
  "one_each L ch q c R \<longleftrightarrow> simple_inv L c \<and>
     (\<forall>t. count_list (map answered_type q) t + open_on (for_type ch t) c \<le> 1) \<and>
     (\<forall>m \<in> set q. answered_type m \<noteq> AnyType \<and> R (answered_type m) \<noteq> None) \<and>
     (\<forall>n i w. mget (watches_at n c) i = Some w \<longrightarrow> w_Response w = ch \<longrightarrow>
        req_type_url (w_Request w) \<noteq> AnyType \<and> R (req_type_url (w_Request w)) = Some (Some (CacheCancel (CancelSotw n i))))"

lemma one_eachI:
  assumes "simple_inv L c"
    and "\<And>t. count_list (map answered_type q) t + open_on (for_type ch t) c \<le> 1"
    and "\<And>m. m \<in> set q \<Longrightarrow> answered_type m \<noteq> AnyType \<and> R (answered_type m) \<noteq> None"
    and "\<And>n i w. mget (watches_at n c) i = Some w \<Longrightarrow> w_Response w = ch \<Longrightarrow>
        req_type_url (w_Request w) \<noteq> AnyType \<and> R (req_type_url (w_Request w)) = Some (Some (CacheCancel (CancelSotw n i)))"
  shows "one_each L ch q c R"
  unfolding one_each_def using assms by blast

lemma one_eachD:
  assumes "one_each L ch q c R"
  shows "simple_inv L c"
    and "count_list (map answered_type q) t + open_on (for_type ch t) c \<le> 1"
    and "m \<in> set q \<Longrightarrow> answered_type m \<noteq> AnyType \<and> R (answered_type m) \<noteq> None"
    and "mget (watches_at n c) i = Some w \<Longrightarrow> w_Response w = ch \<Longrightarrow>
        req_type_url (w_Request w) \<noteq> AnyType \<and> R (req_type_url (w_Request w)) = Some (Some (CacheCancel (CancelSotw n i)))"
  using assms unfolding one_each_def by blast+

lemma one_each_sub:
  "one_each L ch (p @ q) c R \<Longrightarrow> one_each L ch q c R"
  unfolding one_each_def by (simp add: add.assoc) (meson add_leD2)

lemma one_each_watch:
  assumes "one_each L ch q c R" and "0 < open_on (for_type ch t) c"
  shows "t \<noteq> AnyType \<and> R t \<noteq> None"
proof -
  from assms obtain n i w where "mget (watches_at n c) i = Some w" "for_type ch t w"
    unfolding one_each_def by (metis open_on_pos)
  with assms(1) show ?thesis unfolding one_each_def for_type_def by blast
qed

text \<open>What other goroutines do with the cache.\<close>

lemma one_each_others:
  assumes one: "one_each L ch q c R" and inv: "simple_inv L c'"
    and count: "\<And>t. sent (for_type ch t) sends + open_on (for_type ch t) c' \<le> open_on (for_type ch t) c"
    and old: "\<And>n i w. mget (watches_at n c') i = Some w \<Longrightarrow> w_Response w = ch \<Longrightarrow> mget (watches_at n c) i = Some w"
  shows "one_each L ch (q @ sotw_messages ch sends) c' R"
proof -
  have "answered_type m \<noteq> AnyType \<and> R (answered_type m) \<noteq> None" if m: "m \<in> set (sotw_messages ch sends)" for m
  proof (rule one_each_watch [OF one])
    have "count_list (map answered_type (sotw_messages ch sends)) (answered_type m) \<noteq> 0"
      using m by (simp add: count_list_0_iff)
    with count [of "answered_type m"] show "0 < open_on (for_type ch (answered_type m)) c"
      by (simp add: sent_for_type)
  qed
  moreover have "count_list (map answered_type (q @ sotw_messages ch sends)) t + open_on (for_type ch t) c' \<le> 1" for t
  proof -
    have "count_list (map answered_type q) t + open_on (for_type ch t) c \<le> 1" using one by (simp add: one_each_def)
    with count [of t] show ?thesis by (simp add: sent_for_type)
  qed
  moreover note one_eachD(3) [OF one]
  ultimately show ?thesis
  proof (intro one_eachI inv)
    show "req_type_url (w_Request w) \<noteq> AnyType \<and> R (req_type_url (w_Request w)) = Some (Some (CacheCancel (CancelSotw n i)))"
      if "mget (watches_at n c') i = Some w" "w_Response w = ch" for n i w
      using one_eachD(4) [OF one old] that by blast
  qed (metis Un_iff set_append)+
qed

lemma one_each_step:
  assumes L: "lib_total L" and one: "one_each L ch q c R" and ok: "simple_op_ok L op"
    and step: "simple_step L op c = (c', sends)" and other: "\<forall>w \<in> set (new_watches op). w_Response w \<noteq> ch"
  shows "one_each L ch (q @ sotw_messages ch sends) c' R"
proof -
  from one have inv: "simple_inv L c" by (simp add: one_each_def)
  have "filter (for_type ch t) (new_watches op) = []" for t
    using other by (auto simp: filter_empty_conv for_type_def)
  with sent_step [OF L inv ok step] have
    "sent (for_type ch t) sends + open_on (for_type ch t) c' \<le> open_on (for_type ch t) c" for t
    by (metis add_0_right list.size(3))
  from one_each_others [OF one simple_inv_step [OF L inv ok step] this] step_watches [OF L inv ok step] other
  show ?thesis by blast
qed

lemma one_each_reorder:
  assumes one: "one_each L ch q c R" and re: "simple_reorder c c'"
  shows "one_each L ch q c' R"
proof -
  from one have inv: "simple_inv L c" by (simp add: one_each_def)
  from one_each_others [OF one simple_inv_reorder [OF inv re], of "[]"] show ?thesis
    by (simp add: open_on_reorder [OF inv re] reorder_watches [OF inv re])
qed

text \<open>The stream cancels the watch of a type and opens it again.\<close>

lemma one_each_cancel:
  assumes one: "one_each L ch q c R" and R: "R t = Some k"
    and c': "c' = (case k of Some (CacheCancel k) \<Rightarrow> simple_cancel k c | _ \<Rightarrow> c)"
  shows "one_each L ch [] c' R \<and> open_on (for_type ch t) c' = 0"
proof -
  from one have inv: "simple_inv L c" by (simp add: one_each_def)
  have old: "no_more_watches c c'" by (simp add: c' no_more_cancel split: option.split sotw_cancel.split)
  have inv': "simple_inv L c'" by (simp add: c' simple_inv_cancel [OF inv] inv split: option.split sotw_cancel.split)
  have "open_on P c' \<le> open_on P c" for P by (simp add: c' open_cancel split: option.split sotw_cancel.split)
  from one_each_others [OF one_each_sub [of L ch q "[]", simplified, OF one] inv', of "[]"] this old
  have "one_each L ch [] c' R" by (simp add: no_more_watches_def)
  moreover have "open_on (for_type ch t) c' = 0"
  proof (rule open_on_none [OF inv'], rule notI)
    fix n i w assume w: "mget (watches_at n c') i = Some w" and "for_type ch t w"
    moreover from w old have "mget (watches_at n c) i = Some w" by (simp add: no_more_watches_def)
    ultimately have "k = Some (CacheCancel (CancelSotw n i))"
      using one R unfolding one_each_def for_type_def by fastforce
    with w c' show False by (simp add: watches_at_cancel del: simple_cancel.simps)
  qed
  ultimately show ?thesis ..
qed

lemma one_each_create:
  assumes one: "one_each L ch q c R" and none: "open_on (for_type ch t) c = 0" "t \<notin> answered_type ` set q"
    and req: "req_type_url req = t" "t \<noteq> AnyType" and step: "simple_CreateWatch now req st ch c = (c', sends, k)"
  shows "one_each L ch (q @ sotw_messages ch sends) c' (R(t := Some (map_option CacheCancel k)))"
proof -
  from one have inv: "simple_inv L c" by (simp add: one_each_def)
  let ?R = "R(t := Some (map_option CacheCancel k))"
  have count: "sent (for_type ch t') sends + open_on (for_type ch t') c' \<le> open_on (for_type ch t') c + of_bool (t' = t)" for t'
    using sent_CreateWatch [OF step, of "for_type ch t'"] req(1) by (auto simp: for_type_def)
  have "answered_type m \<noteq> AnyType \<and> ?R (answered_type m) \<noteq> None" if m: "m \<in> set (sotw_messages ch sends)" for m
  proof (cases "answered_type m = t")
    case False
    have "count_list (map answered_type (sotw_messages ch sends)) (answered_type m) \<noteq> 0"
      using m by (simp add: count_list_0_iff)
    with count [of "answered_type m"] False have "0 < open_on (for_type ch (answered_type m)) c"
      by (simp add: sent_for_type)
    from one_each_watch [OF one this] show ?thesis by simp
  qed (use req in simp)
  moreover have "count_list (map answered_type (q @ sotw_messages ch sends)) t' + open_on (for_type ch t') c' \<le> 1" for t'
  proof -
    have "count_list (map answered_type q) t' + open_on (for_type ch t') c \<le> 1" using one by (simp add: one_each_def)
    moreover have "count_list (map answered_type q) t = 0" using none(2) by (auto simp: count_list_0_iff)
    ultimately show ?thesis using count [of t'] none(1) by (cases "t' = t") (simp_all add: sent_for_type)
  qed
  moreover have "req_type_url (w_Request w) \<noteq> AnyType \<and>
      ?R (req_type_url (w_Request w)) = Some (Some (CacheCancel (CancelSotw n i)))"
    if w: "mget (watches_at n c') i = Some w" "w_Response w = ch" for n i w
  proof (cases "mget (watches_at n c) i = Some w")
    case True
    from open_on_none' [OF inv none(1) True] w(2) have "req_type_url (w_Request w) \<noteq> t" by (simp add: for_type_def)
    with True w(2) one show ?thesis unfolding one_each_def by simp
  next
    case False
    with created_watch [OF step w(1)] req show ?thesis by simp
  qed
  moreover have "answered_type m \<noteq> AnyType \<and> ?R (answered_type m) \<noteq> None" if "m \<in> set q" for m
    using one_eachD(3) [OF one that] by simp
  ultimately show ?thesis
    by (intro one_eachI simple_inv_CreateWatch [OF inv step]) (metis Un_iff set_append | blast)+
qed

section \<open>Along a stream\<close>

definition ordered_ok :: "lib \<Rightarrow> (snapshotCache, simple_canceler) streamWrapper \<Rightarrow> bool" where
  "ordered_ok L s \<longleftrightarrow> (\<exists>ch q. ads_holds q s \<and> ads_channel s = Some ch \<and> one_each L ch q (sw_cache s) (cancels s))"

lemma cancels_frame [simp]:
  "cancels (s\<lparr>sw_node := n\<rparr>) = cancels s" "cancels (s\<lparr>sw_trace := es\<rparr>) = cancels s"
  "cancels (s\<lparr>sw_chans := cs\<rparr>) = cancels s" "cancels (s\<lparr>sw_cache := c\<rparr>) = cancels s"
  "cancels (s\<lparr>sw_resent := r\<rparr>) = cancels s" "cancels (sotw_record_known req s) = cancels s"
  "cancels (sotw_watch_close C w s) = cancels s" "cancels (set_ads_queue q s) = cancels s"
  by (auto simp: cancels_def sotw_watch_close_def set_ads_queue_def split: option.split sotw_cancel.split)

lemma ads_channel_close [simp]:
  "ads_channel (sotw_watch_close C w s) = ads_channel s" "sw_chans (sotw_watch_close C w s) = sw_chans s"
  "sw_ordered (sotw_watch_close C w s) = sw_ordered s"
  by (auto simp: ads_channel_def sotw_watch_close_def split: option.split sotw_cancel.split)

lemma ads_holds_set [simp]:
  "ads_holds q s \<Longrightarrow> ads_holds q' (set_ads_queue q' s)" "sw_cache (set_ads_queue q s) = sw_cache s"
  by (auto simp: ads_holds_def set_ads_queue_def ads_channel_def split: option.split)

lemma ads_process_response:
  assumes "sotw_process_response E resp s = (s', None)"
  shows "cancels s' = cancels s \<and> sw_cache s' = sw_cache s \<and> ads_channel s' = ads_channel s \<and>
    (\<forall>q. ads_holds q s' = ads_holds q s)"
  using assms
proof (cases rule: sotw_process_response_ok)
  case (1 r m w es)
  then have "cancels s' = cancels s" by (auto simp: fun_eq_iff cancels_def mget_put)
  moreover have "ads_channel s' = ads_channel s" using 1 by (auto simp: ads_channel_def mget_put)
  ultimately show ?thesis using 1 by (simp add: ads_holds_def)
qed

lemma ads_processAll:
  assumes "processAllExcept E t q s = (s', None)" and "ads_holds q0 s"
  shows "cancels s' = cancels s \<and> sw_cache s' = sw_cache s \<and> ads_channel s' = ads_channel s \<and> ads_holds [] s'"
  using assms
proof (induction E t q s arbitrary: q0 rule: processAllExcept.induct)
  case (3 E t res q s)
  have q: "ads_holds q (set_ads_queue q s)" using 3(4) by (rule ads_holds_set)
  show ?case
  proof (cases "req_type_url (resp_GetRequest res) = t")
    case True
    with 3(2) [OF refl _ _ q] 3(3) show ?thesis by simp
  next
    case False
    with 3(3) obtain s1 where p: "sotw_process_response E (Some res) (set_ads_queue q s) = (s1, None)"
      and r: "processAllExcept E t q s1 = (s', None)" by (auto simp: Let_def split: prod.splits option.splits)
    from 3(1) [OF refl False p [symmetric] refl r, of q] ads_process_response [OF p] q show ?thesis by simp
  qed
qed auto

lemma ads_create:
  assumes C: "ssv_cache (se_server E) = simple_Cache L now" and s: "ads_holds q s" "ads_channel s = Some ch"
    and one: "one_each L ch q (sw_cache s) (cancels s)"
    and none: "open_on (for_type ch (req_type_url req)) (sw_cache s) = 0" "req_type_url req \<notin> answered_type ` set q"
    and req: "req_type_url req \<noteq> AnyType"
  shows "ordered_ok L (sotw_create_watch E req ch s)"
proof -
  obtain c' sends k where step: "simple_CreateWatch now req (sw_streamState s) ch (sw_cache s) = (c', sends, k)"
    by (metis prod_cases3)
  then have s': "sotw_create_watch E req ch s = addWatch (req_type_url req)
      \<lparr>swt_cancel = map_option CacheCancel k, swt_nonce = '''', swt_response = ch\<rparr>
      (s\<lparr>sw_cache := c', sw_chans := deliver sends (sw_chans s)\<rparr>)"
    by (simp add: sotw_create_watch_def C simple_Cache_def)
  have "cancels (sotw_create_watch E req ch s) = (cancels s)(req_type_url req := Some (map_option CacheCancel k))"
    by (auto simp: fun_eq_iff s' cancels_def addWatch_def mget_put)
  moreover have "ads_holds (q @ sotw_messages ch sends) (sotw_create_watch E req ch s)"
    using s by (simp add: ads_holds_def ads_channel_create [OF req]) (simp add: s' addWatch_def mget_deliver)
  moreover have "ads_channel (sotw_create_watch E req ch s) = Some ch" by (simp add: ads_channel_create [OF req] s(2))
  moreover have "sw_cache (sotw_create_watch E req ch s) = c'" by (simp add: s' addWatch_def)
  ultimately show ?thesis
    using one_each_create [OF one none refl req step] unfolding ordered_ok_def by metis
qed

lemma ordered_ok_rewatch:
  assumes C: "ssv_cache (se_server E) = simple_Cache L now" and ok: "ordered_ok L s"
    and req: "req_type_url req \<noteq> AnyType" and step: "sotw_ads_rewatch E req s = (s', None)"
  shows "ordered_ok L s'"
proof -
  from ok obtain ch q where s: "ads_holds q s" "ads_channel s = Some ch"
    and one: "one_each L ch q (sw_cache s) (cancels s)" unfolding ordered_ok_def by blast
  let ?t = "req_type_url req"
  show ?thesis
  proof (cases "mget (sw_responders s) ?t")
    case None
    then have "cancels s ?t = None" by (simp add: cancels_def)
    then have "open_on (for_type ch ?t) (sw_cache s) = 0" "?t \<notin> answered_type ` set q"
      using one_each_watch [OF one, of ?t] one_eachD(3) [OF one] by (blast, metis imageE)
    from ads_create [OF C s one this req] None s(2) step show ?thesis by (simp add: sotw_ads_rewatch_def)
  next
    case (Some w)
    let ?C = "simple_Cache L now" and ?s = "sotw_watch_close (simple_Cache L now) w s"
    show ?thesis
    proof (cases "swt_nonce w = '''' \<or> swt_nonce w = req_response_nonce req")
      case True
      with Some s(2) step C obtain s2 where p: "processAllExcept E ?t (ads_queue ?s) ?s = (s2, None)"
        and s': "s' = sotw_create_watch E req ch s2"
        by (auto simp: sotw_ads_rewatch_def Let_def split: option.splits prod.splits)
      have "ads_holds q ?s" using s(1) by (simp add: ads_holds_def)
      from ads_processAll [OF p this] have s2: "cancels s2 = cancels s" "sw_cache s2 = sw_cache ?s"
        "ads_channel s2 = Some ch" "ads_holds [] s2" by (simp_all add: s(2))
      have "cancels s ?t = Some (swt_cancel w)" using Some by (simp add: cancels_def)
      moreover have "sw_cache ?s = (case swt_cancel w of Some (CacheCancel k) \<Rightarrow> simple_cancel k (sw_cache s) | _ \<Rightarrow> sw_cache s)"
        by (simp add: sotw_watch_close_def simple_Cache_def split: option.split sotw_cancel.split)
      ultimately have "one_each L ch [] (sw_cache ?s) (cancels s)" "open_on (for_type ch ?t) (sw_cache ?s) = 0"
        using one_each_cancel [OF one] by blast+
      with ads_create [OF C s2(4,3) _ _ _ req] s2 show ?thesis by (simp add: s')
    qed (use Some s(2) step ok in \<open>simp add: sotw_ads_rewatch_def\<close>)
  qed
qed


lemma ordered_ok_frame [simp]:
  "ordered_ok L (s\<lparr>sw_node := n\<rparr>) = ordered_ok L s" "ordered_ok L (s\<lparr>sw_trace := es\<rparr>) = ordered_ok L s"
  "ordered_ok L (s\<lparr>sw_resent := r\<rparr>) = ordered_ok L s" "ordered_ok L (sotw_record_known req s) = ordered_ok L s"
  by (simp_all add: ordered_ok_def ads_holds_def)

lemma ordered_ok_request:
  assumes C: "ssv_cache (se_server E) = simple_Cache L now" and ok: "ordered_ok L s" and E: "se_typeURL E = AnyType"
    and step: "sotw_ads_request E r s = (s', None)"
  shows "ordered_ok L s'"
proof -
  from step obtain req where r: "r = Some req" by (cases r) (simp_all add: sotw_ads_request_def)
  obtain req1 s1 where fill: "sotw_fill_node req s = (req1, s1)" by (cases "sotw_fill_node req s")
  then have s1: "ordered_ok L s1" using ok by (auto simp: sotw_fill_node_def split: option.splits)
  from step r fill E have t: "req_type_url req1 \<noteq> AnyType"
    by (auto simp: sotw_ads_request_def AnyType_def split: if_splits)
  with step r fill obtain s2 where "sotw_on_request E req1 s1 = (s2, None)"
    and re: "sotw_ads_rewatch E req1 (sotw_record_known req1 s2) = (s', None)"
    by (auto simp: sotw_ads_request_def AnyType_def split: prod.splits option.splits if_splits)
  with s1 have "ordered_ok L (sotw_record_known req1 s2)" by (auto simp: sotw_on_request_def split: option.splits)
  from ordered_ok_rewatch [OF C this t re] show ?thesis .
qed

lemma ordered_ok_response:
  assumes ok: "ordered_ok L s" and step: "sotw_ads_response E s = (s', None)"
  shows "ordered_ok L s'"
proof (cases "ads_queue s")
  case (Cons m q)
  from ok obtain ch where s: "ads_holds (m # q) s" "ads_channel s = Some ch"
    and one: "one_each L ch (m # q) (sw_cache s) (cancels s)"
    unfolding ordered_ok_def using Cons ads_holds_queue by metis
  from step Cons have "sotw_process_response E m (set_ads_queue q s) = (s', None)" by (simp add: sotw_ads_response_def)
  note p = ads_process_response [OF this]
  have "ads_holds q s'" "ads_channel s' = Some ch" using p ads_holds_set(1) [OF s(1), of q] s(2) by simp_all
  moreover have "one_each L ch q (sw_cache s') (cancels s')" using p one_each_sub [of L ch "[m]" q] one by simp
  ultimately show ?thesis unfolding ordered_ok_def by blast
qed (use ok step in \<open>simp add: sotw_ads_response_def\<close>)

lemma ordered_ok_start:
  assumes inv: "simple_inv L (sw_cache s)" and R: "sw_responders s = []"
    and unused: "\<And>n i w. mget (watches_at n (sw_cache s)) i = Some w \<Longrightarrow> w_Response w \<noteq> sw_nextchan s"
  shows "ordered_ok L (processADS_start s)"
proof -
  have "one_each L (sw_nextchan s) [] (sw_cache s) (cancels (processADS_start s))"
  proof (rule one_eachI [OF inv])
    show "count_list (map answered_type []) t + open_on (for_type (sw_nextchan s) t) (sw_cache s) \<le> 1" for t
      using open_on_none [OF inv, of "for_type (sw_nextchan s) t"] unused by (auto simp: for_type_def)
  qed (use unused in auto)
  then show ?thesis
    by (auto simp: ordered_ok_def processADS_start_def make_chan_def addWatch_def ads_holds_def ads_channel_def)
qed

text \<open>
  The states of an ordered stream: it begins with its first request, goes on with its own steps, and
  other goroutines use the cache, each with channels of its own.
\<close>

inductive ordered_reach ::
    "lib \<Rightarrow> (snapshotCache, simple_canceler) sotw_env \<Rightarrow> (snapshotCache, simple_canceler) streamWrapper \<Rightarrow> bool"
  for L E where
  start: "simple_inv L c \<Longrightarrow> (\<And>n i w. mget (watches_at n c) i = Some w \<Longrightarrow> w_Response w \<noteq> ch)
     \<Longrightarrow> sotw_open E ch c = (s0, None) \<Longrightarrow> sotw_select E (SRequest r) (recompute s0) = (s, None) \<Longrightarrow> sw_ordered s
     \<Longrightarrow> ordered_reach L E s"
| own: "ordered_reach L E s \<Longrightarrow> \<forall>f. i \<noteq> SCache f \<Longrightarrow> sotw_select E i s = (s', None)
     \<Longrightarrow> ordered_reach L E s'"
| others: "ordered_reach L E s \<Longrightarrow> simple_op_ok L op \<Longrightarrow> \<forall>w \<in> set (new_watches op). ads_channel s \<noteq> Some (w_Response w)
     \<Longrightarrow> sotw_select E (SCache (simple_step L op)) s = (s', None) \<Longrightarrow> ordered_reach L E s'"
| reorder: "ordered_reach L E s \<Longrightarrow> simple_reorder (sw_cache s) c' \<Longrightarrow> ordered_reach L E (s\<lparr>sw_cache := c'\<rparr>)"

lemma ordered_reach_ok:
  assumes L: "lib_total L" and C: "ssv_cache (se_server E) = simple_Cache L now" and E: "se_typeURL E = AnyType"
    and "ordered_reach L E s"
  shows "ordered_ok L s"
  using assms(4)
proof induction
  case (start c ch s0 r s)
  then have s0: "\<not> sw_ordered s0" "sw_cache s0 = c" "sw_responders s0 = []" "sw_nextchan s0 = ch"
    by (auto simp: sotw_open_def Let_def new_streamWrapper_def split: option.splits)
  from start(4) s0(1) obtain req where r: "r = Some req" "sotw_xds_request E r (recompute s0) = (s, None)"
    by (cases r) (auto simp: running_def recompute_def sotw_xds_request_def split: prod.splits option.splits)
  obtain req1 s1 where fill: "sotw_fill_node req (recompute s0) = (req1, s1)" by (cases "sotw_fill_node req (recompute s0)")
  then have s1: "sw_cache s1 = c" "sw_responders s1 = []" "sw_nextchan s1 = ch" "\<not> sw_ordered s1"
    using s0 by (auto simp: sotw_fill_node_def recompute_def split: option.splits)
  have "s = processADS_start (s1\<lparr>sw_resent := Some req1\<rparr>)"
  proof (rule ccontr)
    assume "s \<noteq> processADS_start (s1\<lparr>sw_resent := Some req1\<rparr>)"
    with r fill obtain req2 s2 where "sotw_on_request E req2 s1 = (s2, None)" "s = sotw_rewatch E req2 (sotw_record_known req2 s2)"
      by (auto simp: sotw_xds_request_def Let_def split: prod.splits option.splits if_splits)
    with s1(4) have "\<not> sw_ordered s"
      by (auto simp: sotw_on_request_def sotw_rewatch_def make_chan_def recompute_def sotw_create_watch_def addWatch_def
          split: option.splits prod.splits)
    with start(5) show False by simp
  qed
  with ordered_ok_start [where L = L and s = "s1\<lparr>sw_resent := Some req1\<rparr>"] start(1,2) s1 show ?case by simp
next
  case (own s i s')
  have ord: "sw_ordered s" using own.IH by (auto simp: ordered_ok_def ads_holds_def)
  have run: "r = (s', None)" if "running r = (s', None)" for r
    using that by (auto simp: running_def split: prod.splits option.splits)
  show ?case
  proof (cases i)
    case (SRequest r)
    with own(3) ord ordered_ok_request [OF C own.IH E] show ?thesis by (auto dest: run)
  next
    case SResent
    with own(3,4) ordered_ok_request [where L = L and s = "s\<lparr>sw_resent := None\<rparr>", OF C _ E] show ?thesis
      by (auto split: option.splits dest: run)
  next
    case (SResponse n)
    with own(3) ord ordered_ok_response [OF own.IH] show ?thesis by (auto dest: run)
  qed (use own in auto)
next
  case (others s op s')
  obtain c' sends where step: "simple_step L op (sw_cache s) = (c', sends)" by (cases "simple_step L op (sw_cache s)")
  with others(4) have s': "s' = s\<lparr>sw_cache := c', sw_chans := deliver sends (sw_chans s)\<rparr>" by simp
  from others.IH obtain ch q where s: "ads_holds q s" "ads_channel s = Some ch"
    and one: "one_each L ch q (sw_cache s) (cancels s)" unfolding ordered_ok_def by blast
  have "\<forall>w \<in> set (new_watches op). w_Response w \<noteq> ch" using others(3) s(2) by auto
  from one_each_step [OF L one others(2) step this]
  have "one_each L ch (q @ sotw_messages ch sends) c' (cancels s)" .
  moreover have "ads_holds (q @ sotw_messages ch sends) s'" using s by (simp add: s' ads_holds_def mget_deliver)
  ultimately show ?case using s(2) unfolding ordered_ok_def by (auto simp: s')
next
  case (reorder s c')
  then show ?case unfolding ordered_ok_def by (auto simp: ads_holds_def dest: one_each_reorder)
qed

lemma distinct_if_counts: "(\<And>x. count_list xs x \<le> 1) \<Longrightarrow> distinct xs"
proof (induction xs)
  case (Cons x xs)
  have "count_list xs x = 0" using Cons.prems [of x] by simp
  moreover have "count_list xs y \<le> 1" for y using Cons.prems [of y] by (simp split: if_splits)
  ultimately show ?case using Cons.IH by (simp add: count_list_0_iff)
qed simp

text \<open>C29: with the snapshot cache the channel of an ordered stream never holds two responses of one type URL,
  and only of type URLs the stream has a watch for, whatever requests the client sends and whatever other
  goroutines do with the cache: as long as the client has asked for no more type URLs than there are
  response types, it never holds more responses than it has room for.\<close>

theorem ordered_channel_bound:
  assumes "lib_total L" and "ssv_cache (se_server E) = simple_Cache L now" and "se_typeURL E = AnyType"
    and "ordered_reach L E s"
  shows "distinct (map answered_type (ads_queue s)) \<and>
    length (ads_queue s) \<le> card (dom (mget (sw_responders s)) - {AnyType}) \<and>
    (card (dom (mget (sw_responders s)) - {AnyType}) \<le> ads_capacity \<longrightarrow> length (ads_queue s) \<le> ads_capacity)"
proof -
  from ordered_reach_ok [OF assms] obtain ch where one: "one_each L ch (ads_queue s) (sw_cache s) (cancels s)"
    unfolding ordered_ok_def using ads_holds_queue by metis
  have "distinct (map answered_type (ads_queue s))"
    using one_eachD(2) [OF one] by (intro distinct_if_counts) (meson add_leD1)
  moreover have "answered_type ` set (ads_queue s) \<subseteq> dom (mget (sw_responders s)) - {AnyType}"
    using one_eachD(3) [OF one] by (auto simp: cancels_def)
  ultimately have "length (ads_queue s) \<le> card (dom (mget (sw_responders s)) - {AnyType})"
    by (metis card_mono distinct_card finite_Diff finite_dom_map_of length_map set_map)
  with \<open>distinct _\<close> show ?thesis by simp
qed


theorem ordered_channel_bound_witness:
  "\<exists>s. ordered_reach sample_lib ordered_env s \<and> length (ads_queue s) = 1 \<and>
    1 \<le> card (dom (mget (sw_responders s)) - {AnyType})"
proof -
  let ?req = "hd strange_requests"
  let ?s0 = "new_streamWrapper 9 sample_simple :: (snapshotCache, simple_canceler) streamWrapper"
  define s2 where "s2 = processADS_start ((recompute ?s0)\<lparr>sw_node := sample_node\<rparr>)"
  let ?s1 = "s2\<lparr>sw_resent := Some ?req\<rparr>"
  have E: "ssv_cache (se_server ordered_env) = simple_Cache sample_lib 6" "ssv_callbacks (se_server ordered_env) = None"
    "se_typeURL ordered_env = AnyType" "opts_Ordered (ssv_opts (se_server ordered_env))"
    by (simp_all add: ordered_env_def NewSotwServer_def WithOrderedADS_def)
  have req: "unknown_request sample_node ?req" "req_node ?req = Some sample_node" "req_type_url ?req = ''a''"
    by (simp_all add: strange_requests_def unknown_request_def sotw_request_def empty_request_def
        GetResponseType_def type_url_defs)
  have s2: "ads_holds [] s2" "sw_ordered s2" "sw_cache s2 = sample_simple" "mget (sw_responders s2) ''a'' = None" "sw_resent s2 = None"
    by (simp_all add: s2_def ads_holds_def processADS_start_def make_chan_def addWatch_def new_streamWrapper_def
        ads_channel_def recompute_def AnyType_def)
  have snap: "mget (sc_snapshots (sw_cache s2)) (sc_hash (sw_cache s2) (Some sample_node)) = Some (endpoints ''1'' [(''a'', [1])])"
    by (simp add: s2(3) sample_simple_eq IDHash_ID_def sample_node_def)
  have "sotw_select ordered_env (SRequest (Some ?req)) (recompute ?s0) = (?s1, None)"
    by (simp add: running_def sotw_xds_request_def sotw_fill_node_def req E)
      (simp add: s2_def recompute_def new_streamWrapper_def processADS_start_def make_chan_def addWatch_def)
  moreover have "sotw_open ordered_env 9 sample_simple = (?s0, None)" by (simp add: sotw_open_def E(2))
  moreover have "simple_inv sample_lib sample_simple" by (rule simple_reach_inv [OF sample_simple_reach lib_total_sample])
  moreover have "w_Response w \<noteq> 9" if "mget (watches_at n sample_simple) i = Some w" for n i w
    using that by (auto simp: watches_at_def sample_simple_eq split: if_splits)
  ultimately have r1: "ordered_reach sample_lib ordered_env ?s1"
    using s2(2) by (intro ordered_reach.start [where c = sample_simple and ch = 9 and ?s0.0 = ?s0]) auto
  from ordered_unknown_request [OF E(1,2) s2(1) snap req(1)] s2(4) req(3) obtain s m where
    s: "sotw_select ordered_env (SRequest (Some ?req)) s2 = (s, None)" "ads_holds [m] s" by auto
  moreover have "?s1\<lparr>sw_resent := None\<rparr> = s2" using s2(5) by simp
  ultimately have "sotw_select ordered_env SResent ?s1 = (s, None)" using s2(2) by simp
  then have r: "ordered_reach sample_lib ordered_env s" by (intro ordered_reach.own [OF r1, of SResent]) simp_all
  from ordered_channel_bound [OF lib_total_sample E(1,3) r] s(2) r show ?thesis by (auto dest!: ads_holds_queue)
qed

end
