(* ===== verification/Spec2Isabelle.thy ===== *)
theory Spec2Isabelle
  imports LinearProps SnapshotProps SimpleProps DeltaServerProps SnapshotStream SotwProps XdsProps AdsClient MatchTreeProps
    Conversion ValidationProps ChannelCapacity OrderedChannel
begin

text \<open>
  A verification library for go-control-plane, the Go implementation of the Envoy xDS control plane.

  The program.  A control plane keeps configuration resources in a cache (\<open>pkg/cache/v3\<close>) and serves
  them to proxies over streams (\<open>pkg/server\<close>).  A client asks for a type of resource, optionally by
  names, and says which version it holds.  The cache answers at once when it has something newer and
  otherwise keeps the request as a watch, to be answered by a later change.  The state-of-the-world
  protocol sends all requested resources under one version; the delta protocol sends differences, with
  a version per resource, and keeps the state of the stream.

  The theories, in the order of the code.
    \<^item> XdsPrelude, Strconv: Go maps and sets (lists in iteration order; every theorem is for all
      orders), errors as values, error-propagating loops, decimal and hexadecimal formatting, the parser
      of \<open>strconv.ParseUint\<close>.
    \<^item> ResourceTypes, References: \<open>pkg/resource/v3/resource.go\<close>, \<open>pkg/cache/types/types.go\<close>,
      \<open>pkg/cache/v3/resource.go\<close>, \<open>resources.go\<close>: type URLs, names, hashes, resource groups, and the
      names a resource refers to.  The protobuf runtime and SHA-256 are the parameters in the record
      \<open>lib\<close>; \<open>lib_total\<close> says that the resources at hand marshal and that a sum has 32 bytes.
    \<^item> StreamState, Responses: \<open>pkg/server/stream/v3/stream.go\<close>, \<open>pkg/cache/v3/cache.go\<close>.
    \<^item> DeltaCompute: \<open>pkg/cache/v3/delta.go\<close>.  The loops of \<open>createDeltaResponse\<close>, their closed form, and
      what a client makes of the response: whatever it held, it holds the target afterwards.
    \<^item> Watches: the watches of \<open>status.go\<close>, the sends of an operation, and the contract of
      \<open>CreateDeltaWatch\<close> as the locale \<open>delta_source\<close>, under which a delta client stays in sync.  Both
      caches are interpretations of it.
    \<^item> LinearCache, LinearFacts, LinearProps: \<open>pkg/cache/v3/linear.go\<close>.  One definition per method; the
      closed form of a notification; an invariant of the reachable states (\<open>linear_reach\<close>, which allows
      the maps to be visited in a new order at every step); the properties.  A nil map of resources reads
      as an empty one, and inserting into it panics (\<open>lc_nilResources\<close>, \<open>op_panics\<close>); a program that
      goes on makes the calls of \<open>op_ok\<close>.
    \<^item> Snapshot, SnapshotFacts, SnapshotProps: \<open>pkg/cache/v3/snapshot.go\<close>.
    \<^item> Status, SimpleCache, SimpleFacts, SimpleProps: \<open>status.go\<close>, \<open>order.go\<close>, \<open>simple.go\<close>.  The three
      loops that serve the watches of a node share the locale \<open>watch_visit\<close>.
    \<^item> Caches: the interface \<open>Cache\<close> of \<open>cache.go\<close> as a record of operations over a cache state, the linear
      and the snapshot cache as its values, and \<open>mux.go\<close>, which is again an interpretation of
      \<open>delta_source\<close>.
    \<^item> ServerConfig, DeltaServer, DeltaServerFacts, DeltaServerProps, SnapshotStream: \<open>pkg/server/config\<close>,
      \<open>pkg/server/delta/v3\<close>.  The loop over one stream and its watches.  Handling a request is a sequence
      of steps (\<open>delta_phase\<close>): a message of the channel is sent, or none is left and the request is
      accepted (\<open>processAll\<close>), the old watch is cancelled, the new one is created; other users may change
      the cache before each of them.  The locale \<open>delta_cache\<close> extends
      \<open>delta_source\<close> by what a server relies on (a cancel function removes its watch, an open watch has
      missed nothing), and the invariant of a stream is proved in it; the linear cache (in
      DeltaServerFacts) and the snapshot cache (in SnapshotStream) are its instances.
    \<^item> SotwServer, SotwProps: \<open>pkg/server/sotw/v3\<close>, the loop of \<open>xds.go\<close> and the ordered loop of
      \<open>ads.go\<close>.  At the end of a stream the watches are closed one by one, in the order of a Go map (an
      argument, \<open>closing\<close>), with calls of the cache by others in between.
    \<^item> XdsServer, XdsProps: \<open>pkg/server/rest/v3\<close>, \<open>pkg/server/v3/server.go\<close>, \<open>gateway.go\<close>.
    \<^item> AdsClient: \<open>pkg/client/sotw/v3/client.go\<close>.
    \<^item> MatchTree, MatchTreeFacts, MatchTreeProps: \<open>xdsmatcher/pkg/matcher\<close>.  Building trees from their
      configuration, and matching, which calls itself on its own result: a partial function, shown to
      be the big-step relation \<open>yields\<close> and to return because every call is on a smaller matcher.
    \<^item> Conversion: \<open>pkg/conversion\<close>, \<open>pkg/log\<close>, \<open>xdsmatcher/internal/proto\<close>.
    \<^item> Validation and the theories whose names end in Validation: the validation functions
      (\<open>*.pb.validate.go\<close>) of every type of resource the caches serve and of all they are made of.
      CoreValidation, ConfigValidation, TypeValidation, ProtocolValidation, MatcherValidation: the messages
      of \<open>envoy/config/core/v3\<close> and \<open>envoy/type\<close>; EndpointValidation, ClusterValidation, RouteValidation,
      ListenerValidation (with \<open>envoy/config/accesslog/v3\<close>), SecretValidation (with
      \<open>envoy/service/runtime/v3\<close>): the resources; DiscoveryValidation: \<open>envoy/service/discovery/v3\<close>.  A
      record per message with the fields of the Go struct, a datatype per oneof
      (\<open>oneof_<message>_<field>\<close>), and one definition per function \<open>validate\<close> as the list of its
      statements.  A record whose name another theory uses has the suffix \<open>Msg\<close>, one whose name another
      package uses the prefix \<open>Route_\<close> or \<open>Listener_\<close>.  Recursive messages are datatypes and their functions
      terminate on what they hold.  Messages of the protobuf runtime have no validation functions and
      are kept as bytes.
    \<^item> ValidationFacts, ValidationLaws, ClusterLaws, RouteLaws, ListenerLaws, ValidationProps: what holds of
      every function made of the statements, of each of the functions, and the properties.
    \<^item> ChannelCapacity: the caches between goroutines.  An operation takes the mutex, does its sends one
      by one, each waiting for room in its channel, and gives the mutex back; a server's goroutine reads
      only while it is in its \<open>select\<close>.  The step relation \<open>world_step\<close> takes any operations on any state.
    \<^item> WatchCounts: how many watches of the snapshot cache are open and how many answers an operation sends.
    \<^item> OrderedChannel: the channel that all watches of an ordered stream share, whose only reader also
      asks the cache for watches.
    \<^item> Samples: concrete resources, requests and libraries on which hypotheses are shown to hold.

  How state is modelled.  Every exported operation of a cache runs under its mutex, so it is one
  function from state to state; it returns the messages it sends, in order, and the cancel function it
  returns is a value that says what to undo.  Channels are numbers.  Machine integers are 64-bit words;
  the theorems on versions say how many modifications they are good for.  Time is an argument.  A
  server's loop is a function of the list of choices its \<open>select\<close> makes, in which other users of the
  cache are one more choice, so a theorem about all lists is about all interleavings at that grain; a
  list that ends leaves the loop running.  The incremental loop is taken apart where it calls the cache,
  so that others come in between; the state-of-the-world loops cancel a watch and create the next in one
  step, where a call in between can only reach a channel nobody reads any more or, in the ordered loop, a
  watch that is gone.  Callbacks and the gRPC stream decide from the trace of what
  happened on the stream.  A panic is an error value.

  What the lemmas show.  For the caches: who is served by a change and in what order; that a delta
  client which applies what it is sent holds exactly the hashes of the cache, and that an open watch
  misses nothing; that no update falls between two requests; that the contents refine an abstract map;
  consistency and version maps of snapshots; the decisions of \<open>CreateWatch\<close>; heartbeats; cancellation.
  For the servers: that a delta client stays in sync over a whole stream, over either cache, if no change
  answers a watch just before it is cancelled (the runs \<open>delta_reach True\<close>; \<open>delta_gap_loses_sync\<close>
  is what happens otherwise), that every request is served, that a stream leaves nothing behind, what subscriptions become, that nonces count up and a
  stale one is ignored, that the ordered loop keeps the order, what the gateway answers.  For the
  client: the requests of a session.  For the channels: that the snapshot cache never waits for a
  channel of the plain server, and how many responses the channel of an incremental stream (in all
  runs) and of an ordered stream holds.  For the validation functions: that \<open>Validate\<close> and \<open>ValidateAll\<close> agree for every
  type of resource, and which endpoint assignments are accepted.  For the matcher: that it returns, that
  trees are well formed, and that a decision on partial data is final.  The last properties are places
  where the code falls short of what it means to do: two updates of the linear cache that lock it up, a
  client of an ordered stream that fills its channel, a version map that hides a failure, a resource that
  is not sent again, a client left with a resource the cache does not have, panics on an early end of an
  ordered stream and on its shutdown, a rejected response acknowledged, a fallback that is not
  evaluated, a typed nil that \<open>ValidateAll\<close> dereferences.

  Bounds.  No definition takes fuel.  The loop that empties an incremental stream's channel is one step
  for each message; the one that empties an ordered stream's recurs over its contents; the one recursion that the types do not bound is \<open>Match\<close>.  The
  validation functions of a recursive message terminate because they recur on what it holds.

  Not modelled: the generated protobuf code other than the message structs and the validation
  functions above (the remaining \<open>*.pb.validate.go\<close>, of filters, extensions and administration, are of
  the same shape), gRPC status codes, the rendering of log messages, contexts other than as an input
  of a loop, the capacity of channels outside ChannelCapacity and OrderedChannel (elsewhere a send
  never waits), the examples, tests and tools.

  What is left: the validation functions of the HTTP connection manager, of the bootstrap
  configuration and of the version 2 interface, and streams taken apart into goroutines.
\<close>

end
